(* ===== verification/Prelude.thy ===== *)
theory Prelude
  imports Main "HOL-Library.Word" "HOL-Library.Option_ord" "HOL-Library.List_Lexorder"
    "HOL-Library.Char_ord"
begin

text \<open>
  Shared vocabulary of the development: Rust's unsigned integers with their saturating
  operations, the combinators of \<open>Option\<close> the sources use, the two clocks and durations of
  \<open>std::time\<close>, and the generic machinery for event-driven components (runs of a step function
  and the rule that an invariant kept by every step holds after every run).

  Conventions used in every theory:
  \<^item> a Rust enum variant \<open>E::V\<close> is the constructor \<open>E_V\<close>, a struct field \<open>s.f\<close> is the
    record selector \<open>s_f\<close>, and a method \<open>T::m\<close> is the constant \<open>t_m\<close>;
  \<^item> a method taking \<open>&mut self\<close> returns the new value of \<open>self\<close> first;
  \<^item> a newtype over an integer or a string is a type synonym of what it wraps.
\<close>

named_theorems unat_sat \<open>saturating word arithmetic read as natural numbers\<close>
named_theorems time_defs \<open>definitions of clock and duration arithmetic\<close>

subsection \<open>Unsigned integers\<close>

type_synonym u8 = "8 word"
type_synonym u16 = "16 word"
type_synonym u32 = "32 word"
type_synonym u64 = "64 word"

definition sat_add :: "'a::len word \<Rightarrow> 'a word \<Rightarrow> 'a word" where
  "sat_add a b = (if unat a + unat b < 2 ^ LENGTH('a) then a + b else - 1)"

definition sat_sub :: "'a::len word \<Rightarrow> 'a word \<Rightarrow> 'a word" where
  "sat_sub a b = (if b \<le> a then a - b else 0)"

definition sat_mul :: "'a::len word \<Rightarrow> 'a word \<Rightarrow> 'a word" where
  "sat_mul a b = (if unat a * unat b < 2 ^ LENGTH('a) then a * b else - 1)"

text \<open>\<open>try_from(n).unwrap_or(MAX)\<close>: a count of any size brought into a word.\<close>

definition sat_of_nat :: "nat \<Rightarrow> 'a::len word" where
  "sat_of_nat n = (if n < 2 ^ LENGTH('a) then of_nat n else - 1)"

subsection \<open>Options\<close>

fun is_some_and :: "('a \<Rightarrow> bool) \<Rightarrow> 'a option \<Rightarrow> bool" where
  "is_some_and p None = False"
| "is_some_and p (Some x) = p x"

fun is_none_or :: "('a \<Rightarrow> bool) \<Rightarrow> 'a option \<Rightarrow> bool" where
  "is_none_or p None = True"
| "is_none_or p (Some x) = p x"

fun opt_filter :: "('a \<Rightarrow> bool) \<Rightarrow> 'a option \<Rightarrow> 'a option" where
  "opt_filter p None = None"
| "opt_filter p (Some x) = (if p x then Some x else None)"

fun unwrap_or :: "'a \<Rightarrow> 'a option \<Rightarrow> 'a" where
  "unwrap_or d None = d"
| "unwrap_or d (Some x) = x"

fun opt_or :: "'a option \<Rightarrow> 'a option \<Rightarrow> 'a option" where
  "opt_or None y = y"
| "opt_or (Some x) y = Some x"

fun opt_list :: "'a option \<Rightarrow> 'a list" where
  "opt_list None = []"
| "opt_list (Some x) = [x]"

fun opt_min :: "'a::linorder option \<Rightarrow> 'a option \<Rightarrow> 'a option" where
  "opt_min None y = y"
| "opt_min (Some x) None = Some x"
| "opt_min (Some x) (Some y) = Some (min x y)"

text \<open>\<open>iter.flatten().min()\<close> over an array of options.\<close>

definition min_of :: "'a::linorder option list \<Rightarrow> 'a option" where
  "min_of xs = foldr opt_min xs None"

text \<open>\<open>iter.find_map(f)\<close>: the first result a list yields.\<close>

fun find_map :: "('a \<Rightarrow> 'b option) \<Rightarrow> 'a list \<Rightarrow> 'b option" where
  "find_map f [] = None"
| "find_map f (x # xs) = (case f x of None \<Rightarrow> find_map f xs | Some y \<Rightarrow> Some y)"

subsection \<open>Time\<close>

text \<open>
  \<open>Duration\<close> is a number of nanoseconds. \<open>Instant\<close> and \<open>SystemTime\<close> are nanoseconds on
  their own clock; on Linux both hold signed 64-bit seconds, so \<open>checked_add\<close> fails past
  \<open>time_max\<close>. \<open>Instant::duration_since\<close> saturates at zero; \<open>SystemTime::duration_since\<close>
  reports an earlier time as an error, here \<open>None\<close>.
\<close>

type_synonym duration = nat
type_synonym instant = int
type_synonym system_time = int

definition secs :: "nat \<Rightarrow> duration" where
  "secs n = n * 1000000000"

definition mins :: "nat \<Rightarrow> duration" where
  "mins n = secs (n * 60)"

definition hours :: "nat \<Rightarrow> duration" where
  "hours n = secs (n * 3600)"

definition as_secs :: "duration \<Rightarrow> nat" where
  "as_secs d = d div 1000000000"

definition duration_max :: duration where
  "duration_max = 18446744073709551615999999999"

definition time_max :: int where
  "time_max = 9223372036854775807999999999"

definition checked_add :: "int \<Rightarrow> duration \<Rightarrow> int option" where
  "checked_add t d = (if t + int d \<le> time_max then Some (t + int d) else None)"

definition duration_since :: "instant \<Rightarrow> instant \<Rightarrow> duration" where
  "duration_since later earlier = nat (later - earlier)"

definition time_since :: "system_time \<Rightarrow> system_time \<Rightarrow> duration option" where
  "time_since later earlier =
     (if earlier \<le> later then Some (nat (later - earlier)) else None)"

text \<open>\<open>Duration * u32\<close> panics on overflow; \<open>saturating_mul\<close> does not.\<close>

definition duration_mul :: "duration \<Rightarrow> nat \<Rightarrow> duration option" where
  "duration_mul d n = (if d * n \<le> duration_max then Some (d * n) else None)"

definition duration_sat_mul :: "duration \<Rightarrow> nat \<Rightarrow> duration" where
  "duration_sat_mul d n = min (d * n) duration_max"

declare secs_def [time_defs] mins_def [time_defs] hours_def [time_defs] as_secs_def [time_defs]
  duration_max_def [time_defs] time_max_def [time_defs] checked_add_def [time_defs]
  duration_since_def [time_defs] time_since_def [time_defs] duration_mul_def [time_defs]
  duration_sat_mul_def [time_defs]

subsection \<open>Runs of an event-driven component\<close>

text \<open>
  A component is a step function from a state and an input to a new state and outputs. A run
  feeds a list of inputs and collects, input by input, what came out.
\<close>

fun run :: "('s \<Rightarrow> 'i \<Rightarrow> 's \<times> 'o) \<Rightarrow> 's \<Rightarrow> 'i list \<Rightarrow> 's \<times> 'o list" where
  "run step s [] = (s, [])"
| "run step s (i # is) =
     (let (s1, out) = step s i; (s2, outs) = run step s1 is in (s2, out # outs))"

subsection \<open>Lemmas on words\<close>

lemma unat_max_word: "unat (- 1 :: 'a::len word) = 2 ^ LENGTH('a) - 1"
  by (simp add: unsigned_minus_1_eq_mask mask_eq_exp_minus_1)

lemma le_max_iff: "x \<le> 2 ^ n - Suc 0 \<longleftrightarrow> x < 2 ^ n"
  for x :: nat
  using zero_less_power [of "2::nat" n] by linarith

lemma unat_sat_add [unat_sat]:
  "unat (sat_add a b) = min (unat a + unat b) (2 ^ LENGTH('a) - 1)"
  for a b :: "'a::len word"
  by (auto simp: sat_add_def unat_word_ariths unat_max_word min_def)

lemma unat_sat_sub [unat_sat]: "unat (sat_sub a b) = unat a - unat b"
  by (auto simp: sat_sub_def unat_sub_if' word_le_nat_alt)

lemma unat_sat_mul [unat_sat]:
  "unat (sat_mul a b) = min (unat a * unat b) (2 ^ LENGTH('a) - 1)"
  for a b :: "'a::len word"
  by (simp add: sat_mul_def unat_word_ariths unat_max_word min_def le_max_iff)

lemma unat_sat_of_nat [unat_sat]:
  "unat (sat_of_nat n :: 'a::len word) = min n (2 ^ LENGTH('a) - 1)"
  by (auto simp: sat_of_nat_def unat_of_nat unat_max_word min_def)

lemma sat_add_ge: "a \<le> sat_add a b"
  for a b :: "'a::len word"
  by (simp add: word_le_nat_alt unat_sat_add le_max_iff)

lemma sat_sub_le: "sat_sub a b \<le> a"
  by (simp add: word_le_nat_alt unat_sat_sub)

subsection \<open>Lemmas on options\<close>

lemma is_some_and_iff: "is_some_and p x \<longleftrightarrow> (\<exists>v. x = Some v \<and> p v)"
  by (cases x) auto

lemma is_none_or_iff: "is_none_or p x \<longleftrightarrow> (\<forall>v. x = Some v \<longrightarrow> p v)"
  by (cases x) auto

lemma opt_filter_Some: "opt_filter p x = Some v \<longleftrightarrow> x = Some v \<and> p v"
  by (cases x) auto

lemma opt_filter_None: "opt_filter p x = None \<longleftrightarrow> (\<forall>v. x = Some v \<longrightarrow> \<not> p v)"
  by (cases x) auto

lemma opt_filter_False [simp]: "opt_filter (\<lambda>_. False) x = None"
  by (cases x) simp_all

lemma set_opt_list [simp]: "set (opt_list x) = set_option x"
  by (cases x) auto

lemma find_map_Some: "find_map f xs = Some y \<Longrightarrow> \<exists>x \<in> set xs. f x = Some y"
  by (induction xs) (auto split: option.splits)

lemma find_map_None: "find_map f xs = None \<longleftrightarrow> (\<forall>x \<in> set xs. f x = None)"
  by (induction xs) (auto split: option.splits)

lemma find_SomeD: "List.find p xs = Some x \<Longrightarrow> x \<in> set xs \<and> p x"
  by (induction xs) (auto split: if_splits)

lemma set_map_filter_iff: "y \<in> set (List.map_filter f xs) \<longleftrightarrow> (\<exists>x \<in> set xs. f x = Some y)"
  by (force simp: List.map_filter_def)

lemma opt_min_Some: "opt_min x y = Some m \<Longrightarrow> x = Some m \<or> y = Some m"
  by (cases x; cases y) (auto simp: min_def)

lemma opt_min_le: "opt_min x y = m \<Longrightarrow> v \<in> set_option x \<union> set_option y \<Longrightarrow> \<exists>u. m = Some u \<and> u \<le> v"
  by (cases x; cases y) (auto simp: min_def)

lemma min_of_Cons [simp]: "min_of (x # xs) = opt_min x (min_of xs)" and
  min_of_Nil [simp]: "min_of [] = None"
  by (simp_all add: min_of_def)

lemma min_of_member: "min_of xs = Some m \<Longrightarrow> Some m \<in> set xs"
  by (induction xs) (auto dest: opt_min_Some)

lemma min_of_le: "Some v \<in> set xs \<Longrightarrow> \<exists>m. min_of xs = Some m \<and> m \<le> v"
proof (induction xs)
  case (Cons x xs)
  then consider "x = Some v" | "\<exists>m. min_of xs = Some m \<and> m \<le> v" by auto
  then show ?case
  proof cases
    case 1
    then show ?thesis by (cases "min_of xs") auto
  next
    case 2
    then show ?thesis by (cases x) (auto intro: min.coboundedI2)
  qed
qed simp

subsection \<open>Lemmas on time\<close>

lemma checked_add_Some: "checked_add t d = Some u \<longleftrightarrow> u = t + int d \<and> t + int d \<le> time_max"
  by (auto simp: checked_add_def)

lemma unwrap_checked_add: "unwrap_or t (checked_add t d) \<ge> t"
  by (simp add: checked_add_def)

lemma duration_since_ge: "int d \<le> later - earlier \<Longrightarrow> d \<le> duration_since later earlier"
  by (simp add: duration_since_def)

lemma duration_since_leD: "d \<le> duration_since later earlier \<Longrightarrow> 0 < d \<Longrightarrow> earlier + int d \<le> later"
  by (simp add: duration_since_def)

subsection \<open>Invariants of runs\<close>

text \<open>
  The contract of a component with an invariant: its initial state satisfies it and every
  admissible input keeps it. Whatever the component then does, the invariant holds.
\<close>

locale invariant_machine =
  fixes step :: "'s \<Rightarrow> 'i \<Rightarrow> 's \<times> 'o"
    and start :: 's
    and admissible :: "'i \<Rightarrow> bool"
    and inv :: "'s \<Rightarrow> bool"
  assumes inv_start: "inv start"
    and inv_step: "inv s \<Longrightarrow> admissible i \<Longrightarrow> inv (fst (step s i))"
begin

lemma inv_run_from: "inv s \<Longrightarrow> list_all admissible is \<Longrightarrow> inv (fst (run step s is))"
proof (induction "is" arbitrary: s)
  case (Cons i "is")
  then have "inv (fst (step s i))" by (simp add: inv_step)
  with Cons show ?case by (fastforce simp: split_beta Let_def)
qed simp

lemma inv_run: "list_all admissible is \<Longrightarrow> inv (fst (run step start is))"
  by (rule inv_run_from [OF inv_start])

end

lemma run_append:
  "run step s (xs @ ys) =
     (let (s1, o1) = run step s xs; (s2, o2) = run step s1 ys in (s2, o1 @ o2))"
  by (induction xs arbitrary: s) (auto simp: split_beta Let_def)

lemma length_run: "length (snd (run step s is)) = length is"
  by (induction "is" arbitrary: s) (auto simp: split_beta Let_def)

subsection \<open>One request in flight\<close>

text \<open>
  The contract of a component that talks to a service with one request at a time. Over an
  invariant, sending makes it busy and only an answer frees it, so that every step balances
  what it sends against the answers it takes.
\<close>

definition sent :: "('o \<Rightarrow> bool) \<Rightarrow> 'o list \<Rightarrow> nat" where
  "sent sends out = length (filter sends out)"

locale single_flight = invariant_machine step start admissible inv
  for step :: "'s \<Rightarrow> 'i \<Rightarrow> 's \<times> 'o list" and start :: 's
    and admissible :: "'i \<Rightarrow> bool" and inv :: "'s \<Rightarrow> bool" +
  fixes busy :: "'s \<Rightarrow> bool"
    and sends :: "'o \<Rightarrow> bool"
    and answers :: "'i \<Rightarrow> bool"
  assumes flight: "inv s \<Longrightarrow> admissible i \<Longrightarrow>
    sent sends (snd (step s i)) + of_bool (busy s)
      \<le> of_bool (busy (fst (step s i))) + of_bool (answers i)"
begin

lemma flight_run_from:
  "inv s \<Longrightarrow> list_all admissible is \<Longrightarrow>
     sent sends (concat (snd (run step s is))) + of_bool (busy s)
       \<le> of_bool (busy (fst (run step s is))) + length (filter answers is)"
proof (induction "is" arbitrary: s)
  case (Cons i "is")
  obtain s1 out where s1: "step s i = (s1, out)" by (metis surj_pair)
  from Cons.prems have "inv s1" using inv_step [of s i] s1 by simp
  with Cons.IH [of s1] Cons.prems
  have "sent sends (concat (snd (run step s1 is))) + of_bool (busy s1)
      \<le> of_bool (busy (fst (run step s1 is))) + length (filter answers is)" by simp
  with flight [of s i] Cons.prems s1 show ?case
    by (auto simp: sent_def split_beta Let_def)
qed (simp add: sent_def)

text \<open>Requests never outnumber the answers received by more than one.\<close>

lemma sent_at_most:
  "list_all admissible is \<Longrightarrow>
     sent sends (concat (snd (run step start is))) \<le> 1 + length (filter answers is)"
  using flight_run_from [OF inv_start, of "is"] by (auto simp: of_bool_def split: if_splits)

text \<open>While a request is in flight and nothing has answered, no further one is sent.\<close>

lemma silent_while_busy:
  assumes "inv s" "list_all admissible is" "busy s" "list_all (\<lambda>i. \<not> answers i) is"
  shows "sent sends (concat (snd (run step s is))) = 0"
proof -
  have "filter answers is = []"
    using assms(4) by (simp add: filter_empty_conv list_all_iff)
  with flight_run_from [OF assms(1,2)] assms(3) show ?thesis
    by (simp add: of_bool_def split: if_splits)
qed

end

lemma sent_simps [simp]:
  "sent p [] = 0" "sent p (x # xs) = of_bool (p x) + sent p xs" "sent p (xs @ ys) = sent p xs + sent p ys"
  by (simp_all add: sent_def)

subsection \<open>Events kept apart\<close>

text \<open>
  The contract of a component that may do something only once in a while and remembers when it
  last did (its mark). \<open>marks\<close> lists the mark after every step of a run that did it.
\<close>

fun marks :: "('s \<Rightarrow> 'i \<Rightarrow> 's \<times> 'o list) \<Rightarrow> ('o \<Rightarrow> bool) \<Rightarrow> ('s \<Rightarrow> int option) \<Rightarrow> 's \<Rightarrow> 'i list \<Rightarrow> int list" where
  "marks step fires mark s [] = []"
| "marks step fires mark s (i # is) =
     (if list_ex fires (snd (step s i)) then opt_list (mark (fst (step s i))) else []) @
     marks step fires mark (fst (step s i)) is"

locale spaced_events = invariant_machine step start admissible inv
  for step :: "'s \<Rightarrow> 'i \<Rightarrow> 's \<times> 'o list" and start :: 's
    and admissible :: "'i \<Rightarrow> bool" and inv :: "'s \<Rightarrow> bool" +
  fixes fires :: "'o \<Rightarrow> bool"
    and mark :: "'s \<Rightarrow> int option"
    and spacing :: nat
  assumes fire: "inv s \<Longrightarrow> admissible i \<Longrightarrow> list_ex fires (snd (step s i)) \<Longrightarrow>
      \<exists>t. mark (fst (step s i)) = Some t \<and> (\<forall>u. mark s = Some u \<longrightarrow> u + int spacing \<le> t)"
    and hold: "inv s \<Longrightarrow> admissible i \<Longrightarrow> \<not> list_ex fires (snd (step s i)) \<Longrightarrow> mark s = Some u \<Longrightarrow>
      \<exists>v. mark (fst (step s i)) = Some v \<and> u \<le> v"
begin

lemma spaced_run_from:
  "inv s \<Longrightarrow> list_all admissible is \<Longrightarrow>
     sorted_wrt (\<lambda>a b. a + int spacing \<le> b) (marks step fires mark s is) \<and>
     (\<forall>u. mark s = Some u \<longrightarrow> (\<forall>t \<in> set (marks step fires mark s is). u + int spacing \<le> t))"
proof (induction "is" arbitrary: s)
  case (Cons i "is")
  let ?s1 = "fst (step s i)"
  have adm: "admissible i" "list_all admissible is" using Cons.prems by simp_all
  have IH: "sorted_wrt (\<lambda>a b. a + int spacing \<le> b) (marks step fires mark ?s1 is) \<and>
     (\<forall>u. mark ?s1 = Some u \<longrightarrow> (\<forall>t \<in> set (marks step fires mark ?s1 is). u + int spacing \<le> t))"
    using Cons.IH [OF inv_step [OF Cons.prems(1) adm(1)] adm(2)] .
  show ?case
  proof (cases "list_ex fires (snd (step s i))")
    case True
    from fire [OF Cons.prems(1) adm(1) True] obtain t where "mark ?s1 = Some t"
      and "\<forall>u. mark s = Some u \<longrightarrow> u + int spacing \<le> t" by blast
    with IH True show ?thesis by (fastforce simp: sorted_wrt_append)
  next
    case False
    with IH hold [OF Cons.prems(1) adm(1) False] show ?thesis by fastforce
  qed
qed simp

lemma spaced_run:
  "list_all admissible is \<Longrightarrow>
     sorted_wrt (\<lambda>a b. a + int spacing \<le> b) (marks step fires mark start is)"
  using spaced_run_from [OF inv_start] by blast

end

end
