(* ===== verification/Ordered_Map.thy ===== *)
theory Ordered_Map
  imports Prelude
begin

text \<open>
  Rust's \<open>BTreeMap\<close>, as the sources use it: lookups, insertion, removal, in-place change of an
  entry, and iteration in key order. The model is an association list kept strictly sorted by
  key. What the components rely on is stated once, as the locale \<open>ordered_map\<close>, and discharged
  for the sorted lists by its interpretation \<open>bt\<close>.
\<close>

type_synonym ('k, 'v) btree = "('k \<times> 'v) list"

definition bt_get :: "('k, 'v) btree \<Rightarrow> 'k \<Rightarrow> 'v option" where
  "bt_get m k = map_of m k"

fun bt_insert :: "'k::linorder \<Rightarrow> 'v \<Rightarrow> ('k, 'v) btree \<Rightarrow> ('k, 'v) btree" where
  "bt_insert k v [] = [(k, v)]"
| "bt_insert k v ((j, w) # m) =
     (if k < j then (k, v) # (j, w) # m
      else if k = j then (k, v) # m
      else (j, w) # bt_insert k v m)"

definition bt_remove :: "'k \<Rightarrow> ('k, 'v) btree \<Rightarrow> ('k, 'v) btree" where
  "bt_remove k m = filter (\<lambda>p. fst p \<noteq> k) m"

text \<open>\<open>entry(k).and_modify(f)\<close>.\<close>

definition bt_modify :: "'k::linorder \<Rightarrow> ('v \<Rightarrow> 'v) \<Rightarrow> ('k, 'v) btree \<Rightarrow> ('k, 'v) btree" where
  "bt_modify k f m = (case bt_get m k of None \<Rightarrow> m | Some v \<Rightarrow> bt_insert k (f v) m)"

text \<open>\<open>iter_mut()\<close> with a change to every value.\<close>

definition bt_map :: "('k \<Rightarrow> 'v \<Rightarrow> 'w) \<Rightarrow> ('k, 'v) btree \<Rightarrow> ('k, 'w) btree" where
  "bt_map f m = map (\<lambda>(k, v). (k, f k v)) m"

text \<open>\<open>collect()\<close>: a later pair replaces an earlier one with the same key.\<close>

definition bt_collect :: "('k::linorder \<times> 'v) list \<Rightarrow> ('k, 'v) btree" where
  "bt_collect ps = foldl (\<lambda>m (k, v). bt_insert k v m) [] ps"

definition bt_values :: "('k, 'v) btree \<Rightarrow> 'v list" where
  "bt_values m = map snd m"

definition bt_wf :: "('k::linorder, 'v) btree \<Rightarrow> bool" where
  "bt_wf m \<longleftrightarrow> sorted_wrt (<) (map fst m)"

subsection \<open>The interface\<close>

locale ordered_map =
  fixes emp :: 'm
    and get :: "'m \<Rightarrow> 'k::linorder \<Rightarrow> 'v option"
    and ins :: "'k \<Rightarrow> 'v \<Rightarrow> 'm \<Rightarrow> 'm"
    and del :: "'k \<Rightarrow> 'm \<Rightarrow> 'm"
    and items :: "'m \<Rightarrow> ('k \<times> 'v) list"
    and wf :: "'m \<Rightarrow> bool"
  assumes get_emp: "get emp k = None"
    and get_ins: "get (ins k v m) j = (if j = k then Some v else get m j)"
    and get_del: "get (del k m) j = (if j = k then None else get m j)"
    and items_get: "wf m \<Longrightarrow> (k, v) \<in> set (items m) \<longleftrightarrow> get m k = Some v"
    and items_sorted: "wf m \<Longrightarrow> sorted_wrt (<) (map fst (items m))"
    and wf_emp: "wf emp"
    and wf_ins: "wf m \<Longrightarrow> wf (ins k v m)"
    and wf_del: "wf m \<Longrightarrow> wf (del k m)"
begin

lemma items_distinct: "wf m \<Longrightarrow> distinct (map fst (items m))"
  using items_sorted strict_sorted_iff by blast

lemma items_emp: "items emp = []"
proof -
  have "p \<notin> set (items emp)" for p
    using items_get [OF wf_emp, of "fst p" "snd p"] by (simp add: get_emp)
  then show ?thesis by (cases "items emp") auto
qed

lemma items_ins_iff:
  "wf m \<Longrightarrow> (j, w) \<in> set (items (ins k v m)) \<longleftrightarrow>
     (if j = k then w = v else (j, w) \<in> set (items m))"
  by (auto simp: items_get wf_ins get_ins)

lemma ball_items_ins:
  "wf m \<Longrightarrow> \<forall>(j, w) \<in> set (items m). P j w \<Longrightarrow> P k v \<Longrightarrow>
     \<forall>(j, w) \<in> set (items (ins k v m)). P j w"
  by (auto simp: items_ins_iff split: if_splits)

lemma ball_get_ins:
  "\<forall>j w. get m j = Some w \<longrightarrow> P j w \<Longrightarrow> P k v \<Longrightarrow>
     \<forall>j w. get (ins k v m) j = Some w \<longrightarrow> P j w"
  by (simp add: get_ins)

lemma items_eqI: "wf m \<Longrightarrow> wf n \<Longrightarrow> (\<And>k. get m k = get n k) \<Longrightarrow> items m = items n"
proof -
  assume wf: "wf m" "wf n" and eq: "\<And>k. get m k = get n k"
  have "set (items m) = set (items n)"
    using wf eq by (auto simp: items_get)
  then show ?thesis
    using wf by (intro map_sorted_distinct_set_unique [of fst])
      (auto simp: inj_on_def items_get items_distinct strict_sorted_imp_sorted items_sorted)
qed

end

subsection \<open>Sorted association lists provide it\<close>

lemma map_of_bt_insert: "map_of (bt_insert k v m) = (map_of m)(k \<mapsto> v)"
  by (induction k v m rule: bt_insert.induct) auto

lemma fst_bt_insert: "set (map fst (bt_insert k v m)) = insert k (set (map fst m))"
  by (induction k v m rule: bt_insert.induct) auto

lemma bt_wf_insert: "bt_wf m \<Longrightarrow> bt_wf (bt_insert k v m)"
proof (induction k v m rule: bt_insert.induct)
  case (2 k v j w m)
  then show ?case using fst_bt_insert [of k v m] by (auto simp: bt_wf_def)
qed (simp add: bt_wf_def)

lemma bt_wf_distinct: "bt_wf m \<Longrightarrow> distinct (map fst m)"
  by (simp add: bt_wf_def strict_sorted_iff)

interpretation bt: ordered_map "[]" bt_get bt_insert bt_remove "\<lambda>m. m" bt_wf
proof unfold_locales
  fix m :: "('k::linorder, 'v) btree" and k j :: 'k and v :: 'v
  show "bt_get [] k = (None :: 'v option)" by (simp add: bt_get_def)
  show "bt_get (bt_insert k v m) j = (if j = k then Some v else bt_get m j)"
    by (simp add: bt_get_def map_of_bt_insert)
  show "bt_get (bt_remove k m) j = (if j = k then None else bt_get m j)"
    by (induction m) (auto simp: bt_get_def bt_remove_def)
  show "bt_wf m \<Longrightarrow> (k, v) \<in> set m \<longleftrightarrow> bt_get m k = Some v"
    by (simp add: bt_get_def bt_wf_distinct)
  show "bt_wf m \<Longrightarrow> sorted_wrt (<) (map fst m)" by (simp add: bt_wf_def)
  show "bt_wf ([] :: ('k, 'v) btree)" by (simp add: bt_wf_def)
  show "bt_wf m \<Longrightarrow> bt_wf (bt_insert k v m)" by (rule bt_wf_insert)
  show "bt_wf m \<Longrightarrow> bt_wf (bt_remove k m)"
    by (simp add: bt_wf_def bt_remove_def sorted_wrt_map sorted_wrt_filter)
qed

lemmas bt_get_simps [simp] = bt.get_emp bt.get_ins bt.get_del
lemmas bt_wf_intros [simp, intro] = bt.wf_emp bt.wf_ins bt.wf_del

lemma bt_get_modify [simp]:
  "bt_get (bt_modify k f m) j = (if j = k then map_option f (bt_get m k) else bt_get m j)"
  by (simp add: bt_modify_def split: option.split)

lemma bt_wf_modify [simp, intro]: "bt_wf m \<Longrightarrow> bt_wf (bt_modify k f m)"
  by (simp add: bt_modify_def split: option.split)

lemma bt_get_map [simp]: "bt_get (bt_map f m) k = map_option (f k) (bt_get m k)"
  by (induction m) (auto simp: bt_get_def bt_map_def)

lemma bt_wf_map [simp]: "bt_wf (bt_map f m) = bt_wf m"
  by (simp add: bt_wf_def bt_map_def case_prod_unfold comp_def)

lemma bt_collect_snoc:
  "bt_collect (ps @ [(k, v)]) = bt_insert k v (bt_collect ps)"
  by (simp add: bt_collect_def)

lemma bt_collect_Nil [simp]: "bt_collect [] = []"
  by (simp add: bt_collect_def)

lemma bt_wf_collect [simp, intro]: "bt_wf (bt_collect ps)"
  by (induction ps rule: rev_induct) (auto simp: bt_collect_snoc)

lemma bt_get_collect: "bt_get (bt_collect ps) k = map_of (rev ps) k"
  by (induction ps rule: rev_induct) (auto simp: bt_collect_snoc)

lemma set_bt_values: "bt_wf m \<Longrightarrow> v \<in> set (bt_values m) \<longleftrightarrow> (\<exists>k. bt_get m k = Some v)"
  by (force simp: bt_values_def bt.items_get [symmetric])

end
