(* ===== verification/Settings_Values.thy ===== *)
theory Settings_Values
  imports Prelude
begin

text \<open>
  The values the dashboard edits (\<open>core/settings.rs\<close>): the history limit, the points reserve,
  the torrent limits, and the two secrets. Each validated newtype is its representation with
  its \<open>try_new\<close> function, which is the only way the shell makes one, and the predicate it
  establishes.
\<close>

type_synonym entry_count = u64
type_synonym points = u64
type_synonym torrent_count = u32
type_synonym history_limit = u32
type_synonym points_reserve = u64
type_synonym downloading_limit = u32
type_synonym active_limit = u32
type_synonym api_cookie = string
type_synonym ntfy_topic = string

definition entry_count_plus :: "entry_count \<Rightarrow> u64 \<Rightarrow> entry_count" where
  "entry_count_plus c n = sat_add c n"

definition entry_count_minus :: "entry_count \<Rightarrow> entry_count \<Rightarrow> entry_count" where
  "entry_count_minus c d = sat_sub c d"

definition history_limit_ok :: "history_limit \<Rightarrow> bool" where
  "history_limit_ok l \<longleftrightarrow> 100 \<le> l \<and> l \<le> 1000000"

definition history_limit_try_new :: "u32 \<Rightarrow> history_limit option" where
  "history_limit_try_new n = (if 100 \<le> n \<and> n \<le> 1000000 then Some n else None)"

definition history_limit_default :: history_limit where
  "history_limit_default = 10000"

definition trim_target :: "history_limit \<Rightarrow> entry_count" where
  "trim_target l = of_nat (unat l * 9 div 10)"

definition is_exceeded_by :: "history_limit \<Rightarrow> entry_count \<Rightarrow> bool" where
  "is_exceeded_by l retained \<longleftrightarrow> unat l < unat retained"

definition points_reserve_ok :: "points_reserve \<Rightarrow> bool" where
  "points_reserve_ok r \<longleftrightarrow> r \<le> 100000000"

definition points_reserve_try_new :: "u64 \<Rightarrow> points_reserve option" where
  "points_reserve_try_new n = (if n \<le> 100000000 then Some n else None)"

definition points_reserve_default :: points_reserve where
  "points_reserve_default = 20000"

definition downloading_limit_ok :: "downloading_limit \<Rightarrow> bool" where
  "downloading_limit_ok l \<longleftrightarrow> 1 \<le> l \<and> l \<le> 100"

definition downloading_limit_try_new :: "u32 \<Rightarrow> downloading_limit option" where
  "downloading_limit_try_new n = (if 1 \<le> n \<and> n \<le> 100 then Some n else None)"

definition downloading_limit_is_reached_by :: "downloading_limit \<Rightarrow> torrent_count \<Rightarrow> bool" where
  "downloading_limit_is_reached_by l downloading \<longleftrightarrow> l \<le> downloading"

definition active_limit_ok :: "active_limit \<Rightarrow> bool" where
  "active_limit_ok l \<longleftrightarrow> 1 \<le> l \<and> l \<le> 1000"

definition active_limit_try_new :: "u32 \<Rightarrow> active_limit option" where
  "active_limit_try_new n = (if 1 \<le> n \<and> n \<le> 1000 then Some n else None)"

record torrent_limits =
  limits_downloading :: downloading_limit
  limits_active :: active_limit

datatype fewer_active_than_downloading = FewerActiveThanDownloading

definition torrent_limits_new ::
    "downloading_limit \<Rightarrow> active_limit \<Rightarrow> fewer_active_than_downloading + torrent_limits" where
  "torrent_limits_new downloading active =
     (if active < downloading then Inl FewerActiveThanDownloading
      else Inr \<lparr>limits_downloading = downloading, limits_active = active\<rparr>)"

definition torrent_limits_default :: torrent_limits where
  "torrent_limits_default = \<lparr>limits_downloading = 5, limits_active = 10\<rparr>"

definition torrent_limits_ok :: "torrent_limits \<Rightarrow> bool" where
  "torrent_limits_ok l \<longleftrightarrow>
     downloading_limit_ok (limits_downloading l) \<and> active_limit_ok (limits_active l) \<and>
     limits_downloading l \<le> limits_active l"

subsection \<open>What validation establishes\<close>

lemma history_limit_try_new_ok: "history_limit_try_new n = Some l \<Longrightarrow> history_limit_ok l"
  by (auto simp: history_limit_try_new_def history_limit_ok_def split: if_splits)

lemma limits_new_ok:
  "downloading_limit_try_new n = Some d \<Longrightarrow> active_limit_try_new m = Some a \<Longrightarrow>
     torrent_limits_new d a = Inr l \<Longrightarrow> torrent_limits_ok l"
  by (auto simp: downloading_limit_try_new_def active_limit_try_new_def torrent_limits_new_def
      torrent_limits_ok_def downloading_limit_ok_def active_limit_ok_def split: if_splits)

lemma defaults_ok:
  "history_limit_ok history_limit_default" "points_reserve_ok points_reserve_default"
  "torrent_limits_ok torrent_limits_default"
  by (simp_all add: history_limit_ok_def history_limit_default_def points_reserve_ok_def
      points_reserve_default_def torrent_limits_ok_def torrent_limits_default_def
      downloading_limit_ok_def active_limit_ok_def)

lemma unat_trim_target: "unat (trim_target l) = unat l * 9 div 10"
proof -
  have "unat l < 2 ^ 32" using unsigned_less [of l] by simp
  then have "unat l * 9 div 10 < 2 ^ 64" by simp
  then show ?thesis by (simp add: trim_target_def unat_of_nat)
qed

lemma trim_target_below_limit:
  "history_limit_ok l \<Longrightarrow> unat (trim_target l) < unat l"
  unfolding unat_trim_target history_limit_ok_def word_le_nat_alt by simp linarith

end
