(* ===== verification/Client_Values.thy ===== *)
theory Client_Values
  imports Ordered_Map Settings_Values
begin

text \<open>
  What qBittorrent reports and is told (\<open>core/qbittorrent.rs\<close>), and the rows of the torrent
  registry (\<open>core/registry.rs\<close>): versions and MAM's position on them, torrents and their partial
  updates, queue settings, commands, and record identities.
\<close>

type_synonym port = u16
type_synonym http_status = u16
type_synonym byte_size = u64
type_synonym progress = u16
type_synonym ratio = u64
type_synonym torrent_hash = string
type_synonym torrent_name = string
type_synonym save_path = string
type_synonym content_path = string
type_synonym network_interface = string
type_synonym version_text = string
type_synonym sync_position = u64
type_synonym record_id = u64
type_synonym mam_torrent_id = u64

text \<open>\<open>NonZeroU16::new\<close> and \<open>NonZeroU64::new\<close> behind the newtypes' constructors.\<close>

definition port_new :: "u16 \<Rightarrow> port option" where
  "port_new n = (if n = 0 then None else Some n)"

definition record_id_new :: "u64 \<Rightarrow> record_id option" where
  "record_id_new n = (if n = 0 then None else Some n)"

definition record_id_after :: "record_id \<Rightarrow> record_id" where
  "record_id_after i = sat_add i 1"

definition mam_torrent_id_new :: "u64 \<Rightarrow> mam_torrent_id option" where
  "mam_torrent_id_new n = (if n = 0 then None else Some n)"

subsection \<open>Versions\<close>

datatype client_version =
  ClientVersion (version_major: u32) (version_minor: u32) (version_patch: u32)

text \<open>The derived ordering compares the fields from left to right.\<close>

instantiation client_version :: linorder
begin

definition less_eq_client_version :: "client_version \<Rightarrow> client_version \<Rightarrow> bool" where
  "less_eq_client_version a b \<longleftrightarrow>
     version_major a < version_major b \<or> version_major a = version_major b \<and>
     (version_minor a < version_minor b \<or> version_minor a = version_minor b \<and>
      version_patch a \<le> version_patch b)"

definition less_client_version :: "client_version \<Rightarrow> client_version \<Rightarrow> bool" where
  "less_client_version a b \<longleftrightarrow> a \<le> b \<and> \<not> b \<le> a"

instance
  by standard
    (auto simp: less_eq_client_version_def less_client_version_def intro: client_version.expand)

end

datatype mam_approval =
    MamApproval_Recommended
  | MamApproval_Allowed
  | MamApproval_Discouraged
  | MamApproval_NotAllowed

definition client_version_mam_approval :: "client_version \<Rightarrow> mam_approval" where
  "client_version_mam_approval v =
     (let within = \<lambda>low high. low \<le> v \<and> v \<le> high in
      if version_major v = 5 \<and> version_minor v = 2 then MamApproval_Recommended
      else if within (ClientVersion 5 0 1) (ClientVersion 5 2 (- 1)) then MamApproval_Allowed
      else if within (ClientVersion 4 5 2) (ClientVersion 4 6 7) \<or>
              within (ClientVersion 4 3 4) (ClientVersion 4 4 5) then MamApproval_Discouraged
      else MamApproval_NotAllowed)"

datatype reported_version =
    ReportedVersion_Release client_version
  | ReportedVersion_Unrecognised version_text

fun reported_version_release :: "reported_version \<Rightarrow> client_version option" where
  "reported_version_release (ReportedVersion_Release v) = Some v"
| "reported_version_release (ReportedVersion_Unrecognised _) = None"

definition reported_version_mam_approval :: "reported_version \<Rightarrow> mam_approval" where
  "reported_version_mam_approval v =
     (case reported_version_release v of
        None \<Rightarrow> MamApproval_NotAllowed
      | Some release \<Rightarrow> client_version_mam_approval release)"

subsection \<open>Torrents\<close>

datatype completion = Completion_Complete | Completion_Incomplete

datatype force_start = ForceStart_NotForced | ForceStart_Forced

datatype torrent_state =
    TorrentState_FetchingMetadata
  | TorrentState_Downloading
  | TorrentState_DownloadStalled
  | TorrentState_DownloadQueued
  | TorrentState_Seeding
  | TorrentState_SeedStalled
  | TorrentState_SeedQueued
  | TorrentState_Stopped completion
  | TorrentState_Checking
  | TorrentState_Moving
  | TorrentState_MissingFiles
  | TorrentState_Error
  | TorrentState_Unknown

definition progress_from_permille :: "u16 \<Rightarrow> progress option" where
  "progress_from_permille n = (if n \<le> 1000 then Some n else None)"

definition byte_size_less :: "byte_size \<Rightarrow> byte_size \<Rightarrow> byte_size" where
  "byte_size_less a b = sat_sub a b"

text \<open>The quotient is formed in 128 bits, where the product cannot overflow.\<close>

definition ratio_of :: "byte_size \<Rightarrow> byte_size \<Rightarrow> ratio option" where
  "ratio_of uploaded downloaded =
     (if downloaded = 0 then None
      else Some (sat_of_nat (unat uploaded * 1000 div unat downloaded)))"

record torrent =
  torrent_name :: "torrent_name option"
  torrent_state :: torrent_state
  torrent_progress :: progress
  torrent_size :: byte_size
  torrent_total_size :: byte_size
  torrent_downloaded :: byte_size
  torrent_uploaded :: byte_size
  torrent_ratio :: ratio
  torrent_seeding_time :: duration
  torrent_added_at :: "system_time option"
  torrent_completed_at :: "system_time option"
  torrent_content_path :: "content_path option"
  torrent_save_path :: "save_path option"
  torrent_force_start :: force_start

definition torrent_default :: torrent where
  "torrent_default =
     \<lparr>torrent_name = None, torrent_state = TorrentState_Unknown, torrent_progress = 0,
      torrent_size = 0, torrent_total_size = 0, torrent_downloaded = 0, torrent_uploaded = 0,
      torrent_ratio = 0, torrent_seeding_time = 0, torrent_added_at = None,
      torrent_completed_at = None, torrent_content_path = None, torrent_save_path = None,
      torrent_force_start = ForceStart_NotForced\<rparr>"

record torrent_update =
  update_name :: "torrent_name option option"
  update_state :: "torrent_state option"
  update_progress :: "progress option"
  update_size :: "byte_size option"
  update_total_size :: "byte_size option"
  update_downloaded :: "byte_size option"
  update_uploaded :: "byte_size option"
  update_ratio :: "ratio option"
  update_seeding_time :: "duration option"
  update_added_at :: "system_time option option"
  update_completed_at :: "system_time option option"
  update_content_path :: "content_path option option"
  update_save_path :: "save_path option option"
  update_force_start :: "force_start option"

definition torrent_apply :: "torrent \<Rightarrow> torrent_update \<Rightarrow> torrent" where
  "torrent_apply t u =
     \<lparr>torrent_name = unwrap_or (torrent_name t) (update_name u),
      torrent_state = unwrap_or (torrent_state t) (update_state u),
      torrent_progress = unwrap_or (torrent_progress t) (update_progress u),
      torrent_size = unwrap_or (torrent_size t) (update_size u),
      torrent_total_size = unwrap_or (torrent_total_size t) (update_total_size u),
      torrent_downloaded = unwrap_or (torrent_downloaded t) (update_downloaded u),
      torrent_uploaded = unwrap_or (torrent_uploaded t) (update_uploaded u),
      torrent_ratio = unwrap_or (torrent_ratio t) (update_ratio u),
      torrent_seeding_time = unwrap_or (torrent_seeding_time t) (update_seeding_time u),
      torrent_added_at = unwrap_or (torrent_added_at t) (update_added_at u),
      torrent_completed_at = unwrap_or (torrent_completed_at t) (update_completed_at u),
      torrent_content_path = unwrap_or (torrent_content_path t) (update_content_path u),
      torrent_save_path = unwrap_or (torrent_save_path t) (update_save_path u),
      torrent_force_start = unwrap_or (torrent_force_start t) (update_force_start u)\<rparr>"

subsection \<open>Commands, updates and preferences\<close>

datatype torrent_command =
    TorrentCommand_Start "torrent_hash list"
  | TorrentCommand_SelectAllFiles torrent_hash
  | TorrentCommand_Remove "torrent_hash list"
  | TorrentCommand_Stop "torrent_hash list"
  | TorrentCommand_ForceStart "torrent_hash list"
  | TorrentCommand_EndForceStart "torrent_hash list"
  | TorrentCommand_Add mam_torrent_id torrent_hash

datatype sync_scope = SyncScope_Changes | SyncScope_Full

record sync_update =
  sync_position :: sync_position
  sync_scope :: sync_scope
  sync_torrents :: "(torrent_hash \<times> torrent_update) list"
  sync_removed :: "torrent_hash list"

datatype queueing = Queueing_On | Queueing_Off

datatype queue_limit = QueueLimit_Unlimited | QueueLimit_At torrent_count

datatype idle_torrents = IdleTorrents_Counted | IdleTorrents_NotCounted

record queue_preferences =
  queue_queueing :: queueing
  queue_max_downloading :: queue_limit
  queue_max_active :: queue_limit
  queue_max_seeding :: queue_limit
  queue_idle :: idle_torrents

definition queue_for_limits :: "torrent_limits \<Rightarrow> queue_preferences" where
  "queue_for_limits limits =
     (let active = QueueLimit_At (limits_active limits) in
      \<lparr>queue_queueing = Queueing_On,
       queue_max_downloading = QueueLimit_At (limits_downloading limits),
       queue_max_active = active,
       queue_max_seeding = active,
       queue_idle = IdleTorrents_NotCounted\<rparr>)"

record qbittorrent_preferences =
  preferences_listen_port :: "port option"
  preferences_interface :: "network_interface option"
  preferences_queue :: "queue_preferences option"

datatype qbittorrent_failure =
    QbittorrentFailure_Unreachable
  | QbittorrentFailure_Rejected http_status
  | QbittorrentFailure_Malformed

subsection \<open>Registry rows\<close>

datatype identity =
    Identity_Mam mam_torrent_id
  | Identity_Client torrent_hash
  | Identity_Linked mam_torrent_id torrent_hash

fun identity_new :: "mam_torrent_id option \<Rightarrow> torrent_hash option \<Rightarrow> identity option" where
  "identity_new (Some mam) (Some hash) = Some (Identity_Linked mam hash)"
| "identity_new (Some mam) None = Some (Identity_Mam mam)"
| "identity_new None (Some hash) = Some (Identity_Client hash)"
| "identity_new None None = None"

fun identity_hash :: "identity \<Rightarrow> torrent_hash option" where
  "identity_hash (Identity_Mam _) = None"
| "identity_hash (Identity_Client hash) = Some hash"
| "identity_hash (Identity_Linked _ hash) = Some hash"

fun identity_mam_id :: "identity \<Rightarrow> mam_torrent_id option" where
  "identity_mam_id (Identity_Mam mam) = Some mam"
| "identity_mam_id (Identity_Linked mam _) = Some mam"
| "identity_mam_id (Identity_Client _) = None"

datatype origin = Origin_Bookmark | Origin_Redownload | Origin_Adopted

datatype desired =
    Desired_Queued | Desired_Snatched | Desired_Active | Desired_Held | Desired_Removed

record download =
  download_mam :: mam_torrent_id
  download_hash :: torrent_hash
  download_desired :: desired
  download_completion :: completion
  download_added_at :: "system_time option"

definition is_downloading :: "download \<Rightarrow> bool" where
  "is_downloading d \<longleftrightarrow>
     download_desired d = Desired_Active \<and> download_completion d = Completion_Incomplete"

record observation =
  observation_torrent :: torrent
  observation_last_seen :: system_time

datatype content_deletion = ContentDeletion_Allowed | ContentDeletion_NotAllowed

record torrent_record =
  record_id :: record_id
  record_identity :: identity
  record_origin :: origin
  record_desired :: desired
  record_save_path :: "save_path option"
  record_deletion :: content_deletion
  record_observation :: "observation option"

subsection \<open>Lemmas\<close>

lemma identity_new_parts:
  "identity_new mam hash = Some i \<Longrightarrow> identity_mam_id i = mam \<and> identity_hash i = hash"
  by (cases mam; cases hash) auto

lemma identity_new_inverse: "identity_new (identity_mam_id i) (identity_hash i) = Some i"
  by (cases i) auto

lemma recommended_iff:
  "client_version_mam_approval v = MamApproval_Recommended \<longleftrightarrow>
     version_major v = 5 \<and> version_minor v = 2"
  by (simp add: client_version_mam_approval_def Let_def)

lemma unrecognised_not_allowed:
  "reported_version_release v = None \<Longrightarrow> reported_version_mam_approval v = MamApproval_NotAllowed"
  by (simp add: reported_version_mam_approval_def)

end
