(* ===== verification/Mam_Values.thy ===== *)
theory Mam_Values
  imports Client_Values
begin

text \<open>
  What Windlass asks MAM and what MAM answers (\<open>core/mam/api.rs\<close>): requests, replies and
  failures, the account and its counters, bookmarks with their flags.
\<close>

datatype ip_addr = IpAddr_V4 "32 word" | IpAddr_V6 "128 word"

type_synonym asn = u32
type_synonym network_name = string
type_synonym book_title = string
type_synonym category_name = string
type_synonym class_name = string
type_synonym mam_message = string
type_synonym unsatisfied_count = u32
type_synonym unsatisfied_limit = u32
type_synonym notice_count = u32
type_synonym wedge_count = u32
type_synonym bookmark_count = u32

datatype wedge = Wedge_Spend | Wedge_Keep

datatype client_listing = ClientListing_Include | ClientListing_Omit

datatype purchase = Purchase_Vip

datatype mam_request =
    MamRequest_LookUpIp
  | MamRequest_RegisterSeedbox
  | MamRequest_LoadUserData client_listing
  | MamRequest_ListBookmarks bookmark_count
  | MamRequest_FetchTorrent mam_torrent_id wedge
  | MamRequest_Buy purchase
  | MamRequest_WedgeHistory
  | MamRequest_LookUpTorrent mam_torrent_id

definition needs_cookie :: "mam_request \<Rightarrow> bool" where
  "needs_cookie r \<longleftrightarrow> r \<noteq> MamRequest_LookUpIp"

definition points_plus :: "points \<Rightarrow> points \<Rightarrow> points" where
  "points_plus a b = sat_add a b"

definition points_less :: "points \<Rightarrow> points \<Rightarrow> points" where
  "points_less a b = sat_sub a b"

definition points_times :: "points \<Rightarrow> u64 \<Rightarrow> points" where
  "points_times a n = sat_mul a n"

definition unsatisfied_plus :: "unsatisfied_count \<Rightarrow> unsatisfied_count \<Rightarrow> unsatisfied_count" where
  "unsatisfied_plus a b = sat_add a b"

definition admits_one_more ::
    "unsatisfied_limit \<Rightarrow> unsatisfied_count \<Rightarrow> unsatisfied_count \<Rightarrow> bool" where
  "admits_one_more limit count reserve \<longleftrightarrow> sat_add (sat_add count 1) reserve \<le> limit"

definition nearly_reached_by :: "unsatisfied_limit \<Rightarrow> unsatisfied_count \<Rightarrow> bool" where
  "nearly_reached_by limit count \<longleftrightarrow> 0 < limit \<and> unat limit * 4 \<le> unat count * 5"

definition torrent_count_counting :: "'a list \<Rightarrow> torrent_count" where
  "torrent_count_counting xs = sat_of_nat (length xs)"

definition torrent_count_plus :: "torrent_count \<Rightarrow> torrent_count \<Rightarrow> torrent_count" where
  "torrent_count_plus a b = sat_add a b"

definition notice_count_plus :: "notice_count \<Rightarrow> notice_count \<Rightarrow> notice_count" where
  "notice_count_plus a b = sat_add a b"

text \<open>A bookmark count from a list, and whether a list is that long; \<open>usize\<close> has 64 bits.\<close>

definition bookmark_count_of :: "'a list \<Rightarrow> bookmark_count option" where
  "bookmark_count_of xs = (if length xs < 2 ^ 32 then Some (of_nat (length xs)) else None)"

definition bookmark_count_is_reached_by :: "bookmark_count \<Rightarrow> nat \<Rightarrow> bool" where
  "bookmark_count_is_reached_by c listed \<longleftrightarrow> unat c \<le> listed"

datatype red_kind = RedKind_NotSeeding | RedKind_Other

datatype user_class =
    UserClass_Mouse
  | UserClass_User
  | UserClass_PowerUser
  | UserClass_Vip
  | UserClass_EliteVip
  | UserClass_Other class_name

record ip_observation =
  ip_ip :: ip_addr
  ip_asn :: asn
  ip_provider :: "network_name option"

datatype registration = Registration_Completed | Registration_NoChange

datatype connectable =
    Connectable_Yes
  | Connectable_No
  | Connectable_Offline
  | Connectable_Unrecognised string

record red_category =
  red_name :: category_name
  red_kind :: red_kind
  red_count :: torrent_count

datatype partials = Partials_NotSeen | Partials_Seen

record snatch_summary =
  summary_unsatisfied :: unsatisfied_count
  summary_unsatisfied_limit :: unsatisfied_limit
  summary_unsatisfied_not_seeding :: torrent_count
  summary_hit_and_run_not_seeding :: torrent_count
  summary_partial :: partials
  summary_duplicates :: torrent_count
  summary_tracker_errors :: torrent_count
  summary_connectable :: connectable
  summary_red :: "red_category list"

record mam_notices =
  notices_messages :: notice_count
  notices_tickets :: notice_count
  notices_waiting_tickets :: notice_count
  notices_requests :: notice_count
  notices_topics :: notice_count
  notices_about_to_drop_client :: notice_count

definition mam_notices_total :: "mam_notices \<Rightarrow> notice_count" where
  "mam_notices_total n =
     notice_count_plus (notice_count_plus (notice_count_plus (notice_count_plus
       (notice_count_plus (notices_messages n) (notices_tickets n)) (notices_waiting_tickets n))
       (notices_requests n)) (notices_topics n)) (notices_about_to_drop_client n)"

datatype client_refusal = ClientRefusal_NotRefused | ClientRefusal_Refused

record listed_client =
  client_qbittorrent :: "client_version option"
  client_connectable :: "connectable option"
  client_refusal :: client_refusal

record user_data =
  user_uploaded :: byte_size
  user_downloaded :: byte_size
  user_points :: points
  user_wedges :: wedge_count
  user_class :: user_class
  user_vip_until :: "system_time option"
  user_summary :: "snatch_summary option"
  user_notices :: "mam_notices option"
  user_clients :: "listed_client list option"

definition user_data_buffer :: "user_data \<Rightarrow> byte_size" where
  "user_data_buffer d = byte_size_less (user_uploaded d) (user_downloaded d)"

definition user_data_ratio :: "user_data \<Rightarrow> ratio option" where
  "user_data_ratio d = ratio_of (user_uploaded d) (user_downloaded d)"

definition user_data_is_vip :: "user_data \<Rightarrow> system_time \<Rightarrow> bool" where
  "user_data_is_vip d now = is_some_and (\<lambda>until. now < until) (user_vip_until d)"

datatype vip_torrent =
    VipTorrent_No
  | VipTorrent_Indefinitely
  | VipTorrent_Until system_time

fun vip_torrent_at :: "vip_torrent \<Rightarrow> system_time \<Rightarrow> bool" where
  "vip_torrent_at VipTorrent_No time = False"
| "vip_torrent_at VipTorrent_Indefinitely time = True"
| "vip_torrent_at (VipTorrent_Until until) time = (time < until)"

datatype freeleech = Freeleech_No | Freeleech_ForEveryone

datatype snatched = Snatched_Never | Snatched_Before

datatype personal_freeleech =
    PersonalFreeleech_No
  | PersonalFreeleech_ThroughVip
  | PersonalFreeleech_ThroughWedge

fun personal_freeleech_from_flags :: "bool \<Rightarrow> bool \<Rightarrow> personal_freeleech" where
  "personal_freeleech_from_flags True _ = PersonalFreeleech_ThroughWedge"
| "personal_freeleech_from_flags False True = PersonalFreeleech_ThroughVip"
| "personal_freeleech_from_flags False False = PersonalFreeleech_No"

record bookmark =
  bookmark_id :: mam_torrent_id
  bookmark_title :: book_title
  bookmark_vip :: vip_torrent
  bookmark_freeleech :: freeleech
  bookmark_personal :: personal_freeleech
  bookmark_snatched :: snatched
  bookmark_bookmarked_at :: "system_time option"

record bookmark_page =
  page_found :: bookmark_count
  page_bookmarks :: "bookmark list"

record fetched_torrent =
  fetched_hash :: torrent_hash
  fetched_size :: byte_size

record wedge_spent =
  spent_torrent :: mam_torrent_id
  spent_at :: system_time

datatype mam_reply =
    MamReply_Ip ip_observation
  | MamReply_Registered registration ip_addr
  | MamReply_UserData user_data
  | MamReply_Bookmarks bookmark_page
  | MamReply_Fetched fetched_torrent
  | MamReply_Purchased points
  | MamReply_WedgeHistory "wedge_spent list"
  | MamReply_Torrent "bookmark option"

datatype session_rejection =
    SessionRejection_InvalidCookie
  | SessionRejection_IpMismatch
  | SessionRejection_AsnMismatch
  | SessionRejection_NotAllowed
  | SessionRejection_Other

datatype mam_failure =
    MamFailure_Session session_rejection
  | MamFailure_TooSoon "duration option"
  | MamFailure_Refused "mam_message option"
  | MamFailure_NotKept
  | MamFailure_Unreachable
  | MamFailure_Rejected http_status
  | MamFailure_Malformed

fun mam_failure_uncertain :: "mam_failure \<Rightarrow> bool" where
  "mam_failure_uncertain MamFailure_Unreachable = True"
| "mam_failure_uncertain (MamFailure_Rejected _) = True"
| "mam_failure_uncertain MamFailure_Malformed = True"
| "mam_failure_uncertain MamFailure_NotKept = True"
| "mam_failure_uncertain (MamFailure_Session _) = False"
| "mam_failure_uncertain (MamFailure_TooSoon _) = False"
| "mam_failure_uncertain (MamFailure_Refused _) = False"

text \<open>How long a failed request waits: at least \<open>least\<close>, or as long as MAM asked.\<close>

fun retry_wait :: "duration \<Rightarrow> mam_failure \<Rightarrow> duration" where
  "retry_wait least (MamFailure_TooSoon (Some after)) = max least after"
| "retry_wait least _ = least"

subsection \<open>Lemmas\<close>

lemma needs_cookie_simps [simp]:
  "\<not> needs_cookie MamRequest_LookUpIp" "needs_cookie MamRequest_RegisterSeedbox"
  "needs_cookie (MamRequest_LoadUserData c)" "needs_cookie (MamRequest_ListBookmarks n)"
  "needs_cookie (MamRequest_FetchTorrent i w)" "needs_cookie (MamRequest_Buy p)"
  "needs_cookie MamRequest_WedgeHistory" "needs_cookie (MamRequest_LookUpTorrent i)"
  by (simp_all add: needs_cookie_def)

lemma retry_wait_ge: "least \<le> retry_wait least f"
  by (induction least f rule: retry_wait.induct) auto

lemma retry_wait_obeys: "after \<le> retry_wait least (MamFailure_TooSoon (Some after))"
  by simp

lemma admits_one_more_nat:
  "admits_one_more limit count reserve \<longleftrightarrow>
     unat count + 1 + unat reserve \<le> unat limit \<or> unat limit = 2 ^ 32 - 1"
  using unsigned_less [of limit, where ?'a = nat]
  by (auto simp: admits_one_more_def word_le_nat_alt unat_sat min_def)

end
