(* ===== verification/Clock.thy ===== *)
theory Clock
  imports Prelude
begin

text \<open>
  Clock readings, timers and failure counters (\<open>core/mod.rs\<close>, \<open>core/timer.rs\<close>,
  \<open>core/failures.rs\<close>): the values every component's handler receives and the identities the
  core gives its timers.
\<close>

record clock_reading =
  monotonic :: instant
  wall :: system_time

datatype timer_name =
    TimerName_QbittorrentPoll
  | TimerName_PortLease
  | TimerName_TunnelCheck
  | TimerName_NotificationGrace
  | TimerName_NotificationRetry
  | TimerName_Mam

type_synonym timer_id = u64

record deadline =
  deadline_at :: instant
  deadline_after :: duration

record timers =
  timers_next :: timer_id

definition timers_new :: timers where
  "timers_new = \<lparr>timers_next = 0\<rparr>"

definition timers_schedule ::
    "timers \<Rightarrow> instant \<Rightarrow> duration \<Rightarrow> timers \<times> timer_id \<times> deadline" where
  "timers_schedule t now after =
     (let id = timers_next t in
      (t\<lparr>timers_next := sat_add id 1\<rparr>, id,
       \<lparr>deadline_at = unwrap_or now (checked_add now after), deadline_after = after\<rparr>))"

type_synonym failure_count = u32

definition failure_none :: failure_count where
  "failure_none = 0"

definition failure_after_another :: "failure_count \<Rightarrow> failure_count" where
  "failure_after_another c = sat_add c 1"

definition failure_any :: "failure_count \<Rightarrow> bool" where
  "failure_any c \<longleftrightarrow> 0 < c"

subsection \<open>Timer identities are not reused\<close>

text \<open>Every identity issued so far is below the next one.\<close>

definition timers_issued :: "timers \<Rightarrow> timer_id \<Rightarrow> bool" where
  "timers_issued t i \<longleftrightarrow> i < timers_next t"

lemma schedule_next: "timers_next (fst (timers_schedule t now d)) = sat_add (timers_next t) 1"
  by (simp add: timers_schedule_def Let_def)

lemma schedule_id: "fst (snd (timers_schedule t now d)) = timers_next t"
  by (simp add: timers_schedule_def Let_def)

lemma schedule_deadline:
  "snd (snd (timers_schedule t now d)) =
     \<lparr>deadline_at = unwrap_or now (checked_add now d), deadline_after = d\<rparr>"
  by (simp add: timers_schedule_def Let_def)

lemmas schedule_simps = schedule_next schedule_id schedule_deadline

lemma sat_add_one_less: "x \<noteq> - 1 \<Longrightarrow> x < sat_add x 1"
  for x :: "'a::len word"
proof -
  assume "x \<noteq> - 1"
  then have "unat x \<noteq> 2 ^ LENGTH('a) - 1"
    by (metis unat_max_word word_unat_eq_iff)
  moreover have "unat x < 2 ^ LENGTH('a)" by simp
  ultimately have "unat x < 2 ^ LENGTH('a) - 1" by linarith
  then show ?thesis by (simp add: word_less_nat_alt unat_sat)
qed

lemma schedule_issues:
  assumes "timers_next t \<noteq> - 1"
  shows "timers_issued (fst (timers_schedule t now d)) (fst (snd (timers_schedule t now d)))"
    and "timers_issued t i \<Longrightarrow> timers_issued (fst (timers_schedule t now d)) i"
  using sat_add_one_less [OF assms] by (auto simp: timers_issued_def schedule_simps)

lemma failure_after_another_pos: "0 < failure_after_another c"
  by (simp add: failure_after_another_def word_less_nat_alt unat_sat)

lemma unat_failure_after_another:
  "unat (failure_after_another c) = min (unat c + 1) (2 ^ 32 - 1)"
  by (simp add: failure_after_another_def unat_sat)

end
