(* ===== verification/Actions.thy ===== *)
theory Actions
  imports Mam_Values Clock
begin

text \<open>
  The effects the core asks the shell for (\<open>Action\<close>, \<open>core/mod.rs\<close>) and the notices it records
  (\<open>Notice\<close>, \<open>core/notifications.rs\<close>), with the values of the components that appear in them.
\<close>

subsection \<open>Values that actions and notices carry\<close>

datatype startup_mode = StartupMode_Initialise | StartupMode_Resume

datatype mam_request_mode = MamRequestMode_Paused | MamRequestMode_Enabled

type_synonym vpn_server = string

record vpn_switch =
  switch_server :: vpn_server
  switch_at :: system_time

datatype sale = Sale_Made | Sale_NotMade

datatype client_standing =
    ClientStanding_Unknown
  | ClientStanding_NoneListed
  | ClientStanding_Listed
  | ClientStanding_NotListed
  | ClientStanding_Refused
  | ClientStanding_NotUnderstood

datatype hold =
    Hold_MamUnavailable
  | Hold_SeedboxUnconfirmed
  | Hold_DownloadsRefused
  | Hold_ClientUnavailable
  | Hold_MamClientList client_standing
  | Hold_DownloadingLimit torrent_count downloading_limit
  | Hold_AccountUnknown
  | Hold_RatioLow
  | Hold_UnsatisfiedLimit unsatisfied_count unsatisfied_limit
  | Hold_NoWedge
  | Hold_RatioUsed
  | Hold_RatioGuardUnknown
  | Hold_NotBookmarked

datatype port_finding =
    PortFinding_Matches port
  | PortFinding_Differs "port option" port
  | PortFinding_NoForwardedPort

datatype ip_finding =
    IpFinding_Matches ip_addr
  | IpFinding_Differs ip_addr ip_addr
  | IpFinding_Unknown

datatype lease_renewal = LeaseRenewal_Requested | LeaseRenewal_NotRequested

datatype seedbox_confirmation = SeedboxConfirmation_Confirmed | SeedboxConfirmation_Unconfirmed

record findings =
  findings_listen_port :: port_finding
  findings_lease :: lease_renewal
  findings_exit_ip :: ip_finding
  findings_seedbox :: seedbox_confirmation
  findings_interface :: "network_interface option"

record ratio_use =
  use_before :: byte_size
  use_after :: byte_size
  use_at :: system_time

datatype saved_ratio_guard =
    SavedRatioGuard_Unset
  | SavedRatioGuard_Watching byte_size
  | SavedRatioGuard_Tripped ratio_use

datatype setting_name =
    SettingName_MamRequests
  | SettingName_HistoryLimit
  | SettingName_ApiCookie
  | SettingName_NtfyTopic
  | SettingName_PointsReserve

datatype switch_block =
    SwitchBlock_Until system_time
  | SwitchBlock_LastSwitchUnknown
  | SwitchBlock_NoOtherServer

type_synonym notice_id = u64
type_synonym push_count = u64

datatype urgency = Urgency_Urgent | Urgency_Normal

datatype client_warning = ClientWarning_Given | ClientWarning_NotGiven

datatype not_free_outcome = NotFreeOutcome_Stopped | NotFreeOutcome_FinishedFirst

datatype reach = Reach_Push | Reach_Dashboard

subsection \<open>Notices\<close>

datatype (plugins only: code size) notice =
    Notice_Started startup_mode
  | Notice_StartupFailed
  | Notice_VpnProtectionLost failure_count
  | Notice_VpnProtectionRestored ip_addr "vpn_server option"
  | Notice_FailoverStarted vpn_server
  | Notice_FailoverSucceeded vpn_server
  | Notice_FailoverFailed vpn_server
  | Notice_FailoverBlocked switch_block
  | Notice_ForwardedPortLost
  | Notice_ForwardedPortRestored port
  | Notice_QbittorrentUnreachable qbittorrent_failure
  | Notice_QbittorrentReachable
  | Notice_QbittorrentVersionNotAllowed reported_version
  | Notice_QbittorrentVersionAllowed reported_version
  | Notice_TorrentErrors torrent_count
  | Notice_TorrentErrorsCleared
  | Notice_FilesMissing torrent_count
  | Notice_FilesMissingCleared
  | Notice_TorrentsMissing torrent_count
  | Notice_TorrentsMissingCleared
  | Notice_RegistryNotSaved
  | Notice_RegistrySaved
  | Notice_RegistryUnreadable
  | Notice_SettingNotSaved setting_name
  | Notice_HistoryUnavailable
  | Notice_HistoryEntriesLost entry_count
  | Notice_Test
  | Notice_MamSessionRejected session_rejection
  | Notice_MamSessionAccepted
  | Notice_SeedboxNotRegistered
  | Notice_SeedboxRegistered ip_addr
  | Notice_MamIpUnknown failure_count
  | Notice_MamIpKnown
  | Notice_MamStateUnreadable
  | Notice_RatioLow ratio urgency
  | Notice_RatioRestored
  | Notice_RatioUsed byte_size
  | Notice_RatioUseChecked
  | Notice_UnsatisfiedNearLimit unsatisfied_count unsatisfied_limit
  | Notice_UnsatisfiedBelowLimit
  | Notice_UnsatisfiedNotSeeding torrent_count
  | Notice_UnsatisfiedSeeding
  | Notice_MamFlagged partials torrent_count torrent_count
  | Notice_MamFlagsCleared
  | Notice_MamMessages notice_count client_warning
  | Notice_DownloadsHeld hold
  | Notice_DownloadsResumed
  | Notice_NoWedgesLeft
  | Notice_PointsBelowReserve points points
  | Notice_VipEnding system_time
  | Notice_DownloadsRefused
  | Notice_SeedingBehind torrent_count
  | Notice_SeedingOnTrack
  | Notice_PurchaseMade purchase points
  | Notice_PurchaseRefused purchase
  | Notice_PurchaseUncertain purchase
  | Notice_WedgeNotSpent
  | Notice_DownloadNotFree not_free_outcome
  | Notice_WedgedMidDownload
  | Notice_PurchaseSettled purchase sale
  | Notice_PurchaseNeedsChecking purchase
  | Notice_MamClientNotListed client_standing
  | Notice_MamClientListed
  | Notice_NotConnectable findings
  | Notice_ConnectableAgain
  | Notice_MamVisitReminder

record logged =
  logged_id :: notice_id
  logged_at :: system_time
  logged_notice :: notice
  logged_reach :: reach

record push =
  push_entry :: "notice_id option"
  push_notice :: notice

subsection \<open>Actions\<close>

datatype (plugins only: code size) action =
    Action_OpenStorage startup_mode
  | Action_ReadMamRequestMode
  | Action_WriteMamRequestMode mam_request_mode
  | Action_DeleteMamRequestMode
  | Action_ReadSettings
  | Action_WriteHistoryLimit history_limit
  | Action_WriteApiCookie "api_cookie option"
  | Action_OpenHistory
  | Action_TrimHistory entry_count
  | Action_StartTimer timer_name timer_id deadline
  | Action_RequestPortMapping duration
  | Action_ConnectQbittorrent
  | Action_SyncQbittorrent sync_position
  | Action_ReadQbittorrentPreferences
  | Action_SetQbittorrentListenPort port
  | Action_QbittorrentCommand torrent_command
  | Action_ReadTorrentRegistry
  | Action_SaveTorrents "torrent_record list"
  | Action_CheckExitIp
  | Action_ReadLastVpnSwitch
  | Action_SaveVpnSwitch vpn_switch
  | Action_SwitchVpnServer vpn_server
  | Action_WriteNtfyTopic "ntfy_topic option"
  | Action_SendNotification ntfy_topic push
  | Action_ReadNoticeLog
  | Action_SaveNotice logged "notice_id option"
  | Action_WritePointsReserve points_reserve
  | Action_SetQbittorrentQueue queue_preferences
  | Action_WriteTorrentLimits torrent_limits
  | Action_WriteRotatedApiCookie api_cookie
  | Action_ReadMamState
  | Action_SaveRegistrationAttempt system_time
  | Action_SaveRatioGuard saved_ratio_guard
  | Action_SaveReminder system_time
  | Action_MamRequest mam_request "api_cookie option"

end
