(* ===== verification/Persistence.thy ===== *)
theory Persistence
  imports Prelude
begin

text \<open>
  The contract of a value kept in storage: the value last confirmed as saved, the value last
  asked for, and at most one write in flight. A request made during a write waits for it. The
  dashboard's settings and the MAM pause preference are both built to this contract; their
  theories interpret the locale on their own operations.
\<close>

locale saved_value =
  fixes pending :: "'s \<Rightarrow> 'v option"
    and requested :: "'s \<Rightarrow> 'v"
    and saved :: "'s \<Rightarrow> 'v"
    and request :: "'v \<Rightarrow> 's \<Rightarrow> 's \<times> 'v option"
    and complete :: "bool \<Rightarrow> 's \<Rightarrow> 's \<times> 'v option"
  assumes request_busy: "pending s = Some p \<Longrightarrow> request v s = (t, w) \<Longrightarrow>
      w = None \<and> pending t = Some p \<and> requested t = v \<and> saved t = saved s"
    and request_free: "pending s = None \<Longrightarrow> request v s = (t, w) \<Longrightarrow>
      w = (if v = saved s then None else Some v) \<and> pending t = w \<and> requested t = v \<and>
      saved t = saved s"
    and complete_free: "pending s = None \<Longrightarrow> complete ok s = (s, None)"
    and complete_busy: "pending s = Some p \<Longrightarrow> complete ok s = (t, w) \<Longrightarrow>
      requested t = requested s \<and> saved t = (if ok then p else saved s) \<and> pending t = w \<and>
      w = (if p = requested s \<or> requested s = saved t then None else Some (requested s))"
begin

lemma write_when_free: "request v s = (t, Some w) \<Longrightarrow> pending s = None \<and> pending t = Some w \<and> w = v"
  using request_busy [of s _ v t "Some w"] request_free [of s v t "Some w"]
  by (cases "pending s") (auto split: if_splits)

lemma write_is_pending: "request v s = (t, w) \<Longrightarrow> w \<noteq> None \<Longrightarrow> pending t = w"
  using write_when_free by (cases w) auto

lemma complete_once: "complete ok s = (t, w) \<Longrightarrow> pending t = w"
  using complete_free [of s ok] complete_busy [of s _ ok t w] by (cases "pending s") auto

lemma failure_keeps_saved: "saved (fst (complete False s)) = saved s"
proof (cases "pending s")
  case (Some p)
  obtain t w where "complete False s = (t, w)" by (metis surj_pair)
  with complete_busy [OF Some this] show ?thesis by simp
qed (simp add: complete_free)

lemma complete_requested: "requested (fst (complete ok s)) = requested s"
proof (cases "pending s")
  case (Some p)
  obtain t w where "complete ok s = (t, w)" by (metis surj_pair)
  with complete_busy [OF Some this] show ?thesis by simp
qed (simp add: complete_free)

text \<open>
  The latest request wins: with a write in flight, two successful completions leave nothing in
  flight and the value last asked for saved.
\<close>

lemma converges:
  assumes "pending s = Some p"
  defines "s2 \<equiv> fst (complete True (fst (complete True s)))"
  shows "pending s2 = None \<and> saved s2 = requested s \<and> requested s2 = requested s"
proof -
  obtain t w where t: "complete True s = (t, w)" by (metis surj_pair)
  note one = complete_busy [OF assms(1) t]
  obtain u x where u: "complete True t = (u, x)" by (metis surj_pair)
  show ?thesis
  proof (cases w)
    case None
    then show ?thesis
      using one t complete_free [of t True] by (auto simp: s2_def split: if_splits)
  next
    case (Some q)
    with one complete_busy [of t q True u x] t u show ?thesis
      by (auto simp: s2_def split: if_splits)
  qed
qed

end

end
