(* ===== verification/Startup.thy ===== *)
theory Startup
  imports Actions Persistence
begin

text \<open>
  Startup (\<open>core/startup.rs\<close>), the core's state (\<open>State\<close>, \<open>core/machine.rs\<close>) and the MAM pause
  preference (\<open>core/mam_pause.rs\<close>): opening storage, reading the preference, and the rule that a
  pause applies at once while resuming waits until it is saved.
\<close>

subsection \<open>The preference\<close>

datatype mam_preference_update =
    MamPreferenceUpdate_Set mam_request_mode
  | MamPreferenceUpdate_Delete

fun preference_update_stored :: "mam_preference_update \<Rightarrow> mam_request_mode option" where
  "preference_update_stored (MamPreferenceUpdate_Set mode) = Some mode"
| "preference_update_stored MamPreferenceUpdate_Delete = None"

fun preference_update_mode :: "mam_preference_update \<Rightarrow> mam_request_mode" where
  "preference_update_mode (MamPreferenceUpdate_Set mode) = mode"
| "preference_update_mode MamPreferenceUpdate_Delete = MamRequestMode_Paused"

fun preference_update_action :: "mam_preference_update \<Rightarrow> action" where
  "preference_update_action (MamPreferenceUpdate_Set mode) = Action_WriteMamRequestMode mode"
| "preference_update_action MamPreferenceUpdate_Delete = Action_DeleteMamRequestMode"

datatype mam_preference_persistence =
    MamPreferencePersistence_Idle
  | MamPreferencePersistence_Pending mam_preference_update
  | MamPreferencePersistence_Failed

datatype mam_requests_status =
    MamRequestsStatus_Starting
  | MamRequestsStatus_StartupFailed
  | MamRequestsStatus_Running
  | MamRequestsStatus_Paused
  | MamRequestsStatus_PausePending
  | MamRequestsStatus_PauseNotSaved
  | MamRequestsStatus_ResumePending
  | MamRequestsStatus_ResumeNotSaved

fun requests_status_requested :: "mam_requests_status \<Rightarrow> mam_request_mode option" where
  "requests_status_requested MamRequestsStatus_Starting = None"
| "requests_status_requested MamRequestsStatus_StartupFailed = None"
| "requests_status_requested MamRequestsStatus_Running = Some MamRequestMode_Enabled"
| "requests_status_requested MamRequestsStatus_ResumePending = Some MamRequestMode_Enabled"
| "requests_status_requested MamRequestsStatus_ResumeNotSaved = Some MamRequestMode_Enabled"
| "requests_status_requested MamRequestsStatus_Paused = Some MamRequestMode_Paused"
| "requests_status_requested MamRequestsStatus_PausePending = Some MamRequestMode_Paused"
| "requests_status_requested MamRequestsStatus_PauseNotSaved = Some MamRequestMode_Paused"

record mam_preference_state =
  preference_saved :: "mam_request_mode option"
  preference_requested :: mam_preference_update
  preference_effective :: mam_request_mode
  preference_persistence :: mam_preference_persistence

definition preference_status :: "mam_preference_state \<Rightarrow> mam_requests_status" where
  "preference_status p =
     (case (preference_update_mode (preference_requested p), preference_persistence p) of
        (MamRequestMode_Paused, MamPreferencePersistence_Pending _) \<Rightarrow> MamRequestsStatus_PausePending
      | (MamRequestMode_Paused, MamPreferencePersistence_Failed) \<Rightarrow> MamRequestsStatus_PauseNotSaved
      | (MamRequestMode_Enabled, MamPreferencePersistence_Pending _) \<Rightarrow> MamRequestsStatus_ResumePending
      | (MamRequestMode_Enabled, MamPreferencePersistence_Failed) \<Rightarrow> MamRequestsStatus_ResumeNotSaved
      | (_, MamPreferencePersistence_Idle) \<Rightarrow>
          (case preference_effective p of
             MamRequestMode_Paused \<Rightarrow> MamRequestsStatus_Paused
           | MamRequestMode_Enabled \<Rightarrow> MamRequestsStatus_Running))"

fun preference_pending :: "mam_preference_state \<Rightarrow> mam_preference_update option" where
  "preference_pending p =
     (case preference_persistence p of
        MamPreferencePersistence_Pending u \<Rightarrow> Some u
      | _ \<Rightarrow> None)"

definition preference_update ::
    "mam_preference_state \<Rightarrow> mam_preference_update \<Rightarrow> mam_preference_state \<times> action list" where
  "preference_update p change =
     (let p = p\<lparr>preference_requested := change\<rparr>;
          p = (if preference_update_mode change = MamRequestMode_Paused
               then p\<lparr>preference_effective := MamRequestMode_Paused\<rparr> else p)
      in if preference_pending p \<noteq> None then (p, [])
         else if preference_update_stored change = preference_saved p then
           (p\<lparr>preference_effective := preference_update_mode change,
              preference_persistence := MamPreferencePersistence_Idle\<rparr>, [])
         else (p\<lparr>preference_persistence := MamPreferencePersistence_Pending change\<rparr>,
               [preference_update_action change]))"

datatype mam_preference_completion =
    MamPreferenceCompletion_Written
  | MamPreferenceCompletion_WriteFailed
  | MamPreferenceCompletion_Deleted
  | MamPreferenceCompletion_DeleteFailed

fun preference_completion_success ::
    "mam_preference_update \<Rightarrow> mam_preference_completion \<Rightarrow> bool option" where
  "preference_completion_success (MamPreferenceUpdate_Set _) MamPreferenceCompletion_Written = Some True"
| "preference_completion_success MamPreferenceUpdate_Delete MamPreferenceCompletion_Deleted = Some True"
| "preference_completion_success (MamPreferenceUpdate_Set _) MamPreferenceCompletion_WriteFailed = Some False"
| "preference_completion_success MamPreferenceUpdate_Delete MamPreferenceCompletion_DeleteFailed = Some False"
| "preference_completion_success _ _ = None"

definition preference_complete ::
    "mam_preference_state \<Rightarrow> mam_preference_completion \<Rightarrow> mam_preference_state \<times> action list" where
  "preference_complete p completion =
     (case preference_pending p of
        None \<Rightarrow> (p, [])
      | Some pending \<Rightarrow>
          (case preference_completion_success pending completion of
             None \<Rightarrow> (p, [])
           | Some success \<Rightarrow>
               (let p = (if success
                         then p\<lparr>preference_saved := preference_update_stored pending\<rparr> else p);
                    p = p\<lparr>preference_persistence :=
                            if success then MamPreferencePersistence_Idle
                            else MamPreferencePersistence_Failed\<rparr>;
                    p = p\<lparr>preference_effective :=
                            if success \<and> pending = preference_requested p
                            then preference_update_mode pending else MamRequestMode_Paused\<rparr>
                in if pending \<noteq> preference_requested p
                   then preference_update p (preference_requested p)
                   else (p, []))))"

subsection \<open>The core's state\<close>

datatype state =
    State_NotStarted
  | State_OpeningStorage "mam_preference_update option"
  | State_ReadingMamPreference "mam_preference_update option"
  | State_Ready mam_preference_state
  | State_Failed

fun state_has_failed :: "state \<Rightarrow> bool" where
  "state_has_failed State_Failed = True"
| "state_has_failed (State_Ready p) =
     (preference_persistence p = MamPreferencePersistence_Failed)"
| "state_has_failed _ = False"

fun state_mam_requests :: "state \<Rightarrow> mam_requests_status" where
  "state_mam_requests State_NotStarted = MamRequestsStatus_Starting"
| "state_mam_requests (State_OpeningStorage _) = MamRequestsStatus_Starting"
| "state_mam_requests (State_ReadingMamPreference _) = MamRequestsStatus_Starting"
| "state_mam_requests State_Failed = MamRequestsStatus_StartupFailed"
| "state_mam_requests (State_Ready p) = preference_status p"

datatype startup_event =
    StartupEvent_Start startup_mode
  | StartupEvent_StorageOpened
  | StartupEvent_StorageOpenFailed

fun startup_handle :: "state \<Rightarrow> startup_event \<Rightarrow> state \<times> action list" where
  "startup_handle state (StartupEvent_Start mode) =
     (case state of
        State_NotStarted \<Rightarrow> (State_OpeningStorage None, [Action_OpenStorage mode])
      | _ \<Rightarrow> (state, []))"
| "startup_handle state StartupEvent_StorageOpened =
     (case state of
        State_OpeningStorage requested \<Rightarrow>
          (State_ReadingMamPreference requested, [Action_ReadMamRequestMode])
      | _ \<Rightarrow> (state, []))"
| "startup_handle state StartupEvent_StorageOpenFailed =
     (case state of State_OpeningStorage _ \<Rightarrow> (State_Failed, []) | _ \<Rightarrow> (state, []))"

datatype mam_pause_event =
    MamPauseEvent_Set mam_request_mode
  | MamPauseEvent_Delete
  | MamPauseEvent_Read "mam_request_mode option"
  | MamPauseEvent_ReadFailed
  | MamPauseEvent_Written
  | MamPauseEvent_WriteFailed
  | MamPauseEvent_Deleted
  | MamPauseEvent_DeleteFailed

fun update_mam_preference ::
    "state \<Rightarrow> mam_preference_update \<Rightarrow> state \<times> action list" where
  "update_mam_preference (State_OpeningStorage _) change = (State_OpeningStorage (Some change), [])"
| "update_mam_preference (State_ReadingMamPreference _) change =
     (State_ReadingMamPreference (Some change), [])"
| "update_mam_preference (State_Ready p) change =
     (let (p, actions) = preference_update p change in (State_Ready p, actions))"
| "update_mam_preference State_NotStarted change = (State_NotStarted, [])"
| "update_mam_preference State_Failed change = (State_Failed, [])"

fun mam_pause_loaded :: "state \<Rightarrow> mam_request_mode option \<Rightarrow> state \<times> action list" where
  "mam_pause_loaded (State_ReadingMamPreference requested) saved =
     (let mode = unwrap_or MamRequestMode_Paused saved;
          state = State_Ready
            \<lparr>preference_saved = saved,
             preference_requested = MamPreferenceUpdate_Set mode,
             preference_effective = (if requested \<noteq> None then MamRequestMode_Paused else mode),
             preference_persistence = MamPreferencePersistence_Idle\<rparr>
      in case requested of
           None \<Rightarrow> (state, [])
         | Some change \<Rightarrow> update_mam_preference state change)"
| "mam_pause_loaded state saved = (state, [])"

fun mam_pause_complete :: "state \<Rightarrow> mam_preference_completion \<Rightarrow> state \<times> action list" where
  "mam_pause_complete (State_Ready p) completion =
     (let (p, actions) = preference_complete p completion in (State_Ready p, actions))"
| "mam_pause_complete state completion = (state, [])"

fun mam_pause_handle :: "state \<Rightarrow> mam_pause_event \<Rightarrow> state \<times> action list" where
  "mam_pause_handle state (MamPauseEvent_Set mode) =
     update_mam_preference state (MamPreferenceUpdate_Set mode)"
| "mam_pause_handle state MamPauseEvent_Delete =
     update_mam_preference state MamPreferenceUpdate_Delete"
| "mam_pause_handle state (MamPauseEvent_Read mode) = mam_pause_loaded state mode"
| "mam_pause_handle state MamPauseEvent_ReadFailed =
     (case state of State_ReadingMamPreference _ \<Rightarrow> (State_Failed, []) | _ \<Rightarrow> (state, []))"
| "mam_pause_handle state MamPauseEvent_Written =
     mam_pause_complete state MamPreferenceCompletion_Written"
| "mam_pause_handle state MamPauseEvent_WriteFailed =
     mam_pause_complete state MamPreferenceCompletion_WriteFailed"
| "mam_pause_handle state MamPauseEvent_Deleted =
     mam_pause_complete state MamPreferenceCompletion_Deleted"
| "mam_pause_handle state MamPauseEvent_DeleteFailed =
     mam_pause_complete state MamPreferenceCompletion_DeleteFailed"

subsection \<open>The preference keeps the storage contract\<close>

text \<open>
  Read as a stored value, an update is the mode it stores, and the outcome of a write is
  reported by the completion that belongs to the update in flight.
\<close>

fun update_of :: "mam_request_mode option \<Rightarrow> mam_preference_update" where
  "update_of (Some mode) = MamPreferenceUpdate_Set mode"
| "update_of None = MamPreferenceUpdate_Delete"

fun preference_writes :: "action list \<Rightarrow> mam_request_mode option option" where
  "preference_writes [Action_WriteMamRequestMode mode] = Some (Some mode)"
| "preference_writes [Action_DeleteMamRequestMode] = Some None"
| "preference_writes _ = None"

fun completion_of :: "mam_preference_update \<Rightarrow> bool \<Rightarrow> mam_preference_completion" where
  "completion_of (MamPreferenceUpdate_Set _) True = MamPreferenceCompletion_Written"
| "completion_of (MamPreferenceUpdate_Set _) False = MamPreferenceCompletion_WriteFailed"
| "completion_of MamPreferenceUpdate_Delete True = MamPreferenceCompletion_Deleted"
| "completion_of MamPreferenceUpdate_Delete False = MamPreferenceCompletion_DeleteFailed"

definition preference_finish ::
    "bool \<Rightarrow> mam_preference_state \<Rightarrow> mam_preference_state \<times> action list" where
  "preference_finish ok p =
     (case preference_pending p of
        None \<Rightarrow> (p, [])
      | Some u \<Rightarrow> preference_complete p (completion_of u ok))"

lemma update_of_stored [simp]: "update_of (preference_update_stored u) = u"
  by (cases u) auto

lemma stored_update_of [simp]: "preference_update_stored (update_of v) = v"
  by (cases v) auto

lemma stored_eq_iff [simp]: "preference_update_stored u = preference_update_stored v \<longleftrightarrow> u = v"
  by (metis update_of_stored)

lemma writes_action [simp]:
  "preference_writes [preference_update_action u] = Some (preference_update_stored u)"
  by (cases u) auto

lemma completion_success [simp]:
  "preference_completion_success u (completion_of u ok) = Some ok"
  by (cases u; cases ok) auto

declare preference_pending.simps [simp del]

lemma preference_pending_simps [simp]:
  "preference_persistence p = MamPreferencePersistence_Pending u \<Longrightarrow> preference_pending p = Some u"
  "preference_persistence p = MamPreferencePersistence_Idle \<Longrightarrow> preference_pending p = None"
  "preference_persistence p = MamPreferencePersistence_Failed \<Longrightarrow> preference_pending p = None"
  by (simp_all add: preference_pending.simps)

lemma preference_pending_frame [simp]:
  "preference_pending (p\<lparr>preference_requested := r\<rparr>) = preference_pending p"
  "preference_pending (p\<lparr>preference_effective := e\<rparr>) = preference_pending p"
  "preference_pending (p\<lparr>preference_saved := s\<rparr>) = preference_pending p"
  by (simp_all add: preference_pending.simps)

lemma preference_update_facts:
  assumes "preference_update p change = (q, as)"
  shows "preference_requested q = change" and "preference_saved q = preference_saved p"
    and "preference_pending p = Some u \<Longrightarrow> preference_pending q = Some u \<and> as = []"
    and "preference_pending p = None \<Longrightarrow> preference_update_stored change = preference_saved p \<Longrightarrow>
      preference_pending q = None \<and> as = []"
    and "preference_pending p = None \<Longrightarrow> preference_update_stored change \<noteq> preference_saved p \<Longrightarrow>
      preference_pending q = Some change \<and> as = [preference_update_action change]"
  using assms by (auto simp: preference_update_def Let_def split: if_splits)

text \<open>The state a completed write leaves, before a newer request is started.\<close>

definition preference_settled ::
    "bool \<Rightarrow> mam_preference_update \<Rightarrow> mam_preference_state \<Rightarrow> mam_preference_state" where
  "preference_settled ok u p = p\<lparr>
     preference_saved := (if ok then preference_update_stored u else preference_saved p),
     preference_persistence := (if ok then MamPreferencePersistence_Idle else MamPreferencePersistence_Failed),
     preference_effective := (if ok \<and> u = preference_requested p then preference_update_mode u
                              else MamRequestMode_Paused)\<rparr>"

lemma preference_settled_simps [simp]:
  "preference_requested (preference_settled ok u p) = preference_requested p"
  "preference_saved (preference_settled ok u p) =
     (if ok then preference_update_stored u else preference_saved p)"
  "preference_pending (preference_settled ok u p) = None"
  "preference_effective (preference_settled ok u p) =
     (if ok \<and> u = preference_requested p then preference_update_mode u else MamRequestMode_Paused)"
  by (simp_all add: preference_settled_def preference_pending.simps)

lemma preference_complete_eq:
  "preference_pending p = Some u \<Longrightarrow> preference_completion_success u c = Some ok \<Longrightarrow>
     preference_complete p c =
       (if u \<noteq> preference_requested p
        then preference_update (preference_settled ok u p) (preference_requested p)
        else (preference_settled ok u p, []))"
  by (cases ok) (simp_all add: preference_complete_def preference_settled_def)

lemma preference_finish_eq:
  "preference_pending p = Some u \<Longrightarrow>
     preference_finish ok p =
       (if u \<noteq> preference_requested p
        then preference_update (preference_settled ok u p) (preference_requested p)
        else (preference_settled ok u p, []))"
  by (simp add: preference_finish_def preference_complete_eq)

lemma preference_finish_facts:
  assumes "preference_finish ok p = (q, as)" and "preference_pending p = Some u"
  shows "preference_requested q = preference_requested p"
    and "preference_saved q = (if ok then preference_update_stored u else preference_saved p)"
    and "preference_pending q =
      (if u = preference_requested p \<or> preference_update_stored (preference_requested p) = preference_saved q
       then None else Some (preference_requested p))"
    and "preference_writes as = map_option preference_update_stored (preference_pending q)"
proof -
  let ?b = "preference_settled ok u p" and ?r = "preference_requested p"
  have eq: "(q, as) = (if u \<noteq> ?r then preference_update ?b ?r else (?b, []))"
    using assms preference_finish_eq by simp
  show "preference_requested q = ?r"
    and "preference_saved q = (if ok then preference_update_stored u else preference_saved p)"
    and "preference_pending q =
      (if u = ?r \<or> preference_update_stored ?r = preference_saved q then None else Some ?r)"
    using eq preference_update_facts [of ?b ?r q as] by (auto split: if_splits)
  show "preference_writes as = map_option preference_update_stored (preference_pending q)"
  proof (cases "u = ?r")
    case False
    with eq have e: "preference_update ?b ?r = (q, as)" by simp
    have "preference_pending ?b = None" by simp
    note facts = preference_update_facts(4,5) [OF e this]
    show ?thesis
      using facts by (cases "preference_update_stored ?r = preference_saved ?b") force+
  qed (use eq in simp)
qed

interpretation preference: saved_value
  "\<lambda>p. map_option preference_update_stored (preference_pending p)"
  "\<lambda>p. preference_update_stored (preference_requested p)"
  preference_saved
  "\<lambda>v p. (fst (preference_update p (update_of v)), preference_writes (snd (preference_update p (update_of v))))"
  "\<lambda>ok p. (fst (preference_finish ok p), preference_writes (snd (preference_finish ok p)))"
proof (unfold_locales, goal_cases)
  case (1 s p v t w)
  then show ?case
    using preference_update_facts(1-3) [of s "update_of v" "fst (preference_update s (update_of v))"
        "snd (preference_update s (update_of v))"] by auto
next
  case (2 s v t w)
  then show ?case
    using preference_update_facts(1,2,4,5) [of s "update_of v" "fst (preference_update s (update_of v))"
        "snd (preference_update s (update_of v))"] by auto
next
  case (3 s ok)
  then show ?case by (simp add: preference_finish_def)
next
  case (4 s p ok t w)
  then obtain u where u: "preference_pending s = Some u" "p = preference_update_stored u" by auto
  show ?case
    using 4(2) u preference_finish_facts [of ok s "fst (preference_finish ok s)"
        "snd (preference_finish ok s)" u] by (auto split: if_splits)
qed

subsection \<open>Requests run only when resuming was saved\<close>

definition preference_inv :: "mam_preference_state \<Rightarrow> bool" where
  "preference_inv p \<longleftrightarrow>
     (preference_effective p = MamRequestMode_Enabled \<longrightarrow>
        preference_persistence p = MamPreferencePersistence_Idle \<and>
        preference_saved p = Some MamRequestMode_Enabled \<and>
        preference_requested p = MamPreferenceUpdate_Set MamRequestMode_Enabled)"

fun state_inv :: "state \<Rightarrow> bool" where
  "state_inv (State_Ready p) = preference_inv p"
| "state_inv _ = True"

text \<open>Startup and pause events as one machine over the core's state.\<close>

fun state_step :: "state \<Rightarrow> startup_event + mam_pause_event \<Rightarrow> state \<times> action list" where
  "state_step s (Inl e) = startup_handle s e"
| "state_step s (Inr e) = mam_pause_handle s e"

lemma enabled_stored: "preference_update_stored u = Some MamRequestMode_Enabled \<longleftrightarrow>
    u = MamPreferenceUpdate_Set MamRequestMode_Enabled"
  by (cases u) auto

lemma mode_not_paused: "preference_update_mode u = MamRequestMode_Enabled \<longleftrightarrow>
    u = MamPreferenceUpdate_Set MamRequestMode_Enabled"
  by (cases u) auto

lemma not_paused_enabled [simp]: "m \<noteq> MamRequestMode_Paused \<longleftrightarrow> m = MamRequestMode_Enabled"
  by (cases m) auto

lemma preference_update_inv: "preference_inv p \<Longrightarrow> preference_inv (fst (preference_update p change))"
  by (cases "preference_persistence p")
    (auto simp: preference_inv_def preference_update_def Let_def mode_not_paused)

lemma preference_update_inv_paused:
  "preference_effective p = MamRequestMode_Paused \<Longrightarrow>
     preference_inv (fst (preference_update p change))"
  by (rule preference_update_inv) (simp add: preference_inv_def)

lemma preference_settled_inv:
  "preference_update_mode (preference_requested p) = MamRequestMode_Enabled \<or>
     preference_effective (preference_settled ok u p) = MamRequestMode_Paused \<Longrightarrow>
     preference_inv (preference_settled ok u p)"
  by (auto simp: preference_inv_def preference_settled_def mode_not_paused split: if_splits)

lemma preference_complete_inv:
  assumes "preference_inv p"
  shows "preference_inv (fst (preference_complete p c))"
proof (cases "preference_pending p")
  case (Some u)
  show ?thesis
  proof (cases "preference_completion_success u c")
    case (Some ok)
    have "preference_inv (preference_settled ok u p)"
      by (rule preference_settled_inv) (auto simp: mode_not_paused)
    then show ?thesis
      using preference_complete_eq [OF \<open>preference_pending p = Some u\<close> Some]
      by (auto intro: preference_update_inv)
  qed (use assms Some in \<open>simp add: preference_complete_def\<close>)
qed (use assms in \<open>simp add: preference_complete_def\<close>)

lemma preference_loaded_inv:
  "preference_inv \<lparr>preference_saved = saved,
     preference_requested = MamPreferenceUpdate_Set (unwrap_or MamRequestMode_Paused saved),
     preference_effective = unwrap_or MamRequestMode_Paused saved,
     preference_persistence = MamPreferencePersistence_Idle\<rparr>"
  by (cases saved) (auto simp: preference_inv_def)

lemma state_step_inv: "state_inv s \<Longrightarrow> state_inv (fst (state_step s e))"
proof (cases e)
  case (Inl a)
  assume "state_inv s"
  with Inl show ?thesis by (cases a) (auto split: state.split)
next
  case (Inr b)
  assume inv: "state_inv s"
  have upd: "state_inv (fst (update_mam_preference s u))" for u
    using inv preference_update_inv by (cases s) (auto simp: split_beta)
  have com: "state_inv (fst (mam_pause_complete s c))" for c
    using inv preference_complete_inv by (cases s) (auto simp: split_beta)
  have load: "state_inv (fst (mam_pause_loaded s m))" for m
    using inv
    by (cases s)
      (auto simp: Let_def split_beta preference_loaded_inv intro!: preference_update_inv_paused
        split: option.split)
  show ?thesis using Inr inv upd com load by (cases b) (auto split: state.split)
qed

interpretation state_machine: invariant_machine state_step State_NotStarted "\<lambda>_. True" state_inv
  by unfold_locales (auto simp: state_step_inv)

lemma running_iff:
  "state_mam_requests s = MamRequestsStatus_Running \<longleftrightarrow>
     (\<exists>p. s = State_Ready p \<and> preference_persistence p = MamPreferencePersistence_Idle \<and>
          preference_effective p = MamRequestMode_Enabled)"
proof (cases s)
  case (State_Ready p)
  then show ?thesis
    by (auto simp: preference_status_def split: mam_request_mode.splits
        mam_preference_persistence.splits)
qed auto

subsection \<open>A pause holds, a finished save settles the status\<close>

fun paused_state :: "state \<Rightarrow> bool" where
  "paused_state (State_Ready p) =
     (preference_update_mode (preference_requested p) = MamRequestMode_Paused \<and>
      preference_effective p = MamRequestMode_Paused)"
| "paused_state _ = True"

fun pause_request :: "mam_pause_event \<Rightarrow> bool" where
  "pause_request (MamPauseEvent_Set mode) = (mode = MamRequestMode_Paused)"
| "pause_request MamPauseEvent_Delete = True"
| "pause_request _ = False"

fun pause_completion :: "mam_pause_event \<Rightarrow> bool" where
  "pause_completion MamPauseEvent_Written = True"
| "pause_completion MamPauseEvent_WriteFailed = True"
| "pause_completion MamPauseEvent_Deleted = True"
| "pause_completion MamPauseEvent_DeleteFailed = True"
| "pause_completion _ = False"

lemma paused_not_running: "paused_state s \<Longrightarrow> state_mam_requests s \<noteq> MamRequestsStatus_Running"
  by (auto simp: running_iff)

lemma preference_update_paused:
  "preference_update_mode change = MamRequestMode_Paused \<Longrightarrow>
     paused_state (State_Ready (fst (preference_update p change)))"
  by (simp add: preference_update_def Let_def)

lemma preference_complete_paused:
  assumes "paused_state (State_Ready p)"
  shows "paused_state (State_Ready (fst (preference_complete p c)))"
proof (cases "preference_pending p")
  case (Some u)
  show ?thesis
  proof (cases "preference_completion_success u c")
    case (Some ok)
    then show ?thesis
      using assms preference_complete_eq [OF \<open>preference_pending p = Some u\<close> Some]
        preference_update_paused [of "preference_requested p" "preference_settled ok u p"]
      by (cases "u = preference_requested p") auto
  qed (use assms Some in \<open>simp add: preference_complete_def\<close>)
qed (use assms in \<open>simp add: preference_complete_def\<close>)

lemma pause_request_paused: "pause_request e \<Longrightarrow> paused_state (fst (mam_pause_handle s e))"
  using preference_update_paused
  by (cases s; cases e) (auto simp: split_beta)

lemma pause_completion_paused:
  "paused_state s \<Longrightarrow> pause_completion e \<Longrightarrow> paused_state (fst (mam_pause_handle s e))"
  using preference_complete_paused
  by (cases s; cases e) (auto simp: split_beta)

lemma preference_finish_status:
  assumes "preference_pending p = Some u" "preference_pending (fst (preference_finish True p)) = None"
  shows "preference_status (fst (preference_finish True p)) =
    (case preference_update_mode (preference_requested p) of
       MamRequestMode_Paused \<Rightarrow> MamRequestsStatus_Paused
     | MamRequestMode_Enabled \<Rightarrow> MamRequestsStatus_Running)"
  using assms
  by (auto simp: preference_finish_eq preference_status_def preference_update_def Let_def
      preference_settled_def split: mam_request_mode.splits if_splits)

interpretation pause_holds: invariant_machine mam_pause_handle
  "fst (mam_pause_handle State_NotStarted MamPauseEvent_Delete)" pause_completion paused_state
  by unfold_locales (auto simp: pause_completion_paused)

subsection \<open>Properties\<close>

text \<open>
  C12. MAM requests run only when that was saved: after any sequence of startup and pause events,
  the status is Running only if the preference read from or written to storage is Enabled, it is
  also the latest one asked for, and no write is in flight or failed.
\<close>

theorem running_means_saved:
  assumes "state_mam_requests (fst (run state_step State_NotStarted es)) = MamRequestsStatus_Running"
  shows "\<exists>p. fst (run state_step State_NotStarted es) = State_Ready p \<and>
    preference_saved p = Some MamRequestMode_Enabled \<and>
    preference_requested p = MamPreferenceUpdate_Set MamRequestMode_Enabled \<and>
    preference_persistence p = MamPreferencePersistence_Idle"
proof -
  have "state_inv (fst (run state_step State_NotStarted es))"
    by (rule state_machine.inv_run) (simp add: list_all_iff)
  with assms show ?thesis by (auto simp: running_iff preference_inv_def)
qed

theorem running_means_saved_witness:
  "state_mam_requests (fst (run state_step State_NotStarted
     [Inl (StartupEvent_Start StartupMode_Resume), Inl StartupEvent_StorageOpened,
      Inr (MamPauseEvent_Read (Some MamRequestMode_Enabled))])) = MamRequestsStatus_Running \<and>
   (\<exists>p. fst (run state_step State_NotStarted
     [Inl (StartupEvent_Start StartupMode_Resume), Inl StartupEvent_StorageOpened,
      Inr (MamPauseEvent_Read (Some MamRequestMode_Enabled))]) = State_Ready p \<and>
    preference_saved p = Some MamRequestMode_Enabled \<and>
    preference_requested p = MamPreferenceUpdate_Set MamRequestMode_Enabled \<and>
    preference_persistence p = MamPreferencePersistence_Idle)"
proof -
  let ?es = "[Inl (StartupEvent_Start StartupMode_Resume), Inl StartupEvent_StorageOpened,
      Inr (MamPauseEvent_Read (Some MamRequestMode_Enabled))]"
  have run: "state_mam_requests (fst (run state_step State_NotStarted ?es)) = MamRequestsStatus_Running"
    by (simp add: preference_status_def)
  show ?thesis using run running_means_saved [OF run] by blast
qed

text \<open>
  C17. A pause applies at once and lasts: whatever the state, after the owner pauses (or deletes
  the preference), no outcome of the writes in flight, successes or failures in any number and
  order, makes requests run again.
\<close>

theorem pause_applies_and_lasts:
  assumes "pause_request e" and "list_all pause_completion es"
  shows "state_mam_requests (fst (run mam_pause_handle (fst (mam_pause_handle s e)) es))
    \<noteq> MamRequestsStatus_Running"
  using pause_holds.inv_run_from [OF pause_request_paused [OF assms(1)] assms(2)]
  by (rule paused_not_running)

theorem pause_applies_and_lasts_witness:
  "pause_request MamPauseEvent_Delete \<and>
   list_all pause_completion [MamPauseEvent_Written, MamPauseEvent_DeleteFailed] \<and>
   state_mam_requests (fst (run mam_pause_handle (fst (mam_pause_handle
     (State_Ready \<lparr>preference_saved = Some MamRequestMode_Enabled,
        preference_requested = MamPreferenceUpdate_Set MamRequestMode_Enabled,
        preference_effective = MamRequestMode_Enabled,
        preference_persistence = MamPreferencePersistence_Idle\<rparr>)
     MamPauseEvent_Delete)) [MamPauseEvent_Written, MamPauseEvent_DeleteFailed]))
     \<noteq> MamRequestsStatus_Running"
proof -
  have h: "pause_request MamPauseEvent_Delete"
    "list_all pause_completion [MamPauseEvent_Written, MamPauseEvent_DeleteFailed]" by simp_all
  show ?thesis using h pause_applies_and_lasts [OF h] by blast
qed

text \<open>
  C18. The latest preference wins: from any state with a write in flight, two successful writes
  leave nothing in flight, the mode last asked for is the saved one, and the status shown is the
  one for that mode.
\<close>

theorem preference_converges:
  assumes "preference_pending p = Some u"
  defines "q \<equiv> fst (preference_finish True (fst (preference_finish True p)))"
  shows "preference_pending q = None \<and>
    preference_saved q = preference_update_stored (preference_requested p) \<and>
    preference_status q =
      (case preference_update_mode (preference_requested p) of
         MamRequestMode_Paused \<Rightarrow> MamRequestsStatus_Paused
       | MamRequestMode_Enabled \<Rightarrow> MamRequestsStatus_Running)"
proof -
  let ?p1 = "fst (preference_finish True p)"
  have conv: "preference_pending q = None"
      "preference_saved q = preference_update_stored (preference_requested p)"
    using preference.converges [of p "preference_update_stored u"] assms(1) by (auto simp: q_def)
  have req: "preference_requested ?p1 = preference_requested p"
    using preference.complete_requested [of True p] by simp
  show ?thesis
  proof (cases "preference_pending ?p1")
    case None
    then have "q = ?p1" by (simp add: q_def preference_finish_def)
    with conv None preference_finish_status [OF assms(1)] show ?thesis by simp
  next
    case (Some v)
    with conv(1) have "preference_status q = (case preference_update_mode (preference_requested p) of
         MamRequestMode_Paused \<Rightarrow> MamRequestsStatus_Paused
       | MamRequestMode_Enabled \<Rightarrow> MamRequestsStatus_Running)"
      using preference_finish_status [OF Some] req by (simp add: q_def)
    with conv show ?thesis by simp
  qed
qed

theorem preference_converges_witness:
  "preference_status (fst (preference_finish True (fst (preference_finish True
     \<lparr>preference_saved = None, preference_requested = MamPreferenceUpdate_Set MamRequestMode_Enabled,
      preference_effective = MamRequestMode_Paused,
      preference_persistence = MamPreferencePersistence_Pending (MamPreferenceUpdate_Set MamRequestMode_Paused)\<rparr>))))
   = MamRequestsStatus_Running"
  using preference_converges [of "\<lparr>preference_saved = None,
      preference_requested = MamPreferenceUpdate_Set MamRequestMode_Enabled,
      preference_effective = MamRequestMode_Paused,
      preference_persistence = MamPreferencePersistence_Pending (MamPreferenceUpdate_Set MamRequestMode_Paused)\<rparr>"
      "MamPreferenceUpdate_Set MamRequestMode_Paused"]
  by simp

end
