(* ===== verification/Qbittorrent.thy ===== *)
theory Qbittorrent
  imports Actions
begin

text \<open>
  The connection to qBittorrent (\<open>core/qbittorrent.rs\<close>): connect, poll for changes of the torrent
  list, keep the preferences as wanted, and let the registry issue commands, one request at a
  time. The torrent list is maintained from incremental updates.
\<close>

definition POLL_INTERVAL :: duration where
  "POLL_INTERVAL = secs 10"

type_synonym polls = u8

definition POLLS_PER_PREFERENCES_READ :: polls where
  "POLLS_PER_PREFERENCES_READ = 6"

definition polls_none :: polls where
  "polls_none = 0"

definition polls_plus_one :: "polls \<Rightarrow> polls" where
  "polls_plus_one p = sat_add p 1"

datatype qbittorrent_event =
    QbittorrentEvent_Enable
  | QbittorrentEvent_Connected reported_version qbittorrent_preferences
  | QbittorrentEvent_ConnectFailed qbittorrent_failure
  | QbittorrentEvent_Synced sync_update
  | QbittorrentEvent_SyncFailed qbittorrent_failure
  | QbittorrentEvent_PreferencesRead qbittorrent_preferences
  | QbittorrentEvent_PreferencesReadFailed qbittorrent_failure
  | QbittorrentEvent_ListenPortSet
  | QbittorrentEvent_ListenPortSetFailed qbittorrent_failure
  | QbittorrentEvent_QueueSet
  | QbittorrentEvent_QueueSetFailed qbittorrent_failure
  | QbittorrentEvent_CommandDone
  | QbittorrentEvent_CommandFailed qbittorrent_failure

record wanted =
  wanted_listen_port :: "port option"
  wanted_queue :: "queue_preferences option"

datatype deciding_after = DecidingAfter_Sync | DecidingAfter_Other

datatype activity =
    Activity_Waiting timer_id
  | Activity_Syncing
  | Activity_ReadingPreferences
  | Activity_SettingListenPort port
  | Activity_SettingQueue
  | Activity_Commanding
  | Activity_Deciding deciding_after

datatype listing = Listing_Awaited | Listing_Received

record session =
  session_version :: reported_version
  session_approval :: mam_approval
  session_preferences :: qbittorrent_preferences
  session_torrents :: "(torrent_hash, torrent) btree"
  session_activity :: activity
  session_position :: sync_position
  session_listing :: listing
  session_polls_since_preferences :: polls

datatype qbittorrent =
    Qbittorrent_Disabled
  | Qbittorrent_Connecting
  | Qbittorrent_Unreachable qbittorrent_failure timer_id
  | Qbittorrent_Connected session

subsection \<open>The session\<close>

definition session_listed :: "session \<Rightarrow> bool" where
  "session_listed s \<longleftrightarrow> session_listing s = Listing_Received"

text \<open>\<open>entry(hash).or_default().apply(changes)\<close>.\<close>

definition torrents_change ::
    "(torrent_hash, torrent) btree \<Rightarrow> torrent_hash \<times> torrent_update \<Rightarrow> (torrent_hash, torrent) btree" where
  "torrents_change m = (\<lambda>(hash, changes).
     bt_insert hash (torrent_apply (unwrap_or torrent_default (bt_get m hash)) changes) m)"

definition session_apply :: "session \<Rightarrow> sync_update \<Rightarrow> session" where
  "session_apply s u =
     (let s = (if sync_scope u = SyncScope_Full
               then s\<lparr>session_torrents := [], session_listing := Listing_Received\<rparr> else s);
          torrents = foldl torrents_change (session_torrents s) (sync_torrents u);
          torrents = foldl (\<lambda>m hash. bt_remove hash m) torrents (sync_removed u)
      in s\<lparr>session_torrents := torrents, session_position := sync_position u\<rparr>)"

definition session_set_preferences :: "session \<Rightarrow> wanted \<Rightarrow> session \<times> action list option" where
  "session_set_preferences s wanted =
     (case opt_filter (\<lambda>port. preferences_listen_port (session_preferences s) \<noteq> Some port)
             (wanted_listen_port wanted) of
        Some port \<Rightarrow> (s\<lparr>session_activity := Activity_SettingListenPort port\<rparr>,
                      Some [Action_SetQbittorrentListenPort port])
      | None \<Rightarrow>
          (case opt_filter (\<lambda>queue. is_some_and (\<lambda>current. current \<noteq> queue)
                              (preferences_queue (session_preferences s))) (wanted_queue wanted) of
             Some queue \<Rightarrow> (s\<lparr>session_activity := Activity_SettingQueue\<rparr>,
                            Some [Action_SetQbittorrentQueue queue])
           | None \<Rightarrow> (s, None)))"

definition session_wait ::
    "session \<Rightarrow> clock_reading \<Rightarrow> timers \<Rightarrow> session \<times> timers \<times> action list" where
  "session_wait s now timers =
     (let (timers, i, deadline) = timers_schedule timers (monotonic now) POLL_INTERVAL
      in (s\<lparr>session_activity := Activity_Waiting i\<rparr>, timers,
          [Action_StartTimer TimerName_QbittorrentPoll i deadline]))"

subsection \<open>The connection\<close>

definition qbittorrent_failed ::
    "qbittorrent_failure \<Rightarrow> clock_reading \<Rightarrow> timers \<Rightarrow> qbittorrent \<times> timers \<times> action list" where
  "qbittorrent_failed reason now timers =
     (let (timers, retry, deadline) = timers_schedule timers (monotonic now) POLL_INTERVAL
      in (Qbittorrent_Unreachable reason retry, timers,
          [Action_StartTimer TimerName_QbittorrentPoll retry deadline]))"

fun setting_listen_port :: "activity \<Rightarrow> bool" where
  "setting_listen_port (Activity_SettingListenPort _) = True"
| "setting_listen_port _ = False"

definition qbittorrent_handle ::
    "qbittorrent \<Rightarrow> clock_reading \<Rightarrow> qbittorrent_event \<Rightarrow> timers \<Rightarrow>
     qbittorrent \<times> timers \<times> action list" where
  "qbittorrent_handle q now e timers =
     (case (q, e) of
        (Qbittorrent_Disabled, QbittorrentEvent_Enable) \<Rightarrow>
          (Qbittorrent_Connecting, timers, [Action_ConnectQbittorrent])
      | (Qbittorrent_Connecting, QbittorrentEvent_Connected version preferences) \<Rightarrow>
          (Qbittorrent_Connected
             \<lparr>session_version = version, session_approval = reported_version_mam_approval version,
              session_preferences = preferences, session_torrents = [],
              session_activity = Activity_Syncing, session_position = 0,
              session_listing = Listing_Awaited, session_polls_since_preferences = polls_none\<rparr>,
           timers, [Action_SyncQbittorrent 0])
      | (Qbittorrent_Connected s, QbittorrentEvent_Synced update) \<Rightarrow>
          (if session_activity s = Activity_Syncing
           then (let s = session_apply s update in
                 (Qbittorrent_Connected
                    (s\<lparr>session_polls_since_preferences := polls_plus_one (session_polls_since_preferences s),
                       session_activity := Activity_Deciding DecidingAfter_Sync\<rparr>), timers, []))
           else (q, timers, []))
      | (Qbittorrent_Connected s, QbittorrentEvent_CommandDone) \<Rightarrow>
          (if session_activity s = Activity_Commanding
           then (Qbittorrent_Connected (s\<lparr>session_activity := Activity_Deciding DecidingAfter_Other\<rparr>),
                 timers, [])
           else (q, timers, []))
      | (Qbittorrent_Connected s, QbittorrentEvent_PreferencesRead preferences) \<Rightarrow>
          (if session_activity s = Activity_ReadingPreferences
           then (let (s, timers, actions) = session_wait
                       (s\<lparr>session_preferences := preferences,
                          session_polls_since_preferences := polls_none\<rparr>) now timers
                 in (Qbittorrent_Connected s, timers, actions))
           else (q, timers, []))
      | (Qbittorrent_Connected s, QbittorrentEvent_ListenPortSet) \<Rightarrow>
          (if setting_listen_port (session_activity s)
           then (Qbittorrent_Connected (s\<lparr>session_activity := Activity_ReadingPreferences\<rparr>), timers,
                 [Action_ReadQbittorrentPreferences])
           else (q, timers, []))
      | (Qbittorrent_Connected s, QbittorrentEvent_QueueSet) \<Rightarrow>
          (if session_activity s = Activity_SettingQueue
           then (Qbittorrent_Connected (s\<lparr>session_activity := Activity_ReadingPreferences\<rparr>), timers,
                 [Action_ReadQbittorrentPreferences])
           else (q, timers, []))
      | (Qbittorrent_Connecting, QbittorrentEvent_ConnectFailed reason) \<Rightarrow>
          qbittorrent_failed reason now timers
      | (Qbittorrent_Connected _, QbittorrentEvent_SyncFailed reason) \<Rightarrow>
          qbittorrent_failed reason now timers
      | (Qbittorrent_Connected _, QbittorrentEvent_PreferencesReadFailed reason) \<Rightarrow>
          qbittorrent_failed reason now timers
      | (Qbittorrent_Connected _, QbittorrentEvent_ListenPortSetFailed reason) \<Rightarrow>
          qbittorrent_failed reason now timers
      | (Qbittorrent_Connected _, QbittorrentEvent_QueueSetFailed reason) \<Rightarrow>
          qbittorrent_failed reason now timers
      | (Qbittorrent_Connected _, QbittorrentEvent_CommandFailed reason) \<Rightarrow>
          qbittorrent_failed reason now timers
      | _ \<Rightarrow> (q, timers, []))"

definition qbittorrent_timer_expired :: "qbittorrent \<Rightarrow> timer_id \<Rightarrow> qbittorrent \<times> action list" where
  "qbittorrent_timer_expired q i =
     (case q of
        Qbittorrent_Unreachable reason retry \<Rightarrow>
          (if retry = i then (Qbittorrent_Connecting, [Action_ConnectQbittorrent]) else (q, []))
      | Qbittorrent_Connected s \<Rightarrow>
          (if session_activity s = Activity_Waiting i
           then (Qbittorrent_Connected (s\<lparr>session_activity := Activity_Deciding DecidingAfter_Other\<rparr>), [])
           else (q, []))
      | _ \<Rightarrow> (q, []))"

definition qbittorrent_deciding :: "qbittorrent \<Rightarrow> (session \<times> deciding_after) option" where
  "qbittorrent_deciding q =
     (case q of
        Qbittorrent_Connected s \<Rightarrow>
          (case session_activity s of Activity_Deciding after \<Rightarrow> Some (s, after) | _ \<Rightarrow> None)
      | _ \<Rightarrow> None)"

text \<open>
  \<open>command\<close> is a closure over the registry, which it may change: it takes the registry \<open>r\<close> and
  returns the new one with the command. It runs only where the code calls it.
\<close>

definition qbittorrent_decide ::
    "qbittorrent \<Rightarrow> clock_reading \<Rightarrow> timers \<Rightarrow> wanted \<Rightarrow> ('r \<Rightarrow> session \<Rightarrow> 'r \<times> torrent_command option) \<Rightarrow> 'r \<Rightarrow>
     qbittorrent \<times> timers \<times> 'r \<times> action list" where
  "qbittorrent_decide q now timers wanted command r =
     (case qbittorrent_deciding q of
        None \<Rightarrow> (q, timers, r, [])
      | Some (s, after) \<Rightarrow>
          (case session_set_preferences s wanted of
             (s, Some actions) \<Rightarrow> (Qbittorrent_Connected s, timers, r, actions)
           | (s, None) \<Rightarrow>
               if after = DecidingAfter_Other
               then (Qbittorrent_Connected (s\<lparr>session_activity := Activity_Syncing\<rparr>), timers, r,
                     [Action_SyncQbittorrent (session_position s)])
               else (case command r s of
                       (r, Some c) \<Rightarrow>
                         (Qbittorrent_Connected (s\<lparr>session_activity := Activity_Commanding\<rparr>), timers, r,
                          [Action_QbittorrentCommand c])
                     | (r, None) \<Rightarrow>
                         if POLLS_PER_PREFERENCES_READ \<le> session_polls_since_preferences s
                         then (Qbittorrent_Connected (s\<lparr>session_activity := Activity_ReadingPreferences\<rparr>),
                               timers, r, [Action_ReadQbittorrentPreferences])
                         else (let (s, timers, actions) = session_wait s now timers
                               in (Qbittorrent_Connected s, timers, r, actions)))))"

fun activity_waiting :: "activity \<Rightarrow> bool" where
  "activity_waiting (Activity_Waiting _) = True"
| "activity_waiting _ = False"

definition qbittorrent_follow_preferences :: "qbittorrent \<Rightarrow> wanted \<Rightarrow> qbittorrent \<times> action list" where
  "qbittorrent_follow_preferences q wanted =
     (case q of
        Qbittorrent_Connected s \<Rightarrow>
          (if activity_waiting (session_activity s)
           then (let (s, actions) = session_set_preferences s wanted
                 in (Qbittorrent_Connected s, unwrap_or [] actions))
           else (q, []))
      | _ \<Rightarrow> (q, []))"

subsection \<open>The component as a machine\<close>

text \<open>
  One step of the core, seen from here: an event or a timer or neither, then the choice of the
  next request and the settings to follow, as \<open>Core::handle\<close> and \<open>decide_qbittorrent\<close> compose
  them. \<open>command\<close> is what the registry would answer in this step.
\<close>

datatype qbittorrent_input =
    QbittorrentInput_Event qbittorrent_event
  | QbittorrentInput_Timer timer_id
  | QbittorrentInput_Other

fun qbittorrent_receive ::
    "qbittorrent \<Rightarrow> clock_reading \<Rightarrow> qbittorrent_input \<Rightarrow> timers \<Rightarrow>
     qbittorrent \<times> timers \<times> action list" where
  "qbittorrent_receive q now (QbittorrentInput_Event e) timers = qbittorrent_handle q now e timers"
| "qbittorrent_receive q now (QbittorrentInput_Timer i) timers =
     (let (q, actions) = qbittorrent_timer_expired q i in (q, timers, actions))"
| "qbittorrent_receive q now QbittorrentInput_Other timers = (q, timers, [])"

definition qbittorrent_settle ::
    "qbittorrent \<Rightarrow> clock_reading \<Rightarrow> timers \<Rightarrow> wanted \<Rightarrow> ('r \<Rightarrow> session \<Rightarrow> 'r \<times> torrent_command option) \<Rightarrow> 'r \<Rightarrow>
     qbittorrent \<times> timers \<times> 'r \<times> action list" where
  "qbittorrent_settle q now timers wanted command r =
     (let (q, timers, r, actions) = qbittorrent_decide q now timers wanted command r;
          (q, more) = qbittorrent_follow_preferences q wanted
      in (q, timers, r, actions @ more))"

type_synonym qbittorrent_step_input =
  "clock_reading \<times> qbittorrent_input \<times> wanted \<times> (session \<Rightarrow> torrent_command option)"

fun qbittorrent_step ::
    "qbittorrent \<times> timers \<Rightarrow> qbittorrent_step_input \<Rightarrow> (qbittorrent \<times> timers) \<times> action list" where
  "qbittorrent_step (q, timers) (now, input, wanted, command) =
     (let (q, timers, actions) = qbittorrent_receive q now input timers;
          (q, timers, _, more) = qbittorrent_settle q now timers wanted (\<lambda>r s. (r, command s)) ()
      in ((q, timers), actions @ more))"

fun activity_busy :: "activity \<Rightarrow> bool" where
  "activity_busy (Activity_Waiting _) = False"
| "activity_busy (Activity_Deciding _) = False"
| "activity_busy _ = True"

fun qbittorrent_busy :: "qbittorrent \<Rightarrow> bool" where
  "qbittorrent_busy Qbittorrent_Connecting = True"
| "qbittorrent_busy (Qbittorrent_Connected s) = activity_busy (session_activity s)"
| "qbittorrent_busy _ = False"

fun is_client_request :: "action \<Rightarrow> bool" where
  "is_client_request Action_ConnectQbittorrent = True"
| "is_client_request (Action_SyncQbittorrent _) = True"
| "is_client_request Action_ReadQbittorrentPreferences = True"
| "is_client_request (Action_SetQbittorrentListenPort _) = True"
| "is_client_request (Action_SetQbittorrentQueue _) = True"
| "is_client_request (Action_QbittorrentCommand _) = True"
| "is_client_request _ = False"

fun input_answers :: "qbittorrent_input \<Rightarrow> bool" where
  "input_answers (QbittorrentInput_Event e) \<longleftrightarrow> e \<noteq> QbittorrentEvent_Enable"
| "input_answers _ = False"

definition is_client_answer :: "qbittorrent_step_input \<Rightarrow> bool" where
  "is_client_answer i = input_answers (fst (snd i))"

text \<open>Outside a step no choice is pending, and the torrent list is a proper map.\<close>

fun qbittorrent_wf :: "qbittorrent \<Rightarrow> bool" where
  "qbittorrent_wf (Qbittorrent_Connected s) = bt_wf (session_torrents s)"
| "qbittorrent_wf _ = True"

definition qbittorrent_inv :: "qbittorrent \<times> timers \<Rightarrow> bool" where
  "qbittorrent_inv s \<longleftrightarrow> qbittorrent_deciding (fst s) = None \<and> qbittorrent_wf (fst s)"

text \<open>The settings agree with what is wanted, as far as qBittorrent reports them.\<close>

definition preferences_as_wanted :: "session \<Rightarrow> wanted \<Rightarrow> bool" where
  "preferences_as_wanted s wanted \<longleftrightarrow>
     is_none_or (\<lambda>port. preferences_listen_port (session_preferences s) = Some port)
       (wanted_listen_port wanted) \<and>
     is_none_or (\<lambda>queue. is_none_or (\<lambda>current. current = queue)
       (preferences_queue (session_preferences s))) (wanted_queue wanted)"

lemma set_preferences_cases:
  obtains (change) activity request
    where "session_set_preferences s wanted = (s\<lparr>session_activity := activity\<rparr>, Some [request])"
      and "activity_busy activity" and "is_client_request request"
      and "\<forall>c. request \<noteq> Action_QbittorrentCommand c"
  | (settled) "session_set_preferences s wanted = (s, None)" and "preferences_as_wanted s wanted"
proof (cases "opt_filter (\<lambda>port. preferences_listen_port (session_preferences s) \<noteq> Some port)
    (wanted_listen_port wanted)")
  case (Some port)
  then show ?thesis
    by (intro change [of "Activity_SettingListenPort port" "Action_SetQbittorrentListenPort port"])
      (simp_all add: session_set_preferences_def)
next
  case port: None
  show ?thesis
  proof (cases "opt_filter (\<lambda>queue. is_some_and (\<lambda>current. current \<noteq> queue)
      (preferences_queue (session_preferences s))) (wanted_queue wanted)")
    case (Some queue)
    with port show ?thesis
      by (intro change [of Activity_SettingQueue "Action_SetQbittorrentQueue queue"])
        (simp_all add: session_set_preferences_def)
  next
    case None
    with port have "session_set_preferences s wanted = (s, None)"
      by (simp add: session_set_preferences_def)
    moreover from port None have "preferences_as_wanted s wanted"
      by (auto simp: preferences_as_wanted_def opt_filter_None is_none_or_iff is_some_and_iff)
    ultimately show ?thesis by (rule settled)
  qed
qed

lemma session_wait_eq:
  "session_wait s now timers =
     (s\<lparr>session_activity := Activity_Waiting (timers_next timers)\<rparr>,
      fst (timers_schedule timers (monotonic now) POLL_INTERVAL),
      [Action_StartTimer TimerName_QbittorrentPoll (timers_next timers)
         \<lparr>deadline_at = unwrap_or (monotonic now) (checked_add (monotonic now) POLL_INTERVAL),
          deadline_after = POLL_INTERVAL\<rparr>])"
  by (simp add: session_wait_def timers_schedule_def Let_def)

lemma qbittorrent_failed_eq:
  "qbittorrent_failed reason now timers =
     (Qbittorrent_Unreachable reason (timers_next timers),
      fst (timers_schedule timers (monotonic now) POLL_INTERVAL),
      [Action_StartTimer TimerName_QbittorrentPoll (timers_next timers)
         \<lparr>deadline_at = unwrap_or (monotonic now) (checked_add (monotonic now) POLL_INTERVAL),
          deadline_after = POLL_INTERVAL\<rparr>])"
  by (simp add: qbittorrent_failed_def timers_schedule_def Let_def)

lemma deciding_iff:
  "qbittorrent_deciding q = Some (s, after) \<longleftrightarrow>
     q = Qbittorrent_Connected s \<and> session_activity s = Activity_Deciding after"
  by (auto simp: qbittorrent_deciding_def split: qbittorrent.splits activity.splits)

lemma deciding_None_connected [simp]:
  "qbittorrent_deciding (Qbittorrent_Connected s) = None \<longleftrightarrow>
     (\<forall>after. session_activity s \<noteq> Activity_Deciding after)"
  "qbittorrent_deciding Qbittorrent_Disabled = None"
  "qbittorrent_deciding Qbittorrent_Connecting = None"
  "qbittorrent_deciding (Qbittorrent_Unreachable reason retry) = None"
  by (auto simp: qbittorrent_deciding_def split: activity.splits)

lemma busy_not_deciding: "activity_busy a \<Longrightarrow> a \<noteq> Activity_Deciding after \<and> \<not> activity_waiting a"
  by (cases a) auto

subsection \<open>What each half of a step does\<close>

lemma torrents_change_wf: "bt_wf m \<Longrightarrow> bt_wf (foldl torrents_change m ts)"
  by (induction ts arbitrary: m) (auto simp: torrents_change_def split_beta)

lemma torrents_removed_wf: "bt_wf m \<Longrightarrow> bt_wf (foldl (\<lambda>m hash. bt_remove hash m) m hs)"
  by (induction hs arbitrary: m) auto

lemma session_apply_wf: "bt_wf (session_torrents s) \<Longrightarrow> bt_wf (session_torrents (session_apply s u))"
  by (simp add: session_apply_def Let_def torrents_change_wf torrents_removed_wf)

lemma qbittorrent_receive_flight:
  assumes "qbittorrent_deciding q = None" and "qbittorrent_receive q now input timers = (q', timers', actions)"
  shows "sent is_client_request actions + of_bool (qbittorrent_busy q)
    \<le> of_bool (qbittorrent_busy q') + of_bool (input_answers input)"
proof (cases input)
  case (QbittorrentInput_Event e)
  with assms show ?thesis
    by (cases q; cases e)
      (auto simp: qbittorrent_handle_def qbittorrent_failed_eq session_wait_eq Let_def
        split: if_splits)
next
  case (QbittorrentInput_Timer i)
  with assms show ?thesis
    by (auto simp: qbittorrent_timer_expired_def split: qbittorrent.splits if_splits)
qed (use assms in auto)

lemma qbittorrent_receive_wf:
  assumes "qbittorrent_wf q" and "qbittorrent_receive q now input timers = (q', timers', actions)"
  shows "qbittorrent_wf q'"
proof (cases input)
  case (QbittorrentInput_Event e)
  with assms show ?thesis
    by (cases q; cases e)
      (auto simp: qbittorrent_handle_def qbittorrent_failed_eq session_wait_eq Let_def session_apply_wf
        split: if_splits)
next
  case (QbittorrentInput_Timer i)
  with assms show ?thesis
    by (auto simp: qbittorrent_timer_expired_def split: qbittorrent.splits if_splits)
qed (use assms in auto)

lemma qbittorrent_decide_cases:
  assumes "qbittorrent_decide q now timers wanted command r = (q', timers', r', actions)"
  obtains (idle) "qbittorrent_deciding q = None" "q' = q" "actions = []"
  | (request) s after activity a where "q = Qbittorrent_Connected s"
      "session_activity s = Activity_Deciding after"
      "q' = Qbittorrent_Connected (s\<lparr>session_activity := activity\<rparr>)" "activity_busy activity"
      "actions = [a]" "is_client_request a"
      "(\<exists>c. a = Action_QbittorrentCommand c) \<longrightarrow>
         after = DecidingAfter_Sync \<and> preferences_as_wanted s wanted \<and>
         (\<exists>c. a = Action_QbittorrentCommand c \<and> snd (command r s) = Some c)"
  | (wait) s i d where "q = Qbittorrent_Connected s"
      "session_activity s = Activity_Deciding DecidingAfter_Sync"
      "q' = Qbittorrent_Connected (s\<lparr>session_activity := Activity_Waiting i\<rparr>)"
      "actions = [Action_StartTimer TimerName_QbittorrentPoll i d]"
proof (cases "qbittorrent_deciding q")
  case None
  with assms show ?thesis by (intro idle) (simp_all add: qbittorrent_decide_def)
next
  case (Some p)
  obtain s after where p: "p = (s, after)" by (cases p)
  have s: "q = Qbittorrent_Connected s" "session_activity s = Activity_Deciding after"
    using Some p by (simp_all add: deciding_iff)
  show ?thesis
  proof (cases rule: set_preferences_cases [of s wanted])
    case (change activity a)
    with assms Some p s show ?thesis
      by (intro request [of s after activity a]) (auto simp: qbittorrent_decide_def)
  next
    case settled
    show ?thesis
    proof (cases "after = DecidingAfter_Other")
      case True
      with assms Some p s settled show ?thesis
        by (intro request [of s after Activity_Syncing]) (auto simp: qbittorrent_decide_def)
    next
      case False
      then have after: "after = DecidingAfter_Sync" by (cases after) auto
      obtain r1 c where c: "command r s = (r1, c)" by (cases "command r s")
      show ?thesis
      proof (cases c)
        case (Some c')
        with assms \<open>qbittorrent_deciding q = Some p\<close> p s settled after c show ?thesis
          by (intro request [of s after Activity_Commanding]) (auto simp: qbittorrent_decide_def)
      next
        case None
        with assms Some p settled after c have
          "(q', timers', r', actions) =
             (if POLLS_PER_PREFERENCES_READ \<le> session_polls_since_preferences s
              then (Qbittorrent_Connected (s\<lparr>session_activity := Activity_ReadingPreferences\<rparr>),
                    timers, r1, [Action_ReadQbittorrentPreferences])
              else (let (s, timers, actions) = session_wait s now timers
                    in (Qbittorrent_Connected s, timers, r1, actions)))"
          by (simp add: qbittorrent_decide_def)
        with s after show ?thesis
          by (cases "POLLS_PER_PREFERENCES_READ \<le> session_polls_since_preferences s")
            (auto simp: session_wait_eq intro: request [of s after Activity_ReadingPreferences] wait)
      qed
    qed
  qed
qed

lemma qbittorrent_decide_done:
  assumes "qbittorrent_decide q now timers wanted command r = (q', timers', r', actions)"
  shows "qbittorrent_deciding q' = None"
    and "sent is_client_request actions + of_bool (qbittorrent_busy q) \<le> (of_bool (qbittorrent_busy q') :: nat)"
    and "qbittorrent_wf q \<Longrightarrow> qbittorrent_wf q'"
  using assms by (cases rule: qbittorrent_decide_cases; auto dest: busy_not_deciding)+

lemma qbittorrent_follow_cases:
  obtains (request) s activity a where "q = Qbittorrent_Connected s" "activity_waiting (session_activity s)"
      "qbittorrent_follow_preferences q wanted =
         (Qbittorrent_Connected (s\<lparr>session_activity := activity\<rparr>), [a])"
      "activity_busy activity" "is_client_request a" "\<forall>c. a \<noteq> Action_QbittorrentCommand c"
  | (idle) "qbittorrent_follow_preferences q wanted = (q, [])"
      "\<And>s. q = Qbittorrent_Connected s \<Longrightarrow> activity_waiting (session_activity s) \<Longrightarrow> preferences_as_wanted s wanted"
proof (cases "\<exists>s. q = Qbittorrent_Connected s \<and> activity_waiting (session_activity s)")
  case True
  then obtain s where s: "q = Qbittorrent_Connected s" "activity_waiting (session_activity s)" by blast
  show ?thesis
    by (cases rule: set_preferences_cases [of s wanted])
      (use s in \<open>auto simp: qbittorrent_follow_preferences_def intro: request idle\<close>)
next
  case False
  then show ?thesis
    by (intro idle) (auto simp: qbittorrent_follow_preferences_def split: qbittorrent.split)
qed

lemma waiting_not_busy: "activity_waiting a \<Longrightarrow> \<not> activity_busy a"
  by (cases a) auto

lemma qbittorrent_settle_done:
  assumes "qbittorrent_settle q now timers wanted command r = (q', timers', r', actions)"
  shows "qbittorrent_deciding q' = None \<and>
    sent is_client_request actions + of_bool (qbittorrent_busy q) \<le> (of_bool (qbittorrent_busy q') :: nat) \<and>
    (qbittorrent_wf q \<longrightarrow> qbittorrent_wf q') \<and>
    (\<forall>s. q' = Qbittorrent_Connected s \<longrightarrow> activity_waiting (session_activity s) \<longrightarrow>
       preferences_as_wanted s wanted) \<and>
    (\<forall>c. Action_QbittorrentCommand c \<in> set actions \<longrightarrow>
       (\<exists>s. q = Qbittorrent_Connected s \<and> session_activity s = Activity_Deciding DecidingAfter_Sync \<and>
            preferences_as_wanted s wanted \<and> snd (command r s) = Some c))"
proof -
  obtain q1 t1 r1 a1 where d: "qbittorrent_decide q now timers wanted command r = (q1, t1, r1, a1)"
    by (metis surj_pair)
  have commands: "\<exists>s. q = Qbittorrent_Connected s \<and> session_activity s = Activity_Deciding DecidingAfter_Sync \<and>
            preferences_as_wanted s wanted \<and> snd (command r s) = Some c"
    if "Action_QbittorrentCommand c \<in> set a1" for c
    using d that by (cases rule: qbittorrent_decide_cases) auto
  show ?thesis
  proof (cases rule: qbittorrent_follow_cases [of q1 wanted])
    case (request s activity a)
    with assms d qbittorrent_decide_done [OF d] show ?thesis
      by (auto simp: qbittorrent_settle_def dest: busy_not_deciding waiting_not_busy intro: commands)
  next
    case idle
    with assms d qbittorrent_decide_done [OF d] show ?thesis
      by (auto simp: qbittorrent_settle_def intro: commands)
  qed
qed

lemma qbittorrent_step_parts:
  obtains q1 t1 a1 q2 t2 a2 where "qbittorrent_receive q now input timers = (q1, t1, a1)"
    "qbittorrent_settle q1 now t1 wanted (\<lambda>r s. (r, command s)) () = (q2, t2, (), a2)"
    "qbittorrent_step (q, timers) (now, input, wanted, command) = ((q2, t2), a1 @ a2)"
proof -
  obtain q1 t1 a1 where "qbittorrent_receive q now input timers = (q1, t1, a1)" by (metis surj_pair)
  moreover obtain q2 t2 u a2 where
    "qbittorrent_settle q1 now t1 wanted (\<lambda>r s. (r, command s)) () = (q2, t2, u, a2)"
    by (metis surj_pair)
  ultimately show ?thesis using that by simp
qed

declare qbittorrent_step.simps [simp del]

interpretation qbittorrent: single_flight qbittorrent_step "(Qbittorrent_Disabled, timers_new)"
  "\<lambda>_. True" qbittorrent_inv "\<lambda>s. qbittorrent_busy (fst s)" is_client_request is_client_answer
proof (unfold_locales, goal_cases)
  case 1
  show ?case by (simp add: qbittorrent_inv_def)
next
  case (2 s i)
  obtain q timers now input wanted command where s: "s = (q, timers)"
    and i: "i = (now, input, wanted, command)" by (metis surj_pair)
  show ?case
    by (rule qbittorrent_step_parts [of q now input timers wanted command])
      (use 2 s i in \<open>auto simp: qbittorrent_inv_def dest: qbittorrent_receive_wf qbittorrent_settle_done\<close>)
next
  case (3 s i)
  obtain q timers now input wanted command where s: "s = (q, timers)"
    and i: "i = (now, input, wanted, command)" by (metis surj_pair)
  obtain q1 t1 a1 q2 t2 a2 where parts: "qbittorrent_receive q now input timers = (q1, t1, a1)"
    "qbittorrent_settle q1 now t1 wanted (\<lambda>r s. (r, command s)) () = (q2, t2, (), a2)"
    "qbittorrent_step (q, timers) (now, input, wanted, command) = ((q2, t2), a1 @ a2)"
    by (rule qbittorrent_step_parts)
  have "qbittorrent_deciding q = None" using 3 s by (simp add: qbittorrent_inv_def)
  from qbittorrent_receive_flight [OF this parts(1)] qbittorrent_settle_done [OF parts(2)]
  show ?case by (simp add: s i parts(3) is_client_answer_def)
qed

subsection \<open>Merging an update\<close>

text \<open>What an update says of one torrent: its own changes in order, and whether it is gone.\<close>

definition changes_of :: "torrent_hash \<Rightarrow> (torrent_hash \<times> torrent_update) list \<Rightarrow> torrent_update list" where
  "changes_of hash ts = map snd (filter (\<lambda>p. fst p = hash) ts)"

definition torrent_after :: "torrent option \<Rightarrow> torrent_update list \<Rightarrow> torrent option" where
  "torrent_after t us =
     (if us = [] then t else Some (foldl torrent_apply (unwrap_or torrent_default t) us))"

lemma torrents_changed_get:
  "bt_get (foldl torrents_change m ts) hash = torrent_after (bt_get m hash) (changes_of hash ts)"
proof (induction ts arbitrary: m)
  case (Cons p ts)
  obtain h u where p: "p = (h, u)" by (cases p)
  show ?case
    using Cons [of "torrents_change m p"] by (auto simp: p torrents_change_def changes_of_def torrent_after_def)
qed (simp add: changes_of_def torrent_after_def)

lemma torrents_removed_get:
  "bt_get (foldl (\<lambda>m hash. bt_remove hash m) m hs) hash = (if hash \<in> set hs then None else bt_get m hash)"
  for m :: "('k::linorder, 'v) btree"
  by (induction hs arbitrary: m) auto

subsection \<open>Properties\<close>

text \<open>
  One request at a time with qBittorrent: over any sequence of answers, timers and other
  events, and whatever the registry commands and settings are wanted, the requests sent
  outnumber the answers received by at most one.
\<close>

theorem client_requests_do_not_overlap:
  "sent is_client_request (concat (snd (run qbittorrent_step (Qbittorrent_Disabled, timers_new) inputs)))
     \<le> 1 + length (filter is_client_answer inputs)"
  by (rule qbittorrent.sent_at_most) (simp add: list_all_iff)

text \<open>
  C34. The torrent list follows qBittorrent's updates: merging an update gives every torrent its
  own changes, in order, on top of what was known (of nothing after a full update), and removes
  exactly the torrents named as gone.
\<close>

theorem sync_merges_update:
  "bt_get (session_torrents (session_apply s u)) hash =
     (if hash \<in> set (sync_removed u) then None
      else torrent_after (if sync_scope u = SyncScope_Full then None else bt_get (session_torrents s) hash)
             (changes_of hash (sync_torrents u)))"
  by (simp add: session_apply_def Let_def torrents_removed_get torrents_changed_get)

text \<open>
  Commands follow only from a fresh update: a step that commands qBittorrent merged an
  update in that very step, qBittorrent's settings are as wanted, and the command is the one
  the registry chose for the session as just updated.
\<close>

theorem command_follows_fresh_update:
  assumes "qbittorrent_deciding q = None"
    and "Action_QbittorrentCommand c \<in> set (snd (qbittorrent_step (q, timers) (now, input, wanted, command)))"
  shows "\<exists>s update s'. q = Qbittorrent_Connected s \<and> session_activity s = Activity_Syncing \<and>
    input = QbittorrentInput_Event (QbittorrentEvent_Synced update) \<and>
    session_torrents s' = session_torrents (session_apply s update) \<and>
    preferences_as_wanted s' wanted \<and> command s' = Some c"
proof -
  obtain q1 t1 a1 q2 t2 a2 where parts: "qbittorrent_receive q now input timers = (q1, t1, a1)"
    "qbittorrent_settle q1 now t1 wanted (\<lambda>r s. (r, command s)) () = (q2, t2, (), a2)"
    "qbittorrent_step (q, timers) (now, input, wanted, command) = ((q2, t2), a1 @ a2)"
    by (rule qbittorrent_step_parts)
  have "Action_QbittorrentCommand c \<notin> set a1"
    using parts(1)
    by (cases input; cases q; cases "case input of QbittorrentInput_Event e \<Rightarrow> e")
      (auto simp: qbittorrent_handle_def qbittorrent_failed_eq session_wait_eq Let_def
        qbittorrent_timer_expired_def split: if_splits)
  then have "Action_QbittorrentCommand c \<in> set a2" using assms(2) parts(3) by simp
  with qbittorrent_settle_done [OF parts(2)] obtain s1 where s1: "q1 = Qbittorrent_Connected s1"
    "session_activity s1 = Activity_Deciding DecidingAfter_Sync" "preferences_as_wanted s1 wanted"
    "command s1 = Some c" by auto
  obtain s update where "q = Qbittorrent_Connected s" "session_activity s = Activity_Syncing"
    "input = QbittorrentInput_Event (QbittorrentEvent_Synced update)"
    "session_torrents s1 = session_torrents (session_apply s update)"
    using parts(1) s1(1,2) assms(1)
    by (cases input; cases q; cases "case input of QbittorrentInput_Event e \<Rightarrow> e")
      (auto simp: qbittorrent_handle_def qbittorrent_failed_eq session_wait_eq Let_def
        qbittorrent_timer_expired_def split: if_splits)
  with s1 show ?thesis by blast
qed

definition witness_session :: session where
  "witness_session =
     \<lparr>session_version = ReportedVersion_Release (ClientVersion 5 2 2),
      session_approval = MamApproval_Recommended,
      session_preferences = \<lparr>preferences_listen_port = Some 9, preferences_interface = None,
        preferences_queue = None\<rparr>,
      session_torrents = [], session_activity = Activity_Syncing, session_position = 0,
      session_listing = Listing_Awaited, session_polls_since_preferences = 0\<rparr>"

definition witness_sync :: sync_update where
  "witness_sync = \<lparr>sync_position = 1, sync_scope = SyncScope_Full, sync_torrents = [], sync_removed = []\<rparr>"

theorem command_follows_fresh_update_witness:
  "\<exists>s update s'. Qbittorrent_Connected witness_session = Qbittorrent_Connected s \<and>
    session_activity s = Activity_Syncing \<and>
    QbittorrentInput_Event (QbittorrentEvent_Synced witness_sync) =
      QbittorrentInput_Event (QbittorrentEvent_Synced update) \<and>
    session_torrents s' = session_torrents (session_apply s update) \<and>
    preferences_as_wanted s' \<lparr>wanted_listen_port = Some 9, wanted_queue = None\<rparr> \<and>
    Some (TorrentCommand_Start [''ab'']) = Some (TorrentCommand_Start [''ab''])"
  using command_follows_fresh_update
    [of "Qbittorrent_Connected witness_session" "TorrentCommand_Start [''ab'']" timers_new
      "\<lparr>monotonic = 1, wall = 2\<rparr>" "QbittorrentInput_Event (QbittorrentEvent_Synced witness_sync)"
      "\<lparr>wanted_listen_port = Some 9, wanted_queue = None\<rparr>" "\<lambda>_. Some (TorrentCommand_Start [''ab''])"]
  by (simp add: witness_session_def witness_sync_def qbittorrent_step.simps qbittorrent_handle_def
      qbittorrent_settle_def qbittorrent_decide_def qbittorrent_deciding_def session_apply_def
      session_set_preferences_def qbittorrent_follow_preferences_def Let_def)

text \<open>
  An idle qBittorrent is configured as wanted: whenever a step leaves the connection waiting
  for the poll timer, the listen port last read is the forwarded one and the queue it reports is
  the owner's, so a differing setting is always being corrected.
\<close>

theorem idle_client_is_configured:
  assumes "fst (qbittorrent_step (q, timers) (now, input, wanted, command)) = (Qbittorrent_Connected s, timers')"
    and "session_activity s = Activity_Waiting i"
  shows "(\<forall>port. wanted_listen_port wanted = Some port \<longrightarrow>
            preferences_listen_port (session_preferences s) = Some port) \<and>
         (\<forall>queue reported. wanted_queue wanted = Some queue \<longrightarrow>
            preferences_queue (session_preferences s) = Some reported \<longrightarrow> reported = queue)"
proof -
  obtain q1 t1 a1 q2 t2 a2 where parts: "qbittorrent_receive q now input timers = (q1, t1, a1)"
    "qbittorrent_settle q1 now t1 wanted (\<lambda>r s. (r, command s)) () = (q2, t2, (), a2)"
    "qbittorrent_step (q, timers) (now, input, wanted, command) = ((q2, t2), a1 @ a2)"
    by (rule qbittorrent_step_parts)
  with assms have "q2 = Qbittorrent_Connected s" by simp
  with qbittorrent_settle_done [OF parts(2)] assms(2) have "preferences_as_wanted s wanted" by simp
  then show ?thesis by (auto simp: preferences_as_wanted_def is_none_or_iff)
qed

theorem idle_client_is_configured_witness:
  "preferences_listen_port (session_preferences witness_session) = Some 9"
  using idle_client_is_configured
    [of "Qbittorrent_Connected (witness_session\<lparr>session_activity := Activity_Waiting 3\<rparr>)" timers_new
      "\<lparr>monotonic = 1, wall = 2\<rparr>" QbittorrentInput_Other
      "\<lparr>wanted_listen_port = Some 9, wanted_queue = None\<rparr>" "\<lambda>_. None"
      "witness_session\<lparr>session_activity := Activity_Waiting 3\<rparr>" timers_new 3]
  by (simp add: witness_session_def qbittorrent_step.simps qbittorrent_settle_def qbittorrent_decide_def
      qbittorrent_deciding_def session_set_preferences_def qbittorrent_follow_preferences_def Let_def)

end
