(* ===== verification/Registry.thy ===== *)
theory Registry
  imports Qbittorrent
begin

text \<open>
  The torrent registry (\<open>core/registry.rs\<close>): the rows Windlass keeps for every torrent it wants
  or found, their indexes by info hash and by MAM identity, the batches that save changed rows,
  and the next command that brings qBittorrent in line with the rows.
\<close>

definition COUNTER_SAVE_INTERVAL :: duration where
  "COUNTER_SAVE_INTERVAL = mins 15"

definition COMMAND_REPEAT_AFTER :: duration where
  "COMMAND_REPEAT_AFTER = mins 1"

definition SEEDING_REQUIRED :: duration where
  "SEEDING_REQUIRED = hours 72"

definition SEEDING_TARGET :: duration where
  "SEEDING_TARGET = min (SEEDING_REQUIRED + hours 24) duration_max"

datatype registry_event =
    RegistryEvent_Redownload record_id
  | RegistryEvent_Read "torrent_record list"
  | RegistryEvent_ReadFailed
  | RegistryEvent_Saved
  | RegistryEvent_SaveFailed

datatype last_save = LastSave_Saved | LastSave_Failed

datatype counters = Counters_Saved | Counters_Unsaved

record entry =
  entry_record :: torrent_record
  entry_saved_at :: "instant option"
  entry_counters :: counters

record records =
  records_entries :: "(record_id, entry) btree"
  records_by_hash :: "(torrent_hash, record_id) btree"
  records_by_mam :: "(mam_torrent_id, record_id) btree"
  records_next_id :: record_id
  records_unsaved :: "record_id set"
  records_saving :: "record_id set option"
  records_last_save :: last_save
  records_last_command :: "(torrent_command \<times> instant) option"

datatype registry =
    Registry_Unread
  | Registry_Reading
  | Registry_ReadFailed
  | Registry_Loaded records

subsection \<open>Judging a torrent\<close>

definition partial :: "torrent \<Rightarrow> bool" where
  "partial t \<longleftrightarrow> torrent_state t \<noteq> TorrentState_FetchingMetadata \<and> torrent_size t < torrent_total_size t"

definition untouched :: "torrent \<Rightarrow> bool" where
  "untouched t \<longleftrightarrow> torrent_progress t = 0 \<and> torrent_downloaded t = 0"

definition removable :: "torrent \<Rightarrow> bool" where
  "removable t \<longleftrightarrow>
     torrent_completed_at t \<noteq> None \<and> SEEDING_TARGET \<le> torrent_seeding_time t \<or> untouched t"

definition significant :: "torrent \<Rightarrow> torrent \<Rightarrow> bool" where
  "significant previous current \<longleftrightarrow>
     torrent_name previous \<noteq> torrent_name current \<or>
     torrent_state previous \<noteq> torrent_state current \<or>
     torrent_size previous \<noteq> torrent_size current \<or>
     torrent_total_size previous \<noteq> torrent_total_size current \<or>
     torrent_added_at previous \<noteq> torrent_added_at current \<or>
     torrent_completed_at previous \<noteq> torrent_completed_at current \<or>
     torrent_content_path previous \<noteq> torrent_content_path current \<or>
     torrent_save_path previous \<noteq> torrent_save_path current"

fun is_stopped :: "torrent_state \<Rightarrow> bool" where
  "is_stopped (TorrentState_Stopped _) = True"
| "is_stopped _ = False"

subsection \<open>Rows\<close>

definition entry_new :: "torrent_record \<Rightarrow> entry" where
  "entry_new r = \<lparr>entry_record = r, entry_saved_at = None, entry_counters = Counters_Saved\<rparr>"

definition entry_observe :: "entry \<Rightarrow> instant \<Rightarrow> observation \<Rightarrow> entry \<times> bool" where
  "entry_observe e now observation =
     (let current = observation_torrent observation;
          previous = record_observation (entry_record e);
          e = e\<lparr>entry_record := (entry_record e)\<lparr>record_observation := Some observation\<rparr>\<rparr>
      in case previous of
           Some previous \<Rightarrow>
             if \<not> significant (observation_torrent previous) current
             then (let e = (if observation_torrent previous \<noteq> current
                            then e\<lparr>entry_counters := Counters_Unsaved\<rparr> else e);
                       due = is_none_or (\<lambda>saved_at. COUNTER_SAVE_INTERVAL \<le> duration_since now saved_at)
                               (entry_saved_at e)
                   in (e, entry_counters e = Counters_Unsaved \<and> due))
             else (e, True)
         | None \<Rightarrow> (e, True))"

text \<open>Rows marked removed come first, so that a live row with the same MAM identity wins.\<close>

definition records_new :: "torrent_record list \<Rightarrow> records" where
  "records_new rs =
     \<lparr>records_entries = bt_collect (map (\<lambda>r. (record_id r, entry_new r)) rs),
      records_by_hash = bt_collect (List.map_filter
        (\<lambda>r. map_option (\<lambda>hash. (hash, record_id r)) (identity_hash (record_identity r))) rs),
      records_by_mam = bt_collect (List.map_filter
        (\<lambda>r. map_option (\<lambda>mam. (mam, record_id r)) (identity_mam_id (record_identity r)))
        (filter (\<lambda>r. record_desired r = Desired_Removed) rs @
         filter (\<lambda>r. record_desired r \<noteq> Desired_Removed) rs)),
      records_next_id = (if rs = [] then 1 else record_id_after (Max (set (map record_id rs)))),
      records_unsaved = {}, records_saving = None, records_last_save = LastSave_Saved,
      records_last_command = None\<rparr>"

definition records_records :: "records \<Rightarrow> torrent_record list" where
  "records_records r = map entry_record (bt_values (records_entries r))"

definition records_find :: "records \<Rightarrow> torrent_hash \<Rightarrow> torrent_record option" where
  "records_find r hash =
     Option.bind (bt_get (records_by_hash r) hash)
       (\<lambda>i. map_option entry_record (bt_get (records_entries r) i))"

definition records_find_mam :: "records \<Rightarrow> mam_torrent_id \<Rightarrow> torrent_record option" where
  "records_find_mam r mam =
     Option.bind (bt_get (records_by_mam r) mam)
       (\<lambda>i. map_option entry_record (bt_get (records_entries r) i))"

definition record_download :: "torrent_record \<Rightarrow> download option" where
  "record_download r =
     (case record_identity r of
        Identity_Linked mam hash \<Rightarrow>
          (let seen = map_option observation_torrent (record_observation r) in
           if record_desired r \<in> {Desired_Active, Desired_Held} \<and> record_origin r \<noteq> Origin_Adopted
           then Some \<lparr>download_mam = mam, download_hash = hash, download_desired = record_desired r,
                      download_completion =
                        (if is_some_and (\<lambda>t. torrent_completed_at t \<noteq> None) seen
                         then Completion_Complete else Completion_Incomplete),
                      download_added_at = Option.bind seen torrent_added_at\<rparr>
           else None)
      | _ \<Rightarrow> None)"

definition records_downloads :: "records \<Rightarrow> download list" where
  "records_downloads r = List.map_filter record_download (records_records r)"

definition records_queued :: "records \<Rightarrow> mam_torrent_id list" where
  "records_queued r =
     List.map_filter (\<lambda>r. identity_mam_id (record_identity r))
       (filter (\<lambda>r. record_desired r = Desired_Queued) (records_records r))"

definition records_save_failed :: "records \<Rightarrow> bool" where
  "records_save_failed r \<longleftrightarrow> records_last_save r = LastSave_Failed"

definition records_knows :: "records \<Rightarrow> mam_torrent_id \<Rightarrow> bool" where
  "records_knows r mam \<longleftrightarrow> bt_get (records_by_mam r) mam \<noteq> None"

subsection \<open>Changing rows\<close>

definition records_set_desired :: "records \<Rightarrow> record_id \<Rightarrow> desired \<Rightarrow> records" where
  "records_set_desired r i desired =
     r\<lparr>records_entries :=
         bt_modify i (\<lambda>e. e\<lparr>entry_record := (entry_record e)\<lparr>record_desired := desired\<rparr>\<rparr>)
           (records_entries r),
       records_unsaved := insert i (records_unsaved r)\<rparr>"

definition records_allocate :: "records \<Rightarrow> records \<times> record_id" where
  "records_allocate r =
     (let i = records_next_id r in (r\<lparr>records_next_id := record_id_after i\<rparr>, i))"

definition records_adopt :: "records \<Rightarrow> torrent_hash \<Rightarrow> torrent \<Rightarrow> records \<times> record_id" where
  "records_adopt r hash t =
     (let (r, i) = records_allocate r in
      (r\<lparr>records_by_hash := bt_insert hash i (records_by_hash r),
         records_entries := bt_insert i (entry_new
           \<lparr>record_id = i, record_identity = Identity_Client hash, record_origin = Origin_Adopted,
            record_desired = Desired_Active, record_save_path = torrent_save_path t,
            record_deletion = ContentDeletion_NotAllowed, record_observation = None\<rparr>)
           (records_entries r)\<rparr>, i))"

definition records_save :: "records \<Rightarrow> instant \<Rightarrow> records \<times> action list" where
  "records_save r now =
     (if records_saving r \<noteq> None \<or> records_unsaved r = {} then (r, [])
      else (let ids = records_unsaved r;
                saved = List.map_filter (\<lambda>(i, e). if i \<in> ids then Some (entry_record e) else None)
                          (records_entries r)
            in (r\<lparr>records_unsaved := {},
                  records_entries := bt_map (\<lambda>i e. if i \<in> ids
                    then e\<lparr>entry_saved_at := Some now, entry_counters := Counters_Saved\<rparr> else e)
                    (records_entries r),
                  records_saving := Some ids\<rparr>,
                [Action_SaveTorrents saved])))"

text \<open>Recording an observation on a row.\<close>

definition row_observed :: "records \<Rightarrow> record_id \<Rightarrow> instant \<Rightarrow> observation \<Rightarrow> records" where
  "row_observed r i now ob =
     (case bt_get (records_entries r) i of
        Some e \<Rightarrow>
          (let (e, save) = entry_observe e now ob;
               r = r\<lparr>records_entries := bt_insert i e (records_entries r)\<rparr>
           in if save then r\<lparr>records_unsaved := insert i (records_unsaved r)\<rparr> else r)
      | None \<Rightarrow> r)"

definition records_observe_one :: "clock_reading \<Rightarrow> records \<Rightarrow> torrent_hash \<times> torrent \<Rightarrow> records" where
  "records_observe_one now r = (\<lambda>(hash, t).
     (let observation = \<lparr>observation_torrent = t, observation_last_seen = wall now\<rparr>;
          (r, i) = (case bt_get (records_by_hash r) hash of
                      Some i \<Rightarrow> (r, i) | None \<Rightarrow> records_adopt r hash t);
          r = row_observed r i (monotonic now) observation;
          completed_while_held =
            is_some_and (\<lambda>e. record_desired (entry_record e) = Desired_Held \<and> torrent_completed_at t \<noteq> None)
              (bt_get (records_entries r) i)
      in if completed_while_held then records_set_desired r i Desired_Active else r))"

definition records_observe :: "records \<Rightarrow> clock_reading \<Rightarrow> session \<Rightarrow> records \<times> action list" where
  "records_observe r now session =
     records_save (foldl (records_observe_one now) r (session_torrents session)) (monotonic now)"

definition records_bookmark_one :: "records \<Rightarrow> mam_torrent_id \<times> desired \<Rightarrow> records" where
  "records_bookmark_one r = (\<lambda>(mam, desired).
     if bt_get (records_by_mam r) mam \<noteq> None then r
     else (let (r, i) = records_allocate r in
           r\<lparr>records_by_mam := bt_insert mam i (records_by_mam r),
             records_entries := bt_insert i (entry_new
               \<lparr>record_id = i, record_identity = Identity_Mam mam, record_origin = Origin_Bookmark,
                record_desired = desired, record_save_path = None,
                record_deletion = ContentDeletion_NotAllowed, record_observation = None\<rparr>)
               (records_entries r),
             records_unsaved := insert i (records_unsaved r)\<rparr>))"

definition records_bookmarked ::
    "records \<Rightarrow> instant \<Rightarrow> (mam_torrent_id \<times> desired) list \<Rightarrow> records \<times> action list" where
  "records_bookmarked r now bookmarks = records_save (foldl records_bookmark_one r bookmarks) now"

definition records_redownload :: "records \<Rightarrow> instant \<Rightarrow> record_id \<Rightarrow> records \<times> action list" where
  "records_redownload r now i =
     (case opt_filter (\<lambda>e. record_desired (entry_record e) = Desired_Snatched)
             (bt_get (records_entries r) i) of
        None \<Rightarrow> (r, [])
      | Some e \<Rightarrow>
          records_save
            (r\<lparr>records_entries := bt_insert i
                 (e\<lparr>entry_record := (entry_record e)
                      \<lparr>record_desired := Desired_Queued, record_origin := Origin_Redownload\<rparr>\<rparr>)
                 (records_entries r),
               records_unsaved := insert i (records_unsaved r)\<rparr>) now)"

definition records_link :: "records \<Rightarrow> record_id \<Rightarrow> mam_torrent_id \<Rightarrow> torrent_hash \<Rightarrow> records" where
  "records_link r i mam hash =
     (let origin = map_option (\<lambda>e. record_origin (entry_record e)) (bt_get (records_entries r) i);
          (r, target) = (case bt_get (records_by_hash r) hash of
                           Some existing \<Rightarrow>
                             if existing \<noteq> i
                             then (let r = records_set_desired r i Desired_Removed
                                   in (r\<lparr>records_by_mam := bt_insert mam existing (records_by_mam r)\<rparr>, existing))
                             else (r, i)
                         | None \<Rightarrow> (r, i));
          r = r\<lparr>records_entries := bt_modify target
                (\<lambda>e. e\<lparr>entry_record := (entry_record e)
                       \<lparr>record_identity := Identity_Linked mam hash,
                        record_origin := unwrap_or (record_origin (entry_record e)) origin\<rparr>\<rparr>)
                (records_entries r)\<rparr>;
          r = records_set_desired r target Desired_Active
      in r\<lparr>records_by_hash := bt_insert hash target (records_by_hash r)\<rparr>)"

definition records_fetched ::
    "records \<Rightarrow> instant \<Rightarrow> mam_torrent_id \<Rightarrow> torrent_hash \<Rightarrow> records \<times> action list" where
  "records_fetched r now mam hash =
     records_save (case bt_get (records_by_mam r) mam of
                     Some i \<Rightarrow> records_link r i mam hash | None \<Rightarrow> r) now"

definition records_snatched :: "records \<Rightarrow> instant \<Rightarrow> mam_torrent_id \<Rightarrow> records \<times> action list" where
  "records_snatched r now mam =
     records_save
       (case opt_filter (\<lambda>i. is_some_and
                (\<lambda>e. record_desired (entry_record e) = Desired_Queued \<and>
                     record_origin (entry_record e) = Origin_Bookmark) (bt_get (records_entries r) i))
               (bt_get (records_by_mam r) mam) of
          Some i \<Rightarrow> records_set_desired r i Desired_Snatched | None \<Rightarrow> r) now"

definition records_resume :: "records \<Rightarrow> instant \<Rightarrow> torrent_hash \<Rightarrow> records \<times> action list" where
  "records_resume r now hash =
     records_save
       (case opt_filter (\<lambda>i. is_some_and (\<lambda>e. record_desired (entry_record e) = Desired_Held)
                (bt_get (records_entries r) i))
               (bt_get (records_by_hash r) hash) of
          Some i \<Rightarrow> records_set_desired r i Desired_Active | None \<Rightarrow> r) now"

definition records_hold :: "records \<Rightarrow> instant \<Rightarrow> torrent_hash \<Rightarrow> records \<times> action list" where
  "records_hold r now hash =
     records_save (case bt_get (records_by_hash r) hash of
                     Some i \<Rightarrow> records_set_desired r i Desired_Held | None \<Rightarrow> r) now"

subsection \<open>Reconciling qBittorrent with the rows\<close>

text \<open>The rows with this intent whose torrent qBittorrent lists.\<close>

definition records_present :: "records \<Rightarrow> session \<Rightarrow> desired \<Rightarrow> (torrent_hash \<times> torrent) list" where
  "records_present r session desired =
     List.map_filter (\<lambda>r. Option.bind (identity_hash (record_identity r))
         (\<lambda>hash. map_option (Pair hash) (bt_get (session_torrents session) hash)))
       (filter (\<lambda>r. record_desired r = desired) (records_records r))"

definition present_where ::
    "records \<Rightarrow> session \<Rightarrow> desired \<Rightarrow> (torrent \<Rightarrow> bool) \<Rightarrow> torrent_hash list" where
  "present_where r session desired p =
     map fst (filter (\<lambda>(_, t). p t) (records_present r session desired))"

definition record_to_complete ::
    "session \<Rightarrow> (mam_torrent_id \<Rightarrow> bool) \<Rightarrow> torrent_record \<Rightarrow> torrent_hash option" where
  "record_to_complete session permits r =
     Option.bind (identity_hash (record_identity r)) (\<lambda>hash.
     Option.bind (bt_get (session_torrents session) hash) (\<lambda>t.
       if record_desired r = Desired_Active \<and> partial t \<and>
          is_none_or permits (identity_mam_id (record_identity r))
       then Some hash else None))"

definition record_to_add ::
    "session \<Rightarrow> (mam_torrent_id \<Rightarrow> bool) \<Rightarrow> torrent_record \<Rightarrow> torrent_command option" where
  "record_to_add session permits r =
     (case record_identity r of
        Identity_Linked mam hash \<Rightarrow>
          if record_desired r = Desired_Active \<and> record_origin r \<noteq> Origin_Adopted \<and>
             permits mam \<and> bt_get (session_torrents session) hash = None
          then Some (TorrentCommand_Add mam hash) else None
      | _ \<Rightarrow> None)"

definition record_to_start ::
    "session \<Rightarrow> (mam_torrent_id \<Rightarrow> bool) \<Rightarrow> torrent_record \<Rightarrow> torrent_hash option" where
  "record_to_start session permits r =
     Option.bind (identity_hash (record_identity r)) (\<lambda>hash.
     Option.bind (bt_get (session_torrents session) hash) (\<lambda>t.
       if is_stopped (torrent_state t) \<and> \<not> (record_origin r = Origin_Adopted \<and> untouched t) \<and>
          (torrent_state t = TorrentState_Stopped Completion_Complete \<and> \<not> partial t \<or>
           is_none_or permits (identity_mam_id (record_identity r)))
       then Some hash else None))"

definition unsatisfied :: "torrent \<Rightarrow> bool" where
  "unsatisfied t \<longleftrightarrow> torrent_completed_at t \<noteq> None \<and> torrent_seeding_time t < SEEDING_TARGET"

definition records_reconcile ::
    "records \<Rightarrow> session \<Rightarrow> (mam_torrent_id \<Rightarrow> bool) \<Rightarrow> torrent_command option" where
  "records_reconcile r session permits =
     (let removed = present_where r session Desired_Removed removable in
      if removed \<noteq> [] then Some (TorrentCommand_Remove removed) else
      let running = present_where r session Desired_Held
            (\<lambda>t. torrent_completed_at t = None \<and> \<not> is_stopped (torrent_state t)) in
      if running \<noteq> [] then Some (TorrentCommand_Stop running) else
      case find_map (record_to_complete session permits) (records_records r) of
        Some hash \<Rightarrow> Some (TorrentCommand_SelectAllFiles hash)
      | None \<Rightarrow>
      case find_map (record_to_add session permits) (records_records r) of
        Some c \<Rightarrow> Some c
      | None \<Rightarrow>
      let stopped = List.map_filter (record_to_start session permits)
            (filter (\<lambda>r. record_desired r = Desired_Active) (records_records r)) in
      if stopped \<noteq> [] then Some (TorrentCommand_Start stopped) else
      let force = present_where r session Desired_Active
            (\<lambda>t. unsatisfied t \<and> \<not> partial t \<and> torrent_force_start t = ForceStart_NotForced) in
      if force \<noteq> [] then Some (TorrentCommand_ForceStart force) else
      let release = present_where r session Desired_Active
            (\<lambda>t. \<not> unsatisfied t \<and> torrent_force_start t = ForceStart_Forced) in
      if release \<noteq> [] then Some (TorrentCommand_EndForceStart release) else None)"

definition records_command ::
    "records \<Rightarrow> instant \<Rightarrow> session \<Rightarrow> (mam_torrent_id \<Rightarrow> bool) \<Rightarrow> records \<times> torrent_command option" where
  "records_command r now session permits =
     (case records_reconcile r session permits of
        None \<Rightarrow> (r, None)
      | Some c \<Rightarrow>
          if is_some_and (\<lambda>(sent, at). sent = c \<and> duration_since now at < COMMAND_REPEAT_AFTER)
               (records_last_command r)
          then (r, None)
          else (r\<lparr>records_last_command := Some (c, now)\<rparr>, Some c))"

subsection \<open>The registry\<close>

definition registry_start_reading :: "registry \<Rightarrow> registry \<times> action list" where
  "registry_start_reading r = (Registry_Reading, [Action_ReadTorrentRegistry])"

definition registry_with :: "records \<times> 'a \<Rightarrow> registry \<times> 'a" where
  "registry_with p = (Registry_Loaded (fst p), snd p)"

definition registry_handle :: "registry \<Rightarrow> instant \<Rightarrow> registry_event \<Rightarrow> registry \<times> action list" where
  "registry_handle g now e =
     (case (g, e) of
        (Registry_Reading, RegistryEvent_Read rs) \<Rightarrow> (Registry_Loaded (records_new rs), [])
      | (Registry_Reading, RegistryEvent_ReadFailed) \<Rightarrow> (Registry_ReadFailed, [])
      | (Registry_Loaded r, RegistryEvent_Saved) \<Rightarrow>
          (if records_saving r \<noteq> None
           then registry_with (records_save
                  (r\<lparr>records_saving := None, records_last_save := LastSave_Saved\<rparr>) now)
           else (g, []))
      | (Registry_Loaded r, RegistryEvent_Redownload i) \<Rightarrow> registry_with (records_redownload r now i)
      | (Registry_Loaded r, RegistryEvent_SaveFailed) \<Rightarrow>
          (case records_saving r of
             Some ids \<Rightarrow>
               (Registry_Loaded (r\<lparr>records_unsaved := records_unsaved r \<union> ids, records_saving := None,
                                   records_last_save := LastSave_Failed\<rparr>), [])
           | None \<Rightarrow> (g, []))
      | _ \<Rightarrow> (g, []))"

definition registry_observe :: "registry \<Rightarrow> clock_reading \<Rightarrow> session \<Rightarrow> registry \<times> action list" where
  "registry_observe g now session =
     (case g of
        Registry_Loaded r \<Rightarrow>
          (if session_listed session then registry_with (records_observe r now session) else (g, []))
      | _ \<Rightarrow> (g, []))"

definition registry_command ::
    "registry \<Rightarrow> instant \<Rightarrow> session \<Rightarrow> (mam_torrent_id \<Rightarrow> bool) \<Rightarrow> registry \<times> torrent_command option" where
  "registry_command g now session permits =
     (case g of
        Registry_Loaded r \<Rightarrow>
          (if session_listed session then registry_with (records_command r now session permits)
           else (g, None))
      | _ \<Rightarrow> (g, None))"

text \<open>\<open>records_mut\<close> and a change through it.\<close>

definition registry_update :: "registry \<Rightarrow> (records \<Rightarrow> records \<times> action list) \<Rightarrow> registry \<times> action list" where
  "registry_update g f =
     (case g of Registry_Loaded r \<Rightarrow> registry_with (f r) | _ \<Rightarrow> (g, []))"

subsection \<open>The component as a machine\<close>

text \<open>Its inputs are storage results, requests of the owner, and the changes other components make.\<close>

datatype registry_input =
    RegistryInput_Event registry_event
  | RegistryInput_Observe session
  | RegistryInput_Command session "mam_torrent_id \<Rightarrow> bool"
  | RegistryInput_Bookmarked "(mam_torrent_id \<times> desired) list"
  | RegistryInput_Fetched mam_torrent_id torrent_hash
  | RegistryInput_Snatched mam_torrent_id
  | RegistryInput_Resume torrent_hash
  | RegistryInput_Hold torrent_hash

fun registry_step :: "registry \<Rightarrow> clock_reading \<times> registry_input \<Rightarrow> registry \<times> action list" where
  "registry_step g (now, RegistryInput_Event e) = registry_handle g (monotonic now) e"
| "registry_step g (now, RegistryInput_Observe session) = registry_observe g now session"
| "registry_step g (now, RegistryInput_Command session permits) =
     (let (g, c) = registry_command g (monotonic now) session permits
      in (g, map Action_QbittorrentCommand (opt_list c)))"
| "registry_step g (now, RegistryInput_Bookmarked bookmarks) =
     registry_update g (\<lambda>r. records_bookmarked r (monotonic now) bookmarks)"
| "registry_step g (now, RegistryInput_Fetched mam hash) =
     registry_update g (\<lambda>r. records_fetched r (monotonic now) mam hash)"
| "registry_step g (now, RegistryInput_Snatched mam) =
     registry_update g (\<lambda>r. records_snatched r (monotonic now) mam)"
| "registry_step g (now, RegistryInput_Resume hash) =
     registry_update g (\<lambda>r. records_resume r (monotonic now) hash)"
| "registry_step g (now, RegistryInput_Hold hash) =
     registry_update g (\<lambda>r. records_hold r (monotonic now) hash)"

definition registry_start :: registry where
  "registry_start = fst (registry_start_reading Registry_Unread)"

fun registry_saving :: "registry \<Rightarrow> bool" where
  "registry_saving (Registry_Loaded r) = (records_saving r \<noteq> None)"
| "registry_saving _ = False"

fun is_save :: "action \<Rightarrow> bool" where
  "is_save (Action_SaveTorrents _) = True"
| "is_save _ = False"

fun is_save_answer :: "clock_reading \<times> registry_input \<Rightarrow> bool" where
  "is_save_answer (_, RegistryInput_Event RegistryEvent_Saved) = True"
| "is_save_answer (_, RegistryInput_Event RegistryEvent_SaveFailed) = True"
| "is_save_answer _ = False"

text \<open>
  Well-formed rows: proper maps, every row under its own identity and below the next one to be
  given, both indexes pointing at rows, every row's hash and MAM identity indexed, and only
  rows waiting to be saved.
\<close>

definition records_row :: "records \<Rightarrow> record_id \<Rightarrow> torrent_record option" where
  "records_row r i = map_option entry_record (bt_get (records_entries r) i)"

definition row_ids :: "records \<Rightarrow> record_id set" where
  "row_ids r = {i. records_row r i \<noteq> None}"

definition rows_ok :: "records \<Rightarrow> bool" where
  "rows_ok r \<longleftrightarrow>
     bt_wf (records_entries r) \<and>
     (\<forall>i row. records_row r i = Some row \<longrightarrow>
        record_id row = i \<and>
        (\<forall>hash. identity_hash (record_identity row) = Some hash \<longrightarrow>
           bt_get (records_by_hash r) hash \<noteq> None) \<and>
        (\<forall>mam. identity_mam_id (record_identity row) = Some mam \<longrightarrow>
           bt_get (records_by_mam r) mam \<noteq> None))"

definition indexes_ok :: "records \<Rightarrow> bool" where
  "indexes_ok r \<longleftrightarrow>
     bt_wf (records_by_hash r) \<and> bt_wf (records_by_mam r) \<and>
     (\<forall>hash i. bt_get (records_by_hash r) hash = Some i \<longrightarrow> i \<in> row_ids r) \<and>
     (\<forall>mam i. bt_get (records_by_mam r) mam = Some i \<longrightarrow> i \<in> row_ids r)"

definition next_id_ok :: "records \<Rightarrow> bool" where
  "next_id_ok r \<longleftrightarrow> records_next_id r = - 1 \<or> (\<forall>i \<in> row_ids r. i < records_next_id r)"

definition pending_ids :: "records \<Rightarrow> record_id set" where
  "pending_ids r = records_unsaved r \<union> unwrap_or {} (records_saving r)"

definition records_ok :: "records \<Rightarrow> bool" where
  "records_ok r \<longleftrightarrow> rows_ok r \<and> indexes_ok r \<and> next_id_ok r \<and> pending_ids r \<subseteq> row_ids r"

fun registry_ok :: "registry \<Rightarrow> bool" where
  "registry_ok (Registry_Loaded r) = records_ok r"
| "registry_ok _ = True"

subsection \<open>Saving\<close>

lemma records_save_idle:
  "records_saving r \<noteq> None \<or> records_unsaved r = {} \<Longrightarrow> records_save r now = (r, [])"
  by (simp add: records_save_def)

lemma records_save_row [simp]: "records_row (fst (records_save r now)) = records_row r"
  by (auto simp: records_save_def records_row_def Let_def map_option_case split: option.split)

lemma records_save_frame [simp]:
  "records_by_hash (fst (records_save r now)) = records_by_hash r"
  "records_by_mam (fst (records_save r now)) = records_by_mam r"
  "records_next_id (fst (records_save r now)) = records_next_id r"
  "pending_ids (fst (records_save r now)) = pending_ids r"
  "bt_wf (records_entries (fst (records_save r now))) = bt_wf (records_entries r)"
  "row_ids (fst (records_save r now)) = row_ids r"
  by (auto simp: records_save_def pending_ids_def row_ids_def records_row_def Let_def)

lemma records_save_ok [simp]: "records_ok (fst (records_save r now)) = records_ok r"
  by (simp add: records_ok_def rows_ok_def indexes_ok_def next_id_ok_def)

lemma records_save_flight:
  "sent is_save (snd (records_save r now)) + of_bool (records_saving r \<noteq> None)
     = (of_bool (records_saving (fst (records_save r now)) \<noteq> None) :: nat)"
  by (simp add: records_save_def Let_def)

subsection \<open>Changing one row keeps the rows well-formed\<close>

definition row_changed :: "records \<Rightarrow> records \<Rightarrow> record_id \<Rightarrow> torrent_record \<Rightarrow> bool" where
  "row_changed r r' i row \<longleftrightarrow>
     records_row r' = (records_row r)(i \<mapsto> row) \<and> record_id row = i \<and>
     (bt_wf (records_entries r) \<longrightarrow> bt_wf (records_entries r')) \<and>
     (bt_wf (records_by_hash r) \<longrightarrow> bt_wf (records_by_hash r')) \<and>
     (bt_wf (records_by_mam r) \<longrightarrow> bt_wf (records_by_mam r')) \<and>
     (\<forall>hash. bt_get (records_by_hash r') hash = bt_get (records_by_hash r) hash \<or>
        bt_get (records_by_hash r') hash = Some i) \<and>
     (\<forall>mam. bt_get (records_by_mam r') mam = bt_get (records_by_mam r) mam \<or>
        bt_get (records_by_mam r') mam = Some i) \<and>
     (\<forall>hash. identity_hash (record_identity row) = Some hash \<longrightarrow> bt_get (records_by_hash r') hash \<noteq> None) \<and>
     (\<forall>mam. identity_mam_id (record_identity row) = Some mam \<longrightarrow> bt_get (records_by_mam r') mam \<noteq> None) \<and>
     (i \<in> row_ids r \<and> records_next_id r' = records_next_id r \<or>
      i = records_next_id r \<and> records_next_id r' = record_id_after i) \<and>
     pending_ids r' \<subseteq> insert i (pending_ids r)"

lemma row_changed_ids: "row_changed r r' i row \<Longrightarrow> row_ids r' = insert i (row_ids r)"
  by (auto simp: row_changed_def row_ids_def)

lemma row_changed_next:
  assumes "row_changed r r' i row" and "next_id_ok r"
  shows "next_id_ok r'"
proof (cases "i \<in> row_ids r \<and> records_next_id r' = records_next_id r")
  case True
  with assms show ?thesis by (simp add: next_id_ok_def row_changed_ids [OF assms(1)] insert_absorb)
next
  case False
  with assms(1) have i: "i = records_next_id r" "records_next_id r' = sat_add i 1"
    by (auto simp: row_changed_def record_id_after_def)
  show ?thesis
  proof (cases "i = - 1")
    case True
    with i sat_add_ge [of i 1] have "records_next_id r' = - 1"
      by (metis word_order.extremum_unique)
    then show ?thesis by (simp add: next_id_ok_def)
  next
    case False
    with i sat_add_one_less [of i] assms(2) show ?thesis
      by (auto simp: next_id_ok_def row_changed_ids [OF assms(1)] intro: less_trans)
  qed
qed

lemma row_changed_ok:
  assumes "row_changed r r' i row" and "records_ok r"
  shows "records_ok r'"
proof -
  note change = assms(1) [unfolded row_changed_def]
  have hash: "bt_get (records_by_hash r') h \<noteq> None" if "bt_get (records_by_hash r) h \<noteq> None" for h
    using change that by (metis option.distinct(1))
  have mam: "bt_get (records_by_mam r') m \<noteq> None" if "bt_get (records_by_mam r) m \<noteq> None" for m
    using change that by (metis option.distinct(1))
  have rows: "records_row r' = (records_row r)(i \<mapsto> row)" "record_id row = i" using change by auto
  have "rows_ok r'"
    using assms(2) change hash mam unfolding records_ok_def rows_ok_def rows(1)
    by (auto split: if_splits)
  moreover have "indexes_ok r'"
    using assms(2) change unfolding records_ok_def indexes_ok_def row_changed_ids [OF assms(1)]
    by (metis insert_iff option.inject)
  moreover have "pending_ids r' \<subseteq> row_ids r'"
    using assms(2) change unfolding records_ok_def row_changed_ids [OF assms(1)] by blast
  ultimately show ?thesis
    using assms row_changed_next by (auto simp: records_ok_def)
qed

lemma row_updated:
  assumes "records_ok r" and "records_row r i = Some old"
    and "records_row r' = (records_row r)(i \<mapsto> new)"
    and "record_id new = record_id old" and "record_identity new = record_identity old"
    and "bt_wf (records_entries r) \<longrightarrow> bt_wf (records_entries r')"
    and "records_by_hash r' = records_by_hash r" and "records_by_mam r' = records_by_mam r"
    and "records_next_id r' = records_next_id r" and "pending_ids r' \<subseteq> insert i (pending_ids r)"
  shows "row_changed r r' i new"
  using assms unfolding row_changed_def records_ok_def rows_ok_def row_ids_def by simp

lemma records_row_insert:
  "records_row (r\<lparr>records_entries := bt_insert i e m\<rparr>) =
     (records_row (r\<lparr>records_entries := m\<rparr>))(i \<mapsto> entry_record e)"
  by (auto simp: records_row_def)

lemma records_row_frame [simp]:
  "records_row (r\<lparr>records_unsaved := u\<rparr>) = records_row r"
  "records_row (r\<lparr>records_saving := v\<rparr>) = records_row r"
  "records_row (r\<lparr>records_by_hash := h\<rparr>) = records_row r"
  "records_row (r\<lparr>records_by_mam := m\<rparr>) = records_row r"
  "records_row (r\<lparr>records_next_id := n\<rparr>) = records_row r"
  "records_row (r\<lparr>records_last_save := l\<rparr>) = records_row r"
  "records_row (r\<lparr>records_last_command := c\<rparr>) = records_row r"
  "records_row (r\<lparr>records_entries := records_entries r\<rparr>) = records_row r"
  by (simp_all add: records_row_def fun_eq_iff)

lemma set_desired_row:
  "records_row (records_set_desired r i d) =
     (case records_row r i of None \<Rightarrow> records_row r
      | Some row \<Rightarrow> (records_row r)(i \<mapsto> row\<lparr>record_desired := d\<rparr>))"
  by (auto simp: records_set_desired_def records_row_def fun_eq_iff split: option.split)

lemma set_desired_frame [simp]:
  "records_by_hash (records_set_desired r i d) = records_by_hash r"
  "records_by_mam (records_set_desired r i d) = records_by_mam r"
  "records_next_id (records_set_desired r i d) = records_next_id r"
  "records_saving (records_set_desired r i d) = records_saving r"
  "pending_ids (records_set_desired r i d) = insert i (pending_ids r)"
  "bt_wf (records_entries r) \<Longrightarrow> bt_wf (records_entries (records_set_desired r i d))"
  by (simp_all add: records_set_desired_def pending_ids_def)

lemma set_desired_ok:
  assumes "records_ok r" and "i \<in> row_ids r"
  shows "records_ok (records_set_desired r i d)"
proof -
  from assms(2) obtain row where row: "records_row r i = Some row" by (auto simp: row_ids_def)
  have "row_changed r (records_set_desired r i d) i (row\<lparr>record_desired := d\<rparr>)"
    by (rule row_updated [OF assms(1) row])
      (use row in \<open>auto simp: set_desired_row\<close>)
  then show ?thesis using assms(1) by (rule row_changed_ok)
qed

lemma set_desired_ids [simp]: "row_ids (records_set_desired r i d) = row_ids r"
  by (auto simp: row_ids_def set_desired_row split: option.splits if_splits)

lemma adopt_changed:
  assumes "records_adopt r hash t = (r', i)"
  shows "\<exists>row. row_changed r r' i row \<and> record_identity row = Identity_Client hash"
proof -
  have "row_changed r r' i
      \<lparr>record_id = i, record_identity = Identity_Client hash, record_origin = Origin_Adopted,
       record_desired = Desired_Active, record_save_path = torrent_save_path t,
       record_deletion = ContentDeletion_NotAllowed, record_observation = None\<rparr>"
    using assms
    by (auto simp: records_adopt_def records_allocate_def row_changed_def records_row_insert
        pending_ids_def entry_new_def Let_def)
  then show ?thesis by fastforce
qed

lemma bookmark_changed:
  assumes "bt_get (records_by_mam r) mam = None"
  shows "\<exists>row. row_changed r (records_bookmark_one r (mam, d)) (records_next_id r) row"
proof -
  have "row_changed r (records_bookmark_one r (mam, d)) (records_next_id r)
      \<lparr>record_id = records_next_id r, record_identity = Identity_Mam mam, record_origin = Origin_Bookmark,
       record_desired = d, record_save_path = None, record_deletion = ContentDeletion_NotAllowed,
       record_observation = None\<rparr>"
    using assms
    by (auto simp: records_bookmark_one_def records_allocate_def row_changed_def records_row_insert
        pending_ids_def entry_new_def Let_def)
  then show ?thesis by blast
qed

lemma entry_observe_record:
  "\<exists>o'. entry_record (fst (entry_observe e now ob)) = (entry_record e)\<lparr>record_observation := o'\<rparr>"
  by (rule exI [of _ "Some ob"])
    (simp add: entry_observe_def Let_def split: option.split)

subsection \<open>Every operation keeps the rows\<close>

definition grows :: "records \<Rightarrow> records \<Rightarrow> bool" where
  "grows r r' \<longleftrightarrow>
     records_ok r' \<and> row_ids r \<subseteq> row_ids r' \<and> records_saving r' = records_saving r"

lemma grows_refl: "records_ok r \<Longrightarrow> grows r r"
  by (simp add: grows_def)

lemma grows_trans: "grows r r1 \<Longrightarrow> grows r1 r2 \<Longrightarrow> grows r r2"
  by (auto simp: grows_def)

lemma grows_foldl:
  "records_ok r \<Longrightarrow> (\<And>r x. records_ok r \<Longrightarrow> grows r (f r x)) \<Longrightarrow> grows r (foldl f r xs)"
proof (induction xs arbitrary: r)
  case (Cons x xs)
  then have "grows r (f r x)" by blast
  moreover from this Cons have "grows (f r x) (foldl f (f r x) xs)" by (simp add: grows_def)
  ultimately show ?case by (simp add: grows_trans)
qed (simp add: grows_refl)

lemma row_changed_grows:
  "row_changed r r' i row \<Longrightarrow> records_ok r \<Longrightarrow> records_saving r' = records_saving r \<Longrightarrow> grows r r'"
  by (auto simp: grows_def row_changed_ids dest: row_changed_ok)

lemma set_desired_grows:
  "records_ok r \<Longrightarrow> i \<in> row_ids r \<Longrightarrow> grows r (records_set_desired r i d)"
  by (simp add: grows_def set_desired_ok)

lemma index_in_rows:
  "records_ok r \<Longrightarrow> bt_get (records_by_hash r) hash = Some i \<Longrightarrow> i \<in> row_ids r"
  "records_ok r \<Longrightarrow> bt_get (records_by_mam r) mam = Some i \<Longrightarrow> i \<in> row_ids r"
  by (auto simp: records_ok_def indexes_ok_def)

lemma adopt_grows:
  assumes "records_ok r" and "records_adopt r hash t = (r', i)"
  shows "grows r r'" and "i \<in> row_ids r'"
proof -
  from adopt_changed [OF assms(2)] obtain row where "row_changed r r' i row" by blast
  moreover have "records_saving r' = records_saving r"
    using assms(2) by (auto simp: records_adopt_def records_allocate_def Let_def)
  ultimately show "grows r r'" "i \<in> row_ids r'"
    using assms(1) row_changed_grows row_changed_ids by blast+
qed

lemma row_observed_grows:
  assumes "records_ok r"
  shows "grows r (row_observed r i now ob)"
proof (cases "bt_get (records_entries r) i")
  case (Some e)
  obtain e' save where e': "entry_observe e now ob = (e', save)" by (cases "entry_observe e now ob")
  from entry_observe_record [of e now ob] e' obtain o' where
    rec: "entry_record e' = (entry_record e)\<lparr>record_observation := o'\<rparr>" by auto
  let ?r = "row_observed r i now ob"
  have "row_changed r ?r i (entry_record e')"
    by (rule row_updated [OF assms, of i "entry_record e"])
      (use Some e' rec in \<open>auto simp: row_observed_def records_row_insert pending_ids_def Let_def
        records_row_def split: if_splits\<close>)
  moreover have "records_saving ?r = records_saving r"
    using Some e' by (simp add: row_observed_def Let_def)
  ultimately show ?thesis using assms by (intro row_changed_grows)
qed (simp add: row_observed_def grows_refl assms)

lemma observe_one_eq:
  "records_observe_one now r (hash, t) =
     (let (r, i) = (case bt_get (records_by_hash r) hash of
                      Some i \<Rightarrow> (r, i) | None \<Rightarrow> records_adopt r hash t);
          r = row_observed r i (monotonic now) \<lparr>observation_torrent = t, observation_last_seen = wall now\<rparr>
      in if is_some_and (\<lambda>e. record_desired (entry_record e) = Desired_Held \<and> torrent_completed_at t \<noteq> None)
              (bt_get (records_entries r) i)
         then records_set_desired r i Desired_Active else r)"
  by (simp add: records_observe_one_def)

lemma observe_one_grows:
  assumes "records_ok r"
  shows "grows r (records_observe_one now r p)"
proof -
  obtain hash t where p: "p = (hash, t)" by (cases p)
  obtain r1 i where r1: "(case bt_get (records_by_hash r) hash of
      Some i \<Rightarrow> (r, i) | None \<Rightarrow> records_adopt r hash t) = (r1, i)"
    by (metis surj_pair)
  then have g1: "grows r r1" and i: "i \<in> row_ids r1"
    using assms adopt_grows [OF assms] grows_refl [OF assms] index_in_rows(1) [OF assms]
    by (auto split: option.splits)
  define r2 where
    "r2 = row_observed r1 i (monotonic now) \<lparr>observation_torrent = t, observation_last_seen = wall now\<rparr>"
  have g2: "grows r1 r2" using row_observed_grows g1 by (simp add: r2_def grows_def)
  then have "records_ok r2" "i \<in> row_ids r2" using i by (auto simp: grows_def)
  then have g3: "grows r2 (records_set_desired r2 i Desired_Active)" by (rule set_desired_grows)
  have "records_observe_one now r p = r2 \<or>
      records_observe_one now r p = records_set_desired r2 i Desired_Active"
    unfolding p observe_one_eq r1 by (simp add: Let_def r2_def)
  with g1 g2 g3 show ?thesis by (auto intro: grows_trans)
qed

lemma bookmark_one_grows:
  assumes "records_ok r"
  shows "grows r (records_bookmark_one r p)"
proof -
  obtain mam d where p: "p = (mam, d)" by (cases p)
  show ?thesis
  proof (cases "bt_get (records_by_mam r) mam")
    case None
    from bookmark_changed [OF None] obtain row where
      "row_changed r (records_bookmark_one r (mam, d)) (records_next_id r) row" by blast
    then show ?thesis
      using assms unfolding p
      by (rule row_changed_grows)
        (simp add: records_bookmark_one_def records_allocate_def Let_def)
  qed (simp add: p records_bookmark_one_def grows_refl assms)
qed

lemma link_grows:
  assumes ok: "records_ok r" and i: "bt_get (records_by_mam r) mam = Some i"
  shows "grows r (records_link r i mam hash)"
proof -
  define split where "split \<longleftrightarrow> (\<exists>j. bt_get (records_by_hash r) hash = Some j \<and> j \<noteq> i)"
  define target where "target = (if split then the (bt_get (records_by_hash r) hash) else i)"
  define r1 where "r1 = (if split then records_set_desired r i Desired_Removed else r)"
  define origin where "origin = map_option (\<lambda>e. record_origin (entry_record e)) (bt_get (records_entries r) i)"
  have rows: "i \<in> row_ids r" "target \<in> row_ids r"
    using index_in_rows [OF ok] i by (auto simp: target_def split_def)
  have g1: "grows r r1" using ok rows by (simp add: r1_def set_desired_grows grows_refl)
  then have ok1: "records_ok r1" and "target \<in> row_ids r1" using rows by (auto simp: grows_def)
  then obtain old where old: "records_row r1 target = Some old" by (auto simp: row_ids_def)
  let ?new = "old\<lparr>record_identity := Identity_Linked mam hash,
    record_origin := unwrap_or (record_origin old) origin, record_desired := Desired_Active\<rparr>"
  let ?r2 = "records_link r i mam hash"
  have eq: "?r2 = (let r = (if split then r1\<lparr>records_by_mam := bt_insert mam target (records_by_mam r1)\<rparr> else r1);
      r = r\<lparr>records_entries := bt_modify target
                (\<lambda>e. e\<lparr>entry_record := (entry_record e)
                       \<lparr>record_identity := Identity_Linked mam hash,
                        record_origin := unwrap_or (record_origin (entry_record e)) origin\<rparr>\<rparr>)
                (records_entries r)\<rparr>;
      r = records_set_desired r target Desired_Active
      in r\<lparr>records_by_hash := bt_insert hash target (records_by_hash r)\<rparr>)"
    unfolding records_link_def origin_def [symmetric]
    by (cases split) (auto simp: split_def r1_def target_def Let_def split: option.split)
  have id: "record_id old = target" using ok1 old by (simp add: records_ok_def rows_ok_def)
  have mam1: "bt_get (records_by_mam r1) mam \<noteq> None" using i by (simp add: r1_def)
  have row: "records_row ?r2 = (records_row r1)(target \<mapsto> ?new)"
    unfolding eq using old
    by (auto simp: Let_def set_desired_row records_row_def fun_eq_iff)
  have "row_changed r1 ?r2 target ?new"
    unfolding row_changed_def row
    using id mam1 \<open>target \<in> row_ids r1\<close> unfolding eq
    by (auto simp: Let_def pending_ids_def records_set_desired_def)
  moreover have "records_saving ?r2 = records_saving r1" unfolding eq by (simp add: Let_def)
  ultimately have "grows r1 ?r2" using ok1 by (intro row_changed_grows)
  with g1 show ?thesis by (rule grows_trans)
qed

lemma redownload_eq:
  assumes "records_ok r"
  shows "\<exists>r'. grows r r' \<and> records_redownload r now i = (if r' = r then (r, []) else records_save r' now)"
proof (cases "opt_filter (\<lambda>e. record_desired (entry_record e) = Desired_Snatched)
             (bt_get (records_entries r) i)")
  case None
  then show ?thesis
    by (intro exI [of _ r]) (simp add: records_redownload_def grows_refl assms)
next
  case (Some e)
  then have e: "bt_get (records_entries r) i = Some e"
    "record_desired (entry_record e) = Desired_Snatched" by (auto simp: opt_filter_Some)
  let ?new = "(entry_record e)\<lparr>record_desired := Desired_Queued, record_origin := Origin_Redownload\<rparr>"
  let ?r = "r\<lparr>records_entries := bt_insert i (e\<lparr>entry_record := ?new\<rparr>) (records_entries r),
               records_unsaved := insert i (records_unsaved r)\<rparr>"
  have changed: "row_changed r ?r i ?new"
    by (rule row_updated [OF assms, of i "entry_record e"])
      (use e in \<open>auto simp: records_row_insert pending_ids_def records_row_def\<close>)
  have "records_row ?r i \<noteq> records_row r i"
  proof -
    have "record_desired ?new \<noteq> record_desired (entry_record e)" using e(2) by simp
    then have "?new \<noteq> entry_record e" by metis
    with e(1) show ?thesis by (simp add: records_row_def)
  qed
  then have "?r \<noteq> r" by metis
  with changed Some assms show ?thesis
    by (intro exI [of _ ?r]) (auto simp: records_redownload_def intro: row_changed_grows)
qed

lemma bt_get_collect_Some: "bt_get (bt_collect ps) k = Some v \<Longrightarrow> (k, v) \<in> set ps"
  using map_of_SomeD [of "rev ps" k v] by (simp add: bt_get_collect)

lemma bt_get_collect_None: "bt_get (bt_collect ps) k = None \<longleftrightarrow> k \<notin> fst ` set ps"
  by (simp add: bt_get_collect map_of_eq_None_iff)

lemma index_covers:
  assumes "x \<in> set xs" and "key x = Some k"
  shows "bt_get (bt_collect (List.map_filter (\<lambda>x. map_option (\<lambda>k. (k, g x)) (key x)) xs)) k \<noteq> None"
proof -
  have "(k, g x) \<in> set (List.map_filter (\<lambda>x. map_option (\<lambda>k. (k, g x)) (key x)) xs)"
    using assms by (auto simp: set_map_filter_iff intro!: bexI [of _ x])
  then have "k \<in> fst ` set (List.map_filter (\<lambda>x. map_option (\<lambda>k. (k, g x)) (key x)) xs)"
    by (metis fst_conv imageI)
  then show ?thesis unfolding bt_get_collect_None by blast
qed

lemma records_new_row:
  "records_row (records_new rs) i = Some row \<Longrightarrow> row \<in> set rs \<and> record_id row = i"
  by (auto simp: records_row_def records_new_def entry_new_def dest!: bt_get_collect_Some)

lemma records_new_ids: "row_ids (records_new rs) = record_id ` set rs"
  by (auto simp: row_ids_def records_row_def records_new_def bt_get_collect_None image_iff)

lemma records_new_ok: "records_ok (records_new rs)"
proof -
  have "rows_ok (records_new rs)"
    unfolding rows_ok_def
  proof (intro conjI allI impI)
    show "bt_wf (records_entries (records_new rs))" by (simp add: records_new_def)
    fix i row
    assume row: "records_row (records_new rs) i = Some row"
    then have mem: "row \<in> set rs" and "record_id row = i" using records_new_row by blast+
    then show "record_id row = i" by simp
    show "bt_get (records_by_hash (records_new rs)) hash \<noteq> None"
      if "identity_hash (record_identity row) = Some hash" for hash
      using index_covers [of row rs "\<lambda>r. identity_hash (record_identity r)" hash record_id] mem that
      by (simp add: records_new_def)
    show "bt_get (records_by_mam (records_new rs)) mam \<noteq> None"
      if "identity_mam_id (record_identity row) = Some mam" for mam
      using index_covers [of row "filter (\<lambda>r. record_desired r = Desired_Removed) rs @
          filter (\<lambda>r. record_desired r \<noteq> Desired_Removed) rs"
          "\<lambda>r. identity_mam_id (record_identity r)" mam record_id] mem that
      by (simp add: records_new_def)
  qed
  moreover have "indexes_ok (records_new rs)"
    unfolding indexes_ok_def records_new_ids
    by (auto simp: records_new_def set_map_filter_iff dest!: bt_get_collect_Some)
  moreover have "next_id_ok (records_new rs)"
  proof (cases "rs = []")
    case False
    let ?m = "Max (record_id ` set rs)"
    have "records_next_id (records_new rs) = sat_add ?m 1"
      using False by (simp add: records_new_def record_id_after_def)
    moreover have "\<forall>i \<in> record_id ` set rs. i \<le> ?m" by simp
    moreover have "sat_add ?m 1 = - 1 \<or> ?m < sat_add ?m 1"
      using sat_add_one_less [of ?m] sat_add_ge [of ?m 1] by (metis word_order.extremum_unique)
    ultimately show ?thesis
      unfolding next_id_ok_def records_new_ids by (metis le_less_trans)
  qed (simp add: next_id_ok_def records_new_ids)
  moreover have "pending_ids (records_new rs) = {}" by (simp add: pending_ids_def records_new_def)
  ultimately show ?thesis by (simp add: records_ok_def)
qed

text \<open>What every step owes: well-formed rows, no row lost, and the balance of saves.\<close>

fun registry_rows :: "registry \<Rightarrow> record_id set" where
  "registry_rows (Registry_Loaded r) = row_ids r"
| "registry_rows _ = {}"

definition registry_step_ok ::
    "registry \<Rightarrow> clock_reading \<times> registry_input \<Rightarrow> registry \<times> action list \<Rightarrow> bool" where
  "registry_step_ok g i s \<longleftrightarrow>
     registry_ok (fst s) \<and> registry_rows g \<subseteq> registry_rows (fst s) \<and>
     sent is_save (snd s) + of_bool (registry_saving g)
       \<le> of_bool (registry_saving (fst s)) + of_bool (is_save_answer i)"

lemma step_same_ok: "registry_ok g \<Longrightarrow> registry_step_ok g i (g, [])"
  by (simp add: registry_step_ok_def)

lemma step_save_ok:
  assumes "grows r r'"
  shows "registry_step_ok (Registry_Loaded r) i (registry_with (records_save r' now))"
proof -
  have "sent is_save (snd (records_save r' now)) + of_bool (records_saving r' \<noteq> None)
     = (of_bool (records_saving (fst (records_save r' now)) \<noteq> None) :: nat)"
    by (rule records_save_flight)
  with assms show ?thesis by (simp add: registry_step_ok_def registry_with_def grows_def)
qed

lemma registry_handle_ok:
  assumes "registry_ok g"
  shows "registry_step_ok g (now, RegistryInput_Event e) (registry_handle g (monotonic now) e)"
proof (cases g)
  case (Registry_Loaded r)
  with assms have ok: "records_ok r" by simp
  show ?thesis
  proof (cases e)
    case (RegistryEvent_Redownload i)
    from redownload_eq [OF ok, of "monotonic now" i] obtain r' where "grows r r'"
      "records_redownload r (monotonic now) i = (if r' = r then (r, []) else records_save r' (monotonic now))"
      by blast
    with Registry_Loaded RegistryEvent_Redownload step_save_ok [of r r'] step_same_ok [OF assms]
    show ?thesis by (cases "r' = r") (simp_all add: registry_handle_def registry_with_def)
  next
    case RegistryEvent_Saved
    let ?r = "r\<lparr>records_saving := None, records_last_save := LastSave_Saved\<rparr>"
    have "records_ok ?r"
      using ok by (auto simp: records_ok_def rows_ok_def indexes_ok_def next_id_ok_def row_ids_def pending_ids_def)
    moreover have "row_ids ?r = row_ids r" by (simp add: row_ids_def)
    moreover note records_save_flight [of ?r "monotonic now"]
    ultimately show ?thesis
      using Registry_Loaded RegistryEvent_Saved ok
      by (auto simp: registry_handle_def registry_with_def registry_step_ok_def)
  next
    case RegistryEvent_SaveFailed
    then show ?thesis
      using Registry_Loaded ok
      by (auto simp: registry_handle_def registry_step_ok_def records_ok_def rows_ok_def indexes_ok_def
          next_id_ok_def row_ids_def pending_ids_def split: option.split)
  qed (use Registry_Loaded assms in \<open>simp_all add: registry_handle_def step_same_ok\<close>)
next
  case Registry_Reading
  then show ?thesis
    by (cases e) (simp_all add: registry_handle_def registry_step_ok_def records_new_ok)
qed (simp_all add: registry_handle_def registry_step_ok_def)

lemma registry_update_ok:
  assumes "registry_ok g" and "\<And>r. records_ok r \<Longrightarrow> \<exists>r'. grows r r' \<and> f r = records_save r' now"
  shows "registry_step_ok g i (registry_update g f)"
proof (cases g)
  case (Registry_Loaded r)
  with assms obtain r' where "grows r r'" "f r = records_save r' now" by auto
  with Registry_Loaded step_save_ok [of r r' i now] show ?thesis by (simp add: registry_update_def)
qed (simp_all add: registry_update_def registry_step_ok_def)

lemma set_desired_save_grows:
  assumes "records_ok r" and "\<And>i. x = Some i \<Longrightarrow> i \<in> row_ids r"
  shows "grows r (case x of Some i \<Rightarrow> records_set_desired r i d | None \<Rightarrow> r)"
  using assms by (cases x) (auto intro: set_desired_grows grows_refl)

lemma registry_step_keeps:
  assumes "registry_ok g"
  shows "registry_step_ok g (now, input) (registry_step g (now, input))"
proof (cases input)
  case (RegistryInput_Event e)
  then show ?thesis using registry_handle_ok [OF assms] by simp
next
  case (RegistryInput_Observe session)
  have "records_ok r \<Longrightarrow> grows r (foldl (records_observe_one now) r (session_torrents session))" for r
    by (rule grows_foldl) (auto intro: observe_one_grows)
  then show ?thesis
    using RegistryInput_Observe assms step_save_ok step_same_ok
    by (cases g) (auto simp: registry_observe_def records_observe_def)
next
  case (RegistryInput_Command session permits)
  have "registry_ok (fst (registry_command g now' session permits)) \<and>
      registry_rows g = registry_rows (fst (registry_command g now' session permits)) \<and>
      registry_saving g = registry_saving (fst (registry_command g now' session permits))" for now'
    using assms
    by (cases g)
      (auto simp: registry_command_def registry_with_def records_command_def records_ok_def rows_ok_def
        indexes_ok_def next_id_ok_def row_ids_def pending_ids_def split: option.split)
  moreover have "sent is_save (map Action_QbittorrentCommand cs) = 0" for cs
    by (induction cs) simp_all
  ultimately show ?thesis
    using RegistryInput_Command by (simp add: registry_step_ok_def split_beta)
next
  case (RegistryInput_Bookmarked bookmarks)
  then show ?thesis
    unfolding RegistryInput_Bookmarked registry_step.simps records_bookmarked_def
    by (intro registry_update_ok [OF assms, where now = "monotonic now"] exI conjI refl)
      (auto intro: grows_foldl bookmark_one_grows)
next
  case (RegistryInput_Fetched mam hash)
  then show ?thesis
    unfolding RegistryInput_Fetched registry_step.simps records_fetched_def
    by (intro registry_update_ok [OF assms, where now = "monotonic now"] exI conjI refl)
      (auto intro: link_grows grows_refl split: option.split)
next
  case (RegistryInput_Snatched mam)
  then show ?thesis
    unfolding RegistryInput_Snatched registry_step.simps records_snatched_def
    by (intro registry_update_ok [OF assms, where now = "monotonic now"] exI conjI refl)
      (auto simp: opt_filter_Some intro!: set_desired_save_grows dest: index_in_rows)
next
  case (RegistryInput_Resume hash)
  then show ?thesis
    unfolding RegistryInput_Resume registry_step.simps records_resume_def
    by (intro registry_update_ok [OF assms, where now = "monotonic now"] exI conjI refl)
      (auto simp: opt_filter_Some intro!: set_desired_save_grows dest: index_in_rows)
next
  case (RegistryInput_Hold hash)
  then show ?thesis
    unfolding RegistryInput_Hold registry_step.simps records_hold_def
    by (intro registry_update_ok [OF assms, where now = "monotonic now"] exI conjI refl)
      (auto intro!: set_desired_save_grows dest: index_in_rows)
qed

interpretation registry: single_flight registry_step registry_start "\<lambda>_. True" registry_ok
  registry_saving is_save is_save_answer
proof (unfold_locales, goal_cases)
  case (2 g i)
  then show ?case using registry_step_keeps [of g "fst i" "snd i"] by (simp add: registry_step_ok_def)
next
  case (3 g i)
  then show ?case using registry_step_keeps [of g "fst i" "snd i"] by (simp add: registry_step_ok_def)
qed (simp add: registry_start_def registry_start_reading_def)

subsection \<open>What a command does\<close>

lemma present_where_iff:
  "hash \<in> set (present_where r session desired p) \<longleftrightarrow>
     (\<exists>row \<in> set (records_records r). \<exists>t. record_desired row = desired \<and>
        identity_hash (record_identity row) = Some hash \<and>
        bt_get (session_torrents session) hash = Some t \<and> p t)"
  by (force simp: present_where_def records_present_def set_map_filter_iff bind_eq_Some_conv)

lemma to_complete_iff:
  "record_to_complete session permits row = Some hash \<longleftrightarrow>
     (\<exists>t. identity_hash (record_identity row) = Some hash \<and>
        bt_get (session_torrents session) hash = Some t \<and> record_desired row = Desired_Active \<and>
        partial t \<and> is_none_or permits (identity_mam_id (record_identity row)))"
  by (auto simp: record_to_complete_def bind_eq_Some_conv)

lemma to_start_iff:
  "record_to_start session permits row = Some hash \<longleftrightarrow>
     (\<exists>t. identity_hash (record_identity row) = Some hash \<and>
        bt_get (session_torrents session) hash = Some t \<and> is_stopped (torrent_state t) \<and>
        \<not> (record_origin row = Origin_Adopted \<and> untouched t) \<and>
        (torrent_state t = TorrentState_Stopped Completion_Complete \<and> \<not> partial t \<or>
         is_none_or permits (identity_mam_id (record_identity row))))"
  by (auto simp: record_to_start_def bind_eq_Some_conv)

lemma to_add_iff:
  "record_to_add session permits row = Some c \<longleftrightarrow>
     (\<exists>mam hash. record_identity row = Identity_Linked mam hash \<and> c = TorrentCommand_Add mam hash \<and>
        record_desired row = Desired_Active \<and> record_origin row \<noteq> Origin_Adopted \<and> permits mam \<and>
        bt_get (session_torrents session) hash = None)"
  by (auto simp: record_to_add_def split: identity.splits if_splits)

lemma reconcile_elim:
  assumes "records_reconcile r session permits = Some c"
  shows "case c of
      TorrentCommand_Remove hs \<Rightarrow> hs = present_where r session Desired_Removed removable
    | TorrentCommand_Stop hs \<Rightarrow> hs = present_where r session Desired_Held
        (\<lambda>t. torrent_completed_at t = None \<and> \<not> is_stopped (torrent_state t))
    | TorrentCommand_SelectAllFiles h \<Rightarrow>
        find_map (record_to_complete session permits) (records_records r) = Some h
    | TorrentCommand_Add mam h \<Rightarrow> find_map (record_to_add session permits) (records_records r) = Some c
    | TorrentCommand_Start hs \<Rightarrow> hs = List.map_filter (record_to_start session permits)
        (filter (\<lambda>r. record_desired r = Desired_Active) (records_records r))
    | TorrentCommand_ForceStart hs \<Rightarrow> hs = present_where r session Desired_Active
        (\<lambda>t. unsatisfied t \<and> \<not> partial t \<and> torrent_force_start t = ForceStart_NotForced)
    | TorrentCommand_EndForceStart hs \<Rightarrow> hs = present_where r session Desired_Active
        (\<lambda>t. \<not> unsatisfied t \<and> torrent_force_start t = ForceStart_Forced)"
proof (cases "find_map (record_to_add session permits) (records_records r)")
  case (Some a)
  then obtain mam hash where "a = TorrentCommand_Add mam hash"
    by (auto dest!: find_map_Some simp: to_add_iff)
  with Some assms show ?thesis
    by (auto simp: records_reconcile_def Let_def split: option.splits if_splits)
next
  case None
  with assms show ?thesis
    by (auto simp: records_reconcile_def Let_def split: option.splits if_splits)
qed

fun removed_by :: "torrent_command \<Rightarrow> torrent_hash list" where
  "removed_by (TorrentCommand_Remove hs) = hs"
| "removed_by _ = []"

fun stopped_by :: "torrent_command \<Rightarrow> torrent_hash list" where
  "stopped_by (TorrentCommand_Stop hs) = hs"
| "stopped_by _ = []"

fun running_by :: "torrent_command \<Rightarrow> torrent_hash list" where
  "running_by (TorrentCommand_Start hs) = hs"
| "running_by (TorrentCommand_ForceStart hs) = hs"
| "running_by (TorrentCommand_SelectAllFiles hash) = [hash]"
| "running_by (TorrentCommand_Add mam hash) = [hash]"
| "running_by _ = []"

definition has_row :: "records \<Rightarrow> torrent_hash \<Rightarrow> (torrent_record \<Rightarrow> bool) \<Rightarrow> bool" where
  "has_row r hash p \<longleftrightarrow>
     (\<exists>row \<in> set (records_records r). identity_hash (record_identity row) = Some hash \<and> p row)"

lemma SEEDING_TARGET_eq: "SEEDING_TARGET = hours 96"
  by (simp add: SEEDING_TARGET_def SEEDING_REQUIRED_def time_defs)

definition witness_row :: "desired \<Rightarrow> torrent_record" where
  "witness_row desired =
     \<lparr>record_id = 4, record_identity = Identity_Linked 7 ''ab'', record_origin = Origin_Bookmark,
      record_desired = desired, record_save_path = None, record_deletion = ContentDeletion_NotAllowed,
      record_observation = None\<rparr>"

lemma witness_row_sel [simp]:
  "record_id (witness_row d) = 4" "record_identity (witness_row d) = Identity_Linked 7 ''ab''"
  "record_origin (witness_row d) = Origin_Bookmark" "record_desired (witness_row d) = d"
  by (simp_all add: witness_row_def)

definition witness_listing :: "torrent_state \<Rightarrow> session" where
  "witness_listing state = witness_session
     \<lparr>session_torrents := [(''ab'', torrent_default\<lparr>torrent_state := state\<rparr>)],
      session_listing := Listing_Received\<rparr>"

lemma witness_records: "records_records (records_new [witness_row d]) = [witness_row d]"
  by (simp add: records_records_def records_new_def bt_collect_def bt_values_def entry_new_def)

lemma witness_get:
  "bt_get (session_torrents (witness_listing state)) ''ab'' = Some (torrent_default\<lparr>torrent_state := state\<rparr>)"
  by (simp add: witness_listing_def bt_get_def)

lemmas witness_reconcile = records_reconcile_def Let_def present_where_def records_present_def
  witness_records List.map_filter_def witness_get removable_def untouched_def torrent_default_def
  record_to_complete_def record_to_add_def record_to_start_def partial_def unsatisfied_def

subsection \<open>Properties\<close>

text \<open>
  No hit-and-run by Windlass: a command removes only torrents the registry marks removed that
  completed and seeded 96 hours, or never downloaded anything, and stops only held torrents that
  have not completed.
\<close>

lemma removals_and_stops_are_safe:
  assumes "records_reconcile r session permits = Some c"
  shows "(\<forall>hash \<in> set (removed_by c). has_row r hash (\<lambda>row. record_desired row = Desired_Removed) \<and>
            (\<exists>t. bt_get (session_torrents session) hash = Some t \<and>
               (torrent_completed_at t \<noteq> None \<and> hours 96 \<le> torrent_seeding_time t \<or>
                torrent_progress t = 0 \<and> torrent_downloaded t = 0))) \<and>
         (\<forall>hash \<in> set (stopped_by c). has_row r hash (\<lambda>row. record_desired row = Desired_Held) \<and>
            (\<exists>t. bt_get (session_torrents session) hash = Some t \<and> torrent_completed_at t = None))"
  using reconcile_elim [OF assms]
  by (cases c) (auto simp: present_where_iff has_row_def removable_def untouched_def SEEDING_TARGET_eq)

text \<open>
  What Windlass sets running is allowed to run: every torrent a command starts, forces,
  completes or adds has an active row, and when MAM knows it, MAM's admission permits it or
  its whole content is already downloaded. A torrent found in qBittorrent that downloaded
  nothing is never started.
\<close>

lemma running_torrents_are_permitted:
  assumes "records_reconcile r session permits = Some c" and "hash \<in> set (running_by c)"
  shows "has_row r hash (\<lambda>row. record_desired row = Desired_Active \<and>
    (is_none_or permits (identity_mam_id (record_identity row)) \<or>
     (\<exists>t. bt_get (session_torrents session) hash = Some t \<and> \<not> partial t \<and>
        (torrent_completed_at t \<noteq> None \<or> torrent_state t = TorrentState_Stopped Completion_Complete))) \<and>
    (\<forall>hs t. c = TorrentCommand_Start hs \<longrightarrow> bt_get (session_torrents session) hash = Some t \<longrightarrow>
       \<not> (record_origin row = Origin_Adopted \<and> torrent_progress t = 0 \<and> torrent_downloaded t = 0)))"
proof (cases c)
  case (TorrentCommand_Start hs)
  with reconcile_elim [OF assms(1)] assms(2) show ?thesis
    by (auto simp: set_map_filter_iff to_start_iff has_row_def untouched_def)
next
  case (TorrentCommand_ForceStart hs)
  with reconcile_elim [OF assms(1)] assms(2) show ?thesis
    by (auto simp: present_where_iff has_row_def unsatisfied_def)
next
  case (TorrentCommand_SelectAllFiles h)
  with reconcile_elim [OF assms(1)] assms(2) show ?thesis
    by (auto simp: to_complete_iff has_row_def dest!: find_map_Some)
next
  case (TorrentCommand_Add mam h)
  with reconcile_elim [OF assms(1)] obtain row where "row \<in> set (records_records r)"
    "record_to_add session permits row = Some (TorrentCommand_Add mam h)"
    by (auto dest: find_map_Some)
  with TorrentCommand_Add assms(2) show ?thesis
    by (auto simp: to_add_iff has_row_def intro!: bexI [of _ row])
qed (use assms(2) in auto)



text \<open>
  Rows are saved in one batch at a time: over any sequence of storage results, observations,
  bookmarks, fetches and holds, the batches sent outnumber the results by at most one.
\<close>

theorem registry_saves_do_not_overlap:
  "sent is_save (concat (snd (run registry_step registry_start inputs)))
     \<le> 1 + length (filter is_save_answer inputs)"
  by (rule registry.sent_at_most) (simp add: list_all_iff)

lemma registry_run_rows:
  "registry_ok g \<Longrightarrow> registry_rows g \<subseteq> registry_rows (fst (run registry_step g inputs))"
proof (induction inputs arbitrary: g)
  case (Cons i inputs)
  obtain now input where i: "i = (now, input)" by (cases i)
  from registry_step_keeps [OF Cons.prems, of now input]
  have "registry_ok (fst (registry_step g i))" "registry_rows g \<subseteq> registry_rows (fst (registry_step g i))"
    by (simp_all add: registry_step_ok_def i)
  with Cons.IH show ?case by (auto simp: split_beta Let_def simp del: registry_step.simps)
qed simp

text \<open>
  C36. Rows are never deleted and stay well-formed: whatever happens, every row the registry has
  had once loaded it still has, each row carries its own identity, both indexes point at rows
  and cover them, identities not yet given are above those in use, and every row waiting to be
  saved exists.
\<close>

theorem rows_are_never_deleted:
  "registry_rows (fst (run registry_step registry_start xs))
     \<subseteq> registry_rows (fst (run registry_step registry_start (xs @ ys))) \<and>
   (case fst (run registry_step registry_start xs) of
      Registry_Loaded r \<Rightarrow> rows_ok r \<and> indexes_ok r \<and> next_id_ok r \<and> pending_ids r \<subseteq> row_ids r
    | _ \<Rightarrow> True)"
proof -
  have ok: "registry_ok (fst (run registry_step registry_start xs))"
    by (rule registry.inv_run) (simp add: list_all_iff)
  with registry_run_rows [OF ok, of ys] show ?thesis
    by (auto simp: run_append split_beta Let_def records_ok_def split: registry.split)
qed

end
