(* ===== verification/Mam_Budget.thy ===== *)
theory Mam_Budget
  imports Actions
begin

text \<open>
  The token bucket every request to MAM draws from (\<open>core/mam/budget.rs\<close>): ten tokens, one
  restored every three seconds, starting full.
\<close>

type_synonym tokens = u32

definition REQUEST_BURST :: tokens where
  "REQUEST_BURST = 10"

definition REQUEST_REFILL :: duration where
  "REQUEST_REFILL = secs 3"

definition tokens_less_one :: "tokens \<Rightarrow> tokens option" where
  "tokens_less_one t = (if t = 0 then None else Some (t - 1))"

definition tokens_restoring :: "tokens \<Rightarrow> u32 \<Rightarrow> tokens" where
  "tokens_restoring t restored = min (sat_add t restored) REQUEST_BURST"

record budget =
  budget_tokens :: tokens
  budget_refilled_at :: "instant option"

definition budget_new :: budget where
  "budget_new = \<lparr>budget_tokens = REQUEST_BURST, budget_refilled_at = None\<rparr>"

definition budget_refilled :: "budget \<Rightarrow> instant \<Rightarrow> tokens \<times> instant option" where
  "budget_refilled b now =
     (case budget_refilled_at b of
        None \<Rightarrow> (budget_tokens b, None)
      | Some refilled_at \<Rightarrow>
          (let elapsed = duration_since now refilled_at;
               restored = (sat_of_nat (as_secs elapsed div as_secs REQUEST_REFILL) :: u32);
               tokens = tokens_restoring (budget_tokens b) restored
           in if tokens = REQUEST_BURST then (tokens, None)
              else (tokens, checked_add refilled_at (duration_sat_mul REQUEST_REFILL (unat restored)))))"

definition budget_take :: "budget \<Rightarrow> instant \<Rightarrow> budget \<times> bool" where
  "budget_take b now =
     (let (tokens, refilled_at) = budget_refilled b now in
      case tokens_less_one tokens of
        None \<Rightarrow> (b, False)
      | Some left \<Rightarrow>
          (\<lparr>budget_tokens = left, budget_refilled_at = Some (unwrap_or now refilled_at)\<rparr>, True))"

definition budget_next_token :: "budget \<Rightarrow> instant \<Rightarrow> instant option" where
  "budget_next_token b now =
     (case budget_refilled b now of
        (tokens, Some refilled_at) \<Rightarrow>
          if tokens = 0 then checked_add refilled_at REQUEST_REFILL else None
      | _ \<Rightarrow> None)"

subsection \<open>The bucket's level\<close>

text \<open>
  The level is what the bucket holds, in nanoseconds of refilling: full, or its tokens plus the
  time since the last one was restored. Time raises it at most at its own pace, and a taken
  token lowers it by three seconds.
\<close>

definition budget_ok :: "budget \<Rightarrow> instant \<Rightarrow> bool" where
  "budget_ok b now \<longleftrightarrow>
     unat (budget_tokens b) \<le> 10 \<and>
     (case budget_refilled_at b of
        None \<Rightarrow> budget_tokens b = REQUEST_BURST
      | Some at \<Rightarrow> at \<le> now)"

definition budget_level :: "budget \<Rightarrow> instant \<Rightarrow> int" where
  "budget_level b now =
     (case budget_refilled_at b of
        None \<Rightarrow> int (secs 30)
      | Some at \<Rightarrow> min (int (secs 30)) (int (unat (budget_tokens b)) * int (secs 3) + (now - at)))"

text \<open>An instant from which half a minute of refilling can still be counted.\<close>

definition instant_ok :: "instant \<Rightarrow> bool" where
  "instant_ok now \<longleftrightarrow> now + int (secs 30) \<le> time_max"

lemma unat_burst: "unat REQUEST_BURST = 10"
  by (simp add: REQUEST_BURST_def)

lemma tokens_restoring_unat:
  "unat (tokens_restoring t (sat_of_nat n)) = min (unat t + n) 10"
proof -
  have "unat t < 2 ^ 32" using unsigned_less [of t, where ?'a = nat] by simp
  then show ?thesis
    by (simp add: tokens_restoring_def min_def word_le_nat_alt unat_burst unat_sat split: if_splits)
qed

lemma restored_secs: "as_secs d div as_secs REQUEST_REFILL = d div 3000000000"
  by (simp add: as_secs_def REQUEST_REFILL_def secs_def div_mult2_eq [symmetric])

lemma burst_iff: "t = REQUEST_BURST \<longleftrightarrow> unat t = 10"
  using unat_burst by (metis word_unat_eq_iff)

text \<open>Refilling, with the saturations and the checked sum out of the way.\<close>

lemma budget_refilled_eq:
  assumes "budget_ok b now" and "budget_refilled_at b = Some at" and "instant_ok now"
  defines "k \<equiv> unat (budget_tokens b) + nat (now - at) div 3000000000"
  shows "unat (fst (budget_refilled b now)) = min k 10"
    and "snd (budget_refilled b now) =
      (if 10 \<le> k then None else Some (at + int (nat (now - at) div 3000000000 * 3000000000)))"
proof -
  let ?n = "nat (now - at) div 3000000000"
  let ?t = "tokens_restoring (budget_tokens b) (sat_of_nat ?n)"
  have t: "unat ?t = min k 10" by (simp add: tokens_restoring_unat k_def)
  have eq: "budget_refilled b now =
      (if 10 \<le> k then (?t, None)
       else (?t, checked_add at (duration_sat_mul REQUEST_REFILL (unat (sat_of_nat ?n :: u32)))))"
    using assms(2) t
    by (simp add: budget_refilled_def Let_def restored_secs duration_since_def burst_iff min_def)
  show "unat (fst (budget_refilled b now)) = min k 10" using t by (simp add: eq)
  show "snd (budget_refilled b now) =
      (if 10 \<le> k then None else Some (at + int (nat (now - at) div 3000000000 * 3000000000)))"
  proof (cases "10 \<le> k")
    case False
    then have n: "?n < 10" by (simp add: k_def)
    then have "unat (sat_of_nat ?n :: u32) = ?n" by (simp add: unat_sat)
    moreover have "duration_sat_mul REQUEST_REFILL ?n = ?n * 3000000000"
      using n by (simp add: duration_sat_mul_def REQUEST_REFILL_def secs_def duration_max_def)
    moreover have "at + int (?n * 3000000000) \<le> time_max"
    proof -
      have "at \<le> now" using assms(1,2) by (simp add: budget_ok_def)
      moreover have "int (?n * 3000000000) \<le> 27000000000" using n by linarith
      ultimately show ?thesis using assms(3) unfolding instant_ok_def secs_def by linarith
    qed
    ultimately show ?thesis using False by (simp add: eq checked_add_def)
  qed (simp add: eq)
qed

lemma budget_level_wait:
  "now \<le> later \<Longrightarrow> budget_level b later \<le> budget_level b now + (later - now)"
  by (auto simp: budget_level_def min_def split: option.split)

lemma budget_ok_later: "budget_ok b now \<Longrightarrow> now \<le> later \<Longrightarrow> budget_ok b later"
  by (auto simp: budget_ok_def split: option.splits)

lemma budget_level_le: "budget_level b now \<le> int (secs 30)"
  by (simp add: budget_level_def split: option.split)

lemma budget_level_nonneg: "budget_ok b now \<Longrightarrow> 0 \<le> budget_level b now"
  by (auto simp: budget_level_def budget_ok_def split: option.splits)

lemma tokens_less_one_Some: "tokens_less_one t = Some u \<longleftrightarrow> t \<noteq> 0 \<and> u = t - 1"
  by (auto simp: tokens_less_one_def)

text \<open>A taken token costs three seconds of level.\<close>

lemma budget_take_level:
  assumes ok: "budget_ok b now" and now: "instant_ok now" and taken: "budget_take b now = (b', True)"
  shows "budget_ok b' now" and "budget_level b' now + int (secs 3) \<le> budget_level b now"
proof -
  obtain tokens refilled where r: "budget_refilled b now = (tokens, refilled)"
    by (cases "budget_refilled b now")
  from taken r have pos: "tokens \<noteq> 0"
    and b': "b' = \<lparr>budget_tokens = tokens - 1, budget_refilled_at = Some (unwrap_or now refilled)\<rparr>"
    by (auto simp: budget_take_def tokens_less_one_def split: if_splits)
  have minus: "unat (tokens - 1) = unat tokens - 1"
    using pos by (simp add: unat_minus_one)
  have "budget_ok b' now \<and> budget_level b' now + int (secs 3) \<le> budget_level b now"
  proof (cases "budget_refilled_at b")
    case None
    with ok r have "tokens = REQUEST_BURST" "refilled = None"
      by (auto simp: budget_ok_def budget_refilled_def)
    with None show ?thesis
      by (simp add: b' budget_ok_def budget_level_def REQUEST_BURST_def secs_def)
  next
    case (Some at)
    have at: "at \<le> now" using ok Some by (simp add: budget_ok_def)
    define n where "n = nat (now - at) div 3000000000"
    define k where "k = unat (budget_tokens b) + n"
    have tokens: "unat tokens = min k 10"
      and refilled: "refilled = (if 10 \<le> k then None else Some (at + int (n * 3000000000)))"
      using budget_refilled_eq [OF ok Some now] r by (simp_all add: k_def n_def)
    have low: "int (n * 3000000000) \<le> now - at" and high: "now - at < int (n * 3000000000) + 3000000000"
      using at by (simp_all add: n_def)
    have "0 < unat tokens" using pos by (simp add: unat_gt_0)
    then have "0 < k" using tokens by simp
    have level: "budget_level b now =
        min 30000000000 (int (unat (budget_tokens b)) * 3000000000 + (now - at))"
      using Some by (simp add: budget_level_def secs_def)
    show ?thesis
    proof (cases "10 \<le> k")
      case True
      then have "30000000000 \<le> int (unat (budget_tokens b)) * 3000000000 + (now - at)"
        using low unfolding k_def by linarith
      with True tokens refilled minus level show ?thesis
        by (simp add: b' budget_ok_def budget_level_def secs_def)
    next
      case False
      have left: "int (unat (tokens - 1)) = int (unat (budget_tokens b)) + int n - 1"
      proof -
        have "unat (tokens - 1) + 1 = unat (budget_tokens b) + n"
          using False tokens minus \<open>0 < k\<close> unfolding k_def by linarith
        then show ?thesis by linarith
      qed
      have few: "int (unat (budget_tokens b)) + int n < 10" using False unfolding k_def by linarith
      have at': "budget_refilled_at b' = Some (at + int (n * 3000000000))"
        using False refilled by (simp add: b')
      have level': "budget_level b' now = min 30000000000
          (int (unat (tokens - 1)) * 3000000000 + (now - (at + int (n * 3000000000))))"
        unfolding budget_level_def at' by (simp add: b' secs_def)
      have "budget_ok b' now"
        using False tokens minus low by (simp add: budget_ok_def at') (simp add: b')
      moreover have "budget_level b' now + 3000000000 \<le> budget_level b now"
        using few low high unfolding level level' left by (simp add: min_def del: of_nat_unat)
      ultimately show ?thesis by (simp add: secs_def)
    qed
  qed
  then show "budget_ok b' now" "budget_level b' now + int (secs 3) \<le> budget_level b now" by auto
qed

subsection \<open>A run of requests\<close>

text \<open>The times at which a token was taken, over attempts at these times.\<close>

fun budget_run :: "budget \<Rightarrow> instant list \<Rightarrow> budget \<times> instant list" where
  "budget_run b [] = (b, [])"
| "budget_run b (now # nows) =
     (let (b, taken) = budget_take b now; (b, rest) = budget_run b nows
      in (b, (if taken then [now] else []) @ rest))"

lemma budget_take_False: "budget_take b now = (b', False) \<Longrightarrow> b' = b"
  by (auto simp: budget_take_def split_beta Let_def split: option.splits)

lemma budget_run_level:
  assumes "budget_ok b start" and "sorted (start # nows)" and "list_all instant_ok nows"
    and "budget_run b nows = (b', taken)"
  shows "int (length taken) * int (secs 3) \<le> budget_level b start + (last (start # nows) - start) \<and>
    budget_ok b' (last (start # nows))"
  using assms
proof (induction nows arbitrary: b start taken b')
  case Nil
  then show ?case by (simp add: budget_level_nonneg)
next
  case (Cons now nows)
  obtain b1 t where take: "budget_take b now = (b1, t)" by (cases "budget_take b now")
  obtain b2 rest where run: "budget_run b1 nows = (b2, rest)" by (cases "budget_run b1 nows")
  have ok: "budget_ok b now" using Cons.prems(1,2) budget_ok_later by simp
  have wait: "budget_level b now \<le> budget_level b start + (now - start)"
    using Cons.prems(2) by (simp add: budget_level_wait)
  have now: "instant_ok now" using Cons.prems(3) by simp
  have b1: "budget_ok b1 now \<and> budget_level b1 now + of_bool t * int (secs 3) \<le> budget_level b now"
  proof (cases t)
    case True
    with budget_take_level [OF ok now] take show ?thesis by simp
  next
    case False
    with budget_take_False take ok show ?thesis by auto
  qed
  have IH: "int (length rest) * int (secs 3) \<le> budget_level b1 now + (last (now # nows) - now) \<and>
      budget_ok b2 (last (now # nows))"
    using Cons.IH [of b1 now b2 rest] b1 Cons.prems run by simp
  have taken: "taken = (if t then [now] else []) @ rest" "b' = b2"
    using Cons.prems(4) take run by auto
  have "int (length taken) * int (secs 3) = of_bool t * int (secs 3) + int (length rest) * int (secs 3)"
    by (simp add: taken(1) algebra_simps)
  with IH b1 wait show ?case by (simp add: taken(2))
qed

lemma sorted_last_le: "sorted (xs @ y # ys) \<Longrightarrow> last (x # xs) \<le> y \<or> xs = []"
  by (cases xs rule: rev_cases) (auto simp: sorted_append)

subsection \<open>Properties\<close>

text \<open>
  C11. The request rate is bounded: whatever was asked before, over any window of attempts in
  order of time, the requests granted are at most ten plus one for every three seconds the
  window lasts.
\<close>

theorem request_rate_is_bounded:
  assumes "sorted (history @ window)" and "list_all instant_ok (history @ window)" and "window \<noteq> []"
    and "budget_run budget_new history = (b, before)" and "budget_run b window = (b', granted)"
  shows "int (length granted) \<le> 10 + (last window - hd window) div int (secs 3)"
proof -
  obtain w ws where window: "window = w # ws" using assms(3) by (cases window) auto
  have "budget_ok b w"
  proof (cases history)
    case Nil
    with assms(4) show ?thesis by (auto simp: budget_new_def budget_ok_def unat_burst)
  next
    case (Cons h hs)
    have "budget_ok budget_new h" by (simp add: budget_new_def budget_ok_def unat_burst)
    with budget_run_level [of budget_new h history b before] assms Cons
    have "budget_ok b (last (h # history))" by (auto simp: sorted_append)
    moreover have "last (h # history) \<le> w"
      using assms(1) Cons by (cases history rule: rev_cases) (auto simp: window sorted_append)
    ultimately show ?thesis by (rule budget_ok_later)
  qed
  from budget_run_level [OF this, of window b' granted] assms
  have "int (length granted) * int (secs 3) \<le> budget_level b w + (last window - w)"
    by (simp add: window sorted_append)
  with budget_level_le [of b w] have
    "int (length granted) * 3000000000 \<le> 30000000000 + (last window - w)" by (simp add: secs_def)
  then show ?thesis by (simp add: window secs_def)
qed

theorem request_rate_is_bounded_witness:
  "int (length (snd (budget_run (fst (budget_run budget_new [1])) [2, 4]))) \<le> 10"
proof -
  let ?b = "budget_run budget_new [1]"
  let ?w = "budget_run (fst ?b) [2, 4]"
  have "sorted [1 :: instant, 2, 4]" "list_all instant_ok [1, 2, 4]"
    by (simp_all add: instant_ok_def secs_def time_max_def)
  with request_rate_is_bounded [of "[1]" "[2, 4]" "fst ?b" "snd ?b" "fst ?w" "snd ?w"]
  show ?thesis by (simp add: secs_def)
qed

text \<open>
  The bucket always refills: a token is granted at once unless the bucket names a time for
  the next one, at most three seconds away, and at that time a token is granted.
\<close>

theorem next_token_is_granted:
  assumes "budget_ok b now" and "instant_ok now"
  shows "case budget_next_token b now of
      None \<Rightarrow> snd (budget_take b now)
    | Some at \<Rightarrow> \<not> snd (budget_take b now) \<and> now < at \<and> at \<le> now + int (secs 3) \<and>
        (instant_ok at \<longrightarrow> snd (budget_take b at))"
proof (cases "budget_refilled_at b")
  case None
  with assms show ?thesis
    by (simp add: budget_next_token_def budget_take_def budget_refilled_def budget_ok_def
        tokens_less_one_def REQUEST_BURST_def)
next
  case (Some at)
  have at: "at \<le> now" using assms(1) Some by (simp add: budget_ok_def)
  define n where "n = nat (now - at) div 3000000000"
  define k where "k = unat (budget_tokens b) + n"
  obtain tokens refilled where r: "budget_refilled b now = (tokens, refilled)"
    by (cases "budget_refilled b now")
  have tokens: "unat tokens = min k 10"
    and refilled: "refilled = (if 10 \<le> k then None else Some (at + int (n * 3000000000)))"
    using budget_refilled_eq [OF assms(1) Some assms(2)] r by (simp_all add: k_def n_def)
  show ?thesis
  proof (cases "k = 0")
    case False
    then have "tokens \<noteq> 0" using tokens by (metis min_def unat_0 zero_neq_numeral)
    with r refilled show ?thesis
      by (simp add: budget_next_token_def budget_take_def tokens_less_one_def split: option.split)
  next
    case True
    then have "tokens = 0" "refilled = Some at" "n = 0" "budget_tokens b = 0"
      using tokens refilled by (simp_all add: k_def unat_eq_0)
    have less: "now - at < 3000000000" using \<open>n = 0\<close> at by (simp add: n_def div_eq_0_iff)
    have next_at: "budget_next_token b now = Some (at + 3000000000)"
      using assms(2) at r \<open>tokens = 0\<close> \<open>refilled = Some at\<close>
      by (simp add: budget_next_token_def checked_add_def REQUEST_REFILL_def secs_def instant_ok_def)
    have "snd (budget_take b (at + 3000000000))" if "instant_ok (at + 3000000000)"
    proof -
      have "budget_ok b (at + 3000000000)" using assms(1) Some by (simp add: budget_ok_def)
      from budget_refilled_eq(1) [OF this Some that]
      have "unat (fst (budget_refilled b (at + 3000000000))) \<noteq> 0"
        by (simp add: \<open>budget_tokens b = 0\<close>)
      then show ?thesis
        by (auto simp: budget_take_def tokens_less_one_def split_beta)
    qed
    moreover have "\<not> snd (budget_take b now)"
      using r \<open>tokens = 0\<close> by (simp add: budget_take_def tokens_less_one_def)
    ultimately show ?thesis using next_at less at by (simp add: secs_def)
  qed
qed

theorem next_token_is_granted_witness:
  "case budget_next_token budget_new 5 of
      None \<Rightarrow> snd (budget_take budget_new 5)
    | Some at \<Rightarrow> \<not> snd (budget_take budget_new 5) \<and> 5 < at \<and> at \<le> 5 + int (secs 3) \<and>
        (instant_ok at \<longrightarrow> snd (budget_take budget_new at))"
  by (rule next_token_is_granted)
    (simp_all add: budget_new_def budget_ok_def unat_burst instant_ok_def secs_def time_max_def)

end
