(* ===== verification/Mam_Network.thy ===== *)
theory Mam_Network
  imports Actions
begin

text \<open>
  The API session, the address MAM sees, and the seedbox registration (\<open>core/mam/network.rs\<close>):
  when requests must wait for a new cookie, at least a minute between address lookups, and at
  least an hour between registrations, counted from an attempt saved before it is sent.
\<close>

definition OBSERVE_EVERY :: duration where
  "OBSERVE_EVERY = mins 5"

definition LOOKUP_SPACING :: duration where
  "LOOKUP_SPACING = mins 1"

definition REGISTRATION_SPACING :: duration where
  "REGISTRATION_SPACING = hours 1"

subsection \<open>The session\<close>

datatype mam_session =
    MamSession_Unverified
  | MamSession_Verified system_time
  | MamSession_Rejected session_rejection "(ip_addr \<times> asn) option" system_time

fun mam_session_blocks :: "mam_session \<Rightarrow> ip_observation option \<Rightarrow> bool" where
  "mam_session_blocks (MamSession_Rejected rejection seen at) observed =
     (let now = map_option (\<lambda>o'. (ip_ip o', ip_asn o')) observed in
      case rejection of
        SessionRejection_AsnMismatch \<Rightarrow>
          is_none_or (\<lambda>(_, asn). is_some_and (\<lambda>(_, seen). seen = asn) seen) now
      | SessionRejection_IpMismatch \<Rightarrow>
          is_none_or (\<lambda>(ip, _). is_some_and (\<lambda>(seen, _). seen = ip) seen) now
      | _ \<Rightarrow> True)"
| "mam_session_blocks _ observed = False"

subsection \<open>The address MAM sees\<close>

datatype ip_standing = IpStanding_Current | IpStanding_Unconfirmed

record observed =
  observed_observation :: ip_observation
  observed_at :: system_time
  observed_standing :: ip_standing

record network =
  network_observed :: "observed option"
  network_next_lookup :: "instant option"
  network_failures :: failure_count
  network_last_failure :: "mam_failure option"
  network_last_sent :: "instant option"

definition network_new :: network where
  "network_new = \<lparr>network_observed = None, network_next_lookup = None, network_failures = failure_none,
     network_last_failure = None, network_last_sent = None\<rparr>"

definition network_current :: "network \<Rightarrow> ip_observation option" where
  "network_current n =
     map_option observed_observation
       (opt_filter (\<lambda>o'. observed_standing o' = IpStanding_Current) (network_observed n))"

definition network_due :: "network \<Rightarrow> instant \<Rightarrow> bool" where
  "network_due n now \<longleftrightarrow>
     is_none_or (\<lambda>next. next \<le> now) (network_next_lookup n) \<and>
     is_none_or (\<lambda>sent. LOOKUP_SPACING \<le> duration_since now sent) (network_last_sent n)"

definition network_next_due :: "network \<Rightarrow> instant option" where
  "network_next_due n =
     (let spaced = Option.bind (network_last_sent n) (\<lambda>sent. checked_add sent LOOKUP_SPACING) in
      case (network_next_lookup n, spaced) of
        (Some next, Some spaced) \<Rightarrow> Some (max next spaced)
      | (next, spaced) \<Rightarrow> opt_or next spaced)"

definition network_sent :: "network \<Rightarrow> instant \<Rightarrow> network" where
  "network_sent n now = n\<lparr>network_last_sent := Some now\<rparr>"

definition network_observe :: "network \<Rightarrow> instant \<Rightarrow> system_time \<Rightarrow> ip_observation \<Rightarrow> network" where
  "network_observe n now when observation =
     n\<lparr>network_observed := Some \<lparr>observed_observation = observation, observed_at = when,
         observed_standing = IpStanding_Current\<rparr>,
       network_failures := failure_none, network_last_failure := None,
       network_next_lookup := checked_add now OBSERVE_EVERY\<rparr>"

definition network_failed :: "network \<Rightarrow> instant \<Rightarrow> mam_failure \<Rightarrow> network" where
  "network_failed n now failure =
     n\<lparr>network_failures := failure_after_another (network_failures n),
       network_last_failure := Some failure,
       network_next_lookup := checked_add now (retry_wait OBSERVE_EVERY failure)\<rparr>"

definition network_unconfirm :: "network \<Rightarrow> network" where
  "network_unconfirm n =
     n\<lparr>network_observed := map_option (\<lambda>o'. o'\<lparr>observed_standing := IpStanding_Unconfirmed\<rparr>)
         (network_observed n),
       network_next_lookup := None\<rparr>"

subsection \<open>The seedbox registration\<close>

datatype last_attempt =
    LastAttempt_Unread
  | LastAttempt_Reading
  | LastAttempt_Known "system_time option"
  | LastAttempt_ReadFailed

datatype registration_failure =
    RegistrationFailure_Mam mam_failure
  | RegistrationFailure_NotSaved

datatype seedbox_status =
    SeedboxStatus_Unconfirmed
  | SeedboxStatus_Confirmed ip_addr system_time
  | SeedboxStatus_Failed registration_failure system_time

datatype registration_allowance =
    RegistrationAllowance_Now
  | RegistrationAllowance_After system_time
  | RegistrationAllowance_Unknown

record seedbox =
  seedbox_last_attempt :: last_attempt
  seedbox_status :: seedbox_status
  seedbox_not_before :: "system_time option"

definition seedbox_new :: seedbox where
  "seedbox_new = \<lparr>seedbox_last_attempt = LastAttempt_Unread,
     seedbox_status = SeedboxStatus_Unconfirmed, seedbox_not_before = None\<rparr>"

text \<open>\<open>Option\<close>'s ordering puts \<open>None\<close> below every time.\<close>

definition seedbox_allowance :: "seedbox \<Rightarrow> system_time \<Rightarrow> registration_allowance" where
  "seedbox_allowance s now =
     (case seedbox_last_attempt s of
        LastAttempt_Known prev \<Rightarrow>
          (let spaced = Option.bind prev (\<lambda>prev. checked_add prev REGISTRATION_SPACING) in
           case max spaced (seedbox_not_before s) of
             Some allowed \<Rightarrow>
               if now < allowed then RegistrationAllowance_After allowed else RegistrationAllowance_Now
           | None \<Rightarrow> RegistrationAllowance_Now)
      | _ \<Rightarrow> RegistrationAllowance_Unknown)"

definition seedbox_confirms :: "seedbox \<Rightarrow> ip_observation option \<Rightarrow> seedbox_confirmation" where
  "seedbox_confirms s observed =
     (case (seedbox_status s, observed) of
        (SeedboxStatus_Confirmed ip _, Some o') \<Rightarrow>
          if ip = ip_ip o' then SeedboxConfirmation_Confirmed else SeedboxConfirmation_Unconfirmed
      | _ \<Rightarrow> SeedboxConfirmation_Unconfirmed)"

fun registration_refused :: "seedbox_status \<Rightarrow> bool" where
  "registration_refused
     (SeedboxStatus_Failed (RegistrationFailure_Mam (MamFailure_Session SessionRejection_NotAllowed)) _) = True"
| "registration_refused _ = False"

definition seedbox_wanted :: "seedbox \<Rightarrow> system_time \<Rightarrow> ip_observation option \<Rightarrow> bool" where
  "seedbox_wanted s now observed \<longleftrightarrow>
     observed \<noteq> None \<and> seedbox_confirms s observed = SeedboxConfirmation_Unconfirmed \<and>
     \<not> registration_refused (seedbox_status s) \<and> seedbox_allowance s now = RegistrationAllowance_Now"

definition seedbox_saved :: "seedbox \<Rightarrow> system_time \<Rightarrow> seedbox" where
  "seedbox_saved s at = s\<lparr>seedbox_last_attempt := LastAttempt_Known (Some at)\<rparr>"

definition seedbox_save_failed :: "seedbox \<Rightarrow> system_time \<Rightarrow> seedbox" where
  "seedbox_save_failed s now =
     s\<lparr>seedbox_status := SeedboxStatus_Failed RegistrationFailure_NotSaved now\<rparr>"

definition seedbox_confirmed :: "seedbox \<Rightarrow> ip_addr \<Rightarrow> system_time \<Rightarrow> seedbox" where
  "seedbox_confirmed s ip now =
     s\<lparr>seedbox_status := SeedboxStatus_Confirmed ip now, seedbox_not_before := None\<rparr>"

definition seedbox_failed :: "seedbox \<Rightarrow> mam_failure \<Rightarrow> system_time \<Rightarrow> seedbox" where
  "seedbox_failed s failure now =
     (let s = (case failure of
                 MamFailure_TooSoon (Some after) \<Rightarrow> s\<lparr>seedbox_not_before := checked_add now after\<rparr>
               | _ \<Rightarrow> s)
      in s\<lparr>seedbox_status := SeedboxStatus_Failed (RegistrationFailure_Mam failure) now\<rparr>)"

definition seedbox_unconfirm :: "seedbox \<Rightarrow> seedbox" where
  "seedbox_unconfirm s = s\<lparr>seedbox_status := SeedboxStatus_Unconfirmed\<rparr>"

end
