(* ===== verification/Connectability.thy ===== *)
theory Connectability
  imports Actions
begin

text \<open>
  Keeping qBittorrent connectable (\<open>core/mam/connectability.rs\<close>): when MAM reports the client not
  connectable, the connection is checked and repaired once, and a reading taken half an hour
  later shows whether that worked.
\<close>

definition REPAIR_SETTLES_AFTER :: duration where
  "REPAIR_SETTLES_AFTER = mins 30"

record connection =
  connection_listen_port :: "port option"
  connection_forwarded_port :: "port option"
  connection_tunnel_ip :: "ip_addr option"
  connection_interface :: "network_interface option"

definition findings_check :: "connection \<Rightarrow> ip_addr option \<Rightarrow> seedbox_confirmation \<Rightarrow> findings" where
  "findings_check c mam_ip seedbox =
     \<lparr>findings_listen_port =
        (case (connection_listen_port c, connection_forwarded_port c) of
           (_, None) \<Rightarrow> PortFinding_NoForwardedPort
         | (listening, Some forwarded) \<Rightarrow>
             if listening = Some forwarded then PortFinding_Matches forwarded
             else PortFinding_Differs listening forwarded),
      findings_lease =
        (if connection_forwarded_port c \<noteq> None then LeaseRenewal_Requested
         else LeaseRenewal_NotRequested),
      findings_exit_ip =
        (case (mam_ip, connection_tunnel_ip c) of
           (Some mam, Some tunnel) \<Rightarrow>
             if mam = tunnel then IpFinding_Matches mam else IpFinding_Differs mam tunnel
         | _ \<Rightarrow> IpFinding_Unknown),
      findings_seedbox = seedbox,
      findings_interface = connection_interface c\<rparr>"

datatype connectability =
    Connectability_Fine
  | Connectability_Repaired instant system_time findings
  | Connectability_Unresolved system_time findings

fun connectability_follow :: "connectability \<Rightarrow> (instant \<times> bool) option \<Rightarrow> connectability \<times> bool" where
  "connectability_follow c None = (c, False)"
| "connectability_follow Connectability_Fine (Some (taken, unreachable)) = (Connectability_Fine, unreachable)"
| "connectability_follow (Connectability_Repaired at when findings) (Some (taken, unreachable)) =
     (if is_some_and (\<lambda>settled. settled \<le> taken) (checked_add at REPAIR_SETTLES_AFTER)
      then ((if unreachable then Connectability_Unresolved when findings else Connectability_Fine), False)
      else (Connectability_Repaired at when findings, False))"
| "connectability_follow (Connectability_Unresolved repaired findings) (Some (taken, unreachable)) =
     ((if \<not> unreachable then Connectability_Fine else Connectability_Unresolved repaired findings), False)"

definition connectability_repaired ::
    "connectability \<Rightarrow> instant \<Rightarrow> system_time \<Rightarrow> findings \<Rightarrow> connectability" where
  "connectability_repaired c now when findings = Connectability_Repaired now when findings"

end
