(* ===== verification/Mam_Account.thy ===== *)
theory Mam_Account
  imports Actions
begin

text \<open>
  The account as MAM reports it and bonus point spending (\<open>core/mam/account.rs\<close>): when the account
  is read, what its readings say, and the purchases the spending policy wants, one at a time and
  never with an earlier one unsettled.
\<close>

definition ACCOUNT_READ_EVERY :: duration where
  "ACCOUNT_READ_EVERY = mins 15"

definition ACCOUNT_READ_WHILE_DOWNLOADING :: duration where
  "ACCOUNT_READ_WHILE_DOWNLOADING = mins 5"

definition CLIENT_STATS_EVERY :: duration where
  "CLIENT_STATS_EVERY = mins 30"

definition ACCOUNT_FRESH_FOR :: duration where
  "ACCOUNT_FRESH_FOR = mins 5"

definition UNSATISFIED_RESERVE :: unsatisfied_count where
  "UNSATISFIED_RESERVE = 2"

definition RATIO_FLOOR :: ratio where
  "RATIO_FLOOR = 2000"

definition RATIO_URGENT :: ratio where
  "RATIO_URGENT = 1100"

definition VIP_RENEW_WITHIN :: duration where
  "VIP_RENEW_WITHIN = hours (14 * 24)"

definition VIP_WARN_WITHIN :: duration where
  "VIP_WARN_WITHIN = hours (7 * 24)"

definition VIP_FILL :: duration where
  "VIP_FILL = hours (90 * 24)"

definition VIP_PRICE_PER_WEEK :: points where
  "VIP_PRICE_PER_WEEK = 1250"

definition REFUSAL_BACKOFF :: duration where
  "REFUSAL_BACKOFF = hours 6"

definition EARLY_READ_SPACING :: duration where
  "EARLY_READ_SPACING = mins 1"

definition WEEK :: duration where
  "WEEK = hours (7 * 24)"

record reading =
  reading_data :: user_data
  reading_at :: system_time
  reading_taken :: instant

record client_list =
  list_clients :: "listed_client list"
  list_at :: system_time

fun client_standing_admits :: "client_standing \<Rightarrow> bool" where
  "client_standing_admits ClientStanding_Listed = True"
| "client_standing_admits ClientStanding_NoneListed = True"
| "client_standing_admits _ = False"

datatype settled_by = SettledBy_Reading | SettledBy_Owner

datatype purchase_outcome =
    PurchaseOutcome_Made points
  | PurchaseOutcome_Refused "mam_message option"
  | PurchaseOutcome_Uncertain
  | PurchaseOutcome_Settled sale settled_by
  | PurchaseOutcome_Unresolved

record before =
  before_points :: points
  before_vip_until :: "system_time option"

type_synonym vip_weeks = u64

record purchase_record =
  purchase_purchase :: purchase
  purchase_at :: system_time
  purchase_outcome :: "purchase_outcome option"
  purchase_sent :: instant
  purchase_before :: "before option"
  purchase_vip_weeks :: "vip_weeks option"

datatype read_pace = ReadPace_Routine | ReadPace_Downloading

record account =
  account_reading :: "reading option"
  account_next_read :: "instant option"
  account_failures :: failure_count
  account_last_failure :: "mam_failure option"
  account_last_purchase :: "purchase_record option"
  account_vip_price_per_week :: points
  account_client_list :: "client_list option"
  account_client_stats_read :: "instant option"
  account_last_request :: "instant option"
  account_pace :: read_pace
  account_refused :: "instant option"

definition account_new :: account where
  "account_new =
     \<lparr>account_reading = None, account_next_read = None, account_failures = failure_none,
      account_last_failure = None, account_last_purchase = None,
      account_vip_price_per_week = VIP_PRICE_PER_WEEK, account_client_list = None,
      account_client_stats_read = None, account_last_request = None, account_pace = ReadPace_Routine,
      account_refused = None\<rparr>"

record attention =
  attention_partial :: partials
  attention_tracker_errors :: torrent_count
  attention_flagged :: torrent_count

definition attention_any :: "attention \<Rightarrow> bool" where
  "attention_any a \<longleftrightarrow>
     attention_partial a = Partials_Seen \<or> attention_tracker_errors a \<noteq> 0 \<or> attention_flagged a \<noteq> 0"

subsection \<open>Readings\<close>

definition account_data :: "account \<Rightarrow> user_data option" where
  "account_data a = map_option reading_data (account_reading a)"

definition account_fresh :: "account \<Rightarrow> instant \<Rightarrow> instant option \<Rightarrow> user_data option" where
  "account_fresh a now since =
     map_option reading_data
       (opt_filter (\<lambda>r. duration_since now (reading_taken r) \<le> ACCOUNT_FRESH_FOR \<and>
                        is_none_or (\<lambda>since. since < reading_taken r) since) (account_reading a))"

definition account_routine_due :: "account \<Rightarrow> instant option" where
  "account_routine_due a =
     (let downloading = (case account_pace a of
            ReadPace_Downloading \<Rightarrow>
              Option.bind (account_reading a)
                (\<lambda>r. checked_add (reading_taken r) ACCOUNT_READ_WHILE_DOWNLOADING)
          | ReadPace_Routine \<Rightarrow> None)
      in map_option (\<lambda>next. case downloading of None \<Rightarrow> next | Some d \<Rightarrow> min next d) (account_next_read a))"

definition account_wanted :: "account \<Rightarrow> instant \<Rightarrow> bool \<Rightarrow> client_listing option" where
  "account_wanted a now early =
     (if account_last_failure a \<noteq> None \<and> is_some_and (\<lambda>retry_at. now < retry_at) (account_next_read a)
      then None
      else (let routine = is_none_or (\<lambda>next. next \<le> now) (account_routine_due a);
                early = (early \<and> is_none_or (\<lambda>prev. EARLY_READ_SPACING \<le> duration_since now prev)
                                   (account_last_request a))
            in if routine \<or> early
               then Some (if is_none_or (\<lambda>read. CLIENT_STATS_EVERY \<le> duration_since now read)
                               (account_client_stats_read a)
                          then ClientListing_Include else ClientListing_Omit)
               else None))"

definition account_requested :: "account \<Rightarrow> instant \<Rightarrow> account" where
  "account_requested a now = a\<lparr>account_last_request := Some now\<rparr>"

definition account_next_due :: "account \<Rightarrow> bool \<Rightarrow> instant option" where
  "account_next_due a early =
     (if account_last_failure a \<noteq> None then account_next_read a
      else (let early = (if early
                         then Option.bind (account_last_request a) (\<lambda>prev. checked_add prev EARLY_READ_SPACING)
                         else None)
            in case (account_routine_due a, early) of
                 (Some next, Some early) \<Rightarrow> Some (min next early)
               | (next, early) \<Rightarrow> opt_or next early))"

definition account_set_pace :: "account \<Rightarrow> read_pace \<Rightarrow> account" where
  "account_set_pace a pace = a\<lparr>account_pace := pace\<rparr>"

definition account_settle ::
    "account \<Rightarrow> user_data \<Rightarrow> account \<times> (purchase \<times> purchase_outcome) option" where
  "account_settle a after =
     (case opt_filter (\<lambda>r. purchase_outcome r = Some PurchaseOutcome_Uncertain) (account_last_purchase a) of
        None \<Rightarrow> (a, None)
      | Some r \<Rightarrow>
          (let made = Option.bind (purchase_before r) (\<lambda>before.
                 case (before_vip_until before < user_vip_until after,
                       user_points after < before_points before) of
                   (True, _) \<Rightarrow> Some Sale_Made
                 | (False, False) \<Rightarrow> Some Sale_NotMade
                 | (False, True) \<Rightarrow> None);
               outcome = (case made of
                   None \<Rightarrow> PurchaseOutcome_Unresolved
                 | Some sale \<Rightarrow> PurchaseOutcome_Settled sale SettledBy_Reading)
           in (a\<lparr>account_last_purchase := Some (r\<lparr>purchase_outcome := Some outcome\<rparr>)\<rparr>,
               Some (purchase_purchase r, outcome))))"

definition account_read ::
    "account \<Rightarrow> instant \<Rightarrow> system_time \<Rightarrow> user_data \<Rightarrow>
     account \<times> (purchase \<times> purchase_outcome) option" where
  "account_read a now when data =
     (let (a, settled) = account_settle a data;
          a = (case user_clients data of
                 Some clients \<Rightarrow>
                   a\<lparr>account_client_stats_read := Some now,
                     account_client_list := Some \<lparr>list_clients = clients, list_at = when\<rparr>\<rparr>
               | None \<Rightarrow> a)
      in (a\<lparr>account_reading := Some \<lparr>reading_data = data, reading_at = when, reading_taken = now\<rparr>,
            account_failures := failure_none, account_last_failure := None,
            account_next_read := checked_add now ACCOUNT_READ_EVERY\<rparr>, settled))"

definition account_checked :: "account \<Rightarrow> sale \<Rightarrow> account \<times> purchase option" where
  "account_checked a sale =
     (case opt_filter (\<lambda>r. purchase_outcome r = Some PurchaseOutcome_Unresolved) (account_last_purchase a) of
        None \<Rightarrow> (a, None)
      | Some r \<Rightarrow>
          (a\<lparr>account_last_purchase := Some
               (r\<lparr>purchase_outcome := Some (PurchaseOutcome_Settled sale SettledBy_Owner)\<rparr>)\<rparr>,
           Some (purchase_purchase r)))"

definition account_purchase_uncertain :: "account \<Rightarrow> bool" where
  "account_purchase_uncertain a =
     is_some_and (\<lambda>r. purchase_outcome r = Some PurchaseOutcome_Uncertain) (account_last_purchase a)"

definition account_unresolved_purchase :: "account \<Rightarrow> purchase option" where
  "account_unresolved_purchase a =
     map_option purchase_purchase
       (opt_filter (\<lambda>r. purchase_outcome r = Some PurchaseOutcome_Unresolved) (account_last_purchase a))"

definition account_failed :: "account \<Rightarrow> instant \<Rightarrow> mam_failure \<Rightarrow> account" where
  "account_failed a now failure =
     a\<lparr>account_failures := failure_after_another (account_failures a),
       account_last_failure := Some failure,
       account_next_read := checked_add now (retry_wait ACCOUNT_FRESH_FOR failure)\<rparr>"

subsection \<open>What the readings say\<close>

definition account_running_client :: "account \<Rightarrow> client_version \<Rightarrow> listed_client list" where
  "account_running_client a running =
     filter (\<lambda>c. client_qbittorrent c = Some running)
       (concat (map list_clients (opt_list (account_client_list a))))"

definition account_client_standing :: "account \<Rightarrow> client_version option \<Rightarrow> client_standing" where
  "account_client_standing a running =
     (case (account_client_list a, running) of
        (Some list, Some running) \<Rightarrow>
          (let ours = account_running_client a running in
           if list_ex (\<lambda>c. client_refusal c = ClientRefusal_Refused) ours then ClientStanding_Refused
           else if ours \<noteq> [] then ClientStanding_Listed
           else if list_clients list = [] then ClientStanding_NoneListed
           else if list_all (\<lambda>c. client_qbittorrent c = None) (list_clients list)
                then ClientStanding_NotUnderstood
           else ClientStanding_NotListed)
      | _ \<Rightarrow> ClientStanding_Unknown)"

definition account_ratio :: "account \<Rightarrow> ratio option" where
  "account_ratio a = Option.bind (account_data a) user_data_ratio"

definition account_ratio_low :: "account \<Rightarrow> (ratio \<times> urgency) option" where
  "account_ratio_low a =
     map_option (\<lambda>ratio. (ratio, if ratio < RATIO_URGENT then Urgency_Urgent else Urgency_Normal))
       (opt_filter (\<lambda>ratio. ratio < RATIO_FLOOR) (account_ratio a))"

definition account_summary :: "account \<Rightarrow> snatch_summary option" where
  "account_summary a = Option.bind (account_data a) user_summary"

definition account_unsatisfied_near_limit ::
    "account \<Rightarrow> (unsatisfied_count \<times> unsatisfied_limit) option" where
  "account_unsatisfied_near_limit a =
     Option.bind (account_summary a) (\<lambda>s.
       if nearly_reached_by (summary_unsatisfied_limit s) (summary_unsatisfied s)
       then Some (summary_unsatisfied s, summary_unsatisfied_limit s) else None)"

definition account_not_seeding_unsatisfied :: "account \<Rightarrow> torrent_count option" where
  "account_not_seeding_unsatisfied a =
     map_option (\<lambda>s. torrent_count_plus (summary_unsatisfied_not_seeding s)
                       (summary_hit_and_run_not_seeding s)) (account_summary a)"

definition account_attention :: "account \<Rightarrow> attention option" where
  "account_attention a =
     map_option (\<lambda>s. \<lparr>attention_partial = summary_partial s,
         attention_tracker_errors = summary_tracker_errors s,
         attention_flagged = foldl torrent_count_plus 0
           (map red_count (filter (\<lambda>c. red_kind c = RedKind_Other) (summary_red s)))\<rparr>)
       (account_summary a)"

definition account_vip_ending :: "account \<Rightarrow> system_time \<Rightarrow> system_time option" where
  "account_vip_ending a now =
     Option.bind (Option.bind (account_data a) user_vip_until) (\<lambda>until.
       if now < until \<and> is_some_and (\<lambda>warn. until \<le> warn) (checked_add now VIP_WARN_WITHIN)
       then Some until else None)"

subsection \<open>Purchases\<close>

text \<open>\<open>u64::div_ceil\<close>.\<close>

definition div_ceil :: "u64 \<Rightarrow> u64 \<Rightarrow> u64" where
  "div_ceil a b = a div b + (if a mod b = 0 then 0 else 1)"

definition vip_weeks_cost :: "vip_weeks \<Rightarrow> points \<Rightarrow> points" where
  "vip_weeks_cost weeks per_week = div_ceil (sat_mul weeks per_week) 100"

definition vip_weeks_price_per_week :: "vip_weeks \<Rightarrow> points \<Rightarrow> points" where
  "vip_weeks_price_per_week weeks spent = points_times spent 100 div max weeks 1"

definition vip_weeks_now :: "user_data \<Rightarrow> system_time \<Rightarrow> vip_weeks option" where
  "vip_weeks_now data now =
     (let remaining = unwrap_or 0 (Option.bind (user_vip_until data) (\<lambda>until. time_since until now)) in
      if VIP_RENEW_WITHIN \<le> remaining then None
      else (let bought = (of_nat (as_secs (VIP_FILL - remaining)) :: u64)
            in Some (max (sat_mul bought 100 div of_nat (as_secs WEEK)) 100)))"

definition account_vip_cost :: "account \<Rightarrow> user_data \<Rightarrow> system_time \<Rightarrow> points option" where
  "account_vip_cost a data now =
     map_option (\<lambda>weeks. vip_weeks_cost weeks (account_vip_price_per_week a)) (vip_weeks_now data now)"

definition purchase_waiting :: "purchase_record \<Rightarrow> bool" where
  "purchase_waiting r \<longleftrightarrow>
     purchase_outcome r \<in> {None, Some PurchaseOutcome_Uncertain, Some PurchaseOutcome_Unresolved}"

definition account_wanted_purchase ::
    "account \<Rightarrow> instant \<Rightarrow> system_time \<Rightarrow> points \<Rightarrow> purchase option" where
  "account_wanted_purchase a now when reserve =
     (let since = map_option purchase_sent (account_last_purchase a);
          waiting = is_some_and purchase_waiting (account_last_purchase a);
          backed_off = is_some_and (\<lambda>at. duration_since now at < REFUSAL_BACKOFF) (account_refused a)
      in Option.bind (opt_filter (\<lambda>_. \<not> waiting) (account_fresh a now since)) (\<lambda>data.
         Option.bind (account_vip_cost a data when) (\<lambda>cost.
           if points_plus reserve cost \<le> user_points data \<and> \<not> backed_off
           then Some Purchase_Vip else None)))"

definition account_buying :: "account \<Rightarrow> purchase \<Rightarrow> instant \<Rightarrow> system_time \<Rightarrow> account" where
  "account_buying a purchase now when =
     a\<lparr>account_last_purchase := Some
         \<lparr>purchase_purchase = purchase, purchase_at = when, purchase_outcome = None, purchase_sent = now,
          purchase_before = map_option (\<lambda>data. \<lparr>before_points = user_points data,
            before_vip_until = user_vip_until data\<rparr>) (account_data a),
          purchase_vip_weeks = Option.bind (account_data a) (\<lambda>data. vip_weeks_now data when)\<rparr>\<rparr>"

fun purchase_is_refused :: "purchase_outcome \<Rightarrow> bool" where
  "purchase_is_refused (PurchaseOutcome_Refused _) = True"
| "purchase_is_refused _ = False"

definition account_bought ::
    "account \<Rightarrow> purchase \<Rightarrow> instant \<Rightarrow> system_time \<Rightarrow> purchase_outcome \<Rightarrow> account" where
  "account_bought a purchase now when outcome =
     (let r = unwrap_or \<lparr>purchase_purchase = purchase, purchase_at = when, purchase_outcome = None,
                purchase_sent = now, purchase_before = None, purchase_vip_weeks = None\<rparr>
                (account_last_purchase a);
          a = (case (outcome, purchase_purchase r, purchase_before r, purchase_vip_weeks r) of
                 (PurchaseOutcome_Made after, Purchase_Vip, Some before, Some weeks) \<Rightarrow>
                   (let price = vip_weeks_price_per_week weeks (points_less (before_points before) after)
                    in a\<lparr>account_vip_price_per_week :=
                          unwrap_or (account_vip_price_per_week a) (opt_filter (\<lambda>price. 0 < price) (Some price))\<rparr>)
               | _ \<Rightarrow> a);
          a = (if purchase_is_refused outcome then a\<lparr>account_refused := Some now\<rparr> else a)
      in a\<lparr>account_last_purchase := Some (r\<lparr>purchase_outcome := Some outcome\<rparr>)\<rparr>)"

subsection \<open>Lemmas\<close>

lemma account_fresh_Some:
  "account_fresh a now since = Some data \<longleftrightarrow>
     (\<exists>r. account_reading a = Some r \<and> reading_data r = data \<and>
        duration_since now (reading_taken r) \<le> ACCOUNT_FRESH_FOR \<and>
        is_none_or (\<lambda>since. since < reading_taken r) since)"
  by (auto simp: account_fresh_def opt_filter_Some)

lemma points_plus_le:
  "points_plus reserve cost \<le> held \<longleftrightarrow>
     unat reserve + unat cost \<le> unat held \<or> held = - 1"
proof -
  have "unat held \<le> 2 ^ 64 - 1" using unsigned_less [of held, where ?'a = nat] by simp
  moreover have "held = - 1 \<longleftrightarrow> unat held = 2 ^ 64 - 1"
    by (simp add: word_unat_eq_iff unat_max_word)
  ultimately show ?thesis
    unfolding points_plus_def word_le_nat_alt unat_sat_add by auto
qed

subsection \<open>Properties\<close>

text \<open>
  C14. Spending keeps the owner's reserve: a purchase is wanted only on a reading at most five
  minutes old and taken after the last purchase was sent, with no earlier purchase unanswered,
  uncertain or unresolved, six hours after any refusal, when less than two weeks of VIP remain,
  and with points left over the reserve after its expected price.
\<close>

theorem purchases_keep_the_reserve:
  assumes "account_wanted_purchase a now when reserve = Some purchase"
  shows "\<exists>r cost. account_reading a = Some r \<and>
    duration_since now (reading_taken r) \<le> mins 5 \<and>
    (\<forall>p. account_last_purchase a = Some p \<longrightarrow> purchase_sent p < reading_taken r \<and>
       purchase_outcome p \<notin> {None, Some PurchaseOutcome_Uncertain, Some PurchaseOutcome_Unresolved}) \<and>
    (\<forall>at. account_refused a = Some at \<longrightarrow> hours 6 \<le> duration_since now at) \<and>
    unwrap_or 0 (Option.bind (user_vip_until (reading_data r)) (\<lambda>until. time_since until when)) < hours (14 * 24) \<and>
    account_vip_cost a (reading_data r) when = Some cost \<and>
    (unat reserve + unat cost \<le> unat (user_points (reading_data r)) \<or> user_points (reading_data r) = - 1)"
proof -
  from assms obtain data cost where fresh:
      "account_fresh a now (map_option purchase_sent (account_last_purchase a)) = Some data"
    and waiting: "\<not> is_some_and purchase_waiting (account_last_purchase a)"
    and cost: "account_vip_cost a data when = Some cost"
    and afford: "points_plus reserve cost \<le> user_points data"
    and backoff: "\<not> is_some_and (\<lambda>at. duration_since now at < REFUSAL_BACKOFF) (account_refused a)"
    by (auto simp: account_wanted_purchase_def Let_def bind_eq_Some_conv opt_filter_Some split: if_splits)
  from fresh obtain r where r: "account_reading a = Some r" "reading_data r = data"
    "duration_since now (reading_taken r) \<le> mins 5"
    "is_none_or (\<lambda>since. since < reading_taken r) (map_option purchase_sent (account_last_purchase a))"
    by (auto simp: account_fresh_Some ACCOUNT_FRESH_FOR_def)
  have due: "unwrap_or 0 (Option.bind (user_vip_until data) (\<lambda>until. time_since until when)) < hours (14 * 24)"
    using cost by (simp add: account_vip_cost_def vip_weeks_now_def Let_def VIP_RENEW_WITHIN_def split: if_splits)
  have afford': "unat reserve + unat cost \<le> unat (user_points data) \<or> user_points data = - 1"
    using afford by (simp add: points_plus_le)
  show ?thesis
    using r due cost waiting backoff afford'
    by (intro exI [of _ r] exI [of _ cost])
      (auto simp: is_some_and_iff is_none_or_iff purchase_waiting_def REFUSAL_BACKOFF_def not_less)
qed

definition witness_data :: user_data where
  "witness_data = \<lparr>user_uploaded = 9000, user_downloaded = 1000, user_points = 90000, user_wedges = 1,
     user_class = UserClass_Vip, user_vip_until = Some 0, user_summary = Some
       \<lparr>summary_unsatisfied = 3, summary_unsatisfied_limit = 50, summary_unsatisfied_not_seeding = 0,
        summary_hit_and_run_not_seeding = 0, summary_partial = Partials_NotSeen, summary_duplicates = 0,
        summary_tracker_errors = 0, summary_connectable = Connectable_Yes, summary_red = []\<rparr>,
     user_notices = None, user_clients = None\<rparr>"

definition witness_account :: account where
  "witness_account = account_new\<lparr>account_reading := Some
     \<lparr>reading_data = witness_data, reading_at = 10, reading_taken = 10\<rparr>\<rparr>"

theorem purchases_keep_the_reserve_witness:
  "\<exists>r cost. account_reading witness_account = Some r \<and> duration_since 20 (reading_taken r) \<le> mins 5 \<and>
    account_vip_cost witness_account (reading_data r) 5 = Some cost \<and>
    (unat (20000 :: points) + unat cost \<le> unat (user_points (reading_data r)) \<or>
     user_points (reading_data r) = - 1)"
proof -
  have "account_wanted_purchase witness_account 20 5 20000 = Some Purchase_Vip"
    by (simp add: account_wanted_purchase_def account_fresh_def witness_account_def account_new_def
        witness_data_def account_vip_cost_def vip_weeks_now_def vip_weeks_cost_def div_ceil_def sat_mul_def
        points_plus_def sat_add_def VIP_RENEW_WITHIN_def VIP_FILL_def VIP_PRICE_PER_WEEK_def WEEK_def
        ACCOUNT_FRESH_FOR_def time_defs Let_def)
  from purchases_keep_the_reserve [OF this] show ?thesis by auto
qed

text \<open>
  An uncertain purchase is settled by the next reading, or waits for the owner: VIP that
  ends later shows it was sold, points not spent show it was not, and points spent without
  longer VIP leave it unresolved, so that nothing is bought whatever the later readings, until
  the owner has checked.
\<close>

theorem uncertain_purchase_is_settled_once:
  assumes "account_last_purchase a = Some p" and "purchase_outcome p = Some PurchaseOutcome_Uncertain"
    and "purchase_before p = Some before" and "account_read a now when data = (a', settled)"
  shows "settled = Some (purchase_purchase p,
      if before_vip_until before < user_vip_until data then PurchaseOutcome_Settled Sale_Made SettledBy_Reading
      else if before_points before \<le> user_points data
      then PurchaseOutcome_Settled Sale_NotMade SettledBy_Reading
      else PurchaseOutcome_Unresolved) \<and>
    account_last_purchase a' = Some (p\<lparr>purchase_outcome := Some (snd (the settled))\<rparr>) \<and>
    (snd (the settled) = PurchaseOutcome_Unresolved \<longrightarrow>
       account_wanted_purchase (fst (account_read a' now' when' data')) now'' when'' reserve = None \<and>
       account_last_purchase (fst (account_read a' now' when' data')) = account_last_purchase a' \<and>
       account_checked a' sale =
         (a'\<lparr>account_last_purchase := Some
             (p\<lparr>purchase_outcome := Some (PurchaseOutcome_Settled sale SettledBy_Owner)\<rparr>)\<rparr>,
          Some (purchase_purchase p)))"
proof -
  define outcome where "outcome =
     (if before_vip_until before < user_vip_until data then PurchaseOutcome_Settled Sale_Made SettledBy_Reading
      else if before_points before \<le> user_points data
      then PurchaseOutcome_Settled Sale_NotMade SettledBy_Reading
      else PurchaseOutcome_Unresolved)"
  have settle: "account_settle a data =
      (a\<lparr>account_last_purchase := Some (p\<lparr>purchase_outcome := Some outcome\<rparr>)\<rparr>,
       Some (purchase_purchase p, outcome))"
    using assms(1-3) by (auto simp: account_settle_def outcome_def not_le Let_def split: bool.split)
  then have last': "account_last_purchase a' = Some (p\<lparr>purchase_outcome := Some outcome\<rparr>)"
    and settled: "settled = Some (purchase_purchase p, outcome)"
    using assms(4) by (auto simp: account_read_def split: option.splits)
  have "account_last_purchase (fst (account_read a' now' when' data')) = account_last_purchase a'"
    if "outcome = PurchaseOutcome_Unresolved"
    using that by (simp add: account_read_def account_settle_def last' split: option.split)
  then show ?thesis
    using last' settled
    by (auto simp: outcome_def [symmetric] account_wanted_purchase_def account_checked_def purchase_waiting_def
        Let_def)
qed

definition witness_purchase :: purchase_record where
  "witness_purchase = \<lparr>purchase_purchase = Purchase_Vip, purchase_at = 5,
     purchase_outcome = Some PurchaseOutcome_Uncertain, purchase_sent = 5,
     purchase_before = Some \<lparr>before_points = 99000, before_vip_until = Some 0\<rparr>, purchase_vip_weeks = None\<rparr>"

theorem uncertain_purchase_is_settled_once_witness:
  "snd (account_read (witness_account\<lparr>account_last_purchase := Some witness_purchase\<rparr>) 30 30 witness_data)
     = Some (Purchase_Vip, PurchaseOutcome_Unresolved)"
proof -
  let ?a = "witness_account\<lparr>account_last_purchase := Some witness_purchase\<rparr>"
  obtain a' settled where r: "account_read ?a 30 30 witness_data = (a', settled)" by (metis surj_pair)
  have "account_last_purchase ?a = Some witness_purchase"
    "purchase_outcome witness_purchase = Some PurchaseOutcome_Uncertain"
    "purchase_before witness_purchase = Some \<lparr>before_points = 99000, before_vip_until = Some 0\<rparr>"
    by (simp_all add: witness_purchase_def)
  from uncertain_purchase_is_settled_once [OF this r]
  have "settled = Some (Purchase_Vip, PurchaseOutcome_Unresolved)"
    by (simp add: witness_purchase_def witness_data_def)
  then show ?thesis unfolding r by simp
qed

end
