(* ===== verification/Ratio_Guard.thy ===== *)
theory Ratio_Guard
  imports Actions
begin

text \<open>
  The watch over ratio use (\<open>core/mam/ratio_guard.rs\<close>): MAM's downloaded figure must not rise.
  When it does, the guard trips and downloads stay stopped until the owner has checked.
\<close>

definition ratio_use_counted :: "ratio_use \<Rightarrow> byte_size" where
  "ratio_use_counted u = byte_size_less (use_after u) (use_before u)"

datatype ratio_guard =
    RatioGuard_Reading
  | RatioGuard_ReadFailed
  | RatioGuard_Watching "byte_size option"
  | RatioGuard_Tripped ratio_use

datatype seen =
    Seen_Unchanged
  | Seen_Rebased saved_ratio_guard
  | Seen_Tripped ratio_use

fun ratio_guard_restored :: "saved_ratio_guard \<Rightarrow> ratio_guard" where
  "ratio_guard_restored SavedRatioGuard_Unset = RatioGuard_Watching None"
| "ratio_guard_restored (SavedRatioGuard_Watching downloaded) = RatioGuard_Watching (Some downloaded)"
| "ratio_guard_restored (SavedRatioGuard_Tripped used) = RatioGuard_Tripped used"

fun ratio_guard_permits_downloads :: "ratio_guard \<Rightarrow> bool" where
  "ratio_guard_permits_downloads (RatioGuard_Watching _) = True"
| "ratio_guard_permits_downloads _ = False"

fun ratio_guard_observe :: "ratio_guard \<Rightarrow> byte_size \<Rightarrow> system_time \<Rightarrow> ratio_guard \<times> seen" where
  "ratio_guard_observe (RatioGuard_Watching (Some before)) downloaded at =
     (if before < downloaded
      then (let used = \<lparr>use_before = before, use_after = downloaded, use_at = at\<rparr>
            in (RatioGuard_Tripped used, Seen_Tripped used))
      else if downloaded = before then (RatioGuard_Watching (Some before), Seen_Unchanged)
      else (RatioGuard_Watching (Some downloaded),
            Seen_Rebased (SavedRatioGuard_Watching downloaded)))"
| "ratio_guard_observe (RatioGuard_Watching None) downloaded at =
     (RatioGuard_Watching (Some downloaded), Seen_Rebased (SavedRatioGuard_Watching downloaded))"
| "ratio_guard_observe g downloaded at = (g, Seen_Unchanged)"

fun ratio_guard_checked :: "ratio_guard \<Rightarrow> byte_size option \<Rightarrow> ratio_guard \<times> saved_ratio_guard option" where
  "ratio_guard_checked (RatioGuard_Tripped used) latest =
     (let downloaded = unwrap_or (use_after used) latest
      in (RatioGuard_Watching (Some downloaded), Some (SavedRatioGuard_Watching downloaded)))"
| "ratio_guard_checked g latest = (g, None)"

subsection \<open>The guard across restarts\<close>

text \<open>What storage holds after a sequence of readings, each saved when it changed something.\<close>

fun seen_saves :: "seen \<Rightarrow> saved_ratio_guard option" where
  "seen_saves Seen_Unchanged = None"
| "seen_saves (Seen_Rebased saved) = Some saved"
| "seen_saves (Seen_Tripped used) = Some (SavedRatioGuard_Tripped used)"

fun ratio_guard_readings ::
    "ratio_guard \<times> saved_ratio_guard \<Rightarrow> (byte_size \<times> system_time) list \<Rightarrow> ratio_guard \<times> saved_ratio_guard" where
  "ratio_guard_readings s [] = s"
| "ratio_guard_readings (g, saved) ((downloaded, at) # rs) =
     (let (g, seen) = ratio_guard_observe g downloaded at
      in ratio_guard_readings (g, unwrap_or saved (seen_saves seen)) rs)"

lemma observe_saves:
  "ratio_guard_restored saved = g \<Longrightarrow> ratio_guard_observe g downloaded at = (g', s) \<Longrightarrow>
     ratio_guard_restored (unwrap_or saved (seen_saves s)) = g'"
  by (induction g downloaded at rule: ratio_guard_observe.induct) (auto simp: Let_def split: if_splits)

lemma readings_saved:
  "ratio_guard_restored saved = g \<Longrightarrow> ratio_guard_readings (g, saved) rs = (g', saved') \<Longrightarrow>
     ratio_guard_restored saved' = g'"
proof (induction rs arbitrary: g saved)
  case (Cons r rs)
  obtain downloaded at where r: "r = (downloaded, at)" by (cases r)
  obtain g1 s where s: "ratio_guard_observe g downloaded at = (g1, s)"
    by (cases "ratio_guard_observe g downloaded at")
  from Cons.IH [OF observe_saves [OF Cons.prems(1) s]] Cons.prems(2) show ?case by (simp add: r s)
qed simp

lemma tripped_stays: "ratio_guard_readings (RatioGuard_Tripped u, saved) rs = (RatioGuard_Tripped u, saved)"
  by (induction rs) auto

text \<open>A sequence of figures with no rise: each at most the one before it.\<close>

fun never_rises :: "byte_size \<Rightarrow> byte_size list \<Rightarrow> bool" where
  "never_rises before [] = True"
| "never_rises before (d # ds) \<longleftrightarrow> d \<le> before \<and> never_rises d ds"

lemma permits_iff_never_rises:
  "ratio_guard_permits_downloads
     (fst (ratio_guard_readings (RatioGuard_Watching (Some before), saved) rs)) \<longleftrightarrow>
     never_rises before (map fst rs)"
proof (induction rs arbitrary: before saved)
  case (Cons r rs)
  obtain downloaded at where r: "r = (downloaded, at)" by (cases r)
  show ?case
  proof (cases "before < downloaded")
    case True
    then show ?thesis by (simp add: r Let_def tripped_stays not_le)
  next
    case False
    then show ?thesis using Cons.IH by (auto simp: r Let_def not_less)
  qed
qed simp

subsection \<open>Properties\<close>

text \<open>
  C13. Any use of ratio stops downloads, across restarts: after any sequence of readings from a
  watched figure, downloads are permitted exactly when the figure never rose from one reading
  to the next, and what was saved along the way restores to the same guard.
\<close>

theorem ratio_use_stops_downloads:
  assumes "ratio_guard_readings (RatioGuard_Watching (Some before), SavedRatioGuard_Watching before) rs = (g, saved)"
  shows "(ratio_guard_permits_downloads g \<longleftrightarrow> never_rises before (map fst rs)) \<and>
    ratio_guard_restored saved = g"
  using permits_iff_never_rises [of before "SavedRatioGuard_Watching before" rs]
    readings_saved [OF _ assms] assms by simp

theorem ratio_use_stops_downloads_witness:
  "\<not> ratio_guard_permits_downloads (fst (ratio_guard_readings
     (RatioGuard_Watching (Some 5), SavedRatioGuard_Watching 5) [(4, 0), (6, 1), (6, 2)]))"
proof -
  obtain g saved where r: "ratio_guard_readings
      (RatioGuard_Watching (Some 5), SavedRatioGuard_Watching 5) [(4, 0), (6, 1), (6, 2)] = (g, saved)"
    by (metis surj_pair)
  from ratio_use_stops_downloads [OF r] have "\<not> ratio_guard_permits_downloads g" by simp
  then show ?thesis unfolding r by simp
qed

end
