(* ===== verification/Mam_Acquisition.thy ===== *)
theory Mam_Acquisition
  imports Mam_Account Ratio_Guard
begin

text \<open>
  Bookmarks become downloads (\<open>core/mam/acquisition.rs\<close>): listing bookmarks a page at a time, the
  admission of the next queued torrent under every rule of the account, and the watch over
  running downloads, which must stay free for the owner.
\<close>

definition BOOKMARKS_EVERY :: duration where
  "BOOKMARKS_EVERY = mins 15"

definition MAX_BOOKMARK_PAGES :: nat where
  "MAX_BOOKMARK_PAGES = 10"

definition RECENT_ADMISSION :: duration where
  "RECENT_ADMISSION = hours 1"

definition LOOKUP_FRESH_FOR :: duration where
  "LOOKUP_FRESH_FOR = mins 5"

definition WATCH_FRESH_FOR :: duration where
  "WATCH_FRESH_FOR = mins 20"

definition HISTORY_FRESH_FOR :: duration where
  "HISTORY_FRESH_FOR = mins 5"

definition WEDGE_RECORDED_AFTER :: duration where
  "WEDGE_RECORDED_AFTER = mins 1"

definition ACQUISITION_RETRY_AFTER :: duration where
  "ACQUISITION_RETRY_AFTER = mins 5"

definition PAGE_SIZE :: nat where
  "PAGE_SIZE = 100"

datatype request_gate = RequestGate_Open | RequestGate_Closed

datatype client_readiness = ClientReadiness_Ready | ClientReadiness_NotReady

subsection \<open>Listing bookmarks\<close>

record listed =
  listed_at :: system_time
  listed_taken :: instant
  listed_found :: bookmark_count
  listed_bookmarks :: "bookmark list"

record bookmarks =
  bookmarks_latest :: "listed option"
  bookmarks_next :: "instant option"
  bookmarks_failures :: failure_count
  bookmarks_last_failure :: "mam_failure option"
  bookmarks_listing :: "bookmark list option"

definition bookmarks_new :: bookmarks where
  "bookmarks_new = \<lparr>bookmarks_latest = None, bookmarks_next = None, bookmarks_failures = failure_none,
     bookmarks_last_failure = None, bookmarks_listing = None\<rparr>"

definition bookmarks_wanted :: "bookmarks \<Rightarrow> instant \<Rightarrow> bookmark_count option" where
  "bookmarks_wanted b now =
     (case bookmarks_listing b of
        None \<Rightarrow> if is_none_or (\<lambda>next. next \<le> now) (bookmarks_next b) then Some 0 else None
      | Some listing \<Rightarrow> bookmark_count_of listing)"

definition bookmarks_next_due :: "bookmarks \<Rightarrow> instant option" where
  "bookmarks_next_due b = (if bookmarks_listing b \<noteq> None then None else bookmarks_next b)"

definition bookmarks_page ::
    "bookmarks \<Rightarrow> instant \<Rightarrow> system_time \<Rightarrow> bookmark_page \<Rightarrow> bookmarks \<times> listed option" where
  "bookmarks_page b now when page =
     (let empty = (page_bookmarks page = []);
          listing = unwrap_or [] (bookmarks_listing b) @ page_bookmarks page;
          done = (empty \<or> bookmark_count_is_reached_by (page_found page) (length listing) \<or>
                  MAX_BOOKMARK_PAGES * PAGE_SIZE \<le> length listing)
      in if \<not> done then (b\<lparr>bookmarks_listing := Some listing\<rparr>, None)
         else (let latest = \<lparr>listed_at = when, listed_taken = now, listed_found = page_found page,
                             listed_bookmarks = listing\<rparr>
               in (b\<lparr>bookmarks_latest := Some latest, bookmarks_listing := None,
                     bookmarks_failures := failure_none, bookmarks_last_failure := None,
                     bookmarks_next := checked_add now BOOKMARKS_EVERY\<rparr>, Some latest)))"

definition bookmarks_failed :: "bookmarks \<Rightarrow> instant \<Rightarrow> mam_failure \<Rightarrow> bookmarks" where
  "bookmarks_failed b now failure =
     b\<lparr>bookmarks_listing := None, bookmarks_failures := failure_after_another (bookmarks_failures b),
       bookmarks_last_failure := Some failure,
       bookmarks_next := checked_add now (retry_wait ACQUISITION_RETRY_AFTER failure)\<rparr>"

definition bookmarks_find :: "bookmarks \<Rightarrow> mam_torrent_id \<Rightarrow> bookmark option" where
  "bookmarks_find b i =
     Option.bind (bookmarks_latest b) (\<lambda>l. List.find (\<lambda>b. bookmark_id b = i) (listed_bookmarks l))"

subsection \<open>Admission and the watch\<close>

record lookup =
  lookup_listing :: "bookmark option"
  lookup_at :: instant

record wedge_history =
  history_wedged :: "mam_torrent_id set"
  history_at :: instant

datatype wedge_accounting = WedgeAccounting_Complete | WedgeAccounting_Missing

datatype mam_listing = MamListing_Listed | MamListing_Unlisted

datatype download_watch =
    DownloadWatch_Wedged
  | DownloadWatch_FreeForNow
  | DownloadWatch_NeedLookup
  | DownloadWatch_NeedHistory
  | DownloadWatch_NotFree wedge_accounting mam_listing

datatype nextstep =
    Next_Idle
  | Next_Fetch mam_torrent_id wedge
  | Next_LookUp mam_torrent_id
  | Next_NeedHistory
  | Next_NeedReading
  | Next_Hold hold

record admission_facts =
  facts_now :: instant
  facts_wall :: system_time
  facts_gate :: request_gate
  facts_seedbox :: seedbox_confirmation
  facts_readiness :: client_readiness
  facts_client :: client_standing
  facts_recent :: unsatisfied_count
  facts_downloading :: torrent_count
  facts_downloading_limit :: downloading_limit
  facts_ratio_guard :: ratio_guard
  facts_account :: account

record acquisition =
  acquisition_bookmarks :: bookmarks
  acquisition_refused :: "system_time option"
  acquisition_hold :: "hold option"
  acquisition_fetching :: "(mam_torrent_id \<times> wedge) option"
  acquisition_last_admission :: "instant option"
  acquisition_lookups :: "(mam_torrent_id, lookup) btree"
  acquisition_history :: "wedge_history option"
  acquisition_wedge_attempts :: "(mam_torrent_id, instant) btree"
  acquisition_watched :: "(download \<times> download_watch) list"
  acquisition_reported :: "mam_torrent_id set"
  acquisition_newly_fetched :: "mam_torrent_id set"
  acquisition_reapproved :: "(mam_torrent_id, ip_addr) btree"
  acquisition_lookup_failed_at :: "instant option"
  acquisition_history_failed_at :: "instant option"

definition acquisition_new :: acquisition where
  "acquisition_new =
     \<lparr>acquisition_bookmarks = bookmarks_new, acquisition_refused = None, acquisition_hold = None,
      acquisition_fetching = None, acquisition_last_admission = None, acquisition_lookups = [],
      acquisition_history = None, acquisition_wedge_attempts = [], acquisition_watched = [],
      acquisition_reported = {}, acquisition_newly_fetched = {}, acquisition_reapproved = [],
      acquisition_lookup_failed_at = None, acquisition_history_failed_at = None\<rparr>"

definition download_recent :: "download \<Rightarrow> system_time \<Rightarrow> bool" where
  "download_recent d now =
     is_none_or (\<lambda>at. is_none_or (\<lambda>age. age < RECENT_ADMISSION) (time_since now at)) (download_added_at d)"

definition free_for_owner :: "bookmark \<Rightarrow> user_data \<Rightarrow> system_time \<Rightarrow> bool" where
  "free_for_owner listing data now \<longleftrightarrow>
     (let until = unwrap_or now (checked_add now WATCH_FRESH_FOR);
          account_vip = user_data_is_vip data until;
          torrent_vip = vip_torrent_at (bookmark_vip listing) until
      in bookmark_freeleech listing = Freeleech_ForEveryone \<or>
         bookmark_personal listing = PersonalFreeleech_ThroughWedge \<or>
         bookmark_personal listing = PersonalFreeleech_ThroughVip \<and> account_vip \<or>
         torrent_vip \<and> account_vip)"

text \<open>\<open>max_by_key\<close> keeps the later of two equal entries, here the listing.\<close>

definition acquisition_latest :: "acquisition \<Rightarrow> mam_torrent_id \<Rightarrow> (bookmark option \<times> instant) option" where
  "acquisition_latest a i =
     (let looked_up = map_option (\<lambda>l. (lookup_listing l, lookup_at l)) (bt_get (acquisition_lookups a) i);
          listed = Option.bind (bookmarks_latest (acquisition_bookmarks a)) (\<lambda>latest.
            map_option (\<lambda>b. (Some b, listed_taken latest))
              (List.find (\<lambda>b. bookmark_id b = i) (listed_bookmarks latest)))
      in case (looked_up, listed) of
           (Some l, Some b) \<Rightarrow> Some (if snd l \<le> snd b then b else l)
         | (l, b) \<Rightarrow> opt_or l b)"

definition acquisition_current ::
    "acquisition \<Rightarrow> mam_torrent_id \<Rightarrow> instant \<Rightarrow> duration \<Rightarrow> (bookmark option \<times> instant) option" where
  "acquisition_current a i now within =
     opt_filter (\<lambda>(_, at). duration_since now at \<le> within) (acquisition_latest a i)"

definition acquisition_wedge_recorded :: "acquisition \<Rightarrow> mam_torrent_id \<Rightarrow> instant option" where
  "acquisition_wedge_recorded a i =
     Option.bind (bt_get (acquisition_wedge_attempts a) i) (\<lambda>at. checked_add at WEDGE_RECORDED_AFTER)"

definition acquisition_history_settles :: "acquisition \<Rightarrow> mam_torrent_id \<Rightarrow> instant \<Rightarrow> wedge_history option" where
  "acquisition_history_settles a i now =
     opt_filter (\<lambda>h. duration_since now (history_at h) \<le> HISTORY_FRESH_FOR \<and>
                     is_none_or (\<lambda>recorded. recorded \<le> history_at h) (acquisition_wedge_recorded a i))
       (acquisition_history a)"

definition may_ask :: "instant option \<Rightarrow> instant \<Rightarrow> bool" where
  "may_ask failed now = is_none_or (\<lambda>failed. ACQUISITION_RETRY_AFTER \<le> duration_since now failed) failed"

definition acquisition_may_ask_history :: "acquisition \<Rightarrow> mam_torrent_id \<Rightarrow> instant \<Rightarrow> bool" where
  "acquisition_may_ask_history a i now \<longleftrightarrow>
     may_ask (acquisition_history_failed_at a) now \<and>
     is_none_or (\<lambda>recorded. recorded \<le> now) (acquisition_wedge_recorded a i)"

definition ask :: "bool \<Rightarrow> nextstep \<Rightarrow> nextstep" where
  "ask allowed next = (if allowed then next else Next_Idle)"

fun ratio_guard_hold :: "ratio_guard \<Rightarrow> hold option" where
  "ratio_guard_hold (RatioGuard_Watching _) = None"
| "ratio_guard_hold (RatioGuard_Tripped _) = Some Hold_RatioUsed"
| "ratio_guard_hold RatioGuard_Reading = Some Hold_RatioGuardUnknown"
| "ratio_guard_hold RatioGuard_ReadFailed = Some Hold_RatioGuardUnknown"

text \<open>The rules that hold a download before the account is looked at, in the code's order.\<close>

definition acquisition_blocked :: "acquisition \<Rightarrow> admission_facts \<Rightarrow> hold option" where
  "acquisition_blocked a f =
     (if facts_gate f = RequestGate_Closed then Some Hold_MamUnavailable
      else if facts_seedbox f = SeedboxConfirmation_Unconfirmed then Some Hold_SeedboxUnconfirmed
      else if acquisition_refused a \<noteq> None then Some Hold_DownloadsRefused
      else case ratio_guard_hold (facts_ratio_guard f) of
             Some hold \<Rightarrow> Some hold
           | None \<Rightarrow>
               if facts_readiness f = ClientReadiness_NotReady then Some Hold_ClientUnavailable
               else if downloading_limit_is_reached_by (facts_downloading_limit f) (facts_downloading f)
               then Some (Hold_DownloadingLimit (facts_downloading f) (facts_downloading_limit f))
               else None)"

text \<open>The rules that need a fresh reading of the account.\<close>

definition acquisition_account_hold :: "admission_facts \<Rightarrow> user_data \<Rightarrow> hold option" where
  "acquisition_account_hold f data =
     (if \<not> client_standing_admits (facts_client f) then Some (Hold_MamClientList (facts_client f))
      else if account_ratio_low (facts_account f) \<noteq> None then Some Hold_RatioLow
      else case user_summary data of
             None \<Rightarrow> Some Hold_AccountUnknown
           | Some summary \<Rightarrow>
               (let count = unsatisfied_plus (summary_unsatisfied summary) (facts_recent f);
                    limit = summary_unsatisfied_limit summary
                in if \<not> admits_one_more limit count UNSATISFIED_RESERVE
                   then Some (Hold_UnsatisfiedLimit count limit) else None))"

text \<open>Whether to spend a wedge, from the torrent as MAM lists it now and the bonus history.\<close>

definition acquisition_fetch_next ::
    "acquisition \<Rightarrow> admission_facts \<Rightarrow> user_data \<Rightarrow> mam_torrent_id \<Rightarrow> nextstep" where
  "acquisition_fetch_next a f data i =
     (case acquisition_current a i (facts_now f) LOOKUP_FRESH_FOR of
        Some (Some listing, _) \<Rightarrow>
          if free_for_owner listing data (facts_wall f) then Next_Fetch i Wedge_Keep
          else (case acquisition_history_settles a i (facts_now f) of
                  None \<Rightarrow> ask (acquisition_may_ask_history a i (facts_now f)) Next_NeedHistory
                | Some history \<Rightarrow>
                    (let wedge = (if i \<in> history_wedged history then Wedge_Keep else Wedge_Spend)
                     in if wedge = Wedge_Spend \<and> user_wedges data = 0 then Next_Hold Hold_NoWedge
                        else Next_Fetch i wedge))
      | _ \<Rightarrow> ask (may_ask (acquisition_lookup_failed_at a) (facts_now f)) (Next_LookUp i))"

definition acquisition_candidate :: "acquisition \<Rightarrow> mam_torrent_id \<Rightarrow> bookmark option" where
  "acquisition_candidate a i =
     (let gone = is_some_and (\<lambda>l. lookup_listing l = None) (bt_get (acquisition_lookups a) i)
      in opt_filter (\<lambda>_. \<not> gone) (bookmarks_find (acquisition_bookmarks a) i))"

definition acquisition_next :: "acquisition \<Rightarrow> mam_torrent_id list \<Rightarrow> admission_facts \<Rightarrow> nextstep" where
  "acquisition_next a queued f =
     (case find_map (acquisition_candidate a) queued of
        None \<Rightarrow> if queued \<noteq> [] then Next_Hold Hold_NotBookmarked else Next_Idle
      | Some bookmark \<Rightarrow>
          (case acquisition_blocked a f of
             Some hold \<Rightarrow> Next_Hold hold
           | None \<Rightarrow>
               (case account_fresh (facts_account f) (facts_now f) (acquisition_last_admission a) of
                  None \<Rightarrow> Next_NeedReading
                | Some data \<Rightarrow>
                    (case acquisition_account_hold f data of
                       Some hold \<Rightarrow> Next_Hold hold
                     | None \<Rightarrow> acquisition_fetch_next a f data (bookmark_id bookmark)))))"

definition acquisition_set_fetching ::
    "acquisition \<Rightarrow> instant \<Rightarrow> mam_torrent_id \<Rightarrow> wedge \<Rightarrow> bool \<Rightarrow> acquisition" where
  "acquisition_set_fetching a now i wedge admitted =
     (let a = a\<lparr>acquisition_fetching := Some (i, wedge)\<rparr>;
          a = (if wedge = Wedge_Spend
               then a\<lparr>acquisition_wedge_attempts := bt_insert i now (acquisition_wedge_attempts a)\<rparr> else a)
      in if admitted then a\<lparr>acquisition_last_admission := Some now\<rparr> else a)"

definition acquisition_watch ::
    "acquisition \<Rightarrow> download \<Rightarrow> user_data option \<Rightarrow> instant \<Rightarrow> system_time \<Rightarrow> download_watch" where
  "acquisition_watch a d data now when =
     (if is_some_and (\<lambda>h. download_mam d \<in> history_wedged h) (acquisition_history a)
      then DownloadWatch_Wedged
      else case acquisition_wedge_recorded a (download_mam d) of
        Some recorded \<Rightarrow>
          if is_some_and (\<lambda>h. recorded \<le> history_at h) (acquisition_history a)
          then DownloadWatch_NotFree WedgeAccounting_Missing MamListing_Listed
          else DownloadWatch_NeedHistory
      | None \<Rightarrow>
          (case acquisition_current a (download_mam d) now WATCH_FRESH_FOR of
             None \<Rightarrow> DownloadWatch_NeedLookup
           | Some (listing, seen) \<Rightarrow>
               if (case (listing, data) of
                     (Some listing, Some data) \<Rightarrow> free_for_owner listing data when
                   | _ \<Rightarrow> False)
               then DownloadWatch_FreeForNow
               else if is_some_and (\<lambda>h. seen \<le> history_at h) (acquisition_history a)
               then DownloadWatch_NotFree WedgeAccounting_Complete
                      (if listing \<noteq> None then MamListing_Listed else MamListing_Unlisted)
               else DownloadWatch_NeedHistory))"

definition acquisition_watch_all ::
    "acquisition \<Rightarrow> download list \<Rightarrow> user_data option \<Rightarrow> instant \<Rightarrow> system_time \<Rightarrow>
     (download \<times> download_watch) list" where
  "acquisition_watch_all a downloads data now when =
     map (\<lambda>d. (d, acquisition_watch a d data now when))
       (filter (\<lambda>d. download_completion d = Completion_Incomplete \<or> download_recent d when) downloads)"

definition acquisition_watch_one ::
    "acquisition \<Rightarrow> account \<Rightarrow> instant \<Rightarrow> download \<times> download_watch \<Rightarrow> nextstep" where
  "acquisition_watch_one a account now = (\<lambda>(d, watch).
     case watch of
       DownloadWatch_NeedLookup \<Rightarrow>
         if may_ask (acquisition_lookup_failed_at a) now then Next_LookUp (download_mam d) else Next_Idle
     | DownloadWatch_NeedHistory \<Rightarrow>
         if acquisition_may_ask_history a (download_mam d) now then Next_NeedHistory else Next_Idle
     | DownloadWatch_NotFree WedgeAccounting_Complete MamListing_Listed \<Rightarrow>
         if download_completion d = Completion_Incomplete
         then (case account_fresh account now None of
                 Some data \<Rightarrow>
                   if user_wedges data \<noteq> 0 then Next_Fetch (download_mam d) Wedge_Spend else Next_Idle
               | None \<Rightarrow> Next_NeedReading)
         else Next_Idle
     | _ \<Rightarrow> Next_Idle)"

definition acquisition_watch_next :: "acquisition \<Rightarrow> account \<Rightarrow> instant \<Rightarrow> nextstep" where
  "acquisition_watch_next a account now =
     unwrap_or Next_Idle
       (List.find (\<lambda>next. next \<noteq> Next_Idle)
         (map (acquisition_watch_one a account now) (acquisition_watched a)))"

definition acquisition_next_due :: "acquisition \<Rightarrow> instant option" where
  "acquisition_next_due a =
     (let free_until = min_of (map (\<lambda>(d, _). Option.bind (acquisition_latest a (download_mam d))
                                  (\<lambda>(_, seen). checked_add seen WATCH_FRESH_FOR))
            (filter (\<lambda>(_, watch). watch = DownloadWatch_FreeForNow) (acquisition_watched a)));
          retry = (\<lambda>failed. Option.bind failed (\<lambda>failed. checked_add failed ACQUISITION_RETRY_AFTER));
          recorded = min_of (map (\<lambda>(i, _). opt_filter
                (\<lambda>recorded. is_none_or (\<lambda>h. history_at h < recorded) (acquisition_history a))
                (acquisition_wedge_recorded a i)) (acquisition_wedge_attempts a))
      in min_of [free_until, recorded, retry (acquisition_lookup_failed_at a),
                 retry (acquisition_history_failed_at a)])"

definition acquisition_looked_up ::
    "acquisition \<Rightarrow> instant \<Rightarrow> mam_torrent_id \<Rightarrow> bookmark option \<Rightarrow> acquisition" where
  "acquisition_looked_up a now i listing =
     a\<lparr>acquisition_lookup_failed_at := None,
       acquisition_lookups := bt_insert i \<lparr>lookup_listing = listing, lookup_at = now\<rparr> (acquisition_lookups a)\<rparr>"

definition acquisition_lookup_failed :: "acquisition \<Rightarrow> instant \<Rightarrow> acquisition" where
  "acquisition_lookup_failed a now = a\<lparr>acquisition_lookup_failed_at := Some now\<rparr>"

definition acquisition_history_read :: "acquisition \<Rightarrow> instant \<Rightarrow> wedge_spent list \<Rightarrow> acquisition" where
  "acquisition_history_read a now spent =
     a\<lparr>acquisition_history_failed_at := None,
       acquisition_history := Some \<lparr>history_wedged = set (map spent_torrent spent), history_at = now\<rparr>\<rparr>"

definition acquisition_history_failed :: "acquisition \<Rightarrow> instant \<Rightarrow> acquisition" where
  "acquisition_history_failed a now = a\<lparr>acquisition_history_failed_at := Some now\<rparr>"

subsection \<open>Lemmas\<close>

lemma acquisition_blocked_None:
  "acquisition_blocked a f = None \<longleftrightarrow>
     facts_gate f = RequestGate_Open \<and> facts_seedbox f = SeedboxConfirmation_Confirmed \<and>
     acquisition_refused a = None \<and> ratio_guard_permits_downloads (facts_ratio_guard f) \<and>
     facts_readiness f = ClientReadiness_Ready \<and> facts_downloading f < facts_downloading_limit f"
  by (cases "facts_gate f"; cases "facts_seedbox f"; cases "facts_readiness f"; cases "facts_ratio_guard f")
    (auto simp: acquisition_blocked_def downloading_limit_is_reached_by_def not_le)

lemma account_hold_None:
  "acquisition_account_hold f data = None \<longleftrightarrow>
     client_standing_admits (facts_client f) \<and> account_ratio_low (facts_account f) = None \<and>
     (\<exists>s. user_summary data = Some s \<and>
        admits_one_more (summary_unsatisfied_limit s)
          (unsatisfied_plus (summary_unsatisfied s) (facts_recent f)) UNSATISFIED_RESERVE)"
  by (cases "account_ratio_low (facts_account f)"; cases "user_summary data")
    (auto simp: acquisition_account_hold_def Let_def)

lemma candidate_Some:
  assumes "acquisition_candidate a i = Some b"
  shows "bookmark_id b = i"
    and "\<exists>l. bookmarks_latest (acquisition_bookmarks a) = Some l \<and> b \<in> set (listed_bookmarks l)"
  using assms
  by (auto simp: acquisition_candidate_def opt_filter_Some bookmarks_find_def bind_eq_Some_conv Let_def
      dest: find_SomeD)

lemma find_map_candidate:
  assumes "find_map (acquisition_candidate a) queued = Some b"
  shows "bookmark_id b \<in> set queued"
    and "\<exists>l. bookmarks_latest (acquisition_bookmarks a) = Some l \<and> b \<in> set (listed_bookmarks l)"
  using find_map_Some [OF assms] candidate_Some by fast+

lemma fetch_next_Fetch:
  assumes "acquisition_fetch_next a f data i = Next_Fetch j wedge"
  shows "j = i"
    and "\<exists>listing at. acquisition_latest a i = Some (Some listing, at) \<and>
      duration_since (facts_now f) at \<le> LOOKUP_FRESH_FOR \<and>
      (if free_for_owner listing data (facts_wall f) then wedge = Wedge_Keep
       else \<exists>h. acquisition_history_settles a i (facts_now f) = Some h \<and>
         (if i \<in> history_wedged h then wedge = Wedge_Keep
          else wedge = Wedge_Spend \<and> user_wedges data \<noteq> 0))"
  using assms
  by (auto simp: acquisition_fetch_next_def acquisition_current_def opt_filter_Some ask_def Let_def
      split: option.splits prod.splits if_splits)

lemma acquisition_next_Fetch:
  assumes "acquisition_next a queued f = Next_Fetch i wedge"
  obtains b data where "find_map (acquisition_candidate a) queued = Some b" "bookmark_id b = i"
    "acquisition_blocked a f = None"
    "account_fresh (facts_account f) (facts_now f) (acquisition_last_admission a) = Some data"
    "acquisition_account_hold f data = None" "acquisition_fetch_next a f data i = Next_Fetch i wedge"
proof -
  from assms obtain b data where *: "find_map (acquisition_candidate a) queued = Some b"
    "acquisition_blocked a f = None"
    "account_fresh (facts_account f) (facts_now f) (acquisition_last_admission a) = Some data"
    "acquisition_account_hold f data = None"
    "acquisition_fetch_next a f data (bookmark_id b) = Next_Fetch i wedge"
    by (auto simp: acquisition_next_def split: option.splits if_splits)
  with fetch_next_Fetch(1) [OF *(5)] that show ?thesis by blast
qed

subsection \<open>Properties\<close>

text \<open>
  C15. Admission: a queued torrent is fetched only while MAM requests may be sent, the seedbox is
  confirmed, MAM has not refused downloads, no ratio was used, qBittorrent is ready and fewer
  downloads run than the owner allows; on a reading at most five minutes old and taken after
  the last admission, with MAM admitting the client, the ratio not below 2.0, and two
  unsatisfied slots still free after this download and those of the last hour; and only for
  a torrent still queued and bookmarked.
\<close>

theorem admission_needs_every_rule:
  assumes "acquisition_next a queued f = Next_Fetch i wedge"
  shows "facts_gate f = RequestGate_Open \<and> facts_seedbox f = SeedboxConfirmation_Confirmed \<and>
    acquisition_refused a = None \<and> ratio_guard_permits_downloads (facts_ratio_guard f) \<and>
    facts_readiness f = ClientReadiness_Ready \<and> facts_downloading f < facts_downloading_limit f \<and>
    client_standing_admits (facts_client f) \<and>
    (\<exists>r s. account_reading (facts_account f) = Some r \<and>
       duration_since (facts_now f) (reading_taken r) \<le> mins 5 \<and>
       (\<forall>at. acquisition_last_admission a = Some at \<longrightarrow> at < reading_taken r) \<and>
       (\<forall>ratio. user_data_ratio (reading_data r) = Some ratio \<longrightarrow> 2000 \<le> ratio) \<and>
       user_summary (reading_data r) = Some s \<and>
       (min (unat (summary_unsatisfied s) + unat (facts_recent f)) (2 ^ 32 - 1) + 1 + 2
          \<le> unat (summary_unsatisfied_limit s) \<or> unat (summary_unsatisfied_limit s) = 2 ^ 32 - 1)) \<and>
    i \<in> set queued \<and>
    (\<exists>l b. bookmarks_latest (acquisition_bookmarks a) = Some l \<and> b \<in> set (listed_bookmarks l) \<and>
       bookmark_id b = i)"
proof -
  obtain b data where b: "find_map (acquisition_candidate a) queued = Some b" "bookmark_id b = i"
    and open': "acquisition_blocked a f = None"
    and fresh: "account_fresh (facts_account f) (facts_now f) (acquisition_last_admission a) = Some data"
    and hold: "acquisition_account_hold f data = None"
    by (rule acquisition_next_Fetch [OF assms])
  from fresh obtain r where r: "account_reading (facts_account f) = Some r" "reading_data r = data"
    "duration_since (facts_now f) (reading_taken r) \<le> mins 5"
    "\<forall>at. acquisition_last_admission a = Some at \<longrightarrow> at < reading_taken r"
    by (auto simp: account_fresh_Some ACCOUNT_FRESH_FOR_def is_none_or_iff)
  from hold obtain s where s: "client_standing_admits (facts_client f)" "user_summary data = Some s"
    "account_ratio_low (facts_account f) = None"
    "admits_one_more (summary_unsatisfied_limit s)
       (unsatisfied_plus (summary_unsatisfied s) (facts_recent f)) UNSATISFIED_RESERVE"
    by (auto simp: account_hold_None)
  have ratio: "2000 \<le> ratio" if "user_data_ratio data = Some ratio" for ratio
    using s(3) r that
    by (auto simp: account_ratio_low_def account_ratio_def account_data_def RATIO_FLOOR_def not_less
        split: if_splits)
  have slots: "min (unat (summary_unsatisfied s) + unat (facts_recent f)) (2 ^ 32 - 1) + 1 + 2
      \<le> unat (summary_unsatisfied_limit s) \<or> unat (summary_unsatisfied_limit s) = 2 ^ 32 - 1"
    using s(4) by (simp add: admits_one_more_nat unsatisfied_plus_def unat_sat UNSATISFIED_RESERVE_def)
  have mem: "i \<in> set queued" "\<exists>l b. bookmarks_latest (acquisition_bookmarks a) = Some l \<and>
      b \<in> set (listed_bookmarks l) \<and> bookmark_id b = i"
    using find_map_candidate [OF b(1)] b(2) by auto
  show ?thesis
    using open' r s(1,2) ratio slots mem unfolding acquisition_blocked_None by blast
qed

definition witness_bookmark :: bookmark where
  "witness_bookmark = \<lparr>bookmark_id = 7, bookmark_title = ''t'', bookmark_vip = VipTorrent_No,
     bookmark_freeleech = Freeleech_No, bookmark_personal = PersonalFreeleech_No,
     bookmark_snatched = Snatched_Never, bookmark_bookmarked_at = None\<rparr>"

definition witness_acquisition :: acquisition where
  "witness_acquisition = acquisition_new
     \<lparr>acquisition_bookmarks := bookmarks_new\<lparr>bookmarks_latest := Some
        \<lparr>listed_at = 11, listed_taken = 11, listed_found = 1, listed_bookmarks = [witness_bookmark]\<rparr>\<rparr>,
      acquisition_history := Some \<lparr>history_wedged = {}, history_at = 12\<rparr>\<rparr>"

definition witness_facts :: admission_facts where
  "witness_facts = \<lparr>facts_now = 20, facts_wall = 20, facts_gate = RequestGate_Open,
     facts_seedbox = SeedboxConfirmation_Confirmed, facts_readiness = ClientReadiness_Ready,
     facts_client = ClientStanding_Listed, facts_recent = 0, facts_downloading = 0,
     facts_downloading_limit = 5, facts_ratio_guard = RatioGuard_Watching (Some 1000),
     facts_account = witness_account\<rparr>"

lemma witness_admission: "acquisition_next witness_acquisition [7] witness_facts = Next_Fetch 7 Wedge_Spend"
  by (simp add: acquisition_next_def acquisition_candidate_def bookmarks_find_def acquisition_blocked_def
      acquisition_account_hold_def acquisition_fetch_next_def acquisition_current_def acquisition_latest_def
      acquisition_history_settles_def acquisition_wedge_recorded_def free_for_owner_def user_data_is_vip_def
      account_fresh_def account_ratio_low_def account_ratio_def account_data_def user_data_ratio_def ratio_of_def
      admits_one_more_def unsatisfied_plus_def UNSATISFIED_RESERVE_def RATIO_FLOOR_def sat_add_def sat_of_nat_def
      witness_acquisition_def witness_facts_def witness_bookmark_def witness_account_def witness_data_def
      acquisition_new_def bookmarks_new_def account_new_def downloading_limit_is_reached_by_def bt_get_def
      LOOKUP_FRESH_FOR_def HISTORY_FRESH_FOR_def ACCOUNT_FRESH_FOR_def WATCH_FRESH_FOR_def time_defs Let_def)

theorem admission_needs_every_rule_witness:
  "facts_gate witness_facts = RequestGate_Open \<and> facts_downloading witness_facts < facts_downloading_limit witness_facts \<and>
   (7 :: mam_torrent_id) \<in> set [7]"
  using admission_needs_every_rule [OF witness_admission] by blast

definition wedge_needed :: "acquisition \<Rightarrow> account \<Rightarrow> mam_torrent_id \<Rightarrow> instant \<Rightarrow> system_time \<Rightarrow> bool" where
  "wedge_needed a account i now when \<longleftrightarrow>
     (\<exists>h listing seen data. acquisition_history a = Some h \<and> i \<notin> history_wedged h \<and>
        acquisition_latest a i = Some (Some listing, seen) \<and>
        (seen \<le> history_at h \<or> duration_since now (history_at h) \<le> mins 5) \<and>
        (\<forall>at. acquisition_wedge_recorded a i = Some at \<longrightarrow> at \<le> history_at h) \<and>
        (\<exists>since. account_fresh account now since = Some data) \<and> user_wedges data \<noteq> 0 \<and>
        \<not> (\<exists>data'. account_data account = Some data' \<and> free_for_owner listing data' when))"

lemma fresh_data: "account_fresh a now since = Some data \<Longrightarrow> account_data a = Some data"
  by (auto simp: account_fresh_Some account_data_def)

lemma watch_NotFree:
  assumes "acquisition_watch a d data now when = DownloadWatch_NotFree WedgeAccounting_Complete MamListing_Listed"
  shows "\<exists>h listing seen. acquisition_history a = Some h \<and> download_mam d \<notin> history_wedged h \<and>
    acquisition_latest a (download_mam d) = Some (Some listing, seen) \<and> seen \<le> history_at h \<and>
    acquisition_wedge_recorded a (download_mam d) = None \<and>
    \<not> (\<exists>data'. data = Some data' \<and> free_for_owner listing data' when)"
  using assms
  by (auto simp: acquisition_watch_def acquisition_current_def opt_filter_Some is_some_and_iff
      split: if_splits option.splits prod.splits)

lemma watch_next_Fetch:
  assumes "acquisition_watch_next a account now = Next_Fetch i wedge"
  shows "wedge = Wedge_Spend \<and> (\<exists>d data. (d, DownloadWatch_NotFree WedgeAccounting_Complete MamListing_Listed)
      \<in> set (acquisition_watched a) \<and> download_mam d = i \<and> account_fresh account now None = Some data \<and>
      user_wedges data \<noteq> 0)"
proof -
  let ?ns = "map (acquisition_watch_one a account now) (acquisition_watched a)"
  from assms have "List.find (\<lambda>next. next \<noteq> Next_Idle) ?ns = Some (Next_Fetch i wedge)"
    by (cases "List.find (\<lambda>next. next \<noteq> Next_Idle) ?ns") (simp_all add: acquisition_watch_next_def)
  then have "Next_Fetch i wedge \<in> set ?ns" by (auto dest: find_SomeD)
  then obtain d w where "(d, w) \<in> set (acquisition_watched a)"
    "acquisition_watch_one a account now (d, w) = Next_Fetch i wedge" by auto
  then show ?thesis
    by (auto simp: acquisition_watch_one_def split: download_watch.splits wedge_accounting.splits
        mam_listing.splits if_splits option.splits)
qed

text \<open>
  C16. Wedges are spent only when needed, and never twice: whether for a new download or for a
  running one, a wedge is spent only on a torrent that MAM's latest listing does not show free
  for the owner and the bonus history does not show wedged, where the history was read after
  that listing or at most five minutes ago, no wedge of an earlier attempt is unaccounted for,
  and a fresh reading shows a wedge left. A download is fetched without one only if it is
  free or wedged before.
\<close>

theorem wedges_are_spent_only_when_needed:
  "(acquisition_next a queued f = Next_Fetch i Wedge_Spend \<longrightarrow>
      wedge_needed a (facts_account f) i (facts_now f) (facts_wall f)) \<and>
   (acquisition_watched a = acquisition_watch_all a downloads (account_data account) now when \<longrightarrow>
      acquisition_watch_next a account now = Next_Fetch i Wedge_Spend \<longrightarrow>
      wedge_needed a account i now when) \<and>
   (acquisition_next a queued f = Next_Fetch i Wedge_Keep \<longrightarrow>
      (\<exists>listing at data. acquisition_latest a i = Some (Some listing, at) \<and>
         duration_since (facts_now f) at \<le> mins 5 \<and> account_data (facts_account f) = Some data \<and>
         (free_for_owner listing data (facts_wall f) \<or>
          (\<exists>h. acquisition_history a = Some h \<and> i \<in> history_wedged h))))"
proof (intro conjI impI)
  assume *: "acquisition_next a queued f = Next_Fetch i Wedge_Spend"
  obtain data where fresh: "account_fresh (facts_account f) (facts_now f) (acquisition_last_admission a) = Some data"
    and fetch: "acquisition_fetch_next a f data i = Next_Fetch i Wedge_Spend"
    by (rule acquisition_next_Fetch [OF *])
  from fetch_next_Fetch(2) [OF fetch] show "wedge_needed a (facts_account f) i (facts_now f) (facts_wall f)"
    using fresh fresh_data [OF fresh]
    by (fastforce simp: wedge_needed_def acquisition_history_settles_def opt_filter_Some is_none_or_iff
        HISTORY_FRESH_FOR_def split: if_splits)
next
  assume w: "acquisition_watched a = acquisition_watch_all a downloads (account_data account) now when"
    and n: "acquisition_watch_next a account now = Next_Fetch i Wedge_Spend"
  from watch_next_Fetch [OF n] w obtain d data where d: "download_mam d = i"
    "acquisition_watch a d (account_data account) now when =
       DownloadWatch_NotFree WedgeAccounting_Complete MamListing_Listed"
    "account_fresh account now None = Some data" "user_wedges data \<noteq> 0"
    by (auto simp: acquisition_watch_all_def)
  from watch_NotFree [OF d(2)] d show "wedge_needed a account i now when"
    unfolding wedge_needed_def by (metis option.distinct(1))
next
  assume *: "acquisition_next a queued f = Next_Fetch i Wedge_Keep"
  obtain data where fresh: "account_fresh (facts_account f) (facts_now f) (acquisition_last_admission a) = Some data"
    and fetch: "acquisition_fetch_next a f data i = Next_Fetch i Wedge_Keep"
    by (rule acquisition_next_Fetch [OF *])
  from fetch_next_Fetch(2) [OF fetch]
  show "\<exists>listing at data. acquisition_latest a i = Some (Some listing, at) \<and>
         duration_since (facts_now f) at \<le> mins 5 \<and> account_data (facts_account f) = Some data \<and>
         (free_for_owner listing data (facts_wall f) \<or>
          (\<exists>h. acquisition_history a = Some h \<and> i \<in> history_wedged h))"
    using fresh_data [OF fresh]
    by (auto simp: acquisition_history_settles_def opt_filter_Some LOOKUP_FRESH_FOR_def split: if_splits)
qed

theorem wedges_are_spent_only_when_needed_witness:
  "wedge_needed witness_acquisition witness_account 7 20 20"
  using wedges_are_spent_only_when_needed [of witness_acquisition "[7]" witness_facts 7] witness_admission
  by (simp add: witness_facts_def)

end
