(* ===== verification/Mam.thy ===== *)
theory Mam
  imports Startup Registry Mam_Budget Mam_Network Connectability Mam_Acquisition
begin

text \<open>
  Windlass's work with MAM (\<open>core/mam/mod.rs\<close>): one request at a time, chosen in order of urgency
  when requests are not paused, the VPN protects traffic and the token bucket allows it; the
  answers and what they change; the gate and the connection's epoch; and the timer that wakes
  the core for the next due work.
\<close>

definition REMINDER_EVERY :: duration where
  "REMINDER_EVERY = hours (7 * 24)"

datatype mam_event =
    MamEvent_Enable
  | MamEvent_Answered "mam_failure + mam_reply" "api_cookie option"
  | MamEvent_StateRead "system_time option" "system_time option" saved_ratio_guard
  | MamEvent_StateReadFailed
  | MamEvent_RegistrationAttemptSaved
  | MamEvent_RegistrationAttemptSaveFailed
  | MamEvent_PurchaseChecked sale
  | MamEvent_RatioUseChecked
  | MamEvent_RatioGuardSaved
  | MamEvent_RatioGuardSaveFailed
  | MamEvent_ReminderSaved
  | MamEvent_ReminderSaveFailed

type_synonym connection_epoch = u64

definition epoch_next :: "connection_epoch \<Rightarrow> connection_epoch" where
  "epoch_next e = e + 1"

datatype outstanding =
    Outstanding_SavingRegistration system_time api_cookie connection_epoch
  | Outstanding_Request mam_request instant connection_epoch

datatype last_reminder =
    LastReminder_Unread
  | LastReminder_Reading
  | LastReminder_Known "system_time option"
  | LastReminder_ReadFailed

datatype mam_hosts = MamHosts_Configured | MamHosts_NotConfigured

datatype tunnel_protection = TunnelProtection_Protected | TunnelProtection_Unprotected

record mam_context =
  context_requests :: mam_requests_status
  context_protection :: tunnel_protection
  context_cookie :: "api_cookie option"
  context_requested_cookie :: "api_cookie option"
  context_reserve :: "points option"
  context_readiness :: client_readiness
  context_client_version :: "client_version option"
  context_connection :: connection
  context_downloading_limit :: downloading_limit
  context_registry :: registry

record mam =
  mam_hosts :: mam_hosts
  mam_gate :: request_gate
  mam_session :: mam_session
  mam_network :: network
  mam_seedbox :: seedbox
  mam_account :: account
  mam_acquisition :: acquisition
  mam_budget :: budget
  mam_outstanding :: "outstanding option"
  mam_last_reminder :: last_reminder
  mam_client :: client_standing
  mam_ratio_guard :: ratio_guard
  mam_connectability :: connectability
  mam_lease :: lease_renewal
  mam_cookie_in_use :: "api_cookie option"
  mam_issued_cookie :: "api_cookie option"
  mam_confirmed_download_ip :: "ip_addr option"
  mam_epoch :: connection_epoch
  mam_wake :: "(timer_id \<times> instant) option"
  mam_notices :: "notice list"

definition mam_new :: mam where
  "mam_new =
     \<lparr>mam_hosts = MamHosts_NotConfigured, mam_gate = RequestGate_Closed,
      mam_session = MamSession_Unverified, mam_network = network_new, mam_seedbox = seedbox_new,
      mam_account = account_new, mam_acquisition = acquisition_new, mam_budget = budget_new,
      mam_outstanding = None, mam_last_reminder = LastReminder_Unread,
      mam_client = ClientStanding_Unknown, mam_ratio_guard = RatioGuard_Reading,
      mam_connectability = Connectability_Fine, mam_lease = LeaseRenewal_NotRequested,
      mam_cookie_in_use = None, mam_issued_cookie = None, mam_confirmed_download_ip = None,
      mam_epoch = 0, mam_wake = None, mam_notices = []\<rparr>"

definition mam_notify :: "mam \<Rightarrow> notice \<Rightarrow> mam" where
  "mam_notify m n = m\<lparr>mam_notices := mam_notices m @ [n]\<rparr>"

definition mam_start_reading :: "mam \<Rightarrow> mam \<times> action list" where
  "mam_start_reading m =
     (m\<lparr>mam_seedbox := (mam_seedbox m)\<lparr>seedbox_last_attempt := LastAttempt_Reading\<rparr>,
        mam_last_reminder := LastReminder_Reading, mam_ratio_guard := RatioGuard_Reading\<rparr>,
      [Action_ReadMamState])"

definition mam_take_notices :: "mam \<Rightarrow> mam \<times> notice list" where
  "mam_take_notices m = (m\<lparr>mam_notices := []\<rparr>, mam_notices m)"

definition mam_vpn_switched :: "mam \<Rightarrow> mam" where
  "mam_vpn_switched m =
     m\<lparr>mam_network := network_unconfirm (mam_network m), mam_confirmed_download_ip := None\<rparr>"

definition mam_timer_expired :: "mam \<Rightarrow> timer_id \<Rightarrow> mam" where
  "mam_timer_expired m i =
     (if is_some_and (\<lambda>(timer, _). timer = i) (mam_wake m) then m\<lparr>mam_wake := None\<rparr> else m)"

definition mam_take_lease_renewal :: "mam \<Rightarrow> mam \<times> lease_renewal" where
  "mam_take_lease_renewal m = (m\<lparr>mam_lease := LeaseRenewal_NotRequested\<rparr>, mam_lease m)"

subsection \<open>Running downloads\<close>

fun watch_is_free :: "download_watch \<Rightarrow> bool" where
  "watch_is_free DownloadWatch_Wedged = True"
| "watch_is_free DownloadWatch_FreeForNow = True"
| "watch_is_free _ = False"

fun session_is_verified :: "mam_session \<Rightarrow> bool" where
  "session_is_verified (MamSession_Verified _) = True"
| "session_is_verified _ = False"

definition mam_permits_download :: "mam \<Rightarrow> mam_torrent_id \<Rightarrow> bool" where
  "mam_permits_download m i =
     (case network_current (mam_network m) of
        None \<Rightarrow> False
      | Some observed \<Rightarrow>
          mam_gate m = RequestGate_Open \<and> ratio_guard_permits_downloads (mam_ratio_guard m) \<and>
          session_is_verified (mam_session m) \<and>
          (mam_confirmed_download_ip m = Some (ip_ip observed) \<or>
           bt_get (acquisition_reapproved (mam_acquisition m)) i = Some (ip_ip observed)) \<and>
          (i \<in> acquisition_newly_fetched (mam_acquisition m) \<or>
           list_ex (\<lambda>(d, watch). download_mam d = i \<and> watch_is_free watch)
             (acquisition_watched (mam_acquisition m))))"

fun watch_notice :: "download \<Rightarrow> bool \<Rightarrow> download_watch \<Rightarrow> notice option" where
  "watch_notice d no_wedges (DownloadWatch_NotFree WedgeAccounting_Missing _) = Some Notice_WedgeNotSpent"
| "watch_notice d no_wedges (DownloadWatch_NotFree WedgeAccounting_Complete listing) =
     (if download_completion d = Completion_Complete
      then Some (Notice_DownloadNotFree NotFreeOutcome_FinishedFirst)
      else if listing = MamListing_Unlisted \<or> no_wedges
      then Some (Notice_DownloadNotFree NotFreeOutcome_Stopped)
      else None)"
| "watch_notice d no_wedges _ = None"

text \<open>A held download shown free runs again, with MAM's approval for the address it sees.\<close>

definition mam_release_download ::
    "clock_reading \<Rightarrow> mam \<times> records \<times> action list \<Rightarrow> download \<Rightarrow> mam \<times> records \<times> action list" where
  "mam_release_download now = (\<lambda>(m, r, actions) d.
     let (m, r, actions) =
           (if download_desired d = Desired_Held \<and> ratio_guard_permits_downloads (mam_ratio_guard m)
            then (let (r, more) = records_resume r (monotonic now) (download_hash d);
                      m = (case network_current (mam_network m) of
                             Some observed \<Rightarrow>
                               m\<lparr>mam_acquisition := (mam_acquisition m)
                                  \<lparr>acquisition_reapproved := bt_insert (download_mam d) (ip_ip observed)
                                     (acquisition_reapproved (mam_acquisition m))\<rparr>\<rparr>
                           | None \<Rightarrow> m)
                  in (m, r, actions @ more))
            else (m, r, actions))
     in (m\<lparr>mam_acquisition := (mam_acquisition m)
           \<lparr>acquisition_reported := acquisition_reported (mam_acquisition m) - {download_mam d}\<rparr>\<rparr>, r, actions))"

definition mam_follow_download ::
    "clock_reading \<Rightarrow> bool \<Rightarrow> bool \<Rightarrow> mam \<times> records \<times> action list \<Rightarrow> download \<times> download_watch \<Rightarrow>
     mam \<times> records \<times> action list" where
  "mam_follow_download now no_wedges tripped s = (\<lambda>(d, watch).
     let (m, r, actions) = (if watch_is_free watch then mam_release_download now s d else s);
         notice = watch_notice d no_wedges watch;
         (r, actions) = (if (tripped \<or> notice \<noteq> None) \<and> is_downloading d
                         then (let (r, more) = records_hold r (monotonic now) (download_hash d)
                               in (r, actions @ more))
                         else (r, actions));
         m = (case notice of
                Some notice \<Rightarrow>
                  if download_mam d \<in> acquisition_reported (mam_acquisition m) then m
                  else mam_notify (m\<lparr>mam_acquisition := (mam_acquisition m)
                         \<lparr>acquisition_reported := insert (download_mam d)
                            (acquisition_reported (mam_acquisition m))\<rparr>\<rparr>) notice
              | None \<Rightarrow> m)
     in (m, r, actions))"

fun ratio_guard_is_tripped :: "ratio_guard \<Rightarrow> bool" where
  "ratio_guard_is_tripped (RatioGuard_Tripped _) = True"
| "ratio_guard_is_tripped _ = False"

definition mam_follow_downloads ::
    "mam \<Rightarrow> clock_reading \<Rightarrow> registry \<Rightarrow> mam \<times> registry \<times> action list" where
  "mam_follow_downloads m now g =
     (case g of
        Registry_Loaded r \<Rightarrow>
          (let watched = acquisition_watch_all (mam_acquisition m) (records_downloads r)
                 (account_data (mam_account m)) (monotonic now) (wall now);
               no_wedges = is_some_and (\<lambda>data. user_wedges data = 0) (account_data (mam_account m));
               tripped = ratio_guard_is_tripped (mam_ratio_guard m);
               (m, r, actions) = foldl (mam_follow_download now no_wedges tripped) (m, r, []) watched
           in (m\<lparr>mam_acquisition := (mam_acquisition m)\<lparr>acquisition_watched := watched\<rparr>\<rparr>,
               Registry_Loaded r, actions))
      | _ \<Rightarrow> (m, g, []))"

subsection \<open>Answers\<close>

fun mam_follow_session ::
    "mam \<Rightarrow> system_time \<Rightarrow> mam_request \<Rightarrow> mam_failure + mam_reply \<Rightarrow> mam" where
  "mam_follow_session m now request (Inl (MamFailure_Session rejection)) =
     (if rejection = SessionRejection_NotAllowed \<and> request = MamRequest_RegisterSeedbox then m
      else m\<lparr>mam_session := MamSession_Rejected rejection
               (map_option (\<lambda>o'. (ip_ip o', ip_asn o')) (network_current (mam_network m))) now\<rparr>)"
| "mam_follow_session m now request (Inr _) = m\<lparr>mam_session := MamSession_Verified now\<rparr>"
| "mam_follow_session m now request (Inl _) = m"

definition mam_purchased ::
    "mam \<Rightarrow> instant \<Rightarrow> system_time \<Rightarrow> purchase \<Rightarrow> mam_failure + mam_reply \<Rightarrow> mam" where
  "mam_purchased m now when purchase result =
     (let (m, outcome) =
            (case result of
               Inr (MamReply_Purchased points) \<Rightarrow>
                 (mam_notify m (Notice_PurchaseMade purchase points), PurchaseOutcome_Made points)
             | Inl failure \<Rightarrow>
                 if mam_failure_uncertain failure
                 then (mam_notify m (Notice_PurchaseUncertain purchase), PurchaseOutcome_Uncertain)
                 else (case failure of
                         MamFailure_Refused message \<Rightarrow>
                           (mam_notify m (Notice_PurchaseRefused purchase), PurchaseOutcome_Refused message)
                       | _ \<Rightarrow> (m, PurchaseOutcome_Refused None))
             | Inr _ \<Rightarrow> (m, PurchaseOutcome_Refused None))
      in m\<lparr>mam_account := account_bought (mam_account m) purchase now when outcome\<rparr>)"

definition row_is_queued :: "records \<Rightarrow> mam_torrent_id \<Rightarrow> bool" where
  "row_is_queued r i = is_some_and (\<lambda>row. record_desired row = Desired_Queued) (records_find_mam r i)"

fun registry_records :: "registry \<Rightarrow> records option" where
  "registry_records (Registry_Loaded r) = Some r"
| "registry_records _ = None"

definition mam_fetched ::
    "mam \<Rightarrow> clock_reading \<Rightarrow> mam_torrent_id \<Rightarrow> wedge \<Rightarrow> mam_failure + mam_reply \<Rightarrow> registry \<Rightarrow>
     mam \<times> registry \<times> action list" where
  "mam_fetched m now i wedge result g =
     (let m = m\<lparr>mam_acquisition := (mam_acquisition m)\<lparr>acquisition_fetching := None\<rparr>\<rparr>;
          queued = is_some_and (\<lambda>r. row_is_queued r i) (registry_records g)
      in case result of
           Inr (MamReply_Fetched fetched) \<Rightarrow>
             if queued
             then (let m = m\<lparr>mam_acquisition := (mam_acquisition m)
                           \<lparr>acquisition_newly_fetched := insert i (acquisition_newly_fetched (mam_acquisition m))\<rparr>\<rparr>;
                       (g, actions) = registry_update g
                         (\<lambda>r. records_fetched r (monotonic now) i (fetched_hash fetched))
                   in (m, g, actions))
             else mam_follow_downloads
                    (if wedge = Wedge_Spend then mam_notify m Notice_WedgedMidDownload else m) now g
         | Inl (MamFailure_Refused _) \<Rightarrow>
             (m\<lparr>mam_acquisition := (mam_acquisition m)\<lparr>acquisition_refused := Some (wall now)\<rparr>\<rparr>, g, [])
         | _ \<Rightarrow> (m, g, []))"

definition records_snatched_all ::
    "records \<times> action list \<Rightarrow> instant \<Rightarrow> mam_torrent_id list \<Rightarrow> records \<times> action list" where
  "records_snatched_all s now ids =
     foldl (\<lambda>(r, actions) i. let (r, more) = records_snatched r now i in (r, actions @ more)) s ids"

definition mam_listed ::
    "mam \<Rightarrow> clock_reading \<Rightarrow> bookmark_page \<Rightarrow> registry \<Rightarrow> mam \<times> registry \<times> action list" where
  "mam_listed m now page g =
     (let (b, listed) = bookmarks_page (acquisition_bookmarks (mam_acquisition m)) (monotonic now) (wall now) page;
          m = m\<lparr>mam_acquisition := (mam_acquisition m)\<lparr>acquisition_bookmarks := b\<rparr>\<rparr>
      in case (listed, registry_records g) of
           (Some listed, Some r) \<Rightarrow>
             (let bookmarks = listed_bookmarks listed;
                  (r, actions) = records_snatched_all (r, []) (monotonic now)
                    (map bookmark_id (filter (\<lambda>b. bookmark_snatched b = Snatched_Before) bookmarks));
                  new = map (\<lambda>b. (bookmark_id b, if bookmark_snatched b = Snatched_Before
                                                 then Desired_Snatched else Desired_Queued))
                          (filter (\<lambda>b. \<not> records_knows r (bookmark_id b)) bookmarks);
                  (r, more) = records_bookmarked r (monotonic now) new;
                  (m, g, rest) = mam_follow_downloads m now (Registry_Loaded r)
              in (m, g, actions @ more @ rest))
         | _ \<Rightarrow> (m, g, []))"

definition mam_user_data_read ::
    "mam \<Rightarrow> clock_reading \<Rightarrow> user_data \<Rightarrow> registry \<Rightarrow> mam \<times> registry \<times> action list" where
  "mam_user_data_read m now data g =
     (let (account, settled) = account_read (mam_account m) (monotonic now) (wall now) data;
          m = m\<lparr>mam_account := account\<rparr>;
          m = (case settled of
                 Some (purchase, PurchaseOutcome_Settled sale _) \<Rightarrow>
                   mam_notify m (Notice_PurchaseSettled purchase sale)
               | _ \<Rightarrow> m);
          (guard, seen) = ratio_guard_observe (mam_ratio_guard m) (user_downloaded data) (wall now);
          m = m\<lparr>mam_ratio_guard := guard\<rparr>;
          (m, actions) = (case seen of
                 Seen_Unchanged \<Rightarrow> (m, [])
               | Seen_Rebased guard \<Rightarrow> (m, [Action_SaveRatioGuard guard])
               | Seen_Tripped used \<Rightarrow>
                   (mam_notify m (Notice_RatioUsed (ratio_use_counted used)),
                    [Action_SaveRatioGuard (SavedRatioGuard_Tripped used)]));
          (m, g, more) = mam_follow_downloads m now g
      in (m, g, actions @ more))"

definition mam_torrent_looked_up ::
    "mam \<Rightarrow> clock_reading \<Rightarrow> mam_torrent_id \<Rightarrow> bookmark option \<Rightarrow> registry \<Rightarrow> mam \<times> registry \<times> action list" where
  "mam_torrent_looked_up m now i listing g =
     (let snatched = is_some_and (\<lambda>b. bookmark_snatched b = Snatched_Before) listing;
          m = m\<lparr>mam_acquisition := acquisition_looked_up (mam_acquisition m) (monotonic now) i listing\<rparr>;
          (g, actions) = (if snatched then registry_update g (\<lambda>r. records_snatched r (monotonic now) i)
                          else (g, []));
          (m, g, more) = mam_follow_downloads m now g
      in (m, g, actions @ more))"

definition mam_answered ::
    "mam \<Rightarrow> clock_reading \<Rightarrow> mam_request \<Rightarrow> mam_failure + mam_reply \<Rightarrow> bool \<Rightarrow> registry \<Rightarrow>
     mam \<times> registry \<times> action list" where
  "mam_answered m now request result current g =
     (let m = (if current \<and> needs_cookie request then mam_follow_session m (wall now) request result else m) in
      case (request, result) of
        (MamRequest_Buy purchase, result) \<Rightarrow>
          (mam_purchased m (monotonic now) (wall now) purchase result, g, [])
      | (MamRequest_FetchTorrent i wedge, result) \<Rightarrow> mam_fetched m now i wedge result g
      | (request, result) \<Rightarrow>
          if \<not> current then (m, g, [])
          else (case (request, result) of
            (MamRequest_LookUpIp, Inr (MamReply_Ip observation)) \<Rightarrow>
              (m\<lparr>mam_network := network_observe (mam_network m) (monotonic now) (wall now) observation\<rparr>, g, [])
          | (MamRequest_LookUpIp, Inl failure) \<Rightarrow>
              (m\<lparr>mam_network := network_failed (mam_network m) (monotonic now) failure\<rparr>, g, [])
          | (MamRequest_RegisterSeedbox, Inr (MamReply_Registered _ ip)) \<Rightarrow>
              (m\<lparr>mam_seedbox := seedbox_confirmed (mam_seedbox m) ip (wall now),
                 mam_confirmed_download_ip := Some ip\<rparr>, g, [])
          | (MamRequest_RegisterSeedbox, Inl failure) \<Rightarrow>
              (m\<lparr>mam_seedbox := seedbox_failed (mam_seedbox m) failure (wall now)\<rparr>, g, [])
          | (MamRequest_LoadUserData _, Inr (MamReply_UserData data)) \<Rightarrow> mam_user_data_read m now data g
          | (MamRequest_WedgeHistory, Inr (MamReply_WedgeHistory spent)) \<Rightarrow>
              mam_follow_downloads
                (m\<lparr>mam_acquisition := acquisition_history_read (mam_acquisition m) (monotonic now) spent\<rparr>) now g
          | (MamRequest_WedgeHistory, Inl _) \<Rightarrow>
              (m\<lparr>mam_acquisition := acquisition_history_failed (mam_acquisition m) (monotonic now)\<rparr>, g, [])
          | (MamRequest_LookUpTorrent i, Inr (MamReply_Torrent listing)) \<Rightarrow>
              mam_torrent_looked_up m now i listing g
          | (MamRequest_LookUpTorrent _, Inl _) \<Rightarrow>
              (m\<lparr>mam_acquisition := acquisition_lookup_failed (mam_acquisition m) (monotonic now)\<rparr>, g, [])
          | (MamRequest_LoadUserData _, Inl failure) \<Rightarrow>
              (m\<lparr>mam_account := account_failed (mam_account m) (monotonic now) failure\<rparr>, g, [])
          | (MamRequest_ListBookmarks _, Inr (MamReply_Bookmarks page)) \<Rightarrow> mam_listed m now page g
          | (MamRequest_ListBookmarks _, Inl failure) \<Rightarrow>
              (m\<lparr>mam_acquisition := (mam_acquisition m)\<lparr>acquisition_bookmarks :=
                 bookmarks_failed (acquisition_bookmarks (mam_acquisition m)) (monotonic now) failure\<rparr>\<rparr>, g, [])
          | _ \<Rightarrow> (m, g, [])))"

subsection \<open>Events\<close>

text \<open>Returns the new state, the registry, the actions, and a cookie MAM issued, for settings to save.\<close>

definition mam_handle ::
    "mam \<Rightarrow> clock_reading \<Rightarrow> mam_event \<Rightarrow> registry \<Rightarrow>
     mam \<times> registry \<times> action list \<times> api_cookie option" where
  "mam_handle m now e g =
     (case e of
        MamEvent_Enable \<Rightarrow>
          (m\<lparr>mam_hosts := MamHosts_Configured, mam_network := network_sent (mam_network m) (monotonic now)\<rparr>,
           g, [], None)
      | MamEvent_StateRead last_registration last_reminder guard \<Rightarrow>
          (m\<lparr>mam_seedbox := (mam_seedbox m)\<lparr>seedbox_last_attempt := LastAttempt_Known last_registration\<rparr>,
             mam_last_reminder := LastReminder_Known last_reminder,
             mam_ratio_guard := ratio_guard_restored guard\<rparr>, g, [], None)
      | MamEvent_StateReadFailed \<Rightarrow>
          (m\<lparr>mam_seedbox := (mam_seedbox m)\<lparr>seedbox_last_attempt := LastAttempt_ReadFailed\<rparr>,
             mam_last_reminder := LastReminder_ReadFailed, mam_ratio_guard := RatioGuard_ReadFailed\<rparr>,
           g, [], None)
      | MamEvent_RatioUseChecked \<Rightarrow>
          (let latest = map_option user_downloaded (account_data (mam_account m)) in
           case ratio_guard_checked (mam_ratio_guard m) latest of
             (guard, None) \<Rightarrow> (m, g, [], None)
           | (guard, Some saved) \<Rightarrow>
               (let m = mam_notify (m\<lparr>mam_ratio_guard := guard\<rparr>) Notice_RatioUseChecked;
                    (m, g, more) = mam_follow_downloads m now g
                in (m, g, Action_SaveRatioGuard saved # more, None)))
      | MamEvent_RegistrationAttemptSaved \<Rightarrow>
          (case mam_outstanding m of
             Some (Outstanding_SavingRegistration at cookie epoch) \<Rightarrow>
               (let m = m\<lparr>mam_outstanding := None, mam_seedbox := seedbox_saved (mam_seedbox m) at\<rparr>
                in if epoch \<noteq> mam_epoch m then (m, g, [], None)
                   else (m\<lparr>mam_outstanding := Some
                            (Outstanding_Request MamRequest_RegisterSeedbox (monotonic now) epoch)\<rparr>, g,
                         [Action_MamRequest MamRequest_RegisterSeedbox (Some cookie)], None))
           | _ \<Rightarrow> (m, g, [], None))
      | MamEvent_RegistrationAttemptSaveFailed \<Rightarrow>
          (case mam_outstanding m of
             Some (Outstanding_SavingRegistration _ _ _) \<Rightarrow>
               (m\<lparr>mam_outstanding := None, mam_seedbox := seedbox_save_failed (mam_seedbox m) (wall now)\<rparr>,
                g, [], None)
           | _ \<Rightarrow> (m, g, [], None))
      | MamEvent_PurchaseChecked sale \<Rightarrow>
          (case account_checked (mam_account m) sale of
             (account, Some purchase) \<Rightarrow>
               (mam_notify (m\<lparr>mam_account := account\<rparr>) (Notice_PurchaseSettled purchase sale), g, [], None)
           | (account, None) \<Rightarrow> (m\<lparr>mam_account := account\<rparr>, g, [], None))
      | MamEvent_Answered result rotated \<Rightarrow>
          (case mam_outstanding m of
             Some (Outstanding_Request request _ epoch) \<Rightarrow>
               (let current = (epoch = mam_epoch m);
                    (m, g, actions) = mam_answered (m\<lparr>mam_outstanding := None\<rparr>) now request result current g;
                    rotated = opt_filter (\<lambda>_. current \<and> needs_cookie request) rotated;
                    m = (if rotated \<noteq> None then m\<lparr>mam_issued_cookie := rotated\<rparr> else m)
                in (m, g, actions, rotated))
           | _ \<Rightarrow> (m, g, [], None))
      | _ \<Rightarrow> (m, g, [], None))"

subsection \<open>Choosing the next request\<close>

definition mam_disconnect :: "mam \<Rightarrow> mam" where
  "mam_disconnect m =
     m\<lparr>mam_epoch := epoch_next (mam_epoch m), mam_session := MamSession_Unverified,
       mam_network := network_unconfirm (mam_network m), mam_seedbox := seedbox_unconfirm (mam_seedbox m),
       mam_confirmed_download_ip := None,
       mam_acquisition := (mam_acquisition m)
         \<lparr>acquisition_newly_fetched := {}, acquisition_reapproved := []\<rparr>\<rparr>"

definition mam_follow_gate :: "mam \<Rightarrow> mam_context \<Rightarrow> mam \<times> request_gate" where
  "mam_follow_gate m c =
     (let gate = (if mam_hosts m = MamHosts_Configured \<and>
                     context_requests c = MamRequestsStatus_Running \<and>
                     context_protection c = TunnelProtection_Protected
                  then RequestGate_Open else RequestGate_Closed);
          m = (if mam_gate m = RequestGate_Open \<and> gate = RequestGate_Closed then mam_disconnect m else m)
      in (m\<lparr>mam_gate := gate\<rparr>, gate))"

definition mam_follow_cookie :: "mam \<Rightarrow> mam_context \<Rightarrow> mam" where
  "mam_follow_cookie m c =
     (let requested = context_requested_cookie c in
      if requested \<noteq> mam_cookie_in_use m \<and> requested \<noteq> mam_issued_cookie m
      then m\<lparr>mam_cookie_in_use := requested, mam_issued_cookie := None,
             mam_epoch := epoch_next (mam_epoch m), mam_session := MamSession_Unverified,
             mam_seedbox := seedbox_unconfirm (mam_seedbox m), mam_confirmed_download_ip := None,
             mam_acquisition := (mam_acquisition m)
               \<lparr>acquisition_refused := None, acquisition_newly_fetched := {}, acquisition_reapproved := []\<rparr>\<rparr>
      else if context_cookie c \<noteq> None \<and> context_cookie c = mam_issued_cookie m
      then m\<lparr>mam_cookie_in_use := mam_issued_cookie m, mam_issued_cookie := None\<rparr>
      else m)"

definition mam_remind :: "mam \<Rightarrow> clock_reading \<Rightarrow> mam \<times> action list" where
  "mam_remind m now =
     (let counted = (\<lambda>m. (m\<lparr>mam_last_reminder := LastReminder_Known (Some (wall now))\<rparr>,
                          [Action_SaveReminder (wall now)])) in
      case mam_last_reminder m of
        LastReminder_Known (Some prev) \<Rightarrow>
          if is_some_and (\<lambda>due. due \<le> wall now) (checked_add prev REMINDER_EVERY)
          then counted (mam_notify m Notice_MamVisitReminder) else (m, [])
      | LastReminder_Known None \<Rightarrow> counted m
      | LastReminder_ReadFailed \<Rightarrow> counted m
      | _ \<Rightarrow> (m, []))"

definition mam_unreachable :: "mam \<Rightarrow> client_version option \<Rightarrow> bool" where
  "mam_unreachable m running \<longleftrightarrow>
     is_some_and (\<lambda>s. summary_connectable s = Connectable_No) (account_summary (mam_account m)) \<or>
     is_some_and (\<lambda>running. list_ex (\<lambda>c. client_connectable c = Some Connectable_No)
       (account_running_client (mam_account m) running)) running"

definition mam_follow_connectability :: "mam \<Rightarrow> clock_reading \<Rightarrow> mam_context \<Rightarrow> mam" where
  "mam_follow_connectability m now c =
     (let reading = map_option (\<lambda>r. (reading_taken r, mam_unreachable m (context_client_version c)))
            (account_reading (mam_account m));
          (followed, repair) = connectability_follow (mam_connectability m) reading;
          m = m\<lparr>mam_connectability := followed\<rparr>
      in if \<not> repair then m
         else (let observed = network_current (mam_network m);
                   findings = findings_check (context_connection c) (map_option ip_ip observed)
                     (seedbox_confirms (mam_seedbox m) observed)
               in m\<lparr>mam_lease := findings_lease findings,
                    mam_connectability := connectability_repaired (mam_connectability m) (monotonic now)
                      (wall now) findings,
                    mam_network := network_unconfirm (mam_network m),
                    mam_seedbox := seedbox_unconfirm (mam_seedbox m)\<rparr>))"

definition mam_watch_downloads :: "mam \<Rightarrow> clock_reading \<Rightarrow> records option \<Rightarrow> mam \<times> unsatisfied_count" where
  "mam_watch_downloads m now records =
     (case records of
        None \<Rightarrow> (m\<lparr>mam_acquisition := (mam_acquisition m)\<lparr>acquisition_watched := []\<rparr>\<rparr>, 0)
      | Some r \<Rightarrow>
          (let a = (mam_acquisition m)
                 \<lparr>acquisition_newly_fetched := {i \<in> acquisition_newly_fetched (mam_acquisition m).
                    is_some_and (\<lambda>row. record_desired row = Desired_Active \<and> record_observation row = None)
                      (records_find_mam r i)}\<rparr>;
               a = a\<lparr>acquisition_watched := acquisition_watch_all a (records_downloads r)
                      (account_data (mam_account m)) (monotonic now) (wall now)\<rparr>
           in (m\<lparr>mam_acquisition := a\<rparr>,
               sat_of_nat (length (filter (\<lambda>d. download_recent d (wall now)) (records_downloads r))))))"

fun acquisition_request :: "nextstep \<Rightarrow> mam_request option" where
  "acquisition_request (Next_Fetch i wedge) = Some (MamRequest_FetchTorrent i wedge)"
| "acquisition_request (Next_LookUp i) = Some (MamRequest_LookUpTorrent i)"
| "acquisition_request Next_NeedHistory = Some MamRequest_WedgeHistory"
| "acquisition_request _ = None"

datatype mam_wanted = MamWanted_Register | MamWanted_Request mam_request

fun next_is_look_up :: "nextstep \<Rightarrow> bool" where
  "next_is_look_up (Next_LookUp _) = True"
| "next_is_look_up _ = False"

definition single_request :: "bookmark_count option \<Rightarrow> nextstep \<Rightarrow> mam_request option" where
  "single_request listing next =
     (if next_is_look_up next \<and> listing \<noteq> None then None else acquisition_request next)"

definition mam_choose ::
    "mam \<Rightarrow> clock_reading \<Rightarrow> bool \<Rightarrow> points option \<Rightarrow> nextstep \<times> nextstep \<Rightarrow> bool \<Rightarrow> mam_wanted option" where
  "mam_choose m now cookie reserve = (\<lambda>(watching, next) early.
     if network_due (mam_network m) (monotonic now) then Some (MamWanted_Request MamRequest_LookUpIp)
     else if \<not> cookie \<or> network_current (mam_network m) = None then None
     else if seedbox_wanted (mam_seedbox m) (wall now) (network_current (mam_network m))
     then Some MamWanted_Register
     else case account_wanted (mam_account m) (monotonic now) early of
       Some clients \<Rightarrow> Some (MamWanted_Request (MamRequest_LoadUserData clients))
     | None \<Rightarrow>
         (let listing = bookmarks_wanted (acquisition_bookmarks (mam_acquisition m)) (monotonic now) in
          if next_is_look_up watching \<and> listing \<noteq> None
          then map_option (\<lambda>start. MamWanted_Request (MamRequest_ListBookmarks start)) listing
          else case single_request listing watching of
            Some request \<Rightarrow> Some (MamWanted_Request request)
          | None \<Rightarrow>
              (case Option.bind reserve (account_wanted_purchase (mam_account m) (monotonic now) (wall now)) of
                 Some purchase \<Rightarrow> Some (MamWanted_Request (MamRequest_Buy purchase))
               | None \<Rightarrow>
                   (case single_request listing next of
                      Some request \<Rightarrow> Some (MamWanted_Request request)
                    | None \<Rightarrow>
                        map_option (\<lambda>start. MamWanted_Request (MamRequest_ListBookmarks start)) listing))))"

definition mam_schedule_wake ::
    "mam \<Rightarrow> clock_reading \<Rightarrow> bool \<Rightarrow> timers \<Rightarrow> mam \<times> timers \<times> action list" where
  "mam_schedule_wake m now early timers =
     (let to_monotonic = (\<lambda>at. checked_add (monotonic now) (unwrap_or 0 (time_since at (wall now))));
          reminder = (case mam_last_reminder m of
              LastReminder_Known (Some prev) \<Rightarrow> Option.bind (checked_add prev REMINDER_EVERY) to_monotonic
            | _ \<Rightarrow> None);
          registration = (case seedbox_allowance (mam_seedbox m) (wall now) of
              RegistrationAllowance_After at \<Rightarrow> to_monotonic at
            | _ \<Rightarrow> None);
          waiting = (mam_gate m = RequestGate_Open \<and> mam_outstanding m = None);
          work = map (opt_filter (\<lambda>_. waiting))
            [network_next_due (mam_network m), registration, account_next_due (mam_account m) early,
             bookmarks_next_due (acquisition_bookmarks (mam_acquisition m)),
             acquisition_next_due (mam_acquisition m), budget_next_token (mam_budget m) (monotonic now)];
          due = min_of (map (opt_filter (\<lambda>due. monotonic now < due)) (reminder # work))
      in case due of
           None \<Rightarrow> (m, timers, [])
         | Some due \<Rightarrow>
             if is_some_and (\<lambda>(_, at). at = due) (mam_wake m) then (m, timers, [])
             else (let (timers, i, deadline) = timers_schedule timers (monotonic now)
                         (duration_since due (monotonic now))
                   in (m\<lparr>mam_wake := Some (i, due)\<rparr>, timers, [Action_StartTimer TimerName_Mam i deadline])))"

text \<open>What a request changes as it is sent.\<close>

fun mam_sending :: "mam \<Rightarrow> clock_reading \<Rightarrow> records option \<Rightarrow> mam_request \<Rightarrow> mam" where
  "mam_sending m now records MamRequest_LookUpIp =
     m\<lparr>mam_network := network_sent (mam_network m) (monotonic now)\<rparr>"
| "mam_sending m now records (MamRequest_LoadUserData _) =
     m\<lparr>mam_account := account_requested (mam_account m) (monotonic now)\<rparr>"
| "mam_sending m now records (MamRequest_Buy purchase) =
     m\<lparr>mam_account := account_buying (mam_account m) purchase (monotonic now) (wall now)\<rparr>"
| "mam_sending m now records (MamRequest_FetchTorrent i wedge) =
     m\<lparr>mam_acquisition := acquisition_set_fetching (mam_acquisition m) (monotonic now) i wedge
        (is_some_and (\<lambda>r. row_is_queued r i) records)\<rparr>"
| "mam_sending m now records _ = m"

definition mam_send ::
    "mam \<Rightarrow> clock_reading \<Rightarrow> records option \<Rightarrow> api_cookie option \<Rightarrow> mam_wanted option \<Rightarrow> mam \<times> action list" where
  "mam_send m now records cookie wanted =
     (case (wanted, cookie) of
        (Some MamWanted_Register, Some cookie) \<Rightarrow>
          (case budget_take (mam_budget m) (monotonic now) of
             (budget, True) \<Rightarrow>
               (m\<lparr>mam_budget := budget,
                  mam_outstanding := Some (Outstanding_SavingRegistration (wall now) cookie (mam_epoch m))\<rparr>,
                [Action_SaveRegistrationAttempt (wall now)])
           | (budget, False) \<Rightarrow> (m, []))
      | (Some (MamWanted_Request request), _) \<Rightarrow>
          (case budget_take (mam_budget m) (monotonic now) of
             (budget, True) \<Rightarrow>
               ((mam_sending (m\<lparr>mam_budget := budget\<rparr>) now records request)
                  \<lparr>mam_outstanding := Some (Outstanding_Request request (monotonic now) (mam_epoch m))\<rparr>,
                [Action_MamRequest request (opt_filter (\<lambda>_. needs_cookie request) cookie)])
           | (budget, False) \<Rightarrow> (m, []))
      | _ \<Rightarrow> (m, []))"

text \<open>The first part of \<open>decide\<close>, up to the choice: what the step looks at and remembers.\<close>

record mam_survey =
  survey_mam :: mam
  survey_gate :: request_gate
  survey_cookie :: "api_cookie option"
  survey_records :: "records option"
  survey_next :: nextstep
  survey_watching :: nextstep
  survey_early :: bool
  survey_actions :: "action list"

definition mam_survey_now :: "mam \<Rightarrow> clock_reading \<Rightarrow> mam_context \<Rightarrow> mam_survey" where
  "mam_survey_now m now c =
     (let (m, actions) = mam_remind m now;
          (m, gate) = mam_follow_gate m c;
          m = mam_follow_cookie m c;
          observed = network_current (mam_network m);
          cookie = opt_filter (\<lambda>_. \<not> mam_session_blocks (mam_session m) observed) (context_cookie c);
          m = m\<lparr>mam_client := account_client_standing (mam_account m) (context_client_version c)\<rparr>;
          m = mam_follow_connectability m now c;
          records = registry_records (context_registry c);
          (m, recent) = mam_watch_downloads m now records;
          downloading = (case records of
              None \<Rightarrow> 0
            | Some r \<Rightarrow> torrent_count_counting (filter is_downloading (records_downloads r)));
          m = m\<lparr>mam_account := account_set_pace (mam_account m)
                 (if downloading = 0 then ReadPace_Routine else ReadPace_Downloading)\<rparr>;
          facts = \<lparr>facts_now = monotonic now, facts_wall = wall now,
                   facts_gate = (if cookie \<noteq> None then gate else RequestGate_Closed),
                   facts_seedbox = seedbox_confirms (mam_seedbox m) observed,
                   facts_readiness = context_readiness c, facts_client = mam_client m,
                   facts_recent = recent, facts_downloading = downloading,
                   facts_downloading_limit = context_downloading_limit c,
                   facts_ratio_guard = mam_ratio_guard m, facts_account = mam_account m\<rparr>;
          next = (case records of
              None \<Rightarrow> Next_Idle
            | Some r \<Rightarrow> acquisition_next (mam_acquisition m) (records_queued r) facts);
          watching = acquisition_watch_next (mam_acquisition m) (mam_account m) (monotonic now);
          m = m\<lparr>mam_acquisition := (mam_acquisition m)\<lparr>acquisition_hold :=
                 (case next of
                    Next_Hold hold \<Rightarrow> Some hold
                  | Next_NeedReading \<Rightarrow>
                      if account_reading (mam_account m) = None then Some Hold_AccountUnknown else None
                  | _ \<Rightarrow> None)\<rparr>\<rparr>;
          early = (next = Next_NeedReading \<or> watching = Next_NeedReading \<or>
                   account_purchase_uncertain (mam_account m))
      in \<lparr>survey_mam = m, survey_gate = gate, survey_cookie = cookie, survey_records = records,
          survey_next = next, survey_watching = watching, survey_early = early, survey_actions = actions\<rparr>)"

definition mam_decide ::
    "mam \<Rightarrow> clock_reading \<Rightarrow> mam_context \<Rightarrow> timers \<Rightarrow> mam \<times> timers \<times> action list" where
  "mam_decide m now c timers =
     (let s = mam_survey_now m now c;
          (m, sent) =
            (if survey_gate s = RequestGate_Open \<and> mam_outstanding (survey_mam s) = None
             then mam_send (survey_mam s) now (survey_records s) (survey_cookie s)
                    (mam_choose (survey_mam s) now (survey_cookie s \<noteq> None) (context_reserve c)
                       (survey_watching s, survey_next s) (survey_early s))
             else (survey_mam s, []));
          (m, timers, wake) = mam_schedule_wake m now (survey_early s) timers
      in (m, timers, survey_actions s @ sent @ wake))"

subsection \<open>What answers leave alone\<close>

text \<open>
  The ledger: the request outstanding, the last registration attempt and the last address
  lookup. Only sending, the results of saving an attempt, and startup change it; whatever an
  answer does besides, it sends nothing to MAM.
\<close>

definition mam_ledger :: "mam \<Rightarrow> outstanding option \<times> last_attempt \<times> instant option" where
  "mam_ledger m =
     (mam_outstanding m, seedbox_last_attempt (mam_seedbox m), network_last_sent (mam_network m))"

fun is_mam_work :: "action \<Rightarrow> bool" where
  "is_mam_work (Action_MamRequest _ _) = True"
| "is_mam_work (Action_SaveRegistrationAttempt _) = True"
| "is_mam_work _ = False"

fun is_bookkeeping :: "action \<Rightarrow> bool" where
  "is_bookkeeping (Action_SaveTorrents _) = True"
| "is_bookkeeping (Action_SaveRatioGuard _) = True"
| "is_bookkeeping (Action_SaveReminder _) = True"
| "is_bookkeeping (Action_StartTimer name _ _) = (name = TimerName_Mam)"
| "is_bookkeeping _ = False"

definition quiet :: "action list \<Rightarrow> bool" where
  "quiet actions = list_all is_bookkeeping actions"

lemma quiet_simps [simp]:
  "quiet []" "quiet (a # as) \<longleftrightarrow> is_bookkeeping a \<and> quiet as" "quiet (as @ bs) \<longleftrightarrow> quiet as \<and> quiet bs"
  by (simp_all add: quiet_def)

lemma bookkeeping_not_work: "is_bookkeeping a \<Longrightarrow> \<not> is_mam_work a"
  by (cases a) simp_all

lemma quiet_save [simp]: "quiet (snd (records_save r now))"
  by (simp add: records_save_def Let_def)

lemma quiet_records [simp]:
  "quiet (snd (records_resume r now hash))" "quiet (snd (records_hold r now hash))"
  "quiet (snd (records_snatched r now i))" "quiet (snd (records_fetched r now i hash))"
  "quiet (snd (records_bookmarked r now bs))"
  by (simp_all add: records_resume_def records_hold_def records_snatched_def records_fetched_def
      records_bookmarked_def)

lemma ledger_frame [simp]:
  "mam_ledger (mam_notify m n) = mam_ledger m"
  "mam_ledger (m\<lparr>mam_acquisition := a\<rparr>) = mam_ledger m"
  "mam_ledger (m\<lparr>mam_account := b\<rparr>) = mam_ledger m"
  "mam_ledger (m\<lparr>mam_ratio_guard := g\<rparr>) = mam_ledger m"
  "mam_ledger (m\<lparr>mam_session := s\<rparr>) = mam_ledger m"
  "mam_ledger (m\<lparr>mam_confirmed_download_ip := ip\<rparr>) = mam_ledger m"
  "mam_ledger (m\<lparr>mam_issued_cookie := k\<rparr>) = mam_ledger m"
  "mam_ledger (m\<lparr>mam_cookie_in_use := k\<rparr>) = mam_ledger m"
  "mam_ledger (m\<lparr>mam_epoch := e\<rparr>) = mam_ledger m"
  "mam_ledger (m\<lparr>mam_gate := gate\<rparr>) = mam_ledger m"
  "mam_ledger (m\<lparr>mam_client := cs\<rparr>) = mam_ledger m"
  "mam_ledger (m\<lparr>mam_connectability := co\<rparr>) = mam_ledger m"
  "mam_ledger (m\<lparr>mam_lease := l\<rparr>) = mam_ledger m"
  "mam_ledger (m\<lparr>mam_wake := w\<rparr>) = mam_ledger m"
  "mam_ledger (m\<lparr>mam_budget := bu\<rparr>) = mam_ledger m"
  "mam_ledger (m\<lparr>mam_last_reminder := lr\<rparr>) = mam_ledger m"
  by (simp_all add: mam_ledger_def mam_notify_def)

lemma ledger_parts:
  "mam_ledger (m\<lparr>mam_network := n\<rparr>) = mam_ledger m \<longleftrightarrow> network_last_sent n = network_last_sent (mam_network m)"
  "mam_ledger (m\<lparr>mam_seedbox := s\<rparr>) = mam_ledger m \<longleftrightarrow>
     seedbox_last_attempt s = seedbox_last_attempt (mam_seedbox m)"
  by (auto simp: mam_ledger_def)

lemma network_last_sent_frame [simp]:
  "network_last_sent (network_observe n now when ob) = network_last_sent n"
  "network_last_sent (network_failed n now f) = network_last_sent n"
  "network_last_sent (network_unconfirm n) = network_last_sent n"
  by (simp_all add: network_observe_def network_failed_def network_unconfirm_def)

lemma seedbox_last_attempt_frame [simp]:
  "seedbox_last_attempt (seedbox_confirmed s ip now) = seedbox_last_attempt s"
  "seedbox_last_attempt (seedbox_failed s f now) = seedbox_last_attempt s"
  "seedbox_last_attempt (seedbox_unconfirm s) = seedbox_last_attempt s"
  "seedbox_last_attempt (seedbox_save_failed s now) = seedbox_last_attempt s"
  by (simp_all add: seedbox_confirmed_def seedbox_failed_def seedbox_unconfirm_def seedbox_save_failed_def
      Let_def split: mam_failure.split option.split)

text \<open>The connection: whether requests may go out, and its epoch. Answers leave it alone.\<close>

definition mam_link :: "mam \<Rightarrow> request_gate \<times> connection_epoch" where
  "mam_link m = (mam_gate m, mam_epoch m)"

lemma link_frame [simp]:
  "mam_link (mam_notify m n) = mam_link m"
  "mam_link (m\<lparr>mam_acquisition := a\<rparr>) = mam_link m"
  "mam_link (m\<lparr>mam_account := b\<rparr>) = mam_link m"
  "mam_link (m\<lparr>mam_ratio_guard := g\<rparr>) = mam_link m"
  "mam_link (m\<lparr>mam_session := s\<rparr>) = mam_link m"
  "mam_link (m\<lparr>mam_confirmed_download_ip := ip\<rparr>) = mam_link m"
  "mam_link (m\<lparr>mam_issued_cookie := k\<rparr>) = mam_link m"
  "mam_link (m\<lparr>mam_client := cs\<rparr>) = mam_link m"
  "mam_link (m\<lparr>mam_connectability := co\<rparr>) = mam_link m"
  "mam_link (m\<lparr>mam_lease := l\<rparr>) = mam_link m"
  "mam_link (m\<lparr>mam_wake := w\<rparr>) = mam_link m"
  "mam_link (m\<lparr>mam_budget := bu\<rparr>) = mam_link m"
  "mam_link (m\<lparr>mam_last_reminder := lr\<rparr>) = mam_link m"
  "mam_link (m\<lparr>mam_network := nw\<rparr>) = mam_link m"
  "mam_link (m\<lparr>mam_seedbox := sb\<rparr>) = mam_link m"
  "mam_link (m\<lparr>mam_outstanding := ot\<rparr>) = mam_link m"
  "mam_link (m\<lparr>mam_hosts := ho\<rparr>) = mam_link m"
  "mam_link (m\<lparr>mam_notices := ns\<rparr>) = mam_link m"
  by (simp_all add: mam_link_def mam_notify_def)

definition unsent :: "mam \<Rightarrow> mam \<times> 'r \<times> action list \<Rightarrow> bool" where
  "unsent m s \<longleftrightarrow>
     mam_ledger (fst s) = mam_ledger m \<and> mam_link (fst s) = mam_link m \<and> quiet (snd (snd s))"

lemma unsent_simp [simp]:
  "unsent m (m', r, actions) \<longleftrightarrow> mam_ledger m' = mam_ledger m \<and> mam_link m' = mam_link m \<and> quiet actions"
  by (simp add: unsent_def)

lemma release_download_unsent: "unsent m s \<Longrightarrow> unsent m (mam_release_download now s d)"
  by (cases s) (auto simp: mam_release_download_def split_beta Let_def split: option.split)

lemma follow_download_unsent:
  assumes "unsent m s"
  shows "unsent m (mam_follow_download now no_wedges tripped s p)"
proof -
  obtain d watch where p: "p = (d, watch)" by (cases p)
  obtain m1 r1 a1 where s1: "(if watch_is_free watch then mam_release_download now s d else s) = (m1, r1, a1)"
    by (metis surj_pair)
  then have "unsent m (m1, r1, a1)" using assms release_download_unsent by (metis (full_types))
  then show ?thesis
    unfolding mam_follow_download_def p prod.case s1 Let_def
    by (auto simp: split_beta split: option.split)
qed

lemma follow_downloads_unsent: "unsent m s \<Longrightarrow> unsent m (foldl (mam_follow_download now w t) s ps)"
  by (induction ps arbitrary: s) (auto simp: follow_download_unsent)

lemma mam_follow_downloads_unsent [simp]: "unsent m (mam_follow_downloads m now g)"
proof (cases g)
  case (Registry_Loaded r)
  define watched where "watched = acquisition_watch_all (mam_acquisition m) (records_downloads r)
                 (account_data (mam_account m)) (monotonic now) (wall now)"
  define no_wedges where "no_wedges = is_some_and (\<lambda>data. user_wedges data = 0) (account_data (mam_account m))"
  obtain m1 r1 a1 where f: "foldl (mam_follow_download now no_wedges
      (ratio_guard_is_tripped (mam_ratio_guard m))) (m, r, []) watched = (m1, r1, a1)"
    by (metis surj_pair)
  have "unsent m (m, r, [])" by simp
  from follow_downloads_unsent [OF this, of now no_wedges "ratio_guard_is_tripped (mam_ratio_guard m)" watched]
  have "unsent m (m1, r1, a1)" unfolding f .
  with Registry_Loaded f show ?thesis
    by (simp add: mam_follow_downloads_def watched_def no_wedges_def)
qed (simp_all add: mam_follow_downloads_def)

lemma unsent_via:
  "unsent m1 s \<Longrightarrow> mam_ledger m1 = mam_ledger m \<Longrightarrow> mam_link m1 = mam_link m \<Longrightarrow> unsent m s"
  by (simp add: unsent_def)

lemma mam_follow_downloads_ledger [simp]:
  "mam_ledger (fst (mam_follow_downloads m now g)) = mam_ledger m"
  "mam_link (fst (mam_follow_downloads m now g)) = mam_link m"
  "quiet (snd (snd (mam_follow_downloads m now g)))"
  using mam_follow_downloads_unsent [of m now g] by (simp_all add: unsent_def)

lemma mam_fetched_unsent: "unsent m (mam_fetched m now i wedge result g)"
  by (cases result)
    (auto simp: mam_fetched_def Let_def unsent_def split_beta registry_update_def registry_with_def
      split: mam_failure.split mam_reply.split registry.split)

lemma snatched_all_quiet: "quiet (snd s) \<Longrightarrow> quiet (snd (records_snatched_all s now ids))"
  by (induction ids arbitrary: s) (auto simp: records_snatched_all_def split_beta)

lemma mam_listed_unsent: "unsent m (mam_listed m now page g)"
  by (auto simp: mam_listed_def Let_def unsent_def split_beta snatched_all_quiet split: option.split)

lemma mam_user_data_read_unsent: "unsent m (mam_user_data_read m now data g)"
  by (auto simp: mam_user_data_read_def Let_def unsent_def split_beta
      split: option.split seen.split purchase_outcome.split)

lemma mam_torrent_looked_up_unsent: "unsent m (mam_torrent_looked_up m now i listing g)"
  by (auto simp: mam_torrent_looked_up_def Let_def unsent_def split_beta registry_update_def registry_with_def
      split: registry.split)

lemma mam_follow_session_ledger [simp]:
  "mam_ledger (mam_follow_session m now request result) = mam_ledger m"
  "mam_link (mam_follow_session m now request result) = mam_link m"
  by (induction m now request result rule: mam_follow_session.induct) simp_all

lemma mam_purchased_ledger [simp]:
  "mam_ledger (mam_purchased m now when purchase result) = mam_ledger m"
  "mam_link (mam_purchased m now when purchase result) = mam_link m"
  by (auto simp: mam_purchased_def Let_def split: sum.split mam_reply.split mam_failure.split)

lemma mam_answered_unsent: "unsent m (mam_answered m now request result current g)"
proof -
  define m1 where
    "m1 = (if current \<and> needs_cookie request then mam_follow_session m (wall now) request result else m)"
  have m1: "mam_ledger m1 = mam_ledger m" "mam_link m1 = mam_link m" by (simp_all add: m1_def)
  have "unsent m1 (mam_answered m now request result current g)"
    unfolding mam_answered_def m1_def [symmetric] Let_def
    by (cases request; cases result)
      (auto simp: mam_fetched_unsent mam_listed_unsent mam_user_data_read_unsent mam_torrent_looked_up_unsent
        ledger_parts unsent_via [OF mam_follow_downloads_unsent] split: mam_reply.split)
  then show ?thesis using m1 by (rule unsent_via)
qed

lemma mam_remind_ledger: "mam_ledger (fst (mam_remind m now)) = mam_ledger m \<and> quiet (snd (mam_remind m now))"
  by (auto simp: mam_remind_def Let_def split: last_reminder.split option.split)

lemma mam_follow_gate_ledger: "mam_ledger (fst (mam_follow_gate m c)) = mam_ledger m"
  by (auto simp: mam_follow_gate_def Let_def mam_disconnect_def mam_ledger_def)

lemma mam_follow_cookie_ledger: "mam_ledger (mam_follow_cookie m c) = mam_ledger m"
  by (auto simp: mam_follow_cookie_def Let_def mam_ledger_def)

lemma mam_follow_connectability_ledger: "mam_ledger (mam_follow_connectability m now c) = mam_ledger m"
  by (auto simp: mam_follow_connectability_def Let_def mam_ledger_def split_beta)

lemma mam_watch_downloads_ledger: "mam_ledger (fst (mam_watch_downloads m now r)) = mam_ledger m"
  by (auto simp: mam_watch_downloads_def Let_def split: option.split)

lemma mam_schedule_wake_ledger:
  "mam_ledger (fst (mam_schedule_wake m now early timers)) = mam_ledger m \<and>
   quiet (snd (snd (mam_schedule_wake m now early timers)))"
  by (auto simp: mam_schedule_wake_def Let_def split_beta split: option.split)

lemmas ledger_steps = mam_remind_ledger mam_follow_gate_ledger mam_follow_cookie_ledger
  mam_follow_connectability_ledger mam_watch_downloads_ledger

lemma survey_ledger:
  "mam_ledger (survey_mam (mam_survey_now m now c)) = mam_ledger m \<and>
   quiet (survey_actions (mam_survey_now m now c))"
  unfolding mam_survey_now_def Let_def split_beta by (simp add: ledger_steps)

subsection \<open>What a decision sends\<close>

lemma acquisition_request_not_register: "acquisition_request n \<noteq> Some MamRequest_RegisterSeedbox"
  by (cases n) simp_all

lemma acquisition_request_not_lookup: "acquisition_request n \<noteq> Some MamRequest_LookUpIp"
  by (cases n) simp_all

lemma single_request_Some:
  "single_request listing n = Some r \<Longrightarrow> r \<noteq> MamRequest_RegisterSeedbox \<and> r \<noteq> MamRequest_LookUpIp"
  using acquisition_request_not_register [of n] acquisition_request_not_lookup [of n]
  by (auto simp: single_request_def split: if_splits)

lemma mam_choose_register:
  "mam_choose m now cookie reserve ns early = Some MamWanted_Register \<Longrightarrow>
     cookie \<and> seedbox_wanted (mam_seedbox m) (wall now) (network_current (mam_network m))"
  by (cases ns) (auto simp: mam_choose_def Let_def split: if_splits option.splits)

lemma mam_choose_request:
  assumes "mam_choose m now cookie reserve ns early = Some (MamWanted_Request request)"
  shows "request \<noteq> MamRequest_RegisterSeedbox"
    and "request = MamRequest_LookUpIp \<longleftrightarrow> network_due (mam_network m) (monotonic now)"
    and "needs_cookie request \<Longrightarrow> cookie \<and> network_current (mam_network m) \<noteq> None"
  using assms
  by (cases ns; auto simp: mam_choose_def Let_def dest: single_request_Some split: if_splits option.splits)+

lemma mam_sending_ledger:
  "mam_ledger (mam_sending m now records request) =
     (mam_outstanding m, seedbox_last_attempt (mam_seedbox m),
      if request = MamRequest_LookUpIp then Some (monotonic now) else network_last_sent (mam_network m))"
  by (cases request) (simp_all add: mam_ledger_def network_sent_def)

lemma quiet_sent: "quiet as \<Longrightarrow> sent is_mam_work as = 0"
  by (induction as) (auto dest: bookkeeping_not_work)

lemma quiet_not_mem: "quiet as \<Longrightarrow> a \<in> set as \<Longrightarrow> \<not> is_mam_work a"
  by (auto simp: quiet_def list_all_iff dest: bookkeeping_not_work)

text \<open>
  A decision either sends nothing to MAM, or saves one registration attempt, or sends one
  request, and only with the gate open, nothing outstanding and a token taken.
\<close>

lemma mam_decide_cases:
  assumes "mam_decide m now c timers = (m', timers', actions)"
  obtains (idle) "mam_ledger m' = mam_ledger m" "quiet actions"
  | (register) cookie pre post where "actions = pre @ Action_SaveRegistrationAttempt (wall now) # post"
      "quiet pre" "quiet post" "mam_outstanding m = None"
      "survey_gate (mam_survey_now m now c) = RequestGate_Open"
      "survey_cookie (mam_survey_now m now c) = Some cookie"
      "snd (budget_take (mam_budget (survey_mam (mam_survey_now m now c))) (monotonic now))"
      "mam_ledger m' = (Some (Outstanding_SavingRegistration (wall now) cookie
          (mam_epoch (survey_mam (mam_survey_now m now c)))),
        seedbox_last_attempt (mam_seedbox m), network_last_sent (mam_network m))"
      "seedbox_wanted (mam_seedbox (survey_mam (mam_survey_now m now c))) (wall now)
         (network_current (mam_network (survey_mam (mam_survey_now m now c))))"
  | (request) request pre post where
      "actions = pre @ Action_MamRequest request
         (opt_filter (\<lambda>_. needs_cookie request) (survey_cookie (mam_survey_now m now c))) # post"
      "quiet pre" "quiet post" "mam_outstanding m = None"
      "survey_gate (mam_survey_now m now c) = RequestGate_Open"
      "mam_choose (survey_mam (mam_survey_now m now c)) now (survey_cookie (mam_survey_now m now c) \<noteq> None)
         (context_reserve c) (survey_watching (mam_survey_now m now c), survey_next (mam_survey_now m now c))
         (survey_early (mam_survey_now m now c)) = Some (MamWanted_Request request)"
      "snd (budget_take (mam_budget (survey_mam (mam_survey_now m now c))) (monotonic now))"
      "mam_ledger m' = (Some (Outstanding_Request request (monotonic now)
          (mam_epoch (survey_mam (mam_survey_now m now c)))),
        seedbox_last_attempt (mam_seedbox m),
        if request = MamRequest_LookUpIp then Some (monotonic now) else network_last_sent (mam_network m))"
proof -
  define s where "s = mam_survey_now m now c"
  define chosen where "chosen = mam_choose (survey_mam s) now (survey_cookie s \<noteq> None) (context_reserve c)
    (survey_watching s, survey_next s) (survey_early s)"
  define open' where "open' \<longleftrightarrow> survey_gate s = RequestGate_Open \<and> mam_outstanding (survey_mam s) = None"
  obtain m1 out where send: "(if open'
      then mam_send (survey_mam s) now (survey_records s) (survey_cookie s) chosen
      else (survey_mam s, [])) = (m1, out)" by (metis surj_pair)
  obtain t1 wake where wake: "mam_schedule_wake m1 now (survey_early s) timers = (m', t1, wake)"
    and actions: "actions = survey_actions s @ out @ wake"
    using assms send unfolding mam_decide_def s_def [symmetric] chosen_def open'_def
    by (auto simp: Let_def split: prod.splits)
  have ledger: "mam_ledger (survey_mam s) = mam_ledger m" and q: "quiet (survey_actions s)"
    using survey_ledger by (simp_all add: s_def)
  have m': "mam_ledger m' = mam_ledger m1" "quiet wake"
    using mam_schedule_wake_ledger [of m1 now "survey_early s" timers] wake by simp_all
  consider (none) "m1 = survey_mam s" "out = []"
    | (reg) cookie b where "open'" "chosen = Some MamWanted_Register" "survey_cookie s = Some cookie"
        "budget_take (mam_budget (survey_mam s)) (monotonic now) = (b, True)"
        "m1 = (survey_mam s)\<lparr>mam_budget := b, mam_outstanding :=
           Some (Outstanding_SavingRegistration (wall now) cookie (mam_epoch (survey_mam s)))\<rparr>"
        "out = [Action_SaveRegistrationAttempt (wall now)]"
    | (req) request b where "open'" "chosen = Some (MamWanted_Request request)"
        "budget_take (mam_budget (survey_mam s)) (monotonic now) = (b, True)"
        "m1 = (mam_sending ((survey_mam s)\<lparr>mam_budget := b\<rparr>) now (survey_records s) request)
           \<lparr>mam_outstanding := Some (Outstanding_Request request (monotonic now) (mam_epoch (survey_mam s)))\<rparr>"
        "out = [Action_MamRequest request (opt_filter (\<lambda>_. needs_cookie request) (survey_cookie s))]"
    using send by (auto simp: mam_send_def split: if_splits option.splits mam_wanted.splits prod.splits bool.splits)
  then show ?thesis
  proof cases
    case none
    with ledger q m' actions show ?thesis by (intro idle) simp_all
  next
    case (reg cookie b)
    show ?thesis
    proof (rule register [of "survey_actions s" wake cookie])
      show "mam_outstanding m = None" using reg(1) ledger by (simp add: open'_def mam_ledger_def)
      show "mam_ledger m' = (Some (Outstanding_SavingRegistration (wall now) cookie
          (mam_epoch (survey_mam (mam_survey_now m now c)))),
          seedbox_last_attempt (mam_seedbox m), network_last_sent (mam_network m))"
        using ledger reg(5) m' by (simp add: mam_ledger_def s_def)
      show "seedbox_wanted (mam_seedbox (survey_mam (mam_survey_now m now c))) (wall now)
         (network_current (mam_network (survey_mam (mam_survey_now m now c))))"
        using reg(2) mam_choose_register unfolding chosen_def s_def by blast
    qed (use reg q m' actions in \<open>auto simp: s_def open'_def\<close>)
  next
    case (req request b)
    show ?thesis
    proof (rule request [of "survey_actions s" request wake])
      show "mam_outstanding m = None" using req(1) ledger by (simp add: open'_def mam_ledger_def)
      have "mam_ledger (mam_sending ((survey_mam s)\<lparr>mam_budget := b\<rparr>) now (survey_records s) request) =
        (mam_outstanding (survey_mam s), seedbox_last_attempt (mam_seedbox m),
         if request = MamRequest_LookUpIp then Some (monotonic now) else network_last_sent (mam_network m))"
        using ledger unfolding mam_sending_ledger by (simp add: mam_ledger_def)
      then show "mam_ledger m' = (Some (Outstanding_Request request (monotonic now)
          (mam_epoch (survey_mam (mam_survey_now m now c)))),
        seedbox_last_attempt (mam_seedbox m),
        if request = MamRequest_LookUpIp then Some (monotonic now) else network_last_sent (mam_network m))"
        using req(4) m' by (simp add: mam_ledger_def s_def)
      show "mam_choose (survey_mam (mam_survey_now m now c)) now (survey_cookie (mam_survey_now m now c) \<noteq> None)
         (context_reserve c) (survey_watching (mam_survey_now m now c), survey_next (mam_survey_now m now c))
         (survey_early (mam_survey_now m now c)) = Some (MamWanted_Request request)"
        using req(2) unfolding chosen_def s_def .
    qed (use req q m' actions in \<open>auto simp: s_def open'_def\<close>)
  qed
qed

subsection \<open>The component as a machine\<close>

text \<open>
  One step of the core, seen from here: an event, its timer, a server switch or anything else,
  with the registry as it is then, and the decision in the context the rest of the core gives.
\<close>

datatype mam_input =
    MamInput_Event mam_event
  | MamInput_Timer timer_id
  | MamInput_VpnSwitched
  | MamInput_Other

fun mam_receive :: "mam \<Rightarrow> clock_reading \<Rightarrow> mam_input \<Rightarrow> registry \<Rightarrow> mam \<times> action list" where
  "mam_receive m now (MamInput_Event e) g = (let (m, g, actions, _) = mam_handle m now e g in (m, actions))"
| "mam_receive m now (MamInput_Timer i) g = (mam_timer_expired m i, [])"
| "mam_receive m now MamInput_VpnSwitched g = (mam_vpn_switched m, [])"
| "mam_receive m now MamInput_Other g = (m, [])"

type_synonym mam_step_input = "clock_reading \<times> mam_input \<times> registry \<times> mam_context"

fun mam_step :: "mam \<times> timers \<Rightarrow> mam_step_input \<Rightarrow> (mam \<times> timers) \<times> action list" where
  "mam_step (m, timers) (now, input, g, c) =
     (let (m, actions) = mam_receive m now input g;
          (m, timers, more) = mam_decide m now c timers
      in ((m, timers), actions @ more))"

fun is_mam_answer :: "mam_step_input \<Rightarrow> bool" where
  "is_mam_answer (_, MamInput_Event (MamEvent_Answered _ _), _) = True"
| "is_mam_answer (_, MamInput_Event MamEvent_RegistrationAttemptSaved, _) = True"
| "is_mam_answer (_, MamInput_Event MamEvent_RegistrationAttemptSaveFailed, _) = True"
| "is_mam_answer _ = False"

definition mam_start :: "mam \<times> timers" where
  "mam_start = (fst (mam_start_reading mam_new), timers_new)"

definition mam_busy :: "mam \<times> timers \<Rightarrow> bool" where
  "mam_busy s \<longleftrightarrow> mam_outstanding (fst s) \<noteq> None"

lemma ledger_outstanding: "mam_ledger m' = mam_ledger m \<Longrightarrow> mam_outstanding m' = mam_outstanding m"
  by (simp add: mam_ledger_def)

text \<open>What receiving an input does to the ledger.\<close>

lemma mam_receive_cases:
  assumes "mam_receive m now input g = (m', actions)"
  obtains (same) "mam_ledger m' = mam_ledger m" "quiet actions"
  | (startup) e where "input = MamInput_Event e"
      "e = MamEvent_Enable \<or> e = MamEvent_StateReadFailed \<or> (\<exists>a b s. e = MamEvent_StateRead a b s)"
      "mam_outstanding m' = mam_outstanding m" "actions = []"
  | (answered) result rotated where "input = MamInput_Event (MamEvent_Answered result rotated)" "quiet actions"
      "mam_ledger m' = (None, seedbox_last_attempt (mam_seedbox m), network_last_sent (mam_network m))"
  | (saved) at cookie epoch where "input = MamInput_Event MamEvent_RegistrationAttemptSaved"
      "mam_outstanding m = Some (Outstanding_SavingRegistration at cookie epoch)"
      "epoch = mam_epoch m" "actions = [Action_MamRequest MamRequest_RegisterSeedbox (Some cookie)]"
      "mam_ledger m' = (Some (Outstanding_Request MamRequest_RegisterSeedbox (monotonic now) epoch),
         LastAttempt_Known (Some at), network_last_sent (mam_network m))"
  | (stale) at cookie epoch where "input = MamInput_Event MamEvent_RegistrationAttemptSaved"
      "mam_outstanding m = Some (Outstanding_SavingRegistration at cookie epoch)" "actions = []"
      "mam_ledger m' = (None, LastAttempt_Known (Some at), network_last_sent (mam_network m))"
  | (unsaved) "input = MamInput_Event MamEvent_RegistrationAttemptSaveFailed" "actions = []"
      "mam_ledger m' = (None, seedbox_last_attempt (mam_seedbox m), network_last_sent (mam_network m))"
proof (cases input)
  case (MamInput_Event e)
  obtain g' k where h: "mam_handle m now e g = (m', g', actions, k)"
    using assms MamInput_Event by (auto split: prod.splits)
  show ?thesis
  proof (cases e)
    case (MamEvent_Answered result rotated)
    show ?thesis
    proof (cases "\<exists>r i ep. mam_outstanding m = Some (Outstanding_Request r i ep)")
      case True
      then obtain r i ep where o': "mam_outstanding m = Some (Outstanding_Request r i ep)" by blast
      obtain m1 g1 a1 where a: "mam_answered (m\<lparr>mam_outstanding := None\<rparr>) now r result (ep = mam_epoch m) g
          = (m1, g1, a1)" by (metis surj_pair)
      have "unsent (m\<lparr>mam_outstanding := None\<rparr>) (m1, g1, a1)"
        using mam_answered_unsent unfolding a [symmetric] .
      moreover have "mam_ledger m' = mam_ledger m1" "actions = a1"
        using h o' a by (auto simp: mam_handle_def MamEvent_Answered Let_def split: if_splits)
      ultimately show ?thesis
        using MamInput_Event MamEvent_Answered by (intro answered) (auto simp: mam_ledger_def)
    next
      case False
      then have "m' = m" "actions = []"
        using h by (auto simp: mam_handle_def MamEvent_Answered split: option.splits outstanding.splits)
      then show ?thesis by (intro same) simp_all
    qed
  next
    case MamEvent_RegistrationAttemptSaved
    show ?thesis
    proof (cases "\<exists>at k ep. mam_outstanding m = Some (Outstanding_SavingRegistration at k ep)")
      case True
      then obtain at k ep where o': "mam_outstanding m = Some (Outstanding_SavingRegistration at k ep)" by blast
      show ?thesis
      proof (cases "ep = mam_epoch m")
        case True
        with h o' MamInput_Event show ?thesis
          by (intro saved [of at k ep])
            (auto simp: mam_handle_def MamEvent_RegistrationAttemptSaved Let_def mam_ledger_def seedbox_saved_def)
      next
        case False
        with h o' MamInput_Event show ?thesis
          by (intro stale [of at k ep])
            (auto simp: mam_handle_def MamEvent_RegistrationAttemptSaved Let_def mam_ledger_def seedbox_saved_def)
      qed
    next
      case False
      then have "m' = m" "actions = []"
        using h by (auto simp: mam_handle_def MamEvent_RegistrationAttemptSaved split: option.splits outstanding.splits)
      then show ?thesis by (intro same) simp_all
    qed
  next
    case MamEvent_RegistrationAttemptSaveFailed
    with h MamInput_Event same unsaved show ?thesis
      by (auto simp: mam_handle_def mam_ledger_def split: option.splits outstanding.splits)
  next
    case MamEvent_RatioUseChecked
    obtain guard saved where k: "ratio_guard_checked (mam_ratio_guard m)
        (map_option user_downloaded (account_data (mam_account m))) = (guard, saved)" by (metis surj_pair)
    have "mam_ledger m' = mam_ledger m \<and> quiet actions"
      using h k by (cases saved) (auto simp: mam_handle_def MamEvent_RatioUseChecked Let_def split_beta)
    then show ?thesis by (intro same) simp_all
  next
    case (MamEvent_PurchaseChecked sale)
    with h same show ?thesis by (auto simp: mam_handle_def split: prod.splits option.splits)
  next
    case MamEvent_Enable
    with h MamInput_Event startup show ?thesis by (auto simp: mam_handle_def)
  next
    case (MamEvent_StateRead a b sv)
    with h MamInput_Event startup show ?thesis by (auto simp: mam_handle_def)
  next
    case MamEvent_StateReadFailed
    with h MamInput_Event startup show ?thesis by (auto simp: mam_handle_def)
  qed (use h same in \<open>auto simp: mam_handle_def\<close>)
next
  case (MamInput_Timer i)
  with assms same show ?thesis by (auto simp: mam_timer_expired_def)
next
  case MamInput_VpnSwitched
  with assms same show ?thesis by (auto simp: mam_vpn_switched_def mam_ledger_def)
qed (use assms same in auto)

lemma mam_handle_link: "mam_link (fst (mam_handle m now e g)) = mam_link m"
proof (cases e)
  case (MamEvent_Answered result rotated)
  have "mam_link (fst (mam_answered (m\<lparr>mam_outstanding := None\<rparr>) now r result current g)) = mam_link m" for r current
    using mam_answered_unsent [of "m\<lparr>mam_outstanding := None\<rparr>"] by (simp add: unsent_def)
  with MamEvent_Answered show ?thesis
    by (auto simp: mam_handle_def Let_def split_beta split: option.split outstanding.split)
next
  case MamEvent_RatioUseChecked
  then show ?thesis by (auto simp: mam_handle_def Let_def split_beta split: prod.split option.split)
qed (auto simp: mam_handle_def Let_def split_beta split: option.split outstanding.split prod.split)

lemma mam_step_parts:
  obtains m1 a1 m2 t2 a2 where "mam_receive m now input g = (m1, a1)"
    "mam_decide m1 now c timers = (m2, t2, a2)" "mam_step (m, timers) (now, input, g, c) = ((m2, t2), a1 @ a2)"
proof -
  obtain m1 a1 where "mam_receive m now input g = (m1, a1)" by (cases "mam_receive m now input g")
  moreover obtain m2 t2 a2 where "mam_decide m1 now c timers = (m2, t2, a2)" by (metis surj_pair)
  ultimately show ?thesis using that by simp
qed

declare mam_step.simps [simp del]

lemma mam_receive_flight:
  assumes "mam_receive m now input g = (m', actions)"
  shows "sent is_mam_work actions + of_bool (mam_outstanding m \<noteq> None)
    \<le> of_bool (mam_outstanding m' \<noteq> None) + (of_bool (is_mam_answer (now, input, g, c)) :: nat)"
  using assms
  by (cases rule: mam_receive_cases) (auto simp: mam_ledger_def quiet_sent)

lemma mam_decide_flight:
  assumes "mam_decide m now c timers = (m', timers', actions)"
  shows "sent is_mam_work actions + of_bool (mam_outstanding m \<noteq> None)
    \<le> (of_bool (mam_outstanding m' \<noteq> None) :: nat)"
  using assms
  by (cases rule: mam_decide_cases) (auto simp: mam_ledger_def quiet_sent)

interpretation mam_requests: single_flight mam_step mam_start "\<lambda>_. True" "\<lambda>_. True"
  mam_busy is_mam_work is_mam_answer
proof (unfold_locales, goal_cases)
  case (3 s i)
  obtain m timers now input g c where s: "s = (m, timers)" and i: "i = (now, input, g, c)"
    by (metis surj_pair)
  show ?case
    by (rule mam_step_parts [of m now input g c timers])
      (use mam_receive_flight [of m now input g _ _ c] mam_decide_flight in
        \<open>fastforce simp: s i mam_busy_def\<close>)
qed auto

subsection \<open>Spacing\<close>

fun registration_at :: "mam \<times> timers \<Rightarrow> system_time option" where
  "registration_at (m, timers) =
     (case seedbox_last_attempt (mam_seedbox m) of LastAttempt_Known at \<Rightarrow> at | _ \<Rightarrow> None)"

fun is_registration :: "action \<Rightarrow> bool" where
  "is_registration (Action_MamRequest request _) = (request = MamRequest_RegisterSeedbox)"
| "is_registration _ = False"

fun lookup_sent_at :: "mam \<times> timers \<Rightarrow> instant option" where
  "lookup_sent_at (m, timers) = network_last_sent (mam_network m)"

fun is_lookup :: "action \<Rightarrow> bool" where
  "is_lookup (Action_MamRequest request _) = (request = MamRequest_LookUpIp)"
| "is_lookup _ = False"

definition hour_addable :: "system_time \<Rightarrow> bool" where
  "hour_addable t \<longleftrightarrow> t + int REGISTRATION_SPACING \<le> time_max"

text \<open>Inputs once the saved state was read: startup events come before them.\<close>

fun mam_input_ok :: "mam_step_input \<Rightarrow> bool" where
  "mam_input_ok (now, MamInput_Event e, _) \<longleftrightarrow> hour_addable (wall now) \<and>
     (case e of MamEvent_Enable \<Rightarrow> False | MamEvent_StateRead _ _ _ \<Rightarrow> False | MamEvent_StateReadFailed \<Rightarrow> False
      | _ \<Rightarrow> True)"
| "mam_input_ok (now, _) \<longleftrightarrow> hour_addable (wall now)"

definition attempt_due :: "last_attempt \<Rightarrow> system_time \<Rightarrow> bool" where
  "attempt_due prev at \<longleftrightarrow> (\<exists>p. prev = LastAttempt_Known p \<and>
     is_none_or (\<lambda>p. p + int REGISTRATION_SPACING \<le> at) p)"

definition mam_inv :: "mam \<times> timers \<Rightarrow> bool" where
  "mam_inv s \<longleftrightarrow>
     (\<forall>at. seedbox_last_attempt (mam_seedbox (fst s)) = LastAttempt_Known (Some at) \<longrightarrow> hour_addable at) \<and>
     (\<forall>at cookie epoch. mam_outstanding (fst s) = Some (Outstanding_SavingRegistration at cookie epoch) \<longrightarrow>
        hour_addable at \<and> attempt_due (seedbox_last_attempt (mam_seedbox (fst s))) at)"

lemma allowance_now_due:
  assumes "seedbox_allowance s now = RegistrationAllowance_Now"
    and "\<forall>at. seedbox_last_attempt s = LastAttempt_Known (Some at) \<longrightarrow> hour_addable at"
  shows "attempt_due (seedbox_last_attempt s) now"
proof (cases "seedbox_last_attempt s")
  case (LastAttempt_Known prev)
  show ?thesis
  proof (cases prev)
    case (Some p)
    then have "checked_add p REGISTRATION_SPACING = Some (p + int REGISTRATION_SPACING)"
      using assms(2) LastAttempt_Known by (simp add: checked_add_def hour_addable_def)
    with assms(1) LastAttempt_Known Some have "p + int REGISTRATION_SPACING \<le> now"
      by (cases "seedbox_not_before s")
        (auto simp: seedbox_allowance_def max_def Let_def split: if_splits)
    with LastAttempt_Known Some show ?thesis by (simp add: attempt_due_def)
  qed (use LastAttempt_Known in \<open>simp add: attempt_due_def\<close>)
qed (use assms(1) in \<open>simp_all add: seedbox_allowance_def\<close>)

lemma network_due_spaced:
  "network_due n now \<Longrightarrow> network_last_sent n = Some u \<Longrightarrow> u + int LOOKUP_SPACING \<le> now"
  using duration_since_leD [of LOOKUP_SPACING now u]
  by (simp add: network_due_def LOOKUP_SPACING_def mins_def secs_def)

lemma ledger_eq:
  "mam_ledger m' = mam_ledger m \<Longrightarrow>
     mam_outstanding m' = mam_outstanding m \<and>
     seedbox_last_attempt (mam_seedbox m') = seedbox_last_attempt (mam_seedbox m) \<and>
     network_last_sent (mam_network m') = network_last_sent (mam_network m)"
  by (simp add: mam_ledger_def)

lemma quiet_fires [simp]:
  "quiet as \<Longrightarrow> \<not> list_ex is_registration as" "quiet as \<Longrightarrow> \<not> list_ex is_lookup as"
proof -
  have "is_bookkeeping a \<Longrightarrow> \<not> is_registration a \<and> \<not> is_lookup a" for a
    by (cases a) auto
  then show "quiet as \<Longrightarrow> \<not> list_ex is_registration as" "quiet as \<Longrightarrow> \<not> list_ex is_lookup as"
    by (auto simp: quiet_def list_ex_iff list_all_iff)
qed

text \<open>What receiving and deciding owe to the spacing of registrations and lookups.\<close>

definition spacing_kept :: "mam \<Rightarrow> mam \<times> action list \<Rightarrow> bool" where
  "spacing_kept m r \<longleftrightarrow>
     mam_inv (fst r, timers_new) \<and>
     (if list_ex is_registration (snd r)
      then \<exists>at. registration_at (fst r, timers_new) = Some at \<and>
             is_none_or (\<lambda>u. u + int REGISTRATION_SPACING \<le> at) (registration_at (m, timers_new))
      else is_none_or (\<lambda>u. \<exists>v. registration_at (fst r, timers_new) = Some v \<and> u \<le> v)
             (registration_at (m, timers_new))) \<and>
     (if list_ex is_lookup (snd r)
      then \<exists>at. network_last_sent (mam_network (fst r)) = Some at \<and>
             is_none_or (\<lambda>u. u + int LOOKUP_SPACING \<le> at) (network_last_sent (mam_network m))
      else network_last_sent (mam_network (fst r)) = network_last_sent (mam_network m))"

lemma REGISTRATION_SPACING_pos: "0 \<le> int REGISTRATION_SPACING"
  by simp

lemma mam_receive_spacing:
  assumes "mam_receive m now input g = (m', actions)" and "mam_inv (m, timers_new)"
    and "mam_input_ok (now, input, g, c)"
  shows "spacing_kept m (m', actions)"
  using assms(1)
proof (cases rule: mam_receive_cases)
  case same
  with assms(2) ledger_eq [OF same(1)] show ?thesis
    by (auto simp: spacing_kept_def mam_inv_def is_none_or_iff)
next
  case (startup e)
  with assms(3) show ?thesis by auto
next
  case (answered result rotated)
  with assms(2) show ?thesis
    by (auto simp: spacing_kept_def mam_inv_def mam_ledger_def is_none_or_iff)
next
  case (saved at cookie epoch)
  with assms(2) show ?thesis
    by (auto simp: spacing_kept_def mam_inv_def mam_ledger_def is_none_or_iff attempt_due_def)
next
  case (stale at cookie epoch)
  with assms(2) REGISTRATION_SPACING_pos show ?thesis
    by (fastforce simp: spacing_kept_def mam_inv_def mam_ledger_def is_none_or_iff attempt_due_def)
next
  case unsaved
  with assms(2) show ?thesis
    by (auto simp: spacing_kept_def mam_inv_def mam_ledger_def is_none_or_iff)
qed

lemma mam_decide_spacing:
  assumes "mam_decide m now c timers = (m', timers', actions)" and "mam_inv (m, timers_new)"
    and "hour_addable (wall now)"
  shows "spacing_kept m (m', actions)"
  using assms(1)
proof (cases rule: mam_decide_cases)
  case idle
  with assms(2) ledger_eq [OF idle(1)] show ?thesis
    by (auto simp: spacing_kept_def mam_inv_def is_none_or_iff)
next
  case (register cookie pre post)
  let ?s = "survey_mam (mam_survey_now m now c)"
  have "seedbox_last_attempt (mam_seedbox ?s) = seedbox_last_attempt (mam_seedbox m)"
    using survey_ledger ledger_eq by blast
  with allowance_now_due [of "mam_seedbox ?s" "wall now"] register(9) assms(2)
  have "attempt_due (seedbox_last_attempt (mam_seedbox m)) (wall now)"
    by (simp add: seedbox_wanted_def mam_inv_def)
  with register assms(2,3) show ?thesis
    by (auto simp: spacing_kept_def mam_inv_def mam_ledger_def is_none_or_iff)
next
  case (request request pre post)
  let ?s = "survey_mam (mam_survey_now m now c)"
  have net: "network_last_sent (mam_network ?s) = network_last_sent (mam_network m)"
    using survey_ledger ledger_eq by blast
  have not_register: "request \<noteq> MamRequest_RegisterSeedbox"
    and due: "request = MamRequest_LookUpIp \<Longrightarrow> network_due (mam_network ?s) (monotonic now)"
    using mam_choose_request [OF request(6)] by blast+
  show ?thesis
  proof (cases "request = MamRequest_LookUpIp")
    case True
    with request assms(2) net network_due_spaced [OF due [OF True]] show ?thesis
      by (auto simp: spacing_kept_def mam_inv_def mam_ledger_def is_none_or_iff)
  next
    case False
    with request assms(2) not_register show ?thesis
      by (auto simp: spacing_kept_def mam_inv_def mam_ledger_def is_none_or_iff)
  qed
qed

lemma mam_inv_timers: "mam_inv (m, timers) = mam_inv (m, timers')"
  by (simp add: mam_inv_def)

lemma registration_at_timers: "registration_at (m, timers) = registration_at (m, timers')"
  by simp

text \<open>An hour-old attempt in one half of a step and the other half quiet, or the reverse.\<close>

lemma spacing_kept_trans:
  assumes "spacing_kept m (m1, a1)" and "spacing_kept m1 (m2, a2)"
    and "\<not> (list_ex is_registration a1 \<and> list_ex is_registration a2)"
    and "\<not> (list_ex is_lookup a1 \<and> list_ex is_lookup a2)"
  shows "spacing_kept m (m2, a1 @ a2)"
proof -
  have "mam_inv (m2, timers_new)" using assms(2) by (simp add: spacing_kept_def)
  moreover have "if list_ex is_registration (a1 @ a2)
      then \<exists>at. registration_at (m2, timers_new) = Some at \<and>
             is_none_or (\<lambda>u. u + int REGISTRATION_SPACING \<le> at) (registration_at (m, timers_new))
      else is_none_or (\<lambda>u. \<exists>v. registration_at (m2, timers_new) = Some v \<and> u \<le> v)
             (registration_at (m, timers_new))"
    using assms unfolding spacing_kept_def
    by (cases "registration_at (m, timers_new)"; cases "list_ex is_registration a1")
      (force simp del: registration_at.simps split: if_splits simp: is_none_or_iff)+
  moreover have "if list_ex is_lookup (a1 @ a2)
      then \<exists>at. network_last_sent (mam_network m2) = Some at \<and>
             is_none_or (\<lambda>u. u + int LOOKUP_SPACING \<le> at) (network_last_sent (mam_network m))
      else network_last_sent (mam_network m2) = network_last_sent (mam_network m)"
    using assms unfolding spacing_kept_def by (auto split: if_splits)
  ultimately show ?thesis by (simp add: spacing_kept_def del: registration_at.simps)
qed

lemma mam_decide_no_registration:
  assumes "mam_decide m now c timers = (m', timers', actions)"
  shows "\<not> list_ex is_registration actions"
  using assms
proof (cases rule: mam_decide_cases)
  case (request request pre post)
  with mam_choose_request(1) [OF request(6)] show ?thesis by simp
qed simp_all

lemma mam_receive_no_lookup:
  assumes "mam_receive m now input g = (m', actions)"
  shows "\<not> list_ex is_lookup actions"
  using assms by (cases rule: mam_receive_cases) simp_all

lemma mam_step_spacing:
  assumes "mam_inv (m, timers)" and "mam_input_ok (now, input, g, c)"
  shows "\<exists>m' timers'. fst (mam_step (m, timers) (now, input, g, c)) = (m', timers') \<and>
    spacing_kept m (m', snd (mam_step (m, timers) (now, input, g, c)))"
proof -
  obtain m1 a1 m2 t2 a2 where parts: "mam_receive m now input g = (m1, a1)"
    "mam_decide m1 now c timers = (m2, t2, a2)" "mam_step (m, timers) (now, input, g, c) = ((m2, t2), a1 @ a2)"
    by (rule mam_step_parts)
  have inv: "mam_inv (m, timers_new)" using assms(1) mam_inv_timers by blast
  have k1: "spacing_kept m (m1, a1)" by (rule mam_receive_spacing [OF parts(1) inv assms(2)])
  then have "mam_inv (m1, timers_new)" by (simp add: spacing_kept_def)
  moreover have "hour_addable (wall now)" using assms(2) by (cases input) simp_all
  ultimately have k2: "spacing_kept m1 (m2, a2)" using mam_decide_spacing [OF parts(2)] by blast
  have "spacing_kept m (m2, a1 @ a2)"
    using spacing_kept_trans [OF k1 k2] mam_decide_no_registration [OF parts(2)]
      mam_receive_no_lookup [OF parts(1)] by blast
  with parts(3) show ?thesis by simp
qed

lemma mam_step_owes:
  assumes "mam_inv s" and "mam_input_ok i"
  shows "mam_inv (fst (mam_step s i))"
    and "list_ex is_registration (snd (mam_step s i)) \<Longrightarrow>
      \<exists>at. registration_at (fst (mam_step s i)) = Some at \<and>
        (\<forall>u. registration_at s = Some u \<longrightarrow> u + int REGISTRATION_SPACING \<le> at)"
    and "\<not> list_ex is_registration (snd (mam_step s i)) \<Longrightarrow> registration_at s = Some u \<Longrightarrow>
      \<exists>v. registration_at (fst (mam_step s i)) = Some v \<and> u \<le> v"
    and "list_ex is_lookup (snd (mam_step s i)) \<Longrightarrow>
      \<exists>at. lookup_sent_at (fst (mam_step s i)) = Some at \<and>
        (\<forall>u. lookup_sent_at s = Some u \<longrightarrow> u + int LOOKUP_SPACING \<le> at)"
    and "\<not> list_ex is_lookup (snd (mam_step s i)) \<Longrightarrow> lookup_sent_at (fst (mam_step s i)) = lookup_sent_at s"
proof -
  obtain m timers now input g c where s: "s = (m, timers)" and i: "i = (now, input, g, c)"
    by (metis surj_pair)
  obtain m' t' where step: "fst (mam_step s i) = (m', t')" and kept: "spacing_kept m (m', snd (mam_step s i))"
    using mam_step_spacing [of m timers now input g c] assms by (auto simp: s i)
  have eqs: "registration_at (fst (mam_step s i)) = registration_at (m', timers_new)"
      "registration_at s = registration_at (m, timers_new)"
      "lookup_sent_at (fst (mam_step s i)) = network_last_sent (mam_network m')"
      "lookup_sent_at s = network_last_sent (mam_network m)"
    unfolding step by (simp_all add: s)
  show "mam_inv (fst (mam_step s i))" using kept step by (simp add: spacing_kept_def mam_inv_def)
  show "\<exists>at. registration_at (fst (mam_step s i)) = Some at \<and>
        (\<forall>u. registration_at s = Some u \<longrightarrow> u + int REGISTRATION_SPACING \<le> at)"
    if "list_ex is_registration (snd (mam_step s i))"
    using kept that unfolding eqs spacing_kept_def by (auto simp add: is_none_or_iff simp del: registration_at.simps)
  show "\<exists>v. registration_at (fst (mam_step s i)) = Some v \<and> u \<le> v"
    if "\<not> list_ex is_registration (snd (mam_step s i))" "registration_at s = Some u"
    using kept that unfolding eqs spacing_kept_def by (auto simp add: is_none_or_iff simp del: registration_at.simps)
  show "\<exists>at. lookup_sent_at (fst (mam_step s i)) = Some at \<and>
        (\<forall>u. lookup_sent_at s = Some u \<longrightarrow> u + int LOOKUP_SPACING \<le> at)"
    if "list_ex is_lookup (snd (mam_step s i))"
    using kept that unfolding eqs spacing_kept_def by (auto simp add: is_none_or_iff)
  show "lookup_sent_at (fst (mam_step s i)) = lookup_sent_at s"
    if "\<not> list_ex is_lookup (snd (mam_step s i))"
    using kept that unfolding eqs spacing_kept_def by simp
qed

lemma mam_start_inv: "mam_inv mam_start"
  by (simp add: mam_start_def mam_inv_def mam_start_reading_def mam_new_def)

interpretation registrations: spaced_events mam_step mam_start mam_input_ok mam_inv
  is_registration registration_at REGISTRATION_SPACING
  by unfold_locales (auto simp: mam_start_inv mam_step_owes simp del: registration_at.simps)

interpretation lookups: spaced_events mam_step mam_start mam_input_ok mam_inv
  is_lookup lookup_sent_at LOOKUP_SPACING
  by unfold_locales (auto simp: mam_step_owes simp del: lookup_sent_at.simps)

subsection \<open>What a decision rests on\<close>

lemma remind_frame [simp]:
  "mam_budget (fst (mam_remind m now)) = mam_budget m" "mam_hosts (fst (mam_remind m now)) = mam_hosts m"
  by (auto simp: mam_remind_def mam_notify_def Let_def split: last_reminder.splits option.splits)

lemma follow_gate_frame [simp]:
  "mam_budget (fst (mam_follow_gate m c)) = mam_budget m"
  "snd (mam_follow_gate m c) = RequestGate_Open \<longleftrightarrow> mam_hosts m = MamHosts_Configured \<and>
     context_requests c = MamRequestsStatus_Running \<and> context_protection c = TunnelProtection_Protected"
  by (auto simp: mam_follow_gate_def mam_disconnect_def Let_def)

lemma follow_cookie_frame [simp]: "mam_budget (mam_follow_cookie m c) = mam_budget m"
  by (simp add: mam_follow_cookie_def Let_def)

lemma follow_connectability_frame [simp]:
  "mam_budget (mam_follow_connectability m now c) = mam_budget m"
  "mam_session (mam_follow_connectability m now c) = mam_session m"
  by (simp_all add: mam_follow_connectability_def Let_def split_beta)

lemma network_unconfirm_current [simp]: "network_current (network_unconfirm n) = None"
  by (cases "network_observed n") (simp_all add: network_current_def network_unconfirm_def)

lemma network_sent_current [simp]: "network_current (network_sent n now) = network_current n"
  by (simp add: network_current_def network_sent_def)

lemma follow_connectability_current:
  "network_current (mam_network (mam_follow_connectability m now c)) = Some o' \<Longrightarrow>
     network_current (mam_network m) = Some o'"
  by (auto simp: mam_follow_connectability_def Let_def split_beta split: if_splits)

lemma watch_downloads_frame [simp]:
  "mam_budget (fst (mam_watch_downloads m now r)) = mam_budget m"
  "mam_session (fst (mam_watch_downloads m now r)) = mam_session m"
  "mam_network (fst (mam_watch_downloads m now r)) = mam_network m"
  by (simp_all add: mam_watch_downloads_def Let_def split: option.splits)

lemma survey_budget: "mam_budget (survey_mam (mam_survey_now m now c)) = mam_budget m"
  unfolding mam_survey_now_def Let_def split_beta by simp

lemma survey_gate_open:
  "survey_gate (mam_survey_now m now c) = RequestGate_Open \<longleftrightarrow> mam_hosts m = MamHosts_Configured \<and>
     context_requests c = MamRequestsStatus_Running \<and> context_protection c = TunnelProtection_Protected"
  unfolding mam_survey_now_def Let_def split_beta by simp

lemma survey_cookie_usable:
  assumes "survey_cookie (mam_survey_now m now c) = Some k"
    and "network_current (mam_network (survey_mam (mam_survey_now m now c))) \<noteq> None"
  shows "context_cookie c = Some k \<and> \<not> mam_session_blocks (mam_session (survey_mam (mam_survey_now m now c)))
    (network_current (mam_network (survey_mam (mam_survey_now m now c))))"
  using assms unfolding mam_survey_now_def Let_def split_beta
  by (auto simp: opt_filter_Some) (drule follow_connectability_current, simp)

lemma schedule_wake_frame [simp]:
  "mam_session (fst (mam_schedule_wake m now early timers)) = mam_session m"
  "mam_network (fst (mam_schedule_wake m now early timers)) = mam_network m"
  by (simp_all add: mam_schedule_wake_def Let_def split_beta split: option.splits)

lemma sending_frame [simp]:
  "mam_session (mam_sending m now r request) = mam_session m"
  "network_current (mam_network (mam_sending m now r request)) = network_current (mam_network m)"
  by (cases request; simp)+

lemma send_frame [simp]:
  "mam_session (fst (mam_send m now r k wanted)) = mam_session m"
  "network_current (mam_network (fst (mam_send m now r k wanted))) = network_current (mam_network m)"
  by (auto simp: mam_send_def split: option.splits mam_wanted.splits prod.splits bool.splits)

lemma decide_frame:
  assumes "mam_decide m now c timers = (m', timers', actions)"
  shows "mam_session m' = mam_session (survey_mam (mam_survey_now m now c))"
    and "network_current (mam_network m') = network_current (mam_network (survey_mam (mam_survey_now m now c)))"
proof -
  have "m' = fst (mam_decide m now c timers)" using assms by simp
  then show "mam_session m' = mam_session (survey_mam (mam_survey_now m now c))"
    and "network_current (mam_network m') = network_current (mam_network (survey_mam (mam_survey_now m now c)))"
    unfolding mam_decide_def Let_def split_beta by simp_all
qed

definition witness_context :: mam_context where
  "witness_context =
     \<lparr>context_requests = MamRequestsStatus_Running, context_protection = TunnelProtection_Protected,
      context_cookie = Some ''cookie'', context_requested_cookie = Some ''cookie'', context_reserve = None,
      context_readiness = ClientReadiness_NotReady, context_client_version = None,
      context_connection = \<lparr>connection_listen_port = None, connection_forwarded_port = None,
        connection_tunnel_ip = None, connection_interface = None\<rparr>,
      context_downloading_limit = 5, context_registry = Registry_Unread\<rparr>"

definition witness_enabled :: mam where
  "witness_enabled = (fst (mam_start_reading mam_new))\<lparr>mam_hosts := MamHosts_Configured\<rparr>"

subsection \<open>Properties\<close>

text \<open>
  One piece of MAM work at a time: over any sequence of answers, storage results, timers,
  pauses, lost protection and cookie changes, the requests sent to MAM and the attempts being
  saved outnumber the answers and save results by at most one.
\<close>

theorem mam_requests_do_not_overlap:
  "sent is_mam_work (concat (snd (run mam_step mam_start inputs)))
     \<le> 1 + length (filter is_mam_answer inputs)"
  by (rule mam_requests.sent_at_most) (simp add: list_all_iff)


definition witness_read :: mam where
  "witness_read = mam_new\<lparr>mam_seedbox := seedbox_new\<lparr>seedbox_last_attempt := LastAttempt_Known (Some 5)\<rparr>,
     mam_last_reminder := LastReminder_Known None, mam_ratio_guard := RatioGuard_Watching (Some 0)\<rparr>"


text \<open>
  Address lookups are a minute apart: from the moment MAM work is enabled on, the lookups
  Windlass sends each follow the one before, or the start, by a minute of the process clock.
\<close>

theorem lookups_a_minute_apart:
  assumes "mam_handle m0 now MamEvent_Enable g = (m, g', actions, rotated)"
    and "mam_inv (m0, timers)" and "list_all mam_input_ok inputs"
  shows "sorted_wrt (\<lambda>a b. a + int (mins 1) \<le> b)
    (monotonic now # marks mam_step is_lookup lookup_sent_at (m, timers) inputs)"
proof -
  have m: "network_last_sent (mam_network m) = Some (monotonic now)" "mam_inv (m, timers)"
    using assms(1,2) by (auto simp: mam_handle_def network_sent_def mam_inv_def)
  from lookups.spaced_run_from [OF m(2) assms(3)] m(1) show ?thesis
    by (simp add: LOOKUP_SPACING_def)
qed

theorem lookups_a_minute_apart_witness:
  "sorted_wrt (\<lambda>a b. a + int (mins 1) \<le> b)
    (4 # marks mam_step is_lookup lookup_sent_at
       (mam_new\<lparr>mam_hosts := MamHosts_Configured, mam_network := network_sent network_new 4\<rparr>, timers_new)
       [(\<lparr>monotonic = 5, wall = 10\<rparr>, MamInput_Other, Registry_Unread, witness_context),
        (\<lparr>monotonic = 60000000004, wall = 11\<rparr>, MamInput_Timer 3, Registry_Unread, witness_context)])"
  using lookups_a_minute_apart [of mam_new \<open>\<lparr>monotonic = 4, wall = 9\<rparr>\<close> Registry_Unread
      "mam_new\<lparr>mam_hosts := MamHosts_Configured, mam_network := network_sent network_new 4\<rparr>"
      Registry_Unread "[]" None timers_new
      "[(\<lparr>monotonic = 5, wall = 10\<rparr>, MamInput_Other, Registry_Unread, witness_context),
        (\<lparr>monotonic = 60000000004, wall = 11\<rparr>, MamInput_Timer 3, Registry_Unread, witness_context)]"]
  by (simp add: mam_handle_def mam_inv_def mam_new_def seedbox_new_def hour_addable_def
      REGISTRATION_SPACING_def time_defs time_max_def)

text \<open>
  What a request to MAM needs: a decision sends one only with MAM's hosts configured, MAM
  requests running, the tunnel protected, nothing outstanding and a token in the bucket. A
  request carries a cookie exactly when it needs one, the cookie in force, and then MAM's view of
  the address is current and MAM has not rejected the session at that address.
\<close>

theorem mam_requests_need_protection:
  assumes "mam_decide m now c timers = (m', timers', actions)"
    and "Action_MamRequest request cookie \<in> set actions"
  shows "mam_hosts m = MamHosts_Configured \<and> context_requests c = MamRequestsStatus_Running \<and>
    context_protection c = TunnelProtection_Protected \<and> mam_outstanding m = None \<and>
    snd (budget_take (mam_budget m) (monotonic now)) \<and>
    (if needs_cookie request
     then cookie \<noteq> None \<and> cookie = context_cookie c \<and> network_current (mam_network m') \<noteq> None \<and>
       \<not> mam_session_blocks (mam_session m') (network_current (mam_network m'))
     else cookie = None)"
  using assms(1)
proof (cases rule: mam_decide_cases)
  case idle
  with assms(2) quiet_not_mem show ?thesis by fastforce
next
  case (register cookie pre post)
  with assms(2) quiet_not_mem show ?thesis by fastforce
next
  case (request request' pre post)
  then have action: "request' = request"
      "cookie = opt_filter (\<lambda>_. needs_cookie request) (survey_cookie (mam_survey_now m now c))"
    using assms(2) quiet_not_mem by fastforce+
  have "needs_cookie request \<Longrightarrow> survey_cookie (mam_survey_now m now c) \<noteq> None \<and>
      network_current (mam_network (survey_mam (mam_survey_now m now c))) \<noteq> None"
    using mam_choose_request(3) [OF request(6)] action(1) by blast
  with action request(4,5,7) survey_cookie_usable [of m now c] show ?thesis
    by (auto simp: survey_budget survey_gate_open decide_frame [OF assms(1)])
qed

theorem mam_requests_need_protection_witness:
  "\<exists>m' timers' actions. mam_decide witness_enabled \<lparr>monotonic = 5, wall = 10\<rparr> witness_context timers_new
      = (m', timers', actions) \<and>
    Action_MamRequest MamRequest_LookUpIp None \<in> set actions \<and>
    snd (budget_take (mam_budget witness_enabled) 5)"
proof -
  obtain m' timers' actions where d: "mam_decide witness_enabled \<lparr>monotonic = 5, wall = 10\<rparr> witness_context
      timers_new = (m', timers', actions)" by (metis surj_pair)
  have "Action_MamRequest MamRequest_LookUpIp None \<in> set actions" using d
    by (auto simp: mam_decide_def mam_survey_now_def mam_remind_def mam_follow_gate_def mam_follow_cookie_def
        mam_follow_connectability_def mam_watch_downloads_def mam_choose_def mam_send_def witness_context_def
        witness_enabled_def mam_start_reading_def mam_new_def network_new_def network_due_def budget_new_def
        budget_take_def budget_refilled_def tokens_less_one_def REQUEST_BURST_def
        account_new_def split_beta Let_def)
  with mam_requests_need_protection [OF d this] d show ?thesis by simp
qed

end
