(* ===== verification/Settings.thy ===== *)
theory Settings
  imports Actions Persistence
begin

text \<open>
  Dashboard settings (\<open>core/settings.rs\<close>): each is saved one write at a time, a newer request
  waits for the write in flight, and the API cookie is usable only while the saved value is the
  one asked for.
\<close>

subsection \<open>One setting\<close>

datatype 'a setting_persistence =
    SettingPersistence_Idle
  | SettingPersistence_Pending 'a
  | SettingPersistence_Failed

datatype setting_status = SettingStatus_Saved | SettingStatus_Saving | SettingStatus_NotSaved

record 'a setting =
  setting_saved :: 'a
  setting_requested :: 'a
  setting_persistence :: "'a setting_persistence"

definition setting_loaded :: "'a \<Rightarrow> 'a \<Rightarrow> 'a setting" where
  "setting_loaded saved requested =
     \<lparr>setting_saved = saved, setting_requested = requested,
      setting_persistence = SettingPersistence_Idle\<rparr>"

definition setting_current_status :: "'a setting \<Rightarrow> setting_status" where
  "setting_current_status s =
     (case setting_persistence s of
        SettingPersistence_Idle \<Rightarrow> SettingStatus_Saved
      | SettingPersistence_Pending _ \<Rightarrow> SettingStatus_Saving
      | SettingPersistence_Failed \<Rightarrow> SettingStatus_NotSaved)"

definition setting_pending :: "'a setting \<Rightarrow> 'a option" where
  "setting_pending s =
     (case setting_persistence s of SettingPersistence_Pending v \<Rightarrow> Some v | _ \<Rightarrow> None)"

definition setting_request :: "'a \<Rightarrow> 'a setting \<Rightarrow> 'a setting \<times> 'a option" where
  "setting_request v s =
     (let s = s\<lparr>setting_requested := v\<rparr> in
      if setting_pending s \<noteq> None then (s, None)
      else if v = setting_saved s then
        (s\<lparr>setting_persistence := SettingPersistence_Idle\<rparr>, None)
      else (s\<lparr>setting_persistence := SettingPersistence_Pending v\<rparr>, Some v))"

definition setting_complete :: "bool \<Rightarrow> 'a setting \<Rightarrow> 'a setting \<times> 'a option" where
  "setting_complete succeeded s =
     (case setting_pending s of
        None \<Rightarrow> (s, None)
      | Some pending \<Rightarrow>
          (let s = (if succeeded then s\<lparr>setting_saved := pending\<rparr> else s);
               s = s\<lparr>setting_persistence :=
                       if succeeded then SettingPersistence_Idle else SettingPersistence_Failed\<rparr>
           in if pending = setting_requested s then (s, None)
              else setting_request (setting_requested s) s))"

definition setting_replacement_failed :: "'a setting \<Rightarrow> 'a setting \<times> 'a option" where
  "setting_replacement_failed s =
     (if setting_pending s = Some (setting_requested s) then
        (s\<lparr>setting_requested := setting_saved s,
           setting_persistence := SettingPersistence_Idle\<rparr>, None)
      else setting_complete False s)"

subsection \<open>All settings\<close>

record settings =
  settings_history_limit :: "history_limit setting"
  settings_api_cookie :: "api_cookie option setting"
  settings_ntfy_topic :: "ntfy_topic option setting"
  settings_points_reserve :: "points_reserve setting"
  settings_torrent_limits :: "torrent_limits setting"

definition usable_api_cookie :: "settings \<Rightarrow> api_cookie option" where
  "usable_api_cookie s =
     (case (setting_persistence (settings_api_cookie s), setting_saved (settings_api_cookie s)) of
        (SettingPersistence_Idle, Some cookie) \<Rightarrow> Some cookie
      | _ \<Rightarrow> None)"

datatype settings_state =
    SettingsState_Unread
  | SettingsState_Reading
  | SettingsState_Loaded settings
  | SettingsState_ReadFailed

fun settings_loaded :: "settings_state \<Rightarrow> settings option" where
  "settings_loaded (SettingsState_Loaded s) = Some s"
| "settings_loaded _ = None"

definition settings_points_reserve_saved :: "settings_state \<Rightarrow> points option" where
  "settings_points_reserve_saved st =
     map_option (\<lambda>s. setting_saved (settings_points_reserve s)) (settings_loaded st)"

definition settings_torrent_limits_saved :: "settings_state \<Rightarrow> torrent_limits option" where
  "settings_torrent_limits_saved st =
     map_option (\<lambda>s. setting_saved (settings_torrent_limits s)) (settings_loaded st)"

definition settings_history_limit_saved :: "settings_state \<Rightarrow> history_limit option" where
  "settings_history_limit_saved st =
     map_option (\<lambda>s. setting_saved (settings_history_limit s)) (settings_loaded st)"

definition settings_start_reading :: "settings_state \<Rightarrow> settings_state \<times> action list" where
  "settings_start_reading st = (SettingsState_Reading, [Action_ReadSettings])"

datatype settings_event =
    SettingsEvent_Read "history_limit option" "api_cookie option" "ntfy_topic option"
      "points_reserve option" "torrent_limits option"
  | SettingsEvent_ReadFailed
  | SettingsEvent_SetHistoryLimit history_limit
  | SettingsEvent_HistoryLimitWritten
  | SettingsEvent_HistoryLimitWriteFailed
  | SettingsEvent_SetApiCookie api_cookie
  | SettingsEvent_ClearApiCookie
  | SettingsEvent_ApiCookieWritten
  | SettingsEvent_ApiCookieWriteFailed
  | SettingsEvent_SetNtfyTopic ntfy_topic
  | SettingsEvent_ClearNtfyTopic
  | SettingsEvent_NtfyTopicWritten
  | SettingsEvent_NtfyTopicWriteFailed
  | SettingsEvent_SetPointsReserve points_reserve
  | SettingsEvent_PointsReserveWritten
  | SettingsEvent_PointsReserveWriteFailed
  | SettingsEvent_SetTorrentLimits torrent_limits
  | SettingsEvent_TorrentLimitsWritten
  | SettingsEvent_TorrentLimitsWriteFailed
  | SettingsEvent_RotatedApiCookieWritten
  | SettingsEvent_RotatedApiCookieWriteFailed

text \<open>Apply a change to loaded settings; changes are refused until settings load.\<close>

fun settings_change ::
    "settings_state \<Rightarrow> (settings \<Rightarrow> settings \<times> action option) \<Rightarrow> settings_state \<times> action list" where
  "settings_change (SettingsState_Loaded s) apply_change =
     (let (s, action) = apply_change s in (SettingsState_Loaded s, opt_list action))"
| "settings_change st apply_change = (st, [])"

text \<open>
  The closures passed to \<open>change\<close>: an operation on one setting, and the write it may issue.
\<close>

definition on_history_limit ::
    "(history_limit setting \<Rightarrow> history_limit setting \<times> history_limit option) \<Rightarrow>
     settings \<Rightarrow> settings \<times> action option" where
  "on_history_limit f s =
     (let (v, w) = f (settings_history_limit s)
      in (s\<lparr>settings_history_limit := v\<rparr>, map_option Action_WriteHistoryLimit w))"

definition on_api_cookie ::
    "(api_cookie option setting \<Rightarrow> api_cookie option setting \<times> api_cookie option option) \<Rightarrow>
     settings \<Rightarrow> settings \<times> action option" where
  "on_api_cookie f s =
     (let (v, w) = f (settings_api_cookie s)
      in (s\<lparr>settings_api_cookie := v\<rparr>, map_option Action_WriteApiCookie w))"

definition on_ntfy_topic ::
    "(ntfy_topic option setting \<Rightarrow> ntfy_topic option setting \<times> ntfy_topic option option) \<Rightarrow>
     settings \<Rightarrow> settings \<times> action option" where
  "on_ntfy_topic f s =
     (let (v, w) = f (settings_ntfy_topic s)
      in (s\<lparr>settings_ntfy_topic := v\<rparr>, map_option Action_WriteNtfyTopic w))"

definition on_points_reserve ::
    "(points_reserve setting \<Rightarrow> points_reserve setting \<times> points_reserve option) \<Rightarrow>
     settings \<Rightarrow> settings \<times> action option" where
  "on_points_reserve f s =
     (let (v, w) = f (settings_points_reserve s)
      in (s\<lparr>settings_points_reserve := v\<rparr>, map_option Action_WritePointsReserve w))"

definition on_torrent_limits ::
    "(torrent_limits setting \<Rightarrow> torrent_limits setting \<times> torrent_limits option) \<Rightarrow>
     settings \<Rightarrow> settings \<times> action option" where
  "on_torrent_limits f s =
     (let (v, w) = f (settings_torrent_limits s)
      in (s\<lparr>settings_torrent_limits := v\<rparr>, map_option Action_WriteTorrentLimits w))"

fun settings_handle :: "settings_state \<Rightarrow> settings_event \<Rightarrow> settings_state \<times> action list" where
  "settings_handle st (SettingsEvent_Read history_limit api_cookie ntfy_topic reserve limits) =
     (case st of
        SettingsState_Reading \<Rightarrow>
          (let limit = unwrap_or history_limit_default history_limit;
               reserve = unwrap_or points_reserve_default reserve;
               limits = unwrap_or torrent_limits_default limits
           in (SettingsState_Loaded
                 \<lparr>settings_history_limit = setting_loaded limit limit,
                  settings_api_cookie = setting_loaded api_cookie api_cookie,
                  settings_ntfy_topic = setting_loaded ntfy_topic ntfy_topic,
                  settings_points_reserve = setting_loaded reserve reserve,
                  settings_torrent_limits = setting_loaded limits limits\<rparr>, []))
      | _ \<Rightarrow> (st, []))"
| "settings_handle st SettingsEvent_ReadFailed =
     (case st of SettingsState_Reading \<Rightarrow> (SettingsState_ReadFailed, []) | _ \<Rightarrow> (st, []))"
| "settings_handle st (SettingsEvent_SetHistoryLimit limit) =
     settings_change st (on_history_limit (setting_request limit))"
| "settings_handle st SettingsEvent_HistoryLimitWritten =
     settings_change st (on_history_limit (setting_complete True))"
| "settings_handle st SettingsEvent_HistoryLimitWriteFailed =
     settings_change st (on_history_limit (setting_complete False))"
| "settings_handle st (SettingsEvent_SetApiCookie cookie) =
     settings_change st (on_api_cookie (setting_request (Some cookie)))"
| "settings_handle st SettingsEvent_ClearApiCookie =
     settings_change st (on_api_cookie (setting_request None))"
| "settings_handle st SettingsEvent_ApiCookieWritten =
     settings_change st (on_api_cookie (setting_complete True))"
| "settings_handle st SettingsEvent_ApiCookieWriteFailed =
     settings_change st (on_api_cookie (setting_complete False))"
| "settings_handle st (SettingsEvent_SetNtfyTopic topic) =
     settings_change st (on_ntfy_topic (setting_request (Some topic)))"
| "settings_handle st SettingsEvent_ClearNtfyTopic =
     settings_change st (on_ntfy_topic (setting_request None))"
| "settings_handle st SettingsEvent_NtfyTopicWritten =
     settings_change st (on_ntfy_topic (setting_complete True))"
| "settings_handle st SettingsEvent_NtfyTopicWriteFailed =
     settings_change st (on_ntfy_topic (setting_complete False))"
| "settings_handle st (SettingsEvent_SetPointsReserve reserve) =
     settings_change st (on_points_reserve (setting_request reserve))"
| "settings_handle st SettingsEvent_PointsReserveWritten =
     settings_change st (on_points_reserve (setting_complete True))"
| "settings_handle st SettingsEvent_PointsReserveWriteFailed =
     settings_change st (on_points_reserve (setting_complete False))"
| "settings_handle st (SettingsEvent_SetTorrentLimits limits) =
     settings_change st (on_torrent_limits (setting_request limits))"
| "settings_handle st SettingsEvent_TorrentLimitsWritten =
     settings_change st (on_torrent_limits (setting_complete True))"
| "settings_handle st SettingsEvent_TorrentLimitsWriteFailed =
     settings_change st (on_torrent_limits (setting_complete False))"
| "settings_handle st SettingsEvent_RotatedApiCookieWritten =
     settings_change st (on_api_cookie (setting_complete True))"
| "settings_handle st SettingsEvent_RotatedApiCookieWriteFailed =
     settings_change st (on_api_cookie setting_replacement_failed)"

definition settings_rotate :: "settings_state \<Rightarrow> api_cookie \<Rightarrow> settings_state \<times> action list" where
  "settings_rotate st cookie =
     settings_change st (\<lambda>s.
       let (v, w) = setting_request (Some cookie) (settings_api_cookie s)
       in (s\<lparr>settings_api_cookie := v\<rparr>,
           map_option Action_WriteRotatedApiCookie (Option.bind w (\<lambda>c. c))))"

subsection \<open>A setting keeps the storage contract\<close>

lemma setting_pending_simps [simp]:
  "setting_pending (s\<lparr>setting_requested := v\<rparr>) = setting_pending s"
  "setting_pending (s\<lparr>setting_saved := v\<rparr>) = setting_pending s"
  "setting_pending (s\<lparr>setting_persistence := SettingPersistence_Pending v\<rparr>) = Some v"
  "setting_pending (s\<lparr>setting_persistence := SettingPersistence_Idle\<rparr>) = None"
  "setting_pending (s\<lparr>setting_persistence := SettingPersistence_Failed\<rparr>) = None"
  by (simp_all add: setting_pending_def)

definition setting_settled :: "bool \<Rightarrow> 'a \<Rightarrow> 'a setting \<Rightarrow> 'a setting" where
  "setting_settled ok p s = s\<lparr>
     setting_saved := (if ok then p else setting_saved s),
     setting_persistence := (if ok then SettingPersistence_Idle else SettingPersistence_Failed)\<rparr>"

lemma setting_settled_simps [simp]:
  "setting_saved (setting_settled ok p s) = (if ok then p else setting_saved s)"
  "setting_requested (setting_settled ok p s) = setting_requested s"
  "setting_pending (setting_settled ok p s) = None"
  by (simp_all add: setting_settled_def setting_pending_def)

lemma setting_request_free:
  "setting_pending s = None \<Longrightarrow> setting_request v s = (t, w) \<Longrightarrow>
     w = (if v = setting_saved s then None else Some v) \<and> setting_pending t = w \<and>
     setting_requested t = v \<and> setting_saved t = setting_saved s"
  by (auto simp: setting_request_def Let_def split: if_splits)

lemma setting_complete_eq:
  "setting_pending s = Some p \<Longrightarrow>
     setting_complete ok s =
       (if p = setting_requested s then (setting_settled ok p s, None)
        else setting_request (setting_requested s) (setting_settled ok p s))"
  by (cases ok) (simp_all add: setting_complete_def setting_settled_def)

interpretation setting: saved_value setting_pending setting_requested setting_saved
  setting_request setting_complete
proof (unfold_locales, goal_cases)
  case (1 s p v t w)
  then show ?case by (auto simp: setting_request_def Let_def)
next
  case (2 s v t w)
  then show ?case by (rule setting_request_free)
next
  case (3 s ok)
  then show ?case by (simp add: setting_complete_def)
next
  case (4 s p ok t w)
  let ?b = "setting_settled ok p s"
  show ?case
  proof (cases "p = setting_requested s")
    case True
    then have "t = ?b" "w = None" using 4(2) setting_complete_eq [OF 4(1), of ok] by simp_all
    with True show ?thesis by simp
  next
    case False
    then have eq: "setting_request (setting_requested s) ?b = (t, w)"
      using 4(2) setting_complete_eq [OF 4(1), of ok] by simp
    from setting_request_free [OF _ eq] False show ?thesis by simp
  qed
qed

definition setting_inv :: "('a \<Rightarrow> bool) \<Rightarrow> 'a setting \<Rightarrow> bool" where
  "setting_inv ok s \<longleftrightarrow> ok (setting_saved s) \<and> ok (setting_requested s) \<and>
     (case setting_persistence s of
        SettingPersistence_Idle \<Rightarrow> setting_requested s = setting_saved s
      | SettingPersistence_Pending v \<Rightarrow> ok v \<and> v \<noteq> setting_saved s
      | SettingPersistence_Failed \<Rightarrow> setting_requested s \<noteq> setting_saved s)"

lemma setting_loaded_inv: "ok v \<Longrightarrow> setting_inv ok (setting_loaded v v)"
  by (simp add: setting_inv_def setting_loaded_def)

lemma setting_request_inv:
  "setting_inv ok s \<Longrightarrow> ok v \<Longrightarrow> setting_inv ok (fst (setting_request v s))"
  by (cases "setting_persistence s")
    (auto simp: setting_inv_def setting_request_def setting_pending_def Let_def)

lemma setting_complete_inv:
  "setting_inv ok s \<Longrightarrow> setting_inv ok (fst (setting_complete b s))"
proof (cases "setting_pending s")
  case (Some p)
  assume inv: "setting_inv ok s"
  with Some have "ok p" "p \<noteq> setting_saved s"
    by (auto simp: setting_inv_def setting_pending_def split: setting_persistence.splits)
  moreover have "ok (setting_requested s)" "ok (setting_saved s)" using inv by (auto simp: setting_inv_def)
  ultimately show ?thesis
    by (auto simp: setting_complete_eq [OF Some] setting_request_def Let_def)
      (auto simp: setting_inv_def setting_settled_def)
qed (simp add: setting_complete_def)

lemma setting_replacement_failed_inv:
  "setting_inv ok s \<Longrightarrow> setting_inv ok (fst (setting_replacement_failed s))"
  using setting_complete_inv [of ok s False]
  by (auto simp: setting_replacement_failed_def) (simp add: setting_inv_def)

lemmas setting_op_inv = setting_request_inv setting_complete_inv setting_replacement_failed_inv

subsection \<open>Settings stay valid\<close>

definition settings_inv :: "settings \<Rightarrow> bool" where
  "settings_inv s \<longleftrightarrow>
     setting_inv history_limit_ok (settings_history_limit s) \<and>
     setting_inv (\<lambda>_. True) (settings_api_cookie s) \<and>
     setting_inv (\<lambda>_. True) (settings_ntfy_topic s) \<and>
     setting_inv points_reserve_ok (settings_points_reserve s) \<and>
     setting_inv torrent_limits_ok (settings_torrent_limits s)"

definition settings_state_inv :: "settings_state \<Rightarrow> bool" where
  "settings_state_inv st = is_none_or settings_inv (settings_loaded st)"

text \<open>Events carry validated values: the shell makes them with \<open>try_new\<close>.\<close>

fun settings_event_ok :: "settings_event \<Rightarrow> bool" where
  "settings_event_ok (SettingsEvent_Read h c t r l) =
     (is_none_or history_limit_ok h \<and> is_none_or points_reserve_ok r \<and>
      is_none_or torrent_limits_ok l)"
| "settings_event_ok (SettingsEvent_SetHistoryLimit l) = history_limit_ok l"
| "settings_event_ok (SettingsEvent_SetPointsReserve r) = points_reserve_ok r"
| "settings_event_ok (SettingsEvent_SetTorrentLimits l) = torrent_limits_ok l"
| "settings_event_ok _ = True"

lemma settings_change_inv:
  "settings_state_inv st \<Longrightarrow> (\<And>s. settings_inv s \<Longrightarrow> settings_inv (fst (f s))) \<Longrightarrow>
     settings_state_inv (fst (settings_change st f))"
  by (cases st) (auto simp: settings_state_inv_def split_beta)

lemma on_setting_inv:
  "settings_inv s \<Longrightarrow> (\<And>v. setting_inv history_limit_ok v \<Longrightarrow> setting_inv history_limit_ok (fst (fh v))) \<Longrightarrow>
     settings_inv (fst (on_history_limit fh s))"
  "settings_inv s \<Longrightarrow> (\<And>v. setting_inv (\<lambda>_. True) v \<Longrightarrow> setting_inv (\<lambda>_. True) (fst (fc v))) \<Longrightarrow>
     settings_inv (fst (on_api_cookie fc s))"
  "settings_inv s \<Longrightarrow> (\<And>v. setting_inv (\<lambda>_. True) v \<Longrightarrow> setting_inv (\<lambda>_. True) (fst (ft v))) \<Longrightarrow>
     settings_inv (fst (on_ntfy_topic ft s))"
  "settings_inv s \<Longrightarrow> (\<And>v. setting_inv points_reserve_ok v \<Longrightarrow> setting_inv points_reserve_ok (fst (fr v))) \<Longrightarrow>
     settings_inv (fst (on_points_reserve fr s))"
  "settings_inv s \<Longrightarrow> (\<And>v. setting_inv torrent_limits_ok v \<Longrightarrow> setting_inv torrent_limits_ok (fst (fl v))) \<Longrightarrow>
     settings_inv (fst (on_torrent_limits fl s))"
  by (simp_all add: settings_inv_def on_history_limit_def on_api_cookie_def on_ntfy_topic_def
      on_points_reserve_def on_torrent_limits_def split_beta)

lemma settings_read_inv:
  "settings_event_ok (SettingsEvent_Read h c t r l) \<Longrightarrow> settings_state_inv st \<Longrightarrow>
     settings_state_inv (fst (settings_handle st (SettingsEvent_Read h c t r l)))"
  by (cases st; cases h; cases r; cases l)
    (auto simp: settings_state_inv_def settings_inv_def Let_def defaults_ok
      intro!: setting_loaded_inv)

lemma settings_handle_inv:
  assumes "settings_state_inv st" and "settings_event_ok e"
  shows "settings_state_inv (fst (settings_handle st e))"
proof (cases e)
  case (SettingsEvent_Read h c t r l)
  with assms settings_read_inv show ?thesis by blast
next
  case SettingsEvent_ReadFailed
  with assms show ?thesis by (cases st) (auto simp: settings_state_inv_def)
qed (use assms in \<open>auto intro!: settings_change_inv on_setting_inv setting_op_inv\<close>)

lemma settings_rotate_inv:
  "settings_state_inv st \<Longrightarrow> settings_state_inv (fst (settings_rotate st cookie))"
  unfolding settings_rotate_def
  by (erule settings_change_inv)
    (auto simp: settings_inv_def split_beta Let_def intro: setting_request_inv)

text \<open>Settings events and cookie rotations as one machine.\<close>

fun settings_step :: "settings_state \<Rightarrow> settings_event + api_cookie \<Rightarrow> settings_state \<times> action list" where
  "settings_step st (Inl e) = settings_handle st e"
| "settings_step st (Inr cookie) = settings_rotate st cookie"

fun settings_input_ok :: "settings_event + api_cookie \<Rightarrow> bool" where
  "settings_input_ok (Inl e) = settings_event_ok e"
| "settings_input_ok (Inr cookie) = True"

interpretation settings_machine: invariant_machine settings_step SettingsState_Reading
  settings_input_ok settings_state_inv
proof (unfold_locales, goal_cases)
  case 1
  show ?case by (simp add: settings_state_inv_def)
next
  case (2 s i)
  then show ?case by (cases i) (simp_all add: settings_handle_inv settings_rotate_inv)
qed

lemma usable_api_cookie_Some:
  "usable_api_cookie s = Some c \<longleftrightarrow>
     setting_persistence (settings_api_cookie s) = SettingPersistence_Idle \<and>
     setting_saved (settings_api_cookie s) = Some c"
  by (auto simp: usable_api_cookie_def split: setting_persistence.splits option.splits)

subsection \<open>Properties\<close>



text \<open>
  C20. A cookie is used only when it is the saved one and the one last asked for: a replacement
  that is being saved, or that failed to save, blocks the old cookie.
\<close>

theorem usable_cookie_is_latest:
  assumes "list_all settings_input_ok es"
    and "settings_loaded (fst (run settings_step SettingsState_Reading es)) = Some s"
    and "usable_api_cookie s = Some c"
  shows "setting_saved (settings_api_cookie s) = Some c \<and>
    setting_requested (settings_api_cookie s) = Some c \<and>
    setting_current_status (settings_api_cookie s) = SettingStatus_Saved"
  using settings_machine.inv_run [OF assms(1)] assms(2,3)
  by (simp add: settings_state_inv_def settings_inv_def setting_inv_def usable_api_cookie_Some
      setting_current_status_def)

theorem usable_cookie_is_latest_witness:
  "\<exists>s. settings_loaded (fst (run settings_step SettingsState_Reading
     [Inl (SettingsEvent_Read None (Some ''a'') None None None), Inr ''b'',
      Inl SettingsEvent_RotatedApiCookieWritten])) = Some s \<and>
     usable_api_cookie s = Some ''b'' \<and> setting_requested (settings_api_cookie s) = Some ''b''"
proof -
  let ?es = "[Inl (SettingsEvent_Read None (Some ''a'') None None None), Inr ''b'',
      Inl SettingsEvent_RotatedApiCookieWritten]"
  have ok: "list_all settings_input_ok ?es" by simp
  obtain s where s: "settings_loaded (fst (run settings_step SettingsState_Reading ?es)) = Some s"
    and "usable_api_cookie s = Some ''b''"
    by (simp add: settings_rotate_def on_api_cookie_def setting_request_def setting_complete_def
        setting_loaded_def setting_pending_def usable_api_cookie_def Let_def)
  with usable_cookie_is_latest [OF ok s] show ?thesis by auto
qed

text \<open>
  The latest request wins and writes never overlap: a write is issued only when none is in
  flight, and with one in flight two successful completions leave the setting saved as last
  requested.
\<close>

theorem setting_latest_request_wins:
  fixes s :: "'a setting" and v :: 'a
  assumes "setting_pending s = Some p"
  defines "t \<equiv> fst (setting_complete True (fst (setting_complete True (fst (setting_request v s)))))"
  shows "snd (setting_request v s) = None \<and> setting_saved t = v \<and> setting_pending t = None"
proof -
  have "setting_request v s = (fst (setting_request v s), snd (setting_request v s))" by simp
  note busy = setting.request_busy [OF assms(1) this]
  with setting.converges [of "fst (setting_request v s)" p] show ?thesis by (simp add: t_def)
qed

theorem setting_latest_request_wins_witness:
  "setting_saved (fst (setting_complete True (fst (setting_complete True (fst (setting_request (3::nat)
     \<lparr>setting_saved = 1, setting_requested = 2, setting_persistence = SettingPersistence_Pending 2\<rparr>)))))) = 3"
  using setting_latest_request_wins [of "\<lparr>setting_saved = 1, setting_requested = 2,
      setting_persistence = SettingPersistence_Pending (2::nat)\<rparr>" 2 3]
  by (simp add: setting_pending_def)

text \<open>
  Failing to save a cookie MAM issued loses nothing: with the owner's cookie saved and no
  change in progress, rotating it and then failing to write the replacement gives back exactly
  the settings there were.
\<close>

theorem failed_rotation_restores:
  assumes "setting_persistence (settings_api_cookie s) = SettingPersistence_Idle"
    and "setting_requested (settings_api_cookie s) = setting_saved (settings_api_cookie s)"
    and "setting_saved (settings_api_cookie s) \<noteq> Some cookie"
  shows "fst (settings_handle (fst (settings_rotate (SettingsState_Loaded s) cookie))
      SettingsEvent_RotatedApiCookieWriteFailed) = SettingsState_Loaded s \<and>
    snd (settings_rotate (SettingsState_Loaded s) cookie) = [Action_WriteRotatedApiCookie cookie]"
  using assms
  by (simp add: settings_rotate_def setting_request_def setting_pending_def on_api_cookie_def
      setting_replacement_failed_def Let_def)

theorem failed_rotation_restores_witness:
  "fst (settings_handle (fst (settings_rotate (SettingsState_Loaded
      \<lparr>settings_history_limit = setting_loaded 100 100, settings_api_cookie = setting_loaded (Some ''a'') (Some ''a''),
       settings_ntfy_topic = setting_loaded None None, settings_points_reserve = setting_loaded 0 0,
       settings_torrent_limits = setting_loaded torrent_limits_default torrent_limits_default\<rparr>) ''b''))
      SettingsEvent_RotatedApiCookieWriteFailed) =
    SettingsState_Loaded
      \<lparr>settings_history_limit = setting_loaded 100 100, settings_api_cookie = setting_loaded (Some ''a'') (Some ''a''),
       settings_ntfy_topic = setting_loaded None None, settings_points_reserve = setting_loaded 0 0,
       settings_torrent_limits = setting_loaded torrent_limits_default torrent_limits_default\<rparr>"
  by (rule failed_rotation_restores [THEN conjunct1]) (simp_all add: setting_loaded_def)

end
