(* ===== verification/History.thy ===== *)
theory History
  imports Actions
begin

text \<open>
  Stored history (\<open>core/history.rs\<close>): counting the entries kept, one per handled event, and
  asking for the oldest to be removed when the limit is exceeded.
\<close>

type_synonym step = u64

definition step_zero :: step where
  "step_zero = 0"

definition step_next :: "step \<Rightarrow> step" where
  "step_next s = s + 1"

definition step_strictly_after :: "step \<Rightarrow> step \<Rightarrow> u64" where
  "step_strictly_after s earlier = sat_sub (sat_sub s earlier) 1"

datatype history_event =
    HistoryEvent_Opened entry_count
  | HistoryEvent_OpenFailed
  | HistoryEvent_Trimmed entry_count
  | HistoryEvent_TrimFailed
  | HistoryEvent_EntriesLost entry_count system_time system_time

datatype trim = Trim_Idle | Trim_Pending step | Trim_Failed

datatype history_state =
    HistoryState_Closed
  | HistoryState_Opening step
  | HistoryState_Open entry_count trim
  | HistoryState_Unavailable

definition history_open :: "history_state \<Rightarrow> step \<Rightarrow> history_state \<times> action list" where
  "history_open h step = (HistoryState_Opening step, [Action_OpenHistory])"

fun history_handle :: "history_state \<Rightarrow> step \<Rightarrow> history_event \<Rightarrow> history_state" where
  "history_handle (HistoryState_Opening requested) step (HistoryEvent_Opened retained) =
     HistoryState_Open (entry_count_plus retained (step_strictly_after step requested)) Trim_Idle"
| "history_handle (HistoryState_Open _ (Trim_Pending requested)) step (HistoryEvent_Trimmed retained) =
     HistoryState_Open (entry_count_plus retained (step_strictly_after step requested)) Trim_Idle"
| "history_handle (HistoryState_Opening _) step HistoryEvent_OpenFailed = HistoryState_Unavailable"
| "history_handle (HistoryState_Open retained (Trim_Pending _)) step HistoryEvent_TrimFailed =
     HistoryState_Open retained Trim_Failed"
| "history_handle (HistoryState_Open retained trim) step (HistoryEvent_EntriesLost count _ _) =
     HistoryState_Open (entry_count_minus retained count) trim"
| "history_handle h step e = h"

fun history_after_step ::
    "history_state \<Rightarrow> step \<Rightarrow> history_limit option \<Rightarrow> history_state \<times> action list" where
  "history_after_step (HistoryState_Open retained trim) step limit =
     (let retained = entry_count_plus retained 1 in
      case limit of
        Some limit \<Rightarrow>
          if trim = Trim_Idle \<and> is_exceeded_by limit retained
          then (HistoryState_Open retained (Trim_Pending step), [Action_TrimHistory (trim_target limit)])
          else (HistoryState_Open retained trim, [])
      | None \<Rightarrow> (HistoryState_Open retained trim, []))"
| "history_after_step h step limit = (h, [])"

subsection \<open>One core step\<close>

text \<open>
  What \<open>Core::handle\<close> does to history in one step: an event, if it is a history event, then the
  count of this step's own entry.
\<close>

definition history_step ::
    "history_state \<Rightarrow> step \<times> history_event option \<times> history_limit option \<Rightarrow>
     history_state \<times> action list" where
  "history_step h = (\<lambda>(step, e, limit).
     history_after_step (case e of None \<Rightarrow> h | Some e \<Rightarrow> history_handle h step e) step limit)"

fun history_trimming :: "history_state \<Rightarrow> bool" where
  "history_trimming (HistoryState_Open _ (Trim_Pending _)) = True"
| "history_trimming _ = False"

fun is_trim :: "action \<Rightarrow> bool" where
  "is_trim (Action_TrimHistory _) = True"
| "is_trim _ = False"

fun trim_result :: "step \<times> history_event option \<times> history_limit option \<Rightarrow> bool" where
  "trim_result (_, Some (HistoryEvent_Trimmed _), _) = True"
| "trim_result (_, Some HistoryEvent_TrimFailed, _) = True"
| "trim_result _ = False"

lemma history_after_step_flight:
  "sent is_trim (snd (history_after_step h step limit)) + of_bool (history_trimming h)
     \<le> of_bool (history_trimming (fst (history_after_step h step limit)))"
proof (cases h)
  case (HistoryState_Open retained trim)
  then show ?thesis by (cases trim; cases limit) (auto simp: Let_def)
qed auto

lemma history_handle_trimming:
  "history_trimming h \<Longrightarrow> \<not> history_trimming (history_handle h step e) \<Longrightarrow>
     trim_result (step, Some e, limit)"
  by (induction h step e rule: history_handle.induct) (auto elim: history_trimming.elims)

lemma history_handle_trimming_mono:
  "history_trimming (history_handle h step e) \<Longrightarrow> history_trimming h"
  by (induction h step e rule: history_handle.induct) (auto elim: history_trimming.elims)

interpretation history: single_flight history_step HistoryState_Closed "\<lambda>_. True" "\<lambda>_. True"
  history_trimming is_trim trim_result
proof (unfold_locales, goal_cases)
  case (3 h i)
  obtain step e limit where i: "i = (step, e, limit)" by (cases i) auto
  let ?g = "case e of None \<Rightarrow> h | Some e \<Rightarrow> history_handle h step e"
  have "of_bool (history_trimming h) \<le> of_bool (history_trimming ?g) + (of_bool (trim_result i) :: nat)"
    using history_handle_trimming [of h step] i by (cases e) auto
  with history_after_step_flight [of ?g step limit] show ?case
    by (simp add: i history_step_def)
qed auto

lemma unat_strictly_after: "unat (step_strictly_after s e) = unat s - unat e - 1"
  by (simp add: step_strictly_after_def unat_sat)

subsection \<open>Properties\<close>

text \<open>
  The count is exact: when history opens, or a trim finishes, with the number of entries as
  of the requesting step, then after handling the answer in a later step the core's count is
  that number plus one entry for each step since, this one included.
\<close>

theorem history_count_exact:
  assumes "requested < step" and "unat reported + (unat step - unat requested) < 2 ^ 64"
    and "h = HistoryState_Opening requested \<and> e = HistoryEvent_Opened reported \<or>
         h = HistoryState_Open n (Trim_Pending requested) \<and> e = HistoryEvent_Trimmed reported"
  shows "\<exists>retained trim. fst (history_step h (step, Some e, limit)) = HistoryState_Open retained trim \<and>
    unat retained = unat reported + (unat step - unat requested)"
proof -
  let ?r = "entry_count_plus (entry_count_plus reported (step_strictly_after step requested)) 1"
  from assms(1) have "unat requested < unat step" by (simp add: word_less_nat_alt)
  with assms(2) have "unat ?r = unat reported + (unat step - unat requested)"
    by (simp add: entry_count_plus_def unat_sat unat_strictly_after)
  moreover have "\<exists>trim. fst (history_step h (step, Some e, limit)) = HistoryState_Open ?r trim"
    using assms(3) by (auto simp: history_step_def Let_def split: option.split)
  ultimately show ?thesis by auto
qed

theorem history_count_exact_witness:
  "\<exists>retained trim. fst (history_step (HistoryState_Opening 3)
      (7, Some (HistoryEvent_Opened 20), Some 100)) = HistoryState_Open retained trim \<and>
    unat retained = 24"
  using history_count_exact [of 3 7 20 "HistoryState_Opening 3" "HistoryEvent_Opened 20" 0 "Some 100"]
  by simp

text \<open>
  One trim at a time: over any sequence of steps, the core asks for at most one more trim
  than it has had trim results, whatever the limits and events.
\<close>

theorem trims_do_not_overlap:
  "sent is_trim (concat (snd (run history_step HistoryState_Closed inputs)))
     \<le> 1 + length (filter trim_result inputs)"
  by (rule history.sent_at_most) (simp add: list_all_iff)

text \<open>
  A trim is asked for only past the limit, and it asks to keep nine tenths of it, so that a
  completed trim leaves room below the limit.
\<close>

theorem trim_only_past_limit:
  assumes "Action_TrimHistory keep \<in> set (snd (history_after_step h step limit))"
    and "is_none_or history_limit_ok limit"
  shows "\<exists>retained l. limit = Some l \<and> unat l < unat retained \<and> unat keep = unat l * 9 div 10 \<and>
    unat keep < unat l \<and>
    fst (history_after_step h step limit) = HistoryState_Open retained (Trim_Pending step)"
proof (cases h)
  case (HistoryState_Open retained trim)
  with assms show ?thesis
    by (auto simp: Let_def is_exceeded_by_def unat_trim_target
        intro: trim_target_below_limit [unfolded unat_trim_target] split: option.splits if_splits)
qed (use assms in auto)

theorem trim_only_past_limit_witness:
  "\<exists>retained. (100::nat) < unat retained \<and>
    fst (history_after_step (HistoryState_Open 100 Trim_Idle) 5 (Some 100)) =
      HistoryState_Open retained (Trim_Pending 5)"
proof -
  have h: "Action_TrimHistory 90 \<in> set (snd (history_after_step (HistoryState_Open 100 Trim_Idle) 5 (Some 100)))"
    by (simp add: entry_count_plus_def sat_add_def is_exceeded_by_def trim_target_def)
  have ok: "is_none_or history_limit_ok (Some 100)" by (simp add: history_limit_ok_def)
  from trim_only_past_limit [OF h ok] obtain retained where "(100::nat) < unat retained"
    "fst (history_after_step (HistoryState_Open 100 Trim_Idle) 5 (Some 100)) =
      HistoryState_Open retained (Trim_Pending 5)" by auto
  then show ?thesis by blast
qed

end
