(* ===== verification/Port_Forwarding.thy ===== *)
theory Port_Forwarding
  imports Actions
begin

text \<open>
  Proton VPN port forwarding (\<open>core/port_forwarding.rs\<close>): a NAT-PMP lease is requested, renewed
  with a quarter of its lifetime to spare, retried when refused, and forgotten once it expires.
  \<open>handle\<close> multiplies a lifetime the gateway named, and \<open>Duration\<close>'s multiplication panics on
  overflow: that branch is \<open>None\<close>.
\<close>

definition LEASE_LIFETIME :: duration where
  "LEASE_LIFETIME = mins 1"

definition PORT_RETRY_AFTER :: duration where
  "PORT_RETRY_AFTER = secs 5"

datatype nat_pmp_refusal =
    NatPmpRefusal_UnsupportedVersion
  | NatPmpRefusal_NotAuthorized
  | NatPmpRefusal_NetworkFailure
  | NatPmpRefusal_OutOfResources
  | NatPmpRefusal_UnsupportedOpcode

datatype mapping_failure =
    MappingFailure_NoResponse
  | MappingFailure_Refused nat_pmp_refusal
  | MappingFailure_Malformed

datatype port_forwarding_event =
    PortForwardingEvent_Enable
  | PortForwardingEvent_Mapped port port duration
  | PortForwardingEvent_MappingFailed mapping_failure

record lease =
  lease_tcp :: port
  lease_udp :: port
  lease_renewed_at :: system_time
  lease_expires :: instant

datatype lease_request =
    LeaseRequest_Outstanding
  | LeaseRequest_Waiting timer_id

datatype port_forwarding =
    PortForwarding_Disabled
  | PortForwarding_Enabled "lease option" lease_request failure_count "mapping_failure option"

fun forwarded_port :: "port_forwarding \<Rightarrow> port option" where
  "forwarded_port (PortForwarding_Enabled (Some lease) _ _ _) = Some (lease_tcp lease)"
| "forwarded_port (PortForwarding_Enabled None _ _ _) = None"
| "forwarded_port PortForwarding_Disabled = None"

text \<open>The failure branch, shared by a refusal and by a grant without a lifetime.\<close>

definition port_forwarding_failed ::
    "lease option \<Rightarrow> failure_count \<Rightarrow> mapping_failure \<Rightarrow> clock_reading \<Rightarrow> timers \<Rightarrow>
     port_forwarding \<times> timers \<times> action list" where
  "port_forwarding_failed lease failures reason now timers =
     (let (timers, i, deadline) = timers_schedule timers (monotonic now) PORT_RETRY_AFTER
      in (PortForwarding_Enabled lease (LeaseRequest_Waiting i) (failure_after_another failures)
            (Some reason),
          timers, [Action_StartTimer TimerName_PortLease i deadline]))"

fun port_forwarding_handle ::
    "port_forwarding \<Rightarrow> clock_reading \<Rightarrow> port_forwarding_event \<Rightarrow> timers \<Rightarrow>
     (port_forwarding \<times> timers \<times> action list) option" where
  "port_forwarding_handle PortForwarding_Disabled now PortForwardingEvent_Enable timers =
     Some (PortForwarding_Enabled None LeaseRequest_Outstanding failure_none None, timers,
           [Action_RequestPortMapping LEASE_LIFETIME])"
| "port_forwarding_handle (PortForwarding_Enabled lease LeaseRequest_Outstanding failures last_failure)
     now (PortForwardingEvent_Mapped tcp udp lifetime) timers =
     (if lifetime \<noteq> 0 then
        (case duration_mul lifetime 3 of
           None \<Rightarrow> None
         | Some tripled \<Rightarrow>
             (let lease = \<lparr>lease_tcp = tcp, lease_udp = udp, lease_renewed_at = wall now,
                           lease_expires = unwrap_or (monotonic now) (checked_add (monotonic now) lifetime)\<rparr>;
                  (timers, i, deadline) = timers_schedule timers (monotonic now) (tripled div 4)
              in Some (PortForwarding_Enabled (Some lease) (LeaseRequest_Waiting i) failure_none None,
                       timers, [Action_StartTimer TimerName_PortLease i deadline])))
      else Some (port_forwarding_failed lease failures MappingFailure_Malformed now timers))"
| "port_forwarding_handle (PortForwarding_Enabled lease LeaseRequest_Outstanding failures last_failure)
     now (PortForwardingEvent_MappingFailed reason) timers =
     Some (port_forwarding_failed lease failures reason now timers)"
| "port_forwarding_handle pf now e timers = Some (pf, timers, [])"

fun port_forwarding_timer_expired ::
    "port_forwarding \<Rightarrow> timer_id \<Rightarrow> port_forwarding \<times> action list" where
  "port_forwarding_timer_expired (PortForwarding_Enabled lease request failures last_failure) i =
     (if request = LeaseRequest_Waiting i
      then (PortForwarding_Enabled lease LeaseRequest_Outstanding failures last_failure,
            [Action_RequestPortMapping LEASE_LIFETIME])
      else (PortForwarding_Enabled lease request failures last_failure, []))"
| "port_forwarding_timer_expired PortForwarding_Disabled i = (PortForwarding_Disabled, [])"

fun port_forwarding_renew :: "port_forwarding \<Rightarrow> port_forwarding \<times> action list" where
  "port_forwarding_renew (PortForwarding_Enabled lease (LeaseRequest_Waiting _) failures last_failure) =
     (PortForwarding_Enabled None LeaseRequest_Outstanding failures last_failure,
      [Action_RequestPortMapping LEASE_LIFETIME])"
| "port_forwarding_renew (PortForwarding_Enabled lease LeaseRequest_Outstanding failures last_failure) =
     (PortForwarding_Enabled None LeaseRequest_Outstanding failures last_failure, [])"
| "port_forwarding_renew PortForwarding_Disabled = (PortForwarding_Disabled, [])"

fun port_forwarding_expire :: "port_forwarding \<Rightarrow> instant \<Rightarrow> port_forwarding" where
  "port_forwarding_expire (PortForwarding_Enabled lease request failures last_failure) now =
     (if is_some_and (\<lambda>l. lease_expires l \<le> now) lease
      then PortForwarding_Enabled None request failures last_failure
      else PortForwarding_Enabled lease request failures last_failure)"
| "port_forwarding_expire PortForwarding_Disabled now = PortForwarding_Disabled"

subsection \<open>The component as a machine\<close>

text \<open>
  Its inputs are the gateway's answers, its timer, the requests to renew, and the passing of
  time, each with the clock's reading. The lifetimes the gateway names are at most \<open>2 ^ 32\<close>
  seconds (NAT-PMP's field has 32 bits), so that the multiplication does not overflow.
\<close>

datatype port_forwarding_input =
    PortInput_Event port_forwarding_event
  | PortInput_Timer timer_id
  | PortInput_Renew
  | PortInput_Expire

fun port_forwarding_event_ok :: "port_forwarding_event \<Rightarrow> bool" where
  "port_forwarding_event_ok (PortForwardingEvent_Mapped tcp udp lifetime) =
     (lifetime * 3 \<le> duration_max)"
| "port_forwarding_event_ok _ = True"

fun port_forwarding_input_ok :: "clock_reading \<times> port_forwarding_input \<Rightarrow> bool" where
  "port_forwarding_input_ok (now, PortInput_Event e) = port_forwarding_event_ok e"
| "port_forwarding_input_ok (now, _) = True"

fun port_forwarding_step ::
    "port_forwarding \<times> timers \<Rightarrow> clock_reading \<times> port_forwarding_input \<Rightarrow>
     (port_forwarding \<times> timers) \<times> action list" where
  "port_forwarding_step (pf, timers) (now, PortInput_Event e) =
     (case port_forwarding_handle pf now e timers of
        None \<Rightarrow> ((pf, timers), [])
      | Some (pf, timers, actions) \<Rightarrow> ((pf, timers), actions))"
| "port_forwarding_step (pf, timers) (now, PortInput_Timer i) =
     (let (pf, actions) = port_forwarding_timer_expired pf i in ((pf, timers), actions))"
| "port_forwarding_step (pf, timers) (now, PortInput_Renew) =
     (let (pf, actions) = port_forwarding_renew pf in ((pf, timers), actions))"
| "port_forwarding_step (pf, timers) (now, PortInput_Expire) =
     ((port_forwarding_expire pf (monotonic now), timers), [])"

fun port_request_outstanding :: "port_forwarding \<times> timers \<Rightarrow> bool" where
  "port_request_outstanding (PortForwarding_Enabled _ LeaseRequest_Outstanding _ _, _) = True"
| "port_request_outstanding _ = False"

fun is_port_request :: "action \<Rightarrow> bool" where
  "is_port_request (Action_RequestPortMapping _) = True"
| "is_port_request _ = False"

fun is_port_answer :: "clock_reading \<times> port_forwarding_input \<Rightarrow> bool" where
  "is_port_answer (_, PortInput_Event (PortForwardingEvent_Mapped _ _ _)) = True"
| "is_port_answer (_, PortInput_Event (PortForwardingEvent_MappingFailed _)) = True"
| "is_port_answer _ = False"

lemma port_forwarding_failed_eq:
  "port_forwarding_failed lease failures reason now timers =
     (PortForwarding_Enabled lease (LeaseRequest_Waiting (timers_next timers))
        (failure_after_another failures) (Some reason),
      fst (timers_schedule timers (monotonic now) PORT_RETRY_AFTER),
      [Action_StartTimer TimerName_PortLease (timers_next timers)
         \<lparr>deadline_at = unwrap_or (monotonic now) (checked_add (monotonic now) PORT_RETRY_AFTER),
          deadline_after = PORT_RETRY_AFTER\<rparr>])"
  by (simp add: port_forwarding_failed_def timers_schedule_def Let_def)

lemma port_forwarding_no_panic:
  "port_forwarding_event_ok e \<Longrightarrow> port_forwarding_handle pf now e timers \<noteq> None"
  by (induction pf now e timers rule: port_forwarding_handle.induct)
    (auto simp: duration_mul_def port_forwarding_failed_eq Let_def split_beta)

lemma port_request_outstanding_iff [simp]:
  "port_request_outstanding (PortForwarding_Enabled lease request failures last_failure, timers)
     \<longleftrightarrow> request = LeaseRequest_Outstanding"
  by (cases request) auto

lemma port_forwarding_flight:
  "sent is_port_request (snd (port_forwarding_step s i)) + of_bool (port_request_outstanding s)
     \<le> of_bool (port_request_outstanding (fst (port_forwarding_step s i))) + of_bool (is_port_answer i)"
proof (induction s i rule: port_forwarding_step.induct)
  case (1 pf timers now e)
  show ?case
    by (induction pf now e timers rule: port_forwarding_handle.induct)
      (auto simp: port_forwarding_failed_eq Let_def split_beta split: option.split)
next
  case (2 pf timers now i)
  show ?case
    by (induction pf i rule: port_forwarding_timer_expired.induct) (auto simp: Let_def)
next
  case (3 pf timers now)
  show ?case by (induction pf rule: port_forwarding_renew.induct) auto
next
  case (4 pf timers now)
  show ?case by (cases pf) auto
qed

interpretation port_forwarding: single_flight port_forwarding_step
  "(PortForwarding_Disabled, timers_new)" "\<lambda>_. True" "\<lambda>_. True"
  port_request_outstanding is_port_request is_port_answer
  by unfold_locales (auto simp: port_forwarding_flight)

subsection \<open>Properties\<close>

text \<open>
  One mapping request at a time: over any sequence of gateway answers, timers, renewals and
  expiries, requests outnumber answers by at most one.
\<close>

theorem port_requests_do_not_overlap:
  "sent is_port_request (concat (snd (run port_forwarding_step (PortForwarding_Disabled, timers_new) inputs)))
     \<le> 1 + length (filter is_port_answer inputs)"
  by (rule port_forwarding.sent_at_most) (simp add: list_all_iff)

text \<open>
  C33. A granted lease is renewed before it ends: for a positive lifetime the handler stores the
  lease, resets the failure count, and starts the renewal timer at three quarters of the
  lifetime, strictly before the lease expires.
\<close>

theorem lease_renewed_before_expiry:
  assumes "0 < lifetime" and "lifetime * 3 \<le> duration_max" and "monotonic now + int lifetime \<le> time_max"
  shows "\<exists>deadline lease timers'.
    port_forwarding_handle (PortForwarding_Enabled old LeaseRequest_Outstanding failures last_failure)
      now (PortForwardingEvent_Mapped tcp udp lifetime) timers =
      Some (PortForwarding_Enabled (Some lease) (LeaseRequest_Waiting (timers_next timers)) failure_none None,
            timers', [Action_StartTimer TimerName_PortLease (timers_next timers) deadline]) \<and>
    lease_tcp lease = tcp \<and> lease_expires lease = monotonic now + int lifetime \<and>
    deadline_after deadline = lifetime * 3 div 4 \<and> deadline_at deadline < lease_expires lease"
proof -
  have "monotonic now + int (lifetime * 3 div 4) \<le> time_max" using assms(3) by linarith
  moreover have "int (lifetime * 3 div 4) < int lifetime" using assms(1) by linarith
  ultimately show ?thesis
    using assms by (simp add: duration_mul_def timers_schedule_def checked_add_def Let_def)
qed

theorem lease_renewed_before_expiry_witness:
  "\<exists>deadline lease timers'.
    port_forwarding_handle (PortForwarding_Enabled None LeaseRequest_Outstanding 2 None)
      \<lparr>monotonic = 5, wall = 7\<rparr> (PortForwardingEvent_Mapped 9 9 60000000000) timers_new =
      Some (PortForwarding_Enabled (Some lease) (LeaseRequest_Waiting 0) failure_none None,
            timers', [Action_StartTimer TimerName_PortLease 0 deadline]) \<and>
    deadline_at deadline < lease_expires lease"
  using lease_renewed_before_expiry [of 60000000000 "\<lparr>monotonic = 5, wall = 7\<rparr>" None 2 None 9 9 timers_new]
  by (auto simp: time_defs timers_new_def)

text \<open>
  No port outlives its lease: after expiry runs, as it does in every core step, a forwarded
  port is the TCP port of a lease that has not expired yet.
\<close>

theorem forwarded_port_is_leased:
  assumes "forwarded_port (port_forwarding_expire pf now) = Some p"
  shows "\<exists>lease request failures last_failure.
    pf = PortForwarding_Enabled (Some lease) request failures last_failure \<and>
    lease_tcp lease = p \<and> now < lease_expires lease"
proof (cases pf)
  case (PortForwarding_Enabled lease request failures last_failure)
  with assms show ?thesis by (cases lease) (auto split: if_splits)
qed (use assms in simp)

theorem forwarded_port_is_leased_witness:
  "\<exists>lease request failures last_failure.
    PortForwarding_Enabled (Some \<lparr>lease_tcp = 9, lease_udp = 9, lease_renewed_at = 0, lease_expires = 8\<rparr>)
      LeaseRequest_Outstanding 0 None = PortForwarding_Enabled (Some lease) request failures last_failure \<and>
    lease_tcp lease = 9 \<and> 5 < lease_expires lease"
  by (rule forwarded_port_is_leased) simp

end
