(* ===== verification/Tunnel.thy ===== *)
theory Tunnel
  imports Actions
begin

text \<open>
  The VPN tunnel (\<open>core/tunnel.rs\<close>): the exit address is checked through a neutral service, and
  after three failed checks in a row Windlass moves to the next configured server, at most once
  an hour by the last switch it saved. A switch is saved before it starts.
\<close>

definition CHECK_INTERVAL :: duration where
  "CHECK_INTERVAL = mins 15"

definition TUNNEL_RETRY_AFTER :: duration where
  "TUNNEL_RETRY_AFTER = mins 1"

definition FAILURES_BEFORE_SWITCH :: failure_count where
  "FAILURES_BEFORE_SWITCH = 3"

definition SWITCH_SPACING :: duration where
  "SWITCH_SPACING = hours 1"

definition SUSPICION_SPACING :: duration where
  "SUSPICION_SPACING = secs 30"

datatype exit_ip_failure =
    ExitIpFailure_Unreachable
  | ExitIpFailure_Rejected http_status
  | ExitIpFailure_Malformed

datatype tunnel_event =
    TunnelEvent_Enable "vpn_server list" "vpn_server option"
  | TunnelEvent_ExitIpObserved ip_addr
  | TunnelEvent_ExitIpCheckFailed exit_ip_failure
  | TunnelEvent_LastSwitchRead "vpn_switch option"
  | TunnelEvent_LastSwitchReadFailed
  | TunnelEvent_SwitchSaved
  | TunnelEvent_SwitchSaveFailed
  | TunnelEvent_Switched
  | TunnelEvent_SwitchFailed

datatype protection =
    Protection_Unknown
  | Protection_Available ip_addr system_time
  | Protection_Unavailable system_time

datatype check =
    Check_Outstanding
  | Check_Waiting timer_id
  | Check_Switching

datatype last_switch =
    LastSwitch_Unread
  | LastSwitch_Reading
  | LastSwitch_Known "vpn_switch option"
  | LastSwitch_ReadFailed

datatype failover =
    Failover_Saving vpn_switch
  | Failover_Switching vpn_server

datatype switch_allowance =
    SwitchAllowance_Now
  | SwitchAllowance_After system_time
  | SwitchAllowance_Unknown
  | SwitchAllowance_NoAlternative

record watch =
  watch_servers :: "vpn_server list"
  watch_current :: "vpn_server option"
  watch_protection :: protection
  watch_check :: check
  watch_failures :: failure_count
  watch_last_failure :: "exit_ip_failure option"
  watch_failover :: "failover option"
  watch_last_check :: instant

record tunnel =
  tunnel_last_switch :: last_switch
  tunnel_watch :: "watch option"

definition tunnel_new :: tunnel where
  "tunnel_new = \<lparr>tunnel_last_switch = LastSwitch_Unread, tunnel_watch = None\<rparr>"

definition tunnel_start_reading :: "tunnel \<Rightarrow> tunnel \<times> action list" where
  "tunnel_start_reading t =
     (t\<lparr>tunnel_last_switch := LastSwitch_Reading\<rparr>, [Action_ReadLastVpnSwitch])"

definition tunnel_current :: "tunnel \<Rightarrow> vpn_server option" where
  "tunnel_current t = Option.bind (tunnel_watch t) watch_current"

subsection \<open>The watch\<close>

definition watch_check_now :: "watch \<Rightarrow> clock_reading \<Rightarrow> watch \<times> action list" where
  "watch_check_now w now =
     (w\<lparr>watch_check := Check_Outstanding, watch_last_check := monotonic now\<rparr>, [Action_CheckExitIp])"

definition watch_wait ::
    "watch \<Rightarrow> clock_reading \<Rightarrow> timers \<Rightarrow> duration \<Rightarrow> watch \<times> timers \<times> action list" where
  "watch_wait w now timers after =
     (let (timers, i, deadline) = timers_schedule timers (monotonic now) after
      in (w\<lparr>watch_check := Check_Waiting i\<rparr>, timers,
          [Action_StartTimer TimerName_TunnelCheck i deadline]))"

text \<open>\<open>iter.position(p)\<close>, and \<open>iter.cycle().skip(k).take(len)\<close> as a rotation of the list.\<close>

fun position :: "('a \<Rightarrow> bool) \<Rightarrow> 'a list \<Rightarrow> nat option" where
  "position p [] = None"
| "position p (x # xs) = (if p x then Some 0 else map_option Suc (position p xs))"

definition watch_next_server :: "watch \<Rightarrow> vpn_server option" where
  "watch_next_server w =
     (let current = watch_current w;
          start = (case Option.bind current (\<lambda>c. position (\<lambda>s. s = c) (watch_servers w)) of
                     None \<Rightarrow> 0
                   | Some p \<Rightarrow> p + 1)
      in List.find (\<lambda>s. Some s \<noteq> current) (rotate start (watch_servers w)))"

definition watch_fail_over :: "watch \<Rightarrow> clock_reading \<Rightarrow> vpn_server \<Rightarrow> watch \<times> action list" where
  "watch_fail_over w now server =
     (let switch = \<lparr>switch_server = server, switch_at = wall now\<rparr>
      in (w\<lparr>watch_check := Check_Switching, watch_failover := Some (Failover_Saving switch)\<rparr>,
          [Action_SaveVpnSwitch switch]))"

subsection \<open>The tunnel\<close>

definition tunnel_switch_allowance :: "tunnel \<Rightarrow> system_time \<Rightarrow> switch_allowance" where
  "tunnel_switch_allowance t now =
     (if Option.bind (tunnel_watch t) watch_next_server = None
      then SwitchAllowance_NoAlternative
      else (case tunnel_last_switch t of
              LastSwitch_Known None \<Rightarrow> SwitchAllowance_Now
            | LastSwitch_Known (Some prev) \<Rightarrow>
                (let allowed = unwrap_or (switch_at prev) (checked_add (switch_at prev) SWITCH_SPACING)
                 in if allowed \<le> now then SwitchAllowance_Now else SwitchAllowance_After allowed)
            | _ \<Rightarrow> SwitchAllowance_Unknown))"

fun protection_unavailable :: "protection \<Rightarrow> bool" where
  "protection_unavailable (Protection_Unavailable _) = True"
| "protection_unavailable _ = False"

text \<open>The arms of \<open>Tunnel::handle\<close> that change the watch.\<close>

definition watch_exit_ip_observed ::
    "watch \<Rightarrow> clock_reading \<Rightarrow> ip_addr \<Rightarrow> timers \<Rightarrow> watch \<times> timers \<times> action list" where
  "watch_exit_ip_observed w now ip timers =
     watch_wait (w\<lparr>watch_protection := Protection_Available ip (wall now),
                   watch_failures := failure_none, watch_last_failure := None\<rparr>)
       now timers CHECK_INTERVAL"

definition watch_exit_ip_failed ::
    "watch \<Rightarrow> clock_reading \<Rightarrow> switch_allowance \<Rightarrow> exit_ip_failure \<Rightarrow> timers \<Rightarrow>
     watch \<times> timers \<times> action list" where
  "watch_exit_ip_failed w now allowance reason timers =
     (let w = (if protection_unavailable (watch_protection w) then w
               else w\<lparr>watch_protection := Protection_Unavailable (wall now)\<rparr>);
          w = w\<lparr>watch_failures := failure_after_another (watch_failures w),
                watch_last_failure := Some reason\<rparr>
      in (case watch_next_server w of
            Some server \<Rightarrow>
              (if FAILURES_BEFORE_SWITCH \<le> watch_failures w \<and> allowance = SwitchAllowance_Now
               then (let (w, actions) = watch_fail_over w now server in (w, timers, actions))
               else watch_wait w now timers TUNNEL_RETRY_AFTER)
          | None \<Rightarrow> watch_wait w now timers TUNNEL_RETRY_AFTER))"

definition tunnel_with :: "tunnel \<Rightarrow> watch \<times> timers \<times> action list \<Rightarrow> tunnel \<times> timers \<times> action list" where
  "tunnel_with t r = (t\<lparr>tunnel_watch := Some (fst r)\<rparr>, snd r)"

definition tunnel_handle ::
    "tunnel \<Rightarrow> clock_reading \<Rightarrow> tunnel_event \<Rightarrow> timers \<Rightarrow> tunnel \<times> timers \<times> action list" where
  "tunnel_handle t now e timers =
     (let allowance = tunnel_switch_allowance t (wall now) in
      case (tunnel_watch t, e) of
        (None, TunnelEvent_Enable servers current) \<Rightarrow>
          (t\<lparr>tunnel_watch := Some \<lparr>watch_servers = servers, watch_current = current,
               watch_protection = Protection_Unknown, watch_check = Check_Outstanding,
               watch_failures = failure_none, watch_last_failure = None, watch_failover = None,
               watch_last_check = monotonic now\<rparr>\<rparr>, timers, [Action_CheckExitIp])
      | (_, TunnelEvent_LastSwitchRead prev) \<Rightarrow>
          ((if tunnel_last_switch t = LastSwitch_Reading
            then t\<lparr>tunnel_last_switch := LastSwitch_Known prev\<rparr> else t), timers, [])
      | (_, TunnelEvent_LastSwitchReadFailed) \<Rightarrow>
          ((if tunnel_last_switch t = LastSwitch_Reading
            then t\<lparr>tunnel_last_switch := LastSwitch_ReadFailed\<rparr> else t), timers, [])
      | (Some w, TunnelEvent_ExitIpObserved ip) \<Rightarrow>
          (if watch_check w = Check_Outstanding
           then tunnel_with t (watch_exit_ip_observed w now ip timers) else (t, timers, []))
      | (Some w, TunnelEvent_ExitIpCheckFailed reason) \<Rightarrow>
          (if watch_check w = Check_Outstanding
           then tunnel_with t (watch_exit_ip_failed w now allowance reason timers)
           else (t, timers, []))
      | (Some w, TunnelEvent_SwitchSaved) \<Rightarrow>
          (case watch_failover w of
             Some (Failover_Saving switch) \<Rightarrow>
               (t\<lparr>tunnel_last_switch := LastSwitch_Known (Some switch),
                  tunnel_watch := Some (w\<lparr>watch_failover := Some (Failover_Switching (switch_server switch))\<rparr>)\<rparr>,
                timers, [Action_SwitchVpnServer (switch_server switch)])
           | _ \<Rightarrow> (t, timers, []))
      | (Some w, TunnelEvent_Switched) \<Rightarrow>
          (case watch_failover w of
             Some (Failover_Switching server) \<Rightarrow>
               (let (w, actions) = watch_check_now
                      (w\<lparr>watch_current := Some server, watch_protection := Protection_Unknown,
                         watch_failures := failure_none, watch_last_failure := None,
                         watch_failover := None\<rparr>) now
                in (t\<lparr>tunnel_watch := Some w\<rparr>, timers, actions))
           | _ \<Rightarrow> (t, timers, []))
      | (Some w, TunnelEvent_SwitchSaveFailed) \<Rightarrow>
          (if watch_failover w \<noteq> None
           then tunnel_with t (watch_wait (w\<lparr>watch_failover := None\<rparr>) now timers TUNNEL_RETRY_AFTER)
           else (t, timers, []))
      | (Some w, TunnelEvent_SwitchFailed) \<Rightarrow>
          (if watch_failover w \<noteq> None
           then tunnel_with t (watch_wait (w\<lparr>watch_failover := None\<rparr>) now timers TUNNEL_RETRY_AFTER)
           else (t, timers, []))
      | _ \<Rightarrow> (t, timers, []))"

definition tunnel_timer_expired :: "tunnel \<Rightarrow> clock_reading \<Rightarrow> timer_id \<Rightarrow> tunnel \<times> action list" where
  "tunnel_timer_expired t now i =
     (case tunnel_watch t of
        Some w \<Rightarrow>
          (if watch_check w = Check_Waiting i
           then (let (w, actions) = watch_check_now w now in (t\<lparr>tunnel_watch := Some w\<rparr>, actions))
           else (t, []))
      | None \<Rightarrow> (t, []))"

fun check_waiting :: "check \<Rightarrow> bool" where
  "check_waiting (Check_Waiting _) = True"
| "check_waiting _ = False"

definition tunnel_suspect :: "tunnel \<Rightarrow> clock_reading \<Rightarrow> tunnel \<times> action list" where
  "tunnel_suspect t now =
     (case tunnel_watch t of
        Some w \<Rightarrow>
          (if check_waiting (watch_check w) \<and>
              SUSPICION_SPACING \<le> duration_since (monotonic now) (watch_last_check w)
           then (let (w, actions) = watch_check_now w now in (t\<lparr>tunnel_watch := Some w\<rparr>, actions))
           else (t, []))
      | None \<Rightarrow> (t, []))"

subsection \<open>The component as a machine\<close>

text \<open>
  Its inputs are tunnel events, its check timer, and suspicions raised by a failed port mapping;
  it starts where the core leaves it once storage opens, reading the last switch. Readings of
  the calendar clock and saved switches are admissible when an hour can be added to them.
\<close>

datatype tunnel_input =
    TunnelInput_Event tunnel_event
  | TunnelInput_Timer timer_id
  | TunnelInput_Suspect

fun tunnel_step ::
    "tunnel \<times> timers \<Rightarrow> clock_reading \<times> tunnel_input \<Rightarrow> (tunnel \<times> timers) \<times> action list" where
  "tunnel_step (t, timers) (now, TunnelInput_Event e) =
     (let (t, timers, actions) = tunnel_handle t now e timers in ((t, timers), actions))"
| "tunnel_step (t, timers) (now, TunnelInput_Timer i) =
     (let (t, actions) = tunnel_timer_expired t now i in ((t, timers), actions))"
| "tunnel_step (t, timers) (now, TunnelInput_Suspect) =
     (let (t, actions) = tunnel_suspect t now in ((t, timers), actions))"

definition tunnel_start :: "tunnel \<times> timers" where
  "tunnel_start = (fst (tunnel_start_reading tunnel_new), timers_new)"

definition time_spaced :: "system_time \<Rightarrow> bool" where
  "time_spaced t \<longleftrightarrow> t + int SWITCH_SPACING \<le> time_max"

fun tunnel_event_ok :: "tunnel_event \<Rightarrow> bool" where
  "tunnel_event_ok (TunnelEvent_LastSwitchRead prev) = is_none_or (\<lambda>s. time_spaced (switch_at s)) prev"
| "tunnel_event_ok _ = True"

fun tunnel_input_ok :: "clock_reading \<times> tunnel_input \<Rightarrow> bool" where
  "tunnel_input_ok (now, TunnelInput_Event e) \<longleftrightarrow> time_spaced (wall now) \<and> tunnel_event_ok e"
| "tunnel_input_ok (now, _) \<longleftrightarrow> time_spaced (wall now)"

fun last_switch_at :: "tunnel \<times> timers \<Rightarrow> system_time option" where
  "last_switch_at (t, timers) =
     (case tunnel_last_switch t of LastSwitch_Known prev \<Rightarrow> map_option switch_at prev | _ \<Rightarrow> None)"

fun is_switch :: "action \<Rightarrow> bool" where
  "is_switch (Action_SwitchVpnServer _) = True"
| "is_switch _ = False"

fun is_exit_check :: "action \<Rightarrow> bool" where
  "is_exit_check Action_CheckExitIp = True"
| "is_exit_check _ = False"

fun exit_check_outstanding :: "tunnel \<times> timers \<Rightarrow> bool" where
  "exit_check_outstanding (t, timers) = is_some_and (\<lambda>w. watch_check w = Check_Outstanding) (tunnel_watch t)"

fun is_exit_answer :: "clock_reading \<times> tunnel_input \<Rightarrow> bool" where
  "is_exit_answer (_, TunnelInput_Event (TunnelEvent_ExitIpObserved _)) = True"
| "is_exit_answer (_, TunnelInput_Event (TunnelEvent_ExitIpCheckFailed _)) = True"
| "is_exit_answer _ = False"

text \<open>
  The invariant: a failover and a suspended check go together; protection and the failure
  count agree; a switch about to start is an hour past the last one known.
\<close>

definition protection_agrees :: "watch \<Rightarrow> bool" where
  "protection_agrees w =
     (case watch_protection w of
        Protection_Unavailable _ \<Rightarrow> failure_any (watch_failures w) \<and> watch_last_failure w \<noteq> None
      | _ \<Rightarrow> watch_failures w = failure_none \<and> watch_last_failure w = None)"

definition switch_due :: "last_switch \<Rightarrow> vpn_switch \<Rightarrow> bool" where
  "switch_due prev switch \<longleftrightarrow>
     time_spaced (switch_at switch) \<and>
     (\<exists>l. prev = LastSwitch_Known l \<and>
          is_none_or (\<lambda>l. switch_at l + int SWITCH_SPACING \<le> switch_at switch) l)"

fun failover_ok :: "last_switch \<Rightarrow> watch \<Rightarrow> bool" where
  "failover_ok prev w =
     ((watch_failover w \<noteq> None \<longleftrightarrow> watch_check w = Check_Switching) \<and>
      (\<forall>switch. watch_failover w = Some (Failover_Saving switch) \<longrightarrow> switch_due prev switch) \<and>
      (\<forall>server. watch_failover w = Some (Failover_Switching server) \<longrightarrow>
         (\<exists>l. prev = LastSwitch_Known (Some l))))"

definition known_spaced :: "last_switch \<Rightarrow> bool" where
  "known_spaced prev \<longleftrightarrow> (\<forall>l. prev = LastSwitch_Known (Some l) \<longrightarrow> time_spaced (switch_at l))"

fun tunnel_inv :: "tunnel \<times> timers \<Rightarrow> bool" where
  "tunnel_inv (t, timers) \<longleftrightarrow>
     known_spaced (tunnel_last_switch t) \<and>
     is_none_or (\<lambda>w. protection_agrees w \<and> failover_ok (tunnel_last_switch t) w) (tunnel_watch t)"


lemma protection_agrees_frame [simp]:
  "protection_agrees (w\<lparr>watch_check := c\<rparr>) = protection_agrees w"
  "protection_agrees (w\<lparr>watch_last_check := i\<rparr>) = protection_agrees w"
  "protection_agrees (w\<lparr>watch_failover := f\<rparr>) = protection_agrees w"
  unfolding protection_agrees_def by (cases "watch_protection w"; simp)+

lemma watch_wait_eq:
  "watch_wait w now timers d =
     (w\<lparr>watch_check := Check_Waiting (timers_next timers)\<rparr>,
      fst (timers_schedule timers (monotonic now) d),
      [Action_StartTimer TimerName_TunnelCheck (timers_next timers)
         \<lparr>deadline_at = unwrap_or (monotonic now) (checked_add (monotonic now) d), deadline_after = d\<rparr>])"
  by (simp add: watch_wait_def timers_schedule_def Let_def)

lemma watch_check_now_simps [simp]:
  "fst (watch_check_now w now) = w\<lparr>watch_check := Check_Outstanding, watch_last_check := monotonic now\<rparr>"
  "snd (watch_check_now w now) = [Action_CheckExitIp]"
  by (simp_all add: watch_check_now_def)

lemma allowance_now:
  assumes "tunnel_switch_allowance t (wall now) = SwitchAllowance_Now"
    and "known_spaced (tunnel_last_switch t)" and "time_spaced (wall now)"
  shows "switch_due (tunnel_last_switch t) \<lparr>switch_server = server, switch_at = wall now\<rparr>"
  using assms
  by (auto simp: tunnel_switch_allowance_def switch_due_def known_spaced_def time_spaced_def
      checked_add_def Let_def split: last_switch.splits option.splits if_splits)

lemma failure_any_after [simp]: "failure_any (failure_after_another c)"
  by (simp add: failure_any_def failure_after_another_pos)

text \<open>A failed check either starts a failover that is due or waits a minute.\<close>

lemma exit_ip_failed_cases:
  obtains (failover) server w'
    where "watch_next_server w = Some server"
      and "FAILURES_BEFORE_SWITCH \<le> failure_after_another (watch_failures w)"
      and "allowance = SwitchAllowance_Now"
      and "watch_exit_ip_failed w now allowance reason timers =
             (w', timers, [Action_SaveVpnSwitch \<lparr>switch_server = server, switch_at = wall now\<rparr>])"
      and "watch_check w' = Check_Switching"
      and "watch_failover w' = Some (Failover_Saving \<lparr>switch_server = server, switch_at = wall now\<rparr>)"
      and "protection_agrees w'"
  | (wait) w' timers' deadline
    where "watch_exit_ip_failed w now allowance reason timers =
             (w', timers', [Action_StartTimer TimerName_TunnelCheck (timers_next timers) deadline])"
      and "watch_check w' = Check_Waiting (timers_next timers)"
      and "watch_failover w' = watch_failover w"
      and "protection_agrees w'"
proof -
  define w1 where "w1 = (if protection_unavailable (watch_protection w) then w
               else w\<lparr>watch_protection := Protection_Unavailable (wall now)\<rparr>)"
  define w2 where "w2 = w1\<lparr>watch_failures := failure_after_another (watch_failures w1),
                watch_last_failure := Some reason\<rparr>"
  have w2: "watch_next_server w2 = watch_next_server w"
    "watch_failures w2 = failure_after_another (watch_failures w)"
    "watch_failover w2 = watch_failover w"
    by (simp_all add: w2_def w1_def watch_next_server_def)
  have agrees: "protection_agrees (w2\<lparr>watch_check := c\<rparr>)"
    "protection_agrees (w2\<lparr>watch_check := c, watch_failover := f\<rparr>)" for c f
    by (cases "watch_protection w"; simp add: w2_def w1_def protection_agrees_def)+
  have eq: "watch_exit_ip_failed w now allowance reason timers =
      (case watch_next_server w2 of
            Some server \<Rightarrow>
              (if FAILURES_BEFORE_SWITCH \<le> watch_failures w2 \<and> allowance = SwitchAllowance_Now
               then (let (w, actions) = watch_fail_over w2 now server in (w, timers, actions))
               else watch_wait w2 now timers TUNNEL_RETRY_AFTER)
          | None \<Rightarrow> watch_wait w2 now timers TUNNEL_RETRY_AFTER)"
    unfolding watch_exit_ip_failed_def w2_def w1_def Let_def by (rule refl)
  show ?thesis
  proof (cases "\<exists>server. watch_next_server w = Some server \<and>
      FAILURES_BEFORE_SWITCH \<le> watch_failures w2 \<and> allowance = SwitchAllowance_Now")
    case True
    then obtain server where "watch_next_server w = Some server"
      "FAILURES_BEFORE_SWITCH \<le> watch_failures w2" "allowance = SwitchAllowance_Now" by blast
    moreover from this eq w2 have "watch_exit_ip_failed w now allowance reason timers =
        (w2\<lparr>watch_check := Check_Switching,
            watch_failover := Some (Failover_Saving \<lparr>switch_server = server, switch_at = wall now\<rparr>)\<rparr>,
         timers, [Action_SaveVpnSwitch \<lparr>switch_server = server, switch_at = wall now\<rparr>])"
      by (simp add: watch_fail_over_def Let_def)
    ultimately show ?thesis
      using failover w2(2) agrees(2) by simp
  next
    case False
    then have "watch_exit_ip_failed w now allowance reason timers =
        watch_wait w2 now timers TUNNEL_RETRY_AFTER"
      unfolding eq w2(1) by (auto split: option.split)
    from wait [OF this [unfolded watch_wait_eq]] show ?thesis
      using w2 agrees(1) by simp
  qed
qed

text \<open>What every step owes: the invariant, the balance of checks, and the spacing of switches.\<close>

definition tunnel_step_ok ::
    "tunnel \<times> timers \<Rightarrow> clock_reading \<times> tunnel_input \<Rightarrow> (tunnel \<times> timers) \<times> action list \<Rightarrow> bool" where
  "tunnel_step_ok s i r \<longleftrightarrow>
     tunnel_inv (fst r) \<and>
     sent is_exit_check (snd r) + of_bool (exit_check_outstanding s)
       \<le> of_bool (exit_check_outstanding (fst r)) + of_bool (is_exit_answer i) \<and>
     (if list_ex is_switch (snd r)
      then \<exists>m. last_switch_at (fst r) = Some m \<and>
             is_none_or (\<lambda>u. u + int SWITCH_SPACING \<le> m) (last_switch_at s)
      else last_switch_at s \<noteq> None \<longrightarrow> last_switch_at (fst r) = last_switch_at s)"

lemma tunnel_handle_ok:
  assumes inv: "tunnel_inv (t, timers)" and ok: "tunnel_input_ok (now, TunnelInput_Event e)"
  shows "tunnel_step_ok (t, timers) (now, TunnelInput_Event e)
           (tunnel_step (t, timers) (now, TunnelInput_Event e))"
proof (cases "tunnel_watch t")
  case None
  with inv ok show ?thesis
    by (cases e) (auto simp: tunnel_handle_def tunnel_step_ok_def known_spaced_def Let_def failure_none_def
        protection_agrees_def
        is_none_or_iff split: last_switch.splits)
next
  case (Some w)
  have agrees: "protection_agrees w" and fo: "failover_ok (tunnel_last_switch t) w"
    and known: "known_spaced (tunnel_last_switch t)" using inv Some by auto
  have now: "time_spaced (wall now)" using ok by simp
  show ?thesis
  proof (cases e)
    case (TunnelEvent_ExitIpCheckFailed reason)
    let ?a = "tunnel_switch_allowance t (wall now)"
    show ?thesis
    proof (cases "watch_check w = Check_Outstanding")
      case out: True
      with fo have nofo: "watch_failover w = None" by simp
      show ?thesis
      proof (cases rule: exit_ip_failed_cases
          [where w = w and now = now and allowance = ?a and reason = reason and timers = timers])
        case (failover server w')
        from allowance_now [OF failover(3) known now] known out failover Some
          TunnelEvent_ExitIpCheckFailed
        show ?thesis
          by (auto simp: tunnel_handle_def tunnel_step_ok_def tunnel_with_def Let_def)
      next
        case (wait w' timers' deadline)
        with known out nofo Some TunnelEvent_ExitIpCheckFailed show ?thesis
          by (auto simp: tunnel_handle_def tunnel_step_ok_def tunnel_with_def Let_def)
      qed
    qed (use inv Some TunnelEvent_ExitIpCheckFailed in
        \<open>simp add: tunnel_handle_def tunnel_step_ok_def Let_def\<close>)
  next
    case TunnelEvent_SwitchSaved
    with fo known agrees Some show ?thesis
      by (auto simp: tunnel_handle_def tunnel_step_ok_def Let_def known_spaced_def switch_due_def
          is_none_or_iff split: option.splits failover.splits)
  next
    case TunnelEvent_Switched
    with fo known agrees Some show ?thesis
      by (auto simp: tunnel_handle_def tunnel_step_ok_def Let_def watch_check_now_def protection_agrees_def
          split: option.splits failover.splits)
  next
    case (TunnelEvent_ExitIpObserved ip)
    with fo known agrees Some show ?thesis
      by (auto simp: tunnel_handle_def tunnel_step_ok_def Let_def watch_exit_ip_observed_def protection_agrees_def
          watch_wait_eq tunnel_with_def)
  next
    case (TunnelEvent_LastSwitchRead prev)
    with fo known agrees Some ok show ?thesis
      by (auto simp: tunnel_handle_def tunnel_step_ok_def Let_def known_spaced_def switch_due_def
          is_none_or_iff)
  next
    case TunnelEvent_LastSwitchReadFailed
    with fo known agrees Some ok show ?thesis
      by (auto simp: tunnel_handle_def tunnel_step_ok_def Let_def known_spaced_def switch_due_def
          is_none_or_iff)
  qed (use fo known agrees Some in
      \<open>auto simp: tunnel_handle_def tunnel_step_ok_def Let_def watch_wait_eq tunnel_with_def\<close>)
qed

lemma tunnel_other_ok:
  assumes "tunnel_inv (t, timers)"
  shows "tunnel_step_ok (t, timers) (now, TunnelInput_Timer i)
           (tunnel_step (t, timers) (now, TunnelInput_Timer i))"
    and "tunnel_step_ok (t, timers) (now, TunnelInput_Suspect)
           (tunnel_step (t, timers) (now, TunnelInput_Suspect))"
proof -
  show "tunnel_step_ok (t, timers) (now, TunnelInput_Timer i)
           (tunnel_step (t, timers) (now, TunnelInput_Timer i))"
    using assms
    by (auto simp: tunnel_timer_expired_def tunnel_step_ok_def Let_def split_beta split: option.splits)
  show "tunnel_step_ok (t, timers) (now, TunnelInput_Suspect)
           (tunnel_step (t, timers) (now, TunnelInput_Suspect))"
    using assms
    by (auto simp: tunnel_suspect_def tunnel_step_ok_def Let_def split_beta split: option.splits)
qed

lemma tunnel_step_keeps:
  "tunnel_inv s \<Longrightarrow> tunnel_input_ok i \<Longrightarrow> tunnel_step_ok s i (tunnel_step s i)"
  by (induction s i rule: tunnel_step.induct) (blast intro: tunnel_handle_ok tunnel_other_ok)+

interpretation tunnel_checks: single_flight tunnel_step tunnel_start tunnel_input_ok tunnel_inv
  exit_check_outstanding is_exit_check is_exit_answer
  using tunnel_step_keeps
  by unfold_locales
    (auto simp: tunnel_step_ok_def tunnel_start_def tunnel_start_reading_def tunnel_new_def known_spaced_def)

interpretation vpn_switches: spaced_events tunnel_step tunnel_start tunnel_input_ok tunnel_inv
  is_switch last_switch_at SWITCH_SPACING
proof unfold_locales
  fix s i u
  assume "tunnel_inv s" "tunnel_input_ok i"
  note ok = tunnel_step_keeps [OF this]
  show "\<exists>m. last_switch_at (fst (tunnel_step s i)) = Some m \<and>
      (\<forall>u. last_switch_at s = Some u \<longrightarrow> u + int SWITCH_SPACING \<le> m)"
    if "list_ex is_switch (snd (tunnel_step s i))"
    using ok that by (auto simp: tunnel_step_ok_def is_none_or_iff)
  show "\<exists>v. last_switch_at (fst (tunnel_step s i)) = Some v \<and> u \<le> v"
    if "\<not> list_ex is_switch (snd (tunnel_step s i))" "last_switch_at s = Some u"
    using ok that by (auto simp: tunnel_step_ok_def)
qed

subsection \<open>The next server\<close>

lemma next_server_Some:
  assumes "watch_next_server w = Some server"
  shows "server \<in> set (watch_servers w)" "Some server \<noteq> watch_current w"
  using find_SomeD [OF assms [unfolded watch_next_server_def Let_def]] by auto

lemma next_server_None:
  "watch_next_server w = None \<longleftrightarrow> (\<forall>server \<in> set (watch_servers w). watch_current w = Some server)"
  by (auto simp: watch_next_server_def Let_def find_None_iff)

lemma position_distinct: "distinct xs \<Longrightarrow> k < length xs \<Longrightarrow> position (\<lambda>x. x = xs ! k) xs = Some k"
proof (induction xs arbitrary: k)
  case (Cons x xs)
  then show ?case by (cases k) (auto simp: nth_mem)
qed simp

lemma find_rotate:
  assumes "xs \<noteq> []" and "p (xs ! (k mod length xs))"
  shows "List.find p (rotate k xs) = Some (xs ! (k mod length xs))"
proof -
  have hd: "hd (rotate k xs) = xs ! (k mod length xs)" by (rule hd_rotate_conv_nth [OF assms(1)])
  have "rotate k xs \<noteq> []" using assms(1) by simp
  then show ?thesis using assms(2) hd by (cases "rotate k xs") auto
qed

subsection \<open>Properties\<close>

text \<open>
  The VPN address changes less than once an hour: over any sequence of checks, timers,
  suspicions, storage results and clock readings, the times recorded for the switches that
  Windlass starts are an hour apart, one after the other, and an hour after the saved one.
\<close>

theorem vpn_switches_an_hour_apart:
  assumes "list_all tunnel_input_ok inputs"
  shows "sorted_wrt (\<lambda>a b. a + int (hours 1) \<le> b)
           (marks tunnel_step is_switch last_switch_at tunnel_start inputs)"
  using vpn_switches.spaced_run [OF assms] by (simp add: SWITCH_SPACING_def)

theorem vpn_switches_an_hour_apart_witness:
  "sorted_wrt (\<lambda>a b. a + int (hours 1) \<le> b)
     (marks tunnel_step is_switch last_switch_at tunnel_start
       [(\<lparr>monotonic = 0, wall = 0\<rparr>, TunnelInput_Event (TunnelEvent_LastSwitchRead None)),
        (\<lparr>monotonic = 1, wall = 1\<rparr>, TunnelInput_Event (TunnelEvent_Enable [''a'', ''b''] (Some ''a'')))])"
  by (rule vpn_switches_an_hour_apart) (simp add: time_spaced_def SWITCH_SPACING_def time_defs)

text \<open>
  One exit-address check at a time: checks started outnumber the answers received by at
  most one, whatever timers expire and whatever raises suspicion.
\<close>

theorem exit_checks_do_not_overlap:
  assumes "list_all tunnel_input_ok inputs"
  shows "sent is_exit_check (concat (snd (run tunnel_step tunnel_start inputs)))
           \<le> 1 + length (filter is_exit_answer inputs)"
  by (rule tunnel_checks.sent_at_most [OF assms])

theorem exit_checks_do_not_overlap_witness:
  "sent is_exit_check (concat (snd (run tunnel_step tunnel_start
     [(\<lparr>monotonic = 1, wall = 1\<rparr>, TunnelInput_Event (TunnelEvent_Enable [''a''] None)),
      (\<lparr>monotonic = 2, wall = 2\<rparr>, TunnelInput_Suspect)]))) \<le> 1"
  using exit_checks_do_not_overlap
    [of "[(\<lparr>monotonic = 1, wall = 1\<rparr>, TunnelInput_Event (TunnelEvent_Enable [''a''] None)),
      (\<lparr>monotonic = 2, wall = 2\<rparr>, TunnelInput_Suspect)]"]
  by (simp add: time_spaced_def SWITCH_SPACING_def time_defs)

text \<open>
  A failover is decided only by the third failed check in a row or a later one, while the
  last switch is known and an hour past, and it goes to a configured server other than the
  current one; it is saved, not started, by that step.
\<close>

theorem failover_only_when_due:
  assumes "tunnel_handle t now e timers = (t', timers', actions)"
    and "Action_SaveVpnSwitch switch \<in> set actions"
  shows "\<exists>w reason prev.
    tunnel_watch t = Some w \<and> e = TunnelEvent_ExitIpCheckFailed reason \<and>
    2 \<le> unat (watch_failures w) \<and>
    switch_server switch \<in> set (watch_servers w) \<and> watch_current w \<noteq> Some (switch_server switch) \<and>
    tunnel_last_switch t = LastSwitch_Known prev \<and> switch_at switch = wall now \<and>
    is_none_or (\<lambda>p. unwrap_or (switch_at p) (checked_add (switch_at p) (hours 1)) \<le> wall now) prev \<and>
    actions = [Action_SaveVpnSwitch switch]"
proof -
  from assms obtain w reason where w: "tunnel_watch t = Some w" "watch_check w = Check_Outstanding"
    "e = TunnelEvent_ExitIpCheckFailed reason"
    by (auto simp: tunnel_handle_def Let_def watch_exit_ip_observed_def watch_wait_eq tunnel_with_def
        watch_check_now_def
        split: option.splits tunnel_event.splits failover.splits if_splits)
  let ?a = "tunnel_switch_allowance t (wall now)"
  show ?thesis
  proof (cases rule: exit_ip_failed_cases
      [where w = w and now = now and allowance = ?a and reason = reason and timers = timers])
    case (failover server w')
    then have "2 \<le> unat (watch_failures w)"
      by (simp add: FAILURES_BEFORE_SWITCH_def word_le_nat_alt unat_failure_after_another)
    moreover have "actions = [Action_SaveVpnSwitch switch]"
      "switch = \<lparr>switch_server = server, switch_at = wall now\<rparr>"
      using assms w failover by (auto simp: tunnel_handle_def tunnel_with_def Let_def)
    moreover obtain prev where "tunnel_last_switch t = LastSwitch_Known prev"
      "is_none_or (\<lambda>p. unwrap_or (switch_at p) (checked_add (switch_at p) (hours 1)) \<le> wall now) prev"
      using failover(3) by (auto simp: tunnel_switch_allowance_def Let_def SWITCH_SPACING_def
          split: last_switch.splits option.splits if_splits)
    ultimately show ?thesis using w next_server_Some [OF failover(1)] by auto
  next
    case (wait w' timers' deadline)
    with assms w have "actions = [Action_StartTimer TimerName_TunnelCheck (timers_next timers) deadline]"
      by (simp add: tunnel_handle_def tunnel_with_def Let_def)
    with assms(2) show ?thesis by simp
  qed
qed

definition witness_watch :: watch where
  "witness_watch = \<lparr>watch_servers = [''a'', ''b''], watch_current = Some ''a'',
     watch_protection = Protection_Unavailable 0, watch_check = Check_Outstanding, watch_failures = 2,
     watch_last_failure = Some ExitIpFailure_Unreachable, watch_failover = None, watch_last_check = 0\<rparr>"

theorem failover_only_when_due_witness:
  "\<exists>w reason prev.
    Some witness_watch = Some w \<and>
    TunnelEvent_ExitIpCheckFailed ExitIpFailure_Malformed = TunnelEvent_ExitIpCheckFailed reason \<and>
    2 \<le> unat (watch_failures w) \<and> ''b'' \<in> set (watch_servers w) \<and> watch_current w \<noteq> Some ''b'' \<and>
    LastSwitch_Known None = LastSwitch_Known prev \<and> (7::int) = wall \<lparr>monotonic = 5, wall = 7\<rparr> \<and>
    is_none_or (\<lambda>p. unwrap_or (switch_at p) (checked_add (switch_at p) (hours 1)) \<le> 7) prev"
proof -
  let ?t = "\<lparr>tunnel_last_switch = LastSwitch_Known None, tunnel_watch = Some witness_watch\<rparr>"
  let ?e = "TunnelEvent_ExitIpCheckFailed ExitIpFailure_Malformed"
  let ?now = "\<lparr>monotonic = 5, wall = 7\<rparr>"
  obtain t' timers' actions where handled: "tunnel_handle ?t ?now ?e timers_new = (t', timers', actions)"
    by (metis surj_pair)
  then have "Action_SaveVpnSwitch \<lparr>switch_server = ''b'', switch_at = 7\<rparr> \<in> set actions"
    by (auto simp: tunnel_handle_def tunnel_switch_allowance_def watch_exit_ip_failed_def
        watch_next_server_def watch_fail_over_def tunnel_with_def witness_watch_def
        FAILURES_BEFORE_SWITCH_def failure_after_another_def sat_add_def Let_def)
  from failover_only_when_due [OF handled this] show ?thesis by simp
qed

text \<open>
  Failover goes round the configured servers in order: with at least two, all different,
  the server after the current one is next, and the first follows the last.
\<close>

theorem next_server_round_robin:
  assumes "distinct (watch_servers w)" and "2 \<le> length (watch_servers w)"
    and "k < length (watch_servers w)" and "watch_current w = Some (watch_servers w ! k)"
  shows "watch_next_server w = Some (watch_servers w ! (Suc k mod length (watch_servers w)))"
proof -
  let ?xs = "watch_servers w"
  have "Suc k mod length ?xs \<noteq> k" using assms(2,3) by (cases "Suc k = length ?xs") auto
  moreover have "Suc k mod length ?xs < length ?xs" using assms(2) by (intro mod_less_divisor) linarith
  ultimately have "?xs ! (Suc k mod length ?xs) \<noteq> ?xs ! k"
    using nth_eq_iff_index_eq [OF assms(1) _ assms(3)] by blast
  then have "List.find (\<lambda>s. Some s \<noteq> watch_current w) (rotate (Suc k) ?xs)
      = Some (?xs ! (Suc k mod length ?xs))"
    using assms(2,4) by (intro find_rotate) auto
  then show ?thesis
    using assms(4) position_distinct [OF assms(1,3)]
    by (simp add: watch_next_server_def Let_def del: rotate_Suc)
qed

theorem next_server_round_robin_witness:
  "watch_next_server witness_watch = Some ''b''"
  using next_server_round_robin [of witness_watch 0] by (simp add: witness_watch_def)

end
