(* ===== verification/Notifications.thy ===== *)
theory Notifications
  imports Mam Settings History Port_Forwarding Tunnel
begin

text \<open>
  What the user is told, and when (\<open>core/notifications.rs\<close>), with the core's event type
  (\<open>Event\<close>, \<open>core/mod.rs\<close>) that notices are read from. Lasting conditions notify once they have
  held for their grace period and again when they clear; one-off events notify as they happen;
  every notice takes the next place in the log; pushes wait in an outbox and are delivered one at
  a time, with retries.
\<close>

definition SEEDING_DEADLINE_WARNING :: duration where
  "SEEDING_DEADLINE_WARNING = hours (20 * 24)"

definition OUTBOX_LIMIT :: nat where
  "OUTBOX_LIMIT = 50"

definition LOG_KEPT :: u64 where
  "LOG_KEPT = 1000"

definition RETRY_FIRST :: duration where
  "RETRY_FIRST = secs 30"

definition RETRY_MAX :: duration where
  "RETRY_MAX = mins 10"

definition notice_id_first :: notice_id where
  "notice_id_first = 1"

definition notice_id_new :: "u64 \<Rightarrow> notice_id option" where
  "notice_id_new i = (if i = 0 then None else Some i)"

definition notice_id_following :: "notice_id \<Rightarrow> notice_id" where
  "notice_id_following i = sat_add i 1"

definition push_count_plus_one :: "push_count \<Rightarrow> push_count" where
  "push_count_plus_one c = sat_add c 1"

datatype notice_log =
    NoticeLog_Waiting "(system_time \<times> notice) list"
  | NoticeLog_Ready notice_id
  | NoticeLog_Unavailable

fun notice_reach :: "notice \<Rightarrow> reach" where
  "notice_reach (Notice_Started _) = Reach_Dashboard"
| "notice_reach (Notice_VpnProtectionRestored _ _) = Reach_Dashboard"
| "notice_reach (Notice_FailoverStarted _) = Reach_Dashboard"
| "notice_reach (Notice_FailoverSucceeded _) = Reach_Dashboard"
| "notice_reach (Notice_ForwardedPortRestored _) = Reach_Dashboard"
| "notice_reach Notice_QbittorrentReachable = Reach_Dashboard"
| "notice_reach (Notice_QbittorrentVersionAllowed _) = Reach_Dashboard"
| "notice_reach Notice_TorrentErrorsCleared = Reach_Dashboard"
| "notice_reach Notice_FilesMissingCleared = Reach_Dashboard"
| "notice_reach Notice_TorrentsMissingCleared = Reach_Dashboard"
| "notice_reach Notice_RegistrySaved = Reach_Dashboard"
| "notice_reach Notice_MamSessionAccepted = Reach_Dashboard"
| "notice_reach (Notice_SeedboxRegistered _) = Reach_Dashboard"
| "notice_reach Notice_MamIpKnown = Reach_Dashboard"
| "notice_reach Notice_RatioRestored = Reach_Dashboard"
| "notice_reach Notice_RatioUseChecked = Reach_Dashboard"
| "notice_reach Notice_UnsatisfiedBelowLimit = Reach_Dashboard"
| "notice_reach Notice_UnsatisfiedSeeding = Reach_Dashboard"
| "notice_reach Notice_MamFlagsCleared = Reach_Dashboard"
| "notice_reach Notice_DownloadsResumed = Reach_Dashboard"
| "notice_reach Notice_SeedingOnTrack = Reach_Dashboard"
| "notice_reach (Notice_PurchaseMade _ _) = Reach_Dashboard"
| "notice_reach Notice_WedgedMidDownload = Reach_Dashboard"
| "notice_reach (Notice_PurchaseSettled _ _) = Reach_Dashboard"
| "notice_reach Notice_MamClientListed = Reach_Dashboard"
| "notice_reach Notice_ConnectableAgain = Reach_Dashboard"
| "notice_reach Notice_StartupFailed = Reach_Push"
| "notice_reach (Notice_VpnProtectionLost _) = Reach_Push"
| "notice_reach (Notice_FailoverFailed _) = Reach_Push"
| "notice_reach (Notice_FailoverBlocked _) = Reach_Push"
| "notice_reach Notice_ForwardedPortLost = Reach_Push"
| "notice_reach (Notice_QbittorrentUnreachable _) = Reach_Push"
| "notice_reach (Notice_QbittorrentVersionNotAllowed _) = Reach_Push"
| "notice_reach (Notice_TorrentErrors _) = Reach_Push"
| "notice_reach (Notice_FilesMissing _) = Reach_Push"
| "notice_reach (Notice_TorrentsMissing _) = Reach_Push"
| "notice_reach Notice_RegistryNotSaved = Reach_Push"
| "notice_reach Notice_RegistryUnreadable = Reach_Push"
| "notice_reach (Notice_SettingNotSaved _) = Reach_Push"
| "notice_reach Notice_HistoryUnavailable = Reach_Push"
| "notice_reach (Notice_HistoryEntriesLost _) = Reach_Push"
| "notice_reach Notice_Test = Reach_Push"
| "notice_reach (Notice_MamSessionRejected _) = Reach_Push"
| "notice_reach Notice_SeedboxNotRegistered = Reach_Push"
| "notice_reach (Notice_MamIpUnknown _) = Reach_Push"
| "notice_reach Notice_MamStateUnreadable = Reach_Push"
| "notice_reach (Notice_RatioLow _ _) = Reach_Push"
| "notice_reach (Notice_RatioUsed _) = Reach_Push"
| "notice_reach (Notice_UnsatisfiedNearLimit _ _) = Reach_Push"
| "notice_reach (Notice_UnsatisfiedNotSeeding _) = Reach_Push"
| "notice_reach (Notice_MamFlagged _ _ _) = Reach_Push"
| "notice_reach (Notice_MamMessages _ _) = Reach_Push"
| "notice_reach (Notice_DownloadsHeld _) = Reach_Push"
| "notice_reach Notice_NoWedgesLeft = Reach_Push"
| "notice_reach (Notice_PointsBelowReserve _ _) = Reach_Push"
| "notice_reach (Notice_VipEnding _) = Reach_Push"
| "notice_reach Notice_DownloadsRefused = Reach_Push"
| "notice_reach (Notice_SeedingBehind _) = Reach_Push"
| "notice_reach (Notice_PurchaseRefused _) = Reach_Push"
| "notice_reach (Notice_PurchaseUncertain _) = Reach_Push"
| "notice_reach Notice_WedgeNotSpent = Reach_Push"
| "notice_reach (Notice_DownloadNotFree _) = Reach_Push"
| "notice_reach (Notice_PurchaseNeedsChecking _) = Reach_Push"
| "notice_reach (Notice_MamClientNotListed _) = Reach_Push"
| "notice_reach (Notice_NotConnectable _) = Reach_Push"
| "notice_reach Notice_MamVisitReminder = Reach_Push"

datatype delivery_failure =
    DeliveryFailure_Unreachable
  | DeliveryFailure_Rejected http_status

datatype notification_event =
    NotificationEvent_SendTest
  | NotificationEvent_Delivered
  | NotificationEvent_DeliveryFailed delivery_failure
  | NotificationEvent_LogRead "notice_id option"
  | NotificationEvent_LogReadFailed
  | NotificationEvent_Saved
  | NotificationEvent_SaveFailed

text \<open>Everything that happens to the core.\<close>

datatype event =
    Event_Startup startup_event
  | Event_MamPause mam_pause_event
  | Event_Settings settings_event
  | Event_History history_event
  | Event_TimerExpired timer_name timer_id
  | Event_PortForwarding port_forwarding_event
  | Event_Qbittorrent qbittorrent_event
  | Event_Registry registry_event
  | Event_Tunnel tunnel_event
  | Event_Notification notification_event
  | Event_Mam mam_event

subsection \<open>Conditions\<close>

datatype condition =
    Condition_VpnProtection
  | Condition_FailoverBlocked
  | Condition_ForwardedPort
  | Condition_QbittorrentReachable
  | Condition_QbittorrentVersion
  | Condition_TorrentErrors
  | Condition_FilesMissing
  | Condition_TorrentsMissing
  | Condition_RegistrySave
  | Condition_MamSession
  | Condition_SeedboxRegistration
  | Condition_MamIp
  | Condition_Ratio
  | Condition_UnsatisfiedLimit
  | Condition_UnsatisfiedNotSeeding
  | Condition_MamFlags
  | Condition_MamMessages
  | Condition_DownloadsHeld
  | Condition_Wedges
  | Condition_PointsReserve
  | Condition_VipEnding
  | Condition_DownloadsRefused
  | Condition_SeedingBehind
  | Condition_MamClient
  | Condition_Connectable
  | Condition_PurchaseUnresolved

text \<open>The derived ordering: conditions in the order they are declared.\<close>

definition conditions_declared :: "condition list" where
  "conditions_declared =
     [Condition_VpnProtection, Condition_FailoverBlocked, Condition_ForwardedPort,
      Condition_QbittorrentReachable, Condition_QbittorrentVersion, Condition_TorrentErrors,
      Condition_FilesMissing, Condition_TorrentsMissing, Condition_RegistrySave, Condition_MamSession,
      Condition_SeedboxRegistration, Condition_MamIp, Condition_Ratio, Condition_UnsatisfiedLimit,
      Condition_UnsatisfiedNotSeeding, Condition_MamFlags, Condition_MamMessages,
      Condition_DownloadsHeld, Condition_Wedges, Condition_PointsReserve, Condition_VipEnding,
      Condition_DownloadsRefused, Condition_SeedingBehind, Condition_MamClient, Condition_Connectable,
      Condition_PurchaseUnresolved]"

definition condition_rank :: "condition \<Rightarrow> nat" where
  "condition_rank c = length (takeWhile (\<lambda>d. d \<noteq> c) conditions_declared)"

lemma condition_declared: "c \<in> set conditions_declared"
  by (cases c) (simp_all add: conditions_declared_def)

lemma takeWhile_finds: "x \<in> set xs \<Longrightarrow> xs ! length (takeWhile (\<lambda>y. y \<noteq> x) xs) = x"
  by (induction xs) auto

lemma condition_at_rank: "conditions_declared ! condition_rank c = c"
  unfolding condition_rank_def by (rule takeWhile_finds [OF condition_declared])

lemma condition_rank_inj: "condition_rank c = condition_rank d \<Longrightarrow> c = d"
  by (metis condition_at_rank)

instantiation condition :: linorder
begin

definition less_eq_condition :: "condition \<Rightarrow> condition \<Rightarrow> bool" where
  "less_eq_condition a b \<longleftrightarrow> condition_rank a \<le> condition_rank b"

definition less_condition :: "condition \<Rightarrow> condition \<Rightarrow> bool" where
  "less_condition a b \<longleftrightarrow> condition_rank a < condition_rank b"

instance
  by intro_classes (auto simp: less_eq_condition_def less_condition_def dest: condition_rank_inj)

end

fun condition_grace :: "condition \<Rightarrow> duration" where
  "condition_grace Condition_MamIp = mins 15"
| "condition_grace Condition_UnsatisfiedNotSeeding = mins 30"
| "condition_grace Condition_DownloadsHeld = mins 30"
| "condition_grace Condition_RegistrySave = mins 2"
| "condition_grace Condition_ForwardedPort = mins 5"
| "condition_grace Condition_QbittorrentReachable = mins 5"
| "condition_grace Condition_TorrentErrors = mins 5"
| "condition_grace Condition_FilesMissing = mins 10"
| "condition_grace Condition_TorrentsMissing = mins 10"
| "condition_grace _ = 0"

datatype (plugins only: code size) status =
    Status_Active notice
  | Status_Clear "notice option"
  | Status_Unchanged

datatype phase = Phase_Pending instant | Phase_Raised

datatype delivery =
    Delivery_Idle
  | Delivery_Sending push
  | Delivery_Retrying push timer_id

record outcome =
  outcome_at :: system_time
  outcome_result :: "delivery_failure + unit"

record notifications =
  notifications_conditions :: "(condition, phase) btree"
  notifications_log :: notice_log
  notifications_outbox :: "push list"
  notifications_delivery :: delivery
  notifications_last_outcome :: "outcome option"
  notifications_dropped :: push_count
  notifications_failures :: failure_count
  notifications_grace_timer :: "(timer_id \<times> instant) option"
  notifications_mode :: "startup_mode option"

datatype startup = Startup_Starting | Startup_Ready | Startup_Failed

record glance =
  glance_failover :: "failover option"
  glance_current :: "vpn_server option"
  glance_startup :: startup

definition glance_of :: "tunnel \<Rightarrow> startup \<Rightarrow> glance" where
  "glance_of t startup =
     \<lparr>glance_failover = Option.bind (tunnel_watch t) watch_failover,
      glance_current = tunnel_current t, glance_startup = startup\<rparr>"

record notification_facts =
  nfacts_tunnel :: tunnel
  nfacts_port_forwarding :: port_forwarding
  nfacts_qbittorrent :: qbittorrent
  nfacts_registry :: registry
  nfacts_mam :: mam
  nfacts_reserve :: "points option"

definition notifications_new :: notifications where
  "notifications_new =
     \<lparr>notifications_conditions = [], notifications_log = NoticeLog_Waiting [], notifications_outbox = [],
      notifications_delivery = Delivery_Idle, notifications_last_outcome = None,
      notifications_dropped = 0, notifications_failures = failure_none,
      notifications_grace_timer = None, notifications_mode = None\<rparr>"

subsection \<open>One-off notices\<close>

definition notifications_reported :: "notifications \<Rightarrow> event \<Rightarrow> notifications \<times> notice list" where
  "notifications_reported n e =
     (case e of
        Event_Startup (StartupEvent_Start mode) \<Rightarrow> (n\<lparr>notifications_mode := Some mode\<rparr>, [])
      | Event_MamPause MamPauseEvent_WriteFailed \<Rightarrow> (n, [Notice_SettingNotSaved SettingName_MamRequests])
      | Event_MamPause MamPauseEvent_DeleteFailed \<Rightarrow> (n, [Notice_SettingNotSaved SettingName_MamRequests])
      | Event_Settings SettingsEvent_HistoryLimitWriteFailed \<Rightarrow>
          (n, [Notice_SettingNotSaved SettingName_HistoryLimit])
      | Event_Settings SettingsEvent_ApiCookieWriteFailed \<Rightarrow>
          (n, [Notice_SettingNotSaved SettingName_ApiCookie])
      | Event_Settings SettingsEvent_NtfyTopicWriteFailed \<Rightarrow>
          (n, [Notice_SettingNotSaved SettingName_NtfyTopic])
      | Event_Settings SettingsEvent_PointsReserveWriteFailed \<Rightarrow>
          (n, [Notice_SettingNotSaved SettingName_PointsReserve])
      | Event_Mam MamEvent_StateReadFailed \<Rightarrow> (n, [Notice_MamStateUnreadable])
      | Event_History HistoryEvent_OpenFailed \<Rightarrow> (n, [Notice_HistoryUnavailable])
      | Event_History (HistoryEvent_EntriesLost count _ _) \<Rightarrow> (n, [Notice_HistoryEntriesLost count])
      | Event_Registry RegistryEvent_ReadFailed \<Rightarrow> (n, [Notice_RegistryUnreadable])
      | Event_Notification NotificationEvent_SendTest \<Rightarrow> (n, [Notice_Test])
      | _ \<Rightarrow> (n, []))"

definition failover_ended :: "failover option \<Rightarrow> failover option \<Rightarrow> vpn_server option" where
  "failover_ended before after =
     (case (before, after) of
        (Some (Failover_Saving switch), None) \<Rightarrow> Some (switch_server switch)
      | (Some (Failover_Switching server), None) \<Rightarrow> Some server
      | _ \<Rightarrow> None)"

definition notifications_changed :: "notifications \<Rightarrow> glance \<Rightarrow> glance \<Rightarrow> notice list" where
  "notifications_changed n before after =
     (if glance_startup before \<noteq> Startup_Ready \<and> glance_startup after = Startup_Ready
      then map Notice_Started (opt_list (notifications_mode n))
      else if glance_startup before \<noteq> Startup_Failed \<and> glance_startup after = Startup_Failed
      then [Notice_StartupFailed] else []) @
     (case (glance_failover before, glance_failover after) of
        (None, Some (Failover_Saving switch)) \<Rightarrow> [Notice_FailoverStarted (switch_server switch)]
      | _ \<Rightarrow> []) @
     (case failover_ended (glance_failover before) (glance_failover after) of
        None \<Rightarrow> []
      | Some server \<Rightarrow>
          [if glance_current after = Some server then Notice_FailoverSucceeded server
           else Notice_FailoverFailed server])"

subsection \<open>Following conditions and logging notices\<close>

definition notifications_track ::
    "notifications \<Rightarrow> instant \<Rightarrow> condition \<Rightarrow> status \<Rightarrow> notifications \<times> notice option" where
  "notifications_track n now condition status =
     (let set_phase = (\<lambda>p. n\<lparr>notifications_conditions :=
            bt_insert condition p (notifications_conditions n)\<rparr>);
          forget = n\<lparr>notifications_conditions := bt_remove condition (notifications_conditions n)\<rparr>
      in case (bt_get (notifications_conditions n) condition, status) of
           (None, Status_Active notice) \<Rightarrow>
             if condition_grace condition = 0 then (set_phase Phase_Raised, Some notice)
             else (set_phase (Phase_Pending now), None)
         | (Some (Phase_Pending since), Status_Active notice) \<Rightarrow>
             if condition_grace condition \<le> duration_since now since
             then (set_phase Phase_Raised, Some notice) else (n, None)
         | (Some (Phase_Pending _), Status_Clear _) \<Rightarrow> (forget, None)
         | (Some Phase_Raised, Status_Clear notice) \<Rightarrow> (forget, notice)
         | _ \<Rightarrow> (n, None))"

definition notifications_enqueue :: "notifications \<Rightarrow> push \<Rightarrow> notifications" where
  "notifications_enqueue n push =
     (let n = (if OUTBOX_LIMIT \<le> length (notifications_outbox n)
               then n\<lparr>notifications_outbox := tl (notifications_outbox n),
                      notifications_dropped := push_count_plus_one (notifications_dropped n)\<rparr>
               else n)
      in n\<lparr>notifications_outbox := notifications_outbox n @ [push]\<rparr>)"

definition forget_through :: "notice_id \<Rightarrow> notice_id option" where
  "forget_through i = (if i < LOG_KEPT then None else notice_id_new (i - LOG_KEPT))"

definition notifications_record ::
    "notifications \<Rightarrow> system_time \<Rightarrow> notice \<Rightarrow> notifications \<times> action option" where
  "notifications_record n at notice =
     (let reach = notice_reach notice;
          queue = (\<lambda>n entry. if reach = Reach_Push
                     then notifications_enqueue n \<lparr>push_entry = entry, push_notice = notice\<rparr> else n)
      in case notifications_log n of
           NoticeLog_Waiting waiting \<Rightarrow>
             (n\<lparr>notifications_log := NoticeLog_Waiting (waiting @ [(at, notice)])\<rparr>, None)
         | NoticeLog_Ready next \<Rightarrow>
             (queue (n\<lparr>notifications_log := NoticeLog_Ready (notice_id_following next)\<rparr>) (Some next),
              Some (Action_SaveNotice
                \<lparr>logged_id = next, logged_at = at, logged_notice = notice, logged_reach = reach\<rparr>
                (forget_through next)))
         | NoticeLog_Unavailable \<Rightarrow> (queue n None, None))"

fun notifications_record_all ::
    "notifications \<Rightarrow> (system_time \<times> notice) list \<Rightarrow> notifications \<times> action list" where
  "notifications_record_all n [] = (n, [])"
| "notifications_record_all n ((at, notice) # rest) =
     (let (n, action) = notifications_record n at notice;
          (n, actions) = notifications_record_all n rest
      in (n, opt_list action @ actions))"

definition notifications_log_unavailable :: "notifications \<Rightarrow> notifications" where
  "notifications_log_unavailable n =
     (let m = n\<lparr>notifications_log := NoticeLog_Unavailable\<rparr>
      in case notifications_log n of
           NoticeLog_Waiting waiting \<Rightarrow> fst (notifications_record_all m waiting)
         | _ \<Rightarrow> m)"

subsection \<open>Delivery\<close>

text \<open>30 seconds, doubled for every further failure in a row, up to 10 minutes.\<close>

definition retry_after :: "failure_count \<Rightarrow> duration" where
  "retry_after failures =
     min (duration_sat_mul RETRY_FIRST (min (2 ^ unat (sat_sub failures 1)) (2 ^ 32 - 1))) RETRY_MAX"

definition notifications_handle ::
    "notifications \<Rightarrow> clock_reading \<Rightarrow> notification_event \<Rightarrow> timers \<Rightarrow>
     notifications \<times> timers \<times> action list" where
  "notifications_handle n now e timers =
     (case e of
        NotificationEvent_LogRead prev \<Rightarrow>
          (case notifications_log n of
             NoticeLog_Waiting waiting \<Rightarrow>
               (let n = n\<lparr>notifications_log := NoticeLog_Ready
                      (case prev of None \<Rightarrow> notice_id_first | Some i \<Rightarrow> notice_id_following i)\<rparr>;
                    (n, actions) = notifications_record_all n waiting
                in (n, timers, actions))
           | _ \<Rightarrow> (n, timers, []))
      | NotificationEvent_LogReadFailed \<Rightarrow> (notifications_log_unavailable n, timers, [])
      | _ \<Rightarrow>
          (case notifications_delivery n of
             Delivery_Sending push \<Rightarrow>
               (case e of
                  NotificationEvent_Delivered \<Rightarrow>
                    (n\<lparr>notifications_delivery := Delivery_Idle, notifications_failures := failure_none,
                       notifications_last_outcome := Some \<lparr>outcome_at = wall now, outcome_result = Inr ()\<rparr>\<rparr>,
                     timers, [])
                | NotificationEvent_DeliveryFailed reason \<Rightarrow>
                    (let failures = failure_after_another (notifications_failures n);
                         (timers, i, deadline) =
                           timers_schedule timers (monotonic now) (retry_after failures)
                     in (n\<lparr>notifications_failures := failures,
                           notifications_last_outcome :=
                             Some \<lparr>outcome_at = wall now, outcome_result = Inl reason\<rparr>,
                           notifications_delivery := Delivery_Retrying push i\<rparr>,
                         timers, [Action_StartTimer TimerName_NotificationRetry i deadline]))
                | _ \<Rightarrow> (n, timers, []))
           | _ \<Rightarrow> (n, timers, [])))"

definition notifications_timer_expired :: "notifications \<Rightarrow> timer_id \<Rightarrow> notifications" where
  "notifications_timer_expired n i =
     (let n = (if is_some_and (\<lambda>(timer, _). timer = i) (notifications_grace_timer n)
               then n\<lparr>notifications_grace_timer := None\<rparr> else n)
      in case notifications_delivery n of
           Delivery_Retrying push timer \<Rightarrow>
             if timer = i
             then n\<lparr>notifications_outbox := push # notifications_outbox n,
                    notifications_delivery := Delivery_Idle\<rparr>
             else n
         | _ \<Rightarrow> n)"

definition notifications_schedule_grace ::
    "notifications \<Rightarrow> instant \<Rightarrow> timers \<Rightarrow> notifications \<times> timers \<times> action list" where
  "notifications_schedule_grace n now timers =
     (case min_of (map (\<lambda>(condition, phase). case phase of
              Phase_Pending since \<Rightarrow> checked_add since (condition_grace condition)
            | Phase_Raised \<Rightarrow> None) (notifications_conditions n)) of
        None \<Rightarrow> (n, timers, [])
      | Some due \<Rightarrow>
          if is_some_and (\<lambda>(_, at). at = due) (notifications_grace_timer n) then (n, timers, [])
          else (let (timers, i, deadline) = timers_schedule timers now (duration_since due now)
                in (n\<lparr>notifications_grace_timer := Some (i, due)\<rparr>, timers,
                    [Action_StartTimer TimerName_NotificationGrace i deadline])))"

fun delivery_retrying :: "delivery \<Rightarrow> bool" where
  "delivery_retrying (Delivery_Retrying _ _) = True"
| "delivery_retrying _ = False"

definition notifications_send :: "notifications \<Rightarrow> settings_state \<Rightarrow> notifications \<times> action list" where
  "notifications_send n settings =
     (let send = (\<lambda>topic. case topic of
            None \<Rightarrow>
              (n\<lparr>notifications_outbox := [],
                 notifications_delivery := (if delivery_retrying (notifications_delivery n)
                   then Delivery_Idle else notifications_delivery n)\<rparr>, [])
          | Some topic \<Rightarrow>
              if notifications_delivery n \<noteq> Delivery_Idle then (n, [])
              else (case notifications_outbox n of
                      [] \<Rightarrow> (n, [])
                    | push # rest \<Rightarrow>
                        (n\<lparr>notifications_outbox := rest, notifications_delivery := Delivery_Sending push\<rparr>,
                         [Action_SendNotification topic push])))
      in case settings of
           SettingsState_Unread \<Rightarrow> (n, [])
         | SettingsState_Reading \<Rightarrow> (n, [])
         | SettingsState_ReadFailed \<Rightarrow> send None
         | SettingsState_Loaded s \<Rightarrow> send (setting_saved (settings_ntfy_topic s)))"

subsection \<open>Reading conditions from the core's state\<close>

text \<open>VPN protection, and a failover that cannot start.\<close>

definition vpn_status :: "system_time \<Rightarrow> tunnel \<Rightarrow> status \<times> status" where
  "vpn_status now t =
     (case tunnel_watch t of
        None \<Rightarrow> (Status_Clear None, Status_Clear None)
      | Some w \<Rightarrow>
          (let failing = (FAILURES_BEFORE_SWITCH \<le> watch_failures w);
               protection =
                 (if failing then Status_Active (Notice_VpnProtectionLost (watch_failures w))
                  else case watch_protection w of
                         Protection_Available exit_ip _ \<Rightarrow>
                           Status_Clear (Some (Notice_VpnProtectionRestored exit_ip (watch_current w)))
                       | _ \<Rightarrow> Status_Unchanged);
               reason = (case tunnel_switch_allowance t now of
                   SwitchAllowance_Now \<Rightarrow> None
                 | SwitchAllowance_After at \<Rightarrow> Some (SwitchBlock_Until at)
                 | SwitchAllowance_Unknown \<Rightarrow> Some SwitchBlock_LastSwitchUnknown
                 | SwitchAllowance_NoAlternative \<Rightarrow> Some SwitchBlock_NoOtherServer);
               blocked = (case reason of
                   Some reason \<Rightarrow>
                     if failing \<and> watch_failover w = None
                     then Status_Active (Notice_FailoverBlocked reason) else Status_Clear None
                 | None \<Rightarrow> Status_Clear None)
           in (protection, blocked)))"

fun forwarded_port_status :: "port_forwarding \<Rightarrow> tunnel \<Rightarrow> status" where
  "forwarded_port_status PortForwarding_Disabled t = Status_Clear None"
| "forwarded_port_status (PortForwarding_Enabled (Some lease) _ _ _) t =
     Status_Clear (Some (Notice_ForwardedPortRestored (lease_tcp lease)))"
| "forwarded_port_status (PortForwarding_Enabled None _ _ _) t =
     (if is_some_and (\<lambda>w. watch_failover w \<noteq> None) (tunnel_watch t) then Status_Unchanged
      else Status_Active Notice_ForwardedPortLost)"

definition seeding_behind :: "system_time \<Rightarrow> registry \<Rightarrow> torrent_count option" where
  "seeding_behind now g =
     map_option (\<lambda>r. torrent_count_counting
       (filter (\<lambda>o'. torrent_seeding_time (observation_torrent o') < SEEDING_TARGET \<and>
            is_some_and (\<lambda>completed. is_some_and (\<lambda>since. SEEDING_DEADLINE_WARNING \<le> since)
              (time_since now completed)) (torrent_completed_at (observation_torrent o')))
         (List.map_filter record_observation
           (filter (\<lambda>row. record_desired row = Desired_Active) (records_records r)))))
       (registry_records g)"

fun counted_status :: "torrent_count option \<Rightarrow> (torrent_count \<Rightarrow> notice) \<Rightarrow> notice \<Rightarrow> status" where
  "counted_status None raised cleared = Status_Unchanged"
| "counted_status (Some count) raised cleared =
     (if count = 0 then Status_Clear (Some cleared) else Status_Active (raised count))"

text \<open>A condition known only once the account was read.\<close>

definition read_status :: "account \<Rightarrow> notice option \<Rightarrow> notice option \<Rightarrow> status" where
  "read_status a active cleared =
     (if account_data a = None then Status_Unchanged
      else case active of Some notice \<Rightarrow> Status_Active notice | None \<Rightarrow> Status_Clear cleared)"

fun seedbox_condition :: "seedbox_status \<Rightarrow> status" where
  "seedbox_condition (SeedboxStatus_Failed (RegistrationFailure_Mam (MamFailure_TooSoon _)) _) = Status_Unchanged"
| "seedbox_condition SeedboxStatus_Unconfirmed = Status_Unchanged"
| "seedbox_condition (SeedboxStatus_Failed _ _) = Status_Active Notice_SeedboxNotRegistered"
| "seedbox_condition (SeedboxStatus_Confirmed ip _) = Status_Clear (Some (Notice_SeedboxRegistered ip))"

fun session_condition :: "mam_session \<Rightarrow> status" where
  "session_condition (MamSession_Rejected rejection _ _) = Status_Active (Notice_MamSessionRejected rejection)"
| "session_condition (MamSession_Verified _) = Status_Clear (Some Notice_MamSessionAccepted)"
| "session_condition MamSession_Unverified = Status_Unchanged"

fun client_condition :: "client_standing \<Rightarrow> status" where
  "client_condition ClientStanding_Unknown = Status_Unchanged"
| "client_condition ClientStanding_NoneListed = Status_Unchanged"
| "client_condition ClientStanding_Listed = Status_Clear (Some Notice_MamClientListed)"
| "client_condition standing = Status_Active (Notice_MamClientNotListed standing)"

fun connectable_condition :: "connectability \<Rightarrow> status" where
  "connectable_condition Connectability_Fine = Status_Clear (Some Notice_ConnectableAgain)"
| "connectable_condition (Connectability_Repaired _ _ _) = Status_Unchanged"
| "connectable_condition (Connectability_Unresolved _ findings) = Status_Active (Notice_NotConnectable findings)"

definition mam_conditions :: "system_time \<Rightarrow> mam \<Rightarrow> points option \<Rightarrow> (condition \<times> status) list" where
  "mam_conditions now m reserve =
     (let account = mam_account m;
          read = read_status account;
          hold = acquisition_hold (mam_acquisition m)
      in [(Condition_MamSession, session_condition (mam_session m)),
          (Condition_SeedboxRegistration, seedbox_condition (seedbox_status (mam_seedbox m))),
          (Condition_MamIp,
             if failure_any (network_failures (mam_network m))
             then Status_Active (Notice_MamIpUnknown (network_failures (mam_network m)))
             else if network_current (mam_network m) \<noteq> None then Status_Clear (Some Notice_MamIpKnown)
             else Status_Unchanged),
          (Condition_Ratio,
             read (map_option (\<lambda>(ratio, urgency). Notice_RatioLow ratio urgency) (account_ratio_low account))
               (Some Notice_RatioRestored)),
          (Condition_UnsatisfiedLimit,
             read (map_option (\<lambda>(count, limit). Notice_UnsatisfiedNearLimit count limit)
                 (account_unsatisfied_near_limit account))
               (Some Notice_UnsatisfiedBelowLimit)),
          (Condition_UnsatisfiedNotSeeding,
             read (map_option Notice_UnsatisfiedNotSeeding
                 (opt_filter (\<lambda>count. count \<noteq> 0) (account_not_seeding_unsatisfied account)))
               (Some Notice_UnsatisfiedSeeding)),
          (Condition_MamFlags,
             read (map_option (\<lambda>a. Notice_MamFlagged (attention_partial a) (attention_tracker_errors a)
                 (attention_flagged a)) (opt_filter attention_any (account_attention account)))
               (Some Notice_MamFlagsCleared)),
          (Condition_MamMessages,
             read (map_option (\<lambda>ns. Notice_MamMessages (mam_notices_total ns)
                 (if notices_about_to_drop_client ns = 0 then ClientWarning_NotGiven else ClientWarning_Given))
               (opt_filter (\<lambda>ns. mam_notices_total ns \<noteq> 0)
                 (Option.bind (account_data account) user_notices))) None),
          (Condition_DownloadsHeld,
             case hold of
               Some hold \<Rightarrow> if hold = Hold_MamUnavailable then Status_Unchanged
                             else Status_Active (Notice_DownloadsHeld hold)
             | None \<Rightarrow> Status_Clear (Some Notice_DownloadsResumed)),
          (Condition_Wedges,
             if hold = Some Hold_NoWedge then Status_Active Notice_NoWedgesLeft else Status_Clear None),
          (Condition_PointsReserve,
             read (Option.bind (account_data account) (\<lambda>data. Option.bind reserve (\<lambda>reserve.
                 if user_points data < reserve then Some (Notice_PointsBelowReserve (user_points data) reserve)
                 else None))) None),
          (Condition_VipEnding, read (map_option Notice_VipEnding (account_vip_ending account now)) None),
          (Condition_MamClient, client_condition (mam_client m)),
          (Condition_PurchaseUnresolved,
             case account_unresolved_purchase account of
               Some purchase \<Rightarrow> Status_Active (Notice_PurchaseNeedsChecking purchase)
             | None \<Rightarrow> Status_Clear None),
          (Condition_Connectable, connectable_condition (mam_connectability m)),
          (Condition_DownloadsRefused,
             if acquisition_refused (mam_acquisition m) \<noteq> None then Status_Active Notice_DownloadsRefused
             else Status_Clear None)])"

fun qbittorrent_session :: "qbittorrent \<Rightarrow> session option" where
  "qbittorrent_session (Qbittorrent_Connected s) = Some s"
| "qbittorrent_session _ = None"

fun reachable_condition :: "qbittorrent \<Rightarrow> status" where
  "reachable_condition Qbittorrent_Disabled = Status_Clear None"
| "reachable_condition Qbittorrent_Connecting = Status_Unchanged"
| "reachable_condition (Qbittorrent_Unreachable reason _) = Status_Active (Notice_QbittorrentUnreachable reason)"
| "reachable_condition (Qbittorrent_Connected _) = Status_Clear (Some Notice_QbittorrentReachable)"

fun registry_save_condition :: "registry \<Rightarrow> status" where
  "registry_save_condition (Registry_Loaded r) =
     (if records_save_failed r then Status_Active Notice_RegistryNotSaved
      else Status_Clear (Some Notice_RegistrySaved))"
| "registry_save_condition _ = Status_Unchanged"

definition count_in_state :: "session option \<Rightarrow> torrent_state \<Rightarrow> torrent_count option" where
  "count_in_state listed state =
     map_option (\<lambda>s. torrent_count_counting
       (filter (\<lambda>t. torrent_state t = state) (bt_values (session_torrents s)))) listed"

definition count_missing :: "session option \<Rightarrow> registry \<Rightarrow> torrent_count option" where
  "count_missing listed g =
     Option.bind (registry_records g) (\<lambda>r. map_option (\<lambda>s. torrent_count_counting
       (filter (\<lambda>hash. bt_get (session_torrents s) hash = None)
         (List.map_filter (\<lambda>row. identity_hash (record_identity row))
           (filter (\<lambda>row. record_desired row = Desired_Active) (records_records r))))) listed)"

definition assess :: "system_time \<Rightarrow> notification_facts \<Rightarrow> (condition \<times> status) list" where
  "assess now f =
     (let session = qbittorrent_session (nfacts_qbittorrent f);
          listed = opt_filter session_listed session;
          (vpn, blocked) = vpn_status now (nfacts_tunnel f)
      in [(Condition_VpnProtection, vpn),
          (Condition_FailoverBlocked, blocked),
          (Condition_ForwardedPort, forwarded_port_status (nfacts_port_forwarding f) (nfacts_tunnel f)),
          (Condition_QbittorrentReachable, reachable_condition (nfacts_qbittorrent f)),
          (Condition_QbittorrentVersion,
             case session of
               None \<Rightarrow> Status_Unchanged
             | Some s \<Rightarrow>
                 if session_approval s = MamApproval_NotAllowed
                 then Status_Active (Notice_QbittorrentVersionNotAllowed (session_version s))
                 else Status_Clear (Some (Notice_QbittorrentVersionAllowed (session_version s)))),
          (Condition_TorrentErrors,
             counted_status (count_in_state listed TorrentState_Error) Notice_TorrentErrors
               Notice_TorrentErrorsCleared),
          (Condition_FilesMissing,
             counted_status (count_in_state listed TorrentState_MissingFiles) Notice_FilesMissing
               Notice_FilesMissingCleared),
          (Condition_TorrentsMissing,
             counted_status (count_missing listed (nfacts_registry f)) Notice_TorrentsMissing
               Notice_TorrentsMissingCleared),
          (Condition_RegistrySave, registry_save_condition (nfacts_registry f)),
          (Condition_SeedingBehind,
             counted_status (seeding_behind now (nfacts_registry f)) Notice_SeedingBehind
               Notice_SeedingOnTrack)] @
         mam_conditions now (nfacts_mam f) (nfacts_reserve f))"

fun notifications_track_all ::
    "notifications \<Rightarrow> instant \<Rightarrow> (condition \<times> status) list \<Rightarrow> notifications \<times> notice list" where
  "notifications_track_all n now [] = (n, [])"
| "notifications_track_all n now ((condition, status) # rest) =
     (let (n, notice) = notifications_track n now condition status;
          (n, notices) = notifications_track_all n now rest
      in (n, opt_list notice @ notices))"

definition notifications_after_step ::
    "notifications \<Rightarrow> clock_reading \<Rightarrow> notice list \<Rightarrow> notification_facts \<Rightarrow> settings_state \<Rightarrow> timers \<Rightarrow>
     notifications \<times> timers \<times> action list" where
  "notifications_after_step n now happened f settings timers =
     (let (n, notices) = notifications_track_all n (monotonic now) (assess (wall now) f);
          (n, saves) = notifications_record_all n (map (Pair (wall now)) (notices @ happened));
          (n, timers, grace) = notifications_schedule_grace n (monotonic now) timers;
          (n, sending) = notifications_send n settings
      in (n, timers, saves @ grace @ sending))"

end
