(* ===== verification/Core.thy ===== *)
theory Core
  imports Notifications
begin

text \<open>
  The machine (\<open>core/machine.rs\<close>): every component's state, and \<open>Core::handle\<close>, which dispatches
  one event and then lets every component decide, in the order the code does. A panic, which only
  the port lease's multiplication can cause, is \<open>None\<close>.
\<close>

record core =
  core_state :: state
  core_settings :: settings_state
  core_history :: history_state
  core_port_forwarding :: port_forwarding
  core_qbittorrent :: qbittorrent
  core_registry :: registry
  core_tunnel :: tunnel
  core_mam :: mam
  core_notifications :: notifications
  core_timers :: timers
  core_step :: step

definition core_new :: core where
  "core_new =
     \<lparr>core_state = State_NotStarted, core_settings = SettingsState_Unread,
      core_history = HistoryState_Closed, core_port_forwarding = PortForwarding_Disabled,
      core_qbittorrent = Qbittorrent_Disabled, core_registry = Registry_Unread,
      core_tunnel = tunnel_new, core_mam = mam_new, core_notifications = notifications_new,
      core_timers = timers_new, core_step = step_zero\<rparr>"

subsection \<open>Dispatch\<close>

fun state_opening :: "state \<Rightarrow> bool" where
  "state_opening (State_OpeningStorage _) = True"
| "state_opening _ = False"

fun state_reading :: "state \<Rightarrow> bool" where
  "state_reading (State_ReadingMamPreference _) = True"
| "state_reading _ = False"

definition core_start_reading :: "core \<Rightarrow> core \<times> action list" where
  "core_start_reading c =
     (let (settings, a1) = settings_start_reading (core_settings c);
          (history, a2) = history_open (core_history c) (core_step c);
          (registry, a3) = registry_start_reading (core_registry c);
          (tunnel, a4) = tunnel_start_reading (core_tunnel c);
          (mam, a5) = mam_start_reading (core_mam c)
      in (c\<lparr>core_settings := settings, core_history := history, core_registry := registry,
            core_tunnel := tunnel, core_mam := mam\<rparr>,
          a1 @ a2 @ a3 @ a4 @ a5 @ [Action_ReadNoticeLog]))"

definition core_handle_startup :: "core \<Rightarrow> startup_event \<Rightarrow> core \<times> action list" where
  "core_handle_startup c e =
     (let opening = state_opening (core_state c);
          (state, actions) = startup_handle (core_state c) e;
          c = c\<lparr>core_state := state\<rparr>;
          (c, more) = (if opening \<and> state_reading state then core_start_reading c else (c, []));
          c = (if state = State_Failed
               then c\<lparr>core_notifications := notifications_log_unavailable (core_notifications c)\<rparr> else c)
      in (c, actions @ more))"

definition core_handle_mam :: "core \<Rightarrow> clock_reading \<Rightarrow> mam_event \<Rightarrow> core \<times> action list" where
  "core_handle_mam c now e =
     (let (mam, registry, actions, rotated) = mam_handle (core_mam c) now e (core_registry c);
          (settings, more) = (case rotated of
              Some cookie \<Rightarrow> settings_rotate (core_settings c) cookie
            | None \<Rightarrow> (core_settings c, []))
      in (c\<lparr>core_mam := mam, core_registry := registry, core_settings := settings\<rparr>, actions @ more))"

fun core_timer_expired :: "core \<Rightarrow> clock_reading \<Rightarrow> timer_name \<Rightarrow> timer_id \<Rightarrow> core \<times> action list" where
  "core_timer_expired c now TimerName_PortLease i =
     (let (p, actions) = port_forwarding_timer_expired (core_port_forwarding c) i
      in (c\<lparr>core_port_forwarding := p\<rparr>, actions))"
| "core_timer_expired c now TimerName_QbittorrentPoll i =
     (let (q, actions) = qbittorrent_timer_expired (core_qbittorrent c) i
      in (c\<lparr>core_qbittorrent := q\<rparr>, actions))"
| "core_timer_expired c now TimerName_TunnelCheck i =
     (let (t, actions) = tunnel_timer_expired (core_tunnel c) now i in (c\<lparr>core_tunnel := t\<rparr>, actions))"
| "core_timer_expired c now TimerName_NotificationGrace i =
     (c\<lparr>core_notifications := notifications_timer_expired (core_notifications c) i\<rparr>, [])"
| "core_timer_expired c now TimerName_NotificationRetry i =
     (c\<lparr>core_notifications := notifications_timer_expired (core_notifications c) i\<rparr>, [])"
| "core_timer_expired c now TimerName_Mam i =
     (c\<lparr>core_mam := mam_timer_expired (core_mam c) i\<rparr>, [])"

fun mapping_failed :: "port_forwarding_event \<Rightarrow> bool" where
  "mapping_failed (PortForwardingEvent_MappingFailed _) = True"
| "mapping_failed _ = False"

definition core_handle_port :: "core \<Rightarrow> clock_reading \<Rightarrow> port_forwarding_event \<Rightarrow> (core \<times> action list) option" where
  "core_handle_port c now e =
     map_option (\<lambda>(p, timers, actions).
       let (t, more) = (if mapping_failed e then tunnel_suspect (core_tunnel c) now else (core_tunnel c, []))
       in (c\<lparr>core_port_forwarding := p, core_timers := timers, core_tunnel := t\<rparr>, actions @ more))
     (port_forwarding_handle (core_port_forwarding c) now e (core_timers c))"

definition core_handle_tunnel :: "core \<Rightarrow> clock_reading \<Rightarrow> tunnel_event \<Rightarrow> core \<times> action list" where
  "core_handle_tunnel c now e =
     (let previous = tunnel_current (core_tunnel c);
          (t, timers, actions) = tunnel_handle (core_tunnel c) now e (core_timers c);
          c = c\<lparr>core_tunnel := t, core_timers := timers\<rparr>
      in if e = TunnelEvent_Switched \<and> tunnel_current t \<noteq> previous
         then (let (p, more) = port_forwarding_renew (core_port_forwarding c)
               in (c\<lparr>core_port_forwarding := p, core_mam := mam_vpn_switched (core_mam c)\<rparr>, actions @ more))
         else (c, actions))"

fun core_dispatch :: "core \<Rightarrow> clock_reading \<Rightarrow> event \<Rightarrow> (core \<times> action list) option" where
  "core_dispatch c now (Event_Startup e) = Some (core_handle_startup c e)"
| "core_dispatch c now (Event_MamPause e) =
     Some (let (state, actions) = mam_pause_handle (core_state c) e in (c\<lparr>core_state := state\<rparr>, actions))"
| "core_dispatch c now (Event_Settings e) =
     Some (let (s, actions) = settings_handle (core_settings c) e in (c\<lparr>core_settings := s\<rparr>, actions))"
| "core_dispatch c now (Event_History e) =
     Some (c\<lparr>core_history := history_handle (core_history c) (core_step c) e\<rparr>, [])"
| "core_dispatch c now (Event_TimerExpired name i) = Some (core_timer_expired c now name i)"
| "core_dispatch c now (Event_PortForwarding e) = core_handle_port c now e"
| "core_dispatch c now (Event_Qbittorrent e) =
     Some (let (q, timers, actions) = qbittorrent_handle (core_qbittorrent c) now e (core_timers c)
           in (c\<lparr>core_qbittorrent := q, core_timers := timers\<rparr>, actions))"
| "core_dispatch c now (Event_Registry e) =
     Some (let (g, actions) = registry_handle (core_registry c) (monotonic now) e
           in (c\<lparr>core_registry := g\<rparr>, actions))"
| "core_dispatch c now (Event_Tunnel e) = Some (core_handle_tunnel c now e)"
| "core_dispatch c now (Event_Notification e) =
     Some (let (n, timers, actions) = notifications_handle (core_notifications c) now e (core_timers c)
           in (c\<lparr>core_notifications := n, core_timers := timers\<rparr>, actions))"
| "core_dispatch c now (Event_Mam e) = Some (core_handle_mam c now e)"

subsection \<open>After the event\<close>

definition core_observe :: "core \<Rightarrow> clock_reading \<Rightarrow> core \<times> action list" where
  "core_observe c now =
     (case qbittorrent_deciding (core_qbittorrent c) of
        Some (session, DecidingAfter_Sync) \<Rightarrow>
          (let (g, actions) = registry_observe (core_registry c) now session
           in (c\<lparr>core_registry := g\<rparr>, actions))
      | _ \<Rightarrow> (c, []))"

fun protection_exit_ip :: "protection \<Rightarrow> ip_addr option" where
  "protection_exit_ip (Protection_Available exit_ip _) = Some exit_ip"
| "protection_exit_ip _ = None"

definition core_exit_ip :: "core \<Rightarrow> ip_addr option" where
  "core_exit_ip c = Option.bind (tunnel_watch (core_tunnel c)) (\<lambda>w. protection_exit_ip (watch_protection w))"

definition core_mam_context :: "core \<Rightarrow> mam_context" where
  "core_mam_context c =
     (let loaded = settings_loaded (core_settings c);
          session = qbittorrent_session (core_qbittorrent c)
      in \<lparr>context_requests = state_mam_requests (core_state c),
          context_protection = (if core_exit_ip c \<noteq> None then TunnelProtection_Protected
                                else TunnelProtection_Unprotected),
          context_cookie = Option.bind loaded usable_api_cookie,
          context_requested_cookie = Option.bind loaded (\<lambda>s. setting_requested (settings_api_cookie s)),
          context_reserve = settings_points_reserve_saved (core_settings c),
          context_readiness = (if is_some_and (\<lambda>s. session_listed s \<and> session_approval s \<noteq> MamApproval_NotAllowed)
                                    session
                               then ClientReadiness_Ready else ClientReadiness_NotReady),
          context_client_version = Option.bind session (\<lambda>s. reported_version_release (session_version s)),
          context_connection =
            \<lparr>connection_listen_port = Option.bind session (\<lambda>s. preferences_listen_port (session_preferences s)),
             connection_forwarded_port = forwarded_port (core_port_forwarding c),
             connection_tunnel_ip = core_exit_ip c,
             connection_interface = Option.bind session (\<lambda>s. preferences_interface (session_preferences s))\<rparr>,
          context_downloading_limit = limits_downloading
            (unwrap_or torrent_limits_default (settings_torrent_limits_saved (core_settings c))),
          context_registry = core_registry c\<rparr>)"

definition core_decide_mam :: "core \<Rightarrow> clock_reading \<Rightarrow> core \<times> action list" where
  "core_decide_mam c now =
     (let (m, timers, actions) = mam_decide (core_mam c) now (core_mam_context c) (core_timers c)
      in (c\<lparr>core_mam := m, core_timers := timers\<rparr>, actions))"

definition core_renew_lease :: "core \<Rightarrow> core \<times> action list" where
  "core_renew_lease c =
     (let (m, lease) = mam_take_lease_renewal (core_mam c); c = c\<lparr>core_mam := m\<rparr>
      in if lease = LeaseRenewal_Requested
         then (let (p, actions) = port_forwarding_renew (core_port_forwarding c)
               in (c\<lparr>core_port_forwarding := p\<rparr>, actions))
         else (c, []))"

definition core_wanted :: "core \<Rightarrow> wanted" where
  "core_wanted c =
     \<lparr>wanted_listen_port = forwarded_port (core_port_forwarding c),
      wanted_queue = map_option queue_for_limits (settings_torrent_limits_saved (core_settings c))\<rparr>"

definition core_decide_qbittorrent :: "core \<Rightarrow> clock_reading \<Rightarrow> core \<times> action list" where
  "core_decide_qbittorrent c now =
     (let (q, timers, g, actions) = qbittorrent_settle (core_qbittorrent c) now (core_timers c) (core_wanted c)
            (\<lambda>g session. registry_command g (monotonic now) session (mam_permits_download (core_mam c)))
            (core_registry c)
      in (c\<lparr>core_qbittorrent := q, core_timers := timers, core_registry := g\<rparr>, actions))"

fun state_startup :: "state \<Rightarrow> startup" where
  "state_startup State_Failed = Startup_Failed"
| "state_startup (State_Ready _) = Startup_Ready"
| "state_startup _ = Startup_Starting"

definition core_glance :: "core \<Rightarrow> glance" where
  "core_glance c = glance_of (core_tunnel c) (state_startup (core_state c))"

definition core_record_step :: "core \<Rightarrow> core \<times> action list" where
  "core_record_step c =
     (let (h, actions) = history_after_step (core_history c) (core_step c)
            (settings_history_limit_saved (core_settings c))
      in (c\<lparr>core_history := h\<rparr>, actions))"

definition core_notify :: "core \<Rightarrow> clock_reading \<Rightarrow> notice list \<Rightarrow> glance \<Rightarrow> core \<times> action list" where
  "core_notify c now notices before =
     (let notices = notices @ notifications_changed (core_notifications c) before (core_glance c);
          (m, taken) = mam_take_notices (core_mam c);
          c = c\<lparr>core_mam := m\<rparr>;
          facts = \<lparr>nfacts_tunnel = core_tunnel c, nfacts_port_forwarding = core_port_forwarding c,
                   nfacts_qbittorrent = core_qbittorrent c, nfacts_registry = core_registry c,
                   nfacts_mam = core_mam c, nfacts_reserve = settings_points_reserve_saved (core_settings c)\<rparr>;
          (n, timers, actions) = notifications_after_step (core_notifications c) now (notices @ taken) facts
            (core_settings c) (core_timers c)
      in (c\<lparr>core_notifications := n, core_timers := timers\<rparr>, actions))"

definition core_settle :: "core \<Rightarrow> clock_reading \<Rightarrow> notice list \<Rightarrow> glance \<Rightarrow> core \<times> action list" where
  "core_settle c now notices before =
     (let c = c\<lparr>core_port_forwarding := port_forwarding_expire (core_port_forwarding c) (monotonic now)\<rparr>;
          (c, a1) = core_observe c now;
          (c, a2) = core_decide_mam c now;
          (c, a3) = core_renew_lease c;
          (c, a4) = core_decide_qbittorrent c now;
          (c, a5) = core_record_step c;
          (c, a6) = core_notify c now notices before
      in (c, a1 @ a2 @ a3 @ a4 @ a5 @ a6))"

definition core_receive :: "core \<Rightarrow> event \<Rightarrow> core \<times> notice list" where
  "core_receive c e =
     (let c = c\<lparr>core_step := step_next (core_step c)\<rparr>;
          (n, notices) = notifications_reported (core_notifications c) e
      in (c\<lparr>core_notifications := n\<rparr>, notices))"

definition core_handle :: "core \<Rightarrow> clock_reading \<Rightarrow> event \<Rightarrow> (core \<times> action list) option" where
  "core_handle c now e =
     (let (c, notices) = core_receive c e; before = core_glance c
      in map_option (\<lambda>(c, actions).
           let (c, more) = core_settle c now notices before in (c, actions @ more))
         (core_dispatch c now e))"

end
