(* ===== verification/Ownership.thy ===== *)
theory Ownership
  imports Core
begin

text \<open>
  Every action belongs to the component that alone asks for it, and each component's operations
  ask only for its own (MAM work also saves registry rows). What the machine's operations ask for
  one component is then what that component's own operations ask for.
\<close>

datatype part =
    Part_Startup | Part_Settings | Part_History | Part_Port | Part_Qbittorrent | Part_Registry
  | Part_Tunnel | Part_Notifications | Part_Mam

fun timer_part :: "timer_name \<Rightarrow> part" where
  "timer_part TimerName_PortLease = Part_Port"
| "timer_part TimerName_QbittorrentPoll = Part_Qbittorrent"
| "timer_part TimerName_TunnelCheck = Part_Tunnel"
| "timer_part TimerName_NotificationGrace = Part_Notifications"
| "timer_part TimerName_NotificationRetry = Part_Notifications"
| "timer_part TimerName_Mam = Part_Mam"

fun action_part :: "action \<Rightarrow> part" where
  "action_part (Action_OpenStorage _) = Part_Startup"
| "action_part Action_ReadMamRequestMode = Part_Startup"
| "action_part (Action_WriteMamRequestMode _) = Part_Startup"
| "action_part Action_DeleteMamRequestMode = Part_Startup"
| "action_part Action_ReadSettings = Part_Settings"
| "action_part (Action_WriteHistoryLimit _) = Part_Settings"
| "action_part (Action_WriteApiCookie _) = Part_Settings"
| "action_part (Action_WriteNtfyTopic _) = Part_Settings"
| "action_part (Action_WritePointsReserve _) = Part_Settings"
| "action_part (Action_WriteTorrentLimits _) = Part_Settings"
| "action_part (Action_WriteRotatedApiCookie _) = Part_Settings"
| "action_part Action_OpenHistory = Part_History"
| "action_part (Action_TrimHistory _) = Part_History"
| "action_part (Action_StartTimer name _ _) = timer_part name"
| "action_part (Action_RequestPortMapping _) = Part_Port"
| "action_part Action_ConnectQbittorrent = Part_Qbittorrent"
| "action_part (Action_SyncQbittorrent _) = Part_Qbittorrent"
| "action_part Action_ReadQbittorrentPreferences = Part_Qbittorrent"
| "action_part (Action_SetQbittorrentListenPort _) = Part_Qbittorrent"
| "action_part (Action_SetQbittorrentQueue _) = Part_Qbittorrent"
| "action_part (Action_QbittorrentCommand _) = Part_Qbittorrent"
| "action_part Action_ReadTorrentRegistry = Part_Registry"
| "action_part (Action_SaveTorrents _) = Part_Registry"
| "action_part Action_CheckExitIp = Part_Tunnel"
| "action_part Action_ReadLastVpnSwitch = Part_Tunnel"
| "action_part (Action_SaveVpnSwitch _) = Part_Tunnel"
| "action_part (Action_SwitchVpnServer _) = Part_Tunnel"
| "action_part (Action_SendNotification _ _) = Part_Notifications"
| "action_part Action_ReadNoticeLog = Part_Notifications"
| "action_part (Action_SaveNotice _ _) = Part_Notifications"
| "action_part Action_ReadMamState = Part_Mam"
| "action_part (Action_SaveRegistrationAttempt _) = Part_Mam"
| "action_part (Action_SaveRatioGuard _) = Part_Mam"
| "action_part (Action_SaveReminder _) = Part_Mam"
| "action_part (Action_MamRequest _ _) = Part_Mam"

definition from_parts :: "part set \<Rightarrow> action list \<Rightarrow> bool" where
  "from_parts P actions \<longleftrightarrow> (\<forall>a \<in> set actions. action_part a \<in> P)"

lemma from_parts_simps [simp]:
  "from_parts P []" "from_parts P (a # as) \<longleftrightarrow> action_part a \<in> P \<and> from_parts P as"
  "from_parts P (as @ bs) \<longleftrightarrow> from_parts P as \<and> from_parts P bs"
  by (auto simp: from_parts_def)

named_theorems owned \<open>which part the actions of an operation belong to\<close>

subsection \<open>Startup and settings\<close>

lemma preference_update_owned [owned]: "from_parts {Part_Startup} (snd (preference_update p u))"
  by (cases u) (simp_all add: preference_update_def Let_def)

lemma preference_complete_owned [owned]: "from_parts {Part_Startup} (snd (preference_complete p completion))"
  by (simp add: preference_complete_def Let_def owned split: option.split)

lemma update_mam_preference_owned [owned]: "from_parts {Part_Startup} (snd (update_mam_preference s u))"
  by (cases s) (simp_all add: owned split_beta Let_def)

lemma mam_pause_owned [owned]:
  "from_parts {Part_Startup} (snd (startup_handle s e))" "from_parts {Part_Startup} (snd (mam_pause_handle s f))"
proof -
  show "from_parts {Part_Startup} (snd (startup_handle s e))" by (cases e; cases s) simp_all
  have "from_parts {Part_Startup} (snd (mam_pause_complete s completion))" for completion
    by (cases s) (simp_all add: owned split_beta Let_def)
  moreover have "from_parts {Part_Startup} (snd (mam_pause_loaded s saved))" for saved
    by (cases s) (simp_all add: owned Let_def split_beta split: option.split)
  ultimately show "from_parts {Part_Startup} (snd (mam_pause_handle s f))"
    by (cases f) (simp_all add: owned split: state.split)
qed

lemma settings_change_owned:
  assumes "\<And>s a. snd (f s) = Some a \<Longrightarrow> action_part a = Part_Settings"
  shows "from_parts {Part_Settings} (snd (settings_change st f))"
proof (cases st)
  case (SettingsState_Loaded s)
  with assms [of s] show ?thesis by (cases "snd (f s)") (simp_all add: split_beta Let_def)
qed simp_all

lemma on_setting_owned:
  "from_parts {Part_Settings} (snd (settings_change st (on_history_limit f)))"
  "from_parts {Part_Settings} (snd (settings_change st (on_api_cookie g)))"
  "from_parts {Part_Settings} (snd (settings_change st (on_ntfy_topic h)))"
  "from_parts {Part_Settings} (snd (settings_change st (on_points_reserve k)))"
  "from_parts {Part_Settings} (snd (settings_change st (on_torrent_limits l)))"
  by (rule settings_change_owned,
      auto simp: on_history_limit_def on_api_cookie_def on_ntfy_topic_def on_points_reserve_def
        on_torrent_limits_def Let_def split_beta)+

lemma settings_owned [owned]:
  "from_parts {Part_Settings} (snd (settings_start_reading st))"
  "from_parts {Part_Settings} (snd (settings_handle st e))"
  "from_parts {Part_Settings} (snd (settings_rotate st cookie))"
proof -
  show "from_parts {Part_Settings} (snd (settings_start_reading st))" by (simp add: settings_start_reading_def)
  show "from_parts {Part_Settings} (snd (settings_handle st e))"
    by (cases e) (simp_all add: on_setting_owned Let_def split: settings_state.split)
  show "from_parts {Part_Settings} (snd (settings_rotate st cookie))"
    unfolding settings_rotate_def by (rule settings_change_owned) (auto simp: Let_def split_beta)
qed

subsection \<open>History, port forwarding, the tunnel\<close>

lemma history_owned [owned]:
  "from_parts {Part_History} (snd (history_open h step))"
  "from_parts {Part_History} (snd (history_after_step h step limit))"
  by (simp add: history_open_def, cases h, simp_all add: Let_def split: option.split)

lemma port_owned [owned]:
  "port_forwarding_handle pf now e timers = Some r \<Longrightarrow> from_parts {Part_Port} (snd (snd r))"
  "from_parts {Part_Port} (snd (port_forwarding_timer_expired pf i))"
  "from_parts {Part_Port} (snd (port_forwarding_renew pf))"
proof -
  show "port_forwarding_handle pf now e timers = Some r \<Longrightarrow> from_parts {Part_Port} (snd (snd r))"
    by (induction pf now e timers rule: port_forwarding_handle.induct)
      (auto simp: port_forwarding_failed_eq Let_def split_beta split: if_splits option.splits)
  show "from_parts {Part_Port} (snd (port_forwarding_timer_expired pf i))" by (cases pf) simp_all
  show "from_parts {Part_Port} (snd (port_forwarding_renew pf))"
    by (induction pf rule: port_forwarding_renew.induct) simp_all
qed

lemma exit_ip_failed_owned:
  "from_parts {Part_Tunnel} (snd (snd (watch_exit_ip_failed w now allowance reason timers)))"
  by (cases rule: exit_ip_failed_cases
      [where w = w and now = now and allowance = allowance and reason = reason and timers = timers]) simp_all

lemma tunnel_owned [owned]:
  "from_parts {Part_Tunnel} (snd (tunnel_start_reading t))"
  "from_parts {Part_Tunnel} (snd (snd (tunnel_handle t now e timers)))"
  "from_parts {Part_Tunnel} (snd (tunnel_timer_expired t now i))"
  "from_parts {Part_Tunnel} (snd (tunnel_suspect t now))"
proof -
  show "from_parts {Part_Tunnel} (snd (tunnel_start_reading t))" by (simp add: tunnel_start_reading_def)
  show "from_parts {Part_Tunnel} (snd (snd (tunnel_handle t now e timers)))"
    by (cases e) (auto simp: tunnel_handle_def Let_def tunnel_with_def watch_exit_ip_observed_def
        watch_wait_eq split_beta exit_ip_failed_owned split: option.split failover.split last_switch.split)
  show "from_parts {Part_Tunnel} (snd (tunnel_timer_expired t now i))"
    by (simp add: tunnel_timer_expired_def split_beta Let_def split: option.split)
  show "from_parts {Part_Tunnel} (snd (tunnel_suspect t now))"
    by (simp add: tunnel_suspect_def split_beta Let_def split: option.split)
qed

subsection \<open>The client and the registry\<close>

lemma is_client_request_part: "is_client_request a \<Longrightarrow> action_part a = Part_Qbittorrent"
  by (cases a) simp_all

lemma qbittorrent_owned [owned]:
  "from_parts {Part_Qbittorrent} (snd (qbittorrent_timer_expired q i))"
  "from_parts {Part_Qbittorrent} (snd (snd (qbittorrent_handle q now e timers)))"
  "from_parts {Part_Qbittorrent} (snd (snd (snd (qbittorrent_settle q now timers wanted command r))))"
proof -
  show "from_parts {Part_Qbittorrent} (snd (qbittorrent_timer_expired q i))"
    by (simp add: qbittorrent_timer_expired_def split: qbittorrent.split)
  show "from_parts {Part_Qbittorrent} (snd (snd (qbittorrent_handle q now e timers)))"
    by (cases q; cases e)
      (auto simp: qbittorrent_handle_def qbittorrent_failed_eq session_wait_eq Let_def)
  obtain q1 t1 r1 a1 where d: "qbittorrent_decide q now timers wanted command r = (q1, t1, r1, a1)"
    by (metis surj_pair)
  then have "from_parts {Part_Qbittorrent} a1"
    by (cases rule: qbittorrent_decide_cases) (auto dest: is_client_request_part)
  moreover have "from_parts {Part_Qbittorrent} (snd (qbittorrent_follow_preferences q1 wanted))"
    by (cases rule: qbittorrent_follow_cases [of q1 wanted]) (auto dest: is_client_request_part)
  ultimately show "from_parts {Part_Qbittorrent} (snd (snd (snd (qbittorrent_settle q now timers wanted command r))))"
    by (simp add: qbittorrent_settle_def d split_beta Let_def)
qed

lemma records_save_owned: "from_parts {Part_Registry} (snd (records_save r now))"
  by (simp add: records_save_def Let_def)

lemma registry_owned [owned]:
  "from_parts {Part_Registry} (snd (registry_start_reading g))"
  "from_parts {Part_Registry} (snd (registry_handle g now e))"
  "from_parts {Part_Registry} (snd (registry_observe g reading session))"
proof -
  show "from_parts {Part_Registry} (snd (registry_start_reading g))" by (simp add: registry_start_reading_def)
  show "from_parts {Part_Registry} (snd (registry_handle g now e))"
    by (cases g; cases e)
      (auto simp: registry_handle_def registry_with_def records_save_owned records_redownload_def
        split: option.split)
  show "from_parts {Part_Registry} (snd (registry_observe g reading session))"
    by (simp add: registry_observe_def registry_with_def records_observe_def records_save_owned split: registry.split)
qed

subsection \<open>MAM work\<close>

lemma bookkeeping_part: "is_bookkeeping a \<Longrightarrow> action_part a \<in> {Part_Mam, Part_Registry}"
  by (cases a) auto

lemma quiet_owned: "quiet actions \<Longrightarrow> from_parts {Part_Mam, Part_Registry} actions"
  using bookkeeping_part by (auto simp: quiet_def list_all_iff from_parts_def)

lemma mam_owned [owned]:
  "from_parts {Part_Mam, Part_Registry} (snd (mam_start_reading m))"
  "from_parts {Part_Mam, Part_Registry} (fst (snd (snd (mam_handle m now e g))))"
  "from_parts {Part_Mam, Part_Registry} (snd (snd (mam_decide m now c timers)))"
proof -
  show "from_parts {Part_Mam, Part_Registry} (snd (mam_start_reading m))" by (simp add: mam_start_reading_def)
  have "mam_receive m now (MamInput_Event e) g =
      (fst (mam_handle m now e g), fst (snd (snd (mam_handle m now e g))))" by (simp add: split_beta Let_def)
  then show "from_parts {Part_Mam, Part_Registry} (fst (snd (snd (mam_handle m now e g))))"
    by (cases rule: mam_receive_cases) (auto intro: quiet_owned)
  obtain m1 t1 as where d: "mam_decide m now c timers = (m1, t1, as)" by (metis surj_pair)
  then have "from_parts {Part_Mam, Part_Registry} as"
    by (cases rule: mam_decide_cases) (auto intro: quiet_owned)
  with d show "from_parts {Part_Mam, Part_Registry} (snd (snd (mam_decide m now c timers)))" by simp
qed

subsection \<open>Notifications\<close>

lemma record_all_owned: "from_parts {Part_Notifications} (snd (notifications_record_all n xs))"
proof (induction xs arbitrary: n)
  case (Cons x xs)
  then show ?case
    by (cases x) (auto simp: Let_def split_beta notifications_record_def split: notice_log.splits)
qed simp

lemma send_owned: "from_parts {Part_Notifications} (snd (notifications_send n settings))"
  by (auto simp: notifications_send_def Let_def split: settings_state.splits option.splits list.splits)

lemma grace_owned: "from_parts {Part_Notifications} (snd (snd (notifications_schedule_grace n now timers)))"
  by (auto simp: notifications_schedule_grace_def Let_def split_beta split: option.splits)

lemma notifications_owned [owned]:
  "from_parts {Part_Notifications} (snd (snd (notifications_handle n now e timers)))"
  "from_parts {Part_Notifications} (snd (snd (notifications_after_step n now happened f settings timers)))"
proof -
  show "from_parts {Part_Notifications} (snd (snd (notifications_handle n now e timers)))"
    by (cases e; cases "notifications_log n"; cases "notifications_delivery n")
      (auto simp: notifications_handle_def Let_def split_beta record_all_owned)
  show "from_parts {Part_Notifications} (snd (snd (notifications_after_step n now happened f settings timers)))"
    by (simp add: notifications_after_step_def Let_def split_beta record_all_owned send_owned grace_owned)
qed

end
