(* ===== verification/Notice_Delivery.thy ===== *)
theory Notice_Delivery
  imports Notifications
begin

text \<open>
  The log and the outbox over whole runs: notices take consecutive places in the log, one push is
  delivered at a time, and the outbox is bounded. \<open>notifications_step\<close> is what one core step does
  to notifications: an event, a timer or neither, or startup failing, then \<open>after_step\<close>.
\<close>

datatype notification_input =
    NotificationInput_Event notification_event
  | NotificationInput_Timer timer_id
  | NotificationInput_StartupFailed
  | NotificationInput_Other

fun notifications_receive ::
    "notifications \<Rightarrow> clock_reading \<Rightarrow> notification_input \<Rightarrow> timers \<Rightarrow> notifications \<times> timers \<times> action list" where
  "notifications_receive n now (NotificationInput_Event e) timers = notifications_handle n now e timers"
| "notifications_receive n now (NotificationInput_Timer i) timers = (notifications_timer_expired n i, timers, [])"
| "notifications_receive n now NotificationInput_StartupFailed timers =
     (notifications_log_unavailable n, timers, [])"
| "notifications_receive n now NotificationInput_Other timers = (n, timers, [])"

type_synonym notification_step_input =
  "clock_reading \<times> notification_input \<times> notice list \<times> notification_facts \<times> settings_state"

fun notifications_step ::
    "notifications \<times> timers \<Rightarrow> notification_step_input \<Rightarrow> (notifications \<times> timers) \<times> action list" where
  "notifications_step (n, timers) (now, input, happened, f, settings) =
     (let (n, timers, actions) = notifications_receive n now input timers;
          (n, timers, more) = notifications_after_step n now happened f settings timers
      in ((n, timers), actions @ more))"

definition notifications_start :: "notifications \<times> timers" where
  "notifications_start = (notifications_new, timers_new)"

subsection \<open>What each operation leaves alone\<close>

lemma track_frame [simp]:
  "notifications_log (fst (notifications_track n now c s)) = notifications_log n"
  "notifications_outbox (fst (notifications_track n now c s)) = notifications_outbox n"
  "notifications_delivery (fst (notifications_track n now c s)) = notifications_delivery n"
  by (auto simp: notifications_track_def Let_def split: option.splits phase.splits status.splits)

lemma track_all_frame [simp]:
  "notifications_log (fst (notifications_track_all n now xs)) = notifications_log n"
  "notifications_outbox (fst (notifications_track_all n now xs)) = notifications_outbox n"
  "notifications_delivery (fst (notifications_track_all n now xs)) = notifications_delivery n"
  by (induction xs arbitrary: n) (auto simp: Let_def split_beta)

lemma enqueue_frame [simp]:
  "notifications_log (notifications_enqueue n p) = notifications_log n"
  "notifications_delivery (notifications_enqueue n p) = notifications_delivery n"
  by (simp_all add: notifications_enqueue_def Let_def)

lemma record_delivery [simp]:
  "notifications_delivery (fst (notifications_record n at notice)) = notifications_delivery n"
  by (simp add: notifications_record_def Let_def split: notice_log.splits)

lemma record_all_delivery [simp]:
  "notifications_delivery (fst (notifications_record_all n xs)) = notifications_delivery n"
  by (induction xs arbitrary: n) (auto simp: Let_def split_beta)

lemma grace_frame [simp]:
  "notifications_log (fst (notifications_schedule_grace n now timers)) = notifications_log n"
  "notifications_outbox (fst (notifications_schedule_grace n now timers)) = notifications_outbox n"
  "notifications_delivery (fst (notifications_schedule_grace n now timers)) = notifications_delivery n"
  by (simp_all add: notifications_schedule_grace_def Let_def split_beta split: option.splits)

lemma send_log [simp]: "notifications_log (fst (notifications_send n settings)) = notifications_log n"
  by (auto simp: notifications_send_def Let_def split: settings_state.splits option.splits list.splits)

lemma log_unavailable_delivery [simp]:
  "notifications_delivery (notifications_log_unavailable n) = notifications_delivery n"
  by (simp add: notifications_log_unavailable_def Let_def split: notice_log.splits)

lemma timer_expired_log [simp]:
  "notifications_log (notifications_timer_expired n i) = notifications_log n"
  by (simp add: notifications_timer_expired_def Let_def split: delivery.splits)

subsection \<open>The log\<close>

fun saved_id :: "action \<Rightarrow> nat option" where
  "saved_id (Action_SaveNotice entry _) = Some (unat (logged_id entry))"
| "saved_id _ = None"

definition saved_ids :: "action list \<Rightarrow> nat list" where
  "saved_ids actions = List.map_filter saved_id actions"

lemma saved_ids_simps [simp]:
  "saved_ids [] = []" "saved_ids (as @ bs) = saved_ids as @ saved_ids bs"
  "saved_ids (a # as) = opt_list (saved_id a) @ saved_ids as"
  by (auto simp: saved_ids_def List.map_filter_def)

text \<open>The places from \<open>first\<close> on; they stop at the largest number.\<close>

definition places :: "notice_id \<Rightarrow> nat \<Rightarrow> nat list" where
  "places first k = map (\<lambda>j. min (unat first + j) (2 ^ 64 - 1)) [0..<k]"

definition place_after :: "notice_id \<Rightarrow> nat \<Rightarrow> notice_id" where
  "place_after first k = (notice_id_following ^^ k) first"

lemma unat_following: "unat (notice_id_following i) = min (unat i + 1) (2 ^ 64 - 1)"
  by (simp add: notice_id_following_def unat_sat)

lemma unat_place_after: "unat (place_after first k) = min (unat first + k) (2 ^ 64 - 1)"
proof (induction k)
  case 0
  have "unat first < 2 ^ LENGTH(64)" by (rule unsigned_less)
  then show ?case by (simp add: place_after_def)
next
  case (Suc k)
  then show ?case by (auto simp: place_after_def unat_following)
qed

lemma places_add: "places first (j + k) = places first j @ places (place_after first j) k"
  unfolding places_def unat_place_after
  by (rule nth_equalityI) (auto simp: nth_append)

lemma place_after_add: "place_after (place_after first j) k = place_after first (j + k)"
  by (simp add: place_after_def add.commute [of j k] funpow_add)

lemma place_after_simps [simp]:
  "places first 0 = []" "place_after first 0 = first" "length (places first k) = k"
  by (simp_all add: places_def place_after_def)

text \<open>A log that is ready gives the next places, whatever is done.\<close>

definition logs_in_order :: "notice_log \<Rightarrow> notice_log \<Rightarrow> action list \<Rightarrow> bool" where
  "logs_in_order before after actions \<longleftrightarrow>
     (\<forall>first. before = NoticeLog_Ready first \<longrightarrow>
        saved_ids actions = places first (length (saved_ids actions)) \<and>
        after = NoticeLog_Ready (place_after first (length (saved_ids actions))))"

lemma logs_in_order_trans:
  "logs_in_order a b xs \<Longrightarrow> logs_in_order b c ys \<Longrightarrow> logs_in_order a c (xs @ ys)"
  unfolding logs_in_order_def by (auto simp: places_add place_after_add)

lemma logs_in_order_silent: "saved_ids actions = [] \<Longrightarrow> logs_in_order a a actions"
  by (simp add: logs_in_order_def)

lemma record_logs:
  "logs_in_order (notifications_log n) (notifications_log (fst (notifications_record n at notice)))
     (opt_list (snd (notifications_record n at notice)))"
proof -
  have "unat i \<le> 2 ^ 64 - 1" for i :: notice_id
    using unat_place_after [of i 0] by simp
  then show ?thesis
    by (auto simp: logs_in_order_def notifications_record_def Let_def places_def place_after_def)
qed

lemma record_all_logs:
  "logs_in_order (notifications_log n) (notifications_log (fst (notifications_record_all n xs)))
     (snd (notifications_record_all n xs))"
proof (induction xs arbitrary: n)
  case (Cons x xs)
  obtain at notice where x: "x = (at, notice)" by (cases x)
  from logs_in_order_trans [OF record_logs [of n at notice] Cons.IH] show ?case
    by (simp add: x Let_def split_beta)
qed (simp add: logs_in_order_silent)

text \<open>Inputs after which a log that is ready stays so.\<close>

fun keeps_log :: "notification_step_input \<Rightarrow> bool" where
  "keeps_log (_, NotificationInput_Event NotificationEvent_LogReadFailed, _) = False"
| "keeps_log (_, NotificationInput_StartupFailed, _) = False"
| "keeps_log _ = True"

lemma after_step_logs:
  "logs_in_order (notifications_log n) (notifications_log (fst (notifications_after_step n now happened f s timers)))
     (snd (snd (notifications_after_step n now happened f s timers)))"
proof -
  define n1 where "n1 = fst (notifications_track_all n (monotonic now) (assess (wall now) f))"
  define xs where "xs = map (Pair (wall now)) (snd (notifications_track_all n (monotonic now) (assess (wall now) f)) @ happened)"
  define n2 where "n2 = fst (notifications_record_all n1 xs)"
  define n3 where "n3 = fst (notifications_schedule_grace n2 (monotonic now) timers)"
  have quiet: "saved_ids (snd (snd (notifications_schedule_grace n2 (monotonic now) timers))) = []"
    "saved_ids (snd (notifications_send n3 s)) = []"
    by (auto simp: notifications_schedule_grace_def notifications_send_def Let_def split_beta
        split: option.splits settings_state.splits list.splits)
  have "logs_in_order (notifications_log n) (notifications_log n2) (snd (notifications_record_all n1 xs))"
    using record_all_logs [of n1 xs] by (simp add: n1_def n2_def)
  from logs_in_order_trans [OF this logs_in_order_silent] quiet show ?thesis
    by (simp add: notifications_after_step_def Let_def split_beta n1_def n2_def n3_def xs_def)
qed

lemma receive_logs:
  assumes "keeps_log (now, input, rest)"
  shows "logs_in_order (notifications_log n) (notifications_log (fst (notifications_receive n now input timers)))
    (snd (snd (notifications_receive n now input timers)))"
proof (cases input)
  case (NotificationInput_Event e)
  with assms show ?thesis
    by (cases e; cases "notifications_log n"; cases "notifications_delivery n")
      (auto simp: notifications_handle_def Let_def split_beta logs_in_order_def)
qed (use assms in \<open>simp_all add: logs_in_order_silent\<close>)

lemma step_logs:
  assumes "keeps_log i"
  shows "logs_in_order (notifications_log (fst s)) (notifications_log (fst (fst (notifications_step s i))))
    (snd (notifications_step s i))"
proof -
  obtain n timers now input happened f settings where s: "s = (n, timers)"
    and i: "i = (now, input, happened, f, settings)" by (metis surj_pair)
  let ?r = "notifications_receive n now input timers"
  from logs_in_order_trans [OF receive_logs [OF assms [unfolded i], of n timers]
      after_step_logs [of "fst ?r" now happened f settings "fst (snd ?r)"]]
  show ?thesis by (simp add: s i Let_def split_beta)
qed

lemma run_logs:
  assumes "list_all keeps_log is"
  shows "logs_in_order (notifications_log (fst s)) (notifications_log (fst (fst (run notifications_step s is))))
    (concat (snd (run notifications_step s is)))"
  using assms
proof (induction "is" arbitrary: s)
  case (Cons i "is")
  from logs_in_order_trans [OF step_logs [of i s] Cons.IH [of "fst (notifications_step s i)"]] Cons.prems
  show ?case by (simp add: Let_def split_beta del: notifications_step.simps)
qed (simp add: logs_in_order_silent)

text \<open>
  Notices take consecutive places in the log, across restarts: from the newest place read at
  startup on, whatever happens unless the log is lost, the notices saved (those that waited for
  the log first) have the places that follow it, without a gap and without a place used twice
  below the largest number.
\<close>

theorem notices_take_consecutive_places:
  assumes "notifications_log n = NoticeLog_Waiting waiting"
    and "notifications_handle n now (NotificationEvent_LogRead prev) timers = (n', timers', actions)"
    and "list_all keeps_log inputs"
    and "k = length (saved_ids (actions @ concat (snd (run notifications_step (n', timers') inputs))))"
    and "(case prev of None \<Rightarrow> 0 | Some i \<Rightarrow> unat i) + k < 2 ^ 64"
  shows "saved_ids (actions @ concat (snd (run notifications_step (n', timers') inputs))) =
    [Suc (case prev of None \<Rightarrow> 0 | Some i \<Rightarrow> unat i)..<Suc ((case prev of None \<Rightarrow> 0 | Some i \<Rightarrow> unat i) + k)]"
proof -
  define first where "first = (case prev of None \<Rightarrow> notice_id_first | Some i \<Rightarrow> notice_id_following i)"
  have "logs_in_order (NoticeLog_Ready first) (notifications_log n') actions"
    using assms(1,2) record_all_logs [of "n\<lparr>notifications_log := NoticeLog_Ready first\<rparr>" waiting]
    by (auto simp: notifications_handle_def first_def Let_def split_beta)
  from logs_in_order_trans [OF this] run_logs [OF assms(3), of "(n', timers')"]
  have "saved_ids (actions @ concat (snd (run notifications_step (n', timers') inputs))) = places first k"
    unfolding logs_in_order_def assms(4) by fastforce
  moreover have "unat first = Suc (case prev of None \<Rightarrow> 0 | Some i \<Rightarrow> unat i)" if "k \<noteq> 0"
    using assms(5) that by (auto simp: first_def unat_following notice_id_first_def split: option.splits)
  moreover have "places first k = map (\<lambda>j. j + Suc b) [0..<k]" if "unat first = Suc b" "b + k < 2 ^ 64" for b
    using that by (auto simp: places_def)
  moreover have "map (\<lambda>j. j + Suc b) [0..<k] = [Suc b..<Suc (b + k)]" for b
    using map_add_upt [of "Suc b" k] by (simp add: add.commute)
  ultimately show ?thesis using assms(5) by (cases "k = 0") (simp_all del: upt_Suc)
qed

definition witness_facts_idle :: notification_facts where
  "witness_facts_idle = \<lparr>nfacts_tunnel = tunnel_new, nfacts_port_forwarding = PortForwarding_Disabled,
     nfacts_qbittorrent = Qbittorrent_Disabled, nfacts_registry = Registry_Unread, nfacts_mam = mam_new,
     nfacts_reserve = None\<rparr>"

lemma witness_nothing_lasting:
  "notifications_track_all (n\<lparr>notifications_conditions := []\<rparr>) now (assess at witness_facts_idle)
     = (n\<lparr>notifications_conditions := []\<rparr>, [])"
proof -
  have quiet: "notifications_track_all (n\<lparr>notifications_conditions := []\<rparr>) now xs = (n\<lparr>notifications_conditions := []\<rparr>, [])"
    if "list_all (\<lambda>(c, s). \<forall>notice. s \<noteq> Status_Active notice) xs" for xs
    using that by (induction xs) (auto simp: notifications_track_def split: status.splits)
  show ?thesis
    by (rule quiet) (simp add: assess_def witness_facts_idle_def vpn_status_def tunnel_new_def count_in_state_def
        count_missing_def seeding_behind_def mam_conditions_def mam_new_def read_status_def account_data_def account_new_def
        seedbox_new_def network_new_def network_current_def failure_any_def failure_none_def acquisition_new_def
        account_unresolved_purchase_def account_vip_ending_def)
qed

theorem notices_take_consecutive_places_witness:
  "saved_ids ([] @ concat (snd (run notifications_step
       (notifications_new\<lparr>notifications_log := NoticeLog_Ready 8\<rparr>, timers_new)
       [(\<lparr>monotonic = 1, wall = 2\<rparr>, NotificationInput_Other, [Notice_Test, Notice_StartupFailed],
         witness_facts_idle, SettingsState_Unread)]))) = [8, 9]"
proof -
  let ?inputs = "[(\<lparr>monotonic = 1, wall = 2\<rparr>, NotificationInput_Other, [Notice_Test, Notice_StartupFailed],
         witness_facts_idle, SettingsState_Unread)]"
  let ?n = "notifications_new\<lparr>notifications_log := NoticeLog_Ready 8\<rparr>"
  have read: "notifications_handle notifications_new \<lparr>monotonic = 0, wall = 0\<rparr> (NotificationEvent_LogRead (Some 7)) timers_new
      = (?n, timers_new, [])"
    by (simp add: notifications_handle_def notifications_new_def notice_id_following_def sat_add_def)
  have "length (saved_ids ([] @ concat (snd (run notifications_step (?n, timers_new) ?inputs)))) = 2"
    using witness_nothing_lasting [of ?n 1 2]
    by (simp add: notifications_after_step_def notifications_record_def notifications_enqueue_def
        notifications_schedule_grace_def notifications_send_def notifications_new_def Let_def split_beta)
  from notices_take_consecutive_places [OF _ read _ this [symmetric]] show ?thesis
    by (simp add: notifications_new_def)
qed

subsection \<open>One delivery at a time\<close>

fun sending :: "notifications \<times> timers \<Rightarrow> bool" where
  "sending (n, timers) = (case notifications_delivery n of Delivery_Sending _ \<Rightarrow> True | _ \<Rightarrow> False)"

fun is_push :: "action \<Rightarrow> bool" where
  "is_push (Action_SendNotification _ _) = True"
| "is_push _ = False"

fun is_push_answer :: "notification_step_input \<Rightarrow> bool" where
  "is_push_answer (_, NotificationInput_Event NotificationEvent_Delivered, _) = True"
| "is_push_answer (_, NotificationInput_Event (NotificationEvent_DeliveryFailed _), _) = True"
| "is_push_answer _ = False"

lemma record_all_pushless [simp]: "sent is_push (snd (notifications_record_all n xs)) = 0"
proof (induction xs arbitrary: n)
  case (Cons x xs)
  then show ?case
    by (cases x) (auto simp: Let_def split_beta notifications_record_def split: notice_log.splits)
qed simp

lemma grace_pushless [simp]: "sent is_push (snd (snd (notifications_schedule_grace n now timers))) = 0"
  by (auto simp: notifications_schedule_grace_def Let_def split_beta split: option.splits)

lemma send_flight:
  "sent is_push (snd (notifications_send n settings)) + of_bool (sending (n, timers))
     \<le> (of_bool (sending (fst (notifications_send n settings), timers')) :: nat)"
  by (auto simp: notifications_send_def Let_def split: settings_state.splits option.splits list.splits delivery.splits)

lemma sending_delivery: "notifications_delivery n = notifications_delivery m \<Longrightarrow> sending (n, t) = sending (m, t')"
  by simp

lemma after_step_flight:
  "sent is_push (snd (snd (notifications_after_step n now happened f settings timers))) + of_bool (sending (n, t))
     \<le> (of_bool (sending (fst (notifications_after_step n now happened f settings timers), t')) :: nat)"
proof -
  define m where "m = fst (notifications_schedule_grace (fst (notifications_record_all
      (fst (notifications_track_all n (monotonic now) (assess (wall now) f)))
      (map (Pair (wall now)) (snd (notifications_track_all n (monotonic now) (assess (wall now) f)) @ happened))))
      (monotonic now) timers)"
  have "notifications_delivery m = notifications_delivery n" by (simp add: m_def)
  moreover have "fst (notifications_after_step n now happened f settings timers) = fst (notifications_send m settings)"
    "sent is_push (snd (snd (notifications_after_step n now happened f settings timers))) =
       sent is_push (snd (notifications_send m settings))"
    by (simp_all add: notifications_after_step_def Let_def split_beta m_def)
  ultimately show ?thesis using send_flight [of m settings t t'] sending_delivery [of n m t t] by simp
qed

lemma receive_flight:
  "sent is_push (snd (snd (notifications_receive n now input timers))) + of_bool (sending (n, t))
     \<le> of_bool (sending (fst (notifications_receive n now input timers), t')) +
       (of_bool (is_push_answer (now, input, rest)) :: nat)"
proof (cases input)
  case (NotificationInput_Event e)
  then show ?thesis
    by (cases e; cases "notifications_log n"; cases "notifications_delivery n")
      (auto simp: notifications_handle_def Let_def split_beta)
qed (auto simp: notifications_timer_expired_def Let_def split: delivery.splits)

interpretation pushes: single_flight notifications_step notifications_start "\<lambda>_. True" "\<lambda>_. True"
  sending is_push is_push_answer
proof (unfold_locales, goal_cases)
  case (3 s i)
  obtain n timers now input happened f settings where s: "s = (n, timers)"
    and i: "i = (now, input, happened, f, settings)" by (metis surj_pair)
  let ?r = "notifications_receive n now input timers"
  let ?a = "notifications_after_step (fst ?r) now happened f settings (fst (snd ?r))"
  show ?case
    using receive_flight [of n now input timers timers "fst (snd ?r)" "(happened, f, settings)"]
      after_step_flight [of "fst ?r" now happened f settings "fst (snd ?r)" "fst (snd ?r)" "fst (snd ?a)"]
    by (simp add: s i Let_def split_beta del: sending.simps)
qed auto

text \<open>
  One push is delivered at a time: over any sequence of notices, answers, timers and settings,
  the pushes sent outnumber the answers received by at most one.
\<close>

theorem pushes_do_not_overlap:
  "sent is_push (concat (snd (run notifications_step notifications_start inputs)))
     \<le> 1 + length (filter is_push_answer inputs)"
  by (rule pushes.sent_at_most) (simp add: list_all_iff)

subsection \<open>The outbox is bounded\<close>

definition outbox_ok :: "notifications \<Rightarrow> bool" where
  "outbox_ok n \<longleftrightarrow>
     length (notifications_outbox n) \<le> OUTBOX_LIMIT + of_bool (notifications_delivery n = Delivery_Idle)"

lemma enqueue_ok: "outbox_ok n \<Longrightarrow> outbox_ok (notifications_enqueue n p)"
  by (cases "notifications_outbox n")
    (auto simp: outbox_ok_def notifications_enqueue_def Let_def OUTBOX_LIMIT_def)

lemma record_all_ok: "outbox_ok n \<Longrightarrow> outbox_ok (fst (notifications_record_all n xs))"
proof (induction xs arbitrary: n)
  case (Cons x xs)
  obtain at notice where x: "x = (at, notice)" by (cases x)
  have "outbox_ok (n\<lparr>notifications_log := l\<rparr>)" for l using Cons.prems by (simp add: outbox_ok_def)
  then have "outbox_ok (fst (notifications_record n at notice))"
    using Cons.prems by (auto simp: notifications_record_def Let_def intro: enqueue_ok split: notice_log.splits)
  with Cons.IH show ?case by (simp add: x Let_def split_beta)
qed simp

lemma log_change_ok [simp]: "outbox_ok (n\<lparr>notifications_log := l\<rparr>) = outbox_ok n"
  by (simp add: outbox_ok_def)

lemma receive_ok:
  assumes "outbox_ok n"
  shows "outbox_ok (fst (notifications_receive n now input timers))"
proof (cases input)
  case (NotificationInput_Event e)
  with assms show ?thesis
    by (cases e; cases "notifications_log n"; cases "notifications_delivery n")
      (auto simp: notifications_handle_def notifications_log_unavailable_def Let_def split_beta
        intro!: record_all_ok, auto simp: outbox_ok_def)
next
  case (NotificationInput_Timer i)
  with assms show ?thesis
    by (auto simp: notifications_timer_expired_def outbox_ok_def Let_def split: delivery.splits)
next
  case NotificationInput_StartupFailed
  with assms show ?thesis
    by (auto simp: notifications_log_unavailable_def Let_def intro!: record_all_ok split: notice_log.splits)
qed (use assms in simp)

fun settings_read :: "settings_state \<Rightarrow> bool" where
  "settings_read SettingsState_Unread = False"
| "settings_read SettingsState_Reading = False"
| "settings_read _ = True"

lemma send_ok:
  assumes "outbox_ok n"
  shows "outbox_ok (fst (notifications_send n settings))"
    and "settings_read settings \<Longrightarrow>
      length (notifications_outbox (fst (notifications_send n settings))) \<le> OUTBOX_LIMIT"
  using assms
  by (auto simp: notifications_send_def outbox_ok_def Let_def
      split: settings_state.splits option.splits list.splits)

lemma after_step_ok:
  assumes "outbox_ok n"
  shows "outbox_ok (fst (notifications_after_step n now happened f settings timers))"
    and "settings_read settings \<Longrightarrow>
      length (notifications_outbox (fst (notifications_after_step n now happened f settings timers))) \<le> OUTBOX_LIMIT"
proof -
  define m where "m = fst (notifications_schedule_grace (fst (notifications_record_all
      (fst (notifications_track_all n (monotonic now) (assess (wall now) f)))
      (map (Pair (wall now)) (snd (notifications_track_all n (monotonic now) (assess (wall now) f)) @ happened))))
      (monotonic now) timers)"
  have "outbox_ok (fst (notifications_track_all n (monotonic now) (assess (wall now) f)))"
    using assms by (simp add: outbox_ok_def)
  from record_all_ok [OF this] have "outbox_ok m" by (simp add: outbox_ok_def m_def)
  from send_ok [OF this, of settings]
  show "outbox_ok (fst (notifications_after_step n now happened f settings timers))"
    and "settings_read settings \<Longrightarrow>
      length (notifications_outbox (fst (notifications_after_step n now happened f settings timers))) \<le> OUTBOX_LIMIT"
    by (simp_all add: notifications_after_step_def Let_def split_beta m_def)
qed

interpretation outbox: invariant_machine notifications_step notifications_start "\<lambda>_. True" "\<lambda>s. outbox_ok (fst s)"
proof (unfold_locales, goal_cases)
  case 1
  show ?case by (simp add: notifications_start_def notifications_new_def outbox_ok_def)
next
  case (2 s i)
  obtain n timers now input happened f settings where s: "s = (n, timers)"
    and i: "i = (now, input, happened, f, settings)" by (metis surj_pair)
  from 2 show ?case
    using after_step_ok(1) [OF receive_ok] by (simp add: s i Let_def split_beta)
qed

text \<open>
  The outbox is bounded: after any sequence of steps at most 51 pushes wait, and at most 50
  whenever one is being delivered or the last step had settings to send or discard by.
\<close>

theorem outbox_is_bounded:
  "let n = fst (fst (run notifications_step notifications_start (inputs @ [(now, input, happened, f, settings)])))
   in length (notifications_outbox n) \<le>
        50 + of_bool (\<not> settings_read settings \<and> notifications_delivery n = Delivery_Idle)"
proof -
  obtain n timers where s: "fst (run notifications_step notifications_start inputs) = (n, timers)"
    by (cases "fst (run notifications_step notifications_start inputs)")
  with outbox.inv_run [of inputs] have "outbox_ok n" by (simp add: list_all_iff)
  then have "outbox_ok (fst (notifications_receive n now input timers))" by (rule receive_ok)
  note after_step_ok(1) [OF this, of now happened f settings "fst (snd (notifications_receive n now input timers))"]
    after_step_ok(2) [OF this, of settings now happened f "fst (snd (notifications_receive n now input timers))"]
  with s
  show ?thesis
    by (auto simp: run_append Let_def split_beta outbox_ok_def OUTBOX_LIMIT_def)
qed

end
