(* ===== verification/Core_Traffic.thy ===== *)
theory Core_Traffic
  imports Ownership Notice_Delivery
begin

text \<open>
  The machine over whole runs: every service gets one request at a time. \<open>core_traffic\<close> is what a
  kind of request owes to each operation of the machine; it is interpreted for each kind on the
  machine's own operations, from what the component that owns the kind shows of itself.
\<close>

text \<open>One event at one clock reading; the event that panics leaves the machine where it was.\<close>

fun machine_step :: "core \<Rightarrow> clock_reading \<times> event \<Rightarrow> core \<times> action list" where
  "machine_step c (now, e) = (case core_handle c now e of Some r \<Rightarrow> r | None \<Rightarrow> (c, []))"

subsection \<open>What holds between events\<close>

fun unstarted :: "state \<Rightarrow> bool" where
  "unstarted State_NotStarted = True"
| "unstarted (State_OpeningStorage _) = True"
| "unstarted _ = False"

definition core_ok :: "core \<Rightarrow> bool" where
  "core_ok c \<longleftrightarrow>
     tunnel_inv (core_tunnel c, timers_new) \<and>
     (unstarted (core_state c) \<longrightarrow>
        tunnel_last_switch (core_tunnel c) = LastSwitch_Unread \<and> core_history c = HistoryState_Closed)"

definition core_inv :: "core \<Rightarrow> bool" where
  "core_inv c \<longleftrightarrow> core_ok c \<and> qbittorrent_deciding (core_qbittorrent c) = None"

text \<open>A calendar time to which an hour can be added, and a saved switch with such a time.\<close>

fun machine_input_ok :: "clock_reading \<times> event \<Rightarrow> bool" where
  "machine_input_ok (now, Event_Tunnel e) \<longleftrightarrow> time_spaced (wall now) \<and> tunnel_event_ok e"
| "machine_input_ok (now, _) \<longleftrightarrow> time_spaced (wall now)"

subsection \<open>The machine in parts\<close>

definition settle_expire :: "core \<Rightarrow> clock_reading \<Rightarrow> core" where
  "settle_expire c now = c\<lparr>core_port_forwarding := port_forwarding_expire (core_port_forwarding c) (monotonic now)\<rparr>"

lemma core_settle_parts:
  obtains c1 a1 c2 a2 c3 a3 c4 a4 c5 a5 c6 a6 where
    "core_observe (settle_expire c now) now = (c1, a1)" "core_decide_mam c1 now = (c2, a2)"
    "core_renew_lease c2 = (c3, a3)" "core_decide_qbittorrent c3 now = (c4, a4)"
    "core_record_step c4 = (c5, a5)" "core_notify c5 now notices before = (c6, a6)"
    "core_settle c now notices before = (c6, a1 @ a2 @ a3 @ a4 @ a5 @ a6)"
proof -
  obtain c1 a1 where "core_observe (settle_expire c now) now = (c1, a1)" by (metis surj_pair)
  moreover obtain c2 a2 where "core_decide_mam c1 now = (c2, a2)" by (metis surj_pair)
  moreover obtain c3 a3 where "core_renew_lease c2 = (c3, a3)" by (metis surj_pair)
  moreover obtain c4 a4 where "core_decide_qbittorrent c3 now = (c4, a4)" by (metis surj_pair)
  moreover obtain c5 a5 where "core_record_step c4 = (c5, a5)" by (metis surj_pair)
  moreover obtain c6 a6 where "core_notify c5 now notices before = (c6, a6)" by (metis surj_pair)
  ultimately show ?thesis using that by (simp add: core_settle_def settle_expire_def)
qed

lemma machine_step_cases:
  obtains (panic) "core_handle c now e = None" "machine_step c (now, e) = (c, [])"
  | (step) c1 a1 c2 a2 where "core_dispatch (fst (core_receive c e)) now e = Some (c1, a1)"
      "core_settle c1 now (snd (core_receive c e)) (core_glance (fst (core_receive c e))) = (c2, a2)"
      "core_handle c now e = Some (c2, a1 @ a2)" "machine_step c (now, e) = (c2, a1 @ a2)"
proof (cases "core_dispatch (fst (core_receive c e)) now e")
  case None
  then show ?thesis using panic by (simp add: core_handle_def split_beta Let_def)
next
  case (Some r)
  obtain c1 a1 where r: "r = (c1, a1)" by (cases r)
  obtain c2 a2 where s: "core_settle c1 now (snd (core_receive c e)) (core_glance (fst (core_receive c e))) = (c2, a2)"
    by (metis surj_pair)
  from Some r s have "core_handle c now e = Some (c2, a1 @ a2)"
    by (simp add: core_handle_def split_beta Let_def)
  with Some r s show ?thesis using step by simp
qed

subsection \<open>The contract of one kind of request\<close>

text \<open>The requests sent balance: one more than before is outstanding, unless an answer came.\<close>

definition balanced :: "(action \<Rightarrow> bool) \<Rightarrow> (core \<Rightarrow> bool) \<Rightarrow> bool \<Rightarrow> core \<Rightarrow> core \<times> action list \<Rightarrow> bool" where
  "balanced sends busy answered c r \<longleftrightarrow>
     sent sends (snd r) + of_bool (busy c) \<le> of_bool (busy (fst r)) + (of_bool answered :: nat)"

lemma balanced_silent: "sent sends actions = 0 \<Longrightarrow> busy c' = busy c \<Longrightarrow> balanced sends busy answered c (c', actions)"
  by (simp add: balanced_def)

lemma balanced_trans:
  "balanced sends busy answered c (c', as) \<Longrightarrow> balanced sends busy False c' (c'', bs) \<Longrightarrow>
     balanced sends busy answered c (c'', as @ bs)"
  by (simp add: balanced_def)

locale core_traffic =
  fixes sends :: "action \<Rightarrow> bool"
    and busy :: "core \<Rightarrow> bool"
    and answers :: "event \<Rightarrow> bool"
  assumes receive: "busy (fst (core_receive c e)) = busy c"
    and dispatch: "core_inv c \<Longrightarrow> machine_input_ok (now, e) \<Longrightarrow> core_dispatch c now e = Some r \<Longrightarrow>
      balanced sends busy (answers e) c r"
    and expire: "busy (settle_expire c now) = busy c"
    and observe: "balanced sends busy False c (core_observe c now)"
    and decide_mam: "balanced sends busy False c (core_decide_mam c now)"
    and renew_lease: "balanced sends busy False c (core_renew_lease c)"
    and decide_qbittorrent: "balanced sends busy False c (core_decide_qbittorrent c now)"
    and record_step: "balanced sends busy False c (core_record_step c)"
    and notify: "balanced sends busy False c (core_notify c now notices before)"
begin

lemma settle: "balanced sends busy False c (core_settle c now notices before)"
proof -
  obtain c1 a1 c2 a2 c3 a3 c4 a4 c5 a5 c6 a6 where parts:
    "core_observe (settle_expire c now) now = (c1, a1)" "core_decide_mam c1 now = (c2, a2)"
    "core_renew_lease c2 = (c3, a3)" "core_decide_qbittorrent c3 now = (c4, a4)"
    "core_record_step c4 = (c5, a5)" "core_notify c5 now notices before = (c6, a6)"
    "core_settle c now notices before = (c6, a1 @ a2 @ a3 @ a4 @ a5 @ a6)"
    by (rule core_settle_parts)
  have s1: "balanced sends busy False c (c1, a1)"
    using observe [of "settle_expire c now" now] expire parts(1) by (simp add: balanced_def)
  have s2: "balanced sends busy False c1 (c2, a2)" using decide_mam [of c1 now] parts(2) by simp
  have s3: "balanced sends busy False c2 (c3, a3)" using renew_lease [of c2] parts(3) by simp
  have s4: "balanced sends busy False c3 (c4, a4)" using decide_qbittorrent [of c3 now] parts(4) by simp
  have s5: "balanced sends busy False c4 (c5, a5)" using record_step [of c4] parts(5) by simp
  have s6: "balanced sends busy False c5 (c6, a6)" using notify [of c5 now notices before] parts(6) by simp
  show ?thesis
    unfolding parts(7)
    by (rule balanced_trans [OF s1 balanced_trans [OF s2 balanced_trans [OF s3
        balanced_trans [OF s4 balanced_trans [OF s5 s6]]]]])
qed

lemma step_balanced:
  assumes "core_inv c" and "machine_input_ok i"
  shows "balanced sends busy (answers (snd i)) c (machine_step c i)"
proof -
  obtain now e where i: "i = (now, e)" by (cases i)
  have inv: "core_inv (fst (core_receive c e))"
    using assms(1) by (simp add: core_receive_def core_inv_def core_ok_def Let_def split_beta)
  show ?thesis
  proof (cases rule: machine_step_cases [of c now e])
    case (step c1 a1 c2 a2)
    have "balanced sends busy (answers e) c (c1, a1)"
      using dispatch [OF inv assms(2) [unfolded i] step(1)] receive [of c e] by (simp add: balanced_def)
    from balanced_trans [OF this] settle [of c1 now] step(2) show ?thesis unfolding i step(4) by (metis snd_conv)
  qed (simp add: i balanced_def)
qed

end

subsection \<open>Whose request it is\<close>

lemma sent_foreign:
  "from_parts P actions \<Longrightarrow> (\<forall>a. sends a \<longrightarrow> action_part a \<notin> P) \<Longrightarrow> sent sends actions = 0"
  by (auto simp: from_parts_def sent_def filter_empty_conv)

lemma request_part [simp]:
  "is_port_request a \<Longrightarrow> action_part a = Part_Port"
  "is_client_request a \<Longrightarrow> action_part a = Part_Qbittorrent"
  "is_exit_check a \<Longrightarrow> action_part a = Part_Tunnel"
  "is_push a \<Longrightarrow> action_part a = Part_Notifications"
  "is_mam_work a \<Longrightarrow> action_part a = Part_Mam"
  "is_trim a \<Longrightarrow> action_part a = Part_History"
  by (cases a; simp)+

lemmas silent = owned [THEN sent_foreign]

lemmas machine_ops = core_observe_def core_decide_mam_def core_renew_lease_def core_decide_qbittorrent_def
  core_record_step_def core_notify_def settle_expire_def core_receive_def

lemmas dispatch_ops = core_handle_startup_def core_start_reading_def core_handle_mam_def
  core_handle_tunnel_def

lemma core_handle_port_parts:
  assumes "core_handle_port c now e = Some r"
  obtains p t where "port_forwarding_handle (core_port_forwarding c) now e (core_timers c) = Some p"
    "t = (if mapping_failed e then tunnel_suspect (core_tunnel c) now else (core_tunnel c, []))"
    "r = (c\<lparr>core_port_forwarding := fst p, core_timers := fst (snd p), core_tunnel := fst t\<rparr>, snd (snd p) @ snd t)"
    "from_parts {Part_Port} (snd (snd p))" "from_parts {Part_Tunnel} (snd t)"
proof -
  obtain p where p: "port_forwarding_handle (core_port_forwarding c) now e (core_timers c) = Some p"
    using assms by (auto simp: core_handle_port_def)
  define t where "t = (if mapping_failed e then tunnel_suspect (core_tunnel c) now else (core_tunnel c, []))"
  have "r = (c\<lparr>core_port_forwarding := fst p, core_timers := fst (snd p), core_tunnel := fst t\<rparr>, snd (snd p) @ snd t)"
    using assms p by (simp add: core_handle_port_def split_beta Let_def t_def)
  with p t_def show ?thesis using that [of p t] by (simp add: owned port_owned(1) [OF p])
qed

text \<open>Port mappings.\<close>

definition port_busy :: "core \<Rightarrow> bool" where
  "port_busy c = port_request_outstanding (core_port_forwarding c, timers_new)"

fun answers_port :: "event \<Rightarrow> bool" where
  "answers_port (Event_PortForwarding (PortForwardingEvent_Mapped _ _ _)) = True"
| "answers_port (Event_PortForwarding (PortForwardingEvent_MappingFailed _)) = True"
| "answers_port _ = False"

lemma port_outstanding_timers: "port_request_outstanding (pf, timers) = port_request_outstanding (pf, timers')"
  by (cases pf) simp_all

lemma port_expire_busy:
  "port_request_outstanding (port_forwarding_expire pf now, timers) = port_request_outstanding (pf, timers)"
  by (cases pf) simp_all

lemma port_flights:
  "sent is_port_request (snd (port_forwarding_renew pf)) + of_bool (port_request_outstanding (pf, timers))
     \<le> (of_bool (port_request_outstanding (fst (port_forwarding_renew pf), timers)) :: nat)"
  "sent is_port_request (snd (port_forwarding_timer_expired pf i)) + of_bool (port_request_outstanding (pf, timers))
     \<le> (of_bool (port_request_outstanding (fst (port_forwarding_timer_expired pf i), timers)) :: nat)"
  by (induction pf rule: port_forwarding_renew.induct) simp_all

lemma port_handle_flight:
  assumes "port_forwarding_handle pf now e timers = Some r"
  shows "sent is_port_request (snd (snd r)) + of_bool (port_request_outstanding (pf, timers_new))
    \<le> of_bool (port_request_outstanding (fst r, timers_new)) + (of_bool (answers_port (Event_PortForwarding e)) :: nat)"
  using assms port_forwarding_flight [of "(pf, timers)" "(now, PortInput_Event e)"]
    port_outstanding_timers [of pf timers timers_new] port_outstanding_timers [of "fst r" "fst (snd r)" timers_new]
  by (cases r; cases e) simp_all

interpretation port_traffic: core_traffic is_port_request port_busy answers_port
proof (unfold_locales, goal_cases)
  case (2 c now e r)
  show ?case
  proof (cases e)
    case (Event_TimerExpired name i)
    with 2 have r: "r = core_timer_expired c now name i" by simp
    show ?thesis unfolding r
      by (cases name) (simp_all add: Event_TimerExpired balanced_def port_busy_def split_beta Let_def silent port_flights)
  next
    case (Event_PortForwarding e')
    with 2 have "core_handle_port c now e' = Some r" by simp
    then show ?thesis
    proof (cases rule: core_handle_port_parts)
      case (1 p t)
      with port_handle_flight [OF 1(1)] sent_foreign [OF 1(5), of is_port_request] Event_PortForwarding
      show ?thesis by (simp add: balanced_def port_busy_def)
    qed
  next
    case (Event_Tunnel e')
    with 2 have r: "r = core_handle_tunnel c now e'" by simp
    show ?thesis unfolding r
      by (simp add: Event_Tunnel balanced_def port_busy_def core_handle_tunnel_def split_beta Let_def silent port_flights)
  qed (use 2 in \<open>auto simp: balanced_def port_busy_def dispatch_ops split_beta Let_def silent split: if_splits option.splits\<close>)
qed (simp_all add: balanced_def port_busy_def machine_ops split_beta Let_def silent port_expire_busy port_flights
    split: option.split deciding_after.split)

text \<open>qBittorrent.\<close>

definition client_busy :: "core \<Rightarrow> bool" where
  "client_busy c = qbittorrent_busy (core_qbittorrent c)"

fun answers_client :: "event \<Rightarrow> bool" where
  "answers_client (Event_Qbittorrent e) \<longleftrightarrow> e \<noteq> QbittorrentEvent_Enable"
| "answers_client _ = False"

lemma client_handle_flight:
  assumes "qbittorrent_deciding q = None"
  shows "sent is_client_request (snd (snd (qbittorrent_handle q now e timers))) + of_bool (qbittorrent_busy q)
    \<le> of_bool (qbittorrent_busy (fst (qbittorrent_handle q now e timers))) +
      (of_bool (answers_client (Event_Qbittorrent e)) :: nat)"
  using qbittorrent_receive_flight [OF assms, of now "QbittorrentInput_Event e" timers]
  by (cases "qbittorrent_handle q now e timers") simp

lemma client_timer_flight:
  assumes "qbittorrent_deciding q = None"
  shows "sent is_client_request (snd (qbittorrent_timer_expired q i)) + of_bool (qbittorrent_busy q)
    \<le> (of_bool (qbittorrent_busy (fst (qbittorrent_timer_expired q i))) :: nat)"
  using qbittorrent_receive_flight [OF assms, of now "QbittorrentInput_Timer i" timers]
  by (cases "qbittorrent_timer_expired q i") simp

lemma client_settle_flight:
  "sent is_client_request (snd (snd (snd (qbittorrent_settle q now timers wanted command r)))) + of_bool (qbittorrent_busy q)
    \<le> (of_bool (qbittorrent_busy (fst (qbittorrent_settle q now timers wanted command r))) :: nat)"
  using qbittorrent_settle_done [of q now timers wanted command r]
  by (cases "qbittorrent_settle q now timers wanted command r") simp

interpretation client_traffic: core_traffic is_client_request client_busy answers_client
proof (unfold_locales, goal_cases)
  case (2 c now e r)
  then have idle: "qbittorrent_deciding (core_qbittorrent c) = None" by (simp add: core_inv_def)
  show ?case
  proof (cases e)
    case (Event_TimerExpired name i)
    with 2 have r: "r = core_timer_expired c now name i" by simp
    show ?thesis unfolding r
      by (cases name) (simp_all add: Event_TimerExpired balanced_def client_busy_def split_beta Let_def silent
          client_timer_flight [OF idle])
  next
    case (Event_Qbittorrent e')
    with 2 have r: "r = (let (q, timers, actions) = qbittorrent_handle (core_qbittorrent c) now e' (core_timers c)
           in (c\<lparr>core_qbittorrent := q, core_timers := timers\<rparr>, actions))" by simp
    show ?thesis
      unfolding r Event_Qbittorrent using client_handle_flight [OF idle]
      by (simp add: balanced_def client_busy_def split_beta Let_def)
  qed (use 2 in \<open>auto simp: balanced_def client_busy_def dispatch_ops split_beta Let_def silent
      sent_foreign elim!: core_handle_port_parts split: if_splits option.splits\<close>)
qed (simp_all add: balanced_def client_busy_def machine_ops split_beta Let_def silent client_settle_flight
    split: option.split deciding_after.split)

text \<open>Exit-address checks.\<close>

definition exit_busy :: "core \<Rightarrow> bool" where
  "exit_busy c = exit_check_outstanding (core_tunnel c, timers_new)"

fun answers_exit :: "event \<Rightarrow> bool" where
  "answers_exit (Event_Tunnel (TunnelEvent_ExitIpObserved _)) = True"
| "answers_exit (Event_Tunnel (TunnelEvent_ExitIpCheckFailed _)) = True"
| "answers_exit _ = False"

text \<open>What the tunnel's operations owe, whatever the timers.\<close>

lemma tunnel_inv_timers: "tunnel_inv (t, timers) = tunnel_inv (t, timers')"
  by simp

lemma tunnel_step_ok_timers:
  "tunnel_step_ok (t, a) i ((t', b), actions) \<Longrightarrow> tunnel_step_ok (t, timers_new) i ((t', timers_new), actions)"
  unfolding tunnel_step_ok_def fst_conv snd_conv tunnel_inv.simps exit_check_outstanding.simps
    last_switch_at.simps .

lemma tunnel_handle_owes:
  assumes "tunnel_inv (t, timers_new)" and "time_spaced (wall now)" and "tunnel_event_ok e"
  shows "tunnel_step_ok (t, timers_new) (now, TunnelInput_Event e)
    ((fst (tunnel_handle t now e timers), timers_new), snd (snd (tunnel_handle t now e timers)))"
proof -
  have "tunnel_inv (t, timers)" using assms(1) tunnel_inv_timers by blast
  from tunnel_handle_ok [OF this, of now e] assms(2,3)
  have "tunnel_step_ok (t, timers) (now, TunnelInput_Event e)
      ((fst (tunnel_handle t now e timers), fst (snd (tunnel_handle t now e timers))),
       snd (snd (tunnel_handle t now e timers)))"
    by (simp add: split_beta Let_def)
  then show ?thesis by (rule tunnel_step_ok_timers)
qed

lemma tunnel_timer_owes:
  assumes "tunnel_inv (t, timers_new)"
  shows "tunnel_step_ok (t, timers_new) (now, TunnelInput_Timer i)
      ((fst (tunnel_timer_expired t now i), timers_new), snd (tunnel_timer_expired t now i))"
    and "tunnel_step_ok (t, timers_new) (now, TunnelInput_Suspect)
      ((fst (tunnel_suspect t now), timers_new), snd (tunnel_suspect t now))"
  using tunnel_other_ok(1) [OF assms, where now = now and i = i] tunnel_other_ok(2) [OF assms, where now = now]
  by (simp_all add: split_beta Let_def)

lemma exit_handle_flight:
  assumes "tunnel_inv (t, timers_new)" and "time_spaced (wall now)" and "tunnel_event_ok e"
  shows "sent is_exit_check (snd (snd (tunnel_handle t now e timers))) + of_bool (exit_check_outstanding (t, timers_new))
    \<le> of_bool (exit_check_outstanding (fst (tunnel_handle t now e timers), timers_new)) +
      (of_bool (answers_exit (Event_Tunnel e)) :: nat)"
  using tunnel_handle_owes [OF assms, of timers]
  by (cases e) (simp_all add: tunnel_step_ok_def del: exit_check_outstanding.simps)

lemma exit_flights:
  assumes "tunnel_inv (t, timers_new)"
  shows "sent is_exit_check (snd (tunnel_timer_expired t now i)) + of_bool (exit_check_outstanding (t, timers_new))
    \<le> (of_bool (exit_check_outstanding (fst (tunnel_timer_expired t now i), timers_new)) :: nat)"
    and "sent is_exit_check (snd (tunnel_suspect t now)) + of_bool (exit_check_outstanding (t, timers_new))
    \<le> (of_bool (exit_check_outstanding (fst (tunnel_suspect t now), timers_new)) :: nat)"
  using tunnel_timer_owes(1) [OF assms, where now = now and i = i] tunnel_timer_owes(2) [OF assms, where now = now]
  by (simp_all add: tunnel_step_ok_def del: exit_check_outstanding.simps)

lemma exit_start_reading [simp]:
  "exit_check_outstanding (fst (tunnel_start_reading t), timers) = exit_check_outstanding (t, timers)"
  "sent is_exit_check (snd (tunnel_start_reading t)) = 0"
  by (simp_all add: tunnel_start_reading_def)

interpretation exit_traffic: core_traffic is_exit_check exit_busy answers_exit
proof (unfold_locales, goal_cases)
  case (2 c now e r)
  then have inv: "tunnel_inv (core_tunnel c, timers_new)" by (simp add: core_inv_def core_ok_def)
  show ?case
  proof (cases e)
    case (Event_TimerExpired name i)
    with 2 have r: "r = core_timer_expired c now name i" by simp
    show ?thesis unfolding r
      by (cases name) (simp_all add: Event_TimerExpired balanced_def exit_busy_def split_beta Let_def silent
          exit_flights [OF inv] del: exit_check_outstanding.simps)
  next
    case (Event_PortForwarding e')
    with 2 have "core_handle_port c now e' = Some r" by simp
    then show ?thesis
    proof (cases rule: core_handle_port_parts)
      case (1 p t)
      with exit_flights(2) [OF inv, of now] sent_foreign [OF 1(4), of is_exit_check] Event_PortForwarding
      show ?thesis by (simp add: balanced_def exit_busy_def del: exit_check_outstanding.simps)
    qed
  next
    case (Event_Tunnel e')
    with 2 have r: "r = core_handle_tunnel c now e'" and "time_spaced (wall now)" "tunnel_event_ok e'" by simp_all
    have parts: "core_tunnel (fst r) = fst (tunnel_handle (core_tunnel c) now e' (core_timers c))"
      "sent is_exit_check (snd r) = sent is_exit_check (snd (snd (tunnel_handle (core_tunnel c) now e' (core_timers c))))"
      unfolding r by (simp_all add: core_handle_tunnel_def split_beta Let_def silent)
    show ?thesis
      unfolding balanced_def exit_busy_def parts Event_Tunnel by (rule exit_handle_flight) fact+
  qed (use 2 in \<open>auto simp: balanced_def exit_busy_def dispatch_ops split_beta Let_def silent
      simp del: exit_check_outstanding.simps split: if_splits option.splits\<close>)
qed (simp_all add: balanced_def exit_busy_def machine_ops split_beta Let_def silent
    del: exit_check_outstanding.simps split: option.split deciding_after.split)

text \<open>MAM requests, and the registration attempt saved before one.\<close>

definition work_busy :: "core \<Rightarrow> bool" where
  "work_busy c \<longleftrightarrow> mam_outstanding (core_mam c) \<noteq> None"

fun answers_mam :: "event \<Rightarrow> bool" where
  "answers_mam (Event_Mam (MamEvent_Answered _ _)) = True"
| "answers_mam (Event_Mam MamEvent_RegistrationAttemptSaved) = True"
| "answers_mam (Event_Mam MamEvent_RegistrationAttemptSaveFailed) = True"
| "answers_mam _ = False"

lemma work_handle_flight:
  "sent is_mam_work (fst (snd (snd (mam_handle m now e g)))) + of_bool (mam_outstanding m \<noteq> None)
    \<le> of_bool (mam_outstanding (fst (mam_handle m now e g)) \<noteq> None) + (of_bool (answers_mam (Event_Mam e)) :: nat)"
  using mam_receive_flight [of m now "MamInput_Event e" g "fst (mam_handle m now e g)"
      "fst (snd (snd (mam_handle m now e g)))" undefined]
  by (cases e) (simp_all add: split_beta Let_def)

lemma work_decide_flight:
  "sent is_mam_work (snd (snd (mam_decide m now c timers))) + of_bool (mam_outstanding m \<noteq> None)
    \<le> (of_bool (mam_outstanding (fst (mam_decide m now c timers)) \<noteq> None) :: nat)"
  using mam_decide_flight [of m now c timers] by (cases "mam_decide m now c timers") simp

lemma mam_take_frame [simp]:
  "mam_outstanding (fst (mam_take_lease_renewal m)) = mam_outstanding m"
  "mam_outstanding (fst (mam_take_notices m)) = mam_outstanding m"
  "mam_outstanding (fst (mam_start_reading m)) = mam_outstanding m"
  "mam_outstanding (mam_timer_expired m i) = mam_outstanding m"
  "mam_outstanding (mam_vpn_switched m) = mam_outstanding m"
  "sent is_mam_work (snd (mam_start_reading m)) = 0"
  by (simp_all add: mam_take_lease_renewal_def mam_take_notices_def mam_start_reading_def mam_timer_expired_def
      mam_vpn_switched_def)

interpretation mam_traffic: core_traffic is_mam_work work_busy answers_mam
proof (unfold_locales, goal_cases)
  case (2 c now e r)
  show ?case
  proof (cases e)
    case (Event_TimerExpired name i)
    with 2 have r: "r = core_timer_expired c now name i" by simp
    show ?thesis unfolding r
      by (cases name) (simp_all add: Event_TimerExpired balanced_def work_busy_def split_beta Let_def silent)
  next
    case (Event_Mam e')
    with 2 have r: "r = core_handle_mam c now e'" by simp
    have parts: "core_mam (fst r) = fst (mam_handle (core_mam c) now e' (core_registry c))"
      "sent is_mam_work (snd r) = sent is_mam_work (fst (snd (snd (mam_handle (core_mam c) now e' (core_registry c)))))"
      unfolding r by (simp_all add: core_handle_mam_def split_beta Let_def silent split: option.split)
    show ?thesis unfolding balanced_def work_busy_def parts Event_Mam by (rule work_handle_flight)
  qed (use 2 in \<open>auto simp: balanced_def work_busy_def dispatch_ops split_beta Let_def silent sent_foreign
      elim!: core_handle_port_parts split: if_splits option.splits\<close>)
qed (simp_all add: balanced_def work_busy_def machine_ops split_beta Let_def silent work_decide_flight
    del: not_None_eq split: option.split deciding_after.split)

text \<open>Pushes.\<close>

definition push_busy :: "core \<Rightarrow> bool" where
  "push_busy c = sending (core_notifications c, timers_new)"

fun answers_push :: "event \<Rightarrow> bool" where
  "answers_push (Event_Notification NotificationEvent_Delivered) = True"
| "answers_push (Event_Notification (NotificationEvent_DeliveryFailed _)) = True"
| "answers_push _ = False"

lemma push_handle_flight:
  "sent is_push (snd (snd (notifications_handle n now e timers))) + of_bool (sending (n, timers_new))
    \<le> of_bool (sending (fst (notifications_handle n now e timers), timers_new)) +
      (of_bool (answers_push (Event_Notification e)) :: nat)"
proof -
  have "is_push_answer (now, NotificationInput_Event e, undefined) = answers_push (Event_Notification e)"
    by (cases e) simp_all
  with receive_flight [of n now "NotificationInput_Event e" timers timers_new timers_new undefined] show ?thesis by simp
qed

lemma push_timer [simp]: "sending (notifications_timer_expired n i, timers) = sending (n, timers)"
  by (auto simp: notifications_timer_expired_def Let_def split: delivery.splits)

lemma push_frame [simp]:
  "sending (fst (notifications_reported n e), timers) = sending (n, timers)"
  "sending (notifications_log_unavailable n, timers) = sending (n, timers)"
proof -
  have "notifications_delivery (fst (notifications_reported n e)) = notifications_delivery n"
    by (auto simp: notifications_reported_def Let_def split: event.split startup_event.split mam_pause_event.split
        settings_event.split tunnel_event.split history_event.split notification_event.split mam_event.split registry_event.split)
  then show "sending (fst (notifications_reported n e), timers) = sending (n, timers)" by simp
  show "sending (notifications_log_unavailable n, timers) = sending (n, timers)" by simp
qed

interpretation push_traffic: core_traffic is_push push_busy answers_push
proof (unfold_locales, goal_cases)
  case (2 c now e r)
  show ?case
  proof (cases e)
    case (Event_TimerExpired name i)
    with 2 have r: "r = core_timer_expired c now name i" by simp
    show ?thesis unfolding r
      by (cases name) (simp_all add: Event_TimerExpired balanced_def push_busy_def split_beta Let_def silent
          del: sending.simps)
  next
    case (Event_Notification e')
    with 2 have parts: "core_notifications (fst r) =
          fst (notifications_handle (core_notifications c) now e' (core_timers c))"
      "snd r = snd (snd (notifications_handle (core_notifications c) now e' (core_timers c)))"
      by (auto simp: split_beta Let_def)
    show ?thesis unfolding balanced_def push_busy_def parts Event_Notification by (rule push_handle_flight)
  qed (use 2 in \<open>auto simp: balanced_def push_busy_def dispatch_ops split_beta Let_def silent sent_foreign
      simp del: sending.simps elim!: core_handle_port_parts split: if_splits option.splits\<close>)
qed (simp_all add: balanced_def push_busy_def machine_ops split_beta Let_def silent after_step_flight
    del: sending.simps split: option.split deciding_after.split)

text \<open>Trims of history.\<close>

definition trim_busy :: "core \<Rightarrow> bool" where
  "trim_busy c = history_trimming (core_history c)"

fun answers_trim :: "event \<Rightarrow> bool" where
  "answers_trim (Event_History (HistoryEvent_Trimmed _)) = True"
| "answers_trim (Event_History HistoryEvent_TrimFailed) = True"
| "answers_trim _ = False"

lemma trim_handle_flight:
  "of_bool (history_trimming h)
    \<le> of_bool (history_trimming (history_handle h step e)) + (of_bool (answers_trim (Event_History e)) :: nat)"
  using history_handle_trimming [of h step e undefined] by (cases e) auto

interpretation trim_traffic: core_traffic is_trim trim_busy answers_trim
proof (unfold_locales, goal_cases)
  case (2 c now e r)
  have closed: "state_opening (core_state c) \<Longrightarrow> core_history c = HistoryState_Closed"
    using 2(1) by (cases "core_state c") (simp_all add: core_inv_def core_ok_def)
  show ?case
  proof (cases e)
    case (Event_TimerExpired name i)
    with 2 have r: "r = core_timer_expired c now name i" by simp
    show ?thesis unfolding r
      by (cases name) (simp_all add: Event_TimerExpired balanced_def trim_busy_def split_beta Let_def silent)
  next
    case (Event_History e')
    with 2 have parts: "core_history (fst r) = history_handle (core_history c) (core_step c) e'" "snd r = []"
      by auto
    show ?thesis
      unfolding balanced_def trim_busy_def parts Event_History using trim_handle_flight by simp
  qed (use 2 closed in \<open>auto simp: balanced_def trim_busy_def dispatch_ops split_beta Let_def silent sent_foreign
      history_open_def elim!: core_handle_port_parts split: if_splits option.splits\<close>)
qed (simp_all add: balanced_def trim_busy_def machine_ops split_beta Let_def silent history_after_step_flight
    split: option.split deciding_after.split)

subsection \<open>The invariant\<close>

lemma client_settle_done:
  "qbittorrent_deciding (fst (qbittorrent_settle q now timers wanted command r)) = None"
  using qbittorrent_settle_done [of q now timers wanted command r]
  by (cases "qbittorrent_settle q now timers wanted command r") simp

lemma settle_frame:
  assumes "core_settle c now notices before = (c', actions)"
  shows "core_state c' = core_state c" and "core_tunnel c' = core_tunnel c"
    and "core_history c = HistoryState_Closed \<Longrightarrow> core_history c' = HistoryState_Closed"
    and "qbittorrent_deciding (core_qbittorrent c') = None"
proof -
  obtain c1 a1 c2 a2 c3 a3 c4 a4 c5 a5 c6 a6 where parts:
    "core_observe (settle_expire c now) now = (c1, a1)" "core_decide_mam c1 now = (c2, a2)"
    "core_renew_lease c2 = (c3, a3)" "core_decide_qbittorrent c3 now = (c4, a4)"
    "core_record_step c4 = (c5, a5)" "core_notify c5 now notices before = (c6, a6)"
    "core_settle c now notices before = (c6, a1 @ a2 @ a3 @ a4 @ a5 @ a6)"
    by (rule core_settle_parts)
  have c': "c' = c6" using assms parts(7) by simp
  have c1: "core_state c1 = core_state c" "core_tunnel c1 = core_tunnel c" "core_history c1 = core_history c"
    using parts(1) by (auto simp: core_observe_def settle_expire_def split_beta Let_def
        split: option.splits deciding_after.splits)
  have c3: "core_state c3 = core_state c" "core_tunnel c3 = core_tunnel c" "core_history c3 = core_history c"
    using parts(2,3) c1 by (auto simp: core_decide_mam_def core_renew_lease_def split_beta Let_def split: if_splits)
  have c6: "core_state c6 = core_state c4" "core_tunnel c6 = core_tunnel c4" "core_qbittorrent c6 = core_qbittorrent c4"
    "core_history c6 = fst (history_after_step (core_history c4) (core_step c4)
       (settings_history_limit_saved (core_settings c4)))"
    using parts(5,6) by (auto simp: core_record_step_def core_notify_def split_beta Let_def)
  have c4: "core_state c4 = core_state c3" "core_tunnel c4 = core_tunnel c3" "core_history c4 = core_history c3"
    using parts(4) by (auto simp: core_decide_qbittorrent_def split_beta Let_def)
  show "core_state c' = core_state c" "core_tunnel c' = core_tunnel c" using c' c3 c4 c6 by simp_all
  show "core_history c = HistoryState_Closed \<Longrightarrow> core_history c' = HistoryState_Closed" using c' c3 c4 c6 by simp
  have "qbittorrent_deciding (core_qbittorrent c4) = None"
    using parts(4) client_settle_done
    by (auto simp: core_decide_qbittorrent_def split_beta Let_def)
  then show "qbittorrent_deciding (core_qbittorrent c') = None" using c' c6 by simp
qed

lemma unread_no_failover:
  "tunnel_inv (t, timers) \<Longrightarrow> tunnel_last_switch t = LastSwitch_Unread \<Longrightarrow>
     tunnel_inv (fst (tunnel_start_reading t), timers)"
  by (auto simp: tunnel_start_reading_def is_none_or_iff known_spaced_def switch_due_def)

lemma unread_kept:
  assumes "tunnel_inv (t, timers_new)" and "tunnel_last_switch t = LastSwitch_Unread"
  shows "tunnel_last_switch (fst (tunnel_handle t now e timers)) = LastSwitch_Unread"
  using assms
  by (cases e; cases "tunnel_watch t")
    (auto simp: tunnel_handle_def tunnel_with_def Let_def switch_due_def split_beta
      split: option.splits failover.splits)

lemma unread_kept_others:
  "tunnel_last_switch (fst (tunnel_timer_expired t now i)) = tunnel_last_switch t"
  "tunnel_last_switch (fst (tunnel_suspect t now)) = tunnel_last_switch t"
  by (auto simp: tunnel_timer_expired_def tunnel_suspect_def split_beta Let_def split: option.splits)

lemma started_stays:
  "unstarted (fst (startup_handle s e)) \<Longrightarrow> unstarted s" "unstarted (fst (mam_pause_handle s f)) \<Longrightarrow> unstarted s"
proof -
  show "unstarted (fst (startup_handle s e)) \<Longrightarrow> unstarted s" by (cases e; cases s) simp_all
  have "unstarted (fst (update_mam_preference s u)) \<Longrightarrow> unstarted s" for u
    by (cases s) (simp_all add: split_beta Let_def)
  moreover have "unstarted (fst (mam_pause_loaded s saved)) \<Longrightarrow> unstarted s" for saved
    by (cases s) (simp_all add: split_beta Let_def split: option.splits)
  moreover have "unstarted (fst (mam_pause_complete s completion)) \<Longrightarrow> unstarted s" for completion
    by (cases s) (simp_all add: split_beta Let_def)
  ultimately show "unstarted (fst (mam_pause_handle s f)) \<Longrightarrow> unstarted s"
    by (cases f) (simp_all split: state.splits)
qed

lemma reading_started: "state_reading s \<Longrightarrow> \<not> unstarted s"
  by (cases s) simp_all

lemma dispatch_ok:
  assumes "core_inv c" and "machine_input_ok (now, e)" and "core_dispatch c now e = Some r"
  shows "core_ok (fst r)"
proof -
  have inv: "tunnel_inv (core_tunnel c, timers_new)" using assms(1) by (simp add: core_inv_def core_ok_def)
  show ?thesis
  proof (cases e)
    case (Event_TimerExpired name i)
    with assms have r: "r = core_timer_expired c now name i" by simp
    show ?thesis
      unfolding r using assms(1) tunnel_timer_owes(1) [OF inv, where now = now and i = i]
      by (cases name) (simp_all add: core_inv_def core_ok_def split_beta Let_def unread_kept_others tunnel_step_ok_def
          del: tunnel_inv.simps)
  next
    case (Event_PortForwarding e')
    with assms(3) have "core_handle_port c now e' = Some r" by simp
    then show ?thesis
    proof (cases rule: core_handle_port_parts)
      case (1 p t)
      with assms(1) tunnel_timer_owes(2) [OF inv, where now = now] show ?thesis
        by (simp add: core_inv_def core_ok_def unread_kept_others tunnel_step_ok_def del: tunnel_inv.simps)
    qed
  next
    case (Event_Tunnel e')
    with assms have "time_spaced (wall now)" "tunnel_event_ok e'" by simp_all
    with assms Event_Tunnel tunnel_handle_owes [OF inv this, of "core_timers c"] unread_kept [OF inv] show ?thesis
      by (auto simp: core_inv_def core_ok_def core_handle_tunnel_def split_beta Let_def tunnel_step_ok_def
          simp del: tunnel_inv.simps split: if_splits)
  next
    case (Event_Startup e')
    with assms have r: "r = core_handle_startup c e'" by simp
    have "state_opening (core_state c) \<Longrightarrow> tunnel_last_switch (core_tunnel c) = LastSwitch_Unread"
      using assms(1) by (cases "core_state c") (simp_all add: core_inv_def core_ok_def)
    with unread_no_failover [OF inv] assms(1) show ?thesis
      unfolding r core_handle_startup_def core_start_reading_def
      by (auto simp: core_inv_def core_ok_def split_beta Let_def reading_started
          dest: started_stays simp del: tunnel_inv.simps)
  next
    case (Event_MamPause e')
    with assms show ?thesis
      by (auto simp: core_inv_def core_ok_def split_beta Let_def dest: started_stays simp del: tunnel_inv.simps)
  next
    case (Event_History e')
    with assms show ?thesis
      by (auto simp: core_inv_def core_ok_def split_beta Let_def simp del: tunnel_inv.simps)
  qed (use assms in \<open>auto simp: core_inv_def core_ok_def split_beta Let_def core_handle_mam_def
      simp del: tunnel_inv.simps\<close>)
qed

lemma core_inv_new: "core_inv core_new"
  by (simp add: core_inv_def core_ok_def core_new_def tunnel_new_def known_spaced_def)

lemma core_inv_receive: "core_inv c \<Longrightarrow> core_inv (fst (core_receive c e))"
  by (simp add: core_receive_def core_inv_def core_ok_def Let_def split_beta)

lemma core_inv_step:
  assumes "core_inv c" and "machine_input_ok i"
  shows "core_inv (fst (machine_step c i))"
proof -
  obtain now e where i: "i = (now, e)" by (cases i)
  show ?thesis
  proof (cases rule: machine_step_cases [of c now e])
    case (step c1 a1 c2 a2)
    have "core_ok c1" using dispatch_ok [OF core_inv_receive [OF assms(1)] assms(2) [unfolded i] step(1)] by simp
    with settle_frame [OF step(2)] show ?thesis
      by (simp add: i step(4) core_inv_def core_ok_def del: tunnel_inv.simps machine_step.simps)
  qed (use assms in \<open>simp add: i del: machine_step.simps\<close>)
qed

text \<open>A kind of request that keeps the contract is in flight once at most, over any run.\<close>

sublocale core_traffic \<subseteq> flights: single_flight machine_step core_new machine_input_ok core_inv
  busy sends "\<lambda>i. answers (snd i)"
  using core_inv_new core_inv_step step_balanced by unfold_locales (auto simp: balanced_def)

subsection \<open>Properties\<close>

text \<open>
  Every service gets one request at a time from the whole machine: over any events at any
  clock readings to which an hour can be added, the requests sent to MAM (with the attempts saved
  first), to qBittorrent, to the port-mapping gateway, the exit-address checks, the pushes and the
  trims of history each outnumber the answers received by at most one.
\<close>

theorem one_request_at_a_time:
  assumes "list_all machine_input_ok inputs"
  shows "list_all (\<lambda>(sends, answers).
      sent sends (concat (snd (run machine_step core_new inputs))) \<le> 1 + length (filter (\<lambda>i. answers (snd i)) inputs))
    [(is_mam_work, answers_mam), (is_client_request, answers_client), (is_port_request, answers_port),
     (is_exit_check, answers_exit), (is_push, answers_push), (is_trim, answers_trim)]"
  using mam_traffic.flights.sent_at_most [OF assms] client_traffic.flights.sent_at_most [OF assms]
    port_traffic.flights.sent_at_most [OF assms] exit_traffic.flights.sent_at_most [OF assms]
    push_traffic.flights.sent_at_most [OF assms] trim_traffic.flights.sent_at_most [OF assms]
  by simp

theorem one_request_at_a_time_witness:
  "sent is_port_request (concat (snd (run machine_step core_new
       [(\<lparr>monotonic = 0, wall = 0\<rparr>, Event_PortForwarding PortForwardingEvent_Enable),
        (\<lparr>monotonic = 1, wall = 1\<rparr>, Event_PortForwarding PortForwardingEvent_Enable)]))) \<le> 1"
proof -
  have ok: "list_all machine_input_ok
      [(\<lparr>monotonic = 0, wall = 0\<rparr>, Event_PortForwarding PortForwardingEvent_Enable),
       (\<lparr>monotonic = 1, wall = 1\<rparr>, Event_PortForwarding PortForwardingEvent_Enable)]"
    by (simp add: time_spaced_def SWITCH_SPACING_def time_defs)
  from one_request_at_a_time [OF ok] show ?thesis by (simp del: run.simps machine_step.simps)
qed

end
