(* ===== verification/Core_Safety.thy ===== *)
theory Core_Safety
  imports Core_Traffic
begin

text \<open>
  What the whole machine promises its owner: it talks to MAM only while requests run and the tunnel
  protects them, over any run; it changes the VPN server at most once an hour; it sends qBittorrent
  only what the registry and MAM's permission call for; and it panics on nothing a gateway can send.
\<close>

subsection \<open>The gate of a connection\<close>

lemma link_gate: "mam_link m = mam_link m' \<Longrightarrow> mam_gate m = mam_gate m' \<and> mam_epoch m = mam_epoch m'"
  by (simp add: mam_link_def)

lemma remind_link: "mam_link (fst (mam_remind m now)) = mam_link m"
  by (auto simp: mam_remind_def Let_def split: last_reminder.split option.split)

lemma connectability_link: "mam_link (mam_follow_connectability m now c) = mam_link m"
  by (auto simp: mam_follow_connectability_def Let_def split_beta)

lemma watch_link: "mam_link (fst (mam_watch_downloads m now r)) = mam_link m"
  by (auto simp: mam_watch_downloads_def Let_def split: option.split)

lemma wake_link: "mam_link (fst (mam_schedule_wake m now early timers)) = mam_link m"
  by (auto simp: mam_schedule_wake_def Let_def split_beta split: option.split)

lemma sending_link: "mam_link (mam_sending m now r request) = mam_link m"
  by (cases request) simp_all

lemma send_link: "mam_link (fst (mam_send m now r k wanted)) = mam_link m"
  by (auto simp: mam_send_def sending_link split: option.splits mam_wanted.splits prod.splits bool.splits)

lemma gate_link:
  "mam_gate (fst (mam_follow_gate m c)) = snd (mam_follow_gate m c)"
  "mam_epoch (fst (mam_follow_gate m c)) = mam_epoch m +
     of_bool (mam_gate m = RequestGate_Open \<and> snd (mam_follow_gate m c) = RequestGate_Closed)"
  by (auto simp: mam_follow_gate_def mam_disconnect_def epoch_next_def Let_def)

lemma cookie_link:
  "mam_gate (mam_follow_cookie m c) = mam_gate m"
  "mam_epoch (mam_follow_cookie m c) = mam_epoch m \<or> mam_epoch (mam_follow_cookie m c) = mam_epoch m + 1"
  by (auto simp: mam_follow_cookie_def epoch_next_def Let_def)

text \<open>A decision raises the epoch by two at most, and by one at least when the gate closes.\<close>

lemma survey_link:
  obtains d :: nat where "d \<le> 2" "mam_epoch (survey_mam (mam_survey_now m now c)) = mam_epoch m + of_nat d"
    "mam_gate (survey_mam (mam_survey_now m now c)) = survey_gate (mam_survey_now m now c)"
    "mam_gate m = RequestGate_Open \<Longrightarrow> survey_gate (mam_survey_now m now c) \<noteq> RequestGate_Open \<Longrightarrow> 0 < d"
proof -
  define m1 where "m1 = fst (mam_remind m now)"
  define m2 where "m2 = fst (mam_follow_gate m1 c)"
  define m3 where "m3 = mam_follow_cookie m2 c"
  have m1: "mam_gate m1 = mam_gate m" "mam_epoch m1 = mam_epoch m"
    using link_gate [OF remind_link [of m now]] by (simp_all add: m1_def)
  have gate: "survey_gate (mam_survey_now m now c) = snd (mam_follow_gate m1 c)"
    unfolding mam_survey_now_def Let_def split_beta m1_def by simp
  have link: "mam_link (survey_mam (mam_survey_now m now c)) = mam_link m3"
    unfolding mam_survey_now_def Let_def split_beta m3_def m2_def m1_def
    by (simp add: connectability_link watch_link)
  obtain b :: nat where b: "b \<le> 1" "mam_epoch m3 = mam_epoch m2 + of_nat b"
  proof (cases "mam_epoch m3 = mam_epoch m2")
    case False
    with cookie_link(2) [of m2 c] show ?thesis using that [of 1] by (simp add: m3_def)
  qed (use that [of 0] in simp)
  let ?closing = "mam_gate m = RequestGate_Open \<and> snd (mam_follow_gate m1 c) = RequestGate_Closed"
  show ?thesis
  proof (rule that [of "of_bool ?closing + b"])
    show "mam_epoch (survey_mam (mam_survey_now m now c)) = mam_epoch m + of_nat (of_bool ?closing + b)"
      using link_gate [OF link] b(2) gate_link(2) [of m1 c] m1 by (simp add: m2_def)
    show "mam_gate (survey_mam (mam_survey_now m now c)) = survey_gate (mam_survey_now m now c)"
      using link_gate [OF link] gate gate_link(1) [of m1 c] by (simp add: m3_def m2_def cookie_link(1))
    show "0 < of_bool ?closing + b"
      if "mam_gate m = RequestGate_Open" "survey_gate (mam_survey_now m now c) \<noteq> RequestGate_Open"
      using that gate by (cases "snd (mam_follow_gate m1 c)") simp_all
  qed (use b in \<open>simp add: of_bool_def\<close>)
qed

lemma decide_link:
  assumes "mam_decide m now c timers = (m', timers', actions)"
  shows "mam_link m' = mam_link (survey_mam (mam_survey_now m now c))"
proof -
  have "m' = fst (mam_decide m now c timers)" using assms by simp
  then show ?thesis unfolding mam_decide_def Let_def split_beta by (simp add: wake_link send_link)
qed

subsection \<open>The machine's connection to MAM\<close>

text \<open>
  After \<open>n\<close> steps: the epoch is at most \<open>2 * n\<close> connections from the first; an attempt being saved
  on the current connection means the gate has stayed open since; an open gate means requests run
  and the tunnel protects them.
\<close>

definition saving_ok :: "nat \<Rightarrow> mam \<Rightarrow> bool" where
  "saving_ok k m \<longleftrightarrow> mam_epoch m = of_nat k \<and>
     (\<forall>at cookie epoch. mam_outstanding m = Some (Outstanding_SavingRegistration at cookie epoch) \<longrightarrow>
        (\<exists>j \<le> k. epoch = of_nat j \<and> (j = k \<longrightarrow> mam_gate m = RequestGate_Open)))"

definition may_request :: "core \<Rightarrow> bool" where
  "may_request c \<longleftrightarrow> state_mam_requests (core_state c) = MamRequestsStatus_Running \<and> core_exit_ip c \<noteq> None"

definition connection_ok :: "nat \<Rightarrow> core \<Rightarrow> bool" where
  "connection_ok n c \<longleftrightarrow> (\<exists>k \<le> 2 * n. saving_ok k (core_mam c)) \<and>
     (mam_gate (core_mam c) = RequestGate_Open \<longrightarrow> may_request c)"

definition keeps_saving :: "mam \<Rightarrow> mam \<Rightarrow> bool" where
  "keeps_saving m m' \<longleftrightarrow> mam_link m' = mam_link m \<and>
     (\<forall>at cookie epoch. mam_outstanding m' = Some (Outstanding_SavingRegistration at cookie epoch) \<longrightarrow>
        mam_outstanding m = mam_outstanding m')"

lemma keeps_saving_ok: "keeps_saving m m' \<Longrightarrow> saving_ok k m \<Longrightarrow> saving_ok k m'"
  using link_gate [of m' m] by (auto simp: keeps_saving_def saving_ok_def)

lemma keeps_saving_same: "mam_link m' = mam_link m \<Longrightarrow> mam_outstanding m' = mam_outstanding m \<Longrightarrow> keeps_saving m m'"
  by (simp add: keeps_saving_def)

lemma mam_handle_keeps: "keeps_saving m (fst (mam_handle m now e g))"
proof -
  have "mam_receive m now (MamInput_Event e) g = (fst (mam_handle m now e g), fst (snd (snd (mam_handle m now e g))))"
    by (simp add: split_beta Let_def)
  then show ?thesis
    unfolding keeps_saving_def
    by (cases rule: mam_receive_cases) (auto simp: mam_handle_link mam_ledger_def)
qed

lemma mam_others_keep:
  "keeps_saving m (mam_timer_expired m i)" "keeps_saving m (mam_vpn_switched m)"
  "keeps_saving m (fst (mam_start_reading m))" "keeps_saving m m"
  by (simp_all add: keeps_saving_def mam_timer_expired_def mam_vpn_switched_def mam_start_reading_def)

lemma dispatch_keeps:
  assumes "core_dispatch c now e = Some r"
  shows "keeps_saving (core_mam c) (core_mam (fst r))"
proof (cases e)
  case (Event_TimerExpired name i)
  with assms show ?thesis by (cases name) (auto simp: split_beta Let_def mam_others_keep)
next
  case (Event_PortForwarding e')
  with assms show ?thesis by (auto elim!: core_handle_port_parts simp: mam_others_keep)
qed (use assms in \<open>auto simp: dispatch_ops split_beta Let_def mam_others_keep mam_handle_keeps
    split: if_splits option.splits\<close>)

lemma decide_saving_ok:
  assumes "mam_decide m now c timers = (m', timers', actions)" and "saving_ok k m"
  obtains k' where "k \<le> k'" "k' \<le> k + 2" "saving_ok k' m'" "mam_gate m' = survey_gate (mam_survey_now m now c)"
proof -
  obtain d :: nat where d: "d \<le> 2" "mam_epoch (survey_mam (mam_survey_now m now c)) = mam_epoch m + of_nat d"
    "mam_gate (survey_mam (mam_survey_now m now c)) = survey_gate (mam_survey_now m now c)"
    "mam_gate m = RequestGate_Open \<Longrightarrow> survey_gate (mam_survey_now m now c) \<noteq> RequestGate_Open \<Longrightarrow> 0 < d"
    by (rule survey_link [of m now c]) blast
  have epoch: "mam_epoch m' = of_nat (k + d)" and gate: "mam_gate m' = survey_gate (mam_survey_now m now c)"
    using link_gate [OF decide_link [OF assms(1)]] d assms(2) by (simp_all add: saving_ok_def)
  have "saving_ok (k + d) m'"
    using assms(1)
  proof (cases rule: mam_decide_cases)
    case idle
    have "\<exists>j \<le> k + d. epoch = of_nat j \<and> (j = k + d \<longrightarrow> mam_gate m' = RequestGate_Open)"
      if saving: "mam_outstanding m' = Some (Outstanding_SavingRegistration at cookie epoch)" for at cookie epoch
    proof -
      obtain j where j: "j \<le> k" "epoch = of_nat j" "j = k \<longrightarrow> mam_gate m = RequestGate_Open"
        using saving ledger_outstanding [OF idle(1)] assms(2) by (auto simp: saving_ok_def)
      have "mam_gate m' = RequestGate_Open" if "j = k + d"
      proof (rule ccontr)
        assume "mam_gate m' \<noteq> RequestGate_Open"
        moreover have "mam_gate m = RequestGate_Open" using that j by simp
        ultimately have "0 < d" using d(4) gate by simp
        with that j(1) show False by simp
      qed
      with j show ?thesis by (intro exI [of _ j]) simp
    qed
    with epoch show ?thesis by (simp add: saving_ok_def)
  next
    case (register cookie pre post)
    then have "mam_outstanding m' = Some (Outstanding_SavingRegistration (wall now) cookie (mam_epoch m'))"
      using d(2) epoch link_gate [OF decide_link [OF assms(1)]] by (simp add: mam_ledger_def)
    with register(5) epoch gate show ?thesis by (auto simp: saving_ok_def)
  next
    case (request request pre post)
    then show ?thesis using epoch by (auto simp: saving_ok_def mam_ledger_def)
  qed
  with that [of "k + d"] d(1) gate show ?thesis by simp
qed

lemma context_gate:
  "survey_gate (mam_survey_now m now (core_mam_context c)) = RequestGate_Open \<Longrightarrow> may_request c"
  by (simp add: survey_gate_open core_mam_context_def may_request_def Let_def split: if_splits)

lemma not_owned: "from_parts P actions \<Longrightarrow> action_part a \<notin> P \<Longrightarrow> a \<notin> set actions"
  by (auto simp: from_parts_def)

lemmas absent = owned [THEN not_owned]

lemma settle_owned:
  "from_parts {Part_Registry} (snd (core_observe c now))"
  "from_parts {Part_Port} (snd (core_renew_lease c))"
  "from_parts {Part_Qbittorrent} (snd (core_decide_qbittorrent c now))"
  "from_parts {Part_History} (snd (core_record_step c))"
  "from_parts {Part_Notifications} (snd (core_notify c now notices before))"
  by (simp_all add: machine_ops split_beta Let_def owned split: option.split deciding_after.split)

text \<open>What settling keeps of a component, and what of its actions speaks to MAM.\<close>

lemma settle_mam:
  assumes "core_settle c now notices before = (c', actions)"
  obtains c1 m' timers' as where "core_mam c1 = core_mam c" "core_state c1 = core_state c" "core_tunnel c1 = core_tunnel c"
    "core_settings c1 = core_settings c"
    "mam_decide (core_mam c) now (core_mam_context c1) (core_timers c1) = (m', timers', as)"
    "mam_link (core_mam c') = mam_link m'" "mam_outstanding (core_mam c') = mam_outstanding m'"
    "core_settings c' = core_settings c"
    "\<And>request cookie. Action_MamRequest request cookie \<in> set actions \<Longrightarrow> Action_MamRequest request cookie \<in> set as"
proof -
  obtain c1 a1 c2 a2 c3 a3 c4 a4 c5 a5 c6 a6 where parts:
    "core_observe (settle_expire c now) now = (c1, a1)" "core_decide_mam c1 now = (c2, a2)"
    "core_renew_lease c2 = (c3, a3)" "core_decide_qbittorrent c3 now = (c4, a4)"
    "core_record_step c4 = (c5, a5)" "core_notify c5 now notices before = (c6, a6)"
    "core_settle c now notices before = (c6, a1 @ a2 @ a3 @ a4 @ a5 @ a6)"
    by (rule core_settle_parts)
  have c': "c' = c6" "actions = a1 @ a2 @ a3 @ a4 @ a5 @ a6" using assms parts(7) by simp_all
  have c1: "core_mam c1 = core_mam c" "core_state c1 = core_state c" "core_tunnel c1 = core_tunnel c"
    "core_settings c1 = core_settings c"
    using parts(1) by (auto simp: core_observe_def settle_expire_def split_beta Let_def
        split: option.splits deciding_after.splits)
  obtain m' timers' where d: "mam_decide (core_mam c) now (core_mam_context c1) (core_timers c1) = (m', timers', a2)"
    and c2: "core_mam c2 = m'" "core_settings c2 = core_settings c"
    using parts(2) c1 by (auto simp: core_decide_mam_def split_beta Let_def) (metis prod.collapse)
  have c6: "mam_link (core_mam c6) = mam_link m'" "mam_outstanding (core_mam c6) = mam_outstanding m'"
    "core_settings c6 = core_settings c"
    using parts(3-6) c2
    by (auto simp: core_renew_lease_def core_decide_qbittorrent_def core_record_step_def core_notify_def
        mam_take_lease_renewal_def mam_take_notices_def split_beta Let_def split: if_splits)
  have others: "from_parts {Part_Registry} a1" "from_parts {Part_Port} a3" "from_parts {Part_Qbittorrent} a4"
    "from_parts {Part_History} a5" "from_parts {Part_Notifications} a6"
    using parts(1,3-6) settle_owned(1) [of "settle_expire c now" now] settle_owned(2) [of c2]
      settle_owned(3) [of c3 now] settle_owned(4) [of c4] settle_owned(5) [of c5 now notices before]
    by simp_all
  then have requests: "Action_MamRequest request cookie \<in> set a2" if "Action_MamRequest request cookie \<in> set actions"
    for request cookie
    using that c'(2) others [THEN not_owned, of "Action_MamRequest request cookie"] by simp
  show ?thesis
    by (rule that [OF c1 d c6 [folded c'(1)]]) (rule requests)
qed

lemma settle_sends:
  assumes "a \<in> set (snd (core_decide_mam (fst (core_observe (settle_expire c now) now)) now))"
  shows "a \<in> set (snd (core_settle c now notices before))"
  by (rule core_settle_parts [of c now notices before]) (use assms in auto)

lemma may_request_frame: "core_state c' = core_state c \<Longrightarrow> core_tunnel c' = core_tunnel c \<Longrightarrow> may_request c' = may_request c"
  by (simp add: may_request_def core_exit_ip_def)

lemma connection_ok_step:
  assumes "connection_ok n c"
  shows "connection_ok (Suc n) (fst (machine_step c (now, e)))"
proof (cases rule: machine_step_cases [of c now e])
  case panic
  have "k \<le> 2 * Suc n" if "k \<le> 2 * n" for k using that by simp
  with assms show ?thesis unfolding connection_ok_def panic(2) by (metis fst_conv)
next
  case (step c1 a1 c2 a2)
  obtain k where k: "k \<le> 2 * n" "saving_ok k (core_mam c)" using assms by (auto simp: connection_ok_def)
  have "core_mam (fst (core_receive c e)) = core_mam c" by (simp add: core_receive_def split_beta Let_def)
  with dispatch_keeps [OF step(1)] k(2) have saving: "saving_ok k (core_mam c1)"
    using keeps_saving_ok by simp
  obtain c3 m' timers' as where c3: "core_mam c3 = core_mam c1" "core_state c3 = core_state c1" "core_tunnel c3 = core_tunnel c1"
    "core_settings c3 = core_settings c1"
    "mam_decide (core_mam c1) now (core_mam_context c3) (core_timers c3) = (m', timers', as)"
    "mam_link (core_mam c2) = mam_link m'" "mam_outstanding (core_mam c2) = mam_outstanding m'"
    by (rule settle_mam [OF step(2)]) blast
  obtain k' where k': "k' \<le> k + 2" "saving_ok k' m'"
    "mam_gate m' = survey_gate (mam_survey_now (core_mam c1) now (core_mam_context c3))"
    by (rule decide_saving_ok [OF c3(5) saving]) blast
  have "saving_ok k' (core_mam c2)" using keeps_saving_ok [OF keeps_saving_same [OF c3(6,7)] k'(2)] .
  moreover have "may_request c2" if "mam_gate (core_mam c2) = RequestGate_Open"
  proof -
    have "may_request c3" using that link_gate [OF c3(6)] k'(3) context_gate by simp
    then show ?thesis using may_request_frame [of c2 c3] settle_frame(1,2) [OF step(2)] c3(2,3) by simp
  qed
  moreover have "k' \<le> 2 * Suc n" using k(1) k'(1) by simp
  ultimately show ?thesis unfolding connection_ok_def step(4) by auto
qed

lemma connection_ok_run: "connection_ok n c \<Longrightarrow> connection_ok (n + length inputs) (fst (run machine_step c inputs))"
proof (induction inputs arbitrary: n c)
  case (Cons i inputs)
  obtain now e where i: "i = (now, e)" by (cases i)
  from Cons.IH [OF connection_ok_step [OF Cons.prems, of now e]] show ?case
    by (simp add: i split_beta Let_def del: machine_step.simps)
qed simp

text \<open>A machine that has not opened its first connection to MAM yet.\<close>

definition not_connected :: "core \<Rightarrow> bool" where
  "not_connected c \<longleftrightarrow> mam_gate (core_mam c) = RequestGate_Closed \<and> mam_outstanding (core_mam c) = None \<and>
     mam_epoch (core_mam c) = 0"

lemma not_connected_new: "not_connected core_new"
  by (simp add: not_connected_def core_new_def mam_new_def)

lemma connection_ok_new: "not_connected c \<Longrightarrow> connection_ok 0 c"
  by (simp add: not_connected_def connection_ok_def saving_ok_def)

text \<open>Which requests a step sends: the registration whose attempt was saved, or what was decided.\<close>

lemma mam_handle_requests:
  assumes "Action_MamRequest request cookie \<in> set (fst (snd (snd (mam_handle m now e g))))"
  shows "\<exists>at k. e = MamEvent_RegistrationAttemptSaved \<and> request = MamRequest_RegisterSeedbox \<and> cookie = Some k \<and>
    mam_outstanding m = Some (Outstanding_SavingRegistration at k (mam_epoch m))"
proof -
  have "mam_receive m now (MamInput_Event e) g = (fst (mam_handle m now e g), fst (snd (snd (mam_handle m now e g))))"
    by (simp add: split_beta Let_def)
  then show ?thesis
    using assms quiet_not_mem by (cases rule: mam_receive_cases) fastforce+
qed

lemma dispatch_requests:
  assumes "core_dispatch c now e = Some r" and "Action_MamRequest request cookie \<in> set (snd r)"
  shows "\<exists>at k. e = Event_Mam MamEvent_RegistrationAttemptSaved \<and> request = MamRequest_RegisterSeedbox \<and>
    cookie = Some k \<and>
    mam_outstanding (core_mam c) = Some (Outstanding_SavingRegistration at k (mam_epoch (core_mam c))) \<and>
    core_state (fst r) = core_state c \<and> core_tunnel (fst r) = core_tunnel c"
proof (cases e)
  case (Event_Mam e')
  with assms have r: "r = core_handle_mam c now e'" by simp
  have "Action_MamRequest request cookie \<in> set (fst (snd (snd (mam_handle (core_mam c) now e' (core_registry c)))))"
    using assms(2) settings_owned(3) [THEN not_owned, of "Action_MamRequest request cookie"]
    unfolding r core_handle_mam_def by (auto simp: split_beta Let_def split: option.splits)
  from mam_handle_requests [OF this] Event_Mam show ?thesis
    by (auto simp: r core_handle_mam_def split_beta Let_def split: option.splits)
next
  case (Event_PortForwarding e')
  with assms have "core_handle_port c now e' = Some r" by simp
  then show ?thesis
  proof (cases rule: core_handle_port_parts)
    case (1 p t)
    from assms(2) 1(3) 1(4,5) [THEN not_owned, of "Action_MamRequest request cookie"] show ?thesis by simp
  qed
next
  case (Event_TimerExpired name i)
  with assms show ?thesis
    by (cases name) (auto simp: split_beta Let_def absent)
qed (use assms in \<open>auto simp: absent core_handle_startup_def core_start_reading_def core_handle_tunnel_def mam_start_reading_def
      split_beta Let_def split: if_splits\<close>)

lemma decide_requests:
  assumes "mam_decide m now c timers = (m', timers', actions)" and "Action_MamRequest request cookie \<in> set actions"
  shows "survey_gate (mam_survey_now m now c) = RequestGate_Open" and "request \<noteq> MamRequest_RegisterSeedbox"
    and "if needs_cookie request then cookie \<noteq> None \<and> cookie = context_cookie c else cookie = None"
proof -
  obtain pre post where request: "actions = pre @ Action_MamRequest request cookie # post"
      "cookie = opt_filter (\<lambda>_. needs_cookie request) (survey_cookie (mam_survey_now m now c))"
      "survey_gate (mam_survey_now m now c) = RequestGate_Open"
      "mam_choose (survey_mam (mam_survey_now m now c)) now (survey_cookie (mam_survey_now m now c) \<noteq> None)
         (context_reserve c) (survey_watching (mam_survey_now m now c), survey_next (mam_survey_now m now c))
         (survey_early (mam_survey_now m now c)) = Some (MamWanted_Request request)"
    using assms(1)
  proof (cases rule: mam_decide_cases)
    case (request request' pre post)
    with assms(2) quiet_not_mem have "request' = request"
      "cookie = opt_filter (\<lambda>_. needs_cookie request) (survey_cookie (mam_survey_now m now c))" by fastforce+
    with request that show ?thesis by blast
  qed (use assms(2) quiet_not_mem in fastforce)+
  show "survey_gate (mam_survey_now m now c) = RequestGate_Open" by (rule request)
  show "request \<noteq> MamRequest_RegisterSeedbox" using mam_choose_request(1) [OF request(4)] .
  show "if needs_cookie request then cookie \<noteq> None \<and> cookie = context_cookie c else cookie = None"
    using mam_choose_request(3) [OF request(4)] survey_cookie_usable [of m now c] request(2) by auto
qed

subsection \<open>Changing the VPN server\<close>

definition core_last_switch :: "core \<Rightarrow> system_time option" where
  "core_last_switch c = last_switch_at (core_tunnel c, timers_new)"

text \<open>A switch is an hour past the last one known; otherwise the last one known stays.\<close>

definition switch_kept :: "core \<Rightarrow> core \<times> action list \<Rightarrow> bool" where
  "switch_kept c r \<longleftrightarrow>
     (if list_ex is_switch (snd r)
      then \<exists>m. core_last_switch (fst r) = Some m \<and> is_none_or (\<lambda>u. u + int SWITCH_SPACING \<le> m) (core_last_switch c)
      else core_last_switch c \<noteq> None \<longrightarrow> core_last_switch (fst r) = core_last_switch c)"

lemma no_switch: "from_parts P actions \<Longrightarrow> Part_Tunnel \<notin> P \<Longrightarrow> \<not> list_ex is_switch actions"
proof -
  have "is_switch a \<Longrightarrow> action_part a = Part_Tunnel" for a by (cases a) simp_all
  then show "from_parts P actions \<Longrightarrow> Part_Tunnel \<notin> P \<Longrightarrow> \<not> list_ex is_switch actions"
    by (auto simp: from_parts_def list_ex_iff)
qed

lemmas unswitched = owned [THEN no_switch]

lemma switch_kept_quiet:
  "\<not> list_ex is_switch actions \<Longrightarrow> core_tunnel c' = core_tunnel c \<Longrightarrow> switch_kept c (c', actions)"
  by (simp add: switch_kept_def core_last_switch_def del: last_switch_at.simps)

lemma tunnel_ok_switch:
  assumes "tunnel_step_ok (core_tunnel c, timers_new) i ((core_tunnel (fst r), timers_new), actions)"
    and "list_ex is_switch (snd r) = list_ex is_switch actions"
  shows "switch_kept c r"
  using assms unfolding tunnel_step_ok_def switch_kept_def core_last_switch_def fst_conv snd_conv by metis

lemma dispatch_switch:
  assumes "core_inv c" and "machine_input_ok (now, e)" and "core_dispatch c now e = Some r"
  shows "switch_kept c r"
proof -
  have inv: "tunnel_inv (core_tunnel c, timers_new)" using assms(1) by (simp add: core_inv_def core_ok_def)
  show ?thesis
  proof (cases e)
    case (Event_TimerExpired name i)
    with assms have r: "r = core_timer_expired c now name i" by simp
    show ?thesis
    proof (cases name)
      case TimerName_TunnelCheck
      show ?thesis
        by (rule tunnel_ok_switch, use tunnel_timer_owes(1) [OF inv, where now = now and i = i] in
            \<open>simp add: r TimerName_TunnelCheck split_beta Let_def\<close>)
          (simp add: r TimerName_TunnelCheck split_beta Let_def)
    qed (simp_all add: r switch_kept_def core_last_switch_def split_beta Let_def unswitched del: last_switch_at.simps)
  next
    case (Event_PortForwarding e')
    with assms(3) have "core_handle_port c now e' = Some r" by simp
    then show ?thesis
    proof (cases rule: core_handle_port_parts)
      case (1 p t)
      show ?thesis
      proof (cases "mapping_failed e'")
        case True
        show ?thesis
          by (rule tunnel_ok_switch, use tunnel_timer_owes(2) [OF inv, where now = now] 1 True in simp)
            (use 1 True no_switch [OF 1(4)] in simp)
      next
        case False
        with 1 no_switch [OF 1(4)] show ?thesis by (simp add: switch_kept_quiet)
      qed
    qed
  next
    case (Event_Tunnel e')
    with assms have ok: "time_spaced (wall now)" "tunnel_event_ok e'" and r: "r = core_handle_tunnel c now e'"
      by simp_all
    have parts: "core_tunnel (fst r) = fst (tunnel_handle (core_tunnel c) now e' (core_timers c))"
      "list_ex is_switch (snd r) = list_ex is_switch (snd (snd (tunnel_handle (core_tunnel c) now e' (core_timers c))))"
      unfolding r by (simp_all add: core_handle_tunnel_def split_beta Let_def unswitched)
    show ?thesis
      by (rule tunnel_ok_switch [OF _ parts(2)])
        (use tunnel_handle_owes [OF inv ok, of "core_timers c"] parts(1) in simp)
  next
    case (Event_Startup e')
    with assms have r: "r = core_handle_startup c e'" by simp
    have unread: "state_opening (core_state c) \<Longrightarrow> core_last_switch c = None"
      using assms(1) by (cases "core_state c") (simp_all add: core_inv_def core_ok_def core_last_switch_def)
    show ?thesis
    proof (cases "state_opening (core_state c) \<and> state_reading (fst (startup_handle (core_state c) e'))")
      case True
      with unread show ?thesis
        by (simp add: r switch_kept_def core_handle_startup_def core_start_reading_def split_beta Let_def unswitched
            tunnel_start_reading_def)
    next
      case False
      then show ?thesis
        by (auto simp: r switch_kept_def core_handle_startup_def core_last_switch_def split_beta Let_def unswitched
            simp del: last_switch_at.simps)
    qed
  qed (use assms(3) in \<open>auto intro!: switch_kept_quiet simp: core_handle_mam_def split_beta Let_def unswitched
      split: option.splits\<close>)
qed

lemma settle_no_switch:
  assumes "core_settle c now notices before = (c', actions)"
  shows "\<not> list_ex is_switch actions"
proof -
  obtain c1 a1 c2 a2 c3 a3 c4 a4 c5 a5 c6 a6 where parts:
    "core_observe (settle_expire c now) now = (c1, a1)" "core_decide_mam c1 now = (c2, a2)"
    "core_renew_lease c2 = (c3, a3)" "core_decide_qbittorrent c3 now = (c4, a4)"
    "core_record_step c4 = (c5, a5)" "core_notify c5 now notices before = (c6, a6)"
    "core_settle c now notices before = (c6, a1 @ a2 @ a3 @ a4 @ a5 @ a6)"
    by (rule core_settle_parts)
  have a2: "from_parts {Part_Mam, Part_Registry} a2"
    using parts(2) mam_owned(3) by (auto simp: core_decide_mam_def split_beta Let_def)
  have "from_parts (UNIV - {Part_Tunnel}) actions"
    using assms parts(1,3-7) a2 settle_owned(1) [of "settle_expire c now" now] settle_owned(2) [of c2]
      settle_owned(3) [of c3 now] settle_owned(4) [of c4] settle_owned(5) [of c5 now notices before]
    by (fastforce simp: from_parts_def)
  then show ?thesis by (rule no_switch) simp
qed

lemma machine_switch:
  assumes "core_inv c" and "machine_input_ok i"
  shows "switch_kept c (machine_step c i)"
proof -
  obtain now e where i: "i = (now, e)" by (cases i)
  show ?thesis
  proof (cases rule: machine_step_cases [of c now e])
    case (step c1 a1 c2 a2)
    have "switch_kept (fst (core_receive c e)) (c1, a1)"
      using dispatch_switch [OF core_inv_receive [OF assms(1)] assms(2) [unfolded i] step(1)] .
    moreover have "core_last_switch (fst (core_receive c e)) = core_last_switch c"
      "core_last_switch c2 = core_last_switch c1"
      using settle_frame(2) [OF step(2)] by (simp_all add: core_last_switch_def core_receive_def split_beta Let_def
          del: last_switch_at.simps)
    ultimately show ?thesis
      using settle_no_switch [OF step(2)] unfolding i step(4) switch_kept_def
      by (cases "list_ex is_switch a1") simp_all
  qed (simp add: i switch_kept_def del: machine_step.simps)
qed

interpretation machine_switches: spaced_events machine_step core_new machine_input_ok core_inv
  is_switch core_last_switch SWITCH_SPACING
proof (unfold_locales, goal_cases)
  case (1 c i)
  from machine_switch [OF 1(1,2)] 1(3) show ?case by (auto simp: switch_kept_def is_none_or_iff)
next
  case (2 c i u)
  from machine_switch [OF 2(1,2)] 2(3,4) show ?case by (auto simp: switch_kept_def)
qed

subsection \<open>Properties\<close>

text \<open>
  C1. Windlass reaches MAM only while requests run and the tunnel protects them: from a machine that
  has not connected yet, as a new one has not, after any run of fewer than \<open>2 ^ 62\<close> events, in every step that sends a request the
  owner's choice and storage allow requests and the tunnel has a confirmed exit address. That
  includes a seedbox registration, which goes out only once its attempt is saved. Every other
  request carries the cookie in force exactly when it needs one.
\<close>

theorem mam_is_reached_only_when_allowed:
  assumes "not_connected c0" and "length inputs < 2 ^ 62"
    and "core_handle (fst (run machine_step c0 inputs)) now e = Some (c', actions)"
    and "Action_MamRequest request cookie \<in> set actions"
  shows "state_mam_requests (core_state c') = MamRequestsStatus_Running \<and> core_exit_ip c' \<noteq> None \<and>
    (if request = MamRequest_RegisterSeedbox then e = Event_Mam MamEvent_RegistrationAttemptSaved
     else if needs_cookie request
     then cookie \<noteq> None \<and> cookie = Option.bind (settings_loaded (core_settings c')) usable_api_cookie
     else cookie = None)"
proof -
  define c where "c = fst (run machine_step c0 inputs)"
  have ok: "connection_ok (length inputs) c"
    using connection_ok_run [OF connection_ok_new [OF assms(1)], of inputs] by (simp add: c_def)
  obtain c1 a1 a2 where step: "core_dispatch (fst (core_receive c e)) now e = Some (c1, a1)"
      "core_settle c1 now (snd (core_receive c e)) (core_glance (fst (core_receive c e))) = (c', a2)"
      "actions = a1 @ a2"
    using assms(3) by (cases rule: machine_step_cases [of c now e]) (auto simp: c_def)
  have frame: "core_state c' = core_state c1" "core_tunnel c' = core_tunnel c1"
    using settle_frame(1,2) [OF step(2)] by simp_all
  have received: "core_mam (fst (core_receive c e)) = core_mam c" "core_state (fst (core_receive c e)) = core_state c"
    "core_tunnel (fst (core_receive c e)) = core_tunnel c"
    by (simp_all add: core_receive_def split_beta Let_def)
  consider (saved) "Action_MamRequest request cookie \<in> set a1" | (decided) "Action_MamRequest request cookie \<in> set a2"
    using assms(4) step(3) by auto
  then have "may_request c' \<and>
    (if request = MamRequest_RegisterSeedbox then e = Event_Mam MamEvent_RegistrationAttemptSaved
     else if needs_cookie request
     then cookie \<noteq> None \<and> cookie = Option.bind (settings_loaded (core_settings c')) usable_api_cookie
     else cookie = None)"
  proof cases
    case saved
    obtain at k where r: "e = Event_Mam MamEvent_RegistrationAttemptSaved" "request = MamRequest_RegisterSeedbox"
        "mam_outstanding (core_mam c) = Some (Outstanding_SavingRegistration at k (mam_epoch (core_mam c)))"
        "core_state c1 = core_state c" "core_tunnel c1 = core_tunnel c"
      using dispatch_requests [OF step(1), of request cookie] saved received by auto
    from ok obtain n where n: "n \<le> 2 * length inputs" "saving_ok n (core_mam c)" by (auto simp: connection_ok_def)
    then obtain j where j: "j \<le> n" "(of_nat n :: u64) = of_nat j" "j = n \<longrightarrow> mam_gate (core_mam c) = RequestGate_Open"
      using r(3) by (auto simp: saving_ok_def)
    have "n < 2 ^ 64" using n(1) assms(2) by simp
    then have "unat (of_nat n :: u64) = n" "unat (of_nat j :: u64) = j"
      using j(1) by (simp_all add: unat_of_nat)
    then have "j = n" using arg_cong [OF j(2), of unat] by metis
    then have "may_request c" using j(3) ok by (simp add: connection_ok_def)
    then show ?thesis using may_request_frame [of c' c] frame r by simp
  next
    case decided
    obtain c2 m' timers' as where d: "core_state c2 = core_state c1" "core_tunnel c2 = core_tunnel c1"
      "core_settings c2 = core_settings c1"
      "mam_decide (core_mam c1) now (core_mam_context c2) (core_timers c2) = (m', timers', as)"
      "core_settings c' = core_settings c1" "Action_MamRequest request cookie \<in> set as"
      by (rule settle_mam [OF step(2)]) (use decided in blast)
    note sent = decide_requests [OF d(4) d(6)]
    have "may_request c2" using sent(1) by (rule context_gate)
    then have "may_request c'" using may_request_frame [of c' c2] frame d(1,2) by simp
    moreover have "context_cookie (core_mam_context c2) = Option.bind (settings_loaded (core_settings c')) usable_api_cookie"
      using d(3,5) by (simp add: core_mam_context_def Let_def)
    ultimately show ?thesis using sent(2,3) by (auto split: if_splits)
  qed
  then show ?thesis unfolding may_request_def by blast
qed

definition witness_core :: core where
  "witness_core = core_new
     \<lparr>core_state := State_Ready \<lparr>preference_saved = Some MamRequestMode_Enabled,
        preference_requested = MamPreferenceUpdate_Set MamRequestMode_Enabled,
        preference_effective = MamRequestMode_Enabled, preference_persistence = MamPreferencePersistence_Idle\<rparr>,
      core_tunnel := tunnel_new\<lparr>tunnel_watch := Some \<lparr>watch_servers = [], watch_current = None,
        watch_protection = Protection_Available (IpAddr_V4 1) 3, watch_check = Check_Waiting 0,
        watch_failures = failure_none, watch_last_failure = None, watch_failover = None, watch_last_check = 0\<rparr>\<rparr>,
      core_mam := witness_enabled\<rparr>"

theorem mam_is_reached_only_when_allowed_witness:
  "\<exists>c' actions. core_handle witness_core \<lparr>monotonic = 5, wall = 10\<rparr> (Event_TimerExpired TimerName_Mam 0) = Some (c', actions) \<and>
     Action_MamRequest MamRequest_LookUpIp None \<in> set actions \<and>
     state_mam_requests (core_state c') = MamRequestsStatus_Running \<and> core_exit_ip c' \<noteq> None"
proof -
  let ?now = "\<lparr>monotonic = 5, wall = 10\<rparr>" and ?e = "Event_TimerExpired TimerName_Mam 0"
  have start: "not_connected witness_core"
    by (simp add: not_connected_def witness_core_def witness_enabled_def mam_start_reading_def mam_new_def)
  let ?c = "fst (core_timer_expired (fst (core_receive witness_core ?e)) ?now TimerName_Mam 0)"
  have observe: "core_observe (settle_expire ?c ?now) ?now = (settle_expire ?c ?now, [])"
    by (simp add: core_observe_def settle_expire_def witness_core_def core_receive_def core_new_def
        qbittorrent_deciding_def split_beta Let_def)
  have mam: "core_mam (settle_expire ?c ?now) = witness_enabled"
    by (simp add: settle_expire_def witness_core_def core_receive_def mam_timer_expired_def witness_enabled_def
        mam_start_reading_def mam_new_def split_beta Let_def)
  have sends: "Action_MamRequest MamRequest_LookUpIp None \<in> set (snd (core_decide_mam (settle_expire ?c ?now) ?now))"
    unfolding core_decide_mam_def mam
    by (simp add: mam_decide_def mam_survey_now_def mam_remind_def mam_follow_gate_def mam_follow_cookie_def
        mam_follow_connectability_def mam_watch_downloads_def mam_choose_def mam_send_def core_mam_context_def
        witness_enabled_def mam_start_reading_def mam_new_def network_new_def network_due_def budget_new_def
        budget_take_def budget_refilled_def tokens_less_one_def REQUEST_BURST_def
        settle_expire_def witness_core_def core_receive_def core_exit_ip_def core_new_def preference_status_def
        notifications_reported_def
        account_new_def split_beta Let_def)
  have "\<exists>c' actions. core_handle witness_core ?now ?e = Some (c', actions) \<and>
     Action_MamRequest MamRequest_LookUpIp None \<in> set actions"
  proof (cases rule: machine_step_cases [of witness_core ?now ?e])
    case panic
    then show ?thesis by (simp add: core_handle_def split_beta Let_def)
  next
    case (step c1 a1 c2 a2)
    have "c1 = ?c" using step(1) by simp
    with step(2) settle_sends [of "Action_MamRequest MamRequest_LookUpIp None" ?c ?now] observe sends
    have "Action_MamRequest MamRequest_LookUpIp None \<in> set a2" by (metis fst_conv snd_conv)
    with step(3) show ?thesis by simp
  qed
  then obtain c' actions where h: "core_handle (fst (run machine_step witness_core [])) ?now ?e = Some (c', actions)"
    "Action_MamRequest MamRequest_LookUpIp None \<in> set actions" by auto
  from mam_is_reached_only_when_allowed [OF start _ h] h show ?thesis by auto
qed



text \<open>
  The machine panics on one input only: a port mapping granted, while a request for one is
  outstanding, for a lifetime that overflows a duration when tripled; NAT-PMP's 32 bits of seconds
  cannot express one.
\<close>

theorem panics_only_on_an_endless_lease:
  "core_handle c now e = None \<longleftrightarrow>
     (\<exists>tcp udp lifetime lease failures last_failure.
        e = Event_PortForwarding (PortForwardingEvent_Mapped tcp udp lifetime) \<and>
        core_port_forwarding c = PortForwarding_Enabled lease LeaseRequest_Outstanding failures last_failure \<and>
        duration_max < lifetime * 3)"
proof -
  have port: "port_forwarding_handle pf now e' timers = None \<longleftrightarrow>
     (\<exists>tcp udp lifetime lease failures last_failure. e' = PortForwardingEvent_Mapped tcp udp lifetime \<and>
        pf = PortForwarding_Enabled lease LeaseRequest_Outstanding failures last_failure \<and>
        duration_max < lifetime * 3)" for pf e' timers
    by (induction pf now e' timers rule: port_forwarding_handle.induct)
      (auto simp: duration_mul_def port_forwarding_failed_eq Let_def split_beta split: option.splits)
  have "core_handle c now e = None \<longleftrightarrow> core_dispatch (fst (core_receive c e)) now e = None"
    by (simp add: core_handle_def split_beta Let_def)
  also have "\<dots> \<longleftrightarrow> (\<exists>e'. e = Event_PortForwarding e' \<and>
      port_forwarding_handle (core_port_forwarding c) now e' (core_timers c) = None)"
    by (cases e) (simp_all add: core_handle_port_def core_receive_def split_beta Let_def)
  finally show ?thesis unfolding port by auto
qed

end
