(* ===== verification/Core_Commands.thy ===== *)
theory Core_Commands
  imports Core_Safety
begin

text \<open>
  What the whole machine tells qBittorrent: a command is the registry's, for the torrents
  qBittorrent has just listed, under the permission MAM's state gives at that moment.
\<close>

lemma qbittorrent_handle_no_command: "Action_QbittorrentCommand k \<notin> set (snd (snd (qbittorrent_handle q now e timers)))"
  by (cases q; cases e) (auto simp: qbittorrent_handle_def qbittorrent_failed_eq session_wait_eq Let_def)

lemma qbittorrent_timer_no_command: "Action_QbittorrentCommand k \<notin> set (snd (qbittorrent_timer_expired q i))"
  by (simp add: qbittorrent_timer_expired_def split: qbittorrent.split)

lemma dispatch_no_command:
  assumes "core_dispatch c now e = Some r"
  shows "Action_QbittorrentCommand k \<notin> set (snd r)"
proof (cases e)
  case (Event_PortForwarding e')
  with assms have "core_handle_port c now e' = Some r" by simp
  then show ?thesis
  proof (cases rule: core_handle_port_parts)
    case (1 p t)
    from 1(3) 1(4,5) [THEN not_owned, of "Action_QbittorrentCommand k"] show ?thesis by simp
  qed
next
  case (Event_TimerExpired name i)
  with assms show ?thesis by (cases name) (auto simp: split_beta Let_def absent qbittorrent_timer_no_command)
qed (use assms in \<open>auto simp: dispatch_ops absent qbittorrent_handle_no_command split_beta Let_def
    split: if_splits option.splits\<close>)

lemma settle_command:
  assumes "Action_QbittorrentCommand k \<in> set (snd (snd (snd (qbittorrent_settle q now timers wanted command r))))"
  obtains s where "q = Qbittorrent_Connected s" "session_activity s = Activity_Deciding DecidingAfter_Sync"
    "command r s = (fst (snd (snd (qbittorrent_settle q now timers wanted command r))), Some k)"
    "fst (qbittorrent_settle q now timers wanted command r) =
       Qbittorrent_Connected (s\<lparr>session_activity := Activity_Commanding\<rparr>)"
proof -
  obtain q1 t1 r1 a1 where d: "qbittorrent_decide q now timers wanted command r = (q1, t1, r1, a1)"
    by (metis surj_pair)
  have k: "Action_QbittorrentCommand k \<in> set a1"
  proof (cases rule: qbittorrent_follow_cases [of q1 wanted])
    case (request s activity a)
    with assms d show ?thesis by (auto simp: qbittorrent_settle_def split_beta Let_def)
  next
    case idle
    with assms d show ?thesis by (simp add: qbittorrent_settle_def split_beta Let_def)
  qed
  obtain s after where s: "qbittorrent_deciding q = Some (s, after)"
    using d k by (cases "qbittorrent_deciding q") (auto simp: qbittorrent_decide_def)
  have unset: "session_set_preferences s wanted = (s, None)"
  proof (cases rule: set_preferences_cases [of s wanted])
    case (change activity request)
    with d k s show ?thesis by (auto simp: qbittorrent_decide_def session_set_preferences_def split: option.splits)
  qed
  have "after = DecidingAfter_Sync" using d k s unset by (cases after) (auto simp: qbittorrent_decide_def)
  moreover have "command r s = (r1, Some k) \<and> q1 = Qbittorrent_Connected (s\<lparr>session_activity := Activity_Commanding\<rparr>)"
    using d k s unset calculation
    by (auto simp: qbittorrent_decide_def session_wait_eq split: prod.splits option.splits if_splits)
  moreover have "qbittorrent_follow_preferences q1 wanted = (q1, [])"
    using calculation by (simp add: qbittorrent_follow_preferences_def)
  ultimately show ?thesis
    using that [of s] s d by (simp add: qbittorrent_settle_def deciding_iff)
qed

lemma reconcile_frame [simp]:
  "records_reconcile (r\<lparr>records_last_command := l\<rparr>) session permits = records_reconcile r session permits"
  "records_reconcile r (session\<lparr>session_activity := a\<rparr>) permits = records_reconcile r session permits"
proof -
  have "records_records (r\<lparr>records_last_command := l\<rparr>) = records_records r" by (simp add: records_records_def)
  then show "records_reconcile (r\<lparr>records_last_command := l\<rparr>) session permits = records_reconcile r session permits"
    unfolding records_reconcile_def present_where_def records_present_def by (simp only:)
  have "session_torrents (session\<lparr>session_activity := a\<rparr>) = session_torrents session" by simp
  then show "records_reconcile r (session\<lparr>session_activity := a\<rparr>) permits = records_reconcile r session permits"
    unfolding records_reconcile_def present_where_def records_present_def record_to_complete_def record_to_add_def
      record_to_start_def by (simp only:)
qed

lemma registry_command_Some:
  assumes "registry_command g now session permits = (g', Some k)"
  obtains r where "g = Registry_Loaded r" "session_listed session" "records_reconcile r session permits = Some k"
    "g' = Registry_Loaded (r\<lparr>records_last_command := Some (k, now)\<rparr>)"
proof -
  obtain r where r: "g = Registry_Loaded r" "session_listed session"
    "registry_with (records_command r now session permits) = (g', Some k)"
    using assms by (auto simp: registry_command_def split: registry.splits if_splits)
  then show ?thesis
    using that [of r] by (auto simp: records_command_def registry_with_def split: option.splits if_splits)
qed

lemma permits_notices [simp]: "mam_permits_download (fst (mam_take_notices m)) = mam_permits_download m"
  by (rule ext) (simp add: mam_permits_download_def mam_take_notices_def split: option.split)

lemma settle_commands:
  assumes "core_settle c now notices before = (c', actions)" and "Action_QbittorrentCommand k \<in> set actions"
  obtains r session where "core_registry c' = Registry_Loaded r" "core_qbittorrent c' = Qbittorrent_Connected session"
    "session_listed session" "session_activity session = Activity_Commanding"
    "records_reconcile r session (mam_permits_download (core_mam c')) = Some k"
proof -
  obtain c1 a1 c2 a2 c3 a3 c4 a4 c5 a5 c6 a6 where parts:
    "core_observe (settle_expire c now) now = (c1, a1)" "core_decide_mam c1 now = (c2, a2)"
    "core_renew_lease c2 = (c3, a3)" "core_decide_qbittorrent c3 now = (c4, a4)"
    "core_record_step c4 = (c5, a5)" "core_notify c5 now notices before = (c6, a6)"
    "core_settle c now notices before = (c6, a1 @ a2 @ a3 @ a4 @ a5 @ a6)"
    by (rule core_settle_parts)
  have c': "c' = c6" "actions = a1 @ a2 @ a3 @ a4 @ a5 @ a6" using assms(1) parts(7) by simp_all
  have others: "from_parts {Part_Registry} a1" "from_parts {Part_Port} a3" "from_parts {Part_History} a5"
    "from_parts {Part_Notifications} a6" "from_parts {Part_Mam, Part_Registry} a2"
    using parts(1-3,5,6) settle_owned(1) [of "settle_expire c now" now] settle_owned(2) [of c2]
      settle_owned(4) [of c4] settle_owned(5) [of c5 now notices before] mam_owned(3)
    by (auto simp: core_decide_mam_def split_beta Let_def)
  have k: "Action_QbittorrentCommand k \<in> set a4"
    using assms(2) c'(2) others [THEN not_owned, of "Action_QbittorrentCommand k"] by simp
  let ?settle = "qbittorrent_settle (core_qbittorrent c3) now (core_timers c3) (core_wanted c3)
    (\<lambda>g session. registry_command g (monotonic now) session (mam_permits_download (core_mam c3))) (core_registry c3)"
  have c4: "core_qbittorrent c4 = fst ?settle" "core_registry c4 = fst (snd (snd ?settle))" "core_mam c4 = core_mam c3"
    "a4 = snd (snd (snd ?settle))"
    using parts(4) by (auto simp: core_decide_qbittorrent_def split_beta Let_def)
  have c6: "core_qbittorrent c6 = core_qbittorrent c4" "core_registry c6 = core_registry c4"
    "core_mam c6 = fst (mam_take_notices (core_mam c4))"
    using parts(5,6) by (auto simp: core_record_step_def core_notify_def split_beta Let_def)
  obtain s where s: "registry_command (core_registry c3) (monotonic now) s (mam_permits_download (core_mam c3)) =
      (fst (snd (snd ?settle)), Some k)"
    "fst ?settle = Qbittorrent_Connected (s\<lparr>session_activity := Activity_Commanding\<rparr>)"
    using k c4(4) by (auto elim: settle_command)
  from s(1) obtain r where r: "session_listed s"
    "records_reconcile r s (mam_permits_download (core_mam c3)) = Some k"
    "fst (snd (snd ?settle)) = Registry_Loaded (r\<lparr>records_last_command := Some (k, monotonic now)\<rparr>)"
    by (rule registry_command_Some)
  show ?thesis
  proof (rule that)
    show "core_registry c' = Registry_Loaded (r\<lparr>records_last_command := Some (k, monotonic now)\<rparr>)"
      using c'(1) c6 c4 r(3) by simp
    show "core_qbittorrent c' = Qbittorrent_Connected (s\<lparr>session_activity := Activity_Commanding\<rparr>)"
      using c'(1) c6 c4 s(2) by simp
    show "session_listed (s\<lparr>session_activity := Activity_Commanding\<rparr>)" using r(1) by (simp add: session_listed_def)
    show "records_reconcile (r\<lparr>records_last_command := Some (k, monotonic now)\<rparr>)
        (s\<lparr>session_activity := Activity_Commanding\<rparr>) (mam_permits_download (core_mam c')) = Some k"
      using r(2) c'(1) c6 c4 by simp
  qed simp
qed

lemma machine_commands:
  assumes "core_handle c now e = Some (c', actions)" and "Action_QbittorrentCommand k \<in> set actions"
  obtains r session where "core_registry c' = Registry_Loaded r" "core_qbittorrent c' = Qbittorrent_Connected session"
    "session_listed session" "session_activity session = Activity_Commanding"
    "records_reconcile r session (mam_permits_download (core_mam c')) = Some k"
  using assms(1)
proof (cases rule: machine_step_cases [of c now e])
  case (step c1 a1 c2 a2)
  with assms dispatch_no_command [OF step(1), of k] have "Action_QbittorrentCommand k \<in> set a2" "c2 = c'" by auto
  with settle_commands [OF step(2)] that show ?thesis by blast
qed simp

subsection \<open>Properties\<close>

text \<open>
  C2. No hit-and-run by Windlass: whatever state the machine is in, a command it sends removes only
  torrents the registry marks removed that, as qBittorrent has just listed them, completed and
  seeded 96 hours, or never downloaded anything; it stops only held torrents that have not completed.
\<close>

theorem machine_removes_and_stops_safely:
  assumes "core_handle c now e = Some (c', actions)" and "Action_QbittorrentCommand k \<in> set actions"
  shows "\<exists>r session. core_registry c' = Registry_Loaded r \<and> core_qbittorrent c' = Qbittorrent_Connected session \<and>
    session_listed session \<and>
    (\<forall>hash \<in> set (removed_by k). has_row r hash (\<lambda>row. record_desired row = Desired_Removed) \<and>
       (\<exists>t. bt_get (session_torrents session) hash = Some t \<and>
          (torrent_completed_at t \<noteq> None \<and> hours 96 \<le> torrent_seeding_time t \<or>
           torrent_progress t = 0 \<and> torrent_downloaded t = 0))) \<and>
    (\<forall>hash \<in> set (stopped_by k). has_row r hash (\<lambda>row. record_desired row = Desired_Held) \<and>
       (\<exists>t. bt_get (session_torrents session) hash = Some t \<and> torrent_completed_at t = None))"
proof -
  from machine_commands [OF assms] obtain r session where "core_registry c' = Registry_Loaded r"
    "core_qbittorrent c' = Qbittorrent_Connected session" "session_listed session"
    "records_reconcile r session (mam_permits_download (core_mam c')) = Some k" by metis
  with removals_and_stops_are_safe show ?thesis by blast
qed

text \<open>
  C3. What Windlass sets running may run: after any run of a machine that had not connected to MAM,
  every torrent that a command starts, forces, completes or adds has an active row, and unless MAM
  does not know it or its whole content is already downloaded, in that very step requests to MAM
  are allowed to run, the tunnel has a confirmed exit address and the ratio guard permits downloads.
\<close>

theorem machine_runs_only_what_it_may:
  assumes "not_connected c0" and "core_handle (fst (run machine_step c0 inputs)) now e = Some (c', actions)"
    and "Action_QbittorrentCommand k \<in> set actions"
  shows "\<exists>r session. core_registry c' = Registry_Loaded r \<and> core_qbittorrent c' = Qbittorrent_Connected session \<and>
    (\<forall>hash \<in> set (running_by k). has_row r hash (\<lambda>row. record_desired row = Desired_Active \<and>
       (identity_mam_id (record_identity row) = None \<or>
        (\<exists>t. bt_get (session_torrents session) hash = Some t \<and> \<not> partial t \<and>
           (torrent_completed_at t \<noteq> None \<or> torrent_state t = TorrentState_Stopped Completion_Complete)) \<or>
        state_mam_requests (core_state c') = MamRequestsStatus_Running \<and> core_exit_ip c' \<noteq> None \<and>
        ratio_guard_permits_downloads (mam_ratio_guard (core_mam c')))))"
proof -
  let ?c = "fst (run machine_step c0 inputs)"
  obtain r session where s: "core_registry c' = Registry_Loaded r"
    "core_qbittorrent c' = Qbittorrent_Connected session"
    "records_reconcile r session (mam_permits_download (core_mam c')) = Some k"
    using machine_commands [OF assms(2,3)] by metis
  have "machine_step ?c (now, e) = (c', actions)" using assms(2) by simp
  with connection_ok_step [OF connection_ok_run [OF connection_ok_new [OF assms(1)], of inputs], of now e]
  have gate: "mam_gate (core_mam c') = RequestGate_Open \<Longrightarrow> may_request c'" by (simp add: connection_ok_def)
  have permits: "may_request c' \<and> ratio_guard_permits_downloads (mam_ratio_guard (core_mam c'))"
    if "mam_permits_download (core_mam c') i" for i
    using that gate by (auto simp: mam_permits_download_def split: option.splits)
  have "has_row r hash (\<lambda>row. record_desired row = Desired_Active \<and>
       (identity_mam_id (record_identity row) = None \<or>
        (\<exists>t. bt_get (session_torrents session) hash = Some t \<and> \<not> partial t \<and>
           (torrent_completed_at t \<noteq> None \<or> torrent_state t = TorrentState_Stopped Completion_Complete)) \<or>
        state_mam_requests (core_state c') = MamRequestsStatus_Running \<and> core_exit_ip c' \<noteq> None \<and>
        ratio_guard_permits_downloads (mam_ratio_guard (core_mam c'))))" if "hash \<in> set (running_by k)" for hash
    using running_torrents_are_permitted [OF s(3) that] permits
    unfolding has_row_def may_request_def is_none_or_iff by (metis not_None_eq)
  with s show ?thesis by blast
qed

text \<open>
  For the witnesses: a machine whose registry and client call for a command, whatever MAM permits,
  sends it.
\<close>

lemma settle_sends_command:
  assumes "core_qbittorrent c = Qbittorrent_Connected s" "session_activity s = Activity_Deciding DecidingAfter_Sync"
    "session_listed s" "core_registry c = Registry_Loaded r" "core_port_forwarding c = PortForwarding_Disabled"
    "core_settings c = SettingsState_Unread" "records_last_command (fst (records_observe r now s)) = None"
    and reconcile: "\<And>permits. records_reconcile (fst (records_observe r now s)) s permits = Some k"
  shows "Action_QbittorrentCommand k \<in> set (snd (core_settle c now notices before))"
proof -
  obtain c1 a1 c2 a2 c3 a3 c4 a4 c5 a5 c6 a6 where parts:
    "core_observe (settle_expire c now) now = (c1, a1)" "core_decide_mam c1 now = (c2, a2)"
    "core_renew_lease c2 = (c3, a3)" "core_decide_qbittorrent c3 now = (c4, a4)"
    "core_record_step c4 = (c5, a5)" "core_notify c5 now notices before = (c6, a6)"
    "core_settle c now notices before = (c6, a1 @ a2 @ a3 @ a4 @ a5 @ a6)"
    by (rule core_settle_parts)
  have deciding: "qbittorrent_deciding (core_qbittorrent c) = Some (s, DecidingAfter_Sync)"
    using assms(1,2) by (simp add: qbittorrent_deciding_def)
  have c1: "core_qbittorrent c1 = core_qbittorrent c" "core_registry c1 = Registry_Loaded (fst (records_observe r now s))"
    "core_port_forwarding c1 = PortForwarding_Disabled" "core_settings c1 = SettingsState_Unread"
    using parts(1) deciding assms(3-6)
    by (auto simp: core_observe_def settle_expire_def registry_observe_def registry_with_def split_beta Let_def)
  have c3: "core_qbittorrent c3 = Qbittorrent_Connected s" "core_registry c3 = Registry_Loaded (fst (records_observe r now s))"
    "core_port_forwarding c3 = PortForwarding_Disabled" "core_settings c3 = SettingsState_Unread"
    using parts(2,3) c1 assms(1)
    by (auto simp: core_decide_mam_def core_renew_lease_def split_beta Let_def split: if_splits)
  have "core_wanted c3 = \<lparr>wanted_listen_port = None, wanted_queue = None\<rparr>"
    using c3 by (simp add: core_wanted_def settings_torrent_limits_saved_def)
  moreover have "registry_command (core_registry c3) (monotonic now) s permits =
      (Registry_Loaded ((fst (records_observe r now s))\<lparr>records_last_command := Some (k, monotonic now)\<rparr>), Some k)" for permits
    using c3(2) assms(3,7) reconcile by (simp add: registry_command_def records_command_def registry_with_def)
  ultimately have "Action_QbittorrentCommand k \<in> set a4"
    using parts(4) c3(1) assms(2)
    by (auto simp: core_decide_qbittorrent_def qbittorrent_settle_def qbittorrent_decide_def qbittorrent_deciding_def
        session_set_preferences_def split_beta Let_def)
  with parts(7) show ?thesis by simp
qed

definition witness_listed :: "desired \<Rightarrow> torrent_state \<Rightarrow> core" where
  "witness_listed desired state = witness_core
     \<lparr>core_registry := Registry_Loaded (records_new [witness_row desired]),
      core_qbittorrent := Qbittorrent_Connected
        ((witness_listing state)\<lparr>session_activity := Activity_Deciding DecidingAfter_Sync\<rparr>)\<rparr>"

definition witness_observed :: "desired \<Rightarrow> torrent_state \<Rightarrow> records" where
  "witness_observed desired state =
     fst (records_observe (records_new [witness_row desired]) \<lparr>monotonic = 5, wall = 10\<rparr>
       ((witness_listing state)\<lparr>session_activity := Activity_Deciding DecidingAfter_Sync\<rparr>))"

lemma witness_listed_handles:
  assumes "records_last_command (witness_observed desired state) = None"
    and "\<And>permits. records_reconcile (witness_observed desired state) (witness_listing state) permits = Some k"
  shows "\<exists>c' actions. core_handle (witness_listed desired state) \<lparr>monotonic = 5, wall = 10\<rparr>
      (Event_TimerExpired TimerName_Mam 0) = Some (c', actions) \<and> Action_QbittorrentCommand k \<in> set actions"
proof -
  let ?now = "\<lparr>monotonic = 5, wall = 10\<rparr>" and ?e = "Event_TimerExpired TimerName_Mam 0"
  let ?s = "(witness_listing state)\<lparr>session_activity := Activity_Deciding DecidingAfter_Sync\<rparr>"
  show ?thesis
  proof (cases rule: machine_step_cases [of "witness_listed desired state" ?now ?e])
    case (step c1 a1 c2 a2)
    have c1: "core_qbittorrent c1 = Qbittorrent_Connected ?s" "core_registry c1 = Registry_Loaded (records_new [witness_row desired])"
      "core_port_forwarding c1 = PortForwarding_Disabled" "core_settings c1 = SettingsState_Unread"
      using step(1) by (auto simp: core_receive_def witness_listed_def witness_core_def core_new_def split_beta Let_def)
    have "Action_QbittorrentCommand k \<in> set a2"
      using settle_sends_command [OF c1(1) _ _ c1(2,3,4), of ?now k] assms step(2)
      by (simp add: witness_observed_def witness_listing_def session_listed_def) (metis snd_conv)
    with step(3) show ?thesis by simp
  qed (simp add: core_handle_def split_beta Let_def)
qed

lemmas witness_observing = witness_observed_def records_observe_def records_observe_one_def records_new_def
  records_save_def row_observed_def entry_observe_def entry_new_def records_records_def witness_listing_def
  witness_row_def torrent_default_def bt_collect_def bt_get_def bt_values_def bt_map_def

lemma witness_observed_eq:
  "records_last_command (witness_observed desired state) = None"
  "map record_desired (records_records (witness_observed desired state)) = [desired]"
  "map record_identity (records_records (witness_observed desired state)) = [Identity_Linked 7 ''ab'']"
  "map record_origin (records_records (witness_observed desired state)) = [Origin_Bookmark]"
  by (simp_all add: witness_observing Let_def split_beta)

lemma witness_observed_row:
  obtains row where "records_records (witness_observed desired state) = [row]" "record_desired row = desired"
    "record_identity row = Identity_Linked 7 ''ab''" "record_origin row = Origin_Bookmark"
  using witness_observed_eq(2-4) [of desired state] by (auto simp: map_eq_Cons_conv)

lemma witness_commands:
  "records_reconcile (witness_observed Desired_Removed TorrentState_Downloading)
     (witness_listing TorrentState_Downloading) permits = Some (TorrentCommand_Remove [''ab''])"
  "records_reconcile (witness_observed Desired_Active (TorrentState_Stopped Completion_Complete))
     (witness_listing (TorrentState_Stopped Completion_Complete)) permits = Some (TorrentCommand_Start [''ab''])"
proof -
  obtain row where "records_records (witness_observed Desired_Removed TorrentState_Downloading) = [row]"
    "record_desired row = Desired_Removed" "record_identity row = Identity_Linked 7 ''ab''"
    by (rule witness_observed_row)
  then show "records_reconcile (witness_observed Desired_Removed TorrentState_Downloading)
     (witness_listing TorrentState_Downloading) permits = Some (TorrentCommand_Remove [''ab''])"
    by (simp add: witness_reconcile)
  obtain row where "records_records (witness_observed Desired_Active (TorrentState_Stopped Completion_Complete)) = [row]"
    "record_desired row = Desired_Active" "record_identity row = Identity_Linked 7 ''ab''"
    "record_origin row = Origin_Bookmark"
    by (rule witness_observed_row)
  then show "records_reconcile (witness_observed Desired_Active (TorrentState_Stopped Completion_Complete))
     (witness_listing (TorrentState_Stopped Completion_Complete)) permits = Some (TorrentCommand_Start [''ab''])"
    by (simp add: witness_reconcile)
qed

theorem machine_removes_and_stops_safely_witness:
  "\<exists>c' actions r session. core_handle (witness_listed Desired_Removed TorrentState_Downloading)
      \<lparr>monotonic = 5, wall = 10\<rparr> (Event_TimerExpired TimerName_Mam 0) = Some (c', actions) \<and>
    Action_QbittorrentCommand (TorrentCommand_Remove [''ab'']) \<in> set actions \<and>
    core_registry c' = Registry_Loaded r \<and> has_row r ''ab'' (\<lambda>row. record_desired row = Desired_Removed) \<and>
    core_qbittorrent c' = Qbittorrent_Connected session \<and> session_listed session"
proof -
  obtain c' actions where h: "core_handle (witness_listed Desired_Removed TorrentState_Downloading)
      \<lparr>monotonic = 5, wall = 10\<rparr> (Event_TimerExpired TimerName_Mam 0) = Some (c', actions)"
    "Action_QbittorrentCommand (TorrentCommand_Remove [''ab'']) \<in> set actions"
    using witness_listed_handles [OF witness_observed_eq(1) witness_commands(1)] by blast
  from machine_removes_and_stops_safely [OF h] h show ?thesis by auto
qed

theorem machine_runs_only_what_it_may_witness:
  "\<exists>c' actions r. core_handle (witness_listed Desired_Active (TorrentState_Stopped Completion_Complete))
      \<lparr>monotonic = 5, wall = 10\<rparr> (Event_TimerExpired TimerName_Mam 0) = Some (c', actions) \<and>
    Action_QbittorrentCommand (TorrentCommand_Start [''ab'']) \<in> set actions \<and>
    core_registry c' = Registry_Loaded r \<and> has_row r ''ab'' (\<lambda>row. record_desired row = Desired_Active)"
proof -
  let ?c = "witness_listed Desired_Active (TorrentState_Stopped Completion_Complete)"
  obtain c' actions where h: "core_handle (fst (run machine_step ?c []))
      \<lparr>monotonic = 5, wall = 10\<rparr> (Event_TimerExpired TimerName_Mam 0) = Some (c', actions)"
    "Action_QbittorrentCommand (TorrentCommand_Start [''ab'']) \<in> set actions"
    using witness_listed_handles [OF witness_observed_eq(1) witness_commands(2)] by auto
  have "not_connected ?c"
    by (simp add: not_connected_def witness_listed_def witness_core_def witness_enabled_def mam_start_reading_def mam_new_def)
  from machine_runs_only_what_it_may [OF this h] h show ?thesis by (auto simp: has_row_def)
qed

end
