(* ===== verification/Client_Parsing.thy ===== *)
theory Client_Parsing
  imports Rust_Text Settings_Values Client_Values Mam_Values
begin

text \<open>
  Text that becomes a value of the core: qBittorrent's version, info hashes, the API cookie and the
  ntfy topic the owner submits, MAM's class names and connectability (the \<open>parse\<close> functions of
  \<open>core/qbittorrent.rs\<close>, \<open>core/settings.rs\<close> and \<open>core/mam/api.rs\<close>).
\<close>

subsection \<open>Versions\<close>

definition client_version_parse :: "string \<Rightarrow> client_version option" where
  "client_version_parse version =
     (case split_at CHR ''.'' (trim_start (\<lambda>c. c = CHR ''v'') (trim version)) of
        [major, minor] \<Rightarrow>
          Option.bind (parse_u32 major) (\<lambda>major. Option.bind (parse_u32 minor) (\<lambda>minor.
            Some (ClientVersion major minor 0)))
      | [major, minor, patch] \<Rightarrow>
          Option.bind (parse_u32 major) (\<lambda>major. Option.bind (parse_u32 minor) (\<lambda>minor.
            Option.bind (parse_u32 patch) (\<lambda>patch. Some (ClientVersion major minor patch))))
      | _ \<Rightarrow> None)"

fun client_version_fmt :: "client_version \<Rightarrow> string" where
  "client_version_fmt (ClientVersion major minor patch) =
     show_nat (unat major) @ CHR ''.'' # show_nat (unat minor) @ CHR ''.'' # show_nat (unat patch)"

text \<open>A text type that trims and refuses nothing.\<close>

definition trimmed_try_new :: "string \<Rightarrow> string option" where
  "trimmed_try_new s = opt_filter (\<lambda>s. s \<noteq> []) (Some (trim s))"

definition reported_version_parse :: "string \<Rightarrow> reported_version option" where
  "reported_version_parse text =
     (case client_version_parse text of
        None \<Rightarrow> map_option ReportedVersion_Unrecognised (trimmed_try_new text)
      | Some version \<Rightarrow> Some (ReportedVersion_Release version))"

subsection \<open>Hashes, the cookie and the topic\<close>

definition torrent_hash_parse :: "string \<Rightarrow> torrent_hash option" where
  "torrent_hash_parse hash =
     (if (length hash = 40 \<or> length hash = 64) \<and> list_all is_ascii_hexdigit hash
      then Some (map to_ascii_lowercase hash) else None)"

datatype invalid_api_cookie = InvalidApiCookie_Empty | InvalidApiCookie_InvalidCharacter

definition api_cookie_parse :: "string \<Rightarrow> invalid_api_cookie + api_cookie" where
  "api_cookie_parse value =
     (let value = trim value in
      if value = [] then Inl InvalidApiCookie_Empty
      else if \<not> list_all (\<lambda>c. is_ascii_graphic c \<and> c \<notin> {CHR '';'', CHR '','', CHR 0x22, CHR 0x5C}) value
      then Inl InvalidApiCookie_InvalidCharacter
      else Inr value)"

datatype invalid_ntfy_topic = InvalidNtfyTopic_Empty | InvalidNtfyTopic_Invalid

definition ntfy_topic_parse :: "string \<Rightarrow> invalid_ntfy_topic + ntfy_topic" where
  "ntfy_topic_parse value =
     (let value = trim value in
      if value = [] then Inl InvalidNtfyTopic_Empty
      else if 64 < length value \<or>
        \<not> list_all (\<lambda>c. is_ascii_alphanumeric c \<or> c \<in> {CHR ''-'', CHR ''_''}) value
      then Inl InvalidNtfyTopic_Invalid
      else Inr value)"

subsection \<open>MAM's words\<close>

definition user_class_parse :: "string \<Rightarrow> user_class option" where
  "user_class_parse name =
     (let name = trim name in
      if name = ''Mouse'' then Some UserClass_Mouse
      else if name = ''User'' then Some UserClass_User
      else if name = ''Power User'' then Some UserClass_PowerUser
      else if name = ''VIP'' then Some UserClass_Vip
      else if name = ''Elite VIP'' then Some UserClass_EliteVip
      else map_option UserClass_Other (trimmed_try_new name))"

definition connectable_parse :: "string \<Rightarrow> connectable" where
  "connectable_parse value =
     (let lower = map to_ascii_lowercase (trim value) in
      if lower \<in> {''yes'', ''true'', ''connectable''} then Connectable_Yes
      else if lower \<in> {''no'', ''false'', ''not connectable'', ''unconnectable''} then Connectable_No
      else if lower = ''offline'' then Connectable_Offline
      else Connectable_Unrecognised (trim value))"

subsection \<open>Properties\<close>

lemma version_text:
  assumes "v = ClientVersion major minor patch"
  shows "trim (client_version_fmt v) = client_version_fmt v"
    and "trim_start (\<lambda>c. c = CHR ''v'') (client_version_fmt v) = client_version_fmt v"
    and "trim (CHR ''v'' # client_version_fmt v) = CHR ''v'' # client_version_fmt v"
proof -
  obtain c cs where c: "show_nat (unat major) = c # cs" "is_ascii_digit c" by (rule show_nat_Cons)
  have hd: "client_version_fmt v \<noteq> []" "hd (client_version_fmt v) = c"
    using c by (simp_all add: assms)
  have "last (client_version_fmt v) = last (show_nat (unat patch))"
    using show_nat_nonempty [of "unat patch"] by (simp add: assms)
  moreover have "last (show_nat (unat patch)) \<in> set (show_nat (unat patch))"
    using show_nat_nonempty by (rule last_in_set)
  ultimately have "is_ascii_digit (last (client_version_fmt v))"
    using show_nat_digits [of "unat patch"] by (simp add: list_all_iff)
  then have l: "\<not> is_whitespace (last (client_version_fmt v))" by (simp add: digit_plain)
  show "trim (client_version_fmt v) = client_version_fmt v"
    by (rule trim_inside) (use hd l c digit_plain in simp_all)
  show "trim_start (\<lambda>c. c = CHR ''v'') (client_version_fmt v) = client_version_fmt v"
    using hd c(2) digit_plain by (cases "client_version_fmt v") (auto simp: trim_start_def)
  show "trim (CHR ''v'' # client_version_fmt v) = CHR ''v'' # client_version_fmt v"
    by (rule trim_inside) (use hd l in \<open>simp_all add: is_whitespace_def\<close>)
qed

lemma show_nat_no_dot: "CHR ''.'' \<notin> set (show_nat n)"
  using show_nat_digits [of n] digit_plain by (fastforce simp: list_all_iff)

lemma parse_u32_show [simp]: "parse_u32 (show_nat (unat w)) = Some w"
proof -
  have "unat w < 2 ^ LENGTH(32)" by (rule unsigned_less)
  then show ?thesis by (simp add: parse_u32_def)
qed

text \<open>\<open>str::parse\<close> takes a leading plus sign, so this text counts as a release.\<close>

lemma plus_sign_is_accepted: "client_version_parse ''v5.+1.2'' = Some (ClientVersion 5 1 2)"
  by (simp add: client_version_parse_def trim_def trim_start_def is_whitespace_def parse_u32_def parse_below_def
      strip_plus_def parse_digits_def digits_value_def is_ascii_digit_def)

text \<open>
  A version survives being printed and read: what \<open>Display\<close> writes for a release, with or
  without qBittorrent's leading \<open>v\<close>, is read back as that release, so it keeps its standing with MAM.
\<close>

theorem version_round_trip:
  "reported_version_parse (client_version_fmt v) = Some (ReportedVersion_Release v) \<and>
   client_version_parse (CHR ''v'' # client_version_fmt v) = Some v"
proof -
  obtain major minor patch where v: "v = ClientVersion major minor patch" by (cases v)
  have "split_at CHR ''.'' (client_version_fmt v) =
      [show_nat (unat major), show_nat (unat minor), show_nat (unat patch)]"
    by (simp add: v split_at_append split_at_none show_nat_no_dot)
  then have "client_version_parse (client_version_fmt v) = Some v"
      "client_version_parse (CHR ''v'' # client_version_fmt v) = Some v"
    using version_text [OF v] by (simp_all add: client_version_parse_def v trim_start_def)
  then show ?thesis by (simp add: reported_version_parse_def)
qed

end
