(* ===== verification/Storage.thy ===== *)
theory Storage
  imports Core Client_Parsing
begin

text \<open>
  Durable state (\<open>shell/storage.rs\<close>): the tables of the database, the rows written to them and read
  back, and the operation behind each storage action of the core. SQLite's integers are signed 64-bit
  numbers, so counts are capped and times are kept as whole seconds of Unix time. A table is the
  list of its rows; a table with a single row is that row, if present. Every operation runs in one
  transaction: it either takes effect as a whole or fails and changes nothing; whether SQLite
  completes it is a parameter. The words of errors and notices are not modelled.
\<close>

subsection \<open>Columns\<close>

definition integer :: "u64 \<Rightarrow> int" where
  "integer count = (if int (unat count) < 2 ^ 63 then int (unat count) else 2 ^ 63 - 1)"

definition seconds :: "system_time \<Rightarrow> int" where
  "seconds time = (case time_since time 0 of None \<Rightarrow> 0 | Some since \<Rightarrow> integer (of_nat (as_secs since)))"

definition time_from_seconds :: "int \<Rightarrow> system_time option" where
  "time_from_seconds s = Option.bind (u64_try_from s) (\<lambda>s. checked_add 0 (secs (unat s)))"

text \<open>\<open>transpose\<close> of an optional value that is read: an absent one stays absent.\<close>

definition read_optional :: "('a \<Rightarrow> 'b option) \<Rightarrow> 'a option \<Rightarrow> 'b option option" where
  "read_optional f v = (case v of None \<Rightarrow> Some None | Some v \<Rightarrow> map_option Some (f v))"

text \<open>Text types that refuse nothing but the empty text.\<close>

definition nonempty_try_new :: "string \<Rightarrow> string option" where
  "nonempty_try_new s = (if s = [] then None else Some s)"

definition vpn_server_try_new :: "string \<Rightarrow> vpn_server option" where
  "vpn_server_try_new name =
     (if 1 \<le> length name \<and> length name \<le> 64 \<and>
         list_all (\<lambda>c. is_ascii_alphanumeric c \<or> c \<in> {CHR ''-'', CHR ''_''}) name
      then Some name else None)"

definition torrent_state_read :: "string \<Rightarrow> torrent_state" where
  "torrent_state_read state =
     (if state \<in> {''metaDL'', ''forcedMetaDL''} then TorrentState_FetchingMetadata
      else if state \<in> {''allocating'', ''downloading'', ''forcedDL''} then TorrentState_Downloading
      else if state = ''stalledDL'' then TorrentState_DownloadStalled
      else if state = ''queuedDL'' then TorrentState_DownloadQueued
      else if state \<in> {''uploading'', ''forcedUP''} then TorrentState_Seeding
      else if state = ''stalledUP'' then TorrentState_SeedStalled
      else if state = ''queuedUP'' then TorrentState_SeedQueued
      else if state \<in> {''pausedUP'', ''stoppedUP''} then TorrentState_Stopped Completion_Complete
      else if state \<in> {''pausedDL'', ''stoppedDL''} then TorrentState_Stopped Completion_Incomplete
      else if state \<in> {''checkingUP'', ''checkingDL'', ''checkingResumeData''} then TorrentState_Checking
      else if state = ''moving'' then TorrentState_Moving
      else if state = ''missingFiles'' then TorrentState_MissingFiles
      else if state = ''error'' then TorrentState_Error
      else TorrentState_Unknown)"

fun state_name :: "torrent_state \<Rightarrow> string" where
  "state_name TorrentState_FetchingMetadata = ''metaDL''"
| "state_name TorrentState_Downloading = ''downloading''"
| "state_name TorrentState_DownloadStalled = ''stalledDL''"
| "state_name TorrentState_DownloadQueued = ''queuedDL''"
| "state_name TorrentState_Seeding = ''uploading''"
| "state_name TorrentState_SeedStalled = ''stalledUP''"
| "state_name TorrentState_SeedQueued = ''queuedUP''"
| "state_name (TorrentState_Stopped Completion_Complete) = ''stoppedUP''"
| "state_name (TorrentState_Stopped Completion_Incomplete) = ''stoppedDL''"
| "state_name TorrentState_Checking = ''checkingDL''"
| "state_name TorrentState_Moving = ''moving''"
| "state_name TorrentState_MissingFiles = ''missingFiles''"
| "state_name TorrentState_Error = ''error''"
| "state_name TorrentState_Unknown = ''unknown''"

subsection \<open>The tables\<close>

record settings_row =
  stored_history_limit :: "int option"
  stored_api_cookie :: "string option"
  stored_ntfy_topic :: "string option"
  stored_points_reserve :: "int option"
  stored_max_downloading :: "int option"
  stored_max_active :: "int option"

record mam_state_row =
  stored_last_registration_at :: "int option"
  stored_last_reminder_at :: "int option"
  stored_downloaded_watched :: "int option"
  stored_ratio_used_at :: "int option"
  stored_ratio_used_downloaded :: "int option"

record torrent_row =
  col_id :: int
  col_mam_id :: "int option"
  col_hash :: "string option"
  col_origin :: string
  col_desired :: string
  col_save_path :: "string option"
  col_deletion_allowed :: bool
  col_name :: "string option"
  col_state :: "string option"
  col_progress_permille :: "int option"
  col_size :: "int option"
  col_total_size :: "int option"
  col_downloaded :: "int option"
  col_uploaded :: "int option"
  col_ratio_thousandths :: "int option"
  col_seeding_seconds :: "int option"
  col_added_at :: "int option"
  col_completed_at :: "int option"
  col_content_path :: "string option"
  col_observed_save_path :: "string option"
  col_last_seen :: "int option"

record notice_row =
  stored_notice_id :: int
  stored_notice_at :: int
  stored_notice_urgent :: bool

record database =
  db_version :: int
  db_request_mode :: "string option"
  db_settings :: "settings_row option"
  db_torrents :: "torrent_row list"
  db_last_switch :: "(string \<times> int) option"
  db_torrent_files :: "(int \<times> string \<times> string) list"
  db_mam_state :: "mam_state_row option"
  db_notices :: "notice_row list"

definition settings_row_empty :: settings_row where
  "settings_row_empty =
     \<lparr>stored_history_limit = None, stored_api_cookie = None, stored_ntfy_topic = None,
      stored_points_reserve = None, stored_max_downloading = None, stored_max_active = None\<rparr>"

definition mam_state_row_empty :: mam_state_row where
  "mam_state_row_empty =
     \<lparr>stored_last_registration_at = None, stored_last_reminder_at = None, stored_downloaded_watched = None,
      stored_ratio_used_at = None, stored_ratio_used_downloaded = None\<rparr>"

text \<open>
  \<open>INSERT ... ON CONFLICT(singleton) DO UPDATE SET\<close> of some columns: on the row, or on a new one whose
  other columns are null.
\<close>

definition update_settings :: "(settings_row \<Rightarrow> settings_row) \<Rightarrow> database \<Rightarrow> database" where
  "update_settings f db = db\<lparr>db_settings := Some (f (unwrap_or settings_row_empty (db_settings db)))\<rparr>"

definition update_mam_state :: "(mam_state_row \<Rightarrow> mam_state_row) \<Rightarrow> database \<Rightarrow> database" where
  "update_mam_state f db = db\<lparr>db_mam_state := Some (f (unwrap_or mam_state_row_empty (db_mam_state db)))\<rparr>"

subsection \<open>Opening\<close>

definition SCHEMA_VERSION :: int where
  "SCHEMA_VERSION = 10"

definition database_new :: database where
  "database_new =
     \<lparr>db_version = SCHEMA_VERSION, db_request_mode = None, db_settings = None, db_torrents = [],
      db_last_switch = None, db_torrent_files = [], db_mam_state = None, db_notices = []\<rparr>"

text \<open>
  A column or a table that an earlier version lacks is null or empty here, so an upgrade changes the
  version only.
\<close>

definition open_storage :: "database option \<Rightarrow> startup_mode \<Rightarrow> database option" where
  "open_storage file mode =
     (case mode of
        StartupMode_Initialise \<Rightarrow> (case file of None \<Rightarrow> Some database_new | Some _ \<Rightarrow> None)
      | StartupMode_Resume \<Rightarrow>
          Option.bind file (\<lambda>db. if SCHEMA_VERSION < db_version db then None else Some (db\<lparr>db_version := SCHEMA_VERSION\<rparr>)))"

subsection \<open>The MAM preference and the settings\<close>

definition read_mode :: "database \<Rightarrow> mam_pause_event option" where
  "read_mode db =
     (case db_request_mode db of
        None \<Rightarrow> Some (MamPauseEvent_Read None)
      | Some stored \<Rightarrow>
          if stored = ''paused'' then Some (MamPauseEvent_Read (Some MamRequestMode_Paused))
          else if stored = ''enabled'' then Some (MamPauseEvent_Read (Some MamRequestMode_Enabled))
          else None)"

definition write_mode :: "database \<Rightarrow> mam_request_mode \<Rightarrow> database" where
  "write_mode db mode =
     db\<lparr>db_request_mode := Some (case mode of MamRequestMode_Paused \<Rightarrow> ''paused'' | MamRequestMode_Enabled \<Rightarrow> ''enabled'')\<rparr>"

definition delete_mode :: "database \<Rightarrow> database" where
  "delete_mode db = db\<lparr>db_request_mode := None\<rparr>"

definition right_option :: "'e + 'a \<Rightarrow> 'a option" where
  "right_option r = (case r of Inl _ \<Rightarrow> None | Inr v \<Rightarrow> Some v)"

definition stored_torrent_limits :: "int \<Rightarrow> int \<Rightarrow> torrent_limits option" where
  "stored_torrent_limits downloading active =
     Option.bind (Option.bind (u32_try_from downloading) downloading_limit_try_new) (\<lambda>downloading.
     Option.bind (Option.bind (u32_try_from active) active_limit_try_new) (\<lambda>active.
       right_option (torrent_limits_new downloading active)))"

fun read_torrent_limits :: "int option \<Rightarrow> int option \<Rightarrow> torrent_limits option option" where
  "read_torrent_limits (Some downloading) (Some active) = map_option Some (stored_torrent_limits downloading active)"
| "read_torrent_limits _ _ = Some None"

definition read_settings :: "database \<Rightarrow> settings_event option" where
  "read_settings db =
     (let row = unwrap_or settings_row_empty (db_settings db) in
      Option.bind (read_optional (\<lambda>l. Option.bind (u32_try_from l) history_limit_try_new) (stored_history_limit row)) (\<lambda>limit.
      Option.bind (read_optional (\<lambda>c. right_option (api_cookie_parse c)) (stored_api_cookie row)) (\<lambda>cookie.
      Option.bind (read_optional (\<lambda>t. right_option (ntfy_topic_parse t)) (stored_ntfy_topic row)) (\<lambda>topic.
      Option.bind (read_optional (\<lambda>r. Option.bind (u64_try_from r) points_reserve_try_new) (stored_points_reserve row)) (\<lambda>reserve.
      Option.bind (read_torrent_limits (stored_max_downloading row) (stored_max_active row)) (\<lambda>limits.
        Some (SettingsEvent_Read limit cookie topic reserve limits)))))))"

definition write_history_limit :: "database \<Rightarrow> history_limit \<Rightarrow> database" where
  "write_history_limit db limit = update_settings (\<lambda>r. r\<lparr>stored_history_limit := Some (int (unat limit))\<rparr>) db"

definition write_api_cookie :: "database \<Rightarrow> api_cookie option \<Rightarrow> database" where
  "write_api_cookie db cookie = update_settings (\<lambda>r. r\<lparr>stored_api_cookie := cookie\<rparr>) db"

definition write_ntfy_topic :: "database \<Rightarrow> ntfy_topic option \<Rightarrow> database" where
  "write_ntfy_topic db topic = update_settings (\<lambda>r. r\<lparr>stored_ntfy_topic := topic\<rparr>) db"

definition write_points_reserve :: "database \<Rightarrow> points_reserve \<Rightarrow> database" where
  "write_points_reserve db reserve = update_settings (\<lambda>r. r\<lparr>stored_points_reserve := Some (integer reserve)\<rparr>) db"

definition write_torrent_limits :: "database \<Rightarrow> torrent_limits \<Rightarrow> database" where
  "write_torrent_limits db limits =
     update_settings (\<lambda>r. r\<lparr>stored_max_downloading := Some (int (unat (limits_downloading limits))),
                          stored_max_active := Some (int (unat (limits_active limits)))\<rparr>) db"

subsection \<open>MAM state, the tunnel, notices and torrent files\<close>

fun read_ratio_guard :: "int option \<Rightarrow> int option \<Rightarrow> int option \<Rightarrow> saved_ratio_guard option" where
  "read_ratio_guard None None None = Some SavedRatioGuard_Unset"
| "read_ratio_guard (Some watched) None None = map_option SavedRatioGuard_Watching (u64_try_from watched)"
| "read_ratio_guard (Some before) (Some at) (Some after) =
     Option.bind (u64_try_from before) (\<lambda>before. Option.bind (u64_try_from after) (\<lambda>after.
       map_option (\<lambda>at. SavedRatioGuard_Tripped \<lparr>use_before = before, use_after = after, use_at = at\<rparr>)
         (time_from_seconds at)))"
| "read_ratio_guard _ _ _ = None"

definition read_mam_state :: "database \<Rightarrow> mam_event option" where
  "read_mam_state db =
     (let row = unwrap_or mam_state_row_empty (db_mam_state db) in
      Option.bind (read_ratio_guard (stored_downloaded_watched row) (stored_ratio_used_at row)
          (stored_ratio_used_downloaded row)) (\<lambda>guard.
      Option.bind (read_optional time_from_seconds (stored_last_registration_at row)) (\<lambda>registration.
      Option.bind (read_optional time_from_seconds (stored_last_reminder_at row)) (\<lambda>reminder.
        Some (MamEvent_StateRead registration reminder guard)))))"

definition save_ratio_guard :: "database \<Rightarrow> saved_ratio_guard \<Rightarrow> database" where
  "save_ratio_guard db guard =
     (let (watched, used_at, used_downloaded) =
        (case guard of
           SavedRatioGuard_Unset \<Rightarrow> (None, None, None)
         | SavedRatioGuard_Watching watched \<Rightarrow> (Some (integer watched), None, None)
         | SavedRatioGuard_Tripped used \<Rightarrow>
             (Some (integer (use_before used)), Some (seconds (use_at used)), Some (integer (use_after used))))
      in update_mam_state (\<lambda>r. r\<lparr>stored_downloaded_watched := watched, stored_ratio_used_at := used_at,
                               stored_ratio_used_downloaded := used_downloaded\<rparr>) db)"

definition save_registration_attempt :: "database \<Rightarrow> system_time \<Rightarrow> database" where
  "save_registration_attempt db at = update_mam_state (\<lambda>r. r\<lparr>stored_last_registration_at := Some (seconds at)\<rparr>) db"

definition save_reminder :: "database \<Rightarrow> system_time \<Rightarrow> database" where
  "save_reminder db at = update_mam_state (\<lambda>r. r\<lparr>stored_last_reminder_at := Some (seconds at)\<rparr>) db"

definition read_last_switch :: "database \<Rightarrow> tunnel_event option" where
  "read_last_switch db =
     map_option TunnelEvent_LastSwitchRead
       (read_optional (\<lambda>(server, at). Option.bind (vpn_server_try_new server) (\<lambda>server.
          map_option (\<lambda>at. \<lparr>switch_server = server, switch_at = at\<rparr>) (time_from_seconds at))) (db_last_switch db))"

definition save_switch :: "database \<Rightarrow> vpn_switch \<Rightarrow> database" where
  "save_switch db switch = db\<lparr>db_last_switch := Some (switch_server switch, seconds (switch_at switch))\<rparr>"

definition stored_notice :: "int \<Rightarrow> notice_id option" where
  "stored_notice i = Option.bind (u64_try_from i) notice_id_new"

definition read_notice_log :: "database \<Rightarrow> notification_event option" where
  "read_notice_log db =
     map_option NotificationEvent_LogRead
       (read_optional stored_notice
         (if db_notices db = [] then None else Some (Max (set (map stored_notice_id (db_notices db))))))"

text \<open>\<open>INSERT\<close> of a notice whose identity is taken fails.\<close>

definition save_notice :: "database \<Rightarrow> logged \<Rightarrow> notice_id option \<Rightarrow> database option" where
  "save_notice db entry oldest =
     (let row = \<lparr>stored_notice_id = integer (logged_id entry), stored_notice_at = seconds (logged_at entry),
                 stored_notice_urgent = (logged_reach entry = Reach_Push)\<rparr> in
      if stored_notice_id row \<in> set (map stored_notice_id (db_notices db)) then None
      else let notices = db_notices db @ [row] in
        Some (db\<lparr>db_notices := (case oldest of
            None \<Rightarrow> notices
          | Some through \<Rightarrow> filter (\<lambda>n. integer through < stored_notice_id n) notices)\<rparr>))"

definition keep_torrent_file :: "database \<Rightarrow> mam_torrent_id \<Rightarrow> torrent_hash \<Rightarrow> string \<Rightarrow> database" where
  "keep_torrent_file db mam hash file =
     db\<lparr>db_torrent_files := filter (\<lambda>f. fst f \<noteq> integer mam) (db_torrent_files db) @ [(integer mam, hash, file)]\<rparr>"

definition kept_torrent_file :: "database \<Rightarrow> mam_torrent_id \<Rightarrow> string option" where
  "kept_torrent_file db mam =
     map_option (snd \<circ> snd) (List.find (\<lambda>f. fst f = integer mam) (db_torrent_files db))"

subsection \<open>The torrent registry\<close>

definition origin_name :: "origin \<Rightarrow> string" where
  "origin_name origin =
     (case origin of Origin_Bookmark \<Rightarrow> ''bookmark'' | Origin_Redownload \<Rightarrow> ''redownload'' | Origin_Adopted \<Rightarrow> ''adopted'')"

definition origin_read :: "string \<Rightarrow> origin option" where
  "origin_read origin =
     (if origin = ''bookmark'' then Some Origin_Bookmark
      else if origin = ''redownload'' then Some Origin_Redownload
      else if origin = ''adopted'' then Some Origin_Adopted
      else None)"

definition desired_name :: "desired \<Rightarrow> string" where
  "desired_name desired =
     (case desired of
        Desired_Queued \<Rightarrow> ''queued'' | Desired_Snatched \<Rightarrow> ''snatched'' | Desired_Active \<Rightarrow> ''active''
      | Desired_Held \<Rightarrow> ''held'' | Desired_Removed \<Rightarrow> ''removed'')"

definition desired_read :: "string \<Rightarrow> desired option" where
  "desired_read desired =
     (if desired = ''queued'' then Some Desired_Queued
      else if desired = ''snatched'' then Some Desired_Snatched
      else if desired = ''active'' then Some Desired_Active
      else if desired = ''held'' then Some Desired_Held
      else if desired = ''removed'' then Some Desired_Removed
      else None)"

text \<open>What \<open>save_torrents\<close> binds to the columns, and the constraints of the table.\<close>

definition torrent_row_of :: "torrent_record \<Rightarrow> torrent_row" where
  "torrent_row_of record =
     (let torrent = map_option observation_torrent (record_observation record);
          count = (\<lambda>count. map_option (\<lambda>t. integer (count t)) torrent);
          time = (\<lambda>time. map_option seconds (Option.bind torrent time)) in
      \<lparr>col_id = integer (record_id record),
       col_mam_id = map_option integer (identity_mam_id (record_identity record)),
       col_hash = identity_hash (record_identity record),
       col_origin = origin_name (record_origin record),
       col_desired = desired_name (record_desired record),
       col_save_path = record_save_path record,
       col_deletion_allowed = (record_deletion record = ContentDeletion_Allowed),
       col_name = Option.bind torrent torrent_name,
       col_state = map_option (\<lambda>t. state_name (torrent_state t)) torrent,
       col_progress_permille = map_option (\<lambda>t. uint (torrent_progress t)) torrent,
       col_size = count torrent_size, col_total_size = count torrent_total_size,
       col_downloaded = count torrent_downloaded, col_uploaded = count torrent_uploaded,
       col_ratio_thousandths = count torrent_ratio,
       col_seeding_seconds = count (\<lambda>t. of_nat (as_secs (torrent_seeding_time t))),
       col_added_at = time torrent_added_at, col_completed_at = time torrent_completed_at,
       col_content_path = Option.bind torrent torrent_content_path,
       col_observed_save_path = Option.bind torrent torrent_save_path,
       col_last_seen = map_option (\<lambda>seen. seconds (observation_last_seen seen)) (record_observation record)\<rparr>)"

definition row_allowed :: "torrent_row \<Rightarrow> bool" where
  "row_allowed row \<longleftrightarrow>
     col_origin row \<in> {''bookmark'', ''redownload'', ''adopted''} \<and>
     col_desired row \<in> {''queued'', ''snatched'', ''active'', ''held'', ''removed''} \<and>
     (col_mam_id row \<noteq> None \<or> col_hash row \<noteq> None)"

text \<open>\<open>INSERT OR REPLACE\<close>: rows with the same id or the same hash give way.\<close>

definition replace_torrent :: "torrent_row \<Rightarrow> torrent_row list \<Rightarrow> torrent_row list" where
  "replace_torrent row rows =
     filter (\<lambda>q. col_id q \<noteq> col_id row \<and> (col_hash row = None \<or> col_hash q \<noteq> col_hash row)) rows @ [row]"

definition save_torrents :: "database \<Rightarrow> torrent_record list \<Rightarrow> database option" where
  "save_torrents db records =
     (let rows = map torrent_row_of records in
      if list_all row_allowed rows then Some (db\<lparr>db_torrents := fold replace_torrent rows (db_torrents db)\<rparr>) else None)"

text \<open>Reading a row: every column of an observation is required but the optional ones.\<close>

definition read_count :: "int option \<Rightarrow> u64 option" where
  "read_count column = Option.bind column u64_try_from"

definition read_progress :: "int option \<Rightarrow> progress option" where
  "read_progress column =
     Option.bind (read_count column) (\<lambda>c. Option.bind (u16_try_from (uint c)) progress_from_permille)"

definition observation_of :: "torrent_row \<Rightarrow> int \<Rightarrow> observation option" where
  "observation_of row last_seen =
     Option.bind (col_state row) (\<lambda>state.
     Option.bind (read_progress (col_progress_permille row)) (\<lambda>progress.
     Option.bind (read_optional nonempty_try_new (col_name row)) (\<lambda>name.
     Option.bind (read_count (col_size row)) (\<lambda>size'.
     Option.bind (read_count (col_total_size row)) (\<lambda>total_size.
     Option.bind (read_count (col_downloaded row)) (\<lambda>downloaded.
     Option.bind (read_count (col_uploaded row)) (\<lambda>uploaded.
     Option.bind (read_count (col_ratio_thousandths row)) (\<lambda>ratio.
     Option.bind (read_count (col_seeding_seconds row)) (\<lambda>seeding.
     Option.bind (read_optional time_from_seconds (col_added_at row)) (\<lambda>added_at.
     Option.bind (read_optional time_from_seconds (col_completed_at row)) (\<lambda>completed_at.
     Option.bind (read_optional nonempty_try_new (col_content_path row)) (\<lambda>content_path.
     Option.bind (read_optional nonempty_try_new (col_observed_save_path row)) (\<lambda>save_path.
     Option.bind (time_from_seconds last_seen) (\<lambda>last_seen.
       Some \<lparr>observation_torrent =
               \<lparr>torrent_name = name, torrent_state = torrent_state_read state, torrent_progress = progress,
                torrent_size = size', torrent_total_size = total_size, torrent_downloaded = downloaded,
                torrent_uploaded = uploaded, torrent_ratio = ratio, torrent_seeding_time = secs (unat seeding),
                torrent_added_at = added_at, torrent_completed_at = completed_at,
                torrent_content_path = content_path, torrent_save_path = save_path,
                torrent_force_start = ForceStart_NotForced\<rparr>,
             observation_last_seen = last_seen\<rparr>))))))))))))))"

definition torrent_record_of :: "torrent_row \<Rightarrow> torrent_record option" where
  "torrent_record_of row =
     Option.bind (Option.bind (u64_try_from (col_id row)) record_id_new) (\<lambda>i.
     Option.bind (read_optional (\<lambda>mam. Option.bind (u64_try_from mam) mam_torrent_id_new) (col_mam_id row)) (\<lambda>mam.
     Option.bind (read_optional torrent_hash_parse (col_hash row)) (\<lambda>hash.
     Option.bind (identity_new mam hash) (\<lambda>identity.
     Option.bind (origin_read (col_origin row)) (\<lambda>origin.
     Option.bind (desired_read (col_desired row)) (\<lambda>desired.
     Option.bind (read_optional (observation_of row) (col_last_seen row)) (\<lambda>observation.
     Option.bind (read_optional nonempty_try_new (col_save_path row)) (\<lambda>save_path.
       Some \<lparr>record_id = i, record_identity = identity, record_origin = origin, record_desired = desired,
             record_save_path = save_path,
             record_deletion = (if col_deletion_allowed row then ContentDeletion_Allowed else ContentDeletion_NotAllowed),
             record_observation = observation\<rparr>))))))))"

definition read_registry :: "database \<Rightarrow> registry_event option" where
  "read_registry db =
     map_option RegistryEvent_Read (collect_options (map torrent_record_of (sort_key col_id (db_torrents db))))"

subsection \<open>Operations\<close>

datatype (plugins only: code size) operation =
    Operation_OpenStorage startup_mode
  | Operation_ReadMamRequestMode
  | Operation_WriteMamRequestMode mam_request_mode
  | Operation_DeleteMamRequestMode
  | Operation_ReadSettings
  | Operation_WriteHistoryLimit history_limit
  | Operation_WriteApiCookie "api_cookie option"
  | Operation_WriteNtfyTopic "ntfy_topic option"
  | Operation_ReadTorrentRegistry
  | Operation_SaveTorrents "torrent_record list"
  | Operation_ReadLastVpnSwitch
  | Operation_SaveVpnSwitch vpn_switch
  | Operation_WritePointsReserve points_reserve
  | Operation_WriteTorrentLimits torrent_limits
  | Operation_WriteRotatedApiCookie api_cookie
  | Operation_ReadMamState
  | Operation_SaveRegistrationAttempt system_time
  | Operation_SaveReminder system_time
  | Operation_SaveRatioGuard saved_ratio_guard
  | Operation_ReadNoticeLog
  | Operation_SaveNotice logged "notice_id option"

text \<open>The event that reports that an operation failed.\<close>

fun operation_failure :: "operation \<Rightarrow> event" where
  "operation_failure (Operation_OpenStorage _) = Event_Startup StartupEvent_StorageOpenFailed"
| "operation_failure Operation_ReadMamRequestMode = Event_MamPause MamPauseEvent_ReadFailed"
| "operation_failure (Operation_WriteMamRequestMode _) = Event_MamPause MamPauseEvent_WriteFailed"
| "operation_failure Operation_DeleteMamRequestMode = Event_MamPause MamPauseEvent_DeleteFailed"
| "operation_failure Operation_ReadSettings = Event_Settings SettingsEvent_ReadFailed"
| "operation_failure (Operation_WriteHistoryLimit _) = Event_Settings SettingsEvent_HistoryLimitWriteFailed"
| "operation_failure (Operation_WriteApiCookie _) = Event_Settings SettingsEvent_ApiCookieWriteFailed"
| "operation_failure (Operation_WriteNtfyTopic _) = Event_Settings SettingsEvent_NtfyTopicWriteFailed"
| "operation_failure Operation_ReadTorrentRegistry = Event_Registry RegistryEvent_ReadFailed"
| "operation_failure (Operation_SaveTorrents _) = Event_Registry RegistryEvent_SaveFailed"
| "operation_failure Operation_ReadLastVpnSwitch = Event_Tunnel TunnelEvent_LastSwitchReadFailed"
| "operation_failure (Operation_SaveVpnSwitch _) = Event_Tunnel TunnelEvent_SwitchSaveFailed"
| "operation_failure (Operation_WritePointsReserve _) = Event_Settings SettingsEvent_PointsReserveWriteFailed"
| "operation_failure (Operation_WriteTorrentLimits _) = Event_Settings SettingsEvent_TorrentLimitsWriteFailed"
| "operation_failure (Operation_WriteRotatedApiCookie _) = Event_Settings SettingsEvent_RotatedApiCookieWriteFailed"
| "operation_failure Operation_ReadMamState = Event_Mam MamEvent_StateReadFailed"
| "operation_failure (Operation_SaveRegistrationAttempt _) = Event_Mam MamEvent_RegistrationAttemptSaveFailed"
| "operation_failure (Operation_SaveReminder _) = Event_Mam MamEvent_ReminderSaveFailed"
| "operation_failure (Operation_SaveRatioGuard _) = Event_Mam MamEvent_RatioGuardSaveFailed"
| "operation_failure Operation_ReadNoticeLog = Event_Notification NotificationEvent_LogReadFailed"
| "operation_failure (Operation_SaveNotice _ _) = Event_Notification NotificationEvent_SaveFailed"

text \<open>What an operation does to an existing database, and the event it reports; or that it failed.\<close>

fun operation_run :: "database \<Rightarrow> operation \<Rightarrow> (database \<times> event) option" where
  "operation_run db (Operation_OpenStorage mode) =
     map_option (\<lambda>db. (db, Event_Startup StartupEvent_StorageOpened)) (open_storage (Some db) mode)"
| "operation_run db Operation_ReadMamRequestMode = map_option (\<lambda>e. (db, Event_MamPause e)) (read_mode db)"
| "operation_run db (Operation_WriteMamRequestMode mode) =
     Some (write_mode db mode, Event_MamPause MamPauseEvent_Written)"
| "operation_run db Operation_DeleteMamRequestMode = Some (delete_mode db, Event_MamPause MamPauseEvent_Deleted)"
| "operation_run db Operation_ReadSettings = map_option (\<lambda>e. (db, Event_Settings e)) (read_settings db)"
| "operation_run db (Operation_WriteHistoryLimit limit) =
     Some (write_history_limit db limit, Event_Settings SettingsEvent_HistoryLimitWritten)"
| "operation_run db (Operation_WriteApiCookie cookie) =
     Some (write_api_cookie db cookie, Event_Settings SettingsEvent_ApiCookieWritten)"
| "operation_run db (Operation_WriteNtfyTopic topic) =
     Some (write_ntfy_topic db topic, Event_Settings SettingsEvent_NtfyTopicWritten)"
| "operation_run db Operation_ReadTorrentRegistry = map_option (\<lambda>e. (db, Event_Registry e)) (read_registry db)"
| "operation_run db (Operation_SaveTorrents records) =
     map_option (\<lambda>db. (db, Event_Registry RegistryEvent_Saved)) (save_torrents db records)"
| "operation_run db Operation_ReadLastVpnSwitch = map_option (\<lambda>e. (db, Event_Tunnel e)) (read_last_switch db)"
| "operation_run db (Operation_SaveVpnSwitch switch) =
     Some (save_switch db switch, Event_Tunnel TunnelEvent_SwitchSaved)"
| "operation_run db (Operation_WritePointsReserve reserve) =
     Some (write_points_reserve db reserve, Event_Settings SettingsEvent_PointsReserveWritten)"
| "operation_run db (Operation_WriteTorrentLimits limits) =
     Some (write_torrent_limits db limits, Event_Settings SettingsEvent_TorrentLimitsWritten)"
| "operation_run db (Operation_WriteRotatedApiCookie cookie) =
     Some (write_api_cookie db (Some cookie), Event_Settings SettingsEvent_RotatedApiCookieWritten)"
| "operation_run db Operation_ReadMamState = map_option (\<lambda>e. (db, Event_Mam e)) (read_mam_state db)"
| "operation_run db (Operation_SaveRegistrationAttempt at) =
     Some (save_registration_attempt db at, Event_Mam MamEvent_RegistrationAttemptSaved)"
| "operation_run db (Operation_SaveReminder at) = Some (save_reminder db at, Event_Mam MamEvent_ReminderSaved)"
| "operation_run db (Operation_SaveRatioGuard guard) =
     Some (save_ratio_guard db guard, Event_Mam MamEvent_RatioGuardSaved)"
| "operation_run db Operation_ReadNoticeLog = map_option (\<lambda>e. (db, Event_Notification e)) (read_notice_log db)"
| "operation_run db (Operation_SaveNotice entry oldest) =
     map_option (\<lambda>db. (db, Event_Notification NotificationEvent_Saved)) (save_notice db entry oldest)"

text \<open>\<open>execute\<close>: the database file may not exist yet, and \<open>completes\<close> says whether SQLite completes the operation.\<close>

definition storage_execute :: "bool \<Rightarrow> database option \<Rightarrow> operation \<Rightarrow> database option \<times> event" where
  "storage_execute completes file operation =
     (case (if \<not> completes then None
            else case file of
              Some db \<Rightarrow> operation_run db operation
            | None \<Rightarrow>
                (case operation of
                   Operation_OpenStorage mode \<Rightarrow>
                     map_option (\<lambda>db. (db, Event_Startup StartupEvent_StorageOpened)) (open_storage None mode)
                 | _ \<Rightarrow> None)) of
        Some (db, event) \<Rightarrow> (Some db, event)
      | None \<Rightarrow> (file, operation_failure operation))"

end
