(* ===== verification/Floating.thy ===== *)
theory Floating
  imports Client_Parsing
begin

text \<open>
  Floating-point numbers (\<open>f64\<close>) as far as the program reads them: a finite number is a sign and a
  whole number times a power of two, computed results are rounded to the nearest number with 53
  significant bits and ties to even, and casts to integers saturate. Then the values of the core
  that come from them: \<open>Progress::from_fraction\<close>, \<open>Ratio::from_float\<close> (\<open>core/qbittorrent.rs\<close>) and
  \<open>Points::from_balance\<close> (\<open>core/mam/api.rs\<close>).
\<close>

datatype f64 = F64_NaN | F64_Infinite bool | F64_Finite (f64_negative: bool) nat int

text \<open>A finite magnitude as a fraction of natural numbers.\<close>

fun f64_num :: "f64 \<Rightarrow> nat" where
  "f64_num (F64_Finite _ m e) = m * 2 ^ nat e"
| "f64_num _ = 0"

fun f64_den :: "f64 \<Rightarrow> nat" where
  "f64_den (F64_Finite _ m e) = 2 ^ nat (- e)"
| "f64_den _ = 1"

fun is_finite :: "f64 \<Rightarrow> bool" where
  "is_finite (F64_Finite _ _ _) = True"
| "is_finite _ = False"

subsection \<open>Rounding\<close>

definition round_even :: "nat \<Rightarrow> nat \<Rightarrow> nat" where
  "round_even n d =
     (let q = n div d; r = n mod d in if 2 * r < d \<or> 2 * r = d \<and> even q then q else q + 1)"

fun bit_length :: "nat \<Rightarrow> nat" where
  "bit_length n = (if n = 0 then 0 else bit_length (n div 2) + 1)"

declare bit_length.simps [simp del]

text \<open>The exponent that leaves 53 bits of \<open>n / d\<close>, but none below the smallest number's.\<close>

definition f64_exponent :: "nat \<Rightarrow> nat \<Rightarrow> int" where
  "f64_exponent n d =
     (let e = max (- 1074) (int (bit_length n) - int (bit_length d) - 53)
      in if 2 ^ 53 * (d * 2 ^ nat e) \<le> n * 2 ^ nat (- e) then e + 1 else e)"

definition f64_nearest :: "bool \<Rightarrow> nat \<Rightarrow> nat \<Rightarrow> f64" where
  "f64_nearest negative n d =
     (let e = f64_exponent n d; m = round_even (n * 2 ^ nat (- e)) (d * 2 ^ nat e)
      in if 2 ^ 1024 * 2 ^ nat (- e) \<le> m * 2 ^ nat e then F64_Infinite negative else F64_Finite negative m e)"

definition f64_times_nat :: "f64 \<Rightarrow> nat \<Rightarrow> f64" where
  "f64_times_nat x n = f64_nearest (f64_negative x) (f64_num x * n) (f64_den x)"

definition f64_of_int :: "int \<Rightarrow> f64" where
  "f64_of_int i = f64_nearest (i < 0) (nat \<bar>i\<bar>) 1"

subsection \<open>Comparisons and casts\<close>

text \<open>\<open>0.0 <= x\<close> and \<open>x <= 1.0\<close> for a finite number; both zeros are zero.\<close>

definition f64_not_negative :: "f64 \<Rightarrow> bool" where
  "f64_not_negative x \<longleftrightarrow> is_finite x \<and> (\<not> f64_negative x \<or> f64_num x = 0)"

definition f64_at_most_one :: "f64 \<Rightarrow> bool" where
  "f64_at_most_one x \<longleftrightarrow> is_finite x \<and> (f64_negative x \<or> f64_num x \<le> f64_den x)"

text \<open>
  \<open>floor\<close> and \<open>round\<close> of a number that is not negative, with the saturating cast: what lies above
  the type, an infinite product included, becomes its largest value.
\<close>

definition f64_floor_as :: "f64 \<Rightarrow> 'a::len word" where
  "f64_floor_as x = (if is_finite x then sat_of_nat (f64_num x div f64_den x) else - 1)"

definition f64_round_as :: "f64 \<Rightarrow> 'a::len word" where
  "f64_round_as x = (if is_finite x then sat_of_nat ((2 * f64_num x + f64_den x) div (2 * f64_den x)) else - 1)"

subsection \<open>Reading decimal text\<close>

text \<open>\<open>str::parse::<f64>\<close>: digits with at most one point and an exponent, or a name of what is not finite.\<close>

definition split_sign :: "string \<Rightarrow> bool \<times> string" where
  "split_sign s =
     (case s of c # cs \<Rightarrow> if c = CHR ''-'' then (True, cs) else if c = CHR ''+'' then (False, cs) else (False, s)
      | [] \<Rightarrow> (False, []))"

definition parse_exponent :: "string \<Rightarrow> int option" where
  "parse_exponent s =
     (case s of
        [] \<Rightarrow> Some 0
      | c # cs \<Rightarrow>
          if c = CHR ''e'' \<or> c = CHR ''E''
          then (let (negative, digits) = split_sign cs
                in map_option (\<lambda>n. if negative then - int n else int n) (parse_digits digits))
          else None)"

definition parse_decimal :: "bool \<Rightarrow> string \<Rightarrow> f64 option" where
  "parse_decimal negative s =
     (let whole = takeWhile is_ascii_digit s; rest = dropWhile is_ascii_digit s;
          pointed = (case rest of c # cs \<Rightarrow> if c = CHR ''.'' then cs else [] | [] \<Rightarrow> []);
          fraction = takeWhile is_ascii_digit pointed;
          after = (case rest of c # cs \<Rightarrow> if c = CHR ''.'' then dropWhile is_ascii_digit cs else rest | [] \<Rightarrow> [])
      in if whole @ fraction = [] then None
         else map_option (\<lambda>e. let k = e - int (length fraction)
                              in f64_nearest negative (digits_value (whole @ fraction) * 10 ^ nat k) (10 ^ nat (- k)))
                (parse_exponent after))"

definition parse_f64 :: "string \<Rightarrow> f64 option" where
  "parse_f64 s =
     (let (negative, digits) = split_sign s; name = map to_ascii_lowercase digits
      in if name = ''inf'' \<or> name = ''infinity'' then Some (F64_Infinite negative)
         else if name = ''nan'' then Some F64_NaN
         else parse_decimal negative digits)"

subsection \<open>Values of the core\<close>

definition progress_from_fraction :: "f64 \<Rightarrow> progress option" where
  "progress_from_fraction fraction =
     (if f64_not_negative fraction \<and> f64_at_most_one fraction
      then Some (f64_round_as (f64_times_nat fraction 1000)) else None)"

definition ratio_from_float :: "f64 \<Rightarrow> ratio option" where
  "ratio_from_float ratio =
     (if is_finite ratio \<and> f64_not_negative ratio then Some (f64_round_as (f64_times_nat ratio 1000)) else None)"

definition points_from_balance :: "f64 \<Rightarrow> points option" where
  "points_from_balance balance =
     (if is_finite balance \<and> f64_not_negative balance then Some (f64_floor_as balance) else None)"

text \<open>\<open>Duration::try_from_secs_f64\<close>: nanoseconds, to the nearest, ties to even.\<close>

definition duration_from_f64 :: "f64 \<Rightarrow> duration option" where
  "duration_from_f64 x =
     (if f64_not_negative x
      then opt_filter (\<lambda>d. d < secs (2 ^ 64)) (Some (round_even (f64_num x * 1000000000) (f64_den x))) else None)"

subsection \<open>Lemmas\<close>

lemma f64_den_pos [simp]: "0 < f64_den x"
  by (cases x) auto

lemma round_even_le: "0 < d \<Longrightarrow> n \<le> b * d \<Longrightarrow> round_even n d \<le> b"
proof -
  assume d: "0 < d" and n: "n \<le> b * d"
  show ?thesis
  proof (cases "n = b * d")
    case True
    with d show ?thesis by (simp add: round_even_def)
  next
    case False
    with n d have "n div d < b" by (simp add: less_mult_imp_div_less)
    then show ?thesis by (simp add: round_even_def Let_def)
  qed
qed

lemma round_even_exact [simp]: "0 < d \<Longrightarrow> round_even (b * d) d = b"
  by (simp add: round_even_def)

lemma bit_length_bounds: "n < 2 ^ bit_length n" "0 < n \<Longrightarrow> 2 ^ (bit_length n - 1) \<le> n"
proof -
  have "n < 2 ^ bit_length n \<and> (0 < n \<longrightarrow> 2 ^ bit_length n \<le> 2 * n)"
  proof (induction n rule: bit_length.induct)
    case (1 n)
    show ?case
    proof (cases "n = 0")
      case False
      with 1 have "n div 2 < 2 ^ bit_length (n div 2)" "0 < n div 2 \<longrightarrow> 2 ^ bit_length (n div 2) \<le> 2 * (n div 2)"
        by auto
      moreover have "bit_length n = bit_length (n div 2) + 1" using False by (simp add: bit_length.simps [of n])
      moreover have "n = 2 * (n div 2) + n mod 2" "n mod 2 < 2" by simp_all
      ultimately show ?thesis
        by (cases "n div 2 = 0") (auto simp: bit_length.simps [of 0])
    qed (simp add: bit_length.simps)
  qed
  then show "n < 2 ^ bit_length n" "0 < n \<Longrightarrow> 2 ^ (bit_length n - 1) \<le> n"
    by (auto simp: bit_length.simps [of n] split: if_splits)
qed

lemma bit_length_le: "n < 2 ^ k \<Longrightarrow> bit_length n \<le> k"
proof (cases "n = 0")
  case False
  assume "n < 2 ^ k"
  moreover have "2 ^ (bit_length n - 1) \<le> n" using False bit_length_bounds(2) by simp
  ultimately have "(2::nat) ^ (bit_length n - 1) < 2 ^ k" by linarith
  then have "bit_length n - 1 < k" by (rule power_less_imp_less_exp [rotated]) simp
  then show ?thesis by simp
qed (simp add: bit_length.simps)

text \<open>A magnitude of at most a thousand keeps at least 42 bits after the point.\<close>

lemma f64_exponent_small:
  assumes "n \<le> 1000 * d"
  shows "f64_exponent n d \<le> - 42"
proof -
  have "n < 2 ^ (bit_length d + 10)"
    using assms bit_length_bounds(1) [of d] by (simp add: power_add)
  then have "bit_length n \<le> bit_length d + 10" by (rule bit_length_le)
  then have "max (- 1074) (int (bit_length n) - int (bit_length d) - 53) \<le> - 43" by simp
  then show ?thesis by (simp only: f64_exponent_def Let_def split: if_split) linarith
qed

lemma f64_nearest_small:
  assumes "n \<le> 1000 * d" and "0 < d"
  shows "\<exists>m k. f64_nearest negative n d = F64_Finite negative m (- int k) \<and> m \<le> 1000 * 2 ^ k"
proof -
  define k where "k = nat (- f64_exponent n d)"
  have e: "f64_exponent n d = - int k" using f64_exponent_small [OF assms(1)] by (simp add: k_def)
  have m: "round_even (n * 2 ^ k) d \<le> 1000 * 2 ^ k"
    using assms by (intro round_even_le) (auto simp: mult.commute mult.left_commute)
  have "1000 * 2 ^ k < (2 ^ 1024 * 2 ^ k :: nat)" by (intro mult_strict_right_mono) simp_all
  with m have "\<not> 2 ^ 1024 * 2 ^ k \<le> round_even (n * 2 ^ k) d" by linarith
  then show ?thesis using e m by (auto simp: f64_nearest_def Let_def)
qed

lemma round_half_up_le: "n \<le> b * d \<Longrightarrow> 0 < d \<Longrightarrow> (2 * n + d) div (2 * d) \<le> (b::nat)"
proof -
  assume n: "n \<le> b * d" and d: "0 < d"
  then have "2 * n + d < (b + 1) * (2 * d)" by (simp add: algebra_simps)
  then have "(2 * n + d) div (2 * d) < b + 1" by (rule less_mult_imp_div_less)
  then show ?thesis by simp
qed

lemma unat_f64_floor:
  "is_finite x \<Longrightarrow> unat (f64_floor_as x :: 'a::len word) = min (f64_num x div f64_den x) (2 ^ LENGTH('a) - 1)"
  by (simp add: f64_floor_as_def unat_sat)

text \<open>
  Progress is a number of tenths of a percent: whatever fraction qBittorrent sends, rounding its
  product with 1000 to a floating-point number and then to a whole one stays within 1000.
\<close>

theorem progress_is_at_most_whole:
  assumes "progress_from_fraction x = Some p"
  shows "p \<le> 1000"
proof -
  have x: "f64_not_negative x" "f64_at_most_one x" and p: "p = f64_round_as (f64_times_nat x 1000)"
    using assms by (simp_all add: progress_from_fraction_def split: if_splits)
  then have "f64_num x * 1000 \<le> 1000 * f64_den x"
    by (auto simp: f64_not_negative_def f64_at_most_one_def)
  then obtain m k where t: "f64_times_nat x 1000 = F64_Finite (f64_negative x) m (- int k)" "m \<le> 1000 * 2 ^ k"
    using f64_nearest_small f64_den_pos unfolding f64_times_nat_def by blast
  have "(2 * m + 2 ^ k) div (2 * 2 ^ k) \<le> 1000" using t(2) by (intro round_half_up_le) simp_all
  then have "unat p \<le> 1000" using p t(1) by (simp add: f64_round_as_def unat_sat)
  then show ?thesis by (simp add: word_le_nat_alt)
qed

text \<open>A balance is rounded down: never more points than MAM reports.\<close>

lemma points_are_not_more:
  assumes "points_from_balance x = Some p"
  shows "unat p * f64_den x \<le> f64_num x"
proof -
  have "is_finite x" "p = f64_floor_as x"
    using assms by (simp_all add: points_from_balance_def split: if_splits)
  then have "unat p \<le> f64_num x div f64_den x" by (simp add: unat_f64_floor)
  then show ?thesis by (meson div_times_less_eq_dividend le_trans mult_le_mono1)
qed

end
