(* ===== verification/Json.thy ===== *)
theory Json
  imports Floating Ordered_Map
begin

text \<open>
  JSON documents and what \<open>serde\<close> makes of them, as the shell's readers use it. The parser of
  \<open>serde_json\<close> is not modelled: readers start from the document it gives. An object is the list of
  its entries in the order of the text, so that a repeated key can be told: a derived
  \<open>Deserialize\<close> refuses a repeated field, while \<open>serde_json::Value\<close> and \<open>Map\<close> keep the last entry
  of each key, sorted by key.
\<close>

datatype json_number = Number_PosInt u64 | Number_NegInt int | Number_Float f64

datatype json =
    Json_Null
  | Json_Bool bool
  | Json_Number json_number
  | Json_String string
  | Json_Array "json list"
  | Json_Object "(string \<times> json) list"

subsection \<open>Values\<close>

text \<open>The document as a \<open>Value\<close>: every object's keys are distinct and sorted.\<close>

primrec json_value :: "json \<Rightarrow> json" where
  "json_value Json_Null = Json_Null"
| "json_value (Json_Bool b) = Json_Bool b"
| "json_value (Json_Number n) = Json_Number n"
| "json_value (Json_String s) = Json_String s"
| "json_value (Json_Array values) = Json_Array (map json_value values)"
| "json_value (Json_Object entries) = Json_Object (bt_collect (map (map_prod id json_value) entries))"

subsection \<open>Scalars\<close>

fun json_u64 :: "json \<Rightarrow> u64 option" where
  "json_u64 (Json_Number (Number_PosInt n)) = Some n"
| "json_u64 _ = None"

fun json_u16 :: "json \<Rightarrow> u16 option" where
  "json_u16 (Json_Number (Number_PosInt n)) = u16_try_from (uint n)"
| "json_u16 _ = None"

fun json_i64 :: "json \<Rightarrow> int option" where
  "json_i64 (Json_Number (Number_PosInt n)) = opt_filter (\<lambda>i. i < 2 ^ 63) (Some (uint n))"
| "json_i64 (Json_Number (Number_NegInt i)) = Some i"
| "json_i64 _ = None"

fun json_f64 :: "json \<Rightarrow> f64 option" where
  "json_f64 (Json_Number (Number_PosInt n)) = Some (f64_of_int (uint n))"
| "json_f64 (Json_Number (Number_NegInt i)) = Some (f64_of_int i)"
| "json_f64 (Json_Number (Number_Float x)) = Some x"
| "json_f64 _ = None"

fun json_bool :: "json \<Rightarrow> bool option" where
  "json_bool (Json_Bool b) = Some b"
| "json_bool _ = None"

fun json_string :: "json \<Rightarrow> string option" where
  "json_string (Json_String s) = Some s"
| "json_string _ = None"

text \<open>\<open>Vec<T>\<close>, and \<open>Map<String, Value>\<close>.\<close>

fun json_list :: "(json \<Rightarrow> 'a option) \<Rightarrow> json \<Rightarrow> 'a list option" where
  "json_list f (Json_Array values) = collect_options (map f values)"
| "json_list f _ = None"

fun json_map :: "json \<Rightarrow> (string, json) btree option" where
  "json_map (Json_Object entries) = Some (bt_collect (map (map_prod id json_value) entries))"
| "json_map _ = None"

subsection \<open>Structs\<close>

text \<open>
  The fields of a struct, in the order they are declared: from an object by name, from an array by
  position. An array may not be longer than the struct.
\<close>

datatype json_field = Field_Absent | Field_Short | Field_Present json

definition json_fields :: "string list \<Rightarrow> json \<Rightarrow> json_field list option" where
  "json_fields names document =
     (case document of
        Json_Object entries \<Rightarrow>
          if list_all (\<lambda>name. length (filter (\<lambda>(key, _). key = name) entries) \<le> 1) names
          then Some (map (\<lambda>name. case map_of entries name of None \<Rightarrow> Field_Absent | Some v \<Rightarrow> Field_Present v) names)
          else None
      | Json_Array values \<Rightarrow>
          if length values \<le> length names
          then Some (map Field_Present values @ replicate (length names - length values) Field_Short)
          else None
      | _ \<Rightarrow> None)"

fun field_required :: "(json \<Rightarrow> 'a option) \<Rightarrow> json_field \<Rightarrow> 'a option" where
  "field_required f (Field_Present v) = f v"
| "field_required f _ = None"

text \<open>\<open>Option<T>\<close>: an absent or null field of an object is \<open>None\<close>.\<close>

fun field_optional :: "(json \<Rightarrow> 'a option) \<Rightarrow> json_field \<Rightarrow> 'a option option" where
  "field_optional f Field_Absent = Some None"
| "field_optional f Field_Short = None"
| "field_optional f (Field_Present Json_Null) = Some None"
| "field_optional f (Field_Present v) = map_option Some (f v)"

text \<open>\<open>#[serde(default)]\<close>.\<close>

fun field_default :: "'a \<Rightarrow> (json \<Rightarrow> 'a option) \<Rightarrow> json_field \<Rightarrow> 'a option" where
  "field_default d f (Field_Present v) = f v"
| "field_default d f _ = Some d"

end
