(* ===== verification/Client_Replies.thy ===== *)
theory Client_Replies
  imports Storage Json
begin

text \<open>
  Requests to qBittorrent's web UI and what is made of its answers (\<open>shell/qbittorrent.rs\<close>). HTTP is
  a parameter: \<open>serve\<close> says what each call brings, \<open>parse\<close> is the parser of JSON text, and \<open>kept\<close>
  the torrent files kept in storage. The JSON text of a form field is represented by its document.
\<close>

subsection \<open>HTTP\<close>

text \<open>A call whose address cannot be formed is not sent; a body that cannot be read is absent.\<close>

datatype http_outcome = Http_NoUrl | Http_Unreachable | Http_Answer http_status "string option"

definition is_success :: "http_status \<Rightarrow> bool" where
  "is_success status \<longleftrightarrow> 200 \<le> status \<and> status < 300"

datatype form_value = Form_Text string | Form_Json json

datatype client_call =
    Call_Get string
  | Call_Post string "(string \<times> form_value) list"
  | Call_Upload string string string

subsection \<open>Requests\<close>

datatype client_request =
    Request_Connect
  | Request_Sync sync_position
  | Request_ReadPreferences
  | Request_SetListenPort port
  | Request_SetQueue queue_preferences
  | Request_Command torrent_command

fun request_failed :: "client_request \<Rightarrow> qbittorrent_failure \<Rightarrow> qbittorrent_event" where
  "request_failed Request_Connect reason = QbittorrentEvent_ConnectFailed reason"
| "request_failed (Request_Sync _) reason = QbittorrentEvent_SyncFailed reason"
| "request_failed Request_ReadPreferences reason = QbittorrentEvent_PreferencesReadFailed reason"
| "request_failed (Request_SetListenPort _) reason = QbittorrentEvent_ListenPortSetFailed reason"
| "request_failed (Request_SetQueue _) reason = QbittorrentEvent_QueueSetFailed reason"
| "request_failed (Request_Command _) reason = QbittorrentEvent_CommandFailed reason"

type_synonym 'a outcome = "qbittorrent_failure + 'a"

text \<open>\<open>?\<close> and \<open>map\<close> on outcomes, and what could not be understood.\<close>

fun outcome_bind :: "'a outcome \<Rightarrow> ('a \<Rightarrow> 'b outcome) \<Rightarrow> 'b outcome" where
  "outcome_bind (Inl e) f = Inl e"
| "outcome_bind (Inr x) f = f x"

definition outcome_map :: "('a \<Rightarrow> 'b) \<Rightarrow> 'a outcome \<Rightarrow> 'b outcome" where
  "outcome_map f r = outcome_bind r (\<lambda>x. Inr (f x))"

definition or_malformed :: "'a option \<Rightarrow> 'a outcome" where
  "or_malformed v = (case v of None \<Rightarrow> Inl QbittorrentFailure_Malformed | Some x \<Rightarrow> Inr x)"

fun client_checked :: "http_outcome \<Rightarrow> (string option) outcome" where
  "client_checked Http_NoUrl = Inl QbittorrentFailure_Malformed"
| "client_checked Http_Unreachable = Inl QbittorrentFailure_Unreachable"
| "client_checked (Http_Answer status body) =
     (if is_success status then Inr body else Inl (QbittorrentFailure_Rejected status))"

definition client_get :: "(client_call \<Rightarrow> http_outcome) \<Rightarrow> string \<Rightarrow> (string option) outcome" where
  "client_get serve path = client_checked (serve (Call_Get path))"

definition client_json :: "(client_call \<Rightarrow> http_outcome) \<Rightarrow> (string \<Rightarrow> json option) \<Rightarrow> string \<Rightarrow> json outcome" where
  "client_json serve parse path =
     outcome_bind (client_get serve path) (\<lambda>body. or_malformed (Option.bind body parse))"

definition client_post :: "(client_call \<Rightarrow> http_outcome) \<Rightarrow> string \<Rightarrow> (string \<times> form_value) list \<Rightarrow> unit outcome" where
  "client_post serve path form = outcome_map (\<lambda>_. ()) (client_checked (serve (Call_Post path form)))"

subsection \<open>Preferences\<close>

record raw_preferences =
  raw_listen_port :: "u16 option"
  raw_current_network_interface :: "string option"
  raw_queueing_enabled :: "bool option"
  raw_max_active_downloads :: "int option"
  raw_max_active_torrents :: "int option"
  raw_max_active_uploads :: "int option"
  raw_dont_count_slow_torrents :: "bool option"

definition raw_preferences_read :: "json \<Rightarrow> raw_preferences option" where
  "raw_preferences_read document =
     (case json_fields [''listen_port'', ''current_network_interface'', ''queueing_enabled'', ''max_active_downloads'',
         ''max_active_torrents'', ''max_active_uploads'', ''dont_count_slow_torrents''] document of
        Some [listen, interface, queueing, downloads, torrents, uploads, slow] \<Rightarrow>
          Option.bind (field_optional json_u16 listen) (\<lambda>listen.
          Option.bind (field_optional json_string interface) (\<lambda>interface.
          Option.bind (field_optional json_bool queueing) (\<lambda>queueing.
          Option.bind (field_optional json_i64 downloads) (\<lambda>downloads.
          Option.bind (field_optional json_i64 torrents) (\<lambda>torrents.
          Option.bind (field_optional json_i64 uploads) (\<lambda>uploads.
          Option.bind (field_optional json_bool slow) (\<lambda>slow.
            Some \<lparr>raw_listen_port = listen, raw_current_network_interface = interface,
                  raw_queueing_enabled = queueing, raw_max_active_downloads = downloads,
                  raw_max_active_torrents = torrents, raw_max_active_uploads = uploads,
                  raw_dont_count_slow_torrents = slow\<rparr>)))))))
      | _ \<Rightarrow> None)"

definition read_queue_limit :: "int \<Rightarrow> queue_limit outcome" where
  "read_queue_limit limit =
     (if limit = - 1 then Inr QueueLimit_Unlimited
      else outcome_map QueueLimit_At (or_malformed (u32_try_from limit)))"

definition raw_queue :: "raw_preferences \<Rightarrow> (queue_preferences option) outcome" where
  "raw_queue raw =
     (case (raw_queueing_enabled raw, raw_max_active_downloads raw, raw_max_active_torrents raw,
            raw_max_active_uploads raw, raw_dont_count_slow_torrents raw) of
        (None, None, None, None, None) \<Rightarrow> Inr None
      | (Some queueing, Some downloading, Some active, Some seeding, Some slow) \<Rightarrow>
          outcome_bind (read_queue_limit downloading) (\<lambda>downloading.
          outcome_bind (read_queue_limit active) (\<lambda>active.
          outcome_bind (read_queue_limit seeding) (\<lambda>seeding.
            Inr (Some \<lparr>queue_queueing = (if queueing then Queueing_On else Queueing_Off),
                       queue_max_downloading = downloading, queue_max_active = active,
                       queue_max_seeding = seeding,
                       queue_idle = (if slow then IdleTorrents_NotCounted else IdleTorrents_Counted)\<rparr>))))
      | _ \<Rightarrow> Inl QbittorrentFailure_Malformed)"

definition raw_into_preferences :: "raw_preferences \<Rightarrow> qbittorrent_preferences outcome" where
  "raw_into_preferences raw =
     outcome_bind (raw_queue raw) (\<lambda>queue.
     outcome_bind (or_malformed (read_optional trimmed_try_new
         (opt_filter (\<lambda>interface. interface \<noteq> []) (raw_current_network_interface raw)))) (\<lambda>interface.
       Inr \<lparr>preferences_listen_port = Option.bind (raw_listen_port raw) port_new,
            preferences_interface = interface, preferences_queue = queue\<rparr>))"

definition queue_limit :: "queue_limit \<Rightarrow> int" where
  "queue_limit limit = (case limit of QueueLimit_Unlimited \<Rightarrow> - 1 | QueueLimit_At count \<Rightarrow> uint count)"

definition json_int :: "int \<Rightarrow> json" where
  "json_int i = Json_Number (if i < 0 then Number_NegInt i else Number_PosInt (of_int i))"

definition queue_entries :: "queue_preferences \<Rightarrow> (string \<times> json) list" where
  "queue_entries queue =
     [(''queueing_enabled'', Json_Bool (queue_queueing queue = Queueing_On)),
      (''max_active_downloads'', json_int (queue_limit (queue_max_downloading queue))),
      (''max_active_torrents'', json_int (queue_limit (queue_max_active queue))),
      (''max_active_uploads'', json_int (queue_limit (queue_max_seeding queue))),
      (''dont_count_slow_torrents'', Json_Bool (queue_idle queue = IdleTorrents_NotCounted))]"

definition queue_form :: "queue_preferences \<Rightarrow> json" where
  "queue_form queue = json_value (Json_Object (queue_entries queue))"

subsection \<open>Updates\<close>

record raw_sync =
  raw_rid :: u64
  raw_full_update :: bool
  raw_torrents :: "(string, json) btree"
  raw_torrents_removed :: "string list"

definition raw_sync_read :: "json \<Rightarrow> raw_sync option" where
  "raw_sync_read document =
     (case json_fields [''rid'', ''full_update'', ''torrents'', ''torrents_removed''] document of
        Some [rid, full, torrents, removed] \<Rightarrow>
          Option.bind (field_required json_u64 rid) (\<lambda>rid.
          Option.bind (field_default False json_bool full) (\<lambda>full.
          Option.bind (field_default [] json_map torrents) (\<lambda>torrents.
          Option.bind (field_default [] (json_list json_string) removed) (\<lambda>removed.
            Some \<lparr>raw_rid = rid, raw_full_update = full, raw_torrents = torrents, raw_torrents_removed = removed\<rparr>))))
      | _ \<Rightarrow> None)"

text \<open>A time: 0, -1 and 2^32 - 1 mean that it is not known.\<close>

definition read_torrent_time :: "int \<Rightarrow> system_time option option" where
  "read_torrent_time s =
     (if s = - 1 \<or> s = 0 \<or> s = 4294967295 then Some None
      else map_option Some (Option.bind (u64_try_from s) (\<lambda>s. checked_add 0 (secs (unat s)))))"

definition torrent_update_read :: "json \<Rightarrow> torrent_update option" where
  "torrent_update_read document =
     (case json_fields [''name'', ''state'', ''progress'', ''size'', ''total_size'', ''completed'', ''uploaded'', ''ratio'',
         ''seeding_time'', ''added_on'', ''completion_on'', ''content_path'', ''save_path'', ''force_start''] document of
        Some [name, state, progress, size', total_size, completed, uploaded, ratio, seeding_time, added_on,
              completion_on, content_path, save_path, force_start] \<Rightarrow>
          Option.bind (field_optional json_string name) (\<lambda>name.
          Option.bind (field_optional json_string state) (\<lambda>state.
          Option.bind (field_optional json_f64 progress) (\<lambda>progress.
          Option.bind (field_optional json_u64 size') (\<lambda>size'.
          Option.bind (field_optional json_u64 total_size) (\<lambda>total_size.
          Option.bind (field_optional json_u64 completed) (\<lambda>completed.
          Option.bind (field_optional json_u64 uploaded) (\<lambda>uploaded.
          Option.bind (field_optional json_f64 ratio) (\<lambda>ratio.
          Option.bind (field_optional json_u64 seeding_time) (\<lambda>seeding_time.
          Option.bind (field_optional json_i64 added_on) (\<lambda>added_on.
          Option.bind (field_optional json_i64 completion_on) (\<lambda>completion_on.
          Option.bind (field_optional json_string content_path) (\<lambda>content_path.
          Option.bind (field_optional json_string save_path) (\<lambda>save_path.
          Option.bind (field_optional json_bool force_start) (\<lambda>force_start.
          Option.bind (read_optional (\<lambda>name. map_option Some (nonempty_try_new name)) name) (\<lambda>name.
          Option.bind (read_optional progress_from_fraction progress) (\<lambda>progress.
          Option.bind (read_optional ratio_from_float ratio) (\<lambda>ratio.
          Option.bind (read_optional read_torrent_time added_on) (\<lambda>added_at.
          Option.bind (read_optional read_torrent_time completion_on) (\<lambda>completed_at.
            Some \<lparr>update_name = name, update_state = map_option torrent_state_read state,
                  update_progress = progress, update_size = size', update_total_size = total_size,
                  update_downloaded = completed, update_uploaded = uploaded, update_ratio = ratio,
                  update_seeding_time = map_option (\<lambda>s. secs (unat s)) seeding_time,
                  update_added_at = added_at, update_completed_at = completed_at,
                  update_content_path = map_option nonempty_try_new content_path,
                  update_save_path = map_option nonempty_try_new save_path,
                  update_force_start =
                    map_option (\<lambda>forced. if forced then ForceStart_Forced else ForceStart_NotForced) force_start\<rparr>)))))))))))))))))))
      | _ \<Rightarrow> None)"

definition raw_into_update :: "raw_sync \<Rightarrow> sync_update outcome" where
  "raw_into_update raw =
     or_malformed (
       Option.bind (collect_options (map (\<lambda>(key, fields).
           Option.bind (torrent_hash_parse key) (\<lambda>hash. map_option (Pair hash) (torrent_update_read fields)))
         (raw_torrents raw))) (\<lambda>torrents.
       Option.bind (collect_options (map torrent_hash_parse (raw_torrents_removed raw))) (\<lambda>removed.
         Some \<lparr>sync_position = raw_rid raw,
               sync_scope = (if raw_full_update raw then SyncScope_Full else SyncScope_Changes),
               sync_torrents = torrents, sync_removed = removed\<rparr>)))"

subsection \<open>The client\<close>

text \<open>What the shell reaches qBittorrent with: a call's outcome, the JSON parser and the kept files.\<close>

record client_world =
  world_serve :: "client_call \<Rightarrow> http_outcome"
  world_parse :: "string \<Rightarrow> json option"
  world_kept :: "mam_torrent_id \<Rightarrow> string option"

definition client_preferences :: "client_world \<Rightarrow> qbittorrent_preferences outcome" where
  "client_preferences w =
     outcome_bind (client_json (world_serve w) (world_parse w) ''api/v2/app/preferences'') (\<lambda>document.
     outcome_bind (or_malformed (raw_preferences_read document)) raw_into_preferences)"

definition client_connect :: "client_world \<Rightarrow> qbittorrent_event outcome" where
  "client_connect w =
     outcome_bind (client_get (world_serve w) ''api/v2/app/version'') (\<lambda>body.
     outcome_bind (or_malformed (Option.bind body reported_version_parse)) (\<lambda>version.
     outcome_bind (client_preferences w) (\<lambda>preferences. Inr (QbittorrentEvent_Connected version preferences))))"

definition client_sync :: "client_world \<Rightarrow> sync_position \<Rightarrow> sync_update outcome" where
  "client_sync w at =
     outcome_bind (client_json (world_serve w) (world_parse w)
         (''api/v2/sync/maindata?rid='' @ show_nat (unat at))) (\<lambda>document.
     outcome_bind (or_malformed (raw_sync_read document)) raw_into_update)"

definition client_set_listen_port :: "client_world \<Rightarrow> port \<Rightarrow> unit outcome" where
  "client_set_listen_port w port =
     client_post (world_serve w) ''api/v2/app/setPreferences''
       [(''json'', Form_Json (Json_Object [(''listen_port'', json_int (uint port))]))]"

definition client_set_queue :: "client_world \<Rightarrow> queue_preferences \<Rightarrow> unit outcome" where
  "client_set_queue w queue =
     client_post (world_serve w) ''api/v2/app/setPreferences'' [(''json'', Form_Json (queue_form queue))]"

definition client_add :: "client_world \<Rightarrow> mam_torrent_id \<Rightarrow> unit outcome" where
  "client_add w mam =
     outcome_bind (or_malformed (world_kept w mam)) (\<lambda>file.
     outcome_map (\<lambda>_. ()) (client_checked (world_serve w
       (Call_Upload ''api/v2/torrents/add'' (show_nat (unat mam) @ ''.torrent'') file))))"

definition form_hashes :: "torrent_hash list \<Rightarrow> string \<times> form_value" where
  "form_hashes hashes = (''hashes'', Form_Text (join_at CHR ''|'' hashes))"

fun client_command :: "client_world \<Rightarrow> torrent_command \<Rightarrow> unit outcome" where
  "client_command w (TorrentCommand_Start started) =
     client_post (world_serve w) ''api/v2/torrents/start'' [form_hashes started]"
| "client_command w (TorrentCommand_Stop stopped) =
     client_post (world_serve w) ''api/v2/torrents/stop'' [form_hashes stopped]"
| "client_command w (TorrentCommand_ForceStart forced) =
     client_post (world_serve w) ''api/v2/torrents/setForceStart'' [form_hashes forced, (''value'', Form_Text ''true'')]"
| "client_command w (TorrentCommand_EndForceStart released) =
     client_post (world_serve w) ''api/v2/torrents/setForceStart'' [form_hashes released, (''value'', Form_Text ''false'')]"
| "client_command w (TorrentCommand_Add mam _) = client_add w mam"
| "client_command w (TorrentCommand_Remove removed) =
     client_post (world_serve w) ''api/v2/torrents/delete'' [form_hashes removed, (''deleteFiles'', Form_Text ''true'')]"
| "client_command w (TorrentCommand_SelectAllFiles hash) =
     outcome_bind (client_json (world_serve w) (world_parse w) (''api/v2/torrents/files?hash='' @ hash)) (\<lambda>document.
     outcome_bind (or_malformed (json_list (\<lambda>v. Some (json_value v)) document)) (\<lambda>files.
       client_post (world_serve w) ''api/v2/torrents/filePrio''
         [(''hash'', Form_Text hash), (''id'', Form_Text (join_at CHR ''|'' (map show_nat [0..<length files]))),
          (''priority'', Form_Text ''1'')]))"

fun client_perform :: "client_world \<Rightarrow> client_request \<Rightarrow> qbittorrent_event outcome" where
  "client_perform w Request_Connect = client_connect w"
| "client_perform w (Request_Sync at) = outcome_map QbittorrentEvent_Synced (client_sync w at)"
| "client_perform w Request_ReadPreferences = outcome_map QbittorrentEvent_PreferencesRead (client_preferences w)"
| "client_perform w (Request_SetListenPort port) =
     outcome_map (\<lambda>_. QbittorrentEvent_ListenPortSet) (client_set_listen_port w port)"
| "client_perform w (Request_SetQueue queue) = outcome_map (\<lambda>_. QbittorrentEvent_QueueSet) (client_set_queue w queue)"
| "client_perform w (Request_Command command) =
     outcome_map (\<lambda>_. QbittorrentEvent_CommandDone) (client_command w command)"

definition client_execute :: "client_world option \<Rightarrow> client_request \<Rightarrow> qbittorrent_event" where
  "client_execute client request =
     (case (case client of Some w \<Rightarrow> client_perform w request | None \<Rightarrow> Inl QbittorrentFailure_Unreachable) of
        Inr event \<Rightarrow> event
      | Inl reason \<Rightarrow> request_failed request reason)"

subsection \<open>What the requests amount to\<close>

lemma outcome_bind_Inr: "outcome_bind r f = Inr y \<longleftrightarrow> (\<exists>x. r = Inr x \<and> f x = Inr y)"
  by (cases r) auto

lemma outcome_map_Inr: "outcome_map f r = Inr y \<longleftrightarrow> (\<exists>x. r = Inr x \<and> y = f x)"
  by (auto simp: outcome_map_def outcome_bind_Inr)

lemma or_malformed_Inr: "or_malformed v = Inr x \<longleftrightarrow> v = Some x"
  by (auto simp: or_malformed_def split: option.splits)

text \<open>The events that answer a request.\<close>

fun answers_request :: "client_request \<Rightarrow> qbittorrent_event \<Rightarrow> bool" where
  "answers_request Request_Connect (QbittorrentEvent_Connected _ _) = True"
| "answers_request Request_Connect (QbittorrentEvent_ConnectFailed _) = True"
| "answers_request (Request_Sync _) (QbittorrentEvent_Synced _) = True"
| "answers_request (Request_Sync _) (QbittorrentEvent_SyncFailed _) = True"
| "answers_request Request_ReadPreferences (QbittorrentEvent_PreferencesRead _) = True"
| "answers_request Request_ReadPreferences (QbittorrentEvent_PreferencesReadFailed _) = True"
| "answers_request (Request_SetListenPort _) QbittorrentEvent_ListenPortSet = True"
| "answers_request (Request_SetListenPort _) (QbittorrentEvent_ListenPortSetFailed _) = True"
| "answers_request (Request_SetQueue _) QbittorrentEvent_QueueSet = True"
| "answers_request (Request_SetQueue _) (QbittorrentEvent_QueueSetFailed _) = True"
| "answers_request (Request_Command _) QbittorrentEvent_CommandDone = True"
| "answers_request (Request_Command _) (QbittorrentEvent_CommandFailed _) = True"
| "answers_request _ _ = False"

lemma failed_answers: "answers_request request (request_failed request reason)"
  by (cases request) auto

lemma performed_answers: "client_perform w request = Inr event \<Longrightarrow> answers_request request event"
  by (cases request) (auto simp: outcome_map_Inr client_connect_def outcome_bind_Inr)

lemma execute_answers: "answers_request request (client_execute client request)"
  using failed_answers performed_answers
  by (auto simp: client_execute_def split: option.split sum.split)

lemma json_limit [simp]: "json_i64 (json_int (queue_limit limit)) = Some (queue_limit limit)"
proof (cases limit)
  case (QueueLimit_At count)
  have "uint count < 2 ^ 32" using uint_lt2p [of count] by simp
  then show ?thesis
    by (simp add: QueueLimit_At queue_limit_def json_int_def unsigned_ucast_eq take_bit_int_eq_self)
qed (simp add: queue_limit_def json_int_def)

lemma read_limit [simp]: "read_queue_limit (queue_limit limit) = Inr limit"
proof (cases limit)
  case (QueueLimit_At count)
  have "uint count \<noteq> - 1" using uint_ge_0 [of count] by linarith
  moreover have "uint count < 2 ^ 32" using uint_lt2p [of count] by simp
  ultimately show ?thesis
    by (simp add: QueueLimit_At queue_limit_def read_queue_limit_def u32_try_from_def or_malformed_def outcome_map_def)
qed (simp add: queue_limit_def read_queue_limit_def)

lemma json_fields_of:
  assumes "json_fields names (Json_Object entries) = Some values" and "distinct (map fst entries)"
  shows "values = map (\<lambda>name. case map_of entries name of None \<Rightarrow> Field_Absent | Some v \<Rightarrow> Field_Present v) names"
  using assms(1) by (simp add: json_fields_def split: if_splits)

subsection \<open>Properties\<close>

text \<open>
  The queue Windlass sets is the queue it reads: whatever else the preferences hold, limits that
  qBittorrent keeps as they were sent are read back as the same queue, unlimited ones included, so
  the client then has what is wanted and is not set again.
\<close>

theorem queue_is_read_back:
  assumes "distinct (map fst entries)" and "set (queue_entries queue) \<subseteq> set entries"
    and "raw_preferences_read (Json_Object entries) = Some raw"
  shows "raw_queue raw = Inr (Some queue)"
proof -
  have get: "map_of entries name = Some v" if "(name, v) \<in> set (queue_entries queue)" for name v
    using that assms(1,2) by (meson map_of_is_SomeI subsetD)
  have entry:
    "map_of entries ''queueing_enabled'' = Some (Json_Bool (queue_queueing queue = Queueing_On))"
    "map_of entries ''max_active_downloads'' = Some (json_int (queue_limit (queue_max_downloading queue)))"
    "map_of entries ''max_active_torrents'' = Some (json_int (queue_limit (queue_max_active queue)))"
    "map_of entries ''max_active_uploads'' = Some (json_int (queue_limit (queue_max_seeding queue)))"
    "map_of entries ''dont_count_slow_torrents'' = Some (Json_Bool (queue_idle queue = IdleTorrents_NotCounted))"
    by (rule get, simp add: queue_entries_def)+
  have optional: "field_optional json_i64 (Field_Present (json_int i)) = map_option Some (json_i64 (json_int i))" for i
    by (simp add: json_int_def)
  obtain listen interface where raw: "raw =
      \<lparr>raw_listen_port = listen, raw_current_network_interface = interface,
       raw_queueing_enabled = Some (queue_queueing queue = Queueing_On),
       raw_max_active_downloads = Some (queue_limit (queue_max_downloading queue)),
       raw_max_active_torrents = Some (queue_limit (queue_max_active queue)),
       raw_max_active_uploads = Some (queue_limit (queue_max_seeding queue)),
       raw_dont_count_slow_torrents = Some (queue_idle queue = IdleTorrents_NotCounted)\<rparr>"
    using assms(3)
    by (auto simp: raw_preferences_read_def entry optional bind_eq_Some_conv dest!: json_fields_of [OF _ assms(1)]
        split: option.splits list.splits)
  have "(queue_queueing queue \<noteq> Queueing_On) = (queue_queueing queue = Queueing_Off)"
    "(queue_idle queue \<noteq> IdleTorrents_NotCounted) = (queue_idle queue = IdleTorrents_Counted)"
    by (metis queueing.exhaust queueing.distinct(1)) (metis idle_torrents.exhaust idle_torrents.distinct(1))
  then show ?thesis by (auto simp: raw raw_queue_def)
qed

theorem queue_is_read_back_witness:
  "let queue = \<lparr>queue_queueing = Queueing_On, queue_max_downloading = QueueLimit_At 3, queue_max_active = QueueLimit_Unlimited,
                queue_max_seeding = QueueLimit_Unlimited, queue_idle = IdleTorrents_NotCounted\<rparr>
   in \<exists>raw. raw_preferences_read (Json_Object ((''listen_port'', json_int 6881) # queue_entries queue)) = Some raw \<and>
        raw_queue raw = Inr (Some queue)"
proof -
  let ?queue = "\<lparr>queue_queueing = Queueing_On, queue_max_downloading = QueueLimit_At 3, queue_max_active = QueueLimit_Unlimited,
                queue_max_seeding = QueueLimit_Unlimited, queue_idle = IdleTorrents_NotCounted\<rparr>"
  let ?entries = "(''listen_port'', json_int 6881) # queue_entries ?queue"
  have "\<not> Option.is_none (raw_preferences_read (Json_Object ?entries))" by code_simp
  then obtain raw where raw: "raw_preferences_read (Json_Object ?entries) = Some raw" by (auto simp: Option.is_none_def)
  have "distinct (map fst ?entries)" by (simp add: queue_entries_def)
  from queue_is_read_back [OF this _ raw] raw show ?thesis by auto
qed

end
