(* ===== verification/Ip_Text.thy ===== *)
theory Ip_Text
  imports Client_Parsing
begin

text \<open>
  Reading an IP address from text, as \<open>str::parse::<IpAddr>\<close> of the standard library does: four
  decimal octets, or up to eight groups of hexadecimal digits of which one run may be left out, the
  last two possibly as four octets. A reader returns the value and the text left, or nothing.
\<close>

type_synonym 'a reader = "string \<Rightarrow> ('a \<times> string) option"

definition hex_value :: "char \<Rightarrow> nat" where
  "hex_value c =
     (if is_ascii_digit c then code c - 48 else if is_ascii_lower c then code c - 87 else code c - 55)"

text \<open>An octet: one to three digits without a leading zero, at most 255.\<close>

definition read_octet :: "nat reader" where
  "read_octet s =
     (let digits = takeWhile is_ascii_digit s
      in if digits = [] \<or> 3 < length digits \<or> (1 < length digits \<and> hd digits = CHR ''0'') \<or> 255 < digits_value digits
         then None else Some (digits_value digits, drop (length digits) s))"

text \<open>A group: one to four hexadecimal digits.\<close>

definition read_group :: "nat reader" where
  "read_group s =
     (let digits = takeWhile is_ascii_hexdigit s
      in if digits = [] \<or> 4 < length digits then None
         else Some (foldl (\<lambda>n c. 16 * n + hex_value c) 0 digits, drop (length digits) s))"

definition read_char :: "char \<Rightarrow> unit reader" where
  "read_char c s = (case s of x # xs \<Rightarrow> if x = c then Some ((), xs) else None | [] \<Rightarrow> None)"

text \<open>Every element but the first needs a separator before it.\<close>

definition read_separator :: "char \<Rightarrow> bool \<Rightarrow> 'a reader \<Rightarrow> 'a reader" where
  "read_separator c first f s = (if first then f s else Option.bind (read_char c s) (\<lambda>(_, s). f s))"

definition read_ipv4 :: "nat reader" where
  "read_ipv4 s =
     Option.bind (read_octet s) (\<lambda>(a, s).
     Option.bind (read_separator CHR ''.'' False read_octet s) (\<lambda>(b, s).
     Option.bind (read_separator CHR ''.'' False read_octet s) (\<lambda>(c, s).
     Option.bind (read_separator CHR ''.'' False read_octet s) (\<lambda>(d, s).
       Some (256 * (256 * (256 * a + b) + c) + d, s)))))"

text \<open>
  At most \<open>limit\<close> groups, of which the second argument are left: those read, whether octets ended
  them, and the text left. Octets stand for two groups.
\<close>

fun read_groups :: "nat \<Rightarrow> nat \<Rightarrow> string \<Rightarrow> nat list \<times> bool \<times> string" where
  "read_groups limit 0 s = ([], False, s)"
| "read_groups limit (Suc left) s =
     (case (if 0 < left then read_separator CHR '':'' (Suc left = limit) read_ipv4 s else None) of
        Some (v4, s) \<Rightarrow> ([v4 div 65536, v4 mod 65536], True, s)
      | None \<Rightarrow>
          (case read_separator CHR '':'' (Suc left = limit) read_group s of
             None \<Rightarrow> ([], False, s)
           | Some (g, s) \<Rightarrow> (let (gs, v4, s) = read_groups limit left s in (g # gs, v4, s))))"

definition groups_value :: "nat list \<Rightarrow> nat" where
  "groups_value groups = foldl (\<lambda>n g. 65536 * n + g) 0 groups"

definition read_ipv6 :: "nat reader" where
  "read_ipv6 s =
     (let (head, v4, s) = read_groups 8 8 s
      in if length head = 8 then Some (groups_value head, s)
         else if v4 then None
         else Option.bind (read_char CHR '':'' s) (\<lambda>(_, s). Option.bind (read_char CHR '':'' s) (\<lambda>(_, s).
           let limit = 7 - length head; (tail, _, s) = read_groups limit limit s
           in Some (groups_value (head @ replicate (8 - length head - length tail) 0 @ tail), s))))"

text \<open>The whole text must be read.\<close>

definition parse_ip :: "string \<Rightarrow> ip_addr option" where
  "parse_ip s =
     (case (case read_ipv4 s of
              Some (n, rest) \<Rightarrow> Some (IpAddr_V4 (of_nat n), rest)
            | None \<Rightarrow> map_option (\<lambda>(n, rest). (IpAddr_V6 (of_nat n), rest)) (read_ipv6 s)) of
        Some (ip, []) \<Rightarrow> Some ip
      | _ \<Rightarrow> None)"

text \<open>How \<open>Display\<close> writes an IPv4 address.\<close>

definition ipv4_fmt :: "32 word \<Rightarrow> string" where
  "ipv4_fmt a =
     (let n = unat a
      in join_at CHR ''.'' (map show_nat [n div 2 ^ 24, n div 2 ^ 16 mod 256, n div 2 ^ 8 mod 256, n mod 256]))"

subsection \<open>Lemmas\<close>

lemma show_nat_octet:
  assumes "n < 256"
  shows "length (show_nat n) \<le> 3" and "1 < length (show_nat n) \<Longrightarrow> hd (show_nat n) \<noteq> CHR ''0''"
proof -
  have d: "digit k \<noteq> CHR ''0''" if "0 < k" "k < 10" for k
    using code_digit [of k] that by auto
  consider "n < 10" | "10 \<le> n" "n < 100" | "100 \<le> n" by linarith
  then have "length (show_nat n) \<le> 3 \<and> (1 < length (show_nat n) \<longrightarrow> hd (show_nat n) \<noteq> CHR ''0'')"
  proof cases
    case 1
    then show ?thesis by (simp add: show_nat.simps [of n])
  next
    case 2
    then have "n div 10 < 10" by (simp add: less_mult_imp_div_less)
    with 2 have "show_nat n = [digit (n div 10), digit (n mod 10)]"
      by (simp add: show_nat.simps [of n] show_nat.simps [of "n div 10"])
    with 2 d [of "n div 10"] show ?thesis by (simp add: div_greater_zero_iff)
  next
    case 3
    then have "\<not> n div 10 < 10" "n div 10 div 10 < 10" using assms by (simp_all add: less_mult_imp_div_less)
    with 3 have "show_nat n = [digit (n div 10 div 10), digit (n div 10 mod 10), digit (n mod 10)]"
      by (simp add: show_nat.simps [of n] show_nat.simps [of "n div 10"] show_nat.simps [of "n div 10 div 10"])
    moreover have "0 < n div 10 div 10" "n div 10 div 10 < 10" using 3 assms by simp_all
    ultimately show ?thesis using d by simp
  qed
  then show "length (show_nat n) \<le> 3" "1 < length (show_nat n) \<Longrightarrow> hd (show_nat n) \<noteq> CHR ''0''" by auto
qed

lemma read_octet_show:
  assumes "n < 256" and "rest = [] \<or> \<not> is_ascii_digit (hd rest)"
  shows "read_octet (show_nat n @ rest) = Some (n, rest)"
proof -
  have "takeWhile is_ascii_digit (show_nat n @ rest) = show_nat n"
    using show_nat_digits [of n] assms(2) by (cases rest) (auto simp: list_all_iff takeWhile_append)
  with show_nat_octet [OF assms(1)] assms(1) show ?thesis
    using show_nat_nonempty [of n] by (auto simp: read_octet_def Let_def digits_value_show)
qed

lemma read_ipv4_fmt: "read_ipv4 (ipv4_fmt a) = Some (unat a, [])"
proof -
  define n where "n = unat a"
  have n: "n < 2 ^ 32" using unsigned_less [of a, where ?'a = nat] by (simp add: n_def)
  have point: "\<not> is_ascii_digit CHR ''.''" by (simp add: is_ascii_digit_def)
  have octets: "n div 2 ^ 24 < 256" "n div 2 ^ 16 mod 256 < 256" "n div 2 ^ 8 mod 256 < 256" "n mod 256 < 256"
    using n by (simp_all add: less_mult_imp_div_less)
  have "256 * (256 * (256 * (n div 2 ^ 24) + n div 2 ^ 16 mod 256) + n div 2 ^ 8 mod 256) + n mod 256 = n"
  proof -
    have "n div 2 ^ 16 = 256 * (n div 2 ^ 24) + n div 2 ^ 16 mod 256"
      using mult_div_mod_eq [of 256 "n div 2 ^ 16"] by (simp add: div_mult2_eq [symmetric])
    moreover have "n div 2 ^ 8 = 256 * (n div 2 ^ 16) + n div 2 ^ 8 mod 256"
      using mult_div_mod_eq [of 256 "n div 2 ^ 8"] by (simp add: div_mult2_eq [symmetric])
    moreover have "n = 256 * (n div 2 ^ 8) + n mod 256" using mult_div_mod_eq [of 256 n] by simp
    ultimately show ?thesis by metis
  qed
  moreover have "read_octet (show_nat k) = Some (k, [])" if "k < 256" for k
    using read_octet_show [OF that, of "[]"] by simp
  ultimately show ?thesis
    using octets point
    by (simp add: read_ipv4_def ipv4_fmt_def Let_def read_octet_show read_separator_def read_char_def flip: n_def)
qed

text \<open>An IPv4 address survives being printed and read.\<close>

lemma ipv4_round_trip: "parse_ip (ipv4_fmt a) = Some (IpAddr_V4 a)"
  by (simp add: parse_ip_def read_ipv4_fmt)

end
