(* ===== verification/Mam_Reply.thy ===== *)
theory Mam_Reply
  imports Client_Replies Ip_Text
begin

text \<open>
  MAM's answers (\<open>shell/mam_reply.rs\<close>): each JSON answer is read into a struct that mirrors MAM's
  fields and translated into the core's types once; an answer that lacks a field Windlass relies on,
  or holds a value outside its type, is not understood as a whole. The readers take the parsed
  document (\<open>None\<close> when the body is not JSON); \<open>utc\<close>, the reader of calendar times of the \<open>time\<close>
  crate, is a parameter.
\<close>

subsection \<open>Scalars MAM sends in several forms\<close>

fun read_whole :: "json \<Rightarrow> u64 option" where
  "read_whole (Json_Number (Number_PosInt n)) = Some n"
| "read_whole (Json_String text) = parse_u64 (trim text)"
| "read_whole _ = None"

definition whole_count :: "u64 \<Rightarrow> u32 option" where
  "whole_count n = u32_try_from (uint n)"

fun read_decimal :: "json \<Rightarrow> f64 option" where
  "read_decimal (Json_String text) = parse_f64 (trim text)"
| "read_decimal document = json_f64 document"

fun read_flag :: "json \<Rightarrow> bool option" where
  "read_flag (Json_Bool flag) = Some flag"
| "read_flag (Json_Number (Number_PosInt n)) = (if n = 0 then Some False else if n = 1 then Some True else None)"
| "read_flag (Json_String text) =
     (if trim text = ''0'' then Some False else if trim text = ''1'' then Some True else None)"
| "read_flag _ = None"

definition unix :: "u64 \<Rightarrow> system_time option" where
  "unix s = checked_add 0 (secs (unat s))"

subsection \<open>Refused sessions\<close>

definition is_ascii_whitespace :: "char \<Rightarrow> bool" where
  "is_ascii_whitespace c \<longleftrightarrow> code c \<in> {9, 10, 12, 13, 32}"

definition signed_out :: "string \<Rightarrow> bool" where
  "signed_out body \<longleftrightarrow> starts_with ''Error, you are not signed in'' (dropWhile is_ascii_whitespace body)"

definition rejection :: "string \<Rightarrow> session_rejection" where
  "rejection message =
     (let message = map to_ascii_lowercase message in
      if str_contains ''asn mismatch'' message then SessionRejection_AsnMismatch
      else if str_contains ''ip mismatch'' message then SessionRejection_IpMismatch
      else if str_contains ''session type'' message then SessionRejection_NotAllowed
      else if str_contains ''cookie'' message then SessionRejection_InvalidCookie
      else SessionRejection_Other)"

subsection \<open>The address and the seedbox\<close>

definition json_ip :: "json \<Rightarrow> ip_addr option" where
  "json_ip document = Option.bind (json_string document) parse_ip"

definition read_ip_observation :: "json option \<Rightarrow> ip_observation option" where
  "read_ip_observation document =
     (case Option.bind document (json_fields [''ip'', ''ASN'', ''AS'']) of
        Some [ip, asn, network] \<Rightarrow>
          Option.bind (field_required json_ip ip) (\<lambda>ip.
          Option.bind (field_required read_whole asn) (\<lambda>asn.
          Option.bind (field_optional json_string network) (\<lambda>network.
          Option.bind (whole_count asn) (\<lambda>asn.
            Some \<lparr>ip_ip = ip, ip_asn = asn, ip_provider = Option.bind network trimmed_try_new\<rparr>))))
      | _ \<Rightarrow> None)"

definition read_seedbox_answer :: "json \<Rightarrow> (string option \<times> ip_addr option) option" where
  "read_seedbox_answer document =
     (case json_fields [''msg'', ''ip''] document of
        Some [msg, ip] \<Rightarrow>
          Option.bind (field_optional json_string msg) (\<lambda>msg.
          Option.bind (field_optional json_ip ip) (\<lambda>ip. Some (msg, ip)))
      | _ \<Rightarrow> None)"

definition read_registration :: "http_status \<Rightarrow> json option \<Rightarrow> mam_failure + mam_reply" where
  "read_registration status document =
     (let answer = Option.bind document read_seedbox_answer;
          message = unwrap_or '''' (Option.bind answer fst)
      in if status = 403 then Inl (MamFailure_Session (rejection message))
         else if \<not> is_success status then Inl (MamFailure_Rejected status)
         else (let lower = map to_ascii_lowercase message;
                   registration = (if lower = ''completed'' then Some Registration_Completed
                                   else if lower = ''no change'' then Some Registration_NoChange else None)
               in case (registration, Option.bind answer snd) of
                    (Some registration, Some ip) \<Rightarrow> Inr (MamReply_Registered registration ip)
                  | _ \<Rightarrow> Inl MamFailure_Malformed))"

subsection \<open>The snatch summary\<close>

text \<open>A required entry of an object that is held as a map.\<close>

definition entry_of :: "(string, json) btree \<Rightarrow> string \<Rightarrow> (json \<Rightarrow> 'a option) \<Rightarrow> 'a option" where
  "entry_of object name f = Option.bind (bt_get object name) f"

definition read_counted :: "json \<Rightarrow> u64 option" where
  "read_counted document =
     (case json_fields [''count''] document of Some [count'] \<Rightarrow> field_required read_whole count' | _ \<Rightarrow> None)"

definition read_limited :: "json \<Rightarrow> (u64 \<times> u64) option" where
  "read_limited document =
     (case json_fields [''count'', ''limit''] document of
        Some [count', limit] \<Rightarrow>
          Option.bind (field_required read_whole count') (\<lambda>count'.
          Option.bind (field_required read_whole limit) (\<lambda>limit. Some (count', limit)))
      | _ \<Rightarrow> None)"

definition read_red_entry :: "json \<Rightarrow> (string \<times> u64 \<times> bool) option" where
  "read_red_entry document =
     (case json_fields [''name'', ''count'', ''red''] document of
        Some [name, count', red] \<Rightarrow>
          Option.bind (field_required json_string name) (\<lambda>name.
          Option.bind (field_required read_whole count') (\<lambda>count'.
          Option.bind (field_required read_flag red) (\<lambda>red. Some (name, count', red))))
      | _ \<Rightarrow> None)"

fun has_red :: "json \<Rightarrow> bool" where
  "has_red (Json_Object entries) \<longleftrightarrow> map_of entries ''red'' \<noteq> None"
| "has_red _ \<longleftrightarrow> False"

fun red_categories :: "(string \<times> json) list \<Rightarrow> red_category list option" where
  "red_categories [] = Some []"
| "red_categories ((key, entry) # rest) =
     (if \<not> has_red entry then red_categories rest
      else Option.bind (read_red_entry entry) (\<lambda>(name, count', red).
           Option.bind (whole_count count') (\<lambda>count'.
           if \<not> red \<or> count' = 0 then red_categories rest
           else Option.bind (trimmed_try_new name) (\<lambda>name.
                map_option ((#) \<lparr>red_name = name,
                    red_kind = (if key = ''inactUnsat'' \<or> key = ''inactHnr'' then RedKind_NotSeeding else RedKind_Other),
                    red_count = count'\<rparr>)
                  (red_categories rest)))))"

definition read_snatch_summary :: "(string, json) btree \<Rightarrow> snatch_summary option" where
  "read_snatch_summary summary =
     Option.bind (entry_of summary ''unsat'' read_limited) (\<lambda>(unsatisfied, limit).
     Option.bind (entry_of summary ''inactUnsat'' read_counted) (\<lambda>not_seeding.
     Option.bind (entry_of summary ''inactHnr'' read_counted) (\<lambda>hit_and_run.
     Option.bind (entry_of summary ''duplicates'' read_counted) (\<lambda>duplicates.
     Option.bind (entry_of summary ''ite'' read_counted) (\<lambda>tracker_errors.
     Option.bind (entry_of summary ''partial'' read_flag) (\<lambda>partial.
     Option.bind (entry_of summary ''connectable'' json_string) (\<lambda>connectable.
     Option.bind (whole_count unsatisfied) (\<lambda>unsatisfied.
     Option.bind (whole_count limit) (\<lambda>limit.
     Option.bind (whole_count not_seeding) (\<lambda>not_seeding.
     Option.bind (whole_count hit_and_run) (\<lambda>hit_and_run.
     Option.bind (whole_count duplicates) (\<lambda>duplicates.
     Option.bind (whole_count tracker_errors) (\<lambda>tracker_errors.
     Option.bind (red_categories summary) (\<lambda>red.
       Some \<lparr>summary_unsatisfied = unsatisfied, summary_unsatisfied_limit = limit,
             summary_unsatisfied_not_seeding = not_seeding, summary_hit_and_run_not_seeding = hit_and_run,
             summary_partial = (if partial then Partials_Seen else Partials_NotSeen),
             summary_duplicates = duplicates, summary_tracker_errors = tracker_errors,
             summary_connectable = connectable_parse connectable, summary_red = red\<rparr>))))))))))))))"

subsection \<open>Notices and the client list\<close>

definition read_notices :: "json \<Rightarrow> mam_notices option" where
  "read_notices document =
     (case json_fields [''pms'', ''tickets'', ''waiting_tickets'', ''requests'', ''topics'', ''aboutToDropClient''] document of
        Some fields' \<Rightarrow>
          (case collect_options (map (field_required read_whole) fields') of
             Some counts \<Rightarrow>
               (case collect_options (map whole_count counts) of
                  Some [messages, tickets, waiting, requests, topics, about] \<Rightarrow>
                    Some \<lparr>notices_messages = messages, notices_tickets = tickets, notices_waiting_tickets = waiting,
                          notices_requests = requests, notices_topics = topics, notices_about_to_drop_client = about\<rparr>
                | _ \<Rightarrow> None)
           | None \<Rightarrow> None)
      | None \<Rightarrow> None)"

definition refusal :: "string \<Rightarrow> bool" where
  "refusal text \<longleftrightarrow>
     (let text = map to_ascii_lowercase text
      in list_ex (\<lambda>word'. str_contains word' text) [''not allowed'', ''disallowed'', ''unauthori'', ''banned'', ''blocked''])"

text \<open>\<open>str::get\<close> of a range that ends inside a character gives nothing.\<close>

definition is_char_boundary :: "string \<Rightarrow> nat \<Rightarrow> bool" where
  "is_char_boundary s i \<longleftrightarrow> i = length s \<or> i < length s \<and> \<not> (128 \<le> code (s ! i) \<and> code (s ! i) < 192)"

text \<open>\<open>char::to_digit(10)\<close>.\<close>

definition to_digit :: "char \<Rightarrow> nat option" where
  "to_digit c = (if is_ascii_digit c then Some (code c - 48) else None)"

definition qbittorrent_version :: "string \<Rightarrow> client_version option" where
  "qbittorrent_version text =
     (let lower = map to_ascii_lowercase text in
      case str_find ''qbittorrent'' lower of
        Some at \<Rightarrow>
          client_version_parse (trim_end (\<lambda>c. c = CHR ''.'')
            (takeWhile (\<lambda>c. is_ascii_digit c \<or> c = CHR ''.'')
              (dropWhile (\<lambda>c. c \<in> {CHR '' '', CHR ''/'', CHR ''v'', CHR ''-'', CHR '':''}) (drop (at + 11) lower))))
      | None \<Rightarrow>
          Option.bind (str_find ''-qB'' text) (\<lambda>at.
            if is_char_boundary text (at + 7)
            then (case map to_digit (take 4 (drop (at + 3) text)) of
                    Some major # Some minor # Some patch # _ \<Rightarrow>
                      client_version_parse (show_nat major @ CHR ''.'' # show_nat minor @ CHR ''.'' # show_nat patch)
                  | _ \<Rightarrow> None)
            else None))"

fun listed_connectable :: "json \<Rightarrow> connectable option" where
  "listed_connectable (Json_String text) = Some (connectable_parse text)"
| "listed_connectable (Json_Bool True) = Some Connectable_Yes"
| "listed_connectable (Json_Bool False) = Some Connectable_No"
| "listed_connectable (Json_Number number) =
     Some (if number = Number_PosInt 0 then Connectable_No else Connectable_Yes)"
| "listed_connectable _ = None"

fun listed_refused :: "string \<Rightarrow> json \<Rightarrow> bool" where
  "listed_refused key (Json_String text) = refusal text"
| "listed_refused key (Json_Bool flag) =
     (let key = map to_ascii_lowercase key
      in flag \<and> refusal key \<or> \<not> flag \<and> key \<in> {''allowed'', ''approved'', ''authorized''})"
| "listed_refused key _ = False"

definition listed_client :: "json \<Rightarrow> listed_client" where
  "listed_client entry =
     (let fields' = (case entry of Json_Object entries \<Rightarrow> entries | other \<Rightarrow> [('''', other)])
      in \<lparr>client_qbittorrent = find_map (\<lambda>(_, v). Option.bind (json_string v) qbittorrent_version) fields',
          client_connectable = Option.bind
            (List.find (\<lambda>(key, _). str_contains ''connect'' (map to_ascii_lowercase key)) fields')
            (\<lambda>(_, v). listed_connectable v),
          client_refusal = (if list_ex (\<lambda>(key, v). listed_refused key v) fields'
                            then ClientRefusal_Refused else ClientRefusal_NotRefused)\<rparr>)"

text \<open>The list is a \<open>Value\<close>: an array, or an object of entries.\<close>

definition read_clients :: "json \<Rightarrow> listed_client list option" where
  "read_clients document =
     (case document of
        Json_Array entries \<Rightarrow> Some (map listed_client entries)
      | Json_Object entries \<Rightarrow> Some (map (listed_client \<circ> snd) entries)
      | _ \<Rightarrow> None)"

subsection \<open>The account\<close>

definition read_user_data :: "(string \<Rightarrow> system_time option) \<Rightarrow> json option \<Rightarrow> user_data option" where
  "read_user_data utc document =
     (case Option.bind document (json_fields [''uploaded_bytes'', ''downloaded_bytes'', ''seedbonus'', ''wedges'', ''classname'',
         ''vip_until'', ''snatch_summary'', ''notifs'', ''clientStats'']) of
        Some [uploaded, downloaded, seedbonus, wedges, classname, vip_until, summary, notifs, client_stats] \<Rightarrow>
          Option.bind (field_required read_whole uploaded) (\<lambda>uploaded.
          Option.bind (field_required read_whole downloaded) (\<lambda>downloaded.
          Option.bind (field_required read_decimal seedbonus) (\<lambda>seedbonus.
          Option.bind (field_required read_whole wedges) (\<lambda>wedges.
          Option.bind (field_required json_string classname) (\<lambda>classname.
          Option.bind (field_optional json_string vip_until) (\<lambda>vip_until.
          Option.bind (field_optional json_map summary) (\<lambda>summary.
          Option.bind (field_optional read_notices notifs) (\<lambda>notices.
          Option.bind (field_optional (\<lambda>v. Some (json_value v)) client_stats) (\<lambda>client_stats.
          Option.bind (points_from_balance seedbonus) (\<lambda>points.
          Option.bind (whole_count wedges) (\<lambda>wedges.
          Option.bind (user_class_parse classname) (\<lambda>class'.
          Option.bind (read_optional (utc \<circ> trim) vip_until) (\<lambda>vip_until.
          Option.bind (read_optional read_snatch_summary summary) (\<lambda>summary.
          Option.bind (read_optional read_clients client_stats) (\<lambda>clients.
            Some \<lparr>user_uploaded = uploaded, user_downloaded = downloaded, user_points = points, user_wedges = wedges,
                  user_class = class', user_vip_until = vip_until, user_summary = summary, user_notices = notices,
                  user_clients = clients\<rparr>)))))))))))))))
      | _ \<Rightarrow> None)"

subsection \<open>Bookmarks\<close>

record search_result =
  result_id :: u64
  result_title :: string
  result_vip :: bool
  result_free :: bool
  result_fl_vip :: bool
  result_personal_freeleech :: bool
  result_my_snatched :: bool
  result_vip_expire :: u64
  result_bookmarked :: "u64 option"

definition read_search_result :: "json \<Rightarrow> search_result option" where
  "read_search_result document =
     (case json_fields [''id'', ''title'', ''vip'', ''free'', ''fl_vip'', ''personal_freeleech'', ''my_snatched'', ''vip_expire'',
         ''bookmarked''] document of
        Some [i, title, vip, free, fl_vip, personal, snatched, expire, bookmarked] \<Rightarrow>
          Option.bind (field_required read_whole i) (\<lambda>i.
          Option.bind (field_required json_string title) (\<lambda>title.
          Option.bind (field_required read_flag vip) (\<lambda>vip.
          Option.bind (field_required read_flag free) (\<lambda>free.
          Option.bind (field_required read_flag fl_vip) (\<lambda>fl_vip.
          Option.bind (field_required read_flag personal) (\<lambda>personal.
          Option.bind (field_required read_flag snatched) (\<lambda>snatched.
          Option.bind (field_required read_whole expire) (\<lambda>expire.
          Option.bind (field_optional read_whole bookmarked) (\<lambda>bookmarked.
            Some \<lparr>result_id = i, result_title = title, result_vip = vip, result_free = free, result_fl_vip = fl_vip,
                  result_personal_freeleech = personal, result_my_snatched = snatched, result_vip_expire = expire,
                  result_bookmarked = bookmarked\<rparr>)))))))))
      | _ \<Rightarrow> None)"

definition read_bookmark :: "search_result \<Rightarrow> bookmark option" where
  "read_bookmark result =
     Option.bind (if \<not> result_vip result then Some VipTorrent_No
                  else if result_vip_expire result = 0 then Some VipTorrent_Indefinitely
                  else map_option VipTorrent_Until (unix (result_vip_expire result))) (\<lambda>vip.
     Option.bind (mam_torrent_id_new (result_id result)) (\<lambda>i.
     Option.bind (trimmed_try_new (result_title result)) (\<lambda>title.
     Option.bind (read_optional unix (opt_filter (\<lambda>s. s \<noteq> 0) (result_bookmarked result))) (\<lambda>bookmarked_at.
       Some \<lparr>bookmark_id = i, bookmark_title = title, bookmark_vip = vip,
             bookmark_freeleech = (if result_free result then Freeleech_ForEveryone else Freeleech_No),
             bookmark_personal =
               personal_freeleech_from_flags (result_personal_freeleech result) (result_fl_vip result),
             bookmark_snatched = (if result_my_snatched result then Snatched_Before else Snatched_Never),
             bookmark_bookmarked_at = bookmarked_at\<rparr>))))"

definition read_bookmark_page :: "json option \<Rightarrow> bookmark_page option" where
  "read_bookmark_page document =
     (case Option.bind document (json_fields [''found'', ''data'']) of
        Some [found, data] \<Rightarrow>
          Option.bind (field_required read_whole found) (\<lambda>found.
          Option.bind (field_optional (json_list read_search_result) data) (\<lambda>data.
          Option.bind (whole_count found) (\<lambda>count'.
          Option.bind (case data of Some results \<Rightarrow> Some results | None \<Rightarrow> if found = 0 then Some [] else None) (\<lambda>results.
          Option.bind (collect_options (map read_bookmark results)) (\<lambda>bookmarks.
            Some \<lparr>page_found = count', page_bookmarks = bookmarks\<rparr>)))))
      | _ \<Rightarrow> None)"

subsection \<open>The store and the bonus history\<close>

definition read_purchase :: "json option \<Rightarrow> mam_failure + mam_reply" where
  "read_purchase document =
     (case Option.bind document (\<lambda>document.
        case json_fields [''success'', ''seedbonus'', ''error''] document of
          Some [success, seedbonus, error'] \<Rightarrow>
            Option.bind (field_required json_bool success) (\<lambda>success.
            Option.bind (field_optional read_decimal seedbonus) (\<lambda>seedbonus.
            Option.bind (field_optional json_string error') (\<lambda>error'. Some (success, seedbonus, error'))))
        | _ \<Rightarrow> None) of
        None \<Rightarrow> Inl MamFailure_Malformed
      | Some (success, seedbonus, error') \<Rightarrow>
          if \<not> success then Inl (MamFailure_Refused (Option.bind error' trimmed_try_new))
          else (case Option.bind seedbonus points_from_balance of
                  None \<Rightarrow> Inl MamFailure_Malformed
                | Some points \<Rightarrow> Inr (MamReply_Purchased points)))"

definition read_bonus_entry :: "json \<Rightarrow> (string \<times> u64 option \<times> f64) option" where
  "read_bonus_entry document =
     (case json_fields [''type'', ''tid'', ''timestamp''] document of
        Some [kind, tid, timestamp] \<Rightarrow>
          Option.bind (field_required json_string kind) (\<lambda>kind.
          Option.bind (field_optional read_whole tid) (\<lambda>tid.
          Option.bind (field_required read_decimal timestamp) (\<lambda>timestamp. Some (kind, tid, timestamp))))
      | _ \<Rightarrow> None)"

definition read_wedge_spent :: "string \<times> u64 option \<times> f64 \<Rightarrow> wedge_spent option" where
  "read_wedge_spent = (\<lambda>(_, tid, timestamp).
     Option.bind (duration_from_f64 timestamp) (\<lambda>since.
     Option.bind (Option.bind tid mam_torrent_id_new) (\<lambda>torrent.
     Option.bind (checked_add 0 since) (\<lambda>at. Some \<lparr>spent_torrent = torrent, spent_at = at\<rparr>))))"

definition read_wedge_history :: "json option \<Rightarrow> wedge_spent list option" where
  "read_wedge_history document =
     Option.bind (Option.bind document (json_list read_bonus_entry)) (\<lambda>entries.
       collect_options (map read_wedge_spent (filter (\<lambda>entry. fst entry = ''wedgePF'') entries)))"

end
