(* ===== verification/Torrent_File.thy ===== *)
theory Torrent_File
  imports Client_Parsing
begin

text \<open>
  Reading a torrent file (\<open>shell/torrent_file.rs\<close>): a bencode parser that nests at most 32 deep and
  keeps the bytes of every dictionary value, and \<open>read\<close>, which takes the info hash and the size from
  it. SHA-1 is a parameter. The parser recurses on the depth left; its loops over a list or a
  dictionary carry fuel, one unit for each byte left, and \<open>bencode_loops_have_fuel\<close> shows that is enough.
\<close>

type_synonym bytes = string

datatype bvalue =
    Value_Integer int
  | Value_Bytes bytes
  | Value_List "bvalue list"
  | Value_Dictionary "(bytes \<times> bvalue \<times> bytes) list"

definition MAX_DEPTH :: nat where
  "MAX_DEPTH = 32"

fun position_of :: "char \<Rightarrow> bytes \<Rightarrow> nat option" where
  "position_of c [] = None"
| "position_of c (x # xs) = (if x = c then Some 0 else map_option Suc (position_of c xs))"

subsection \<open>The loops\<close>

fun parse_items :: "(bytes \<Rightarrow> (bvalue \<times> bytes) option) \<Rightarrow> nat \<Rightarrow> bytes \<Rightarrow> bvalue list \<Rightarrow> (bvalue \<times> bytes) option" where
  "parse_items item fuel [] items = None"
| "parse_items item fuel (c # tail) items =
     (if c = CHR ''e'' then Some (Value_List items, tail)
      else case fuel of
        0 \<Rightarrow> None
      | Suc fuel \<Rightarrow>
          (case item (c # tail) of
             None \<Rightarrow> None
           | Some (value, after) \<Rightarrow> parse_items item fuel after (items @ [value])))"

fun parse_entries ::
    "(bytes \<Rightarrow> (bvalue \<times> bytes) option) \<Rightarrow> nat \<Rightarrow> bytes \<Rightarrow> (bytes \<times> bvalue \<times> bytes) list \<Rightarrow> (bvalue \<times> bytes) option" where
  "parse_entries item fuel [] entries = None"
| "parse_entries item fuel (c # tail) entries =
     (if c = CHR ''e'' then Some (Value_Dictionary entries, tail)
      else case fuel of
        0 \<Rightarrow> None
      | Suc fuel \<Rightarrow>
          (case item (c # tail) of
             Some (Value_Bytes key, after) \<Rightarrow>
               (case item after of
                  None \<Rightarrow> None
                | Some (value, after_value) \<Rightarrow>
                    parse_entries item fuel after_value
                      (entries @ [(key, value, take (length after - length after_value) after)]))
           | _ \<Rightarrow> None))"

subsection \<open>One value\<close>

definition parse_integer :: "bytes \<Rightarrow> (bvalue \<times> bytes) option" where
  "parse_integer input =
     Option.bind (position_of CHR ''e'' input) (\<lambda>ending.
       map_option (\<lambda>i. (Value_Integer i, drop (ending + 1) input)) (parse_i64 (drop 1 (take ending input))))"

definition parse_bytes :: "bytes \<Rightarrow> (bvalue \<times> bytes) option" where
  "parse_bytes input =
     Option.bind (position_of CHR '':'' input) (\<lambda>colon.
     Option.bind (parse_usize (take colon input)) (\<lambda>n.
       let start = colon + 1; ending = start + n in
       if ending < 2 ^ 64 \<and> ending \<le> length input
       then Some (Value_Bytes (drop start (take ending input)), drop ending input) else None))"

text \<open>\<open>parse_value\<close> of the depth left: 33 at the outermost value.\<close>

fun parse_value :: "nat \<Rightarrow> bytes \<Rightarrow> (bvalue \<times> bytes) option" where
  "parse_value 0 input = None"
| "parse_value (Suc left) [] = None"
| "parse_value (Suc left) (c # rest) =
     (if c = CHR ''i'' then parse_integer (c # rest)
      else if c = CHR ''l'' then parse_items (parse_value left) (length rest) rest []
      else if c = CHR ''d'' then parse_entries (parse_value left) (length rest) rest []
      else if is_ascii_digit c then parse_bytes (c # rest)
      else None)"

subsection \<open>Reading the file\<close>

record torrent_file =
  file_hash :: torrent_hash
  file_size :: byte_size

definition field_of :: "bytes \<Rightarrow> (bytes \<times> bvalue \<times> bytes) list \<Rightarrow> bvalue option" where
  "field_of name entries = map_option (fst \<circ> snd) (List.find (\<lambda>e. fst e = name) entries)"

fun file_length :: "bvalue \<Rightarrow> u64 option" where
  "file_length (Value_Dictionary entries) =
     find_map (\<lambda>(key, value, _). case value of
         Value_Integer n \<Rightarrow> if key = ''length'' then u64_try_from n else None
       | _ \<Rightarrow> None) entries"
| "file_length _ = None"

definition checked_add_u64 :: "u64 \<Rightarrow> u64 \<Rightarrow> u64 option" where
  "checked_add_u64 a b = (if unat a + unat b < 2 ^ 64 then Some (a + b) else None)"

definition files_length :: "bvalue list \<Rightarrow> u64 option" where
  "files_length files =
     foldl (\<lambda>total file. Option.bind total (\<lambda>total. Option.bind (file_length file) (checked_add_u64 total)))
       (Some 0) files"

definition torrent_size :: "(bytes \<times> bvalue \<times> bytes) list \<Rightarrow> u64 option" where
  "torrent_size info =
     (case (field_of ''length'' info, field_of ''files'' info) of
        (Some (Value_Integer n), None) \<Rightarrow> u64_try_from n
      | (None, Some (Value_List files)) \<Rightarrow> files_length files
      | _ \<Rightarrow> None)"

definition hex_digit :: "nat \<Rightarrow> char" where
  "hex_digit n = (if n < 10 then char_of (48 + n) else char_of (87 + n))"

definition hex :: "bytes \<Rightarrow> string" where
  "hex digest = concat (map (\<lambda>c. [hex_digit (code c div 16), hex_digit (code c mod 16)]) digest)"

definition torrent_file_read :: "(bytes \<Rightarrow> bytes) \<Rightarrow> bytes \<Rightarrow> torrent_file option" where
  "torrent_file_read sha1 input =
     (case parse_value (MAX_DEPTH + 1) input of
        Some (Value_Dictionary entries, []) \<Rightarrow>
          (case List.find (\<lambda>e. fst e = ''info'') entries of
             Some (_, Value_Dictionary info, encoded) \<Rightarrow>
               Option.bind (torrent_size info) (\<lambda>total.
               Option.bind (torrent_hash_parse (hex (sha1 encoded))) (\<lambda>hash.
                 Some \<lparr>file_hash = hash, file_size = total\<rparr>))
           | _ \<Rightarrow> None)
      | _ \<Rightarrow> None)"

subsection \<open>What a parser takes\<close>

definition consumes :: "(bytes \<Rightarrow> (bvalue \<times> bytes) option) \<Rightarrow> bool" where
  "consumes item \<longleftrightarrow> (\<forall>input value rest. item input = Some (value, rest) \<longrightarrow> (\<exists>used. used \<noteq> [] \<and> input = used @ rest))"

lemma consumesD: "consumes item \<Longrightarrow> item input = Some (value, rest) \<Longrightarrow> length rest < length input"
  by (fastforce simp: consumes_def)

lemma consumesE:
  assumes "consumes item" "item input = Some (value, rest)"
  obtains used where "used \<noteq> []" "input = used @ rest"
  using assms unfolding consumes_def by blast

text \<open>One round of a loop.\<close>

lemma items_step:
  "parse_items item fuel input items = Some r \<Longrightarrow>
     (\<exists>tail. input = CHR ''e'' # tail \<and> r = (Value_List items, tail)) \<or>
     (\<exists>f v after. fuel = Suc f \<and> item input = Some (v, after) \<and> parse_items item f after (items @ [v]) = Some r)"
  by (cases input; cases fuel) (auto split: if_splits option.splits)

lemma entries_step:
  "parse_entries item fuel input entries = Some r \<Longrightarrow>
     (\<exists>tail. input = CHR ''e'' # tail \<and> r = (Value_Dictionary entries, tail)) \<or>
     (\<exists>f key after v after_value. fuel = Suc f \<and> item input = Some (Value_Bytes key, after) \<and>
        item after = Some (v, after_value) \<and>
        parse_entries item f after_value
          (entries @ [(key, v, take (length after - length after_value) after)]) = Some r)"
  by (cases input; cases fuel) (auto split: if_splits option.splits bvalue.splits)

lemma items_consume:
  assumes "consumes item"
  shows "parse_items item fuel input items = Some (value, rest) \<Longrightarrow> \<exists>used. used \<noteq> [] \<and> input = used @ rest"
proof (induction fuel arbitrary: input items)
  case 0
  from items_step [OF 0] show ?case by auto
next
  case (Suc f)
  from items_step [OF Suc.prems] show ?case
  proof (elim disjE exE conjE)
    fix f' v after
    assume "Suc f = Suc f'" and v: "item input = Some (v, after)"
      and more: "parse_items item f' after (items @ [v]) = Some (value, rest)"
    from consumesE [OF assms v] obtain used where "used \<noteq> []" "input = used @ after" by metis
    moreover obtain used' where "after = used' @ rest" using Suc.IH more \<open>Suc f = Suc f'\<close> by blast
    ultimately show ?case by (intro exI [of _ "used @ used'"]) simp
  qed simp
qed

lemma entries_consume:
  assumes "consumes item"
  shows "parse_entries item fuel input entries = Some (value, rest) \<Longrightarrow> \<exists>used. used \<noteq> [] \<and> input = used @ rest"
proof (induction fuel arbitrary: input entries)
  case 0
  from entries_step [OF 0] show ?case by auto
next
  case (Suc f)
  from entries_step [OF Suc.prems] show ?case
  proof (elim disjE exE conjE)
    fix f' key after v after_value
    assume "Suc f = Suc f'" and k: "item input = Some (Value_Bytes key, after)"
      and v: "item after = Some (v, after_value)"
      and more: "parse_entries item f' after_value
          (entries @ [(key, v, take (length after - length after_value) after)]) = Some (value, rest)"
    from consumesE [OF assms k] obtain a where "a \<noteq> []" "input = a @ after" by metis
    moreover from consumesE [OF assms v] obtain b where "after = b @ after_value" by metis
    moreover obtain c where "after_value = c @ rest" using Suc.IH more \<open>Suc f = Suc f'\<close> by blast
    ultimately show ?case by (intro exI [of _ "a @ b @ c"]) simp
  qed simp
qed

lemma position_of_bound: "position_of c xs = Some n \<Longrightarrow> n < length xs"
  by (induction xs arbitrary: n) (auto split: if_splits)

lemma taken: "0 < n \<Longrightarrow> xs \<noteq> [] \<Longrightarrow> \<exists>used. used \<noteq> [] \<and> xs = used @ drop n xs"
  by (rule exI [of _ "take n xs"]) auto

lemma integer_consumes: "consumes parse_integer"
  unfolding consumes_def parse_integer_def
  by (auto simp: bind_eq_Some_conv intro!: taken dest: position_of_bound)

lemma bytes_consumes: "consumes parse_bytes"
  unfolding consumes_def parse_bytes_def
  by (auto simp: bind_eq_Some_conv Let_def intro!: taken dest: position_of_bound split: if_splits)

lemma parse_value_consumes: "consumes (parse_value left)"
proof (induction left)
  case (Suc left)
  show ?case
    unfolding consumes_def
  proof (intro allI impI)
    fix input v rest
    assume p: "parse_value (Suc left) input = Some (v, rest)"
    then obtain c tail where Cons: "input = c # tail" by (cases input) auto
    have whole: "\<exists>used. used \<noteq> [] \<and> c # tail = used @ rest" if "\<exists>used. used \<noteq> [] \<and> tail = used @ rest"
      using that by (metis append_Cons list.discI)
    consider "parse_integer (c # tail) = Some (v, rest)" | "parse_bytes (c # tail) = Some (v, rest)"
      | "parse_items (parse_value left) (length tail) tail [] = Some (v, rest)"
      | "parse_entries (parse_value left) (length tail) tail [] = Some (v, rest)"
      using p Cons by (auto split: if_splits)
    then show "\<exists>used. used \<noteq> [] \<and> input = used @ rest"
      unfolding Cons
    proof cases
      case 1
      then show "\<exists>used. used \<noteq> [] \<and> c # tail = used @ rest" by (rule consumesE [OF integer_consumes]) metis
    next
      case 2
      then show "\<exists>used. used \<noteq> [] \<and> c # tail = used @ rest" by (rule consumesE [OF bytes_consumes]) metis
    next
      case 3
      then show "\<exists>used. used \<noteq> [] \<and> c # tail = used @ rest" by (rule whole [OF items_consume [OF Suc]])
    next
      case 4
      then show "\<exists>used. used \<noteq> [] \<and> c # tail = used @ rest" by (rule whole [OF entries_consume [OF Suc]])
    qed
  qed
qed (simp add: consumes_def)

text \<open>More fuel than bytes changes nothing.\<close>

lemma items_fuel:
  assumes "consumes item"
  shows "length input \<le> fuel \<Longrightarrow> length input \<le> fuel' \<Longrightarrow>
    parse_items item fuel input items = parse_items item fuel' input items"
proof (induction fuel arbitrary: fuel' input items)
  case 0
  then show ?case by simp
next
  case (Suc f)
  show ?case
  proof (cases input)
    case (Cons c tail)
    then obtain f' where f': "fuel' = Suc f'" using Suc.prems(2) by (cases fuel') auto
    have "parse_items item f after (items @ [v]) = parse_items item f' after (items @ [v])"
      if "item (c # tail) = Some (v, after)" for v after
      using Suc.IH [of after f'] consumesD [OF assms that] Suc.prems Cons f' by simp
    then show ?thesis by (simp add: Cons f' split: option.split)
  qed simp
qed

lemma entries_fuel:
  assumes "consumes item"
  shows "length input \<le> fuel \<Longrightarrow> length input \<le> fuel' \<Longrightarrow>
    parse_entries item fuel input entries = parse_entries item fuel' input entries"
proof (induction fuel arbitrary: fuel' input entries)
  case 0
  then show ?case by simp
next
  case (Suc f)
  show ?case
  proof (cases input)
    case (Cons c tail)
    then obtain f' where f': "fuel' = Suc f'" using Suc.prems(2) by (cases fuel') auto
    have "parse_entries item f after_value es = parse_entries item f' after_value es"
      if "item (c # tail) = Some (k, after)" "item after = Some (v, after_value)" for k after v after_value es
      using Suc.IH [of after_value f'] consumesD [OF assms that(1)] consumesD [OF assms that(2)] Suc.prems Cons f'
      by simp
    then show ?thesis by (simp add: Cons f' split: option.split bvalue.split)
  qed simp
qed

subsection \<open>The encoding\<close>

definition bencode_bytes :: "bytes \<Rightarrow> bytes" where
  "bencode_bytes b = show_nat (length b) @ CHR '':'' # b"

fun bencode :: "bvalue \<Rightarrow> bytes" where
  "bencode (Value_Integer i) = CHR ''i'' # show_int i @ ''e''"
| "bencode (Value_Bytes b) = bencode_bytes b"
| "bencode (Value_List vs) = CHR ''l'' # concat (map bencode vs) @ ''e''"
| "bencode (Value_Dictionary es) =
     CHR ''d'' # concat (map (\<lambda>e. bencode_bytes (fst e) @ bencode (fst (snd e))) es) @ ''e''"

text \<open>How deep a value nests, and that its integers have 64 bits and its entries their own bytes.\<close>

fun value_depth :: "bvalue \<Rightarrow> nat" where
  "value_depth (Value_Integer i) = 1"
| "value_depth (Value_Bytes b) = 1"
| "value_depth (Value_List vs) = Suc (foldr max (map value_depth vs) 0)"
| "value_depth (Value_Dictionary es) = Suc (foldr max (map (\<lambda>e. max 1 (value_depth (fst (snd e)))) es) 0)"

fun value_ok :: "bvalue \<Rightarrow> bool" where
  "value_ok (Value_Integer i) \<longleftrightarrow> - (2 ^ 63) \<le> i \<and> i < 2 ^ 63"
| "value_ok (Value_Bytes b) \<longleftrightarrow> True"
| "value_ok (Value_List vs) \<longleftrightarrow> (\<forall>v \<in> set vs. value_ok v)"
| "value_ok (Value_Dictionary es) \<longleftrightarrow>
     (\<forall>e \<in> set es. value_ok (fst (snd e)) \<and> snd (snd e) = bencode (fst (snd e)))"

lemma position_of_append: "c \<notin> set xs \<Longrightarrow> position_of c (xs @ c # ys) = Some (length xs)"
  by (induction xs) auto

lemma show_nat_chars: "\<not> is_ascii_digit c \<Longrightarrow> c \<notin> set (show_nat n)"
  using show_nat_digits [of n] by (auto simp: list_all_iff)

lemma show_int_no_e: "CHR ''e'' \<notin> set (show_int i)"
  by (simp add: show_int_def show_nat_chars is_ascii_digit_def)

lemma parse_integer_bencode:
  assumes "- (2 ^ 63) \<le> i" and "i < 2 ^ 63"
  shows "parse_integer (CHR ''i'' # show_int i @ CHR ''e'' # rest) = Some (Value_Integer i, rest)"
proof -
  have "position_of CHR ''e'' ((CHR ''i'' # show_int i) @ CHR ''e'' # rest) = Some (length (CHR ''i'' # show_int i))"
    by (rule position_of_append) (simp add: show_int_no_e)
  then show ?thesis using parse_i64_show [OF assms] by (simp add: parse_integer_def)
qed

lemma parse_bytes_bencode:
  assumes "length (bencode_bytes b @ rest) < 2 ^ 64"
  shows "parse_bytes (bencode_bytes b @ rest) = Some (Value_Bytes b, rest)"
proof -
  have "CHR '':'' \<notin> set (show_nat (length b))"
    by (simp add: show_nat_chars is_ascii_digit_def)
  then have "position_of CHR '':'' (show_nat (length b) @ CHR '':'' # b @ rest) = Some (length (show_nat (length b)))"
    by (rule position_of_append)
  moreover have "parse_usize (show_nat (length b)) = Some (length b)"
    using assms by (simp add: parse_usize_def bencode_bytes_def)
  ultimately show ?thesis
    using assms by (simp add: parse_bytes_def bencode_bytes_def Let_def)
qed

lemma bencode_bytes_head: obtains c cs where "bencode_bytes b = c # cs" "is_ascii_digit c"
proof -
  obtain c cs where "show_nat (length b) = c # cs" "is_ascii_digit c" by (rule show_nat_Cons)
  then show ?thesis using that by (simp add: bencode_bytes_def)
qed

lemma bencode_head: obtains c cs where "bencode v = c # cs" "c \<noteq> CHR ''e''"
proof (cases v)
  case (Value_Bytes b)
  obtain c cs where "bencode_bytes b = c # cs" "is_ascii_digit c" by (rule bencode_bytes_head)
  with Value_Bytes that show ?thesis using digit_plain by simp
qed (use that in simp_all)

lemma parse_items_bencode:
  assumes "\<And>v r. v \<in> set vs \<Longrightarrow> length (bencode v @ r) < 2 ^ 64 \<Longrightarrow> item (bencode v @ r) = Some (v, r)"
  shows "length vs \<le> fuel \<Longrightarrow> length (concat (map bencode vs) @ CHR ''e'' # rest) < 2 ^ 64 \<Longrightarrow>
    parse_items item fuel (concat (map bencode vs) @ CHR ''e'' # rest) items = Some (Value_List (items @ vs), rest)"
  using assms
proof (induction vs arbitrary: fuel items)
  case (Cons v vs)
  obtain c cs where c: "bencode v = c # cs" "c \<noteq> CHR ''e''" by (rule bencode_head)
  obtain f where f: "fuel = Suc f" using Cons.prems(1) by (cases fuel) auto
  have "item (bencode v @ concat (map bencode vs) @ CHR ''e'' # rest) = Some (v, concat (map bencode vs) @ CHR ''e'' # rest)"
    using Cons.prems(2,3) by simp
  moreover have "parse_items item f (concat (map bencode vs) @ CHR ''e'' # rest) (items @ [v]) =
      Some (Value_List ((items @ [v]) @ vs), rest)"
    by (rule Cons.IH) (use Cons.prems f in auto)
  ultimately show ?case using c by (simp add: f)
qed simp

lemma parse_entries_bencode:
  assumes "\<And>e r. e \<in> set es \<Longrightarrow> length (bencode (fst (snd e)) @ r) < 2 ^ 64 \<Longrightarrow>
      item (bencode (fst (snd e)) @ r) = Some (fst (snd e), r)"
    and "\<And>b r. es \<noteq> [] \<Longrightarrow> length (bencode_bytes b @ r) < 2 ^ 64 \<Longrightarrow> item (bencode_bytes b @ r) = Some (Value_Bytes b, r)"
    and "\<And>e. e \<in> set es \<Longrightarrow> snd (snd e) = bencode (fst (snd e))"
  shows "length es \<le> fuel \<Longrightarrow>
    length (concat (map (\<lambda>e. bencode_bytes (fst e) @ bencode (fst (snd e))) es) @ CHR ''e'' # rest) < 2 ^ 64 \<Longrightarrow>
    parse_entries item fuel (concat (map (\<lambda>e. bencode_bytes (fst e) @ bencode (fst (snd e))) es) @ CHR ''e'' # rest) entries =
      Some (Value_Dictionary (entries @ es), rest)"
  using assms
proof (induction es arbitrary: fuel entries)
  case (Cons e es)
  obtain key v encoded where e: "e = (key, v, encoded)" by (cases e)
  have encoded: "encoded = bencode v" using Cons.prems(5) [of e] by (simp add: e)
  obtain c cs where c: "bencode_bytes key = c # cs" "is_ascii_digit c" by (rule bencode_bytes_head)
  then have "c \<noteq> CHR ''e''" using digit_plain by blast
  obtain f where f: "fuel = Suc f" using Cons.prems(1) by (cases fuel) auto
  let ?more = "concat (map (\<lambda>e. bencode_bytes (fst e) @ bencode (fst (snd e))) es) @ CHR ''e'' # rest"
  have "item (bencode_bytes key @ bencode v @ ?more) = Some (Value_Bytes key, bencode v @ ?more)"
    using Cons.prems(2) by (intro Cons.prems(4)) (simp_all add: e)
  moreover have "item (bencode v @ ?more) = Some (v, ?more)"
    using Cons.prems(2) Cons.prems(3) [of e ?more] by (simp add: e)
  moreover have "parse_entries item f ?more (entries @ [(key, v, encoded)]) =
      Some (Value_Dictionary ((entries @ [(key, v, encoded)]) @ es), rest)"
  proof (rule Cons.IH)
    show "item (bencode_bytes b @ r) = Some (Value_Bytes b, r)" if "length (bencode_bytes b @ r) < 2 ^ 64" for b r
      using Cons.prems(4) that by simp
  qed (use Cons.prems f in auto)
  ultimately show ?case using c(1) \<open>c \<noteq> CHR ''e''\<close> by (simp add: f e encoded)
qed simp

lemma member_le_max: "x \<in> set xs \<Longrightarrow> f x \<le> foldr max (map f xs) (0 :: nat)"
  by (induction xs) (auto simp: le_max_iff_disj)

lemma concat_long: "(\<And>x. x \<in> set xs \<Longrightarrow> f x \<noteq> []) \<Longrightarrow> length xs \<le> length (concat (map f xs))"
proof (induction xs)
  case (Cons x xs)
  from Cons.prems [of x] have "0 < length (f x)" by simp
  moreover have "length xs \<le> length (concat (map f xs))" using Cons by simp
  ultimately have "Suc (length xs) \<le> length (f x) + length (concat (map f xs))" by linarith
  then show ?case by simp
qed simp

lemma bencode_nonempty: "bencode v \<noteq> []"
  by (rule bencode_head [of v]) simp

text \<open>What is encoded is read back, with whatever follows left over.\<close>

lemma parse_bencode:
  "value_ok v \<Longrightarrow> value_depth v \<le> left \<Longrightarrow> length (bencode v @ rest) < 2 ^ 64 \<Longrightarrow>
     parse_value left (bencode v @ rest) = Some (v, rest)"
proof (induction left arbitrary: v rest)
  case 0
  then show ?case by (cases v) simp_all
next
  case (Suc left)
  show ?case
  proof (cases v)
    case (Value_Integer i)
    with Suc.prems(1) parse_integer_bencode [of i rest] show ?thesis by simp
  next
    case (Value_Bytes b)
    obtain c cs where c: "bencode_bytes b = c # cs" "is_ascii_digit c" by (rule bencode_bytes_head)
    then have "c \<noteq> CHR ''i''" "c \<noteq> CHR ''l''" "c \<noteq> CHR ''d''" by (auto simp: is_ascii_digit_def)
    with Value_Bytes Suc.prems(3) c parse_bytes_bencode [of b rest] show ?thesis by simp
  next
    case (Value_List vs)
    have "parse_items (parse_value left) (length (concat (map bencode vs) @ CHR ''e'' # rest))
        (concat (map bencode vs) @ CHR ''e'' # rest) [] = Some (Value_List ([] @ vs), rest)"
    proof (rule parse_items_bencode)
      show "parse_value left (bencode v' @ r) = Some (v', r)" if "v' \<in> set vs" "length (bencode v' @ r) < 2 ^ 64" for v' r
        using Suc.IH that Suc.prems(1,2) member_le_max [of v' vs value_depth] Value_List by simp
      show "length vs \<le> length (concat (map bencode vs) @ CHR ''e'' # rest)"
        using concat_long [of vs bencode] bencode_nonempty by simp
    qed (use Suc.prems(3) Value_List in simp)
    with Value_List show ?thesis by simp
  next
    case (Value_Dictionary es)
    let ?es = "concat (map (\<lambda>e. bencode_bytes (fst e) @ bencode (fst (snd e))) es) @ CHR ''e'' # rest"
    have depth: "max 1 (value_depth (fst (snd e))) \<le> left" if "e \<in> set es" for e
      using member_le_max [OF that, of "\<lambda>e. max 1 (value_depth (fst (snd e)))"] Suc.prems(2) Value_Dictionary by simp
    have "parse_entries (parse_value left) (length ?es) ?es [] = Some (Value_Dictionary ([] @ es), rest)"
    proof (rule parse_entries_bencode)
      show "parse_value left (bencode (fst (snd e)) @ r) = Some (fst (snd e), r)"
        if "e \<in> set es" "length (bencode (fst (snd e)) @ r) < 2 ^ 64" for e r
        using Suc.IH that Suc.prems(1) depth [OF that(1)] Value_Dictionary by simp
      show "parse_value left (bencode_bytes b @ r) = Some (Value_Bytes b, r)"
        if "es \<noteq> []" "length (bencode_bytes b @ r) < 2 ^ 64" for b r
        using Suc.IH [of "Value_Bytes b" r] that depth [of "hd es"] by simp
      show "length es \<le> length ?es"
        using concat_long [of es "\<lambda>e. bencode_bytes (fst e) @ bencode (fst (snd e))"] bencode_nonempty by simp
    qed (use Suc.prems Value_Dictionary in simp_all)
    with Value_Dictionary show ?thesis by simp
  qed
qed

subsection \<open>Properties\<close>

lemma hex_digit_ok: "n < 16 \<Longrightarrow> is_ascii_hexdigit (hex_digit n) \<and> \<not> is_ascii_upper (hex_digit n)"
  by (auto simp: hex_digit_def is_ascii_hexdigit_def is_ascii_digit_def is_ascii_upper_def)

lemma code_digits: "code c div 16 < 16" "code c mod 16 < 16"
proof -
  have "code c < 256" using nat_of_char_less_256 [of c] by simp
  then show "code c div 16 < 16" by linarith
qed simp

lemma hex_ok: "length (hex d) = 2 * length d" "list_all (\<lambda>c. is_ascii_hexdigit c \<and> \<not> is_ascii_upper c) (hex d)"
  by (induction d) (auto simp: hex_def hex_digit_ok code_digits)

lemma torrent_hash_hex: "length d = 20 \<Longrightarrow> torrent_hash_parse (hex d) = Some (hex d)"
  using hex_ok [of d]
  by (auto simp: torrent_hash_parse_def to_ascii_lowercase_def list_all_iff intro!: map_idI)

text \<open>
  C39. A torrent file is read exactly: for every bencoded dictionary that nests at most 33 levels and
  whose info dictionary names its size, Windlass takes that size, and its hash is the hexadecimal
  SHA-1 of precisely the bytes that encode the info dictionary. SHA-1 yields 20 bytes.
\<close>

theorem torrent_file_is_read:
  assumes "value_ok (Value_Dictionary entries)" and "value_depth (Value_Dictionary entries) \<le> 33"
    and "length (bencode (Value_Dictionary entries)) < 2 ^ 64"
    and "List.find (\<lambda>e. fst e = ''info'') entries = Some (key, Value_Dictionary info, encoded)"
    and "torrent_size info = Some sz" and "\<And>b. length (sha1 b) = 20"
  shows "torrent_file_read sha1 (bencode (Value_Dictionary entries)) =
    Some \<lparr>file_hash = hex (sha1 (bencode (Value_Dictionary info))), file_size = sz\<rparr>"
proof -
  have "parse_value 33 (bencode (Value_Dictionary entries) @ []) = Some (Value_Dictionary entries, [])"
    by (rule parse_bencode) (use assms(1-3) in simp_all)
  moreover have "encoded = bencode (Value_Dictionary info)"
    using assms(1) find_SomeD [OF assms(4)] by auto
  moreover have "torrent_hash_parse (hex (sha1 encoded)) = Some (hex (sha1 encoded))"
    using assms(6) by (rule torrent_hash_hex)
  ultimately show ?thesis
    using assms(4,5) by (simp add: torrent_file_read_def MAX_DEPTH_def del: bencode.simps parse_value.simps)
qed

definition witness_info :: "(bytes \<times> bvalue \<times> bytes) list" where
  "witness_info = [(''length'', Value_Integer 7, ''i7e'')]"

theorem torrent_file_is_read_witness:
  "torrent_file_read (\<lambda>_. replicate 20 (CHR ''a'')) ''d4:infod6:lengthi7eee'' =
     Some \<lparr>file_hash = hex (replicate 20 (CHR ''a'')), file_size = 7\<rparr>"
proof -
  let ?entries = "[(''info'', Value_Dictionary witness_info, bencode (Value_Dictionary witness_info))]"
  have encoded: "bencode (Value_Dictionary ?entries) = ''d4:infod6:lengthi7eee''"
    by code_simp
  have "torrent_size witness_info = Some 7"
    by (simp add: witness_info_def torrent_size_def field_of_def u64_try_from_def)
  moreover have "value_ok (Value_Dictionary ?entries)" "value_depth (Value_Dictionary ?entries) \<le> 33"
    by code_simp+
  ultimately show ?thesis
    using torrent_file_is_read [of ?entries "''info''" witness_info _ 7 "\<lambda>_. replicate 20 (CHR ''a'')"]
    unfolding encoded by simp
qed

text \<open>
  C40. Parsing always ends within the bytes there are: a value takes at least one byte, so the loop
  over a list or a dictionary never runs out of the one unit of fuel it has for each byte left, and
  any larger amount gives the same result.
\<close>

theorem bencode_loops_have_fuel:
  assumes "length input \<le> fuel"
  shows "parse_items (parse_value left) fuel input items = parse_items (parse_value left) (length input) input items \<and>
    parse_entries (parse_value left) fuel input entries = parse_entries (parse_value left) (length input) input entries \<and>
    (case parse_value left input of Some (_, rest) \<Rightarrow> length rest < length input | None \<Rightarrow> True)"
  using items_fuel [OF parse_value_consumes assms order_refl] entries_fuel [OF parse_value_consumes assms order_refl]
    consumesD [OF parse_value_consumes, of left input] by (auto split: option.split)

theorem bencode_loops_have_fuel_witness:
  "parse_items (parse_value 3) 9 ''i7ee'' [] = parse_items (parse_value 3) (length ''i7ee'') ''i7ee'' []"
proof -
  have "length ''i7ee'' \<le> 9" by simp
  from bencode_loops_have_fuel [OF this] show ?thesis by (rule conjunct1)
qed

end
