(* ===== verification/Mam_Client.thy ===== *)
theory Mam_Client
  imports Mam_Reply Torrent_File
begin

text \<open>
  MAM's API over HTTPS (\<open>shell/mam.rs\<close>): the call a request becomes, the cookie it carries, and what
  the answer means; then \<open>keep\<close> of \<open>shell/mod.rs\<close>, which stores a fetched torrent file before the
  core hears of it. What a call brings, the JSON parser, the reader of calendar times and SHA-1 are
  parameters.
\<close>

subsection \<open>Calls\<close>

datatype mam_host = Host_Site | Host_Tracker

text \<open>A call: its host and path, the query, the JSON body of a POST, and the cookie header.\<close>

record mam_call =
  call_host :: mam_host
  call_path :: string
  call_query :: "(string \<times> string) list"
  call_body :: "json option"
  call_cookie :: "string option"

definition BOOKMARKS_PER_PAGE :: u32 where
  "BOOKMARKS_PER_PAGE = 100"

definition call_get :: "mam_host \<Rightarrow> string \<Rightarrow> (string \<times> string) list \<Rightarrow> mam_call" where
  "call_get host path query =
     \<lparr>call_host = host, call_path = path, call_query = query, call_body = None, call_cookie = None\<rparr>"

fun mam_build :: "mam_request \<Rightarrow> mam_call" where
  "mam_build MamRequest_LookUpIp = call_get Host_Tracker ''json/jsonIp.php'' []"
| "mam_build MamRequest_RegisterSeedbox = call_get Host_Tracker ''json/dynamicSeedbox.php'' []"
| "mam_build (MamRequest_LoadUserData clients) =
     call_get Host_Site ''jsonLoad.php''
       ([(''snatch_summary'', ''true''), (''notif'', ''true'')] @
        (if clients = ClientListing_Include then [(''clientStats'', ''true'')] else []))"
| "mam_build (MamRequest_ListBookmarks start) =
     \<lparr>call_host = Host_Site, call_path = ''tor/js/loadSearchJSONbasic.php'', call_query = [],
      call_body = Some (Json_Object
        [(''perpage'', json_int (uint BOOKMARKS_PER_PAGE)),
         (''tor'', Json_Object
           [(''searchIn'', Json_String ''bookmarks''), (''sortType'', Json_String ''''),
            (''startNumber'', Json_String (show_nat (unat start)))])]),
      call_cookie = None\<rparr>"
| "mam_build (MamRequest_FetchTorrent i wedge) =
     call_get Host_Site ''tor/download.php''
       ((''tid'', show_nat (unat i)) # (if wedge = Wedge_Spend then [(''fl'', ''1'')] else []))"
| "mam_build (MamRequest_Buy Purchase_Vip) =
     call_get Host_Site ''json/bonusBuy.php'' [(''spendtype'', ''VIP''), (''duration'', ''max'')]"
| "mam_build (MamRequest_LookUpTorrent i) =
     call_get Host_Site ''tor/js/loadSearchJSONbasic.php'' [(''tor[id]'', show_nat (unat i))]"
| "mam_build MamRequest_WedgeHistory =
     call_get Host_Site ''json/userBonusHistory.php'' [(''type[]'', ''wedgePF'')]"

subsection \<open>Answers\<close>

text \<open>Headers whose value is text; a body that cannot be read is absent.\<close>

record mam_response =
  response_status :: http_status
  response_set_cookies :: "string list"
  response_retry_after :: "string option"
  response_body :: "string option"

record mam_world =
  mam_serve :: "mam_call \<Rightarrow> mam_response option"
  mam_parse :: "string \<Rightarrow> json option"
  mam_utc :: "string \<Rightarrow> system_time option"
  mam_sha1 :: "bytes \<Rightarrow> bytes"

definition rotated_cookie :: "string list \<Rightarrow> api_cookie option \<Rightarrow> api_cookie option" where
  "rotated_cookie headers ours =
     List.find (\<lambda>cookie. Some cookie \<noteq> ours)
       (List.map_filter (\<lambda>header.
          Option.bind (strip_prefix ''mam_id='' header) (\<lambda>v.
            right_option (api_cookie_parse (hd (split_at CHR '';'' v))))) headers)"

text \<open>\<open>map\<close> on a parsed answer, with what could not be understood as a failure.\<close>

definition reply_of :: "('a \<Rightarrow> mam_reply) \<Rightarrow> 'a option \<Rightarrow> mam_failure + mam_reply" where
  "reply_of f parsed = (case parsed of None \<Rightarrow> Inl MamFailure_Malformed | Some v \<Rightarrow> Inr (f v))"

definition mam_interpret ::
    "mam_world \<Rightarrow> mam_request \<Rightarrow> http_status \<Rightarrow> duration option \<Rightarrow> string \<Rightarrow>
     (mam_failure + mam_reply) \<times> string option" where
  "mam_interpret w request status retry body =
     (let document = mam_parse w body in
      if signed_out body then (Inl (MamFailure_Session (rejection body)), None)
      else if status = 429 then (Inl (MamFailure_TooSoon retry), None)
      else if request = MamRequest_RegisterSeedbox then (read_registration status document, None)
      else if \<not> is_success status then (Inl (MamFailure_Rejected status), None)
      else case request of
        MamRequest_FetchTorrent _ _ \<Rightarrow>
          (case torrent_file_read (mam_sha1 w) body of
             None \<Rightarrow> (Inl (MamFailure_Refused None), None)
           | Some file \<Rightarrow>
               (Inr (MamReply_Fetched \<lparr>fetched_hash = file_hash file, fetched_size = file_size file\<rparr>), Some body))
      | MamRequest_LookUpIp \<Rightarrow> (reply_of MamReply_Ip (read_ip_observation document), None)
      | MamRequest_LoadUserData _ \<Rightarrow> (reply_of MamReply_UserData (read_user_data (mam_utc w) document), None)
      | MamRequest_ListBookmarks _ \<Rightarrow> (reply_of MamReply_Bookmarks (read_bookmark_page document), None)
      | MamRequest_Buy _ \<Rightarrow> (read_purchase document, None)
      | MamRequest_LookUpTorrent i \<Rightarrow>
          (reply_of (\<lambda>page. MamReply_Torrent (List.find (\<lambda>listing. bookmark_id listing = i) (page_bookmarks page)))
             (read_bookmark_page document), None)
      | MamRequest_WedgeHistory \<Rightarrow> (reply_of MamReply_WedgeHistory (read_wedge_history document), None)
      | MamRequest_RegisterSeedbox \<Rightarrow> (read_registration status document, None))"

subsection \<open>Requests\<close>

record mam_answer =
  answer_result :: "mam_failure + mam_reply"
  answer_file :: "string option"
  answer_rotated :: "api_cookie option"

definition answer_failed :: "mam_failure \<Rightarrow> mam_answer" where
  "answer_failed failure = \<lparr>answer_result = Inl failure, answer_file = None, answer_rotated = None\<rparr>"

text \<open>The call sent for a request: nothing without a client or without a cookie it needs.\<close>

definition mam_call_of :: "mam_request \<Rightarrow> api_cookie option \<Rightarrow> mam_call option" where
  "mam_call_of request cookie =
     (if \<not> needs_cookie request then Some (mam_build request)
      else map_option (\<lambda>cookie. (mam_build request)\<lparr>call_cookie := Some (''mam_id='' @ cookie)\<rparr>) cookie)"

definition mam_perform :: "mam_world option \<Rightarrow> mam_request \<Rightarrow> api_cookie option \<Rightarrow> mam_answer" where
  "mam_perform client request cookie =
     (case client of
        None \<Rightarrow> answer_failed MamFailure_Unreachable
      | Some w \<Rightarrow>
          (case mam_call_of request cookie of
             None \<Rightarrow> answer_failed (MamFailure_Session SessionRejection_InvalidCookie)
           | Some call \<Rightarrow>
               (case mam_serve w call of
                  None \<Rightarrow> answer_failed MamFailure_Unreachable
                | Some response \<Rightarrow>
                    (let retry = map_option (\<lambda>s. secs (unat s))
                           (Option.bind (response_retry_after response) (\<lambda>v. parse_u64 (trim v)));
                         (result, file) = mam_interpret w request (response_status response) retry
                           (unwrap_or '''' (response_body response))
                     in \<lparr>answer_result = result, answer_file = file,
                         answer_rotated = rotated_cookie (response_set_cookies response) cookie\<rparr>))))"

text \<open>\<open>completes\<close> says whether storage takes the file.\<close>

definition mam_keep ::
    "bool \<Rightarrow> database option \<Rightarrow> mam_request \<Rightarrow> mam_answer \<Rightarrow> database option \<times> (mam_failure + mam_reply)" where
  "mam_keep completes database request answer =
     (case (request, answer_result answer, answer_file answer) of
        (MamRequest_FetchTorrent i _, Inr (MamReply_Fetched fetched), Some file) \<Rightarrow>
          (case database of
             Some db \<Rightarrow>
               if completes then (Some (keep_torrent_file db i (fetched_hash fetched) file), answer_result answer)
               else (database, Inl MamFailure_NotKept)
           | None \<Rightarrow> (None, Inl MamFailure_NotKept))
      | _ \<Rightarrow> (database, answer_result answer))"

subsection \<open>Properties\<close>

text \<open>The replies that answer a request; a torrent looked up is the one asked for.\<close>

fun reply_answers :: "mam_request \<Rightarrow> mam_reply \<Rightarrow> bool" where
  "reply_answers MamRequest_LookUpIp (MamReply_Ip _) = True"
| "reply_answers MamRequest_RegisterSeedbox (MamReply_Registered _ _) = True"
| "reply_answers (MamRequest_LoadUserData _) (MamReply_UserData _) = True"
| "reply_answers (MamRequest_ListBookmarks _) (MamReply_Bookmarks _) = True"
| "reply_answers (MamRequest_FetchTorrent _ _) (MamReply_Fetched _) = True"
| "reply_answers (MamRequest_Buy _) (MamReply_Purchased _) = True"
| "reply_answers MamRequest_WedgeHistory (MamReply_WedgeHistory _) = True"
| "reply_answers (MamRequest_LookUpTorrent i) (MamReply_Torrent listing) =
     is_none_or (\<lambda>listing. bookmark_id listing = i) listing"
| "reply_answers _ _ = False"

lemma reply_of_Inr: "reply_of f parsed = Inr reply \<longleftrightarrow> (\<exists>v. parsed = Some v \<and> reply = f v)"
  by (auto simp: reply_of_def split: option.splits)

lemma registration_Inr: "read_registration status document = Inr reply \<Longrightarrow> \<exists>r ip. reply = MamReply_Registered r ip"
  by (auto simp: read_registration_def Let_def split: if_splits option.splits)

lemma purchase_Inr: "read_purchase document = Inr reply \<Longrightarrow> \<exists>points. reply = MamReply_Purchased points"
  by (auto simp: read_purchase_def split: option.splits if_splits prod.splits)

lemma found_listing: "is_none_or (\<lambda>listing. bookmark_id listing = i) (List.find (\<lambda>listing. bookmark_id listing = i) page)"
  by (cases "List.find (\<lambda>listing. bookmark_id listing = i) page") (auto dest: find_SomeD)

lemma interpret_answers:
  "mam_interpret w request status retry body = (Inr reply, file) \<Longrightarrow> reply_answers request reply"
  using found_listing
  by (cases request)
    (auto simp: mam_interpret_def Let_def reply_of_Inr
       dest!: registration_Inr purchase_Inr split: if_splits option.splits)

lemma perform_answers: "answer_result (mam_perform client request cookie) = Inr reply \<Longrightarrow> reply_answers request reply"
  using interpret_answers
  by (fastforce simp: mam_perform_def answer_failed_def Let_def split: option.splits prod.splits)

lemma interpret_fetched:
  assumes "mam_interpret w (MamRequest_FetchTorrent i wedge) status retry body = (Inr (MamReply_Fetched fetched), file)"
  shows "file = Some body"
    and "torrent_file_read (mam_sha1 w) body = Some \<lparr>file_hash = fetched_hash fetched, file_size = fetched_size fetched\<rparr>"
  using assms by (auto simp: mam_interpret_def Let_def split: if_splits option.splits)

lemma keep_answers:
  "snd (mam_keep completes database request answer) = Inr reply \<Longrightarrow> answer_result answer = Inr reply"
  by (auto simp: mam_keep_def split: mam_request.splits sum.splits mam_reply.splits option.splits if_splits)

lemma find_replaced: "P x \<Longrightarrow> List.find P (filter (\<lambda>y. \<not> P y) xs @ [x]) = Some x"
  by (induction xs) auto

lemma kept_file [simp]: "kept_torrent_file (keep_torrent_file db i hash file) i = Some file"
  using find_replaced [of "\<lambda>f. fst f = integer i" "(integer i, hash, file)"]
  by (simp add: kept_torrent_file_def keep_torrent_file_def)

lemma cookie_parse_idem:
  assumes "api_cookie_parse v = Inr c"
  shows "api_cookie_parse c = Inr c"
proof -
  have c: "c \<noteq> []" "list_all (\<lambda>c. is_ascii_graphic c \<and> c \<notin> {CHR '';'', CHR '','', CHR 0x22, CHR 0x5C}) c"
    using assms by (auto simp: api_cookie_parse_def Let_def split: if_splits)
  have graphic: "is_ascii_graphic x \<Longrightarrow> \<not> is_whitespace x" for x
    by (auto simp: is_ascii_graphic_def is_whitespace_def)
  have "trim c = c"
    by (rule trim_inside) (use c graphic in \<open>auto simp: list_all_iff\<close>)
  with c show ?thesis by (simp add: api_cookie_parse_def)
qed

lemma rotated_cookie_new:
  assumes "rotated_cookie headers cookie = Some new"
  shows "api_cookie_parse new = Inr new" and "Some new \<noteq> cookie"
proof -
  obtain v where "right_option (api_cookie_parse v) = Some new"
    using find_SomeD [OF assms [unfolded rotated_cookie_def]]
    by (auto simp: set_map_filter_iff bind_eq_Some_conv)
  then show "api_cookie_parse new = Inr new"
    using cookie_parse_idem by (auto simp: right_option_def split: sum.splits)
  show "Some new \<noteq> cookie" using find_SomeD [OF assms [unfolded rotated_cookie_def]] by simp
qed

text \<open>
  C24. Every answer fits its request: whatever MAM and the network send, a request is answered by a
  failure or by a reply of the kind the core waits for, and a torrent looked up is the one asked for.
\<close>

theorem replies_fit_their_requests:
  "case snd (mam_keep completes database request (mam_perform client request cookie)) of
     Inr reply \<Rightarrow> reply_answers request reply
   | Inl _ \<Rightarrow> True"
  by (auto split: sum.split dest!: keep_answers intro: perform_answers)

text \<open>
  C23. The cookie goes where it is needed only, and only a new one comes back: a request that needs none
  is sent without it, one that needs one is not sent without it, and a cookie MAM issues is taken
  over only if it could have been entered by the owner and differs from the one sent.
\<close>

theorem cookies_are_handled_safely:
  assumes "mam_call_of request cookie = Some call"
  shows "(if needs_cookie request then \<exists>c. cookie = Some c \<and> call_cookie call = Some (''mam_id='' @ c) else call_cookie call = None) \<and>
    (case rotated_cookie headers cookie of
       Some new \<Rightarrow> api_cookie_parse new = Inr new \<and> Some new \<noteq> cookie
     | None \<Rightarrow> True)"
  using assms rotated_cookie_new [of headers cookie]
  by (cases request) (auto simp: mam_call_of_def call_get_def split: option.split purchase.split)

theorem cookies_are_handled_safely_witness:
  "call_cookie ((mam_build MamRequest_WedgeHistory)\<lparr>call_cookie := Some ''mam_id=old''\<rparr>) = Some ''mam_id=old'' \<and>
   (case rotated_cookie [''mam_id=old; Path=/'', ''mam_id=new; Path=/''] (Some ''old'') of
      Some new \<Rightarrow> api_cookie_parse new = Inr new \<and> Some new \<noteq> Some ''old''
    | None \<Rightarrow> True)"
  using cookies_are_handled_safely [of MamRequest_WedgeHistory "Some ''old''"
      "(mam_build MamRequest_WedgeHistory)\<lparr>call_cookie := Some ''mam_id=old''\<rparr>"
      "[''mam_id=old; Path=/'', ''mam_id=new; Path=/'']"]
  by (simp add: mam_call_of_def)

text \<open>
  C25. A torrent that was fetched can be added: when the core hears that a file was fetched, storage holds
  that file under MAM's number for it, and the hash and the size reported are the ones read from it, so
  what qBittorrent is given later is the torrent the core registered.
\<close>

theorem fetched_torrents_can_be_added:
  assumes "mam_keep completes database (MamRequest_FetchTorrent i wedge)
      (mam_perform (Some w) (MamRequest_FetchTorrent i wedge) cookie) = (database', Inr (MamReply_Fetched fetched))"
  shows "\<exists>db file. database' = Some db \<and> kept_torrent_file db i = Some file \<and>
    torrent_file_read (mam_sha1 w) file = Some \<lparr>file_hash = fetched_hash fetched, file_size = fetched_size fetched\<rparr> \<and>
    client_add (v\<lparr>world_kept := kept_torrent_file db\<rparr>) i = outcome_map (\<lambda>_. ()) (client_checked (world_serve v
      (Call_Upload ''api/v2/torrents/add'' (show_nat (unat i) @ ''.torrent'') file)))"
proof -
  let ?request = "MamRequest_FetchTorrent i wedge"
  define answer where "answer = mam_perform (Some w) ?request cookie"
  have keep: "mam_keep completes database ?request answer = (database', Inr (MamReply_Fetched fetched))"
    using assms by (simp add: answer_def)
  then have result: "answer_result answer = Inr (MamReply_Fetched fetched)"
    using keep_answers [of completes database ?request answer] by simp
  then obtain body where kept: "answer_file answer = Some body"
      "torrent_file_read (mam_sha1 w) body = Some \<lparr>file_hash = fetched_hash fetched, file_size = fetched_size fetched\<rparr>"
    using interpret_fetched
    by (fastforce simp: answer_def mam_perform_def answer_failed_def Let_def split: option.splits prod.splits)
  with keep result obtain db where "database' = Some (keep_torrent_file db i (fetched_hash fetched) body)"
    by (auto simp: mam_keep_def split: option.splits if_splits)
  with kept show ?thesis by (simp add: client_add_def or_malformed_def)
qed

definition witness_world :: mam_world where
  "witness_world =
     \<lparr>mam_serve = (\<lambda>_. Some \<lparr>response_status = 200, response_set_cookies = [], response_retry_after = None,
                              response_body = Some ''d4:infod6:lengthi7eee''\<rparr>),
      mam_parse = (\<lambda>_. None), mam_utc = (\<lambda>_. None), mam_sha1 = (\<lambda>_. replicate 20 (CHR ''a''))\<rparr>"

theorem fetched_torrents_can_be_added_witness:
  "\<exists>db file. kept_torrent_file db 5 = Some file \<and>
     torrent_file_read (\<lambda>_. replicate 20 (CHR ''a'')) file =
       Some \<lparr>file_hash = hex (replicate 20 (CHR ''a'')), file_size = 7\<rparr>"
proof -
  let ?fetched = "\<lparr>fetched_hash = hex (replicate 20 (CHR ''a'')), fetched_size = 7\<rparr>"
  let ?entries = "[(''info'', Value_Dictionary witness_info, bencode (Value_Dictionary witness_info))]"
  have encoded: "bencode (Value_Dictionary ?entries) = ''d4:infod6:lengthi7eee''" by code_simp
  have "value_ok (Value_Dictionary ?entries)" "value_depth (Value_Dictionary ?entries) \<le> 33" by code_simp+
  then have "parse_value 33 (bencode (Value_Dictionary ?entries) @ []) = Some (Value_Dictionary ?entries, [])"
    by (intro parse_bencode) (simp_all add: encoded del: bencode.simps value_ok.simps value_depth.simps)
  moreover have "torrent_size witness_info = Some 7"
    by (simp add: witness_info_def torrent_size_def field_of_def u64_try_from_def)
  moreover have "torrent_hash_parse (hex (replicate 20 (CHR ''a''))) = Some (hex (replicate 20 (CHR ''a'')))"
    by (rule torrent_hash_hex) simp
  ultimately have "torrent_file_read (\<lambda>_. replicate 20 (CHR ''a'')) ''d4:infod6:lengthi7eee'' =
      Some \<lparr>file_hash = hex (replicate 20 (CHR ''a'')), file_size = 7\<rparr>"
    by (simp add: torrent_file_read_def MAX_DEPTH_def encoded del: bencode.simps parse_value.simps)
  moreover have "\<not> signed_out ''d4:infod6:lengthi7eee''" by code_simp
  ultimately have "mam_keep True (Some database_new) (MamRequest_FetchTorrent 5 Wedge_Keep)
      (mam_perform (Some witness_world) (MamRequest_FetchTorrent 5 Wedge_Keep) (Some ''c'')) =
    (Some (keep_torrent_file database_new 5 (hex (replicate 20 (CHR ''a''))) ''d4:infod6:lengthi7eee''),
     Inr (MamReply_Fetched ?fetched))"
    by (simp add: witness_world_def mam_keep_def mam_perform_def mam_call_of_def mam_interpret_def is_success_def)
  from fetched_torrents_can_be_added [OF this] show ?thesis by (simp only: witness_world_def mam_world.simps fetched_torrent.simps) blast
qed

end
