(* ===== verification/Nat_Pmp.thy ===== *)
theory Nat_Pmp
  imports Core
begin

text \<open>
  The NAT-PMP exchange (\<open>shell/natpmp.rs\<close>): the bytes of a mapping request, the reading of a
  gateway's answer, and the two mappings that become one core event. The socket is a parameter:
  what each attempt brings. The bytes are read as the code reads them, big end first.
\<close>

type_synonym byte = "8 word"

definition u16_from_be_bytes :: "byte \<Rightarrow> byte \<Rightarrow> u16" where
  "u16_from_be_bytes b0 b1 = of_nat (unat b0 * 256 + unat b1)"

definition u32_from_be_bytes :: "byte \<Rightarrow> byte \<Rightarrow> byte \<Rightarrow> byte \<Rightarrow> u32" where
  "u32_from_be_bytes b0 b1 b2 b3 =
     of_nat (unat b0 * 16777216 + unat b1 * 65536 + unat b2 * 256 + unat b3)"

definition u16_to_be_bytes :: "u16 \<Rightarrow> byte list" where
  "u16_to_be_bytes w = [of_nat (unat w div 256), of_nat (unat w)]"

definition u32_to_be_bytes :: "u32 \<Rightarrow> byte list" where
  "u32_to_be_bytes w =
     [of_nat (unat w div 16777216), of_nat (unat w div 65536), of_nat (unat w div 256), of_nat (unat w)]"

definition millis :: "nat \<Rightarrow> duration" where
  "millis n = n * 1000000"

definition NATPMP_UDP :: byte where "NATPMP_UDP = 1"
definition NATPMP_TCP :: byte where "NATPMP_TCP = 2"

definition ATTEMPT_TIMEOUTS :: "duration list" where
  "ATTEMPT_TIMEOUTS = [millis 250, millis 500, secs 1, secs 2]"

definition natpmp_request :: "byte \<Rightarrow> duration \<Rightarrow> byte list" where
  "natpmp_request opcode lifetime =
     [0, opcode, 0, 0, 0, 0, 0, 1] @ u32_to_be_bytes (sat_of_nat (as_secs lifetime))"

fun natpmp_refusal :: "nat \<Rightarrow> nat_pmp_refusal option option" where
  "natpmp_refusal code =
     (if code = 0 then Some None
      else if code = 1 then Some (Some NatPmpRefusal_UnsupportedVersion)
      else if code = 2 then Some (Some NatPmpRefusal_NotAuthorized)
      else if code = 3 then Some (Some NatPmpRefusal_NetworkFailure)
      else if code = 4 then Some (Some NatPmpRefusal_OutOfResources)
      else if code = 5 then Some (Some NatPmpRefusal_UnsupportedOpcode)
      else None)"

fun natpmp_response :: "byte \<Rightarrow> byte list \<Rightarrow> mapping_failure + (port \<times> duration)" where
  "natpmp_response opcode
     [version, op, r0, r1, e0, e1, e2, e3, i0, i1, p0, p1, l0, l1, l2, l3] =
     (if version \<noteq> 0 \<or> op \<noteq> opcode + 128 then Inl MappingFailure_Malformed
      else case natpmp_refusal (unat (u16_from_be_bytes r0 r1)) of
        None \<Rightarrow> Inl MappingFailure_Malformed
      | Some (Some reason) \<Rightarrow> Inl (MappingFailure_Refused reason)
      | Some None \<Rightarrow>
          (case port_new (u16_from_be_bytes p0 p1) of
             None \<Rightarrow> Inl MappingFailure_Malformed
           | Some port \<Rightarrow> Inr (port, secs (unat (u32_from_be_bytes l0 l1 l2 l3)))))"
| "natpmp_response opcode packet = Inl MappingFailure_Malformed"

text \<open>
  One attempt: the packet could not be sent, nothing came in time (or not from the gateway), or the
  gateway's datagram came, of which the buffer keeps 64 bytes.
\<close>

datatype attempt = Attempt_NotSent | Attempt_Silent | Attempt_Received "byte list"

fun natpmp_attempts :: "byte \<Rightarrow> attempt list \<Rightarrow> mapping_failure + (port \<times> duration)" where
  "natpmp_attempts opcode [] = Inl MappingFailure_NoResponse"
| "natpmp_attempts opcode (Attempt_NotSent # attempts) = Inl MappingFailure_NoResponse"
| "natpmp_attempts opcode (Attempt_Silent # attempts) = natpmp_attempts opcode attempts"
| "natpmp_attempts opcode (Attempt_Received datagram # attempts) = natpmp_response opcode (take 64 datagram)"

definition natpmp_map :: "byte \<Rightarrow> attempt list \<Rightarrow> mapping_failure + (port \<times> duration)" where
  "natpmp_map opcode network = natpmp_attempts opcode (take (length ATTEMPT_TIMEOUTS) network)"

text \<open>
  \<open>map_ports\<close>: \<open>bound\<close> is the socket, when there is a gateway and a socket could be bound, as what
  the attempts for the UDP and for the TCP mapping bring.
\<close>

definition map_ports :: "(attempt list \<times> attempt list) option \<Rightarrow> port_forwarding_event" where
  "map_ports bound =
     (case bound of
        None \<Rightarrow> PortForwardingEvent_MappingFailed MappingFailure_NoResponse
      | Some (udp_network, tcp_network) \<Rightarrow>
          (case natpmp_map NATPMP_UDP udp_network of
             Inl reason \<Rightarrow> PortForwardingEvent_MappingFailed reason
           | Inr (udp, udp_lifetime) \<Rightarrow>
               (case natpmp_map NATPMP_TCP tcp_network of
                  Inl reason \<Rightarrow> PortForwardingEvent_MappingFailed reason
                | Inr (tcp, tcp_lifetime) \<Rightarrow>
                    PortForwardingEvent_Mapped tcp udp (min udp_lifetime tcp_lifetime))))"

subsection \<open>The bytes\<close>

lemma unat_byte: "unat (of_nat n :: byte) = n mod 256"
  by (simp add: unat_of_nat)

lemma unat_u32: "unat (w :: u32) < 4294967296"
proof -
  have "unat w < 2 ^ LENGTH(32)" by (rule unsigned_less)
  then show ?thesis by simp
qed

lemma unat_u16: "unat (w :: u16) < 65536"
proof -
  have "unat w < 2 ^ LENGTH(16)" by (rule unsigned_less)
  then show ?thesis by simp
qed

lemma u32_be_inverse:
  "u32_to_be_bytes w = [b0, b1, b2, b3] \<Longrightarrow> u32_from_be_bytes b0 b1 b2 b3 = w"
proof -
  assume b: "u32_to_be_bytes w = [b0, b1, b2, b3]"
  define n where "n = unat w"
  have n: "n < 4294967296" using unat_u32 by (simp add: n_def)
  have "unat b0 * 16777216 + unat b1 * 65536 + unat b2 * 256 + unat b3 =
      (n div 16777216 mod 256) * 16777216 + (n div 65536 mod 256) * 65536 + (n div 256 mod 256) * 256 + n mod 256"
    using b unfolding u32_to_be_bytes_def n_def [symmetric] by (auto simp: unat_byte)
  also have "\<dots> = n"
  proof -
    define a where "a = n div 256"
    define b where "b = a div 256"
    define c where "c = b div 256"
    have "n div 65536 = b" "n div 16777216 = c" by (simp_all add: a_def b_def c_def div_mult2_eq [symmetric])
    moreover have "c < 256" using n calculation(2) by (simp add: div_less_iff_less_mult flip: calculation(2))
    moreover have "n = 256 * a + n mod 256" "a = 256 * b + a mod 256" "b = 256 * c + b mod 256"
      by (simp_all add: a_def b_def c_def)
    ultimately show ?thesis by (simp add: a_def [symmetric])
  qed
  finally show ?thesis by (simp add: u32_from_be_bytes_def n_def)
qed

lemma u16_be_inverse: "u16_to_be_bytes w = [b0, b1] \<Longrightarrow> u16_from_be_bytes b0 b1 = w"
proof -
  assume b: "u16_to_be_bytes w = [b0, b1]"
  define n where "n = unat w"
  have n: "n < 65536" using unat_u16 by (simp add: n_def)
  have "unat b0 * 256 + unat b1 = (n div 256 mod 256) * 256 + n mod 256"
    using b unfolding u16_to_be_bytes_def n_def [symmetric] by (auto simp: unat_byte)
  also have "\<dots> = n" using n by (simp add: div_less_iff_less_mult)
  finally show ?thesis by (simp add: u16_from_be_bytes_def n_def)
qed

subsection \<open>Properties\<close>

text \<open>What a gateway sends that grants a mapping (RFC 6886, section 3.3): 16 bytes.\<close>

definition natpmp_grant :: "byte \<Rightarrow> u32 \<Rightarrow> u16 \<Rightarrow> u16 \<Rightarrow> u32 \<Rightarrow> byte list" where
  "natpmp_grant opcode epoch internal public lifetime =
     [0, opcode + 128, 0, 0] @ u32_to_be_bytes epoch @ u16_to_be_bytes internal @ u16_to_be_bytes public @
     u32_to_be_bytes lifetime"

lemma natpmp_grant_bytes:
  obtains e0 e1 e2 e3 i0 i1 p0 p1 l0 l1 l2 l3 where
    "natpmp_grant opcode epoch internal public lifetime =
      [0, opcode + 128, 0, 0, e0, e1, e2, e3, i0, i1, p0, p1, l0, l1, l2, l3]"
    "u16_from_be_bytes p0 p1 = public" "u32_from_be_bytes l0 l1 l2 l3 = lifetime"
proof -
  obtain e0 e1 e2 e3 where e: "u32_to_be_bytes epoch = [e0, e1, e2, e3]" by (simp add: u32_to_be_bytes_def)
  obtain i0 i1 where i: "u16_to_be_bytes internal = [i0, i1]" by (simp add: u16_to_be_bytes_def)
  obtain p0 p1 where p: "u16_to_be_bytes public = [p0, p1]" by (simp add: u16_to_be_bytes_def)
  obtain l0 l1 l2 l3 where l: "u32_to_be_bytes lifetime = [l0, l1, l2, l3]" by (simp add: u32_to_be_bytes_def)
  show thesis
    by (rule that [OF _ u16_be_inverse [OF p] u32_be_inverse [OF l]]) (simp add: natpmp_grant_def e i p l)
qed

lemma natpmp_response_grant:
  assumes "public \<noteq> 0"
  shows "natpmp_response opcode (natpmp_grant opcode' epoch internal public lifetime) =
    (if opcode' = opcode then Inr (public, secs (unat lifetime)) else Inl MappingFailure_Malformed)"
  by (rule natpmp_grant_bytes [of opcode' epoch internal public lifetime])
    (use assms in \<open>simp add: port_new_def u16_from_be_bytes_def [of 0 0]\<close>)

lemma natpmp_grant_fits [simp]:
  "take 64 (natpmp_grant opcode epoch internal public lifetime) = natpmp_grant opcode epoch internal public lifetime"
  by (simp add: natpmp_grant_def u32_to_be_bytes_def u16_to_be_bytes_def)

text \<open>
  C38. A gateway's grant is read back exactly: whatever its epoch and internal port, the public port
  and the lifetime the gateway encoded are the ones Windlass uses, in whichever of the first four
  attempts the answer comes; a request names the lifetime asked for, in whole seconds.
\<close>

theorem natpmp_grant_is_read:
  assumes "n < 4" and "public \<noteq> 0" and "as_secs asked < 2 ^ 32"
  shows "natpmp_map opcode (replicate n Attempt_Silent @
      Attempt_Received (natpmp_grant opcode epoch internal public lifetime) # later) =
      Inr (public, secs (unat lifetime)) \<and>
    (\<exists>l0 l1 l2 l3. drop 8 (natpmp_request opcode asked) = [l0, l1, l2, l3] \<and>
       unat (u32_from_be_bytes l0 l1 l2 l3) = as_secs asked)"
proof -
  have "natpmp_response opcode (take 64 (natpmp_grant opcode epoch internal public lifetime)) =
      Inr (public, secs (unat lifetime))"
    using assms(2) by (simp add: natpmp_response_grant)
  moreover have "natpmp_attempts opcode (take m (replicate n Attempt_Silent @ Attempt_Received d # later)) =
      natpmp_response opcode (take 64 d)" if "n < m" for n m d
    using that by (induction n arbitrary: m) (auto simp: take_Cons split: nat.splits)
  ultimately have "natpmp_map opcode (replicate n Attempt_Silent @
      Attempt_Received (natpmp_grant opcode epoch internal public lifetime) # later) =
      Inr (public, secs (unat lifetime))"
    using assms(1) by (simp add: natpmp_map_def ATTEMPT_TIMEOUTS_def)
  moreover obtain a0 a1 a2 a3 where
    a: "u32_to_be_bytes (sat_of_nat (as_secs asked)) = [a0, a1, a2, a3]" by (simp add: u32_to_be_bytes_def)
  have "unat (u32_from_be_bytes a0 a1 a2 a3) = as_secs asked"
    unfolding u32_be_inverse [OF a] using assms(3) by (simp add: unat_sat)
  with a have "\<exists>l0 l1 l2 l3. drop 8 (natpmp_request opcode asked) = [l0, l1, l2, l3] \<and>
       unat (u32_from_be_bytes l0 l1 l2 l3) = as_secs asked"
    by (simp add: natpmp_request_def)
  ultimately show ?thesis by blast
qed

theorem natpmp_grant_is_read_witness:
  "natpmp_map NATPMP_TCP [Attempt_Silent, Attempt_Received (natpmp_grant NATPMP_TCP 9 0 41000 60)] = Inr (41000, secs 60)"
  using natpmp_grant_is_read [of 1 41000 "mins 1" NATPMP_TCP 9 0 60 "[]"] by (simp add: time_defs)

text \<open>
  Both mappings share a socket, and the first datagram that comes decides an attempt: the second
  answer of a gateway that answers the UDP request twice, late, is taken for the TCP answer and
  fails the mapping, although a valid TCP answer follows.
\<close>

lemma late_udp_answer_fails_the_mapping:
  "map_ports (Some
     ([Attempt_Silent, Attempt_Received (natpmp_grant NATPMP_UDP 9 0 41000 60)],
      [Attempt_Received (natpmp_grant NATPMP_UDP 9 0 41000 60),
       Attempt_Received (natpmp_grant NATPMP_TCP 9 0 41000 60)])) =
   PortForwardingEvent_MappingFailed MappingFailure_Malformed"
  by (simp add: map_ports_def natpmp_map_def ATTEMPT_TIMEOUTS_def natpmp_response_grant NATPMP_UDP_def NATPMP_TCP_def)

lemma natpmp_lifetime:
  assumes "natpmp_map opcode network = Inr (port, lifetime)"
  shows "lifetime < secs (2 ^ 32)"
proof -
  have response: "lifetime < secs (2 ^ 32)" if "natpmp_response op packet = Inr (port, lifetime)" for op packet
    using that unat_u32
    by (induction op packet rule: natpmp_response.induct)
      (auto simp: secs_def split: if_splits option.splits)
  have "lifetime < secs (2 ^ 32)" if "natpmp_attempts opcode attempts = Inr (port, lifetime)" for attempts
    using that by (induction opcode attempts rule: natpmp_attempts.induct) (auto dest: response)
  with assms show ?thesis by (simp add: natpmp_map_def)
qed

text \<open>
  No answer of a gateway can make the core panic: whatever bytes and silences the network
  brings, the event made of them is handled in every state.
\<close>

theorem gateway_cannot_panic_the_core:
  "core_handle c now (Event_PortForwarding (map_ports bound)) \<noteq> None"
proof -
  have "port_forwarding_event_ok (map_ports bound)"
    by (auto simp: map_ports_def secs_def duration_max_def min_def dest!: natpmp_lifetime
        split: option.split sum.split)
  then show ?thesis
    using port_forwarding_no_panic by (simp add: core_handle_def core_handle_port_def split_beta Let_def)
qed

end
