(* ===== verification/Services.thy ===== *)
theory Services
  imports Mam_Client Nat_Pmp
begin

text \<open>
  The remaining services of the shell: the exit-address check and the start of a server's unit
  (\<open>shell/tunnel.rs\<close>), and the push of a notice to ntfy (\<open>shell/notify.rs\<close>). What the network and
  the unit starter do are parameters. Of the words of a notice only what a push carries is modelled:
  nothing but its priority and its place in the log.
\<close>

subsection \<open>The tunnel\<close>

datatype tunnel_request = TunnelRequest_CheckExitIp | TunnelRequest_Switch vpn_server

text \<open>What the service answers, if it can be reached, and whether a unit starts.\<close>

record tunnel_world =
  world_exit :: "(http_status \<times> string option) option"
  world_start :: "string \<Rightarrow> bool"

definition exit_ip :: "tunnel_world \<Rightarrow> exit_ip_failure + ip_addr" where
  "exit_ip w =
     (case world_exit w of
        None \<Rightarrow> Inl ExitIpFailure_Unreachable
      | Some (status, body) \<Rightarrow>
          if \<not> is_success status then Inl (ExitIpFailure_Rejected status)
          else (case parse_ip (trim (unwrap_or '''' body)) of
                  None \<Rightarrow> Inl ExitIpFailure_Malformed
                | Some ip \<Rightarrow> Inr ip))"

definition check_exit_ip :: "tunnel_world option \<Rightarrow> tunnel_event" where
  "check_exit_ip client =
     (case (case client of Some w \<Rightarrow> exit_ip w | None \<Rightarrow> Inl ExitIpFailure_Unreachable) of
        Inr ip \<Rightarrow> TunnelEvent_ExitIpObserved ip
      | Inl reason \<Rightarrow> TunnelEvent_ExitIpCheckFailed reason)"

definition switch_unit :: "tunnel_world option \<Rightarrow> vpn_server \<Rightarrow> tunnel_event" where
  "switch_unit client server =
     (if is_some_and (\<lambda>w. world_start w (''windlass-wireguard@'' @ server @ ''.service'')) client
      then TunnelEvent_Switched else TunnelEvent_SwitchFailed)"

fun tunnel_perform :: "tunnel_world option \<Rightarrow> tunnel_request \<Rightarrow> tunnel_event" where
  "tunnel_perform client TunnelRequest_CheckExitIp = check_exit_ip client"
| "tunnel_perform client (TunnelRequest_Switch server) = switch_unit client server"

subsection \<open>Pushes\<close>

text \<open>ntfy's priority of a notice, from 1 (min) to 5 (urgent).\<close>

fun notice_priority :: "notice \<Rightarrow> u8" where
  "notice_priority (Notice_Started _) = 2"
| "notice_priority Notice_StartupFailed = 5"
| "notice_priority (Notice_VpnProtectionLost _) = 4"
| "notice_priority (Notice_VpnProtectionRestored _ _) = 3"
| "notice_priority (Notice_FailoverStarted _) = 4"
| "notice_priority (Notice_FailoverSucceeded _) = 3"
| "notice_priority (Notice_FailoverFailed _) = 5"
| "notice_priority (Notice_FailoverBlocked _) = 5"
| "notice_priority Notice_ForwardedPortLost = 3"
| "notice_priority (Notice_ForwardedPortRestored _) = 2"
| "notice_priority (Notice_QbittorrentUnreachable _) = 4"
| "notice_priority Notice_QbittorrentReachable = 2"
| "notice_priority (Notice_QbittorrentVersionNotAllowed _) = 5"
| "notice_priority (Notice_QbittorrentVersionAllowed _) = 2"
| "notice_priority (Notice_TorrentErrors _) = 4"
| "notice_priority Notice_TorrentErrorsCleared = 2"
| "notice_priority (Notice_FilesMissing _) = 4"
| "notice_priority Notice_FilesMissingCleared = 2"
| "notice_priority (Notice_TorrentsMissing _) = 4"
| "notice_priority Notice_TorrentsMissingCleared = 2"
| "notice_priority Notice_RegistryNotSaved = 4"
| "notice_priority Notice_RegistrySaved = 2"
| "notice_priority Notice_RegistryUnreadable = 5"
| "notice_priority (Notice_SettingNotSaved _) = 4"
| "notice_priority Notice_HistoryUnavailable = 4"
| "notice_priority (Notice_HistoryEntriesLost _) = 3"
| "notice_priority Notice_Test = 3"
| "notice_priority (Notice_MamSessionRejected _) = 5"
| "notice_priority Notice_MamSessionAccepted = 2"
| "notice_priority Notice_SeedboxNotRegistered = 4"
| "notice_priority (Notice_SeedboxRegistered _) = 2"
| "notice_priority (Notice_MamIpUnknown _) = 3"
| "notice_priority Notice_MamIpKnown = 2"
| "notice_priority Notice_MamStateUnreadable = 5"
| "notice_priority (Notice_RatioLow _ urgency) = (case urgency of Urgency_Urgent \<Rightarrow> 5 | Urgency_Normal \<Rightarrow> 4)"
| "notice_priority Notice_RatioRestored = 2"
| "notice_priority (Notice_RatioUsed _) = 5"
| "notice_priority Notice_RatioUseChecked = 2"
| "notice_priority (Notice_UnsatisfiedNearLimit _ _) = 4"
| "notice_priority Notice_UnsatisfiedBelowLimit = 2"
| "notice_priority (Notice_UnsatisfiedNotSeeding _) = 4"
| "notice_priority Notice_UnsatisfiedSeeding = 2"
| "notice_priority (Notice_MamFlagged _ _ _) = 4"
| "notice_priority Notice_MamFlagsCleared = 2"
| "notice_priority (Notice_MamMessages _ warning) = (case warning of ClientWarning_Given \<Rightarrow> 5 | ClientWarning_NotGiven \<Rightarrow> 3)"
| "notice_priority (Notice_DownloadsHeld _) = 3"
| "notice_priority Notice_DownloadsResumed = 2"
| "notice_priority Notice_NoWedgesLeft = 4"
| "notice_priority (Notice_PointsBelowReserve _ _) = 3"
| "notice_priority (Notice_VipEnding _) = 4"
| "notice_priority Notice_DownloadsRefused = 5"
| "notice_priority (Notice_SeedingBehind _) = 4"
| "notice_priority Notice_SeedingOnTrack = 2"
| "notice_priority (Notice_PurchaseMade _ _) = 3"
| "notice_priority (Notice_PurchaseRefused _) = 4"
| "notice_priority (Notice_PurchaseUncertain _) = 4"
| "notice_priority Notice_WedgeNotSpent = 5"
| "notice_priority (Notice_DownloadNotFree _) = 4"
| "notice_priority Notice_WedgedMidDownload = 2"
| "notice_priority (Notice_PurchaseSettled _ _) = 3"
| "notice_priority (Notice_PurchaseNeedsChecking _) = 4"
| "notice_priority (Notice_MamClientNotListed _) = 4"
| "notice_priority Notice_MamClientListed = 2"
| "notice_priority (Notice_NotConnectable _) = 4"
| "notice_priority Notice_ConnectableAgain = 2"
| "notice_priority Notice_MamVisitReminder = 3"

definition entry_page :: "push \<Rightarrow> string" where
  "entry_page push =
     (case push_entry push of
        None \<Rightarrow> ''/notifications''
      | Some i \<Rightarrow> ''/notifications#notice-'' @ show_nat (unat i))"

text \<open>A push as it is posted: the topic, ntfy's headers, and the body. \<open>join\<close> forms an address below another.\<close>

record push_call =
  push_url :: string
  push_title :: string
  push_priority :: string
  push_click :: "string option"
  push_body :: string

record channel =
  channel_server :: "string option"
  channel_dashboard :: "string option"

record push_world =
  world_join :: "string \<Rightarrow> string \<Rightarrow> string option"
  world_post :: "push_call \<Rightarrow> http_status option"

definition PUSH_TITLE :: string where
  "PUSH_TITLE = ''Windlass''"

definition PUSH_BODY :: string where
  "PUSH_BODY = ''Windlass has a new notice. Open it to read it on the dashboard.''"

definition push_call_of :: "(string \<Rightarrow> string \<Rightarrow> string option) \<Rightarrow> channel \<Rightarrow> ntfy_topic \<Rightarrow> push \<Rightarrow> push_call option" where
  "push_call_of join channel topic push =
     map_option (\<lambda>url.
       \<lparr>push_url = url, push_title = PUSH_TITLE, push_priority = show_nat (unat (notice_priority (push_notice push))),
        push_click = Option.bind (channel_dashboard channel) (\<lambda>dashboard. join dashboard (entry_page push)),
        push_body = PUSH_BODY\<rparr>)
     (Option.bind (channel_server channel) (\<lambda>server. join server topic))"

definition push_deliver :: "push_world \<Rightarrow> channel \<Rightarrow> ntfy_topic \<Rightarrow> push \<Rightarrow> delivery_failure + unit" where
  "push_deliver w channel topic push =
     (case push_call_of (world_join w) channel topic push of
        None \<Rightarrow> Inl DeliveryFailure_Unreachable
      | Some call \<Rightarrow>
          (case world_post w call of
             None \<Rightarrow> Inl DeliveryFailure_Unreachable
           | Some status \<Rightarrow> if is_success status then Inr () else Inl (DeliveryFailure_Rejected status)))"

definition push_send :: "push_world \<Rightarrow> channel \<Rightarrow> ntfy_topic \<Rightarrow> push \<Rightarrow> notification_event" where
  "push_send w channel topic push =
     (case push_deliver w channel topic push of
        Inr () \<Rightarrow> NotificationEvent_Delivered
      | Inl reason \<Rightarrow> NotificationEvent_DeliveryFailed reason)"

subsection \<open>Properties\<close>

lemma priority_range: "1 \<le> notice_priority notice" "notice_priority notice \<le> 5"
  by (cases notice; auto split: urgency.split client_warning.split)+

text \<open>
  A push tells nothing but that there is a notice: two notices of the same priority at the same place
  of the log are pushed with the same call, whatever they say about torrents or the account.
\<close>

lemma pushes_say_nothing:
  "notice_priority a = notice_priority b \<Longrightarrow>
     push_call_of join channel topic \<lparr>push_entry = i, push_notice = a\<rparr> =
     push_call_of join channel topic \<lparr>push_entry = i, push_notice = b\<rparr>"
  by (simp add: push_call_of_def entry_page_def)

end
