(* ===== verification/History_Log.thy ===== *)
theory History_Log
  imports Core
begin

text \<open>
  The history log (\<open>shell/history.rs\<close>): the single writer that records every handled event in
  processing order, holds entries back until the core opens storage, counts what it lost, and trims
  the oldest rows; and the pages of history the dashboard reads. SQLite is a parameter: which of its
  statements complete. The text columns (summary, and the JSON of the event and its actions) are
  represented by the values they are made of. The category and the routine mark of an entry are
  \<open>describe::category\<close> and \<open>describe::is_routine\<close> (\<open>shell/describe.rs\<close>).
\<close>

subsection \<open>Rows\<close>

record history_entry =
  entry_occurred_at :: system_time
  entry_processed_at :: system_time
  entry_event :: event
  entry_actions :: "action list"

fun timer_category :: "timer_name \<Rightarrow> string" where
  "timer_category TimerName_Mam = ''mam''"
| "timer_category TimerName_PortLease = ''vpn''"
| "timer_category TimerName_TunnelCheck = ''vpn''"
| "timer_category TimerName_QbittorrentPoll = ''qbittorrent''"
| "timer_category TimerName_NotificationGrace = ''notifications''"
| "timer_category TimerName_NotificationRetry = ''notifications''"

fun category :: "event \<Rightarrow> string" where
  "category (Event_Startup _) = ''startup''"
| "category (Event_MamPause _) = ''mam''"
| "category (Event_Mam _) = ''mam''"
| "category (Event_TimerExpired name _) = timer_category name"
| "category (Event_Settings _) = ''settings''"
| "category (Event_History _) = ''history''"
| "category (Event_PortForwarding _) = ''vpn''"
| "category (Event_Tunnel _) = ''vpn''"
| "category (Event_Qbittorrent _) = ''qbittorrent''"
| "category (Event_Registry _) = ''torrents''"
| "category (Event_Notification _) = ''notifications''"

definition is_routine :: "event \<Rightarrow> bool" where
  "is_routine event =
     (case event of
        Event_TimerExpired _ _ \<Rightarrow> True
      | Event_PortForwarding (PortForwardingEvent_Mapped _ _ _) \<Rightarrow> True
      | Event_Qbittorrent (QbittorrentEvent_PreferencesRead _) \<Rightarrow> True
      | Event_Registry RegistryEvent_Saved \<Rightarrow> True
      | Event_Notification NotificationEvent_Saved \<Rightarrow> True
      | Event_Tunnel (TunnelEvent_ExitIpObserved _) \<Rightarrow> True
      | Event_Mam MamEvent_ReminderSaved \<Rightarrow> True
      | Event_Mam (MamEvent_Answered (Inr (MamReply_Ip _)) _) \<Rightarrow> True
      | Event_Mam (MamEvent_Answered (Inr (MamReply_UserData _)) _) \<Rightarrow> True
      | Event_Mam (MamEvent_Answered (Inr (MamReply_Bookmarks _)) _) \<Rightarrow> True
      | Event_Qbittorrent (QbittorrentEvent_Synced update) \<Rightarrow>
          sync_scope update = SyncScope_Changes \<and> sync_torrents update = [] \<and> sync_removed update = []
      | _ \<Rightarrow> False)"

text \<open>Milliseconds of Unix time, in SQLite's signed 64 bits; times before it are 0.\<close>

definition unix_millis :: "system_time \<Rightarrow> int" where
  "unix_millis time =
     (case time_since time 0 of None \<Rightarrow> 0 | Some since \<Rightarrow> min (int (since div 1000000)) (2 ^ 63 - 1))"

record history_row =
  row_id :: int
  row_occurred_at_ms :: int
  row_processed_at_ms :: int
  row_category :: string
  row_event :: event
  row_actions :: "action list"
  row_routine :: bool

text \<open>The table, oldest row first, and the last number \<open>AUTOINCREMENT\<close> gave.\<close>

record history_log =
  log_rows :: "history_row list"
  log_sequence :: int

definition log_insert :: "history_log \<Rightarrow> history_entry \<Rightarrow> history_log" where
  "log_insert log entry =
     (let i = log_sequence log + 1
      in \<lparr>log_rows = log_rows log @
            [\<lparr>row_id = i, row_occurred_at_ms = unix_millis (entry_occurred_at entry),
              row_processed_at_ms = unix_millis (entry_processed_at entry), row_category = category (entry_event entry),
              row_event = entry_event entry, row_actions = entry_actions entry,
              row_routine = is_routine (entry_event entry)\<rparr>],
          log_sequence = i\<rparr>)"

text \<open>\<open>DELETE ... WHERE id <= (SELECT id ... ORDER BY id DESC LIMIT 1 OFFSET keep)\<close>: nothing without such a row.\<close>

definition log_trim :: "history_log \<Rightarrow> nat \<Rightarrow> history_log" where
  "log_trim log keep =
     (if keep < length (log_rows log)
      then log\<lparr>log_rows := filter (\<lambda>row. row_id (rev (log_rows log) ! keep) < row_id row) (log_rows log)\<rparr>
      else log)"

definition log_count :: "history_log \<Rightarrow> entry_count" where
  "log_count log = of_nat (length (log_rows log))"

subsection \<open>The writer\<close>

datatype history_command = Command_Record history_entry | Command_Open | Command_Trim entry_count

datatype history_store = Store_Buffering | Store_Open | Store_Unavailable

record lost =
  lost_count :: u64
  lost_from :: system_time
  lost_until :: system_time

record history_writer =
  writer_store :: history_store
  writer_buffer :: "history_entry list"
  writer_lost :: "lost option"

definition writer_new :: history_writer where
  "writer_new = \<lparr>writer_store = Store_Buffering, writer_buffer = [], writer_lost = None\<rparr>"

definition BUFFER_LIMIT :: nat where
  "BUFFER_LIMIT = 1000"

text \<open>What the writer sends to the runner: an event of its own, or the completion of a command.\<close>

datatype history_report = Report_Event history_event | Report_Completed history_event

text \<open>Which statements SQLite completes.\<close>

record sqlite =
  sqlite_opens :: bool
  sqlite_inserts :: "history_entry \<Rightarrow> bool"
  sqlite_trims :: bool
  sqlite_counts :: bool

definition lose :: "lost option \<Rightarrow> system_time \<Rightarrow> lost option" where
  "lose lost processed_at =
     (case lost of
        Some l \<Rightarrow> Some (l\<lparr>lost_count := lost_count l + 1, lost_until := processed_at\<rparr>)
      | None \<Rightarrow> Some \<lparr>lost_count = 1, lost_from = processed_at, lost_until = processed_at\<rparr>)"

definition log_record ::
    "sqlite \<Rightarrow> history_log \<Rightarrow> lost option \<Rightarrow> history_entry \<Rightarrow> history_log \<times> lost option \<times> history_report list" where
  "log_record sql log lost entry =
     (if \<not> sqlite_inserts sql entry then (log, lose lost (entry_processed_at entry), [])
      else (log_insert log entry, None,
            (case lost of
               None \<Rightarrow> []
             | Some l \<Rightarrow> [Report_Event (HistoryEvent_EntriesLost (lost_count l) (lost_from l) (lost_until l))])))"

fun log_record_all ::
    "sqlite \<Rightarrow> history_log \<Rightarrow> lost option \<Rightarrow> history_entry list \<Rightarrow> history_log \<times> lost option \<times> history_report list" where
  "log_record_all sql log lost [] = (log, lost, [])"
| "log_record_all sql log lost (entry # entries) =
     (let (log, lost, first) = log_record sql log lost entry;
          (log, lost, more) = log_record_all sql log lost entries
      in (log, lost, first @ more))"

text \<open>One turn of the loop in \<open>run\<close>: the table is only touched through an open connection.\<close>

fun writer_step ::
    "sqlite \<Rightarrow> history_writer \<times> history_log \<Rightarrow> history_command \<Rightarrow>
     (history_writer \<times> history_log) \<times> history_report list" where
  "writer_step sql (w, log) (Command_Record entry) =
     (if writer_store w = Store_Open
      then (let (log, lost, reports) = log_record sql log (writer_lost w) entry
            in ((w\<lparr>writer_lost := lost\<rparr>, log), reports))
      else if writer_store w = Store_Buffering \<and> length (writer_buffer w) < BUFFER_LIMIT
      then ((w\<lparr>writer_buffer := writer_buffer w @ [entry]\<rparr>, log), [])
      else ((w\<lparr>writer_lost := lose (writer_lost w) (entry_processed_at entry)\<rparr>, log), []))"
| "writer_step sql (w, log) Command_Open =
     (if sqlite_opens sql
      then (let (log, lost, reports) = log_record_all sql log (writer_lost w) (writer_buffer w);
                w = w\<lparr>writer_buffer := [], writer_lost := lost\<rparr>
            in if sqlite_counts sql
               then ((w\<lparr>writer_store := Store_Open\<rparr>, log), reports @ [Report_Completed (HistoryEvent_Opened (log_count log))])
               else ((w\<lparr>writer_store := Store_Unavailable\<rparr>, log), reports @ [Report_Completed HistoryEvent_OpenFailed]))
      else ((w\<lparr>writer_store := Store_Unavailable\<rparr>, log), [Report_Completed HistoryEvent_OpenFailed]))"
| "writer_step sql (w, log) (Command_Trim keep) =
     (if writer_store w = Store_Open \<and> unat keep < 2 ^ 63 \<and> sqlite_trims sql
      then (let log = log_trim log (unat keep)
            in ((w, log), [Report_Completed (if sqlite_counts sql then HistoryEvent_Trimmed (log_count log)
                                             else HistoryEvent_TrimFailed)]))
      else ((w, log), [Report_Completed HistoryEvent_TrimFailed]))"

subsection \<open>Pages\<close>

definition HISTORY_PAGE_SIZE :: nat where
  "HISTORY_PAGE_SIZE = 50"

datatype page = Page_Newest | Page_Before int | Page_After int

record history_query =
  query_category :: "string option"
  query_routine :: bool
  query_from :: "system_time option"
  query_until :: "system_time option"
  query_page :: page

record history_page =
  page_rows :: "history_row list"
  page_has_newer :: bool
  page_has_older :: bool

definition row_matches :: "history_query \<Rightarrow> history_row \<Rightarrow> bool" where
  "row_matches query row \<longleftrightarrow>
     (query_routine query \<or> \<not> row_routine row) \<and>
     is_none_or (\<lambda>c. row_category row = c) (query_category query) \<and>
     is_none_or (\<lambda>from. unix_millis from \<le> row_processed_at_ms row) (query_from query) \<and>
     is_none_or (\<lambda>until. row_processed_at_ms row \<le> unix_millis until) (query_until query)"

text \<open>Newest first; a page after an entry is read in ascending order and then reversed.\<close>

definition read_page :: "history_log \<Rightarrow> history_query \<Rightarrow> history_page" where
  "read_page log query =
     (let matching = filter (row_matches query) (log_rows log);
          rows = (case query_page query of
              Page_Newest \<Rightarrow> take HISTORY_PAGE_SIZE (rev matching)
            | Page_Before i \<Rightarrow> take HISTORY_PAGE_SIZE (rev (filter (\<lambda>row. row_id row < i) matching))
            | Page_After i \<Rightarrow> rev (take HISTORY_PAGE_SIZE (filter (\<lambda>row. i < row_id row) matching)))
      in case rows of
           [] \<Rightarrow> \<lparr>page_rows = [], page_has_newer = False, page_has_older = False\<rparr>
         | newest # _ \<Rightarrow>
             \<lparr>page_rows = rows,
              page_has_newer = list_ex (\<lambda>row. row_id newest < row_id row) matching,
              page_has_older = list_ex (\<lambda>row. row_id row < row_id (last rows)) matching\<rparr>)"

subsection \<open>The table stays in order\<close>

definition log_ok :: "history_log \<Rightarrow> bool" where
  "log_ok log \<longleftrightarrow> sorted_wrt (<) (map row_id (log_rows log)) \<and> list_all (\<lambda>row. row_id row \<le> log_sequence log) (log_rows log)"

lemma filter_above:
  assumes "sorted_wrt (<) (map f xs)" and "i < length xs"
  shows "filter (\<lambda>x. f (xs ! i) < (f x :: 'a::linorder)) xs = drop (Suc i) xs"
proof -
  have less: "f (xs ! j) < f (xs ! k)" if "j < k" "k < length xs" for j k
    using assms(1) that by (simp add: sorted_wrt_iff_nth_less)
  have "filter (\<lambda>x. f (xs ! i) < f x) (take (Suc i) xs) = []"
    using less assms(2) by (auto simp: filter_empty_conv in_set_conv_nth less_Suc_eq not_less) (metis less_le_not_le order.refl)
  moreover have "filter (\<lambda>x. f (xs ! i) < f x) (drop (Suc i) xs) = drop (Suc i) xs"
    using less by (auto simp: filter_id_conv in_set_conv_nth)
  ultimately show ?thesis by (metis append_Nil append_take_drop_id filter_append)
qed

lemma filter_below:
  assumes "sorted_wrt (<) (map f xs)" and "i < length xs"
  shows "filter (\<lambda>x. (f x :: 'a::linorder) < f (xs ! i)) xs = take i xs"
proof -
  have less: "f (xs ! j) < f (xs ! k)" if "j < k" "k < length xs" for j k
    using assms(1) that by (simp add: sorted_wrt_iff_nth_less)
  have "filter (\<lambda>x. f x < f (xs ! i)) (take i xs) = take i xs"
    using less assms(2) by (auto simp: filter_id_conv in_set_conv_nth)
  moreover have "filter (\<lambda>x. f x < f (xs ! i)) (drop i xs) = []"
  proof -
    have "\<not> f (xs ! (i + j)) < f (xs ! i)" if "i + j < length xs" for j
      using less [of i "i + j"] that by (cases j) auto
    then show ?thesis by (auto simp: filter_empty_conv in_set_conv_nth)
  qed
  ultimately show ?thesis by (metis append_Nil2 append_take_drop_id filter_append)
qed

lemma log_ok_insert: "log_ok log \<Longrightarrow> log_ok (log_insert log entry)"
  by (fastforce simp: log_ok_def log_insert_def Let_def sorted_wrt_append list_all_iff)

text \<open>A trim keeps exactly the newest rows.\<close>

lemma log_trim_newest:
  assumes "log_ok log"
  shows "log_rows (log_trim log keep) = drop (length (log_rows log) - keep) (log_rows log)"
proof (cases "keep < length (log_rows log)")
  case True
  let ?i = "length (log_rows log) - Suc keep"
  have "rev (log_rows log) ! keep = log_rows log ! ?i" using True by (simp add: rev_nth)
  moreover have "Suc ?i = length (log_rows log) - keep" using True by simp
  ultimately show ?thesis
    using True assms filter_above [of row_id "log_rows log" ?i] by (simp add: log_trim_def log_ok_def)
qed (simp add: log_trim_def)

lemma log_ok_trim: "log_ok log \<Longrightarrow> log_ok (log_trim log keep)"
  unfolding log_ok_def log_trim_def
  by (auto simp: list_all_iff sorted_wrt_map intro: sorted_wrt_filter)

lemma log_ok_filter: "log_ok log \<Longrightarrow> sorted_wrt (<) (map row_id (filter p (log_rows log)))"
  by (simp add: log_ok_def sorted_wrt_map sorted_wrt_filter)

subsection \<open>Pages are complete\<close>

lemma matches_page [simp]: "row_matches (query\<lparr>query_page := page\<rparr>) = row_matches query"
  by (simp add: row_matches_def fun_eq_iff)

text \<open>The page reached by following the link to older entries \<open>n\<close> times from the newest page.\<close>

fun page_at :: "history_log \<Rightarrow> history_query \<Rightarrow> nat \<Rightarrow> history_page" where
  "page_at log query 0 = read_page log (query\<lparr>query_page := Page_Newest\<rparr>)"
| "page_at log query (Suc n) =
     (let page = page_at log query n
      in if page_has_older page
         then read_page log (query\<lparr>query_page := Page_Before (row_id (last (page_rows page)))\<rparr>)
         else \<lparr>page_rows = [], page_has_newer = False, page_has_older = False\<rparr>)"

lemma read_page_rows:
  "page_rows (read_page log query) =
     (let matching = filter (row_matches query) (log_rows log)
      in case query_page query of
           Page_Newest \<Rightarrow> take HISTORY_PAGE_SIZE (rev matching)
         | Page_Before i \<Rightarrow> take HISTORY_PAGE_SIZE (rev (filter (\<lambda>row. row_id row < i) matching))
         | Page_After i \<Rightarrow> rev (take HISTORY_PAGE_SIZE (filter (\<lambda>row. i < row_id row) matching)))"
  by (auto simp: read_page_def Let_def split: list.split page.split)

lemma read_page_older:
  "page_has_older (read_page log query) \<longleftrightarrow>
     page_rows (read_page log query) \<noteq> [] \<and>
     (\<exists>row \<in> set (filter (row_matches query) (log_rows log)). row_id row < row_id (last (page_rows (read_page log query))))"
  by (auto simp: read_page_def Let_def list_ex_iff split: list.split)

definition page_of :: "history_row list \<Rightarrow> nat \<Rightarrow> history_page \<Rightarrow> bool" where
  "page_of xs k page \<longleftrightarrow> page_rows page = take HISTORY_PAGE_SIZE (drop k (rev xs)) \<and>
     (page_has_older page \<longleftrightarrow> page_rows page \<noteq> [] \<and> (\<exists>row \<in> set xs. row_id row < row_id (last (page_rows page))))"

lemma page_follows:
  assumes "log_ok log" and "xs = filter (row_matches query) (log_rows log)" and "page_of xs k page"
  shows "page_of xs (k + HISTORY_PAGE_SIZE) (if page_has_older page
        then read_page log (query\<lparr>query_page := Page_Before (row_id (last (page_rows page)))\<rparr>)
        else \<lparr>page_rows = [], page_has_newer = False, page_has_older = False\<rparr>)"
proof (cases "k < length xs")
  case False
  then show ?thesis using assms(3) by (simp add: page_of_def)
next
  case True
  define m where "m = length xs - min (k + HISTORY_PAGE_SIZE) (length xs)"
  have size: "0 < HISTORY_PAGE_SIZE" by (simp add: HISTORY_PAGE_SIZE_def)
  have m: "m < length xs" using True size by (simp add: m_def)
  have "sorted_wrt (<) (map row_id xs)" using assms(1,2) by (simp add: log_ok_filter)
  then have below: "filter (\<lambda>row. row_id row < row_id (xs ! m)) xs = take m xs" using m by (rule filter_below)
  have rest: "drop (k + HISTORY_PAGE_SIZE) (rev xs) = rev (take m xs)" by (simp add: m_def rev_take min_def)
  have rows: "page_rows page = take HISTORY_PAGE_SIZE (drop k (rev xs))" "page_rows page \<noteq> []"
    using assms(3) True size by (simp_all add: page_of_def)
  then have last: "last (page_rows page) = xs ! m"
    using True size by (simp add: last_conv_nth m_def rev_nth min_def)
  have "page_has_older page \<longleftrightarrow> take m xs \<noteq> []"
    using assms(3) last rows(2) below [symmetric] by (simp add: page_of_def filter_empty_conv)
  then show ?thesis
    using below rest last
    by (auto simp: page_of_def read_page_rows read_page_older Let_def simp flip: assms(2))
qed

lemma page_at_rows:
  assumes "log_ok log"
  shows "page_of (filter (row_matches query) (log_rows log)) (n * HISTORY_PAGE_SIZE) (page_at log query n)"
proof (induction n)
  case 0
  show ?case by (simp add: page_of_def read_page_rows read_page_older Let_def)
next
  case (Suc n)
  from page_follows [OF assms refl Suc] show ?case by (simp add: Let_def add.commute)
qed

end
