(* ===== verification/History_Count.thy ===== *)
theory History_Count
  imports History_Log
begin

text \<open>
  The core's count of stored history (\<open>core/history.rs\<close>) against the table the writer keeps
  (\<open>shell/history.rs\<close>): the two run apart, joined by the queue of commands and the queue of results.
  \<open>history_system_step\<close> is one turn of either; the invariant follows where the command or the result
  of an opening or a trim is.
\<close>

subsection \<open>The two sides\<close>

datatype turn = Turn_Open | Turn_Event history_event | Turn_Other

text \<open>What one step of the machine does to history: at most an event or the opening, then the count.\<close>

definition history_turn :: "history_state \<Rightarrow> step \<Rightarrow> turn \<Rightarrow> history_limit option \<Rightarrow> history_state \<times> action list" where
  "history_turn h step turn limit =
     (let (h, opened) = (case turn of
              Turn_Open \<Rightarrow> history_open h step
            | Turn_Event e \<Rightarrow> (history_handle h step e, [])
            | Turn_Other \<Rightarrow> (h, []));
          (h, actions) = history_after_step h step limit
      in (h, opened @ actions))"

fun action_command :: "action \<Rightarrow> history_command option" where
  "action_command Action_OpenHistory = Some Command_Open"
| "action_command (Action_TrimHistory keep) = Some (Command_Trim keep)"
| "action_command _ = None"

fun report_event :: "history_report \<Rightarrow> history_event" where
  "report_event (Report_Event e) = e"
| "report_event (Report_Completed e) = e"

record history_system =
  sys_state :: history_state
  sys_step :: step
  sys_commands :: "history_command list"
  sys_writer :: history_writer
  sys_log :: history_log
  sys_reports :: "history_report list"

text \<open>The machine's entry is sent before the commands of the same step.\<close>

definition system_turn :: "history_system \<Rightarrow> turn \<Rightarrow> history_limit option \<Rightarrow> history_entry \<Rightarrow> history_system" where
  "system_turn s turn limit entry =
     (let step = step_next (sys_step s);
          (h, actions) = history_turn (sys_state s) step turn limit
      in s\<lparr>sys_state := h, sys_step := step,
           sys_commands := sys_commands s @ Command_Record entry # List.map_filter action_command actions\<rparr>)"

definition system_write :: "sqlite \<Rightarrow> history_system \<Rightarrow> history_system" where
  "system_write sql s =
     (case sys_commands s of
        [] \<Rightarrow> s
      | command # rest \<Rightarrow>
          (let ((w, log), reports) = writer_step sql (sys_writer s, sys_log s) command
           in s\<lparr>sys_commands := rest, sys_writer := w, sys_log := log, sys_reports := sys_reports s @ reports\<rparr>))"

definition working :: sqlite where
  "working = \<lparr>sqlite_opens = True, sqlite_inserts = (\<lambda>_. True), sqlite_trims = True, sqlite_counts = True\<rparr>"

definition system_new :: "history_log \<Rightarrow> history_system" where
  "system_new log = \<lparr>sys_state = HistoryState_Closed, sys_step = step_zero, sys_commands = [], sys_writer = writer_new,
     sys_log = log, sys_reports = []\<rparr>"

text \<open>The states reached after \<open>n\<close> steps of the machine while SQLite completes what it is asked.\<close>

inductive history_reach :: "history_log \<Rightarrow> nat \<Rightarrow> history_system \<Rightarrow> bool" for log where
  start: "history_reach log 0 (system_new log)"
| plain: "history_reach log n s \<Longrightarrow> history_reach log (Suc n) (system_turn s Turn_Other limit entry)"
| opens: "history_reach log n s \<Longrightarrow> sys_state s = HistoryState_Closed \<Longrightarrow>
    history_reach log (Suc n) (system_turn s Turn_Open limit entry)"
| report: "history_reach log n s \<Longrightarrow> sys_reports s = r # rest \<Longrightarrow>
    history_reach log (Suc n) (system_turn (s\<lparr>sys_reports := rest\<rparr>) (Turn_Event (report_event r)) limit entry)"
| writes: "history_reach log n s \<Longrightarrow> history_reach log n (system_write working s)"

subsection \<open>The invariant\<close>

fun is_record :: "history_command \<Rightarrow> bool" where
  "is_record (Command_Record _) = True"
| "is_record _ = False"

fun is_gap :: "history_report \<Rightarrow> bool" where
  "is_gap (Report_Event (HistoryEvent_EntriesLost _ _ _)) = True"
| "is_gap _ = False"

text \<open>Rows stored and rows still to be written.\<close>

definition rows_due :: "history_system \<Rightarrow> nat" where
  "rows_due s = length (log_rows (sys_log s)) + length (filter is_record (sys_commands s))"

definition all_records :: "history_command list \<Rightarrow> bool" where
  "all_records commands \<longleftrightarrow> list_all is_record commands"

text \<open>A command sent in step \<open>r\<close> that the writer has not reached yet, after \<open>n\<close> steps.\<close>

definition waiting :: "nat \<Rightarrow> step \<Rightarrow> history_command \<Rightarrow> history_system \<Rightarrow> bool" where
  "waiting n r command s \<longleftrightarrow> sys_reports s = [] \<and>
     (\<exists>before after. sys_commands s = before @ command # after \<and> all_records before \<and> all_records after \<and>
        length after = n - unat r)"

text \<open>Its result, which the machine has not handled yet.\<close>

definition answered :: "nat \<Rightarrow> step \<Rightarrow> (entry_count \<Rightarrow> history_event) \<Rightarrow> history_system \<Rightarrow> bool" where
  "answered n r result s \<longleftrightarrow> all_records (sys_commands s) \<and>
     (\<exists>gaps k. sys_reports s = gaps @ [Report_Completed (result k)] \<and> list_all is_gap gaps \<and>
        unat k + (n - unat r) = rows_due s)"

definition store_open :: "history_system \<Rightarrow> bool" where
  "store_open s \<longleftrightarrow> writer_store (sys_writer s) = Store_Open \<and> writer_lost (sys_writer s) = None \<and> writer_buffer (sys_writer s) = []"

text \<open>Entries are lost before the opening only when the buffer is full.\<close>

definition buffering :: "history_system \<Rightarrow> bool" where
  "buffering s \<longleftrightarrow> writer_store (sys_writer s) = Store_Buffering \<and>
     (writer_lost (sys_writer s) = None \<or> writer_buffer (sys_writer s) \<noteq> [])"

fun state_ok :: "nat \<Rightarrow> history_state \<Rightarrow> history_system \<Rightarrow> bool" where
  "state_ok n HistoryState_Closed s \<longleftrightarrow>
     buffering s \<and> all_records (sys_commands s) \<and> sys_reports s = []"
| "state_ok n (HistoryState_Opening r) s \<longleftrightarrow> unat r \<le> n \<and>
     (buffering s \<and> waiting n r Command_Open s \<or>
      store_open s \<and> answered n r HistoryEvent_Opened s)"
| "state_ok n (HistoryState_Open retained Trim_Idle) s \<longleftrightarrow>
     store_open s \<and> all_records (sys_commands s) \<and> sys_reports s = [] \<and> unat retained = rows_due s"
| "state_ok n (HistoryState_Open retained (Trim_Pending r)) s \<longleftrightarrow> unat r \<le> n \<and> store_open s \<and>
     ((\<exists>keep. unat keep < 2 ^ 63 \<and> waiting n r (Command_Trim keep) s) \<or>
      sys_reports s \<noteq> [] \<and> \<not> is_gap (hd (sys_reports s)) \<and> answered n r HistoryEvent_Trimmed s)"
| "state_ok n _ s \<longleftrightarrow> False"

definition system_ok :: "nat \<Rightarrow> nat \<Rightarrow> history_system \<Rightarrow> bool" where
  "system_ok stored n s \<longleftrightarrow> unat (sys_step s) = n \<and> rows_due s + length (writer_buffer (sys_writer s)) \<le> stored + n \<and>
     state_ok n (sys_state s) s"

lemma rows_due_record [simp]:
  "rows_due (s\<lparr>sys_commands := sys_commands s @ Command_Record entry # commands\<rparr>) =
     rows_due s + 1 + length (filter is_record commands)"
  by (simp add: rows_due_def)

lemma all_records_simps [simp]:
  "all_records []" "all_records (c # cs) \<longleftrightarrow> is_record c \<and> all_records cs"
  "all_records (cs @ ds) \<longleftrightarrow> all_records cs \<and> all_records ds"
  by (simp_all add: all_records_def)

text \<open>A step that changes nothing about history but adds its entry.\<close>

definition with_entry :: "history_system \<Rightarrow> history_entry \<Rightarrow> history_system" where
  "with_entry s entry = s\<lparr>sys_step := step_next (sys_step s), sys_commands := sys_commands s @ [Command_Record entry]\<rparr>"

lemma with_entry_simps [simp]:
  "sys_state (with_entry s entry) = sys_state s" "sys_reports (with_entry s entry) = sys_reports s"
  "sys_writer (with_entry s entry) = sys_writer s" "store_open (with_entry s entry) = store_open s"
  "buffering (with_entry s entry) = buffering s"
  "sys_step (with_entry s entry) = step_next (sys_step s)"
  "sys_commands (with_entry s entry) = sys_commands s @ [Command_Record entry]"
  "rows_due (with_entry s entry) = rows_due s + 1"
  by (simp_all add: with_entry_def store_open_def buffering_def rows_due_def)

lemma waiting_entry:
  assumes "waiting n r command s" and "unat r \<le> n"
  shows "waiting (Suc n) r command (with_entry s entry)"
proof -
  from assms(1) obtain before after where c: "sys_commands s = before @ command # after" "all_records before"
      "all_records after" "length after = n - unat r" and reports: "sys_reports s = []"
    by (auto simp: waiting_def)
  then have "sys_commands (with_entry s entry) = before @ command # (after @ [Command_Record entry])"
    "all_records (after @ [Command_Record entry])" "length (after @ [Command_Record entry]) = Suc n - unat r"
    using assms(2) by (simp_all add: Suc_diff_le)
  with c(2) reports show ?thesis
    unfolding waiting_def
    by (intro conjI exI [of _ before] exI [of _ "after @ [Command_Record entry]"]) simp_all
qed

lemma answered_entry: "answered n r result s \<Longrightarrow> unat r \<le> n \<Longrightarrow> answered (Suc n) r result (with_entry s entry)"
  unfolding answered_def by (auto simp: Suc_diff_le)

text \<open>The count after a step that leaves nothing outstanding; a trim may begin.\<close>

definition counted :: "history_system \<Rightarrow> entry_count \<Rightarrow> history_limit option \<Rightarrow> history_entry \<Rightarrow> history_system" where
  "counted s retained limit entry =
     (let (h, actions) = history_after_step (HistoryState_Open retained Trim_Idle) (step_next (sys_step s)) limit
      in s\<lparr>sys_state := h, sys_step := step_next (sys_step s),
           sys_commands := sys_commands s @ Command_Record entry # List.map_filter action_command actions\<rparr>)"

lemma counted_ok:
  assumes "store_open s" and "all_records (sys_commands s)" and "sys_reports s = []"
    and "unat retained = rows_due s" and "rows_due s + 1 < 2 ^ 64" and "unat (step_next (sys_step s)) = Suc n"
  shows "state_ok (Suc n) (sys_state (counted s retained limit entry)) (counted s retained limit entry)"
proof -
  have ret: "unat (entry_count_plus retained 1) = rows_due s + 1"
    using assms(4,5) by (simp add: entry_count_plus_def unat_sat)
  have keep: "unat (trim_target l) < 2 ^ 63" for l
    using unsigned_less [of l, where ?'a = nat] by (simp add: unat_trim_target)
  show ?thesis
  proof (cases limit)
    case None
    then show ?thesis
      using assms ret by (simp add: counted_def Let_def store_open_def rows_due_def map_filter_simps)
  next
    case (Some l)
    then show ?thesis
      using assms ret keep
      by (auto simp: counted_def Let_def store_open_def rows_due_def map_filter_simps waiting_def
          intro!: exI [of _ "trim_target l"] exI [of _ "sys_commands s @ [Command_Record entry]"])
  qed
qed

lemma counted_rows [simp]:
  "rows_due (counted s retained limit entry) = rows_due s + 1" "sys_writer (counted s retained limit entry) = sys_writer s"
  "sys_step (counted s retained limit entry) = step_next (sys_step s)"
  by (auto simp: counted_def rows_due_def Let_def map_filter_simps split: option.split)

subsection \<open>The machine's turns\<close>

lemma turn_other:
  "system_turn s Turn_Other limit entry =
     (case sys_state s of HistoryState_Open retained Trim_Idle \<Rightarrow> counted s retained limit entry
      | HistoryState_Open retained trim \<Rightarrow> (with_entry s entry)\<lparr>sys_state := HistoryState_Open (entry_count_plus retained 1) trim\<rparr>
      | _ \<Rightarrow> with_entry s entry)"
  by (cases s, auto simp: system_turn_def history_turn_def counted_def with_entry_def Let_def map_filter_simps
      split: history_state.split trim.split option.split prod.split)

lemma unat_step_next: "unat s = n \<Longrightarrow> Suc n < 2 ^ 64 \<Longrightarrow> unat (step_next s) = Suc n"
  by (simp add: step_next_def unat_word_ariths)

lemma state_ok_with:
  "state_ok n h (s\<lparr>sys_state := h'\<rparr>) = state_ok n h s"
proof (cases h)
  case (HistoryState_Open retained trim)
  then show ?thesis by (cases trim) (simp_all add: waiting_def answered_def store_open_def buffering_def rows_due_def)
qed (simp_all add: waiting_def answered_def store_open_def buffering_def rows_due_def)

lemma turn_other_ok:
  assumes "state_ok n (sys_state s) s" and "unat (sys_step s) = n" and "Suc n < 2 ^ 64" and "rows_due s + 1 < 2 ^ 64"
  shows "state_ok (Suc n) (sys_state (system_turn s Turn_Other limit entry)) (system_turn s Turn_Other limit entry)"
proof -
  note next_step = unat_step_next [OF assms(2,3)]
  show ?thesis
  proof (cases "sys_state s")
    case HistoryState_Closed
    then show ?thesis using assms by (simp add: turn_other)
  next
    case (HistoryState_Opening r)
    then show ?thesis using assms by (auto simp: turn_other intro: waiting_entry answered_entry)
  next
    case (HistoryState_Open retained trim)
    then show ?thesis
    proof (cases trim)
      case Trim_Idle
      then show ?thesis using HistoryState_Open assms next_step by (simp add: turn_other counted_ok)
    next
      case (Trim_Pending r)
      have "state_ok (Suc n) (HistoryState_Open (entry_count_plus retained 1) trim) (with_entry s entry)"
        using assms HistoryState_Open Trim_Pending by (auto intro: waiting_entry answered_entry)
      then show ?thesis using HistoryState_Open Trim_Pending by (simp add: turn_other state_ok_with del: state_ok.simps(4))
    next
      case Trim_Failed
      then show ?thesis using HistoryState_Open assms by simp
    qed
  next
    case HistoryState_Unavailable
    then show ?thesis using assms by simp
  qed
qed

lemma turn_open_ok:
  assumes "state_ok n (sys_state s) s" and "unat (sys_step s) = n" and "Suc n < 2 ^ 64" and "sys_state s = HistoryState_Closed"
  shows "state_ok (Suc n) (sys_state (system_turn s Turn_Open limit entry)) (system_turn s Turn_Open limit entry)"
  using assms unat_step_next [OF assms(2,3)]
  by (auto simp: system_turn_def history_turn_def history_open_def Let_def map_filter_simps waiting_def
      buffering_def intro!: exI [of _ "sys_commands s @ [Command_Record entry]"])

lemma turn_answer:
  assumes "sys_state s = HistoryState_Opening q \<and> e = HistoryEvent_Opened k \<or>
      sys_state s = HistoryState_Open retained (Trim_Pending q) \<and> e = HistoryEvent_Trimmed k"
  shows "system_turn s (Turn_Event e) limit entry =
    counted s (entry_count_plus k (step_strictly_after (step_next (sys_step s)) q)) limit entry"
  using assms by (auto simp: system_turn_def history_turn_def counted_def Let_def split_beta)

lemma turn_gap:
  assumes "sys_state s = HistoryState_Opening q" and "is_gap r"
  shows "system_turn s (Turn_Event (report_event r)) limit entry = with_entry s entry"
  using assms by (cases r rule: is_gap.cases)
    (auto simp: system_turn_def history_turn_def with_entry_def Let_def map_filter_simps)

lemma unat_answered:
  assumes "unat k + (n - unat q) = rows" and "rows + 1 < 2 ^ 64" and "unat step = Suc n" and "unat q \<le> n"
  shows "unat (entry_count_plus k (step_strictly_after step q)) = rows"
  using assms by (simp add: entry_count_plus_def unat_sat unat_strictly_after)

lemma turn_report_ok:
  assumes "state_ok n (sys_state s) s" and "unat (sys_step s) = n" and "Suc n < 2 ^ 64" and "rows_due s + 1 < 2 ^ 64"
    and "sys_reports s = r # rest" and "s' = system_turn (s\<lparr>sys_reports := rest\<rparr>) (Turn_Event (report_event r)) limit entry"
  shows "state_ok (Suc n) (sys_state s') s'"
proof -
  let ?s = "s\<lparr>sys_reports := rest\<rparr>"
  have same: "rows_due ?s = rows_due s" "store_open ?s = store_open s" by (simp_all add: rows_due_def store_open_def)
  have next_step: "unat (step_next (sys_step ?s)) = Suc n" using unat_step_next [OF assms(2,3)] by simp
  consider (gap) q gaps k where "sys_state s = HistoryState_Opening q" "store_open s" "unat q \<le> n"
      "all_records (sys_commands s)" "is_gap r" "rest = gaps @ [Report_Completed (HistoryEvent_Opened k)]"
      "list_all is_gap gaps" "unat k + (n - unat q) = rows_due s"
    | (answer) q k retained where
      "sys_state s = HistoryState_Opening q \<and> report_event r = HistoryEvent_Opened k \<or>
       sys_state s = HistoryState_Open retained (Trim_Pending q) \<and> report_event r = HistoryEvent_Trimmed k"
      "rest = []" "store_open s" "all_records (sys_commands s)" "unat q \<le> n" "unat k + (n - unat q) = rows_due s"
  proof (cases "sys_state s")
    case (HistoryState_Opening q)
    with assms(1,5) obtain gaps k where *: "store_open s" "unat q \<le> n" "all_records (sys_commands s)"
        "r # rest = gaps @ [Report_Completed (HistoryEvent_Opened k)]" "list_all is_gap gaps"
        "unat k + (n - unat q) = rows_due s"
      by (auto simp: waiting_def answered_def)
    show thesis
    proof (cases gaps)
      case Nil
      with * HistoryState_Opening answer show thesis by auto
    next
      case (Cons g gs)
      with * HistoryState_Opening gap [of q gs k] show thesis by auto
    qed
  next
    case (HistoryState_Open retained trim)
    then show thesis
      using assms(1,5) answer
      by (cases trim) (auto simp: waiting_def answered_def Cons_eq_append_conv)
  qed (use assms(1,5) in auto)
  then show ?thesis
  proof cases
    case gap
    then have "s' = with_entry ?s entry" using assms(6) turn_gap [of ?s] by simp
    moreover have "answered n q HistoryEvent_Opened ?s" using gap same by (auto simp: answered_def)
    ultimately show ?thesis using gap same by (simp add: answered_entry)
  next
    case answer
    then have "s' = counted ?s (entry_count_plus k (step_strictly_after (step_next (sys_step ?s)) q)) limit entry"
      using assms(6) turn_answer [of ?s q _ k retained] by simp
    moreover have "unat (entry_count_plus k (step_strictly_after (step_next (sys_step ?s)) q)) = rows_due ?s"
      using unat_answered [OF answer(6) assms(4) next_step answer(5)] same by simp
    ultimately show ?thesis using answer same next_step assms(4) by (simp only:) (rule counted_ok; simp)
  qed
qed

subsection \<open>The writer's turns\<close>

lemma record_all_working:
  assumes "log_record_all working log lost entries = (log', lost', reports)"
  shows "length (log_rows log') = length (log_rows log) + length entries" and "entries \<noteq> [] \<or> lost = None \<Longrightarrow> lost' = None"
    and "list_all is_gap reports"
  using assms
proof (induction entries arbitrary: log lost log' lost' reports)
  case (Cons entry entries)
  { case 1 then show ?case using Cons.IH(1) by (auto simp: log_record_def working_def log_insert_def Let_def split: prod.splits) }
  { case 2 then show ?case using Cons.IH(2) by (fastforce simp: log_record_def working_def Let_def split: prod.splits) }
  { case 3 then show ?case using Cons.IH(3)
      by (auto simp: log_record_def working_def Let_def split: prod.splits option.splits) }
qed auto

lemma write_record:
  assumes "sys_commands s = Command_Record entry # rest"
  obtains "store_open s" "store_open (system_write working s)" "rows_due (system_write working s) = rows_due s"
      "sys_commands (system_write working s) = rest" "sys_reports (system_write working s) = sys_reports s"
      "sys_state (system_write working s) = sys_state s" "sys_step (system_write working s) = sys_step s"
      "writer_buffer (sys_writer (system_write working s)) = writer_buffer (sys_writer s)"
    | "buffering s" "buffering (system_write working s)"
      "rows_due (system_write working s) + length (writer_buffer (sys_writer (system_write working s))) \<le>
         rows_due s + length (writer_buffer (sys_writer s))"
      "sys_commands (system_write working s) = rest" "sys_reports (system_write working s) = sys_reports s"
      "sys_state (system_write working s) = sys_state s" "sys_step (system_write working s) = sys_step s"
    | "\<not> store_open s" "\<not> buffering s"
proof -
  consider "store_open s" | "buffering s" | "\<not> store_open s" "\<not> buffering s" by blast
  then show thesis
  proof cases
    case 1
    with assms show thesis
      using that(1)
      by (simp add: system_write_def store_open_def log_record_def working_def rows_due_def log_insert_def Let_def)
  next
    case 2
    have "writer_buffer (sys_writer s) \<noteq> []" if "\<not> length (writer_buffer (sys_writer s)) < BUFFER_LIMIT"
      using that by (auto simp: BUFFER_LIMIT_def)
    with 2 assms show thesis
      using that(2)
      by (cases "length (writer_buffer (sys_writer s)) < BUFFER_LIMIT")
        (auto simp: system_write_def buffering_def rows_due_def Let_def lose_def)
  qed (use that(3) in blast)
qed

lemma write_open:
  assumes "sys_commands s = Command_Open # rest" and "buffering s" and "all_records rest" and "sys_reports s = []"
    and "rows_due s + length (writer_buffer (sys_writer s)) < 2 ^ 64"
  shows "store_open (system_write working s)" and "\<exists>gaps k. sys_reports (system_write working s) = gaps @ [Report_Completed (HistoryEvent_Opened k)] \<and>
      list_all is_gap gaps \<and> unat k + length rest = rows_due (system_write working s)"
    and "rows_due (system_write working s) = rows_due s + length (writer_buffer (sys_writer s))"
    and "sys_commands (system_write working s) = rest" and "sys_state (system_write working s) = sys_state s"
    and "sys_step (system_write working s) = sys_step s"
proof -
  obtain log lost reports where all: "log_record_all working (sys_log s) (writer_lost (sys_writer s)) (writer_buffer (sys_writer s)) =
      (log, lost, reports)" by (metis prod_cases3)
  have lost: "lost = None" using record_all_working(2) [OF all] assms(2) by (auto simp: buffering_def)
  have rows: "length (log_rows log) = length (log_rows (sys_log s)) + length (writer_buffer (sys_writer s))"
    by (rule record_all_working(1) [OF all])
  have sql: "sqlite_opens working" "sqlite_counts working" by (simp_all add: working_def)
  have after: "system_write working s = s\<lparr>sys_commands := rest,
      sys_writer := (sys_writer s)\<lparr>writer_buffer := [], writer_lost := None, writer_store := Store_Open\<rparr>, sys_log := log,
      sys_reports := reports @ [Report_Completed (HistoryEvent_Opened (log_count log))]\<rparr>"
    using assms(1,4) by (simp add: system_write_def all lost sql Let_def)
  have records: "filter is_record rest = rest" using assms(3) by (simp add: all_records_def list_all_iff filter_id_conv)
  have "length (log_rows log) < 2 ^ 64" using assms(1,5) rows by (simp add: rows_due_def)
  then have count: "unat (log_count log) = length (log_rows log)" by (simp add: log_count_def unat_of_nat)
  show "store_open (system_write working s)" "sys_commands (system_write working s) = rest"
    "sys_state (system_write working s) = sys_state s" "sys_step (system_write working s) = sys_step s"
    by (simp_all add: after store_open_def)
  show "rows_due (system_write working s) = rows_due s + length (writer_buffer (sys_writer s))"
    using assms(1) rows by (simp add: after rows_due_def)
  show "\<exists>gaps k. sys_reports (system_write working s) = gaps @ [Report_Completed (HistoryEvent_Opened k)] \<and>
      list_all is_gap gaps \<and> unat k + length rest = rows_due (system_write working s)"
    using record_all_working(3) [OF all] count records by (auto simp: after rows_due_def)
qed

lemma write_trim:
  assumes "sys_commands s = Command_Trim keep # rest" and "store_open s" and "all_records rest" and "sys_reports s = []"
    and "rows_due s < 2 ^ 64" and "unat keep < 2 ^ 63"
  shows "store_open (system_write working s)" and "\<exists>k. sys_reports (system_write working s) = [Report_Completed (HistoryEvent_Trimmed k)] \<and>
      unat k + length rest = rows_due (system_write working s)"
    and "rows_due (system_write working s) \<le> rows_due s"
    and "sys_commands (system_write working s) = rest" and "sys_state (system_write working s) = sys_state s"
    and "sys_step (system_write working s) = sys_step s"
    and "writer_buffer (sys_writer (system_write working s)) = writer_buffer (sys_writer s)"
proof -
  let ?log = "log_trim (sys_log s) (unat keep)"
  have after: "system_write working s = s\<lparr>sys_commands := rest, sys_log := ?log,
      sys_reports := [Report_Completed (HistoryEvent_Trimmed (log_count ?log))]\<rparr>"
    using assms(1,2,4,6) by (simp add: system_write_def store_open_def working_def Let_def)
  have rows: "length (log_rows ?log) \<le> length (log_rows (sys_log s))" by (simp add: log_trim_def)
  have records: "filter is_record rest = rest" using assms(3) by (simp add: all_records_def list_all_iff filter_id_conv)
  have "unat (log_count ?log) = length (log_rows ?log)"
    using assms(1,5) rows by (simp add: log_count_def rows_due_def unat_of_nat)
  then show "\<exists>k. sys_reports (system_write working s) = [Report_Completed (HistoryEvent_Trimmed k)] \<and>
      unat k + length rest = rows_due (system_write working s)"
    using records by (simp add: after rows_due_def)
  show "rows_due (system_write working s) \<le> rows_due s" using assms(1) rows by (simp add: after rows_due_def)
  show "store_open (system_write working s)" using assms(2) by (simp add: after store_open_def)
qed (use assms in \<open>simp_all add: system_write_def store_open_def working_def Let_def\<close>)

lemma waiting_write:
  assumes "waiting n r command s" and "sys_commands s = Command_Record entry # rest" and "\<not> is_record command"
    and "sys_commands t = rest" and "sys_reports t = sys_reports s"
  shows "waiting n r command t"
proof -
  from assms(1) obtain before after where c: "sys_commands s = before @ command # after" "all_records before"
      "all_records after" "length after = n - unat r" and reports: "sys_reports s = []"
    by (auto simp: waiting_def)
  then obtain before' where "before = Command_Record entry # before'"
    using assms(2,3) by (cases before) auto
  with c reports assms(2,4,5) show ?thesis by (auto simp: waiting_def)
qed

lemma answered_write:
  assumes "answered n r result s" and "sys_commands s = Command_Record entry # rest"
    and "sys_commands t = rest" and "sys_reports t = sys_reports s" and "rows_due t = rows_due s"
  shows "answered n r result t"
  using assms by (simp add: answered_def)

lemma state_store: "state_ok n h s \<Longrightarrow> store_open s \<or> buffering s"
proof (cases h)
  case (HistoryState_Open retained trim)
  then show "state_ok n h s \<Longrightarrow> store_open s \<or> buffering s" by (cases trim) auto
qed auto

lemma write_record_ok:
  assumes "state_ok n (sys_state s) s" and "sys_commands s = Command_Record entry # rest"
  shows "state_ok n (sys_state s) (system_write working s)" and "sys_state (system_write working s) = sys_state s"
    and "sys_step (system_write working s) = sys_step s"
    and "rows_due (system_write working s) + length (writer_buffer (sys_writer (system_write working s))) \<le>
      rows_due s + length (writer_buffer (sys_writer s))"
proof -
  let ?t = "system_write working s"
  have store: "store_open s \<or> buffering s"
    using assms(1) by (rule state_store)
  have excl: "\<not> (store_open s \<and> buffering s)" by (auto simp: store_open_def buffering_def)
  from assms(2) have *: "(store_open s \<and> store_open ?t \<and> rows_due ?t = rows_due s \<or> buffering s \<and> buffering ?t) \<and>
      sys_commands ?t = rest \<and> sys_reports ?t = sys_reports s \<and> sys_state ?t = sys_state s \<and> sys_step ?t = sys_step s \<and>
      rows_due ?t + length (writer_buffer (sys_writer ?t)) \<le> rows_due s + length (writer_buffer (sys_writer s))"
    by (rule write_record) (use store in auto)
  then show "sys_state ?t = sys_state s" "sys_step ?t = sys_step s"
    "rows_due ?t + length (writer_buffer (sys_writer ?t)) \<le> rows_due s + length (writer_buffer (sys_writer s))" by auto
  have w: "waiting n r command ?t" if "waiting n r command s" "\<not> is_record command" for r command
    using waiting_write [OF that(1) assms(2) that(2)] * by blast
  have a: "answered n r result ?t" if "answered n r result s" "rows_due ?t = rows_due s" for r result
    using answered_write [OF that(1) assms(2)] that(2) * by blast
  show "state_ok n (sys_state s) ?t"
  proof (cases "sys_state s")
    case (HistoryState_Open retained trim)
    then show ?thesis
    proof (cases trim)
      case (Trim_Pending r)
      have "waiting n r (Command_Trim keep) ?t" if "waiting n r (Command_Trim keep) s" for keep
        using w that by simp
      then show ?thesis using HistoryState_Open Trim_Pending * assms(1) excl a by (simp only: state_ok.simps) metis
    qed (use HistoryState_Open * assms excl in auto)
  next
    case (HistoryState_Opening r)
    have "waiting n r Command_Open ?t" if "waiting n r Command_Open s"
      using w that by simp
    then show ?thesis using HistoryState_Opening * assms(1) excl a by (simp only: state_ok.simps) metis
  qed (use * assms excl in auto)
qed

lemma write_command:
  assumes "state_ok n (sys_state s) s" and "sys_commands s = command # rest" and "\<not> is_record command"
  obtains (opens) r where "sys_state s = HistoryState_Opening r" "unat r \<le> n" "command = Command_Open" "buffering s"
      "all_records rest" "length rest = n - unat r" "sys_reports s = []"
    | (trims) r keep retained where "sys_state s = HistoryState_Open retained (Trim_Pending r)" "unat r \<le> n"
      "command = Command_Trim keep" "unat keep < 2 ^ 63" "store_open s" "all_records rest" "length rest = n - unat r"
      "sys_reports s = []"
proof -
  have first: "command = c \<and> all_records rest \<and> length rest = n - unat r \<and> sys_reports s = []"
    if "waiting n r c s" for r c
    using that assms(2,3) by (auto simp: waiting_def Cons_eq_append_conv)
  show thesis
  proof (cases "sys_state s")
    case (HistoryState_Opening r)
    then show thesis using assms opens first [of r Command_Open] by (auto simp: answered_def)
  next
    case (HistoryState_Open retained trim)
    then show thesis
    proof (cases trim)
      case (Trim_Pending r)
      with HistoryState_Open assms obtain keep where "unat keep < 2 ^ 63" "waiting n r (Command_Trim keep) s"
          "unat r \<le> n" "store_open s" by (auto simp: answered_def)
      then show thesis using trims [of retained r keep] first HistoryState_Open Trim_Pending by blast
    qed (use HistoryState_Open assms in auto)
  qed (use assms in auto)
qed

lemma write_ok:
  assumes "system_ok stored n s" and "stored + n < 2 ^ 64"
  shows "system_ok stored n (system_write working s)"
proof -
  have ok: "state_ok n (sys_state s) s" "unat (sys_step s) = n"
    "rows_due s + length (writer_buffer (sys_writer s)) \<le> stored + n"
    using assms(1) by (simp_all add: system_ok_def)
  show ?thesis
  proof (cases "sys_commands s")
    case Nil
    then show ?thesis using assms(1) by (simp add: system_write_def)
  next
    case (Cons command rest)
    show ?thesis
    proof (cases "is_record command")
      case True
      then obtain entry where "command = Command_Record entry" by (cases command) auto
      with write_record_ok [OF ok(1)] Cons ok show ?thesis by (fastforce simp: system_ok_def)
    next
      case False
      with ok(1) Cons show ?thesis
      proof (cases rule: write_command)
        case (opens r)
        have "rows_due s + length (writer_buffer (sys_writer s)) < 2 ^ 64" using ok(3) assms(2) by simp
        note w = write_open [OF Cons [unfolded opens(3)] opens(4,5,7) this]
        have "answered n r HistoryEvent_Opened (system_write working s)"
          using w(2,4) opens(5,6) by (auto simp: answered_def)
        with w opens ok show ?thesis by (simp add: system_ok_def store_open_def)
      next
        case (trims r keep retained)
        have "rows_due s < 2 ^ 64" using ok(3) assms(2) by simp
        note w = write_trim [OF Cons [unfolded trims(3)] trims(5,6,8) this trims(4)]
        obtain k where k: "sys_reports (system_write working s) = [Report_Completed (HistoryEvent_Trimmed k)]"
            "unat k + length rest = rows_due (system_write working s)" using w(2) by blast
        then have "answered n r HistoryEvent_Trimmed (system_write working s)"
          using w(4) trims(6,7) by (auto simp: answered_def)
        with w k trims ok show ?thesis by (simp add: system_ok_def)
      qed
    qed
  qed
qed

lemma turn_rows:
  "rows_due (system_turn s turn limit entry) = rows_due s + 1" "sys_writer (system_turn s turn limit entry) = sys_writer s"
  "sys_step (system_turn s turn limit entry) = step_next (sys_step s)"
proof -
  have "\<not> is_record c" if "action_command a = Some c" for a c
    using that by (cases a) auto
  then have "filter is_record (List.map_filter action_command actions) = []" for actions
    by (auto simp: filter_empty_conv set_map_filter_iff)
  then show "rows_due (system_turn s turn limit entry) = rows_due s + 1" "sys_writer (system_turn s turn limit entry) = sys_writer s"
    "sys_step (system_turn s turn limit entry) = step_next (sys_step s)"
    by (simp_all add: system_turn_def rows_due_def Let_def split_beta)
qed

lemma reach_ok:
  "history_reach log n s \<Longrightarrow> length (log_rows log) + n < 2 ^ 64 \<Longrightarrow> system_ok (length (log_rows log)) n s"
proof (induction rule: history_reach.induct)
  case start
  show ?case by (simp add: system_ok_def system_new_def writer_new_def rows_due_def buffering_def step_zero_def)
next
  case (plain n s limit entry)
  then have ok: "system_ok (length (log_rows log)) n s" by simp
  with plain(3) unat_step_next [of "sys_step s" n] turn_other_ok [of n s limit entry] show ?case
    by (auto simp: system_ok_def turn_rows)
next
  case (opens n s limit entry)
  then have ok: "system_ok (length (log_rows log)) n s" by simp
  with opens(2,4) unat_step_next [of "sys_step s" n] turn_open_ok [of n s limit entry] show ?case
    by (auto simp: system_ok_def turn_rows)
next
  case (report n s r rest limit entry)
  then have ok: "system_ok (length (log_rows log)) n s" by simp
  have "rows_due (s\<lparr>sys_reports := rest\<rparr>) = rows_due s" by (simp add: rows_due_def)
  with ok report(2,4) unat_step_next [of "sys_step s" n]
    turn_report_ok [of n s r rest _ limit entry, OF _ _ _ _ report(2) refl] show ?case
    by (auto simp: system_ok_def turn_rows)
next
  case (writes n s)
  then show ?case by (simp add: write_ok)
qed

subsection \<open>Properties\<close>

text \<open>
  C31. The core's count is the table's: while SQLite completes what it is asked, whenever history is open
  and no trim is outstanding, the core's count is the number of rows stored plus the entries on their
  way to the writer, however the two sides interleave and whatever was buffered before the opening.
\<close>

theorem history_count_matches_the_table:
  assumes "history_reach log n s" and "length (log_rows log) + n < 2 ^ 64"
    and "sys_state s = HistoryState_Open retained Trim_Idle"
  shows "unat retained = length (log_rows (sys_log s)) + length (sys_commands s)"
proof -
  have "state_ok n (sys_state s) s" using reach_ok [OF assms(1,2)] by (simp add: system_ok_def)
  then have "unat retained = rows_due s" "all_records (sys_commands s)" using assms(3) by simp_all
  moreover have "filter is_record (sys_commands s) = sys_commands s"
    using \<open>all_records (sys_commands s)\<close> by (simp add: all_records_def list_all_iff filter_id_conv)
  ultimately show ?thesis by (simp add: rows_due_def)
qed

definition witness_entry :: history_entry where
  "witness_entry = \<lparr>entry_occurred_at = 0, entry_processed_at = 0, entry_event = Event_Startup StartupEvent_StorageOpened,
     entry_actions = []\<rparr>"

definition witness_opened :: "sqlite \<Rightarrow> history_system" where
  "witness_opened sql =
     system_write sql (system_write working
       (system_turn (system_new \<lparr>log_rows = [], log_sequence = 0\<rparr>) Turn_Open None witness_entry))"

lemmas witness_evaluate = witness_opened_def system_write_def system_turn_def system_new_def history_turn_def history_open_def
  writer_new_def log_record_def log_insert_def log_count_def BUFFER_LIMIT_def step_next_def step_zero_def
  step_strictly_after_def sat_sub_def entry_count_plus_def sat_add_def lose_def Let_def map_filter_simps entry_count_minus_def

lemma witness_opened_working:
  "sys_state (witness_opened working) = HistoryState_Opening 1"
  "sys_reports (witness_opened working) = [Report_Completed (HistoryEvent_Opened 1)]"
  "sys_step (witness_opened working) = 1" "sys_commands (witness_opened working) = []"
  "length (log_rows (sys_log (witness_opened working))) = 1"
  by (simp_all add: witness_evaluate working_def)

theorem history_count_matches_the_table_witness:
  "\<exists>s :: history_system. sys_state s = HistoryState_Open 2 Trim_Idle \<and> length (log_rows (sys_log s)) + length (sys_commands s) = 2"
proof -
  let ?s = "witness_opened working"
  let ?t = "system_turn (?s\<lparr>sys_reports := []\<rparr>) (Turn_Event (HistoryEvent_Opened 1)) None witness_entry"
  have "history_reach \<lparr>log_rows = [], log_sequence = 0\<rparr> 1 ?s"
    unfolding witness_opened_def One_nat_def
    by (intro history_reach.intros) (simp add: system_new_def)
  then have reach: "history_reach \<lparr>log_rows = [], log_sequence = 0\<rparr> (Suc 1) ?t"
    using history_reach.report [OF _ witness_opened_working(2), where limit = None and entry = witness_entry] by simp
  have state: "sys_state ?t = HistoryState_Open 2 Trim_Idle"
    by (simp add: system_turn_def history_turn_def witness_opened_working step_next_def step_strictly_after_def
        sat_sub_def entry_count_plus_def sat_add_def)
  then have "unat (2::entry_count) = length (log_rows (sys_log ?t)) + length (sys_commands ?t)"
    by (intro history_count_matches_the_table [OF reach]) simp_all
  then have "length (log_rows (sys_log ?t)) + length (sys_commands ?t) = 2" by simp
  with state show ?thesis by blast
qed

text \<open>
  With a failed insertion the count drifts: entries lost before the opening was counted are not in
  the count it gives, but are taken off again when their loss is reported. Here the core ends with a
  count of 1 while 2 rows are stored and nothing is under way.
\<close>

lemma lost_entries_are_subtracted_twice:
  defines "failing \<equiv> working\<lparr>sqlite_inserts := (\<lambda>_. False)\<rparr>"
  defines "opened \<equiv> (witness_opened failing)\<lparr>sys_reports := []\<rparr>"
  defines "counted_once \<equiv> system_write working (system_turn opened (Turn_Event (HistoryEvent_Opened 0)) None witness_entry)"
  defines "told \<equiv> counted_once\<lparr>sys_reports := []\<rparr>"
  defines "final \<equiv> system_write working (system_turn told (Turn_Event (HistoryEvent_EntriesLost 1 0 0)) None witness_entry)"
  shows "sys_reports (witness_opened failing) = [Report_Completed (HistoryEvent_Opened 0)]"
    and "sys_reports counted_once = [Report_Event (HistoryEvent_EntriesLost 1 0 0)]"
    and "sys_state final = HistoryState_Open 1 Trim_Idle \<and> length (log_rows (sys_log final)) = 2 \<and>
      sys_commands final = [] \<and> sys_reports final = []"
  unfolding assms by (simp_all add: witness_evaluate working_def witness_entry_def)

end
