(* ===== verification/Event_Loop.thy ===== *)
theory Event_Loop
  imports Core_Commands Services History_Count
begin

text \<open>
  The program around the machine: the shell that executes actions and returns their results through
  one queue (\<open>shell/mod.rs\<close>), the ingress for the dashboard and the console (\<open>shell/ingress.rs\<close>), and
  the runner (\<open>runner.rs\<close>). Workers, timers, producers, the history writer and the runner interleave
  freely: \<open>loop_step\<close> is one step of any of them. What the network, the clock and SQLite do is the
  step's parameter. Workers do not panic, so no completion is a \<open>JoinError\<close>.
\<close>

subsection \<open>Work\<close>

text \<open>What a spawned task does: a storage operation, or a call of one of the services.\<close>

datatype (plugins only: code size) work =
    Work_Store operation
  | Work_PortMapping duration
  | Work_Client client_request
  | Work_Tunnel tunnel_request
  | Work_Push ntfy_topic push
  | Work_Mam mam_request "api_cookie option"

text \<open>The work an action asks for; timers and the two history commands are not spawned.\<close>

fun action_work :: "action \<Rightarrow> work option" where
  "action_work Action_OpenHistory = None"
| "action_work (Action_TrimHistory _) = None"
| "action_work (Action_StartTimer _ _ _) = None"
| "action_work (Action_RequestPortMapping lifetime) = Some (Work_PortMapping lifetime)"
| "action_work Action_ConnectQbittorrent = Some (Work_Client Request_Connect)"
| "action_work (Action_SyncQbittorrent at) = Some (Work_Client (Request_Sync at))"
| "action_work Action_ReadQbittorrentPreferences = Some (Work_Client Request_ReadPreferences)"
| "action_work (Action_SetQbittorrentListenPort port) = Some (Work_Client (Request_SetListenPort port))"
| "action_work (Action_SetQbittorrentQueue queue) = Some (Work_Client (Request_SetQueue queue))"
| "action_work (Action_QbittorrentCommand command) = Some (Work_Client (Request_Command command))"
| "action_work Action_CheckExitIp = Some (Work_Tunnel TunnelRequest_CheckExitIp)"
| "action_work (Action_SwitchVpnServer server) = Some (Work_Tunnel (TunnelRequest_Switch server))"
| "action_work (Action_SendNotification topic push) = Some (Work_Push topic push)"
| "action_work Action_ReadNoticeLog = Some (Work_Store Operation_ReadNoticeLog)"
| "action_work (Action_SaveNotice entry oldest) = Some (Work_Store (Operation_SaveNotice entry oldest))"
| "action_work (Action_MamRequest request cookie) = Some (Work_Mam request cookie)"
| "action_work (Action_WritePointsReserve reserve) = Some (Work_Store (Operation_WritePointsReserve reserve))"
| "action_work (Action_WriteTorrentLimits limits) = Some (Work_Store (Operation_WriteTorrentLimits limits))"
| "action_work (Action_WriteRotatedApiCookie cookie) = Some (Work_Store (Operation_WriteRotatedApiCookie cookie))"
| "action_work Action_ReadMamState = Some (Work_Store Operation_ReadMamState)"
| "action_work (Action_SaveRegistrationAttempt at) = Some (Work_Store (Operation_SaveRegistrationAttempt at))"
| "action_work (Action_SaveReminder at) = Some (Work_Store (Operation_SaveReminder at))"
| "action_work (Action_SaveRatioGuard guard) = Some (Work_Store (Operation_SaveRatioGuard guard))"
| "action_work (Action_WriteNtfyTopic topic) = Some (Work_Store (Operation_WriteNtfyTopic topic))"
| "action_work Action_ReadLastVpnSwitch = Some (Work_Store Operation_ReadLastVpnSwitch)"
| "action_work (Action_SaveVpnSwitch switch) = Some (Work_Store (Operation_SaveVpnSwitch switch))"
| "action_work Action_ReadTorrentRegistry = Some (Work_Store Operation_ReadTorrentRegistry)"
| "action_work (Action_SaveTorrents records) = Some (Work_Store (Operation_SaveTorrents records))"
| "action_work (Action_OpenStorage mode) = Some (Work_Store (Operation_OpenStorage mode))"
| "action_work Action_ReadMamRequestMode = Some (Work_Store Operation_ReadMamRequestMode)"
| "action_work (Action_WriteMamRequestMode mode) = Some (Work_Store (Operation_WriteMamRequestMode mode))"
| "action_work Action_DeleteMamRequestMode = Some (Work_Store Operation_DeleteMamRequestMode)"
| "action_work Action_ReadSettings = Some (Work_Store Operation_ReadSettings)"
| "action_work (Action_WriteHistoryLimit limit) = Some (Work_Store (Operation_WriteHistoryLimit limit))"
| "action_work (Action_WriteApiCookie cookie) = Some (Work_Store (Operation_WriteApiCookie cookie))"

text \<open>The services as the shell was configured with them, and how they answer now.\<close>

record world =
  world_gateway :: "(attempt list \<times> attempt list) option"
  world_client :: "client_world option"
  world_tunnel :: "tunnel_world option"
  world_push :: push_world
  world_channel :: channel
  world_mam :: "mam_world option"
  world_completes :: bool

definition client_with_files :: "world \<Rightarrow> database option \<Rightarrow> client_world option" where
  "client_with_files w file =
     map_option (\<lambda>c. c\<lparr>world_kept := (\<lambda>mam. if world_completes w then Option.bind file (\<lambda>db. kept_torrent_file db mam)
                                          else None)\<rparr>)
       (world_client w)"

fun work_run :: "world \<Rightarrow> database option \<Rightarrow> work \<Rightarrow> database option \<times> event" where
  "work_run w file (Work_Store operation) = storage_execute (world_completes w) file operation"
| "work_run w file (Work_PortMapping _) = (file, Event_PortForwarding (map_ports (world_gateway w)))"
| "work_run w file (Work_Client request) = (file, Event_Qbittorrent (client_execute (client_with_files w file) request))"
| "work_run w file (Work_Tunnel request) = (file, Event_Tunnel (tunnel_perform (world_tunnel w) request))"
| "work_run w file (Work_Push topic push) =
     (file, Event_Notification (push_send (world_push w) (world_channel w) topic push))"
| "work_run w file (Work_Mam request cookie) =
     (let answer = mam_perform (world_mam w) request cookie;
          (file, result) = mam_keep (world_completes w) file request answer
      in (file, Event_Mam (MamEvent_Answered result (answer_rotated answer))))"

subsection \<open>The shell\<close>

datatype ingress_state = IngressState_Open | IngressState_Closing

type_synonym timed = "clock_reading \<times> event"

datatype input = Input_Event timed | Input_Completed "timed option" | Input_Shutdown

text \<open>A task that runs, or one that has its result and waits for room in the queue.\<close>

datatype (plugins only: code size) task = Task_Running work | Task_Finished timed

record shell =
  shell_queue :: "input list"
  shell_ingress :: ingress_state
  shell_active_workers :: nat
  shell_tasks :: "task list"
  shell_timers :: "timer_name \<Rightarrow> (timer_id \<times> deadline) option"
  shell_commands :: "history_command list"
  shell_writer :: history_writer
  shell_reports :: "history_report list"
  shell_file :: "database option"
  shell_log :: history_log

definition EVENT_QUEUE_CAPACITY :: nat where
  "EVENT_QUEUE_CAPACITY = 64"

definition shell_new :: "database option \<Rightarrow> history_log \<Rightarrow> shell" where
  "shell_new file log =
     \<lparr>shell_queue = [], shell_ingress = IngressState_Open, shell_active_workers = 0, shell_tasks = [],
      shell_timers = (\<lambda>_. None), shell_commands = [], shell_writer = writer_new, shell_reports = [],
      shell_file = file, shell_log = log\<rparr>"

text \<open>\<open>track\<close> and \<open>spawn\<close> (or \<open>store\<close>): work whose completion will arrive through the queue.\<close>

definition shell_track :: "shell \<Rightarrow> history_command \<Rightarrow> shell" where
  "shell_track s command =
     s\<lparr>shell_active_workers := shell_active_workers s + 1, shell_commands := shell_commands s @ [command]\<rparr>"

definition shell_spawn :: "shell \<Rightarrow> work \<Rightarrow> shell" where
  "shell_spawn s work =
     s\<lparr>shell_active_workers := shell_active_workers s + 1, shell_tasks := shell_tasks s @ [Task_Running work]\<rparr>"

text \<open>A new timer replaces the one of its name, which is aborted.\<close>

definition shell_dispatch :: "shell \<Rightarrow> action \<Rightarrow> shell" where
  "shell_dispatch s action =
     (case action_command action of
        Some command \<Rightarrow> shell_track s command
      | None \<Rightarrow>
          (case action_work action of
             Some work \<Rightarrow> shell_spawn s work
           | None \<Rightarrow>
               (case action of
                  Action_StartTimer name i deadline \<Rightarrow> s\<lparr>shell_timers := (shell_timers s)(name := Some (i, deadline))\<rparr>
                | _ \<Rightarrow> s)))"

definition shell_record :: "shell \<Rightarrow> system_time \<Rightarrow> system_time \<Rightarrow> event \<Rightarrow> action list \<Rightarrow> shell" where
  "shell_record s occurred_at processed_at event actions =
     s\<lparr>shell_commands := shell_commands s @
        [Command_Record \<lparr>entry_occurred_at = occurred_at, entry_processed_at = processed_at, entry_event = event,
                         entry_actions = actions\<rparr>]\<rparr>"

text \<open>
  One turn of the loop in \<open>next_event\<close>: the stream ends, nothing has arrived, the count of workers
  would underflow, a worker failed, an event is taken, or a shutdown is noted.
\<close>

datatype (plugins only: code size) taken =
  Taken_Stop | Taken_Wait | Taken_Panic | Taken_Failed | Taken_Event shell timed | Taken_Again shell

definition shell_next :: "shell \<Rightarrow> taken" where
  "shell_next s =
     (if shell_ingress s = IngressState_Closing \<and> shell_active_workers s = 0 \<and> shell_queue s = [] then Taken_Stop
      else case shell_queue s of
        [] \<Rightarrow> Taken_Wait
      | Input_Event timed # rest \<Rightarrow> Taken_Event (s\<lparr>shell_queue := rest\<rparr>) timed
      | Input_Completed result # rest \<Rightarrow>
          if shell_active_workers s = 0 then Taken_Panic
          else (case result of
                  None \<Rightarrow> Taken_Failed
                | Some timed \<Rightarrow>
                    Taken_Event (s\<lparr>shell_queue := rest, shell_active_workers := shell_active_workers s - 1\<rparr>) timed)
      | Input_Shutdown # rest \<Rightarrow> Taken_Again (s\<lparr>shell_queue := rest, shell_ingress := IngressState_Closing\<rparr>))"

subsection \<open>The runner\<close>

record runner =
  runner_core :: core
  runner_shell :: shell

type_synonym turns = "(timed \<times> action list) list"

definition runner_new :: "database option \<Rightarrow> history_log \<Rightarrow> runner" where
  "runner_new file log = \<lparr>runner_core = core_new, runner_shell = shell_new file log\<rparr>"

text \<open>
  One turn of the loop in \<open>run\<close>, at the wall clock \<open>processed_at\<close>: it ends with the core's state, waits
  for an input, fails, panics, or goes on; a turn that handled an event gives it with its actions.
\<close>

datatype (plugins only: code size) progress =
    Progress_Ended state
  | Progress_Waiting
  | Progress_Failed
  | Progress_Panicked
  | Progress_Turned runner turns

definition runner_turn :: "system_time \<Rightarrow> runner \<Rightarrow> progress" where
  "runner_turn processed_at r =
     (case shell_next (runner_shell r) of
        Taken_Stop \<Rightarrow> Progress_Ended (core_state (runner_core r))
      | Taken_Wait \<Rightarrow> Progress_Waiting
      | Taken_Panic \<Rightarrow> Progress_Panicked
      | Taken_Failed \<Rightarrow> Progress_Failed
      | Taken_Again s \<Rightarrow> Progress_Turned (r\<lparr>runner_shell := s\<rparr>) []
      | Taken_Event s timed \<Rightarrow>
          (case core_handle (runner_core r) (fst timed) (snd timed) of
             None \<Rightarrow> Progress_Panicked
           | Some (core, actions) \<Rightarrow>
               Progress_Turned
                 \<lparr>runner_core = core,
                  runner_shell = fold (\<lambda>action s. shell_dispatch s action) actions
                    (shell_record s (wall (fst timed)) processed_at (snd timed) actions)\<rparr>
                 [(timed, actions)]))"

text \<open>What the dashboard, the console and \<open>Integrations::enable_events\<close> submit.\<close>

fun producible :: "event \<Rightarrow> bool" where
  "producible (Event_Startup (StartupEvent_Start _)) = True"
| "producible (Event_MamPause (MamPauseEvent_Set _)) = True"
| "producible (Event_MamPause MamPauseEvent_Delete) = True"
| "producible (Event_Settings (SettingsEvent_SetHistoryLimit _)) = True"
| "producible (Event_Settings (SettingsEvent_SetPointsReserve _)) = True"
| "producible (Event_Settings (SettingsEvent_SetTorrentLimits _)) = True"
| "producible (Event_Settings (SettingsEvent_SetApiCookie _)) = True"
| "producible (Event_Settings SettingsEvent_ClearApiCookie) = True"
| "producible (Event_Settings (SettingsEvent_SetNtfyTopic _)) = True"
| "producible (Event_Settings SettingsEvent_ClearNtfyTopic) = True"
| "producible (Event_Notification NotificationEvent_SendTest) = True"
| "producible (Event_Mam MamEvent_Enable) = True"
| "producible (Event_Mam (MamEvent_PurchaseChecked _)) = True"
| "producible (Event_Mam MamEvent_RatioUseChecked) = True"
| "producible (Event_Registry (RegistryEvent_Redownload _)) = True"
| "producible (Event_PortForwarding PortForwardingEvent_Enable) = True"
| "producible (Event_Qbittorrent QbittorrentEvent_Enable) = True"
| "producible (Event_Tunnel (TunnelEvent_Enable _ _)) = True"
| "producible _ = False"

subsection \<open>The program's steps\<close>

definition room :: "shell \<Rightarrow> bool" where
  "room s \<longleftrightarrow> length (shell_queue s) < EVENT_QUEUE_CAPACITY"

definition shell_enqueue :: "shell \<Rightarrow> input \<Rightarrow> shell" where
  "shell_enqueue s i = s\<lparr>shell_queue := shell_queue s @ [i]\<rparr>"

text \<open>The input a report of the history writer becomes.\<close>

fun report_input :: "clock_reading \<Rightarrow> history_report \<Rightarrow> input" where
  "report_input now (Report_Event e) = Input_Event (now, Event_History e)"
| "report_input now (Report_Completed e) = Input_Completed (Some (now, Event_History e))"

text \<open>The events an input carries.\<close>

fun input_events :: "input \<Rightarrow> timed list" where
  "input_events (Input_Event timed) = [timed]"
| "input_events (Input_Completed (Some timed)) = [timed]"
| "input_events _ = []"

text \<open>
  A producer submits an event or asks for shutdown; a task finishes its work and, once there is room,
  its result is queued; a timer fires at its deadline or later; the history writer carries out a
  command once its reports are queued; the runner turns. The step gives the inputs it queued and the
  events it handled with their actions.
\<close>

inductive shell_step :: "shell \<Rightarrow> input list \<Rightarrow> shell \<Rightarrow> bool" where
  submit: "shell_ingress s = IngressState_Open \<Longrightarrow> room s \<Longrightarrow> producible e \<Longrightarrow>
    shell_step s [Input_Event (now, e)] (shell_enqueue s (Input_Event (now, e)))"
| close: "room s \<Longrightarrow> shell_step s [] (s\<lparr>shell_ingress := IngressState_Closing\<rparr>)"
| shutdown: "shell_ingress s = IngressState_Closing \<Longrightarrow> room s \<Longrightarrow>
    shell_step s [Input_Shutdown] (shell_enqueue s Input_Shutdown)"
| finish: "shell_tasks s = before @ Task_Running work # after \<Longrightarrow> work_run w (shell_file s) work = (file, e) \<Longrightarrow>
    shell_step s [] (s\<lparr>shell_file := file, shell_tasks := before @ Task_Finished (now, e) # after\<rparr>)"
| complete: "shell_tasks s = before @ Task_Finished timed # after \<Longrightarrow> room s \<Longrightarrow>
    shell_step s [Input_Completed (Some timed)]
      (shell_enqueue (s\<lparr>shell_tasks := before @ after\<rparr>) (Input_Completed (Some timed)))"
| expire: "shell_timers s name = Some (i, deadline) \<Longrightarrow> deadline_at deadline \<le> monotonic now \<Longrightarrow> room s \<Longrightarrow>
    shell_step s [Input_Event (now, Event_TimerExpired name i)]
      (shell_enqueue (s\<lparr>shell_timers := (shell_timers s)(name := None)\<rparr>) (Input_Event (now, Event_TimerExpired name i)))"
| writes: "shell_reports s = [] \<Longrightarrow> shell_commands s = command # rest \<Longrightarrow>
    writer_step sql (shell_writer s, shell_log s) command = ((writer, log), reports) \<Longrightarrow>
    shell_step s [] (s\<lparr>shell_commands := rest, shell_writer := writer, shell_log := log, shell_reports := reports\<rparr>)"
| report: "shell_reports s = report # rest \<Longrightarrow> room s \<Longrightarrow>
    shell_step s [report_input now report] (shell_enqueue (s\<lparr>shell_reports := rest\<rparr>) (report_input now report))"

inductive loop_step :: "runner \<Rightarrow> input list \<Rightarrow> turns \<Rightarrow> runner \<Rightarrow> bool" where
  around: "shell_step (runner_shell r) inputs s \<Longrightarrow> loop_step r inputs [] (r\<lparr>runner_shell := s\<rparr>)"
| turn: "runner_turn processed_at r = Progress_Turned r' turns \<Longrightarrow> loop_step r [] turns r'"

text \<open>The states reached from a new runner, with the inputs queued and the events handled so far.\<close>

inductive loop_reach :: "database option \<Rightarrow> history_log \<Rightarrow> input list \<Rightarrow> turns \<Rightarrow> runner \<Rightarrow> bool" for db log where
  start: "loop_reach db log [] [] (runner_new db log)"
| step: "loop_reach db log inputs turns r \<Longrightarrow> loop_step r inputs' turns' r' \<Longrightarrow>
    loop_reach db log (inputs @ inputs') (turns @ turns') r'"

end
