(* ===== verification/Program.thy ===== *)
theory Program
  imports Event_Loop
begin

text \<open>
  The program over whole runs, however its tasks, timers, producers, history writer and runner
  interleave: what the runner does is a run of the machine over the inputs in the order they were
  queued, it neither fails nor panics, it stops only when all is done, and every service has at most
  one request under way.
\<close>

subsection \<open>The shell's laws\<close>

fun is_completion :: "input \<Rightarrow> bool" where
  "is_completion (Input_Completed _) = True"
| "is_completion _ = False"

fun is_completed :: "history_report \<Rightarrow> bool" where
  "is_completed (Report_Completed _) = True"
| "is_completed _ = False"

text \<open>Work under way: each piece is one completion to come.\<close>

definition under_way :: "shell \<Rightarrow> nat" where
  "under_way s = length (shell_tasks s) + length (filter is_completion (shell_queue s)) +
     length (filter (\<lambda>c. \<not> is_record c) (shell_commands s)) + length (filter is_completed (shell_reports s))"

definition workers_ok :: "shell \<Rightarrow> bool" where
  "workers_ok s \<longleftrightarrow> shell_active_workers s = under_way s \<and> Input_Completed None \<notin> set (shell_queue s)"

text \<open>A lost entry is reported as an event; only openings and trims complete.\<close>

lemma lose_log_reports: "filter is_completed (snd (snd (log_record sql log lost entry))) = []"
  by (auto simp: log_record_def Let_def split: option.split)

lemma log_record_all_reports: "filter is_completed (snd (snd (log_record_all sql log lost entries))) = []"
  by (induction entries arbitrary: log lost) (auto simp: Let_def split_beta lose_log_reports)

lemma writer_step_completions:
  assumes "writer_step sql wl command = (wl', reports)"
  shows "length (filter is_completed reports) = (if is_record command then 0 else 1)"
  using assms lose_log_reports log_record_all_reports
  by (induction sql wl command rule: writer_step.induct) (auto simp: Let_def split_beta split: if_splits)

lemma action_command_not_record: "action_command a = Some c \<Longrightarrow> \<not> is_record c"
  by (cases a) auto

lemma dispatch_workers: "workers_ok s \<Longrightarrow> workers_ok (shell_dispatch s a)"
  by (auto simp: shell_dispatch_def shell_track_def shell_spawn_def workers_ok_def under_way_def
      dest: action_command_not_record split: option.split action.split)

lemma dispatch_all_workers: "workers_ok s \<Longrightarrow> workers_ok (fold (\<lambda>a s. shell_dispatch s a) actions s)"
  by (induction actions arbitrary: s) (simp_all add: dispatch_workers)

lemma record_workers: "workers_ok s \<Longrightarrow> workers_ok (shell_record s at processed e actions)"
  by (simp add: shell_record_def workers_ok_def under_way_def)

lemma shell_step_workers: "shell_step s inputs s' \<Longrightarrow> workers_ok s \<Longrightarrow> workers_ok s'"
proof (induction rule: shell_step.induct)
  case (writes s command rest sql writer log reports)
  from writer_step_completions [OF this(3)] writes show ?case by (auto simp: workers_ok_def under_way_def)
next
  case (report s report rest now)
  then show ?case by (cases report) (auto simp: workers_ok_def under_way_def shell_enqueue_def)
qed (auto simp: workers_ok_def under_way_def shell_enqueue_def)

text \<open>The runner's side of the queue: a completion that is taken was counted, and succeeded.\<close>

lemma shell_next_cases:
  assumes "workers_ok s"
  obtains (stop) "shell_next s = Taken_Stop" "shell_ingress s = IngressState_Closing" "shell_active_workers s = 0" "shell_queue s = []"
    | (wait) "shell_next s = Taken_Wait" "shell_queue s = []"
    | (event) i rest timed s' where "shell_next s = Taken_Event s' timed" "shell_queue s = i # rest" "input_events i = [timed]"
        "s' = s\<lparr>shell_queue := rest, shell_active_workers := shell_active_workers s - of_bool (is_completion i)\<rparr>"
        "workers_ok s'"
    | (again) rest where "shell_next s = Taken_Again (s\<lparr>shell_queue := rest, shell_ingress := IngressState_Closing\<rparr>)"
        "shell_queue s = Input_Shutdown # rest"
        "workers_ok (s\<lparr>shell_queue := rest, shell_ingress := IngressState_Closing\<rparr>)"
proof (cases "shell_queue s")
  case Nil
  with stop wait show ?thesis by (cases "shell_next s = Taken_Stop") (auto simp: shell_next_def split: if_splits)
next
  case (Cons i rest)
  show ?thesis
  proof (cases i)
    case (Input_Event timed)
    with Cons assms event [of "s\<lparr>shell_queue := rest\<rparr>" timed i rest] show ?thesis
      by (simp add: shell_next_def workers_ok_def under_way_def)
  next
    case (Input_Completed result)
    with Cons assms obtain timed where "result = Some timed" by (cases result) (auto simp: workers_ok_def)
    with Cons Input_Completed assms
      event [of "s\<lparr>shell_queue := rest, shell_active_workers := shell_active_workers s - 1\<rparr>" timed i rest]
    show ?thesis by (simp add: shell_next_def workers_ok_def under_way_def)
  next
    case Input_Shutdown
    with Cons assms again [of rest] show ?thesis by (simp add: shell_next_def workers_ok_def under_way_def)
  qed
qed

subsection \<open>Results\<close>

text \<open>The event an operation reports when it succeeds.\<close>

fun operation_success :: "operation \<Rightarrow> event \<Rightarrow> bool" where
  "operation_success (Operation_OpenStorage _) e \<longleftrightarrow> e = Event_Startup StartupEvent_StorageOpened"
| "operation_success Operation_ReadMamRequestMode e \<longleftrightarrow> (\<exists>mode. e = Event_MamPause (MamPauseEvent_Read mode))"
| "operation_success (Operation_WriteMamRequestMode _) e \<longleftrightarrow> e = Event_MamPause MamPauseEvent_Written"
| "operation_success Operation_DeleteMamRequestMode e \<longleftrightarrow> e = Event_MamPause MamPauseEvent_Deleted"
| "operation_success Operation_ReadSettings e \<longleftrightarrow>
     (\<exists>limit cookie topic reserve limits. e = Event_Settings (SettingsEvent_Read limit cookie topic reserve limits))"
| "operation_success (Operation_WriteHistoryLimit _) e \<longleftrightarrow> e = Event_Settings SettingsEvent_HistoryLimitWritten"
| "operation_success (Operation_WriteApiCookie _) e \<longleftrightarrow> e = Event_Settings SettingsEvent_ApiCookieWritten"
| "operation_success (Operation_WriteNtfyTopic _) e \<longleftrightarrow> e = Event_Settings SettingsEvent_NtfyTopicWritten"
| "operation_success Operation_ReadTorrentRegistry e \<longleftrightarrow> (\<exists>records. e = Event_Registry (RegistryEvent_Read records))"
| "operation_success (Operation_SaveTorrents _) e \<longleftrightarrow> e = Event_Registry RegistryEvent_Saved"
| "operation_success Operation_ReadLastVpnSwitch e \<longleftrightarrow> (\<exists>switch. e = Event_Tunnel (TunnelEvent_LastSwitchRead switch))"
| "operation_success (Operation_SaveVpnSwitch _) e \<longleftrightarrow> e = Event_Tunnel TunnelEvent_SwitchSaved"
| "operation_success (Operation_WritePointsReserve _) e \<longleftrightarrow> e = Event_Settings SettingsEvent_PointsReserveWritten"
| "operation_success (Operation_WriteTorrentLimits _) e \<longleftrightarrow> e = Event_Settings SettingsEvent_TorrentLimitsWritten"
| "operation_success (Operation_WriteRotatedApiCookie _) e \<longleftrightarrow> e = Event_Settings SettingsEvent_RotatedApiCookieWritten"
| "operation_success Operation_ReadMamState e \<longleftrightarrow>
     (\<exists>registration reminder guard. e = Event_Mam (MamEvent_StateRead registration reminder guard))"
| "operation_success (Operation_SaveRegistrationAttempt _) e \<longleftrightarrow> e = Event_Mam MamEvent_RegistrationAttemptSaved"
| "operation_success (Operation_SaveReminder _) e \<longleftrightarrow> e = Event_Mam MamEvent_ReminderSaved"
| "operation_success (Operation_SaveRatioGuard _) e \<longleftrightarrow> e = Event_Mam MamEvent_RatioGuardSaved"
| "operation_success Operation_ReadNoticeLog e \<longleftrightarrow> (\<exists>newest. e = Event_Notification (NotificationEvent_LogRead newest))"
| "operation_success (Operation_SaveNotice _ _) e \<longleftrightarrow> e = Event_Notification NotificationEvent_Saved"

text \<open>The events that may answer a piece of work.\<close>

fun work_answered :: "work \<Rightarrow> event \<Rightarrow> bool" where
  "work_answered (Work_Store operation) e \<longleftrightarrow> e = operation_failure operation \<or> operation_success operation e"
| "work_answered (Work_PortMapping _) e \<longleftrightarrow>
     (\<exists>p. e = Event_PortForwarding p \<and> p \<noteq> PortForwardingEvent_Enable \<and> port_forwarding_event_ok p)"
| "work_answered (Work_Client request) e \<longleftrightarrow> (\<exists>q. e = Event_Qbittorrent q \<and> answers_request request q)"
| "work_answered (Work_Tunnel TunnelRequest_CheckExitIp) e \<longleftrightarrow>
     (\<exists>t. e = Event_Tunnel t \<and> ((\<exists>ip. t = TunnelEvent_ExitIpObserved ip) \<or> (\<exists>f. t = TunnelEvent_ExitIpCheckFailed f)))"
| "work_answered (Work_Tunnel (TunnelRequest_Switch _)) e \<longleftrightarrow>
     e = Event_Tunnel TunnelEvent_Switched \<or> e = Event_Tunnel TunnelEvent_SwitchFailed"
| "work_answered (Work_Push _ _) e \<longleftrightarrow>
     e = Event_Notification NotificationEvent_Delivered \<or> (\<exists>f. e = Event_Notification (NotificationEvent_DeliveryFailed f))"
| "work_answered (Work_Mam _ _) e \<longleftrightarrow> (\<exists>result rotated. e = Event_Mam (MamEvent_Answered result rotated))"

lemma operation_run_success: "operation_run db operation = Some (db', e) \<Longrightarrow> operation_success operation e"
  by (cases operation)
    (auto simp: read_mode_def read_settings_def read_registry_def read_last_switch_def read_mam_state_def read_notice_log_def
      Let_def bind_eq_Some_conv split: option.splits if_splits)

lemma storage_answers:
  "snd (storage_execute completes db operation) = operation_failure operation \<or>
   operation_success operation (snd (storage_execute completes db operation))"
proof (cases db)
  case None
  then show ?thesis by (cases operation) (auto simp: storage_execute_def split: option.split)
next
  case (Some d)
  then show ?thesis
    using operation_run_success [of d operation]
    by (auto simp: storage_execute_def simp del: operation_run.simps operation_success.simps split: option.split)
qed

lemma port_event_ok: "map_ports bound \<noteq> PortForwardingEvent_Enable" "port_forwarding_event_ok (map_ports bound)"
  by (auto simp: map_ports_def secs_def duration_max_def min_def dest!: natpmp_lifetime split: option.split sum.split)

lemma work_run_answers: "work_answered work (snd (work_run w db work))"
proof (cases work)
  case (Work_Store operation)
  then show ?thesis using storage_answers by simp
next
  case (Work_PortMapping lifetime)
  then show ?thesis using port_event_ok by simp
next
  case (Work_Tunnel request)
  then show ?thesis
    by (cases request) (auto simp: check_exit_ip_def switch_unit_def split: option.split sum.split)
next
  case (Work_Push topic push)
  then show ?thesis by (auto simp: push_send_def split: sum.split unit.split)
qed (simp_all add: execute_answers Let_def split_beta)

subsection \<open>Every event can be handled\<close>

fun event_ok :: "event \<Rightarrow> bool" where
  "event_ok (Event_PortForwarding e) = port_forwarding_event_ok e"
| "event_ok _ = True"

lemma event_ok_handled: "event_ok e \<Longrightarrow> core_handle c now e \<noteq> None"
  using port_forwarding_no_panic
  by (cases e) (auto simp: core_handle_def core_handle_port_def split_beta Let_def)

lemma producible_ok: "producible e \<Longrightarrow> event_ok e"
  by (cases e rule: producible.cases) simp_all

lemma work_answered_ok: "work_answered work e \<Longrightarrow> event_ok e"
proof (cases work)
  case (Work_Store operation)
  then show "work_answered work e \<Longrightarrow> event_ok e" by (cases operation) auto
next
  case (Work_Tunnel request)
  then show "work_answered work e \<Longrightarrow> event_ok e" by (cases request) auto
qed auto

text \<open>The events on their way to the runner: results that wait for room and those in the queue.\<close>

fun task_events :: "task \<Rightarrow> timed list" where
  "task_events (Task_Running _) = []"
| "task_events (Task_Finished timed) = [timed]"

definition queued :: "shell \<Rightarrow> timed list" where
  "queued s = concat (map input_events (shell_queue s))"

definition events_ok :: "shell \<Rightarrow> bool" where
  "events_ok s \<longleftrightarrow> list_all (event_ok \<circ> snd) (concat (map task_events (shell_tasks s)) @ queued s)"

lemma dispatch_frame [simp]:
  "shell_queue (shell_dispatch s a) = shell_queue s" "shell_ingress (shell_dispatch s a) = shell_ingress s"
  "shell_reports (shell_dispatch s a) = shell_reports s" "shell_log (shell_dispatch s a) = shell_log s"
  "shell_tasks (shell_dispatch s a) = shell_tasks s @ (case action_work a of None \<Rightarrow> [] | Some work \<Rightarrow> [Task_Running work])"
  by (cases a; simp add: shell_dispatch_def shell_track_def shell_spawn_def)+

lemma dispatch_all_frame [simp]:
  "shell_queue (fold (\<lambda>a s. shell_dispatch s a) actions s) = shell_queue s"
  "shell_ingress (fold (\<lambda>a s. shell_dispatch s a) actions s) = shell_ingress s"
  "shell_reports (fold (\<lambda>a s. shell_dispatch s a) actions s) = shell_reports s"
  "shell_log (fold (\<lambda>a s. shell_dispatch s a) actions s) = shell_log s"
  "shell_tasks (fold (\<lambda>a s. shell_dispatch s a) actions s) = shell_tasks s @ map Task_Running (List.map_filter action_work actions)"
  by (induction actions arbitrary: s) (simp_all add: map_filter_simps split: option.split)

lemma record_frame [simp]:
  "shell_queue (shell_record s at processed e actions) = shell_queue s"
  "shell_ingress (shell_record s at processed e actions) = shell_ingress s"
  "shell_reports (shell_record s at processed e actions) = shell_reports s"
  "shell_tasks (shell_record s at processed e actions) = shell_tasks s"
  by (simp_all add: shell_record_def)

lemma running_no_events [simp]: "concat (map task_events (map Task_Running works)) = []"
  by (induction works) simp_all

lemma shell_step_events: "shell_step s inputs s' \<Longrightarrow> events_ok s \<Longrightarrow> events_ok s'"
proof (induction rule: shell_step.induct)
  case (finish s before work after w db e now)
  from work_run_answers [of work w "shell_file s"] finish(2) have "event_ok e" by (auto dest: work_answered_ok)
  with finish show ?case by (auto simp: events_ok_def queued_def)
next
  case (report s report rest now)
  then show ?case by (cases report) (auto simp: events_ok_def queued_def shell_enqueue_def)
qed (auto simp: events_ok_def queued_def shell_enqueue_def dest: producible_ok)

subsection \<open>Turns\<close>

text \<open>What a turn does: it never fails, and a turn that goes on takes the first input.\<close>

lemma runner_turn_cases:
  assumes "workers_ok (runner_shell r)" and "events_ok (runner_shell r)"
  obtains (ended) "runner_turn at r = Progress_Ended (core_state (runner_core r))" "shell_queue (runner_shell r) = []"
      "shell_ingress (runner_shell r) = IngressState_Closing" "shell_active_workers (runner_shell r) = 0"
    | (waiting) "runner_turn at r = Progress_Waiting" "shell_queue (runner_shell r) = []"
    | (noted) s rest where "runner_turn at r = Progress_Turned (r\<lparr>runner_shell := s\<rparr>) []"
        "shell_queue (runner_shell r) = Input_Shutdown # rest"
        "s = (runner_shell r)\<lparr>shell_queue := rest, shell_ingress := IngressState_Closing\<rparr>" "workers_ok s"
    | (handled) i rest now e s core actions where
        "runner_turn at r = Progress_Turned \<lparr>runner_core = core, runner_shell =
           fold (\<lambda>a s. shell_dispatch s a) actions (shell_record s (wall now) at e actions)\<rparr> [((now, e), actions)]"
        "shell_queue (runner_shell r) = i # rest" "input_events i = [(now, e)]"
        "s = (runner_shell r)\<lparr>shell_queue := rest,
           shell_active_workers := shell_active_workers (runner_shell r) - of_bool (is_completion i)\<rparr>" "workers_ok s"
        "core_handle (runner_core r) now e = Some (core, actions)"
  using assms(1)
proof (cases rule: shell_next_cases)
  case (event i rest timed s')
  obtain now e where timed: "timed = (now, e)" by (cases timed)
  have "event_ok e" using assms(2) event(2,3) timed by (simp add: events_ok_def queued_def)
  then obtain core actions where "core_handle (runner_core r) now e = Some (core, actions)"
    using event_ok_handled by fastforce
  with event timed show ?thesis using handled [of core actions s' now e i rest] by (simp add: runner_turn_def)
qed (use ended waiting noted in \<open>auto simp: runner_turn_def\<close>)

definition loop_ok :: "runner \<Rightarrow> bool" where
  "loop_ok r \<longleftrightarrow> workers_ok (runner_shell r) \<and> events_ok (runner_shell r)"

lemma turn_ok:
  assumes "loop_ok r" and "runner_turn at r = Progress_Turned r' turns"
  shows "loop_ok r'"
proof -
  have ok: "workers_ok (runner_shell r)" "events_ok (runner_shell r)" using assms(1) by (simp_all add: loop_ok_def)
  from this(1,2) show ?thesis
  proof (cases rule: runner_turn_cases [of r at])
    case (handled i rest now e s core actions)
    with assms(2) ok dispatch_all_workers record_workers show ?thesis
      by (auto simp: loop_ok_def events_ok_def queued_def simp del: map_map)
  qed (use assms(2) ok in \<open>auto simp: loop_ok_def events_ok_def queued_def\<close>)
qed

lemma loop_step_ok: "loop_step r inputs turns r' \<Longrightarrow> loop_ok r \<Longrightarrow> loop_ok r'"
proof (induction rule: loop_step.induct)
  case (around r inputs s)
  then show ?case by (simp add: loop_ok_def shell_step_workers shell_step_events)
qed (rule turn_ok)

lemma loop_new_ok: "loop_ok (runner_new db log)"
  by (simp add: loop_ok_def runner_new_def shell_new_def workers_ok_def under_way_def events_ok_def queued_def)

lemma loop_reach_ok: "loop_reach db log inputs turns r \<Longrightarrow> loop_ok r"
  by (induction rule: loop_reach.induct) (auto intro: loop_new_ok loop_step_ok)

subsection \<open>Counting\<close>

text \<open>
  Pieces of work of one kind under way: tasks that run, and results of that kind on their way to the
  runner.
\<close>

definition pending :: "(work \<Rightarrow> bool) \<Rightarrow> (event \<Rightarrow> bool) \<Rightarrow> shell \<Rightarrow> nat" where
  "pending works answers s =
     length (filter (\<lambda>t. case t of Task_Running work \<Rightarrow> works work | Task_Finished (now, e) \<Rightarrow> answers e) (shell_tasks s)) +
     length (filter (\<lambda>(now, e). answers e) (queued s))"

text \<open>
  A service of the program: the requests the core sends it are the work of its kind, and its answers
  come from that work only. Together with the core's own contract, one request is under way at most.
\<close>

locale service = core_traffic sends busy answers
  for sends :: "action \<Rightarrow> bool" and busy :: "core \<Rightarrow> bool" and answers :: "event \<Rightarrow> bool" +
  fixes works :: "work \<Rightarrow> bool"
  assumes sends_works: "sends a \<longleftrightarrow> (case action_work a of Some work \<Rightarrow> works work | None \<Rightarrow> False)"
    and answers_works: "work_answered work e \<Longrightarrow> answers e \<longleftrightarrow> works work"
    and producers: "producible e \<Longrightarrow> \<not> answers e"
    and timers: "\<not> answers (Event_TimerExpired name i)"
    and reports: "\<not> answers (Event_History h)"
begin

lemma shell_step_pending: "shell_step s inputs s' \<Longrightarrow> pending works answers s' = pending works answers s"
proof (induction rule: shell_step.induct)
  case (finish s before work after w db e now)
  have "answers e \<longleftrightarrow> works work" using answers_works work_run_answers [of work w "shell_file s"] finish(2) by fastforce
  with finish show ?case by (auto simp: pending_def queued_def)
next
  case (report s report rest now)
  then show ?case by (cases report) (auto simp: pending_def queued_def shell_enqueue_def reports)
qed (auto simp: pending_def queued_def shell_enqueue_def timers dest: producers)

lemma works_sent: "length (filter works (List.map_filter action_work actions)) = sent sends actions"
  by (induction actions) (auto simp: map_filter_simps sends_works split: option.split)

lemma turn_pending:
  assumes "loop_ok r" and "runner_turn at r = Progress_Turned r' turns"
  shows "pending works answers (runner_shell r') + length (filter (\<lambda>t. answers (snd (fst t))) turns) =
    pending works answers (runner_shell r) + sent sends (concat (map snd turns))"
proof -
  have ok: "workers_ok (runner_shell r)" "events_ok (runner_shell r)" using assms(1) by (simp_all add: loop_ok_def)
  then show ?thesis
  proof (cases rule: runner_turn_cases [of r at])
    case (handled i rest now e s core actions)
    with assms(2) show ?thesis
      by (auto simp: pending_def queued_def works_sent filter_map o_def)
  qed (use assms(2) in \<open>auto simp: pending_def queued_def\<close>)
qed

lemma step_pending:
  assumes "loop_step r inputs turns r'" and "loop_ok r"
  shows "pending works answers (runner_shell r') + length (filter (\<lambda>t. answers (snd (fst t))) turns) =
    pending works answers (runner_shell r) + sent sends (concat (map snd turns))"
  using assms by (cases rule: loop_step.cases) (auto simp: shell_step_pending intro: turn_pending)

lemma reach_pending:
  "loop_reach db log inputs turns r \<Longrightarrow>
     pending works answers (runner_shell r) + length (filter (\<lambda>t. answers (snd (fst t))) turns) =
     sent sends (concat (map snd turns))"
proof (induction rule: loop_reach.induct)
  case start
  show ?case by (simp add: runner_new_def shell_new_def pending_def queued_def)
next
  case (step inputs turns r inputs' turns' r')
  from step_pending [OF step(2) loop_reach_ok [OF step(1)]] step(3) show ?case by simp
qed

end

subsection \<open>The runner runs the machine\<close>

definition runs_machine :: "input list \<Rightarrow> turns \<Rightarrow> runner \<Rightarrow> bool" where
  "runs_machine inputs turns r \<longleftrightarrow>
     run machine_step core_new (map fst turns) = (runner_core r, map snd turns) \<and>
     concat (map input_events inputs) = map fst turns @ queued (runner_shell r)"

lemma shell_step_queued: "shell_step s inputs s' \<Longrightarrow> queued s' = queued s @ concat (map input_events inputs)"
  by (induction rule: shell_step.induct) (auto simp: queued_def shell_enqueue_def)

lemma reach_runs_machine: "loop_reach db log inputs turns r \<Longrightarrow> runs_machine inputs turns r"
proof (induction rule: loop_reach.induct)
  case start
  show ?case by (simp add: runs_machine_def runner_new_def shell_new_def queued_def)
next
  case (step inputs turns r inputs' turns' r')
  from step(2) show ?case
  proof (cases rule: loop_step.cases)
    case (around s)
    with step(3) shell_step_queued [OF around(3)] show ?thesis by (simp add: runs_machine_def)
  next
    case (turn at)
    have ok: "workers_ok (runner_shell r)" "events_ok (runner_shell r)"
      using loop_reach_ok [OF step(1)] by (simp_all add: loop_ok_def)
    then show ?thesis
    proof (cases rule: runner_turn_cases [of r at])
      case (handled i rest now e s core actions)
      with turn step(3) show ?thesis
        by (auto simp: runs_machine_def queued_def run_append split_beta Let_def)
    qed (use turn step(3) in \<open>auto simp: runs_machine_def queued_def\<close>)
  qed
qed

subsection \<open>The services\<close>

fun mam_works :: "work \<Rightarrow> bool" where
  "mam_works (Work_Mam _ _) = True"
| "mam_works (Work_Store (Operation_SaveRegistrationAttempt _)) = True"
| "mam_works _ = False"

fun client_works :: "work \<Rightarrow> bool" where
  "client_works (Work_Client _) = True"
| "client_works _ = False"

fun port_works :: "work \<Rightarrow> bool" where
  "port_works (Work_PortMapping _) = True"
| "port_works _ = False"

fun exit_works :: "work \<Rightarrow> bool" where
  "exit_works (Work_Tunnel TunnelRequest_CheckExitIp) = True"
| "exit_works _ = False"

fun push_works :: "work \<Rightarrow> bool" where
  "push_works (Work_Push _ _) = True"
| "push_works _ = False"

lemma answers_request_not_enable: "answers_request request q \<Longrightarrow> q \<noteq> QbittorrentEvent_Enable"
  by (cases request) auto

lemma answers_of_work:
  assumes "work_answered work e"
  shows "answers_mam e \<longleftrightarrow> mam_works work" and "answers_client e \<longleftrightarrow> client_works work"
    and "answers_port e \<longleftrightarrow> port_works work" and "answers_exit e \<longleftrightarrow> exit_works work"
    and "answers_push e \<longleftrightarrow> push_works work"
proof -
  have "(answers_mam e \<longleftrightarrow> mam_works work) \<and> (answers_client e \<longleftrightarrow> client_works work) \<and>
    (answers_port e \<longleftrightarrow> port_works work) \<and> (answers_exit e \<longleftrightarrow> exit_works work) \<and> (answers_push e \<longleftrightarrow> push_works work)"
  proof (cases work)
    case (Work_Store operation)
    with assms show ?thesis by (cases operation) auto
  next
    case (Work_PortMapping lifetime)
    with assms obtain p where "e = Event_PortForwarding p" "p \<noteq> PortForwardingEvent_Enable" by auto
    with Work_PortMapping show ?thesis by (cases p) simp_all
  next
    case (Work_Tunnel request)
    with assms show ?thesis by (cases request) auto
  qed (use assms answers_request_not_enable in auto)
  then show "answers_mam e \<longleftrightarrow> mam_works work" "answers_client e \<longleftrightarrow> client_works work"
    "answers_port e \<longleftrightarrow> port_works work" "answers_exit e \<longleftrightarrow> exit_works work" "answers_push e \<longleftrightarrow> push_works work"
    by auto
qed

lemma producible_no_answer:
  assumes "producible e"
  shows "\<not> answers_mam e" and "\<not> answers_client e" and "\<not> answers_port e" and "\<not> answers_exit e" and "\<not> answers_push e"
  using assms by (cases e rule: producible.cases; simp)+

interpretation mam_service: service is_mam_work work_busy answers_mam mam_works
proof unfold_locales
  show "is_mam_work a \<longleftrightarrow> (case action_work a of Some work \<Rightarrow> mam_works work | None \<Rightarrow> False)" for a by (cases a) simp_all
qed (use answers_of_work(1) producible_no_answer(1) in auto)

interpretation client_service: service is_client_request client_busy answers_client client_works
proof unfold_locales
  show "is_client_request a \<longleftrightarrow> (case action_work a of Some work \<Rightarrow> client_works work | None \<Rightarrow> False)" for a by (cases a) simp_all
qed (use answers_of_work(2) producible_no_answer(2) in auto)

interpretation port_service: service is_port_request port_busy answers_port port_works
proof unfold_locales
  show "is_port_request a \<longleftrightarrow> (case action_work a of Some work \<Rightarrow> port_works work | None \<Rightarrow> False)" for a by (cases a) simp_all
qed (use answers_of_work(3) producible_no_answer(3) in auto)

interpretation exit_service: service is_exit_check exit_busy answers_exit exit_works
proof unfold_locales
  show "is_exit_check a \<longleftrightarrow> (case action_work a of Some work \<Rightarrow> exit_works work | None \<Rightarrow> False)" for a by (cases a) simp_all
qed (use answers_of_work(4) producible_no_answer(4) in auto)

interpretation push_service: service is_push push_busy answers_push push_works
proof unfold_locales
  show "is_push a \<longleftrightarrow> (case action_work a of Some work \<Rightarrow> push_works work | None \<Rightarrow> False)" for a by (cases a) simp_all
qed (use answers_of_work(5) producible_no_answer(5) in auto)

subsection \<open>Work that was asked for\<close>

definition tracked :: "action \<Rightarrow> bool" where
  "tracked a \<longleftrightarrow> action_work a \<noteq> None \<or> action_command a \<noteq> None"

text \<open>Work whose completion is not queued yet.\<close>

definition unqueued :: "shell \<Rightarrow> nat" where
  "unqueued s = length (shell_tasks s) + length (filter (\<lambda>c. \<not> is_record c) (shell_commands s)) +
     length (filter is_completed (shell_reports s))"

lemma unqueued_frame [simp]:
  "unqueued (shell_record s at processed e actions) = unqueued s"
  "unqueued (s\<lparr>shell_queue := q\<rparr>) = unqueued s" "unqueued (s\<lparr>shell_active_workers := n\<rparr>) = unqueued s"
  "unqueued (s\<lparr>shell_ingress := i\<rparr>) = unqueued s"
  by (simp_all add: unqueued_def shell_record_def)

lemma dispatch_unqueued: "unqueued (shell_dispatch s a) = unqueued s + of_bool (tracked a)"
  by (cases a) (simp_all add: shell_dispatch_def shell_track_def shell_spawn_def unqueued_def tracked_def)

lemma dispatch_all_unqueued:
  "unqueued (fold (\<lambda>a s. shell_dispatch s a) actions s) = unqueued s + sent tracked actions"
  by (induction actions arbitrary: s) (simp_all add: dispatch_unqueued)

lemma shell_step_unqueued:
  "shell_step s inputs s' \<Longrightarrow> unqueued s' + length (filter is_completion inputs) = unqueued s"
proof (induction rule: shell_step.induct)
  case (writes s command rest sql writer log reports)
  from writer_step_completions [OF this(3)] writes show ?case by (auto simp: unqueued_def)
next
  case (report s report rest now)
  then show ?case by (cases report) (auto simp: unqueued_def shell_enqueue_def)
qed (auto simp: unqueued_def shell_enqueue_def)

lemma reach_unqueued:
  "loop_reach db log inputs turns r \<Longrightarrow>
     unqueued (runner_shell r) + length (filter is_completion inputs) = sent tracked (concat (map snd turns))"
proof (induction rule: loop_reach.induct)
  case start
  show ?case by (simp add: runner_new_def shell_new_def unqueued_def)
next
  case (step inputs turns r inputs' turns' r')
  from step(2) show ?case
  proof (cases rule: loop_step.cases)
    case (around s)
    with step(3) shell_step_unqueued [OF around(3)] show ?thesis by simp
  next
    case (turn at)
    have ok: "workers_ok (runner_shell r)" "events_ok (runner_shell r)"
      using loop_reach_ok [OF step(1)] by (simp_all add: loop_ok_def)
    then show ?thesis
    proof (cases rule: runner_turn_cases [of r at])
      case (handled i rest now e s core actions)
      with turn step(3) show ?thesis
        by (auto simp: dispatch_all_unqueued)
    qed (use turn step(3) in auto)
  qed
qed

subsection \<open>Properties\<close>

text \<open>
  C5. The program runs the machine: however its tasks, timers, producers, history writer and runner
  interleave, the core is where the machine gets by handling, one after another, the events handled so
  far, with the actions it asked for each; and these are the events queued, in the order they were
  queued, none lost, repeated or reordered, less those still in the queue.
\<close>

theorem program_runs_the_machine:
  assumes "loop_reach db log inputs turns r"
  shows "run machine_step core_new (map fst turns) = (runner_core r, map snd turns) \<and>
    concat (map input_events inputs) = map fst turns @ queued (runner_shell r)"
  using reach_runs_machine [OF assms] by (simp_all add: runs_machine_def)

text \<open>
  C4. The program neither panics nor fails: whatever the services, the clock and the disk do, no turn
  of the runner finds more completions than work it started or an event the core cannot handle, and
  every completion it takes brings an event.
\<close>

theorem program_never_panics:
  assumes "loop_reach db log inputs turns r"
  shows "runner_turn at r \<noteq> Progress_Panicked \<and> runner_turn at r \<noteq> Progress_Failed"
  using loop_reach_ok [OF assms] unfolding loop_ok_def
  by (elim conjE) (cases rule: runner_turn_cases [of r at], auto)


text \<open>
  C6. Every service has one request under way at most: counting the tasks that run and the results
  that have not been handled yet, there is never more than one request to MAM (with the registration
  attempt saved before one), to qBittorrent, to the gateway, to the exit-address service or to the
  push service, while the events handled carry calendar times to which an hour can be added.
\<close>

theorem one_request_under_way:
  assumes "loop_reach db log inputs turns r" and "list_all machine_input_ok (map fst turns)"
  shows "list_all (\<lambda>(works, answers). pending works answers (runner_shell r) \<le> 1)
    [(mam_works, answers_mam), (client_works, answers_client), (port_works, answers_port),
     (exit_works, answers_exit), (push_works, answers_push)]"
proof -
  have actions: "snd (run machine_step core_new (map fst turns)) = map snd turns"
    using reach_runs_machine [OF assms(1)] by (simp add: runs_machine_def)
  have answered: "length (filter (\<lambda>i. answers (snd i)) (map fst turns)) = length (filter (\<lambda>t. answers (snd (fst t))) turns)"
    for answers :: "event \<Rightarrow> bool" by (simp add: filter_map o_def)
  show ?thesis
    using mam_traffic.flights.sent_at_most [OF assms(2)] client_traffic.flights.sent_at_most [OF assms(2)]
      port_traffic.flights.sent_at_most [OF assms(2)] exit_traffic.flights.sent_at_most [OF assms(2)]
      push_traffic.flights.sent_at_most [OF assms(2)]
      mam_service.reach_pending [OF assms(1)] client_service.reach_pending [OF assms(1)]
      port_service.reach_pending [OF assms(1)] exit_service.reach_pending [OF assms(1)]
      push_service.reach_pending [OF assms(1)]
    unfolding actions answered by simp
qed

subsection \<open>Witnesses\<close>

definition witness_now :: clock_reading where
  "witness_now = \<lparr>monotonic = 0, wall = 0\<rparr>"

definition witness_log :: history_log where
  "witness_log = \<lparr>log_rows = [], log_sequence = 0\<rparr>"

text \<open>A producer submits one event and the runner handles it.\<close>

lemma witness_first:
  assumes "producible e"
  obtains core actions s where "core_handle core_new witness_now e = Some (core, actions)"
    "loop_reach None witness_log [Input_Event (witness_now, e)] [((witness_now, e), actions)] \<lparr>runner_core = core, runner_shell = s\<rparr>"
    "shell_tasks s = map Task_Running (List.map_filter action_work actions)" "shell_queue s = []"
    "shell_active_workers s = sent tracked actions" "shell_ingress s = IngressState_Open"
proof -
  let ?s = "shell_enqueue (shell_new None witness_log) (Input_Event (witness_now, e))"
  let ?r = "\<lparr>runner_core = core_new, runner_shell = ?s\<rparr>"
  have "shell_step (shell_new None witness_log) [Input_Event (witness_now, e)] ?s"
    by (rule shell_step.submit) (simp_all add: assms shell_new_def room_def EVENT_QUEUE_CAPACITY_def)
  then have reach: "loop_reach None witness_log [Input_Event (witness_now, e)] [] ?r"
    using loop_reach.step [OF loop_reach.start [of None witness_log] loop_step.around] by (fastforce simp: runner_new_def)
  have ok: "workers_ok (runner_shell ?r)" "events_ok (runner_shell ?r)"
    using loop_reach_ok [OF reach] by (simp_all add: loop_ok_def)
  then show ?thesis
  proof (cases rule: runner_turn_cases [of ?r 0])
    case (handled i rest now e' s core actions)
    have turn: "(now, e') = (witness_now, e)" "rest = []" "i = Input_Event (witness_now, e)"
      using handled(2,3) by (auto simp: shell_enqueue_def shell_new_def)
    have reached: "loop_reach None witness_log [Input_Event (witness_now, e)] [((witness_now, e), actions)]
       \<lparr>runner_core = core, runner_shell = fold (\<lambda>a s. shell_dispatch s a) actions (shell_record s (wall now) 0 e' actions)\<rparr>"
      using loop_reach.step [OF reach loop_step.turn [OF handled(1)]] turn by simp
    show ?thesis
      using that [OF _ reached] handled turn reach_unqueued [OF reached] loop_reach_ok [OF reached]
      by (auto simp: loop_ok_def workers_ok_def under_way_def unqueued_def shell_enqueue_def shell_new_def)
  qed (auto simp: shell_enqueue_def shell_new_def)
qed

theorem program_runs_the_machine_witness:
  "\<exists>actions r. loop_reach None witness_log
       [Input_Event (witness_now, Event_PortForwarding PortForwardingEvent_Enable)]
       [((witness_now, Event_PortForwarding PortForwardingEvent_Enable), actions)] r \<and>
     run machine_step core_new [(witness_now, Event_PortForwarding PortForwardingEvent_Enable)] = (runner_core r, [actions]) \<and>
     queued (runner_shell r) = []"
proof -
  obtain core actions s where reach: "loop_reach None witness_log
      [Input_Event (witness_now, Event_PortForwarding PortForwardingEvent_Enable)]
      [((witness_now, Event_PortForwarding PortForwardingEvent_Enable), actions)] \<lparr>runner_core = core, runner_shell = s\<rparr>"
    by (rule witness_first [of "Event_PortForwarding PortForwardingEvent_Enable"]) simp_all
  from reach program_runs_the_machine [OF reach] show ?thesis
    by (intro exI [of _ actions] exI [of _ "\<lparr>runner_core = core, runner_shell = s\<rparr>"])
      (simp del: run.simps machine_step.simps)
qed

lemma enable_asks_for_a_port:
  assumes "core_handle core_new witness_now (Event_PortForwarding PortForwardingEvent_Enable) = Some (core, actions)"
  shows "0 < sent is_port_request actions"
proof (cases rule: machine_step_cases [of core_new witness_now "Event_PortForwarding PortForwardingEvent_Enable"])
  case (step c1 a1 c2 a2)
  have "0 < sent is_port_request a1"
    using step(1) by (auto simp: core_handle_port_def core_receive_def core_new_def split_beta Let_def)
  with step(3) assms show ?thesis by simp
qed (use assms in simp)

theorem one_request_under_way_witness:
  "\<exists>turns r. loop_reach None witness_log [Input_Event (witness_now, Event_PortForwarding PortForwardingEvent_Enable)] turns r \<and>
     pending port_works answers_port (runner_shell r) = 1"
proof -
  obtain core actions s where h: "core_handle core_new witness_now (Event_PortForwarding PortForwardingEvent_Enable) = Some (core, actions)"
    and reach: "loop_reach None witness_log [Input_Event (witness_now, Event_PortForwarding PortForwardingEvent_Enable)]
      [((witness_now, Event_PortForwarding PortForwardingEvent_Enable), actions)] \<lparr>runner_core = core, runner_shell = s\<rparr>"
    by (rule witness_first [of "Event_PortForwarding PortForwardingEvent_Enable"]) simp_all
  have "list_all machine_input_ok (map fst [((witness_now, Event_PortForwarding PortForwardingEvent_Enable), actions)])"
    by (simp add: witness_now_def time_spaced_def SWITCH_SPACING_def time_defs)
  from one_request_under_way [OF reach this] have "pending port_works answers_port s \<le> 1" by simp
  moreover have "0 < pending port_works answers_port s"
    using port_service.reach_pending [OF reach] enable_asks_for_a_port [OF h] by simp
  ultimately show ?thesis using reach by (intro exI conjI) auto
qed

theorem program_never_panics_witness:
  "\<exists>r. loop_reach None witness_log [Input_Event (witness_now, Event_PortForwarding PortForwardingEvent_Enable)] [] r \<and>
     runner_turn 0 r \<noteq> Progress_Panicked"
proof -
  let ?e = "(witness_now, Event_PortForwarding PortForwardingEvent_Enable)"
  have "shell_step (shell_new None witness_log) [Input_Event ?e] (shell_enqueue (shell_new None witness_log) (Input_Event ?e))"
    by (rule shell_step.submit) (simp_all add: shell_new_def room_def EVENT_QUEUE_CAPACITY_def)
  then have "\<exists>r. loop_reach None witness_log [Input_Event ?e] [] r"
    using loop_reach.step [OF loop_reach.start [of None witness_log] loop_step.around] by (fastforce simp: runner_new_def)
  with program_never_panics show ?thesis by blast
qed


end
