(* ===== verification/History_Record.thy ===== *)
theory History_Record
  imports Program "HOL-Library.Sublist"
begin

text \<open>
  What the history table says of a run: its rows are handled events with the actions they led to, in
  the order they were handled, whatever entries are buffered, lost or trimmed on the way.
\<close>

type_synonym account = "event \<times> action list"

definition row_account :: "history_row \<Rightarrow> account" where
  "row_account row = (row_event row, row_actions row)"

definition entry_account :: "history_entry \<Rightarrow> account" where
  "entry_account entry = (entry_event entry, entry_actions entry)"

fun command_accounts :: "history_command \<Rightarrow> account list" where
  "command_accounts (Command_Record entry) = [entry_account entry]"
| "command_accounts _ = []"

definition turn_account :: "timed \<times> action list \<Rightarrow> account" where
  "turn_account t = (snd (fst t), snd t)"

text \<open>What is stored and what is on its way, oldest first.\<close>

definition written :: "history_writer \<times> history_log \<Rightarrow> account list" where
  "written wl = map row_account (log_rows (snd wl)) @ map entry_account (writer_buffer (fst wl))"

definition accounts :: "shell \<Rightarrow> account list" where
  "accounts s = written (shell_writer s, shell_log s) @ concat (map command_accounts (shell_commands s))"

definition buffer_ok :: "history_writer \<Rightarrow> bool" where
  "buffer_ok w \<longleftrightarrow> (writer_store w = Store_Open \<longrightarrow> writer_buffer w = [])"

lemma subseq_prefix [simp]: "subseq xs (xs @ ys)"
  by (induction xs) simp_all

lemma insert_rows [simp]: "map row_account (log_rows (log_insert log entry)) = map row_account (log_rows log) @ [entry_account entry]"
  by (simp add: log_insert_def Let_def row_account_def entry_account_def)

lemma log_record_rows:
  "subseq (map row_account (log_rows (fst (log_record sql log lost entry)))) (map row_account (log_rows log) @ [entry_account entry])"
  by (simp add: log_record_def)

lemma log_record_all_rows:
  "subseq (map row_account (log_rows (fst (log_record_all sql log lost entries))))
     (map row_account (log_rows log) @ map entry_account entries)"
proof (induction entries arbitrary: log lost)
  case (Cons entry entries)
  let ?r = "log_record sql log lost entry"
  have "subseq (map row_account (log_rows (fst (log_record_all sql (fst ?r) (fst (snd ?r)) entries))))
      (map row_account (log_rows (fst ?r)) @ map entry_account entries)" by (rule Cons)
  also have "subseq \<dots> ((map row_account (log_rows log) @ [entry_account entry]) @ map entry_account entries)"
    by (intro list_emb_append_mono log_record_rows) simp
  finally show ?case by (simp add: Let_def split_beta)
qed simp

lemma log_trim_rows: "subseq (map row_account (log_rows (log_trim log keep))) (map row_account (log_rows log))"
  by (simp add: log_trim_def subseq_map)

text \<open>The writer keeps the order of what it is given.\<close>

lemma writer_step_accounts:
  assumes "writer_step sql wl command = (wl', reports)" and "buffer_ok (fst wl)"
  shows "subseq (written wl') (written wl @ command_accounts command) \<and> buffer_ok (fst wl')"
proof (cases wl)
  case (Pair w log)
  show ?thesis
  proof (cases command)
    case (Command_Record entry)
    show ?thesis
    proof (cases "writer_store w = Store_Open")
      case True
      then have "writer_buffer w = []" using assms(2) Pair by (simp add: buffer_ok_def)
      then show ?thesis
        using assms(1) Pair Command_Record True log_record_rows [of sql log "writer_lost w" entry]
        by (auto simp: written_def buffer_ok_def Let_def split_beta)
    next
      case False
      then show ?thesis
        using assms(1) Pair Command_Record by (auto simp: written_def buffer_ok_def split: if_splits)
    qed
  next
    case Command_Open
    then show ?thesis
      using assms Pair log_record_all_rows [of sql log "writer_lost w" "writer_buffer w"]
      by (auto simp: written_def buffer_ok_def Let_def split_beta split: if_splits)
  next
    case (Command_Trim keep)
    then show ?thesis
      using assms Pair log_trim_rows [of log "unat keep"]
      by (auto simp: written_def buffer_ok_def Let_def split_beta list_emb_append_mono split: if_splits)
  qed
qed

lemma dispatch_all_accounts: "accounts (fold (\<lambda>a s. shell_dispatch s a) actions s) = accounts s"
  and dispatch_all_writer: "shell_writer (fold (\<lambda>a s. shell_dispatch s a) actions s) = shell_writer s"
proof -
  have one: "accounts (shell_dispatch s a) = accounts s \<and> shell_writer (shell_dispatch s a) = shell_writer s" for s a
    by (cases a) (simp_all add: accounts_def shell_dispatch_def shell_track_def shell_spawn_def)
  show "accounts (fold (\<lambda>a s. shell_dispatch s a) actions s) = accounts s"
    "shell_writer (fold (\<lambda>a s. shell_dispatch s a) actions s) = shell_writer s"
    using one by (induction actions arbitrary: s) simp_all
qed

lemma record_writer: "shell_writer (shell_record s at processed e actions) = shell_writer s"
  by (simp add: shell_record_def)

lemma shell_step_accounts:
  "shell_step s inputs s' \<Longrightarrow> buffer_ok (shell_writer s) \<Longrightarrow> subseq (accounts s') (accounts s) \<and> buffer_ok (shell_writer s')"
proof (induction rule: shell_step.induct)
  case (writes s command rest sql writer log reports)
  from writer_step_accounts [OF this(3)] writes(4)
  have "subseq (written (writer, log)) (written (shell_writer s, shell_log s) @ command_accounts command)" "buffer_ok writer"
    by simp_all
  with list_emb_append_mono [OF this(1) subseq_order.order_refl] show ?case
    using writes(2) by (simp add: accounts_def)
qed (simp_all add: accounts_def shell_enqueue_def)

lemma reach_accounts:
  "loop_reach db log inputs turns r \<Longrightarrow>
     subseq (accounts (runner_shell r)) (map row_account (log_rows log) @ map turn_account turns) \<and>
     buffer_ok (shell_writer (runner_shell r))"
proof (induction rule: loop_reach.induct)
  case start
  show ?case by (simp add: runner_new_def shell_new_def accounts_def written_def writer_new_def buffer_ok_def)
next
  case (step inputs turns r inputs' turns' r')
  from step(2) show ?case
  proof (cases rule: loop_step.cases)
    case (around s)
    with step(3) shell_step_accounts [OF around(3)] show ?thesis by (auto intro: subseq_order.order_trans)
  next
    case (turn at)
    have ok: "workers_ok (runner_shell r)" "events_ok (runner_shell r)"
      using loop_reach_ok [OF step(1)] by (simp_all add: loop_ok_def)
    then show ?thesis
    proof (cases rule: runner_turn_cases [of r at])
      case (handled i rest now e s core actions)
      have "accounts (shell_record s (wall now) at e actions) = accounts (runner_shell r) @ [(e, actions)]"
        using handled(4) by (simp add: accounts_def shell_record_def entry_account_def)
      then have "accounts (runner_shell r') = accounts (runner_shell r) @ map turn_account turns'"
        "shell_writer (runner_shell r') = shell_writer (runner_shell r)"
        using turn handled by (auto simp: dispatch_all_accounts dispatch_all_writer turn_account_def record_writer)
      with step(3) list_emb_append_mono [OF _ subseq_order.order_refl] show ?thesis
        by (simp flip: append_assoc)
    qed (use turn step(3) in \<open>auto simp: accounts_def\<close>)
  qed
qed

subsection \<open>Properties\<close>

text \<open>
  C30. History tells what happened: in every state the program reaches, the rows of the history table
  are, in order, events that were handled with the actions each led to, after those of earlier runs;
  entries may be missing, none is invented, altered, repeated or out of order.
\<close>

theorem history_is_a_faithful_record:
  assumes "loop_reach db log inputs turns r"
  shows "subseq (map row_account (log_rows (shell_log (runner_shell r))))
    (map row_account (log_rows log) @ map turn_account turns)"
proof -
  have "subseq (map row_account (log_rows (shell_log (runner_shell r)))) (accounts (runner_shell r))"
    by (simp add: accounts_def written_def)
  with reach_accounts [OF assms] show ?thesis by (blast intro: subseq_order.order_trans)
qed

definition witness_stored :: history_log where
  "witness_stored = log_insert witness_log
     \<lparr>entry_occurred_at = 0, entry_processed_at = 0, entry_event = Event_Startup StartupEvent_StorageOpened, entry_actions = []\<rparr>"

theorem history_is_a_faithful_record_witness:
  "\<exists>r. loop_reach None witness_stored [] [] r \<and>
     map row_account (log_rows (shell_log (runner_shell r))) = [(Event_Startup StartupEvent_StorageOpened, [])] \<and>
     subseq (map row_account (log_rows (shell_log (runner_shell r)))) [(Event_Startup StartupEvent_StorageOpened, [])]"
proof -
  let ?r = "runner_new None witness_stored"
  have rows: "map row_account (log_rows witness_stored) = [(Event_Startup StartupEvent_StorageOpened, [])]"
    by (simp add: witness_stored_def witness_log_def entry_account_def)
  have "subseq (map row_account (log_rows (shell_log (runner_shell ?r)))) (map row_account (log_rows witness_stored) @ map turn_account [])"
    by (rule history_is_a_faithful_record [OF loop_reach.start])
  with rows loop_reach.start show ?thesis by (intro exI [of _ ?r]) (simp add: runner_new_def shell_new_def)
qed

end
