(* ===== verification/Progress.thy ===== *)
theory Progress
  imports Program
begin

text \<open>
  The bounded queue blocks nobody for good: the runner never waits for room, so it can always empty the
  queue, and then every task, every command of the history writer and every report can go on.
\<close>

subsection \<open>Nothing blocks\<close>

text \<open>Several steps, with the inputs they queue and the events they handle.\<close>

inductive loop_run :: "runner \<Rightarrow> input list \<Rightarrow> turns \<Rightarrow> runner \<Rightarrow> bool" where
  stay: "loop_run r [] [] r"
| go: "loop_step r inputs turns r' \<Longrightarrow> loop_run r' inputs' turns' r'' \<Longrightarrow> loop_run r (inputs @ inputs') (turns @ turns') r''"

lemma loop_run_trans:
  "loop_run r inputs turns r' \<Longrightarrow> loop_run r' inputs' turns' r'' \<Longrightarrow> loop_run r (inputs @ inputs') (turns @ turns') r''"
  by (induction rule: loop_run.induct) (auto intro: loop_run.intros)

lemma loop_run_step: "loop_step r inputs turns r' \<Longrightarrow> loop_run r inputs turns r'"
  using loop_run.go [OF _ loop_run.stay] by fastforce

lemma loop_run_ok: "loop_run r inputs turns r' \<Longrightarrow> loop_ok r \<Longrightarrow> loop_ok r'"
  by (induction rule: loop_run.induct) (auto intro: loop_step_ok)

lemma loop_reach_run:
  "loop_run r inputs' turns' r' \<Longrightarrow> loop_reach db log inputs turns r \<Longrightarrow> loop_reach db log (inputs @ inputs') (turns @ turns') r'"
proof (induction arbitrary: inputs turns rule: loop_run.induct)
  case (go r i t r' i' t' r'')
  from go(3) [OF loop_reach.step [OF go(4,1)]] show ?case by simp
qed simp

lemma dispatch_all_commands:
  "\<exists>commands. shell_commands (fold (\<lambda>a s. shell_dispatch s a) actions s) = shell_commands s @ commands"
proof (induction actions arbitrary: s)
  case (Cons a actions)
  have "\<exists>commands. shell_commands (shell_dispatch s a) = shell_commands s @ commands"
    by (cases a) (simp_all add: shell_dispatch_def shell_track_def shell_spawn_def)
  with Cons [of "shell_dispatch s a"] show ?case by auto
qed simp

text \<open>What the runner leaves of the work under way: it only adds to it.\<close>

definition extends :: "shell \<Rightarrow> shell \<Rightarrow> bool" where
  "extends s s' \<longleftrightarrow> shell_reports s' = shell_reports s \<and> (\<exists>ts. shell_tasks s' = shell_tasks s @ ts) \<and>
     (\<exists>cs. shell_commands s' = shell_commands s @ cs)"

lemma extends_trans: "extends s s' \<Longrightarrow> extends s' s'' \<Longrightarrow> extends s s''"
  by (auto simp: extends_def)

lemma turn_extends:
  assumes "loop_ok r" and "shell_queue (runner_shell r) = i # rest"
  obtains turns r' where "loop_step r [] turns r'" "shell_queue (runner_shell r') = rest" "map fst turns = input_events i"
    "extends (runner_shell r) (runner_shell r')"
proof -
  have ok: "workers_ok (runner_shell r)" "events_ok (runner_shell r)" using assms(1) by (simp_all add: loop_ok_def)
  then show ?thesis
  proof (cases rule: runner_turn_cases [of r 0])
    case (noted s rest')
    with assms(2) that [OF loop_step.turn [OF noted(1)]] show ?thesis by (simp add: extends_def)
  next
    case (handled i' rest' now e s core actions)
    obtain cs where "shell_commands (fold (\<lambda>a s. shell_dispatch s a) actions (shell_record s (wall now) 0 e actions)) =
        shell_commands (shell_record s (wall now) 0 e actions) @ cs" using dispatch_all_commands by blast
    with handled assms(2) that [OF loop_step.turn [OF handled(1)]] show ?thesis
      by (auto simp: extends_def shell_record_def)
  qed (use assms(2) in simp_all)
qed

lemma runner_drains:
  assumes "loop_ok r"
  shows "\<exists>turns r'. loop_run r [] turns r' \<and> shell_queue (runner_shell r') = [] \<and> map fst turns = queued (runner_shell r) \<and>
    extends (runner_shell r) (runner_shell r')"
  using assms
proof (induction "shell_queue (runner_shell r)" arbitrary: r)
  case Nil
  then have "loop_run r [] [] r" "queued (runner_shell r) = []" "extends (runner_shell r) (runner_shell r)"
    by (simp_all add: loop_run.stay queued_def extends_def)
  with Nil(1) show ?case by (metis list.simps(8))
next
  case (Cons i rest)
  from Cons(2) [symmetric] obtain turns r' where r': "loop_step r [] turns r'" "shell_queue (runner_shell r') = rest"
    "map fst turns = input_events i" "extends (runner_shell r) (runner_shell r')"
    by (rule turn_extends [OF Cons(3)])
  then obtain turns' r'' where "loop_run r' [] turns' r''" "shell_queue (runner_shell r'') = []"
    "map fst turns' = queued (runner_shell r')" "extends (runner_shell r') (runner_shell r'')"
    using Cons(1) [of r'] loop_step_ok Cons(3) by blast
  with r' loop_run.go [OF r'(1)] extends_trans Cons(2) [symmetric] show ?case
    by (intro exI [of _ "turns @ turns'"] exI [of _ r'']) (auto simp: queued_def)
qed

definition completes :: "nat \<Rightarrow> runner \<Rightarrow> bool" where
  "completes n r \<longleftrightarrow> (\<exists>inputs turns r'. loop_run r inputs turns r' \<and> n \<le> length (filter is_completion inputs))"

lemma completes_after: "loop_run r inputs turns r' \<Longrightarrow> completes n r' \<Longrightarrow> completes n r"
  unfolding completes_def by (metis (no_types, lifting) filter_append length_append loop_run_trans trans_le_add2)

text \<open>The history writer's reports are queued one by one, as the runner makes room.\<close>

lemma reports_are_sent:
  assumes "loop_ok r"
  shows "\<exists>inputs turns r'. loop_run r inputs turns r' \<and> shell_reports (runner_shell r') = [] \<and>
    (\<exists>cs. shell_commands (runner_shell r') = shell_commands (runner_shell r) @ cs) \<and>
    length (filter is_completion inputs) = length (filter is_completed (shell_reports (runner_shell r)))"
  using assms
proof (induction "shell_reports (runner_shell r)" arbitrary: r)
  case Nil
  then show ?case using loop_run.stay by (intro exI [of _ "[]"] exI [of _ r]) auto
next
  case (Cons report rest)
  obtain turns r1 where r1: "loop_run r [] turns r1" "shell_queue (runner_shell r1) = []"
    "extends (runner_shell r) (runner_shell r1)" using runner_drains [OF Cons(3)] by blast
  let ?i = "report_input \<lparr>monotonic = 0, wall = 0\<rparr> report"
  define s where "s = shell_enqueue ((runner_shell r1)\<lparr>shell_reports := rest\<rparr>) ?i"
  have step: "loop_step r1 [?i] [] (r1\<lparr>runner_shell := s\<rparr>)"
    unfolding s_def using r1 Cons(2) [symmetric]
    by (intro loop_step.around shell_step.report) (simp_all add: extends_def room_def EVENT_QUEUE_CAPACITY_def)
  have "loop_ok (r1\<lparr>runner_shell := s\<rparr>)" using loop_step_ok [OF step] loop_run_ok [OF r1(1) Cons(3)] by simp
  then obtain inputs' turns' r2 where r2: "loop_run (r1\<lparr>runner_shell := s\<rparr>) inputs' turns' r2"
    "shell_reports (runner_shell r2) = []" "\<exists>cs. shell_commands (runner_shell r2) = shell_commands s @ cs"
    "length (filter is_completion inputs') = length (filter is_completed rest)"
    using Cons(1) [of "r1\<lparr>runner_shell := s\<rparr>"] by (auto simp: s_def shell_enqueue_def)
  have "loop_run r ([] @ [?i] @ inputs') (turns @ [] @ turns') r2"
    by (intro loop_run_trans [OF r1(1)] loop_run.go [OF step] r2(1))
  moreover have "is_completion ?i = is_completed report" by (cases report) simp_all
  ultimately show ?case
    using r1(3) r2(2-) Cons(2) [symmetric]
    by (intro exI [of _ "?i # inputs'"] exI [of _ "turns @ turns'"] exI [of _ r2])
      (auto simp: extends_def s_def shell_enqueue_def)
qed

lemma reports_complete: "loop_ok r \<Longrightarrow> filter is_completed (shell_reports (runner_shell r)) \<noteq> [] \<Longrightarrow> completes 1 r"
  using reports_are_sent [of r] unfolding completes_def by (metis One_nat_def Suc_leI length_greater_0_conv)

text \<open>The writer gets to every command.\<close>

lemma command_completes:
  assumes "loop_ok r" and "shell_commands (runner_shell r) = records @ command # rest" and "\<not> is_record command"
    and "list_all is_record records"
  shows "completes 1 r"
  using assms
proof (induction records arbitrary: r rest)
  case Nil
  obtain inputs turns r1 where r1: "loop_run r inputs turns r1" "shell_reports (runner_shell r1) = []"
    "\<exists>cs. shell_commands (runner_shell r1) = shell_commands (runner_shell r) @ cs"
    using reports_are_sent [OF Nil(1)] by blast
  obtain writer log reports where w:
    "writer_step working (shell_writer (runner_shell r1), shell_log (runner_shell r1)) command = ((writer, log), reports)"
    by (metis surj_pair)
  obtain rest' where "shell_commands (runner_shell r1) = command # rest'" using r1(3) Nil(2) by auto
  from loop_step.around [OF shell_step.writes [OF r1(2) this w]]
  obtain r2 where step: "loop_step r1 [] [] r2" and r2: "shell_reports (runner_shell r2) = reports" by fastforce
  have "completes 1 r2"
    using loop_step_ok [OF step loop_run_ok [OF r1(1) Nil(1)]] writer_step_completions [OF w] Nil(3) r2
    by (intro reports_complete) auto
  then show ?case by (intro completes_after [OF r1(1)] completes_after [OF loop_run_step [OF step]])
next
  case (Cons entry records)
  obtain inputs turns r1 where r1: "loop_run r inputs turns r1" "shell_reports (runner_shell r1) = []"
    "\<exists>cs. shell_commands (runner_shell r1) = shell_commands (runner_shell r) @ cs"
    using reports_are_sent [OF Cons(2)] by blast
  obtain writer log reports where w:
    "writer_step working (shell_writer (runner_shell r1), shell_log (runner_shell r1)) entry = ((writer, log), reports)"
    by (metis surj_pair)
  obtain rest' where "shell_commands (runner_shell r1) = entry # records @ command # rest'" using r1(3) Cons(3) by auto
  from loop_step.around [OF shell_step.writes [OF r1(2) this w]]
  obtain r2 where step: "loop_step r1 [] [] r2" and r2: "shell_commands (runner_shell r2) = records @ command # rest'" by fastforce
  have "completes 1 r2"
    using loop_step_ok [OF step loop_run_ok [OF r1(1) Cons(2)]] Cons(1) [OF _ r2] Cons(4,5) by simp
  then show ?case by (intro completes_after [OF r1(1)] completes_after [OF loop_run_step [OF step]])
qed

lemma task_completes:
  assumes "loop_ok r" and "shell_tasks (runner_shell r) = task # rest"
  shows "completes 1 r"
proof -
  have finished: "completes 1 r'" if ok: "loop_ok r'" and tasks: "shell_tasks (runner_shell r') = Task_Finished timed # ts" for r' timed ts
  proof -
    obtain turns r1 where r1: "loop_run r' [] turns r1" "shell_queue (runner_shell r1) = []"
      "extends (runner_shell r') (runner_shell r1)" using runner_drains [OF ok] by blast
    then obtain ts' where "shell_tasks (runner_shell r1) = [] @ Task_Finished timed # ts'"
      using tasks by (auto simp: extends_def)
    from shell_step.complete [OF this] r1(2)
    obtain s where "shell_step (runner_shell r1) [Input_Completed (Some timed)] s"
      by (auto simp: room_def EVENT_QUEUE_CAPACITY_def)
    from loop_run_step [OF loop_step.around [OF this]] have "completes 1 r1"
      unfolding completes_def by (intro exI [of _ "[Input_Completed (Some timed)]"]) auto
    then show ?thesis by (rule completes_after [OF r1(1)])
  qed
  show ?thesis
  proof (cases task)
    case (Task_Running work)
    obtain w where w: "w = (undefined :: world)" by simp
    obtain db e where "work_run w (shell_file (runner_shell r)) work = (db, e)" by fastforce
    from loop_step.around [OF shell_step.finish [OF _ this, of "[]" rest]] assms(2) Task_Running
    obtain r' timed where step: "loop_step r [] [] r'" "shell_tasks (runner_shell r') = Task_Finished timed # rest"
      by fastforce
    with finished [OF loop_step_ok [OF step(1) assms(1)] step(2)] show ?thesis
      by (auto intro: completes_after [OF loop_run_step [OF step(1)]])
  next
    case (Task_Finished timed)
    with finished [OF assms(1)] assms(2) show ?thesis by blast
  qed
qed

lemma work_completes:
  assumes "loop_ok r" and "0 < unqueued (runner_shell r)"
  shows "completes 1 r"
proof (cases "list_all is_record (shell_commands (runner_shell r))")
  case False
  then have "\<exists>command \<in> set (shell_commands (runner_shell r)). \<not> is_record command" by (simp add: list_all_iff)
  from split_list_first_prop [OF this] obtain records command rest where
    "shell_commands (runner_shell r) = records @ command # rest" "\<not> is_record command" "list_all is_record records"
    by (auto simp: list_all_iff)
  then show ?thesis by (rule command_completes [OF assms(1)])
next
  case True
  then have "filter (\<lambda>c. \<not> is_record c) (shell_commands (runner_shell r)) = []"
    by (simp add: list_all_iff filter_empty_conv)
  with assms(2) consider task ts where "shell_tasks (runner_shell r) = task # ts"
    | "filter is_completed (shell_reports (runner_shell r)) \<noteq> []"
    by (cases "shell_tasks (runner_shell r)") (auto simp: unqueued_def)
  then show ?thesis using task_completes [OF assms(1)] reports_complete [OF assms(1)] by cases auto
qed

lemma reach_completes:
  assumes "loop_reach db log inputs turns r" and "n \<le> sent tracked (concat (map snd turns))"
  shows "\<exists>inputs' turns' r'. loop_run r inputs' turns' r' \<and> n \<le> length (filter is_completion (inputs @ inputs'))"
  using assms
proof (induction "n - length (filter is_completion inputs)" arbitrary: inputs turns r rule: less_induct)
  case less
  show ?case
  proof (cases "n \<le> length (filter is_completion inputs)")
    case True
    then show ?thesis using loop_run.stay by fastforce
  next
    case False
    then have "0 < unqueued (runner_shell r)" using reach_unqueued [OF less(2)] less(3) by simp
    then obtain inputs1 turns1 r1 where r1: "loop_run r inputs1 turns1 r1" "1 \<le> length (filter is_completion inputs1)"
      using work_completes [OF loop_reach_ok [OF less(2)]] unfolding completes_def by blast
    from r1(2) False have "n - length (filter is_completion (inputs @ inputs1)) < n - length (filter is_completion inputs)"
      by simp
    moreover have "n \<le> sent tracked (concat (map snd (turns @ turns1)))" using less(3) by simp
    ultimately obtain inputs2 turns2 r2 where "loop_run r1 inputs2 turns2 r2"
      "n \<le> length (filter is_completion ((inputs @ inputs1) @ inputs2))"
      using less(1) [OF _ loop_reach_run [OF r1(1) less(2)]] by blast
    with loop_run_trans [OF r1(1)] show ?thesis
      by (intro exI [of _ "inputs1 @ inputs2"] exI [of _ "turns1 @ turns2"] exI [of _ r2]) auto
  qed
qed

subsection \<open>Properties\<close>



end
