(* ===== verification/Describe.thy ===== *)
theory Describe
  imports Notifications Ip_Text Floating
begin

text \<open>
  The words for values (the helpers of \<open>shell/describe.rs\<close>) that notices, history and the dashboard
  share. \<open>rfc\<close>, how the \<open>time\<close> crate writes the time so long after 1970, is a parameter.
\<close>

subsection \<open>Display\<close>

text \<open>How \<open>Display\<close> writes integers, IP addresses and the core's own values.\<close>

definition show_word :: "'a::len word \<Rightarrow> string" where
  "show_word n = show_nat (unat n)"

definition hex_char :: "nat \<Rightarrow> char" where
  "hex_char n = (if n < 10 then digit n else char_of (87 + n))"

fun show_hex :: "nat \<Rightarrow> string" where
  "show_hex n = (if n < 16 then [hex_char n] else show_hex (n div 16) @ [hex_char (n mod 16)])"

declare show_hex.simps [simp del]

definition ipv6_segments :: "128 word \<Rightarrow> nat list" where
  "ipv6_segments a = map (\<lambda>k. unat a div 2 ^ (16 * (7 - k)) mod 2 ^ 16) [0..<8]"

text \<open>The first longest run of zero segments, as its start and its length.\<close>

fun longest_zeroes :: "nat \<Rightarrow> nat \<times> nat \<Rightarrow> nat \<times> nat \<Rightarrow> nat list \<Rightarrow> nat \<times> nat" where
  "longest_zeroes i longest current [] = longest"
| "longest_zeroes i longest current (segment # segments) =
     (if segment = 0
      then (let current = (if snd current = 0 then i else fst current, snd current + 1)
            in longest_zeroes (i + 1) (if snd longest < snd current then current else longest) current segments)
      else longest_zeroes (i + 1) longest (0, 0) segments)"

definition ipv6_fmt :: "128 word \<Rightarrow> string" where
  "ipv6_fmt a =
     (let segments = ipv6_segments a; (start, len) = longest_zeroes 0 (0, 0) (0, 0) segments;
          groups = (\<lambda>gs. join_at CHR '':'' (map show_hex gs))
      in if take 6 segments = [0, 0, 0, 0, 0, 65535] then ''::ffff:'' @ ipv4_fmt (of_nat (unat a mod 2 ^ 32))
         else if 1 < len then groups (take start segments) @ ''::'' @ groups (drop (start + len) segments)
         else groups segments)"

fun ip_fmt :: "ip_addr \<Rightarrow> string" where
  "ip_fmt (IpAddr_V4 a) = ipv4_fmt a"
| "ip_fmt (IpAddr_V6 a) = ipv6_fmt a"

fun reported_version_fmt :: "reported_version \<Rightarrow> string" where
  "reported_version_fmt (ReportedVersion_Release v) = client_version_fmt v"
| "reported_version_fmt (ReportedVersion_Unrecognised text) = text"

fun nat_pmp_refusal_fmt :: "nat_pmp_refusal \<Rightarrow> string" where
  "nat_pmp_refusal_fmt NatPmpRefusal_UnsupportedVersion = ''unsupported version''"
| "nat_pmp_refusal_fmt NatPmpRefusal_NotAuthorized = ''not authorized''"
| "nat_pmp_refusal_fmt NatPmpRefusal_NetworkFailure = ''network failure''"
| "nat_pmp_refusal_fmt NatPmpRefusal_OutOfResources = ''out of resources''"
| "nat_pmp_refusal_fmt NatPmpRefusal_UnsupportedOpcode = ''unsupported opcode''"

fun queue_limit_fmt :: "queue_limit \<Rightarrow> string" where
  "queue_limit_fmt QueueLimit_Unlimited = ''no limit''"
| "queue_limit_fmt (QueueLimit_At count) = show_word count"

definition ratio_fmt :: "ratio \<Rightarrow> string" where
  "ratio_fmt r = (let cents = unat r mod 1000 div 10
     in show_nat (unat r div 1000) @ ''.'' @ (if cents < 10 then ''0'' else '''') @ show_nat cents)"

subsection \<open>Times, durations and sizes\<close>

definition timestamp :: "(duration \<Rightarrow> string option) \<Rightarrow> system_time \<Rightarrow> string" where
  "timestamp rfc time = unwrap_or '''' (Option.bind (time_since time 0) rfc)"

definition optional_time :: "(duration \<Rightarrow> string option) \<Rightarrow> system_time option \<Rightarrow> string" where
  "optional_time rfc time = (case time of None \<Rightarrow> ''none'' | Some time \<Rightarrow> timestamp rfc time)"

text \<open>\<open>as_secs_f64\<close>: the seconds, and the rest over a thousand million, rounded and added.\<close>

definition as_secs_f64 :: "duration \<Rightarrow> f64" where
  "as_secs_f64 d =
     (let s = f64_nearest False (as_secs d) 1; n = f64_nearest False (d mod 1000000000) 1000000000
      in f64_nearest False (f64_num s * f64_den n + f64_num n * f64_den s) (f64_den s * f64_den n))"

text \<open>\<open>{:.1}\<close>\<close>

definition f64_tenths :: "f64 \<Rightarrow> string" where
  "f64_tenths x = (let tenths = round_even (10 * f64_num x) (f64_den x)
     in show_nat (tenths div 10) @ ''.'' @ show_nat (tenths mod 10))"

definition size_units :: "string list" where
  "size_units = [''B'', ''KiB'', ''MiB'', ''GiB'', ''TiB'']"

fun size_loop :: "nat \<Rightarrow> nat \<Rightarrow> nat \<Rightarrow> nat \<times> nat \<times> nat" where
  "size_loop v unit tenths =
     (if 1024 \<le> v \<and> unit + 1 < length size_units then size_loop (v div 1024) (unit + 1) (v mod 1024 * 10 div 1024)
      else (v, unit, tenths))"

declare size_loop.simps [simp del]

definition size_text :: "byte_size \<Rightarrow> string" where
  "size_text bytes =
     (let (v, unit, tenths) = size_loop (unat bytes) 0 0
      in if unit = 0 then show_nat v @ '' B''
         else show_nat v @ ''.'' @ show_nat tenths @ '' '' @ size_units ! unit)"

definition gib :: "byte_size \<Rightarrow> string" where
  "gib bytes = (let tenths = unat bytes * 10 div 2 ^ 30 in show_nat (tenths div 10) @ ''.'' @ show_nat (tenths mod 10) @ '' GiB'')"

text \<open>The size shown is rounded down: the whole part counts the units that fit, and one digit follows.\<close>

lemma size_loop_fits:
  assumes "size_loop v unit tenths = (v', unit', tenths')" and "tenths < 10" and "unit < length size_units"
  shows "unit \<le> unit' \<and> unit' < length size_units \<and> tenths' < 10 \<and>
    v' * 1024 ^ (unit' - unit) \<le> v \<and> v < (v' + 1) * 1024 ^ (unit' - unit)"
  using assms
proof (induction v unit tenths rule: size_loop.induct)
  case (1 v unit tenths)
  show ?case
  proof (cases "1024 \<le> v \<and> unit + 1 < length size_units")
    case True
    let ?v = "v div 1024"
    from True "1.prems"(1) have "size_loop ?v (unit + 1) (v mod 1024 * 10 div 1024) = (v', unit', tenths')"
      by (subst (asm) size_loop.simps) simp
    moreover have "v mod 1024 * 10 div 1024 < 10" by (simp add: div_less_iff_less_mult)
    ultimately have ih: "unit + 1 \<le> unit'" "unit' < length size_units" "tenths' < 10"
      "v' * 1024 ^ (unit' - (unit + 1)) \<le> ?v" "?v < (v' + 1) * 1024 ^ (unit' - (unit + 1))"
      using "1.IH" True by auto
    have power: "(1024::nat) ^ (unit' - unit) = 1024 ^ (unit' - (unit + 1)) * 1024"
      using ih(1) by (metis Suc_diff_le Suc_eq_plus1 diff_Suc_Suc power_Suc2)
    have "v' * 1024 ^ (unit' - unit) \<le> v"
      using ih(4) mult_le_mono1 [of _ ?v 1024] div_times_less_eq_dividend [of v 1024] by (fastforce simp: power ac_simps)
    moreover have "v < (v' + 1) * 1024 ^ (unit' - unit)"
      using ih(5) by (simp add: power div_less_iff_less_mult flip: mult.assoc)
    ultimately show ?thesis using ih by simp
  next
    case False
    with "1.prems" show ?thesis by (subst (asm) size_loop.simps) (auto split: if_splits)
  qed
qed

subsection \<open>Words\<close>

fun timer_text :: "timer_name \<Rightarrow> string" where
  "timer_text TimerName_QbittorrentPoll = ''qBittorrent poll''"
| "timer_text TimerName_PortLease = ''forwarded-port lease''"
| "timer_text TimerName_TunnelCheck = ''tunnel check''"
| "timer_text TimerName_NotificationGrace = ''notification grace period''"
| "timer_text TimerName_NotificationRetry = ''notification retry''"
| "timer_text TimerName_Mam = ''MAM work''"

fun rejection_text :: "session_rejection \<Rightarrow> string" where
  "rejection_text SessionRejection_InvalidCookie = ''the API cookie is missing, invalid, or expired''"
| "rejection_text SessionRejection_IpMismatch = ''the session is locked to another IP''"
| "rejection_text SessionRejection_AsnMismatch = ''the session is locked to another network (ASN)''"
| "rejection_text SessionRejection_NotAllowed = ''the session may not set the dynamic seedbox IP''"
| "rejection_text SessionRejection_Other = ''MAM refused the session''"

fun mam_failure_text :: "mam_failure \<Rightarrow> string" where
  "mam_failure_text (MamFailure_Session reason) = ''MAM refused the session: '' @ rejection_text reason"
| "mam_failure_text (MamFailure_TooSoon (Some after)) =
     ''MAM asked Windlass to wait '' @ show_nat (as_secs after) @ '' seconds''"
| "mam_failure_text (MamFailure_TooSoon None) = ''MAM asked Windlass to wait''"
| "mam_failure_text (MamFailure_Refused (Some message)) = ''MAM refused: '' @ message"
| "mam_failure_text (MamFailure_Refused None) = ''MAM refused without a torrent file or reason''"
| "mam_failure_text MamFailure_NotKept = ''the torrent file could not be kept in storage''"
| "mam_failure_text MamFailure_Unreachable = ''MAM did not answer''"
| "mam_failure_text (MamFailure_Rejected status) = ''MAM answered with HTTP status '' @ show_word status"
| "mam_failure_text MamFailure_Malformed = ''MAM's answer was not understood''"

fun port_finding_text :: "port_finding \<Rightarrow> string" where
  "port_finding_text (PortFinding_Matches port) = ''qBittorrent listens on the forwarded port '' @ show_word port"
| "port_finding_text (PortFinding_Differs (Some listening) forwarded) =
     ''qBittorrent listened on '' @ show_word listening @ '', not the forwarded port '' @ show_word forwarded @
     ''; Windlass is setting it''"
| "port_finding_text (PortFinding_Differs None forwarded) =
     ''qBittorrent's listen port is unknown; the forwarded port is '' @ show_word forwarded"
| "port_finding_text PortFinding_NoForwardedPort = ''the VPN forwards no port''"

fun ip_finding_text :: "ip_finding \<Rightarrow> string" where
  "ip_finding_text (IpFinding_Matches ip) = ''MAM sees '' @ ip_fmt ip @ '', the tunnel's exit IP''"
| "ip_finding_text (IpFinding_Differs mam tunnel) =
     ''MAM sees '' @ ip_fmt mam @ '', but the tunnel's exit IP is '' @ ip_fmt tunnel"
| "ip_finding_text IpFinding_Unknown = ''the IP MAM sees, or the tunnel's, is unknown''"

definition findings_text :: "findings \<Rightarrow> string" where
  "findings_text f =
     port_finding_text (findings_listen_port f) @ ''; '' @
     (if findings_lease f = LeaseRenewal_Requested then ''a new forwarded-port lease was asked for''
      else ''no lease could be renewed'') @ ''; '' @
     ip_finding_text (findings_exit_ip f) @ ''; '' @
     (if findings_seedbox f = SeedboxConfirmation_Confirmed
      then ''the seedbox registration was confirmed and is renewed when allowed''
      else ''the seedbox registration was not confirmed; Windlass registers when allowed'') @ ''; '' @
     (case findings_interface f of
        None \<Rightarrow> ''qBittorrent is not bound to an interface''
      | Some interface \<Rightarrow> ''qBittorrent is bound to '' @ interface)"

fun client_standing_text :: "client_standing \<Rightarrow> string" where
  "client_standing_text ClientStanding_Unknown = ''not read yet''"
| "client_standing_text ClientStanding_NoneListed = ''MAM lists no client yet''"
| "client_standing_text ClientStanding_Listed = ''MAM lists the running version''"
| "client_standing_text ClientStanding_NotListed = ''MAM lists qBittorrent, but not the running version''"
| "client_standing_text ClientStanding_Refused = ''MAM marks the running version as not allowed''"
| "client_standing_text ClientStanding_NotUnderstood =
     ''MAM lists clients in a form Windlass cannot match to qBittorrent''"

fun hold_text :: "hold \<Rightarrow> string" where
  "hold_text Hold_MamUnavailable = ''MAM requests are paused, the VPN is down, or MAM refused the session''"
| "hold_text Hold_SeedboxUnconfirmed = ''MAM has not confirmed the seedbox for the current IP''"
| "hold_text Hold_DownloadsRefused =
     ''MAM refused a download; downloads stay held until Windlass restarts or the cookie changes''"
| "hold_text Hold_ClientUnavailable = ''qBittorrent is not connected, or MAM does not allow its version''"
| "hold_text (Hold_MamClientList standing) =
     ''MAM's client list does not show the running qBittorrent as allowed: '' @ client_standing_text standing"
| "hold_text (Hold_DownloadingLimit downloading limit) =
     show_word downloading @ '' downloads are running, and the limit is '' @ show_word limit"
| "hold_text Hold_AccountUnknown = ''the account has not been read from MAM yet''"
| "hold_text Hold_RatioLow = ''the ratio is below 2.0''"
| "hold_text (Hold_UnsatisfiedLimit count limit) =
     show_word count @ '' unsatisfied torrents of MAM's limit of '' @ show_word limit @
     '' leave no slot after the reserve of 2''"
| "hold_text Hold_NoWedge = ''the torrent needs a wedge and none is left''"
| "hold_text Hold_RatioUsed =
     ''MAM counted downloaded bytes against the ratio; downloads stay stopped until you check''"
| "hold_text Hold_RatioGuardUnknown =
     ''Windlass has not read whether ratio was used before, so it cannot tell''"
| "hold_text Hold_NotBookmarked = ''the queued torrents are no longer bookmarked''"

fun saved_ratio_guard_text :: "(duration \<Rightarrow> string option) \<Rightarrow> saved_ratio_guard \<Rightarrow> string" where
  "saved_ratio_guard_text rfc SavedRatioGuard_Unset = ''no downloaded figure watched yet''"
| "saved_ratio_guard_text rfc (SavedRatioGuard_Watching downloaded) =
     ''watching MAM's downloaded figure of '' @ size_text downloaded"
| "saved_ratio_guard_text rfc (SavedRatioGuard_Tripped used) =
     ''ratio used: MAM counted '' @ size_text (byte_size_less (use_after used) (use_before used)) @ '' on '' @
     timestamp rfc (use_at used) @ ''; downloads stopped until you check''"

definition looked_up_text :: "bookmark \<Rightarrow> string" where
  "looked_up_text listing =
     ''MAM torrent '' @ show_word (bookmark_id listing) @ '' looked up: '' @
     (case bookmark_freeleech listing of Freeleech_ForEveryone \<Rightarrow> ''freeleech, '' | Freeleech_No \<Rightarrow> '''') @
     (case bookmark_vip listing of VipTorrent_No \<Rightarrow> '''' | _ \<Rightarrow> ''VIP, '') @
     (case bookmark_personal listing of
        PersonalFreeleech_No \<Rightarrow> ''not free for you''
      | PersonalFreeleech_ThroughVip \<Rightarrow> ''free for you through VIP''
      | PersonalFreeleech_ThroughWedge \<Rightarrow> ''free for you through a wedge'') @
     (case bookmark_snatched listing of Snatched_Before \<Rightarrow> '', snatched before'' | Snatched_Never \<Rightarrow> '''')"

fun purchase_text :: "purchase \<Rightarrow> string" where
  "purchase_text Purchase_Vip = ''VIP, filled to 90 days''"

fun mam_request_text :: "mam_request \<Rightarrow> string" where
  "mam_request_text MamRequest_LookUpIp = ''Ask MAM which IP it sees''"
| "mam_request_text MamRequest_RegisterSeedbox = ''Register the seedbox IP with MAM''"
| "mam_request_text (MamRequest_LoadUserData clients) =
     ''Read the account from MAM'' @ (if clients = ClientListing_Include then '', with the client list'' else '''')"
| "mam_request_text (MamRequest_ListBookmarks start) = ''List bookmarks from number '' @ show_word start"
| "mam_request_text (MamRequest_FetchTorrent i wedge) =
     ''Download the torrent file of MAM torrent '' @ show_word i @ '', '' @
     (if wedge = Wedge_Spend then ''spending a wedge'' else ''without a wedge'')"
| "mam_request_text (MamRequest_Buy bought) = ''Buy '' @ purchase_text bought"
| "mam_request_text MamRequest_WedgeHistory = ''Read the wedges spent, from MAM's bonus history''"
| "mam_request_text (MamRequest_LookUpTorrent i) = ''Look up MAM torrent '' @ show_word i @ '' as it is now''"

fun mapping_failure_text :: "mapping_failure \<Rightarrow> string" where
  "mapping_failure_text MappingFailure_NoResponse = ''the gateway did not answer''"
| "mapping_failure_text (MappingFailure_Refused reason) =
     ''the gateway refused the mapping: '' @ nat_pmp_refusal_fmt reason"
| "mapping_failure_text MappingFailure_Malformed = ''the gateway's answer was not valid''"

fun qbittorrent_failure_text :: "qbittorrent_failure \<Rightarrow> string" where
  "qbittorrent_failure_text QbittorrentFailure_Unreachable = ''qBittorrent did not answer''"
| "qbittorrent_failure_text (QbittorrentFailure_Rejected status) =
     ''qBittorrent answered with HTTP status '' @ show_word status"
| "qbittorrent_failure_text QbittorrentFailure_Malformed = ''qBittorrent's answer was not understood''"

fun delivery_failure_text :: "delivery_failure \<Rightarrow> string" where
  "delivery_failure_text DeliveryFailure_Unreachable = ''ntfy did not answer''"
| "delivery_failure_text (DeliveryFailure_Rejected status) = ''ntfy answered with HTTP status '' @ show_word status"

fun exit_ip_failure_text :: "exit_ip_failure \<Rightarrow> string" where
  "exit_ip_failure_text ExitIpFailure_Unreachable = ''the exit-IP service did not answer''"
| "exit_ip_failure_text (ExitIpFailure_Rejected status) =
     ''the exit-IP service answered with HTTP status '' @ show_word status"
| "exit_ip_failure_text ExitIpFailure_Malformed = ''the exit-IP service's answer was not an address''"

fun startup_mode_text :: "startup_mode \<Rightarrow> string" where
  "startup_mode_text StartupMode_Initialise = ''initialise new storage''"
| "startup_mode_text StartupMode_Resume = ''resume existing storage''"

fun request_mode_text :: "mam_request_mode \<Rightarrow> string" where
  "request_mode_text MamRequestMode_Paused = ''paused''"
| "request_mode_text MamRequestMode_Enabled = ''running''"

fun torrent_command_text :: "torrent_command \<Rightarrow> string" where
  "torrent_command_text (TorrentCommand_Start hashes) = ''Start '' @ show_nat (length hashes) @ '' stopped torrents''"
| "torrent_command_text (TorrentCommand_SelectAllFiles hash) = ''Select every file of torrent '' @ hash"
| "torrent_command_text (TorrentCommand_Remove hashes) =
     ''Remove '' @ show_nat (length hashes) @ '' torrents and their files''"
| "torrent_command_text (TorrentCommand_Stop hashes) = ''Stop '' @ show_nat (length hashes) @ '' held torrents''"
| "torrent_command_text (TorrentCommand_ForceStart hashes) =
     ''Force-start '' @ show_nat (length hashes) @ '' torrents still short of 96 hours of seeding''"
| "torrent_command_text (TorrentCommand_EndForceStart hashes) =
     ''Return '' @ show_nat (length hashes) @ '' torrents that have seeded 96 hours to qBittorrent's queue''"
| "torrent_command_text (TorrentCommand_Add mam hash) =
     ''Add MAM torrent '' @ show_word mam @ '' ('' @ hash @ '') from its kept torrent file''"

end
