(* ===== verification/Notice_Text.thy ===== *)
theory Notice_Text
  imports Describe Services
begin

text \<open>
  What a notice says on the dashboard (\<open>message\<close>, \<open>shell/notify.rs\<close>): its title, its words, its
  priority, and the page that explains it, one table each. The shell pushes only the priority and a
  link (\<open>Services\<close>); the words stay on the dashboard.
\<close>

subsection \<open>Words\<close>

definition torrents_text :: "torrent_count \<Rightarrow> string" where
  "torrents_text count = (if count = 1 then ''1 torrent'' else show_word count @ '' torrents'')"

fun setting_text :: "setting_name \<Rightarrow> string" where
  "setting_text SettingName_MamRequests = ''The MAM request pause or resume''"
| "setting_text SettingName_HistoryLimit = ''The history limit''"
| "setting_text SettingName_ApiCookie = ''The MAM API cookie''"
| "setting_text SettingName_NtfyTopic = ''The notification topic''"
| "setting_text SettingName_PointsReserve = ''The bonus points reserve''"

fun blocked_text :: "(duration \<Rightarrow> string option) \<Rightarrow> switch_block \<Rightarrow> string" where
  "blocked_text rfc (SwitchBlock_Until at) =
     ''MAM allows one VPN IP change an hour, so Windlass can switch servers after '' @ timestamp rfc at @ ''.''"
| "blocked_text rfc SwitchBlock_LastSwitchUnknown =
     ''Windlass could not read when it last switched servers, so it will not switch.''"
| "blocked_text rfc SwitchBlock_NoOtherServer = ''No other VPN server is configured.''"

definition MAM_HOME :: string where
  "MAM_HOME = ''https://www.myanonamouse.net/''"

subsection \<open>Titles\<close>

primrec notice_title :: "notice \<Rightarrow> string" where
  "notice_title (Notice_Started mode) = ''Windlass started''"
| "notice_title Notice_StartupFailed = ''Windlass could not start''"
| "notice_title (Notice_VpnProtectionLost failures) = ''VPN not working''"
| "notice_title (Notice_VpnProtectionRestored ip server) = ''VPN working again''"
| "notice_title (Notice_FailoverStarted server) = ''Switching VPN server''"
| "notice_title (Notice_FailoverSucceeded server) = ''VPN server switched''"
| "notice_title (Notice_FailoverFailed server) = ''VPN server switch failed''"
| "notice_title (Notice_FailoverBlocked reason) = ''VPN switch blocked''"
| "notice_title Notice_ForwardedPortLost = ''No forwarded port''"
| "notice_title (Notice_ForwardedPortRestored port) = ''Forwarded port back''"
| "notice_title (Notice_QbittorrentUnreachable reason) = ''qBittorrent not responding''"
| "notice_title Notice_QbittorrentReachable = ''qBittorrent responding again''"
| "notice_title (Notice_QbittorrentVersionNotAllowed version) = ''qBittorrent version not allowed''"
| "notice_title (Notice_QbittorrentVersionAllowed version) = ''qBittorrent version allowed''"
| "notice_title (Notice_TorrentErrors count) = ''Torrents with errors''"
| "notice_title Notice_TorrentErrorsCleared = ''Torrent errors cleared''"
| "notice_title (Notice_FilesMissing count) = ''Files missing on disk''"
| "notice_title Notice_FilesMissingCleared = ''Missing files resolved''"
| "notice_title (Notice_TorrentsMissing count) = ''Torrents missing from qBittorrent''"
| "notice_title Notice_TorrentsMissingCleared = ''Torrents back in qBittorrent''"
| "notice_title Notice_RegistryNotSaved = ''Torrent records not saved''"
| "notice_title Notice_RegistrySaved = ''Torrent records saved''"
| "notice_title Notice_RegistryUnreadable = ''Torrent records unreadable''"
| "notice_title (Notice_SettingNotSaved name) = ''Setting not saved''"
| "notice_title Notice_HistoryUnavailable = ''History unavailable''"
| "notice_title (Notice_HistoryEntriesLost count) = ''History incomplete''"
| "notice_title Notice_Test = ''Test notification''"
| "notice_title (Notice_MamSessionRejected reason) = ''MAM refused the API session''"
| "notice_title Notice_MamSessionAccepted = ''MAM session working''"
| "notice_title Notice_SeedboxNotRegistered = ''Seedbox IP not registered''"
| "notice_title (Notice_SeedboxRegistered ip) = ''Seedbox IP registered''"
| "notice_title (Notice_MamIpUnknown failures) = ''Cannot see MAM's view of the IP''"
| "notice_title Notice_MamIpKnown = ''MAM IP lookups working''"
| "notice_title Notice_MamStateUnreadable = ''MAM state unreadable''"
| "notice_title (Notice_RatioLow ratio urgency) = ''Ratio below 2.0''"
| "notice_title Notice_RatioRestored = ''Ratio back above 2.0''"
| "notice_title (Notice_RatioUsed counted) = ''Ratio used: downloads stopped''"
| "notice_title Notice_RatioUseChecked = ''Downloads may run again''"
| "notice_title (Notice_UnsatisfiedNearLimit count limit) = ''Unsatisfied torrents near the limit''"
| "notice_title Notice_UnsatisfiedBelowLimit = ''Unsatisfied torrents below 80%''"
| "notice_title (Notice_UnsatisfiedNotSeeding count) = ''Unsatisfied torrents not seeding''"
| "notice_title Notice_UnsatisfiedSeeding = ''Unsatisfied torrents seeding''"
| "notice_title (Notice_MamFlagged partials tracker_errors flagged) = ''MAM flags the account's torrents''"
| "notice_title Notice_MamFlagsCleared = ''MAM flags cleared''"
| "notice_title (Notice_MamMessages count warning) =
     (if warning = ClientWarning_Given then ''MAM warns about a client'' else ''MAM has notifications'')"
| "notice_title (Notice_DownloadsHeld reason) = ''Downloads held''"
| "notice_title Notice_DownloadsResumed = ''Downloads resumed''"
| "notice_title Notice_NoWedgesLeft = ''No wedges left''"
| "notice_title (Notice_PointsBelowReserve points reserve) = ''Bonus points below the reserve''"
| "notice_title (Notice_VipEnding until) = ''VIP ending''"
| "notice_title Notice_DownloadsRefused = ''MAM refused a download''"
| "notice_title (Notice_SeedingBehind count) = ''Torrents behind on seeding''"
| "notice_title Notice_SeedingOnTrack = ''Seeding on track''"
| "notice_title (Notice_PurchaseMade bought points) = ''Bonus points spent''"
| "notice_title (Notice_PurchaseRefused wanted) = ''Purchase refused''"
| "notice_title (Notice_PurchaseUncertain wanted) = ''Purchase uncertain''"
| "notice_title Notice_WedgeNotSpent = ''Wedge not spent''"
| "notice_title (Notice_DownloadNotFree outcome) =
     (case outcome of
        NotFreeOutcome_Stopped \<Rightarrow> ''Download stopped''
      | NotFreeOutcome_FinishedFirst \<Rightarrow> ''Download may have cost ratio'')"
| "notice_title Notice_WedgedMidDownload = ''Wedge spent on a running download''"
| "notice_title (Notice_PurchaseSettled wanted sale) = ''Purchase settled''"
| "notice_title (Notice_PurchaseNeedsChecking wanted) = ''Check a purchase on MAM''"
| "notice_title (Notice_MamClientNotListed standing) = ''qBittorrent not listed by MAM''"
| "notice_title Notice_MamClientListed = ''qBittorrent listed by MAM''"
| "notice_title (Notice_NotConnectable findings) = ''qBittorrent not connectable''"
| "notice_title Notice_ConnectableAgain = ''qBittorrent connectable''"
| "notice_title Notice_MamVisitReminder = ''Visit MAM''"

subsection \<open>Bodies\<close>

primrec notice_body :: "(duration \<Rightarrow> string option) \<Rightarrow> notice \<Rightarrow> string" where
  "notice_body rfc (Notice_Started mode) =
     (case mode of
        StartupMode_Initialise \<Rightarrow> ''Windlass started with new storage.''
      | StartupMode_Resume \<Rightarrow> ''Windlass started and resumed its saved state.'')"
| "notice_body rfc Notice_StartupFailed =
     ''Startup failed, so Windlass does nothing until it is restarted. The dashboard shows the storage error.''"
| "notice_body rfc (Notice_VpnProtectionLost failures) =
     ''The last '' @ show_word failures @ '' tunnel checks failed, so torrent traffic is stopped.''"
| "notice_body rfc (Notice_VpnProtectionRestored ip server) =
     ''Traffic flows through '' @ unwrap_or ''the VPN'' server @ '' with exit IP '' @ ip_fmt ip @ ''.''"
| "notice_body rfc (Notice_FailoverStarted server) =
     ''The tunnel stopped working, so Windlass is switching to '' @ server @ ''.''"
| "notice_body rfc (Notice_FailoverSucceeded server) =
     ''Windlass now uses '' @ server @ '' and is checking the tunnel.''"
| "notice_body rfc (Notice_FailoverFailed server) =
     ''Switching to '' @ server @ '' failed. Windlass keeps checking the tunnel.''"
| "notice_body rfc (Notice_FailoverBlocked reason) = ''The tunnel is not working. '' @ blocked_text rfc reason"
| "notice_body rfc Notice_ForwardedPortLost =
     ''ProtonVPN has not granted a forwarded port for 5 minutes, so peers cannot connect in.''"
| "notice_body rfc (Notice_ForwardedPortRestored port) =
     ''Peers can connect in on port '' @ show_word port @ '' again.''"
| "notice_body rfc (Notice_QbittorrentUnreachable reason) = qbittorrent_failure_text reason @ '' for 5 minutes.''"
| "notice_body rfc Notice_QbittorrentReachable = ''Windlass is in contact with qBittorrent again.''"
| "notice_body rfc (Notice_QbittorrentVersionNotAllowed version) =
     ''MAM does not allow qBittorrent '' @ reported_version_fmt version @ ''. Use a 5.0.1 to 5.2.x release.''"
| "notice_body rfc (Notice_QbittorrentVersionAllowed version) =
     ''MAM allows qBittorrent '' @ reported_version_fmt version @ ''.''"
| "notice_body rfc (Notice_TorrentErrors count) = ''qBittorrent reports errors for '' @ torrents_text count @ ''.''"
| "notice_body rfc Notice_TorrentErrorsCleared = ''No torrent reports an error.''"
| "notice_body rfc (Notice_FilesMissing count) =
     torrents_text count @ '' '' @ (if count = 1 then ''has'' else ''have'') @
     '' missing files. Windlass does not download them again without you.''"
| "notice_body rfc Notice_FilesMissingCleared = ''No torrent has missing files.''"
| "notice_body rfc (Notice_TorrentsMissing count) =
     torrents_text count @ '' Windlass manages '' @ (if count = 1 then ''is'' else ''are'') @ '' not in qBittorrent.''"
| "notice_body rfc Notice_TorrentsMissingCleared = ''Every torrent Windlass manages is in qBittorrent.''"
| "notice_body rfc Notice_RegistryNotSaved =
     ''Windlass has not saved its torrent records for 2 minutes and keeps retrying.''"
| "notice_body rfc Notice_RegistrySaved = ''Windlass saves its torrent records again.''"
| "notice_body rfc Notice_RegistryUnreadable =
     ''Windlass could not read its torrent records, so torrents are shown but not managed.''"
| "notice_body rfc (Notice_SettingNotSaved name) = setting_text name @ '' could not be saved.''"
| "notice_body rfc Notice_HistoryUnavailable =
     ''History storage could not be opened, so events are not recorded.''"
| "notice_body rfc (Notice_HistoryEntriesLost count) = show_word count @ '' history entries could not be saved.''"
| "notice_body rfc Notice_Test = ''Notifications from Windlass reach this topic.''"
| "notice_body rfc (Notice_MamSessionRejected reason) =
     ''MAM requests that need the cookie have stopped: '' @ rejection_text reason @
     ''. Create a new session from the VPN and enter it on the settings page.''"
| "notice_body rfc Notice_MamSessionAccepted = ''MAM accepts the API session again.''"
| "notice_body rfc Notice_SeedboxNotRegistered =
     ''MAM has not registered the VPN's IP as the seedbox, so new downloads wait. '' @
     ''The dashboard shows why and when Windlass tries again.''"
| "notice_body rfc (Notice_SeedboxRegistered ip) = ''MAM has '' @ ip_fmt ip @ '' as the seedbox IP.''"
| "notice_body rfc (Notice_MamIpUnknown failures) =
     ''The last '' @ show_word failures @ '' IP lookups at MAM failed, so new downloads wait.''"
| "notice_body rfc Notice_MamIpKnown = ''Windlass sees the IP MAM sees again.''"
| "notice_body rfc Notice_MamStateUnreadable =
     ''Windlass could not read when it last registered the seedbox IP, so it will not register until restarted.''"
| "notice_body rfc (Notice_RatioLow ratio urgency) =
     ''MAM reports a ratio of '' @ ratio_fmt ratio @ ''. Every download is held until you find out why.''"
| "notice_body rfc Notice_RatioRestored = ''MAM reports a ratio of 2.0 or more.''"
| "notice_body rfc (Notice_RatioUsed counted) =
     ''MAM counted '' @ size_text counted @ '' of downloads against your ratio, which Windlass never does on purpose. '' @
     ''Every download Windlass added is stopped. Find out on MAM what used it, then say on the dashboard that you checked.''"
| "notice_body rfc Notice_RatioUseChecked =
     ''You checked what used ratio, so Windlass watches MAM's downloaded figure from now on and lets downloads run.''"
| "notice_body rfc (Notice_UnsatisfiedNearLimit count limit) =
     ''MAM counts '' @ show_word count @ '' unsatisfied torrents of a limit of '' @ show_word limit @ ''.''"
| "notice_body rfc Notice_UnsatisfiedBelowLimit = ''MAM's unsatisfied count is below 80% of the limit again.''"
| "notice_body rfc (Notice_UnsatisfiedNotSeeding count) =
     ''MAM sees '' @ show_word count @
     '' unsatisfied torrents that are not seeding. They must seed 72 hours within 30 days.''"
| "notice_body rfc Notice_UnsatisfiedSeeding = ''MAM sees every unsatisfied torrent seeding.''"
| "notice_body rfc (Notice_MamFlagged partials tracker_errors flagged) =
     ''MAM reports'' @
     (case partials of Partials_Seen \<Rightarrow> '' a partial download;'' | Partials_NotSeen \<Rightarrow> '''') @
     (if tracker_errors = 0 then '''' else '' '' @ show_word tracker_errors @ '' tracker errors;'') @
     (if flagged = 0 then '''' else '' '' @ show_word flagged @ '' torrents in categories it marks red'') @ ''.''"
| "notice_body rfc Notice_MamFlagsCleared = ''MAM no longer flags any of the account's torrents.''"
| "notice_body rfc (Notice_MamMessages count warning) =
     ''MAM has '' @ show_word count @ '' notifications for you'' @
     (if warning = ClientWarning_Given
      then '', including a warning that it is about to stop accepting a client'' else '''') @
     ''. Windlass does not read them.''"
| "notice_body rfc (Notice_DownloadsHeld reason) =
     ''Bookmarked torrents wait for 30 minutes now: '' @ hold_text reason @ ''.''"
| "notice_body rfc Notice_DownloadsResumed = ''Bookmarked torrents download again.''"
| "notice_body rfc Notice_NoWedgesLeft =
     ''Torrents that are not freeleech for you wait, because no wedge is left and the store does not sell '' @
     ''them through the API.''"
| "notice_body rfc (Notice_PointsBelowReserve points reserve) =
     ''MAM reports '' @ show_word points @ '' points, below the reserve of '' @ show_word reserve @
     ''. Windlass buys nothing.''"
| "notice_body rfc (Notice_VipEnding until) =
     ''VIP ends at '' @ timestamp rfc until @
     '' and Windlass has not renewed it, usually because the points would fall below the reserve.''"
| "notice_body rfc Notice_DownloadsRefused =
     ''MAM answered a download without a torrent file, so downloads are held until Windlass restarts '' @
     ''or the cookie changes.''"
| "notice_body rfc (Notice_SeedingBehind count) =
     torrents_text count @ '' completed 20 or more days ago '' @ (if count = 1 then ''has'' else ''have'') @
     '' not seeded 96 hours yet. MAM requires 72 within 30 days; Windlass aims a day higher.''"
| "notice_body rfc Notice_SeedingOnTrack =
     ''Every torrent is on track to seed 96 hours, a day more than MAM's 72.''"
| "notice_body rfc (Notice_PurchaseMade bought points) =
     ''Windlass bought '' @ purchase_text bought @ ''; '' @ show_word points @ '' points are left.''"
| "notice_body rfc (Notice_PurchaseRefused wanted) =
     ''MAM refused to sell '' @ purchase_text wanted @ ''. Windlass waits 6 hours before trying again.''"
| "notice_body rfc (Notice_PurchaseUncertain wanted) =
     ''Windlass does not know whether MAM sold '' @ purchase_text wanted @
     '', so it buys nothing until it reads MAM's figures again.''"
| "notice_body rfc Notice_WedgeNotSpent =
     ''MAM's bonus history shows no wedge spent on a wedged download, so Windlass stopped the torrent '' @
     ''to protect the ratio.''"
| "notice_body rfc (Notice_DownloadNotFree outcome) =
     (case outcome of
        NotFreeOutcome_Stopped \<Rightarrow>
          ''A download is no longer free for you, and no wedge could be spent on it, so Windlass stopped it '' @
          ''to protect the ratio. It resumes if it becomes free or a wedge is available.''
      | NotFreeOutcome_FinishedFirst \<Rightarrow>
          ''A download finished before Windlass could confirm it was free for you. Check your ratio on MAM.'')"
| "notice_body rfc Notice_WedgedMidDownload =
     ''A download's freeleech ended before it finished, so Windlass spent a wedge on it.''"
| "notice_body rfc (Notice_PurchaseSettled wanted sale) =
     ''The uncertain purchase of '' @ purchase_text wanted @ '' '' @
     (if sale = Sale_Made then ''went through'' else ''did not go through'') @ ''; Windlass buys again only as needed.''"
| "notice_body rfc (Notice_PurchaseNeedsChecking wanted) =
     ''MAM's figures do not show whether it sold '' @ purchase_text wanted @
     ''. Check your bonus points on MAM, then say on the dashboard whether it went through; '' @
     ''Windlass buys nothing until then.''"
| "notice_body rfc (Notice_MamClientNotListed standing) =
     ''Downloads are held: '' @ client_standing_text standing @ ''. Check MAM's client list on its site.''"
| "notice_body rfc Notice_MamClientListed = ''MAM lists the running qBittorrent again.''"
| "notice_body rfc (Notice_NotConnectable findings) =
     ''MAM still cannot reach qBittorrent after Windlass's repair. '' @ findings_text findings @
     ''. Check that the namespace firewall admits the forwarded port.''"
| "notice_body rfc Notice_ConnectableAgain = ''MAM reaches qBittorrent again.''"
| "notice_body rfc Notice_MamVisitReminder =
     ''Your weekly reminder: visit MAM to keep the account active, and read its announcements about approved clients.''"

subsection \<open>Pages\<close>

definition notice_page :: "notice \<Rightarrow> string" where
  "notice_page notice =
     (case notice of
        Notice_Started _ \<Rightarrow> ''/'' | Notice_StartupFailed \<Rightarrow> ''/''
      | Notice_VpnProtectionLost _ \<Rightarrow> ''/#tunnel'' | Notice_VpnProtectionRestored _ _ \<Rightarrow> ''/#tunnel''
      | Notice_FailoverStarted _ \<Rightarrow> ''/#tunnel'' | Notice_FailoverSucceeded _ \<Rightarrow> ''/#tunnel''
      | Notice_FailoverFailed _ \<Rightarrow> ''/#tunnel'' | Notice_FailoverBlocked _ \<Rightarrow> ''/#tunnel''
      | Notice_ForwardedPortLost \<Rightarrow> ''/#port-forwarding'' | Notice_ForwardedPortRestored _ \<Rightarrow> ''/#port-forwarding''
      | Notice_QbittorrentUnreachable _ \<Rightarrow> ''/#qbittorrent'' | Notice_QbittorrentReachable \<Rightarrow> ''/#qbittorrent''
      | Notice_QbittorrentVersionNotAllowed _ \<Rightarrow> ''/#qbittorrent''
      | Notice_QbittorrentVersionAllowed _ \<Rightarrow> ''/#qbittorrent''
      | Notice_TorrentErrors _ \<Rightarrow> ''/#torrents'' | Notice_TorrentErrorsCleared \<Rightarrow> ''/#torrents''
      | Notice_FilesMissing _ \<Rightarrow> ''/#torrents'' | Notice_FilesMissingCleared \<Rightarrow> ''/#torrents''
      | Notice_TorrentsMissing _ \<Rightarrow> ''/#torrents'' | Notice_TorrentsMissingCleared \<Rightarrow> ''/#torrents''
      | Notice_RegistryNotSaved \<Rightarrow> ''/#torrents'' | Notice_RegistrySaved \<Rightarrow> ''/#torrents''
      | Notice_RegistryUnreadable \<Rightarrow> ''/#torrents'' | Notice_SettingNotSaved _ \<Rightarrow> ''/settings''
      | Notice_HistoryUnavailable \<Rightarrow> ''/history'' | Notice_HistoryEntriesLost _ \<Rightarrow> ''/history''
      | Notice_Test \<Rightarrow> ''/settings'' | Notice_MamVisitReminder \<Rightarrow> MAM_HOME
      | _ \<Rightarrow> ''/#mam'')"

record message =
  message_title :: string
  message_body :: string
  message_priority :: u8
  message_page :: string

definition notice_message :: "(duration \<Rightarrow> string option) \<Rightarrow> notice \<Rightarrow> message" where
  "notice_message rfc notice =
     \<lparr>message_title = notice_title notice, message_body = notice_body rfc notice,
      message_priority = notice_priority notice, message_page = notice_page notice\<rparr>"

text \<open>The priority is one ntfy knows.\<close>

lemma notice_priority_range: "2 \<le> notice_priority notice \<and> notice_priority notice \<le> 5"
  by (cases notice) (simp_all split: urgency.split client_warning.split)

end
