(* ===== verification/History_Text.thy ===== *)
theory History_Text
  imports Notice_Text History_Log
begin

text \<open>
  What history says in plain language (\<open>event\<close> and \<open>action\<close> of \<open>shell/describe.rs\<close>), what it stores of
  an entry (\<open>insert\<close>, \<open>shell/history.rs\<close>), and that neither depends on the API cookie or the
  notification topic. \<open>rfc\<close> writes a time; \<open>json_event\<close> and \<open>json_action\<close> are the texts serde
  makes of a value whose secrets serialise as \<open>[redacted]\<close>.
\<close>

subsection \<open>Events\<close>

definition mam_reply_text :: "mam_reply \<Rightarrow> string" where
  "mam_reply_text reply =
     (case reply of
        MamReply_Ip seen \<Rightarrow>
          ''MAM sees IP '' @ ip_fmt (ip_ip seen) @ '' in AS'' @ show_word (ip_asn seen) @
          (case ip_provider seen of None \<Rightarrow> '''' | Some name \<Rightarrow> '' ('' @ name @ '')'')
      | MamReply_Registered Registration_Completed ip \<Rightarrow> ''MAM registered '' @ ip_fmt ip @ '' as the seedbox IP''
      | MamReply_Registered Registration_NoChange ip \<Rightarrow> ''MAM already had '' @ ip_fmt ip @ '' as the seedbox IP''
      | MamReply_UserData data \<Rightarrow>
          ''Account read: '' @ show_word (user_points data) @ '' points, '' @ show_word (user_wedges data) @ '' wedges, '' @
          gib (user_data_buffer data) @ '' uploaded beyond downloads'' @
          (case user_summary data of
             None \<Rightarrow> ''''
           | Some s \<Rightarrow> '', '' @ show_word (summary_unsatisfied s) @ '' of '' @ show_word (summary_unsatisfied_limit s) @
               '' unsatisfied'')
      | MamReply_Bookmarks page \<Rightarrow>
          ''Bookmarks listed: '' @ show_nat (length (page_bookmarks page)) @ '' on this page of '' @ show_word (page_found page)
      | MamReply_Fetched fetched \<Rightarrow>
          ''Torrent file fetched and kept: '' @ fetched_hash fetched @ '', '' @ gib (fetched_size fetched)
      | MamReply_Purchased left \<Rightarrow> ''Purchase made; '' @ show_word left @ '' points left''
      | MamReply_Torrent (Some listing) \<Rightarrow> looked_up_text listing
      | MamReply_Torrent None \<Rightarrow> ''MAM no longer lists the torrent''
      | MamReply_WedgeHistory spent \<Rightarrow> ''Bonus history read: '' @ show_nat (length spent) @ '' wedges spent'')"

definition mam_text :: "(duration \<Rightarrow> string option) \<Rightarrow> mam_event \<Rightarrow> string" where
  "mam_text rfc event =
     (case event of
        MamEvent_Enable \<Rightarrow> ''MAM work started''
      | MamEvent_Answered result rotated \<Rightarrow>
          (case result of Inr reply \<Rightarrow> mam_reply_text reply | Inl f \<Rightarrow> ''MAM request failed: '' @ mam_failure_text f) @
          (case rotated of None \<Rightarrow> '''' | Some _ \<Rightarrow> '' (MAM issued a new cookie, not recorded)'')
      | MamEvent_StateRead last_registration last_reminder ratio_guard \<Rightarrow>
          ''MAM state read: last seedbox registration '' @ optional_time rfc last_registration @ '', last visit reminder '' @
          optional_time rfc last_reminder @ '', '' @ saved_ratio_guard_text rfc ratio_guard
      | MamEvent_StateReadFailed \<Rightarrow> ''MAM state could not be read; seedbox registration waits''
      | MamEvent_RegistrationAttemptSaved \<Rightarrow> ''Seedbox registration attempt recorded''
      | MamEvent_RegistrationAttemptSaveFailed \<Rightarrow>
          ''Seedbox registration attempt could not be recorded, so it was not sent''
      | MamEvent_PurchaseChecked Sale_Made \<Rightarrow> ''You checked on MAM: the uncertain purchase went through''
      | MamEvent_PurchaseChecked Sale_NotMade \<Rightarrow> ''You checked on MAM: the uncertain purchase did not go through''
      | MamEvent_RatioUseChecked \<Rightarrow> ''You checked on MAM what used ratio; downloads may run again''
      | MamEvent_RatioGuardSaved \<Rightarrow> ''Ratio guard saved''
      | MamEvent_RatioGuardSaveFailed \<Rightarrow>
          ''Ratio guard could not be saved; after a restart MAM's downloaded figure is compared with the last one saved''
      | MamEvent_ReminderSaved \<Rightarrow> ''MAM visit reminder time saved''
      | MamEvent_ReminderSaveFailed \<Rightarrow> ''MAM visit reminder time could not be saved'')"

definition notification_text :: "notification_event \<Rightarrow> string" where
  "notification_text event =
     (case event of
        NotificationEvent_SendTest \<Rightarrow> ''Test notification requested''
      | NotificationEvent_Delivered \<Rightarrow> ''Notification delivered''
      | NotificationEvent_DeliveryFailed reason \<Rightarrow> ''Notification not delivered: '' @ delivery_failure_text reason
      | NotificationEvent_LogRead (Some newest) \<Rightarrow> ''Notifications log read; newest notice '' @ show_word newest
      | NotificationEvent_LogRead None \<Rightarrow> ''Notifications log read; empty''
      | NotificationEvent_LogReadFailed \<Rightarrow> ''Notifications log could not be read''
      | NotificationEvent_Saved \<Rightarrow> ''Notice saved''
      | NotificationEvent_SaveFailed \<Rightarrow> ''Notice could not be saved'')"

definition tunnel_text :: "(duration \<Rightarrow> string option) \<Rightarrow> tunnel_event \<Rightarrow> string" where
  "tunnel_text rfc event =
     (case event of
        TunnelEvent_Enable servers current \<Rightarrow>
          ''Tunnel checks started with '' @ show_nat (length servers) @ '' servers; connected to '' @
          unwrap_or ''an unknown server'' current
      | TunnelEvent_ExitIpObserved ip \<Rightarrow> ''Tunnel works; exit IP '' @ ip_fmt ip
      | TunnelEvent_ExitIpCheckFailed reason \<Rightarrow> ''Tunnel check failed: '' @ exit_ip_failure_text reason
      | TunnelEvent_LastSwitchRead None \<Rightarrow> ''No earlier VPN server switch is recorded''
      | TunnelEvent_LastSwitchRead (Some switch) \<Rightarrow>
          ''Last VPN server switch read: to '' @ switch_server switch @ '' at '' @ timestamp rfc (switch_at switch)
      | TunnelEvent_LastSwitchReadFailed \<Rightarrow> ''The last VPN server switch could not be read; switches are blocked''
      | TunnelEvent_SwitchSaved \<Rightarrow> ''VPN server switch recorded''
      | TunnelEvent_SwitchSaveFailed \<Rightarrow> ''VPN server switch could not be recorded, so it did not start''
      | TunnelEvent_Switched \<Rightarrow> ''VPN server switch completed''
      | TunnelEvent_SwitchFailed \<Rightarrow> ''VPN server switch failed'')"

definition registry_text :: "registry_event \<Rightarrow> string" where
  "registry_text event =
     (case event of
        RegistryEvent_Redownload i \<Rightarrow> ''Download torrent row '' @ show_word i @ '' again, as asked on the dashboard''
      | RegistryEvent_Read records \<Rightarrow> ''Torrent registry read: '' @ show_nat (length records) @ '' rows''
      | RegistryEvent_ReadFailed \<Rightarrow> ''Torrent registry could not be read''
      | RegistryEvent_Saved \<Rightarrow> ''Torrent registry saved''
      | RegistryEvent_SaveFailed \<Rightarrow> ''Torrent registry could not be saved'')"

definition port_forwarding_text :: "port_forwarding_event \<Rightarrow> string" where
  "port_forwarding_text event =
     (case event of
        PortForwardingEvent_Enable \<Rightarrow> ''Port forwarding started''
      | PortForwardingEvent_Mapped tcp udp lifetime \<Rightarrow>
          ''Forwarded ports granted: TCP '' @ show_word tcp @ '', UDP '' @ show_word udp @ '', for '' @
          show_nat (as_secs lifetime) @ '' seconds''
      | PortForwardingEvent_MappingFailed reason \<Rightarrow> ''Port forwarding failed: '' @ mapping_failure_text reason)"

definition qbittorrent_text :: "qbittorrent_event \<Rightarrow> string" where
  "qbittorrent_text event =
     (case event of
        QbittorrentEvent_Enable \<Rightarrow> ''Connecting to qBittorrent''
      | QbittorrentEvent_Connected version _ \<Rightarrow> ''Connected to qBittorrent '' @ reported_version_fmt version
      | QbittorrentEvent_ConnectFailed reason \<Rightarrow> ''Could not connect: '' @ qbittorrent_failure_text reason
      | QbittorrentEvent_Synced update \<Rightarrow>
          ''qBittorrent update: '' @ show_nat (length (sync_torrents update)) @ '' torrents changed, '' @
          show_nat (length (sync_removed update)) @ '' removed'' @
          (case sync_scope update of SyncScope_Full \<Rightarrow> '' (full list)'' | SyncScope_Changes \<Rightarrow> '''')
      | QbittorrentEvent_SyncFailed reason \<Rightarrow> ''Reading qBittorrent failed: '' @ qbittorrent_failure_text reason
      | QbittorrentEvent_PreferencesRead preferences \<Rightarrow>
          ''qBittorrent preferences read: listen port '' @
          (case preferences_listen_port preferences of None \<Rightarrow> ''none'' | Some port \<Rightarrow> show_word port) @
          '', interface '' @ unwrap_or ''any'' (preferences_interface preferences)
      | QbittorrentEvent_PreferencesReadFailed reason \<Rightarrow>
          ''Reading qBittorrent preferences failed: '' @ qbittorrent_failure_text reason
      | QbittorrentEvent_ListenPortSet \<Rightarrow> ''qBittorrent accepted the new listen port''
      | QbittorrentEvent_QueueSet \<Rightarrow> ''qBittorrent accepted the new queue settings''
      | QbittorrentEvent_QueueSetFailed reason \<Rightarrow>
          ''Setting qBittorrent's queue failed: '' @ qbittorrent_failure_text reason
      | QbittorrentEvent_ListenPortSetFailed reason \<Rightarrow>
          ''Setting qBittorrent's listen port failed: '' @ qbittorrent_failure_text reason
      | QbittorrentEvent_CommandDone \<Rightarrow> ''qBittorrent accepted the torrent change''
      | QbittorrentEvent_CommandFailed reason \<Rightarrow>
          ''Changing qBittorrent's torrents failed: '' @ qbittorrent_failure_text reason)"

definition mam_pause_text :: "mam_pause_event \<Rightarrow> string" where
  "mam_pause_text event =
     (case event of
        MamPauseEvent_Set MamRequestMode_Paused \<Rightarrow> ''Pause of MAM requests requested''
      | MamPauseEvent_Set MamRequestMode_Enabled \<Rightarrow> ''Resume of MAM requests requested''
      | MamPauseEvent_Delete \<Rightarrow> ''Removal of the saved MAM request choice requested''
      | MamPauseEvent_Read None \<Rightarrow> ''MAM request choice read: none saved, so requests are paused''
      | MamPauseEvent_Read (Some MamRequestMode_Paused) \<Rightarrow> ''MAM request choice read: paused''
      | MamPauseEvent_Read (Some MamRequestMode_Enabled) \<Rightarrow> ''MAM request choice read: running''
      | MamPauseEvent_ReadFailed \<Rightarrow> ''MAM request choice could not be read''
      | MamPauseEvent_Written \<Rightarrow> ''MAM request choice saved''
      | MamPauseEvent_WriteFailed \<Rightarrow> ''MAM request choice could not be saved''
      | MamPauseEvent_Deleted \<Rightarrow> ''Saved MAM request choice removed''
      | MamPauseEvent_DeleteFailed \<Rightarrow> ''Saved MAM request choice could not be removed'')"

definition configured :: "'a option \<Rightarrow> string" where
  "configured secret = (case secret of Some _ \<Rightarrow> ''configured'' | None \<Rightarrow> ''not configured'')"

definition settings_text :: "settings_event \<Rightarrow> string" where
  "settings_text event =
     (case event of
        SettingsEvent_Read history_limit api_cookie ntfy_topic points_reserve torrent_limits \<Rightarrow>
          (let limits = unwrap_or torrent_limits_default torrent_limits
           in ''Settings read: history limit '' @ show_word (unwrap_or history_limit_default history_limit) @
              '', API cookie '' @ configured api_cookie @ '', notification topic '' @ configured ntfy_topic @
              '', points reserve '' @ show_word (unwrap_or points_reserve_default points_reserve) @
              '', at most '' @ show_word (limits_downloading limits) @ '' downloading and '' @
              show_word (limits_active limits) @ '' active torrents'')
      | SettingsEvent_ReadFailed \<Rightarrow> ''Settings could not be read''
      | SettingsEvent_SetHistoryLimit limit \<Rightarrow> ''History limit change to '' @ show_word limit @ '' entries requested''
      | SettingsEvent_HistoryLimitWritten \<Rightarrow> ''History limit saved''
      | SettingsEvent_HistoryLimitWriteFailed \<Rightarrow> ''History limit could not be saved''
      | SettingsEvent_SetApiCookie _ \<Rightarrow> ''API cookie replaced from the dashboard (value not recorded)''
      | SettingsEvent_ClearApiCookie \<Rightarrow> ''API cookie removal requested''
      | SettingsEvent_ApiCookieWritten \<Rightarrow> ''API cookie change saved''
      | SettingsEvent_ApiCookieWriteFailed \<Rightarrow> ''API cookie change could not be saved''
      | SettingsEvent_SetNtfyTopic _ \<Rightarrow> ''Notification topic replaced from the dashboard (value not recorded)''
      | SettingsEvent_ClearNtfyTopic \<Rightarrow> ''Notification topic removal requested''
      | SettingsEvent_NtfyTopicWritten \<Rightarrow> ''Notification topic change saved''
      | SettingsEvent_NtfyTopicWriteFailed \<Rightarrow> ''Notification topic change could not be saved''
      | SettingsEvent_SetPointsReserve reserve \<Rightarrow> ''Points reserve change to '' @ show_word reserve @ '' requested''
      | SettingsEvent_PointsReserveWritten \<Rightarrow> ''Points reserve saved''
      | SettingsEvent_PointsReserveWriteFailed \<Rightarrow> ''Points reserve could not be saved''
      | SettingsEvent_SetTorrentLimits limits \<Rightarrow>
          ''Torrent limits change to '' @ show_word (limits_downloading limits) @ '' downloading and '' @
          show_word (limits_active limits) @ '' active requested''
      | SettingsEvent_TorrentLimitsWritten \<Rightarrow> ''Torrent limits saved''
      | SettingsEvent_TorrentLimitsWriteFailed \<Rightarrow> ''Torrent limits could not be saved''
      | SettingsEvent_RotatedApiCookieWritten \<Rightarrow> ''The new API cookie MAM issued was saved''
      | SettingsEvent_RotatedApiCookieWriteFailed \<Rightarrow>
          ''The new API cookie MAM issued could not be saved; the saved one stays in use'')"

definition history_text :: "(duration \<Rightarrow> string option) \<Rightarrow> history_event \<Rightarrow> string" where
  "history_text rfc event =
     (case event of
        HistoryEvent_Opened retained \<Rightarrow> ''History opened with '' @ show_word retained @ '' entries''
      | HistoryEvent_OpenFailed \<Rightarrow> ''History could not be opened''
      | HistoryEvent_Trimmed retained \<Rightarrow> ''Oldest history removed; '' @ show_word retained @ '' entries kept''
      | HistoryEvent_TrimFailed \<Rightarrow> ''Oldest history could not be removed''
      | HistoryEvent_EntriesLost count from until \<Rightarrow>
          ''History could not be saved: '' @ show_word count @ '' entries are missing, processed from '' @
          timestamp rfc from @ '' to '' @ timestamp rfc until)"

definition startup_text :: "startup_event \<Rightarrow> string" where
  "startup_text event =
     (case event of
        StartupEvent_Start mode \<Rightarrow> ''Startup requested ('' @ startup_mode_text mode @ '')''
      | StartupEvent_StorageOpened \<Rightarrow> ''Storage opened''
      | StartupEvent_StorageOpenFailed \<Rightarrow> ''Storage could not be opened'')"

fun event_text :: "(duration \<Rightarrow> string option) \<Rightarrow> event \<Rightarrow> string" where
  "event_text rfc (Event_Startup event) = startup_text event"
| "event_text rfc (Event_MamPause event) = mam_pause_text event"
| "event_text rfc (Event_Settings event) = settings_text event"
| "event_text rfc (Event_History event) = history_text rfc event"
| "event_text rfc (Event_TimerExpired name _) = ''Timer expired: '' @ timer_text name"
| "event_text rfc (Event_PortForwarding event) = port_forwarding_text event"
| "event_text rfc (Event_Qbittorrent event) = qbittorrent_text event"
| "event_text rfc (Event_Registry event) = registry_text event"
| "event_text rfc (Event_Tunnel event) = tunnel_text rfc event"
| "event_text rfc (Event_Notification event) = notification_text event"
| "event_text rfc (Event_Mam event) = mam_text rfc event"

subsection \<open>Actions\<close>

primrec action_text :: "(duration \<Rightarrow> string option) \<Rightarrow> action \<Rightarrow> string" where
  "action_text rfc (Action_OpenStorage mode) = ''Open storage ('' @ startup_mode_text mode @ '')''"
| "action_text rfc Action_ReadMamRequestMode = ''Read the saved MAM request choice''"
| "action_text rfc (Action_WriteMamRequestMode mode) = ''Save MAM request choice: '' @ request_mode_text mode"
| "action_text rfc Action_DeleteMamRequestMode = ''Remove the saved MAM request choice''"
| "action_text rfc Action_ReadSettings = ''Read saved settings''"
| "action_text rfc (Action_WriteHistoryLimit limit) = ''Save history limit: '' @ show_word limit @ '' entries''"
| "action_text rfc (Action_WriteApiCookie cookie) =
     (case cookie of Some _ \<Rightarrow> ''Save API cookie (value not recorded)'' | None \<Rightarrow> ''Remove the saved API cookie'')"
| "action_text rfc Action_OpenHistory = ''Open history storage''"
| "action_text rfc (Action_TrimHistory keep) = ''Remove oldest history, keeping the newest '' @ show_word keep"
| "action_text rfc (Action_StartTimer name timer deadline) =
     ''Start timer: '' @ timer_text name @ '' in '' @ f64_tenths (as_secs_f64 (deadline_after deadline)) @ '' seconds''"
| "action_text rfc (Action_RequestPortMapping lifetime) =
     ''Request forwarded ports for '' @ show_nat (as_secs lifetime) @ '' seconds''"
| "action_text rfc Action_ConnectQbittorrent = ''Connect to qBittorrent''"
| "action_text rfc (Action_SyncQbittorrent since) = ''Read qBittorrent changes since update '' @ show_word since"
| "action_text rfc Action_ReadQbittorrentPreferences = ''Read qBittorrent preferences''"
| "action_text rfc (Action_SetQbittorrentListenPort port) = ''Set qBittorrent's listen port to '' @ show_word port"
| "action_text rfc (Action_QbittorrentCommand command) = torrent_command_text command"
| "action_text rfc Action_ReadTorrentRegistry = ''Read the torrent registry''"
| "action_text rfc (Action_SaveTorrents records) =
     ''Save '' @ show_nat (length records) @ '' torrent registry rows''"
| "action_text rfc Action_CheckExitIp = ''Check the tunnel's exit IP''"
| "action_text rfc Action_ReadLastVpnSwitch = ''Read the last VPN server switch''"
| "action_text rfc (Action_SaveVpnSwitch switch) = ''Record a switch to VPN server '' @ switch_server switch"
| "action_text rfc (Action_SwitchVpnServer server) = ''Switch to VPN server '' @ server"
| "action_text rfc (Action_WriteNtfyTopic topic) =
     (case topic of
        Some _ \<Rightarrow> ''Save notification topic (value not recorded)''
      | None \<Rightarrow> ''Remove the notification topic'')"
| "action_text rfc (Action_SendNotification topic push) =
     ''Push: '' @ message_title (notice_message rfc (push_notice push))"
| "action_text rfc Action_ReadNoticeLog = ''Read the notifications log''"
| "action_text rfc (Action_SaveNotice entry kept) =
     ''Save notice '' @ show_word (logged_id entry) @ '': '' @ message_title (notice_message rfc (logged_notice entry))"
| "action_text rfc (Action_WritePointsReserve reserve) = ''Save points reserve: '' @ show_word reserve"
| "action_text rfc (Action_SetQbittorrentQueue queue) =
     ''Set qBittorrent's queue: '' @ queue_limit_fmt (queue_max_downloading queue) @ '' downloading, '' @
     queue_limit_fmt (queue_max_active queue) @ '' active, '' @ queue_limit_fmt (queue_max_seeding queue) @
     '' seeding, idle torrents '' @
     (case queue_idle queue of IdleTorrents_NotCounted \<Rightarrow> ''not counted'' | IdleTorrents_Counted \<Rightarrow> ''counted'')"
| "action_text rfc (Action_WriteTorrentLimits limits) =
     ''Save torrent limits: '' @ show_word (limits_downloading limits) @ '' downloading, '' @
     show_word (limits_active limits) @ '' active''"
| "action_text rfc (Action_WriteRotatedApiCookie cookie) =
     ''Save the new API cookie MAM issued (value not recorded)''"
| "action_text rfc Action_ReadMamState = ''Read saved MAM state''"
| "action_text rfc (Action_SaveRegistrationAttempt at) =
     ''Record a seedbox registration attempt at '' @ timestamp rfc at"
| "action_text rfc (Action_SaveRatioGuard guard) = ''Save the ratio guard: '' @ saved_ratio_guard_text rfc guard"
| "action_text rfc (Action_SaveReminder at) = ''Record the MAM visit reminder at '' @ timestamp rfc at"
| "action_text rfc (Action_MamRequest request cookie) = mam_request_text request"

subsection \<open>What is stored\<close>

text \<open>An event and an action with every cookie and topic in them replaced.\<close>

definition event_with :: "(api_cookie \<Rightarrow> api_cookie) \<Rightarrow> (ntfy_topic \<Rightarrow> ntfy_topic) \<Rightarrow> event \<Rightarrow> event" where
  "event_with cookie topic event =
     (case event of
        Event_Settings (SettingsEvent_Read limit c t reserve limits) \<Rightarrow>
          Event_Settings (SettingsEvent_Read limit (map_option cookie c) (map_option topic t) reserve limits)
      | Event_Settings (SettingsEvent_SetApiCookie c) \<Rightarrow> Event_Settings (SettingsEvent_SetApiCookie (cookie c))
      | Event_Settings (SettingsEvent_SetNtfyTopic t) \<Rightarrow> Event_Settings (SettingsEvent_SetNtfyTopic (topic t))
      | Event_Mam (MamEvent_Answered result rotated) \<Rightarrow> Event_Mam (MamEvent_Answered result (map_option cookie rotated))
      | _ \<Rightarrow> event)"

definition action_with :: "(api_cookie \<Rightarrow> api_cookie) \<Rightarrow> (ntfy_topic \<Rightarrow> ntfy_topic) \<Rightarrow> action \<Rightarrow> action" where
  "action_with cookie topic action =
     (case action of
        Action_WriteApiCookie c \<Rightarrow> Action_WriteApiCookie (map_option cookie c)
      | Action_WriteNtfyTopic t \<Rightarrow> Action_WriteNtfyTopic (map_option topic t)
      | Action_SendNotification t push \<Rightarrow> Action_SendNotification (topic t) push
      | Action_WriteRotatedApiCookie c \<Rightarrow> Action_WriteRotatedApiCookie (cookie c)
      | Action_MamRequest request c \<Rightarrow> Action_MamRequest request (map_option cookie c)
      | _ \<Rightarrow> action)"

text \<open>The serialised cookie and topic.\<close>

definition api_cookie_serialize :: "api_cookie \<Rightarrow> string" where
  "api_cookie_serialize cookie = ''[redacted]''"

definition ntfy_topic_serialize :: "ntfy_topic \<Rightarrow> string" where
  "ntfy_topic_serialize topic = ''[redacted]''"

record action_record =
  action_summary :: string
  action_detail :: string

record history_columns =
  column_occurred_at_ms :: int
  column_processed_at_ms :: int
  column_category :: string
  column_summary :: string
  column_event :: string
  column_actions :: "action_record list"
  column_routine :: bool

definition columns_of ::
    "(duration \<Rightarrow> string option) \<Rightarrow> (event \<Rightarrow> string) \<Rightarrow> (action \<Rightarrow> string) \<Rightarrow> history_entry \<Rightarrow> history_columns" where
  "columns_of rfc json_event json_action entry =
     \<lparr>column_occurred_at_ms = unix_millis (entry_occurred_at entry),
      column_processed_at_ms = unix_millis (entry_processed_at entry),
      column_category = category (entry_event entry),
      column_summary = event_text rfc (entry_event entry),
      column_event = json_event (event_with api_cookie_serialize ntfy_topic_serialize (entry_event entry)),
      column_actions = map (\<lambda>action.
        \<lparr>action_summary = action_text rfc action,
         action_detail = json_action (action_with api_cookie_serialize ntfy_topic_serialize action)\<rparr>) (entry_actions entry),
      column_routine = is_routine (entry_event entry)\<rparr>"

subsection \<open>Secrets\<close>

lemma event_with_same:
  "event_text rfc (event_with f g event) = event_text rfc event"
  "category (event_with f g event) = category event"
  "is_routine (event_with f g event) = is_routine event"
  "event_with f' g' (event_with f g event) = event_with (f' \<circ> f) (g' \<circ> g) event"
  by (cases event; simp add: event_with_def settings_text_def mam_text_def configured_def is_routine_def option.map_comp
      split: settings_event.split mam_event.split option.split sum.split mam_reply.split)+

lemma action_with_same:
  "action_text rfc (action_with f g action) = action_text rfc action"
  "action_with f' g' (action_with f g action) = action_with (f' \<circ> f) (g' \<circ> g) action"
  by (cases action; simp add: action_with_def option.map_comp split: option.split)+

lemma serialize_same [simp]:
  "api_cookie_serialize \<circ> f = api_cookie_serialize" "ntfy_topic_serialize \<circ> g = ntfy_topic_serialize"
  by (simp_all add: fun_eq_iff api_cookie_serialize_def ntfy_topic_serialize_def)

text \<open>
  C28. No secret reaches history: whatever the API cookies and notification topics in an event and its
  actions are, every column of the row stored for it is the same.
\<close>

theorem history_keeps_no_secret:
  "columns_of rfc json_event json_action
     (entry\<lparr>entry_event := event_with new_cookie new_topic (entry_event entry),
            entry_actions := map (action_with new_cookie new_topic) (entry_actions entry)\<rparr>) =
   columns_of rfc json_event json_action entry"
  by (simp add: columns_of_def event_with_same action_with_same)

end
