(* ===== verification/Dashboard.thy ===== *)
theory Dashboard
  imports Event_Loop
begin

text \<open>
  Where events come from: the dashboard's guard (\<open>shell/web/guard.rs\<close>), its routes and forms
  (\<open>shell/web/mod.rs\<close>, \<open>Location\<close> of \<open>shell/web/pages.rs\<close>), the console (\<open>shell/console.rs\<close>) and the
  events that start the integrations (\<open>shell/mod.rs\<close>). A handler is a function of the request that
  gives the event to submit or the answer that refuses it; decoding a form and matching a route are
  axum's, of which the fields of a form and the table of routes are modelled. Pages are not rendered:
  an answer is its status or where it leads.
\<close>

subsection \<open>The guard\<close>

definition host_name :: "string \<Rightarrow> string" where
  "host_name host =
     (case strip_prefix ''['' host of
        Some bracketed \<Rightarrow> (case split_once (CHR '']'') bracketed of None \<Rightarrow> host | Some (name, _) \<Rightarrow> name)
      | None \<Rightarrow>
          (case rsplit_once (CHR '':'') host of
             Some (name, port) \<Rightarrow>
               if CHR '':'' \<notin> set name \<and> port \<noteq> [] \<and> list_all is_ascii_digit port then name else host
           | None \<Rightarrow> host))"

definition host_allowed :: "string option \<Rightarrow> string list \<Rightarrow> bool" where
  "host_allowed host allowed = is_some_and (\<lambda>host. list_ex (\<lambda>a. eq_ignore_ascii_case a (host_name host)) allowed) host"

definition same_origin :: "string \<Rightarrow> string option \<Rightarrow> string option \<Rightarrow> bool" where
  "same_origin host origin fetch_site =
     (if is_some_and (\<lambda>site. site \<notin> {''same-origin'', ''none''}) fetch_site then False
      else is_none_or (\<lambda>origin.
        is_some_and (\<lambda>authority. eq_ignore_ascii_case authority host)
          (case strip_prefix ''http://'' origin of
             Some authority \<Rightarrow> Some authority
           | None \<Rightarrow> strip_prefix ''https://'' origin)) origin)"

subsection \<open>Requests and answers\<close>

datatype web_method = Method_Get | Method_Head | Method_Post | Method_Other

type_synonym web_form = "(string \<times> string) list"

text \<open>Headers that are text, and the form of the body, if it is one.\<close>

record web_request =
  request_method :: web_method
  request_path :: string
  request_host :: "string option"
  request_origin :: "string option"
  request_fetch_site :: "string option"
  request_form :: "web_form option"

datatype location = Location_Status | Location_Notifications | Location_History | Location_Settings

fun location_path :: "location \<Rightarrow> string" where
  "location_path Location_Status = ''/''"
| "location_path Location_Notifications = ''/notifications''"
| "location_path Location_History = ''/history''"
| "location_path Location_Settings = ''/settings''"

definition location_from_path :: "string \<Rightarrow> location" where
  "location_from_path path =
     (if path = ''/notifications'' then Location_Notifications
      else if path = ''/history'' then Location_History
      else if path = ''/settings'' then Location_Settings
      else Location_Status)"

datatype web_response = Response_Status http_status | Response_Redirect string

definition web_back :: "string option \<Rightarrow> string" where
  "web_back target = location_path (location_from_path (unwrap_or ''/'' target))"

subsection \<open>Forms\<close>

text \<open>A field that occurs once; a struct that lacks a field is refused.\<close>

definition form_field :: "string \<Rightarrow> web_form \<Rightarrow> string option" where
  "form_field name form = (case filter (\<lambda>(key, _). key = name) form of [(_, v)] \<Rightarrow> Some v | _ \<Rightarrow> None)"

definition form_optional :: "string \<Rightarrow> web_form \<Rightarrow> string option option" where
  "form_optional name form = (if list_ex (\<lambda>(key, _). key = name) form then map_option Some (form_field name form) else Some None)"

text \<open>\<open>trim().replace([',', '_', ' '], "")\<close>\<close>

definition bare_number :: "string \<Rightarrow> string" where
  "bare_number text = filter (\<lambda>c. c \<notin> {CHR '','', CHR ''_'', CHR '' ''}) (trim text)"

text \<open>What a handler does with its form: it refuses it, or submits an event and leads to a page.\<close>

type_synonym handler = "web_form \<Rightarrow> http_status + event \<times> string"

definition web_refuse :: "http_status + event \<times> string" where
  "web_refuse = Inl 422"

definition set_mam_mode :: "mam_request_mode \<Rightarrow> handler" where
  "set_mam_mode mode form =
     (case form_optional ''next'' form of
        None \<Rightarrow> web_refuse
      | Some target \<Rightarrow> Inr (Event_MamPause (MamPauseEvent_Set mode), web_back target))"

definition send_setting :: "settings_event \<Rightarrow> http_status + event \<times> string" where
  "send_setting e = Inr (Event_Settings e, web_back (Some (location_path Location_Settings)))"

definition set_history_limit :: handler where
  "set_history_limit form =
     (case Option.bind (form_field ''limit'' form) (\<lambda>text. Option.bind (parse_u32 (bare_number text)) history_limit_try_new) of
        Some limit \<Rightarrow> send_setting (SettingsEvent_SetHistoryLimit limit)
      | None \<Rightarrow> web_refuse)"

definition set_points_reserve :: handler where
  "set_points_reserve form =
     (case Option.bind (form_field ''reserve'' form) (\<lambda>text. Option.bind (parse_u64 (bare_number text)) points_reserve_try_new) of
        Some reserve \<Rightarrow> send_setting (SettingsEvent_SetPointsReserve reserve)
      | None \<Rightarrow> web_refuse)"

definition set_torrent_limits :: handler where
  "set_torrent_limits form =
     (case (Option.bind (form_field ''downloading'' form) (\<lambda>text. Option.bind (parse_u32 (trim text)) downloading_limit_try_new),
            Option.bind (form_field ''active'' form) (\<lambda>text. Option.bind (parse_u32 (trim text)) active_limit_try_new)) of
        (Some downloading, Some active) \<Rightarrow>
          (case torrent_limits_new downloading active of
             Inr limits \<Rightarrow> send_setting (SettingsEvent_SetTorrentLimits limits)
           | Inl _ \<Rightarrow> web_refuse)
      | _ \<Rightarrow> web_refuse)"

definition set_api_cookie :: handler where
  "set_api_cookie form =
     (case map_option api_cookie_parse (form_field ''cookie'' form) of
        Some (Inr cookie) \<Rightarrow> send_setting (SettingsEvent_SetApiCookie cookie)
      | _ \<Rightarrow> web_refuse)"

definition set_ntfy_topic :: handler where
  "set_ntfy_topic form =
     (case map_option ntfy_topic_parse (form_field ''topic'' form) of
        Some (Inr topic) \<Rightarrow> send_setting (SettingsEvent_SetNtfyTopic topic)
      | _ \<Rightarrow> web_refuse)"

definition purchase_checked :: handler where
  "purchase_checked form =
     (case form_field ''made'' form of
        None \<Rightarrow> web_refuse
      | Some made \<Rightarrow>
          if made = ''yes'' then Inr (Event_Mam (MamEvent_PurchaseChecked Sale_Made), location_path Location_Status)
          else if made = ''no'' then Inr (Event_Mam (MamEvent_PurchaseChecked Sale_NotMade), location_path Location_Status)
          else web_refuse)"

definition redownload :: handler where
  "redownload form =
     (case Option.bind (form_field ''record'' form) (\<lambda>text. Option.bind (parse_u64 text) record_id_new) of
        Some i \<Rightarrow> Inr (Event_Registry (RegistryEvent_Redownload i), location_path Location_Status)
      | None \<Rightarrow> web_refuse)"

subsection \<open>Routes\<close>

text \<open>Handlers that take no form are given the empty one.\<close>

datatype route = Route_Page | Route_Form handler | Route_Action "event \<times> string"

definition web_route :: "string \<Rightarrow> route option" where
  "web_route = map_of
     ([(path, Route_Page). path \<leftarrow> [''/'', ''/notifications'', ''/history'', ''/settings'', ''/live'',
         ''/static/app.css'', ''/static/app.js'', ''/favicon.ico'']] @
      [(''/mam/pause'', Route_Form (set_mam_mode MamRequestMode_Paused)),
       (''/mam/resume'', Route_Form (set_mam_mode MamRequestMode_Enabled)),
       (''/settings/history-limit'', Route_Form set_history_limit),
       (''/settings/api-cookie'', Route_Form set_api_cookie),
       (''/settings/api-cookie/clear'', Route_Action (Event_Settings SettingsEvent_ClearApiCookie, ''/settings'')),
       (''/settings/ntfy-topic'', Route_Form set_ntfy_topic),
       (''/settings/ntfy-topic/clear'', Route_Action (Event_Settings SettingsEvent_ClearNtfyTopic, ''/settings'')),
       (''/settings/points-reserve'', Route_Form set_points_reserve),
       (''/settings/torrent-limits'', Route_Form set_torrent_limits),
       (''/notifications/test'', Route_Action (Event_Notification NotificationEvent_SendTest, ''/settings'')),
       (''/torrents/redownload'', Route_Form redownload),
       (''/mam/purchase/checked'', Route_Form purchase_checked),
       (''/mam/ratio/checked'', Route_Action (Event_Mam MamEvent_RatioUseChecked, ''/''))])"

text \<open>\<open>App::send\<close>: \<open>accepted\<close> says whether the ingress takes the event; it is submitted only then.\<close>

definition web_submit :: "bool \<Rightarrow> event \<times> string \<Rightarrow> event option \<times> web_response" where
  "web_submit accepted submission =
     (if accepted then (Some (fst submission), Response_Redirect (snd submission)) else (None, Response_Status 503))"

definition web_dispatch :: "bool \<Rightarrow> web_request \<Rightarrow> event option \<times> web_response" where
  "web_dispatch accepted request =
     (case (web_route (request_path request), request_method request) of
        (None, _) \<Rightarrow> (None, Response_Status 404)
      | (Some Route_Page, Method_Get) \<Rightarrow> (None, Response_Status (if request_path request = ''/favicon.ico'' then 204 else 200))
      | (Some Route_Page, Method_Head) \<Rightarrow> (None, Response_Status (if request_path request = ''/favicon.ico'' then 204 else 200))
      | (Some (Route_Action submission), Method_Post) \<Rightarrow> web_submit accepted submission
      | (Some (Route_Form handler), Method_Post) \<Rightarrow>
          (case request_form request of
             None \<Rightarrow> (None, Response_Status 415)
           | Some form \<Rightarrow>
               (case handler form of
                  Inl status \<Rightarrow> (None, Response_Status status)
                | Inr submission \<Rightarrow> web_submit accepted submission))
      | _ \<Rightarrow> (None, Response_Status 405))"

text \<open>The middleware around every route.\<close>

definition web_protect :: "string list \<Rightarrow> bool \<Rightarrow> web_request \<Rightarrow> event option \<times> web_response" where
  "web_protect hosts accepted request =
     (if \<not> host_allowed (request_host request) hosts then (None, Response_Status 421)
      else if request_method request \<notin> {Method_Get, Method_Head} \<and>
        \<not> same_origin (unwrap_or '''' (request_host request)) (request_origin request) (request_fetch_site request)
      then (None, Response_Status 403)
      else web_dispatch accepted request)"

subsection \<open>The console and the integrations\<close>

datatype console_command = Console_Event event | Console_Status | Console_Help | Console_Quit

definition read_command :: "string option \<Rightarrow> console_command" where
  "read_command line =
     (case map_option trim line of
        None \<Rightarrow> Console_Quit
      | Some text \<Rightarrow>
          if text = ''pause'' then Console_Event (Event_MamPause (MamPauseEvent_Set MamRequestMode_Paused))
          else if text = ''enable'' then Console_Event (Event_MamPause (MamPauseEvent_Set MamRequestMode_Enabled))
          else if text = ''forget'' then Console_Event (Event_MamPause MamPauseEvent_Delete)
          else if text = ''status'' then Console_Status
          else if text = ''quit'' then Console_Quit
          else Console_Help)"

text \<open>Which services are configured; the tunnel with its servers and the one connected at startup.\<close>

record integrations =
  integration_qbittorrent :: bool
  integration_gateway :: bool
  integration_tunnel :: "(vpn_server list \<times> vpn_server option) option"
  integration_mam :: bool

definition enable_events :: "integrations \<Rightarrow> event list" where
  "enable_events i =
     (if integration_gateway i then [Event_PortForwarding PortForwardingEvent_Enable] else []) @
     (if integration_qbittorrent i then [Event_Qbittorrent QbittorrentEvent_Enable] else []) @
     (case integration_tunnel i of None \<Rightarrow> [] | Some (servers, current) \<Rightarrow> [Event_Tunnel (TunnelEvent_Enable servers current)]) @
     (if integration_mam i then [Event_Mam MamEvent_Enable] else [])"

text \<open>What \<open>serve\<close> submits before the first request.\<close>

definition serve_events :: "startup_mode \<Rightarrow> integrations \<Rightarrow> event list" where
  "serve_events mode i = Event_Startup (StartupEvent_Start mode) # enable_events i"

subsection \<open>The history page\<close>

definition CATEGORIES :: "string list" where
  "CATEGORIES = [''startup'', ''mam'', ''settings'', ''history'', ''vpn'', ''qbittorrent'', ''torrents'', ''notifications'']"

record history_parameters =
  parameter_kind :: "string option"
  parameter_from :: "string option"
  parameter_to :: "string option"
  parameter_from_local :: "string option"
  parameter_to_local :: "string option"
  parameter_before :: "int option"
  parameter_after :: "int option"
  parameter_routine :: "string option"

text \<open>How the \<open>time\<close> crate reads a local and an exact time are parameters; the local one comes first.\<close>

definition present :: "string option \<Rightarrow> string option" where
  "present v = opt_filter (\<lambda>v. v \<noteq> []) (map_option trim v)"

definition filter_time ::
    "(string \<Rightarrow> system_time option) \<Rightarrow> (string \<Rightarrow> system_time option) \<Rightarrow> string option \<Rightarrow> string option \<Rightarrow> system_time option" where
  "filter_time read_local read_exact exact local =
     (case present local of
        Some local \<Rightarrow> read_local local
      | None \<Rightarrow> Option.bind (present exact) read_exact)"

definition history_query_of ::
    "(string \<Rightarrow> system_time option) \<Rightarrow> (string \<Rightarrow> system_time option) \<Rightarrow> history_parameters \<Rightarrow> history_query" where
  "history_query_of read_local read_exact p =
     \<lparr>query_category = List.find (\<lambda>v. parameter_kind p = Some v) CATEGORIES,
      query_routine = (parameter_routine p \<noteq> None),
      query_from = filter_time read_local read_exact (parameter_from p) (parameter_from_local p),
      query_until = filter_time read_local read_exact (parameter_to p) (parameter_to_local p),
      query_page = (case (parameter_before p, parameter_after p) of
          (Some before, _) \<Rightarrow> Page_Before before
        | (None, Some after) \<Rightarrow> Page_After after
        | (None, None) \<Rightarrow> Page_Newest)\<rparr>"

text \<open>Every entry is found under its category, and a kind that is none shows everything.\<close>

lemma category_listed: "category e \<in> set CATEGORIES"
proof (cases e)
  case (Event_TimerExpired name i)
  then show ?thesis by (cases name) (simp_all add: CATEGORIES_def)
qed (simp_all add: CATEGORIES_def)

lemma kind_selects_category:
  "query_category (history_query_of read_local read_exact p) =
     (case parameter_kind p of Some kind \<Rightarrow> (if kind \<in> set CATEGORIES then Some kind else None) | None \<Rightarrow> None)"
  by (auto simp: history_query_of_def CATEGORIES_def split: option.split)

subsection \<open>What the guard and the forms let through\<close>

lemma strip_prefix_Some: "strip_prefix p s = Some r \<longleftrightarrow> s = p @ r"
  by (auto simp: strip_prefix_def starts_with_def) (metis append_take_drop_id)+

lemma split_once_first: "c \<notin> set a \<Longrightarrow> split_once c (a @ c # b) = Some (a, b)"
  by (induction a) auto

lemma split_once_absent: "c \<notin> set a \<Longrightarrow> split_once c a = None"
  by (induction a) auto

lemma rsplit_once_last: "c \<notin> set b \<Longrightarrow> rsplit_once c (a @ c # b) = Some (a, b)"
  by (simp add: rsplit_once_def split_once_first)

lemma rsplit_once_absent: "c \<notin> set a \<Longrightarrow> rsplit_once c a = None"
  by (simp add: rsplit_once_def split_once_absent)

text \<open>Where a page may lead after a form, and the settings a form may ask for.\<close>

definition local_path :: "string \<Rightarrow> bool" where
  "local_path path \<longleftrightarrow> path \<in> {''/'', ''/notifications'', ''/history'', ''/settings''}"

definition submission_ok :: "event \<times> string \<Rightarrow> bool" where
  "submission_ok s \<longleftrightarrow> producible (fst s) \<and> (case fst s of Event_Settings e \<Rightarrow> settings_event_ok e | _ \<Rightarrow> True) \<and>
     local_path (snd s)"

lemma web_back_local: "local_path (web_back target)"
  by (simp add: local_path_def web_back_def location_from_path_def)

lemma limits_try_new:
  "history_limit_try_new n = Some l \<Longrightarrow> history_limit_ok l" "points_reserve_try_new m = Some r \<Longrightarrow> points_reserve_ok r"
  "downloading_limit_try_new n = Some l \<Longrightarrow> downloading_limit_ok l" "active_limit_try_new n = Some l \<Longrightarrow> active_limit_ok l"
  by (auto simp: history_limit_try_new_def points_reserve_try_new_def downloading_limit_try_new_def active_limit_try_new_def
      history_limit_ok_def points_reserve_ok_def downloading_limit_ok_def active_limit_ok_def split: if_splits)

lemma send_setting_ok:
  "send_setting e = Inr s \<Longrightarrow> producible (Event_Settings e) \<Longrightarrow> settings_event_ok e \<Longrightarrow> submission_ok s"
  by (auto simp: send_setting_def submission_ok_def web_back_local)

lemma handlers_ok:
  "set_mam_mode mode form = Inr s \<Longrightarrow> submission_ok s" "set_history_limit form = Inr s \<Longrightarrow> submission_ok s"
  "set_points_reserve form = Inr s \<Longrightarrow> submission_ok s" "set_torrent_limits form = Inr s \<Longrightarrow> submission_ok s"
  "set_api_cookie form = Inr s \<Longrightarrow> submission_ok s" "set_ntfy_topic form = Inr s \<Longrightarrow> submission_ok s"
  "purchase_checked form = Inr s \<Longrightarrow> submission_ok s" "redownload form = Inr s \<Longrightarrow> submission_ok s"
proof -
  show "set_mam_mode mode form = Inr s \<Longrightarrow> submission_ok s"
    by (auto simp: set_mam_mode_def web_refuse_def submission_ok_def web_back_local split: option.splits)
  show "set_history_limit form = Inr s \<Longrightarrow> submission_ok s"
    by (auto simp: set_history_limit_def web_refuse_def bind_eq_Some_conv intro!: send_setting_ok dest: limits_try_new split: option.splits)
  show "set_points_reserve form = Inr s \<Longrightarrow> submission_ok s"
    by (auto simp: set_points_reserve_def web_refuse_def bind_eq_Some_conv intro!: send_setting_ok dest: limits_try_new split: option.splits)
  show "set_torrent_limits form = Inr s \<Longrightarrow> submission_ok s"
    by (auto simp: set_torrent_limits_def web_refuse_def bind_eq_Some_conv torrent_limits_new_def torrent_limits_ok_def
        intro!: send_setting_ok dest: limits_try_new split: option.splits sum.splits if_splits)
  show "set_api_cookie form = Inr s \<Longrightarrow> submission_ok s" "set_ntfy_topic form = Inr s \<Longrightarrow> submission_ok s"
    by (auto simp: set_api_cookie_def set_ntfy_topic_def web_refuse_def intro!: send_setting_ok split: option.splits sum.splits)
  show "purchase_checked form = Inr s \<Longrightarrow> submission_ok s" "redownload form = Inr s \<Longrightarrow> submission_ok s"
    by (auto simp: purchase_checked_def redownload_def web_refuse_def submission_ok_def local_path_def split: option.splits if_splits)
qed

fun route_ok :: "route \<Rightarrow> bool" where
  "route_ok (Route_Form handler) \<longleftrightarrow> (\<forall>form s. handler form = Inr s \<longrightarrow> submission_ok s)"
| "route_ok (Route_Action submission) \<longleftrightarrow> submission_ok submission"
| "route_ok Route_Page \<longleftrightarrow> True"

lemma map_of_all: "map_of xs k = Some v \<Longrightarrow> list_all (\<lambda>(_, v). P v) xs \<Longrightarrow> P v"
  by (drule map_of_SomeD) (auto simp: list_all_iff)

lemma actions_ok:
  "submission_ok (Event_Settings SettingsEvent_ClearApiCookie, ''/settings'')"
  "submission_ok (Event_Settings SettingsEvent_ClearNtfyTopic, ''/settings'')"
  "submission_ok (Event_Notification NotificationEvent_SendTest, ''/settings'')"
  "submission_ok (Event_Mam MamEvent_RatioUseChecked, ''/'')"
  by (simp_all add: submission_ok_def local_path_def)

lemma routes_ok: "web_route path = Some route \<Longrightarrow> route_ok route"
  unfolding web_route_def by (erule map_of_all) (simp add: handlers_ok actions_ok)

lemma submit_submits:
  "web_submit accepted s = (Some e, response) \<Longrightarrow> accepted \<and> response = Response_Redirect (snd s) \<and> e = fst s"
  by (auto simp: web_submit_def split: if_splits)

lemma dispatch_submits:
  assumes "web_dispatch accepted request = (Some e, response)"
  obtains target where "request_method request = Method_Post" "accepted" "response = Response_Redirect target"
    "submission_ok (e, target)"
proof (cases "web_route (request_path request)")
  case None
  with assms show ?thesis by (simp add: web_dispatch_def)
next
  case (Some route)
  have ok: "route_ok route" by (rule routes_ok [OF Some])
  show ?thesis
  proof (cases "request_method request = Method_Post")
    case True
    then show ?thesis
    proof (cases route)
      case (Route_Form handler)
      with assms Some True obtain form s where "handler form = Inr s" "web_submit accepted s = (Some e, response)"
        by (auto simp: web_dispatch_def split: option.splits sum.splits)
      moreover from this(1) ok Route_Form have "submission_ok s" by (simp del: split_paired_All)
      ultimately show ?thesis using True that [of "snd s"] by (auto dest!: submit_submits)
    next
      case (Route_Action s)
      with assms Some True have "web_submit accepted s = (Some e, response)" by (simp add: web_dispatch_def)
      with ok Route_Action True that [of "snd s"] show ?thesis by (auto dest!: submit_submits)
    qed (use assms Some in \<open>simp add: web_dispatch_def\<close>)
  next
    case False
    with assms Some show ?thesis by (auto simp: web_dispatch_def split: route.splits web_method.splits)
  qed
qed

lemma dispatch_refuses: "web_dispatch accepted request = (None, response) \<Longrightarrow> \<exists>status. response = Response_Status status"
  by (auto simp: web_dispatch_def web_submit_def split: option.splits route.splits web_method.splits sum.splits if_splits)

lemma protect_submits:
  assumes "web_protect hosts accepted request = (Some e, response)"
  obtains "host_allowed (request_host request) hosts"
    "same_origin (unwrap_or '''' (request_host request)) (request_origin request) (request_fetch_site request)"
    "web_dispatch accepted request = (Some e, response)"
proof -
  from assms have sent: "web_dispatch accepted request = (Some e, response)"
    by (auto simp: web_protect_def split: if_splits)
  then have "request_method request = Method_Post" by (rule dispatch_submits)
  with assms sent show ?thesis by (intro that) (simp_all add: web_protect_def split: if_splits)
qed

lemma same_origin_from:
  assumes "same_origin host (Some origin) fetch_site"
  shows "\<exists>scheme authority. scheme \<in> {''http://'', ''https://''} \<and> origin = scheme @ authority \<and>
    eq_ignore_ascii_case authority host"
proof -
  have authority: "is_some_and (\<lambda>authority. eq_ignore_ascii_case authority host)
      (case strip_prefix ''http://'' origin of Some a \<Rightarrow> Some a | None \<Rightarrow> strip_prefix ''https://'' origin)"
    using assms by (simp add: same_origin_def split: if_splits)
  show ?thesis
  proof (cases "strip_prefix ''http://'' origin")
    case (Some a)
    with authority have "eq_ignore_ascii_case a host" by simp
    moreover have "origin = ''http://'' @ a" using Some by (simp only: strip_prefix_Some)
    ultimately show ?thesis by blast
  next
    case None
    with authority obtain a where a: "strip_prefix ''https://'' origin = Some a" "eq_ignore_ascii_case a host"
      by (cases "strip_prefix ''https://'' origin") auto
    then have "origin = ''https://'' @ a" by (simp only: strip_prefix_Some)
    with a show ?thesis by blast
  qed
qed

subsection \<open>Properties\<close>

text \<open>
  C21. Only the dashboard's own pages change anything: a request that makes Windlass submit an event is
  a POST whose Host header names, with or without a port and in any case, one of the configured hosts;
  if a browser says where it comes from, it comes from the same host and port.
\<close>

theorem only_own_pages_change_anything:
  assumes "web_protect hosts accepted request = (Some e, response)"
  shows "\<exists>host. request_host request = Some host \<and> request_method request = Method_Post \<and>
    list_ex (\<lambda>a. eq_ignore_ascii_case a (host_name host)) hosts \<and>
    request_fetch_site request \<in> {None, Some ''same-origin'', Some ''none''} \<and>
    (case request_origin request of
       None \<Rightarrow> True
     | Some origin \<Rightarrow> \<exists>scheme authority. scheme \<in> {''http://'', ''https://''} \<and> origin = scheme @ authority \<and>
         eq_ignore_ascii_case authority host)"
proof -
  from assms obtain submits: "host_allowed (request_host request) hosts"
    "same_origin (unwrap_or '''' (request_host request)) (request_origin request) (request_fetch_site request)"
    "web_dispatch accepted request = (Some e, response)" by (rule protect_submits)
  from submits(3) have post: "request_method request = Method_Post" by (rule dispatch_submits)
  from submits(1) obtain host where host: "request_host request = Some host"
    "list_ex (\<lambda>a. eq_ignore_ascii_case a (host_name host)) hosts"
    by (cases "request_host request") (auto simp: host_allowed_def)
  with submits(2) have origin: "same_origin host (request_origin request) (request_fetch_site request)" by simp
  then have site: "request_fetch_site request \<in> {None, Some ''same-origin'', Some ''none''}"
    by (cases "request_fetch_site request") (auto simp: same_origin_def split: if_splits)
  moreover have "case request_origin request of
       None \<Rightarrow> True
     | Some origin \<Rightarrow> \<exists>scheme authority. scheme \<in> {''http://'', ''https://''} \<and> origin = scheme @ authority \<and>
         eq_ignore_ascii_case authority host"
    using origin by (cases "request_origin request") (simp_all only: option.case same_origin_from)
  ultimately show ?thesis using host post by blast
qed

theorem only_own_pages_change_anything_witness:
  "let request = \<lparr>request_method = Method_Post, request_path = ''/mam/pause'', request_host = Some ''[::1]:8740'',
                   request_origin = Some ''http://[::1]:8740'', request_fetch_site = Some ''same-origin'', request_form = Some []\<rparr>
   in web_protect [''::1''] True request = (Some (Event_MamPause (MamPauseEvent_Set MamRequestMode_Paused)), Response_Redirect ''/'') \<and>
      eq_ignore_ascii_case ''::1'' (host_name ''[::1]:8740'')"
proof -
  let ?request = "\<lparr>request_method = Method_Post, request_path = ''/mam/pause'', request_host = Some ''[::1]:8740'',
                   request_origin = Some ''http://[::1]:8740'', request_fetch_site = Some ''same-origin'', request_form = Some []\<rparr>"
  have "web_protect [''::1''] True ?request =
      (Some (Event_MamPause (MamPauseEvent_Set MamRequestMode_Paused)), Response_Redirect ''/'')"
    by (simp add: web_protect_def host_allowed_def host_name_def same_origin_def strip_prefix_def starts_with_def
        eq_ignore_ascii_case_def web_dispatch_def web_route_def set_mam_mode_def form_optional_def web_submit_def web_back_def
        location_from_path_def)
  with only_own_pages_change_anything [OF this] show ?thesis by simp
qed

text \<open>
  C22. Producers submit what the event loop expects: whatever is typed at the console, configured at
  startup or posted to the dashboard, the events submitted are requests of the owner or the start of a
  service, never the result of work; a setting is within its limits, so it keeps the settings valid;
  and the page a form leads to is one of the dashboard's own.
\<close>

theorem producers_submit_requests_only:
  "list_all producible (serve_events mode services) \<and>
   (case read_command line of Console_Event e \<Rightarrow> producible e | _ \<Rightarrow> True) \<and>
   (case web_protect hosts accepted request of
      (Some e, response) \<Rightarrow> producible e \<and> (case e of Event_Settings s \<Rightarrow> settings_event_ok s | _ \<Rightarrow> True) \<and>
        (\<exists>target. response = Response_Redirect target \<and> target \<in> {''/'', ''/notifications'', ''/history'', ''/settings''})
    | (None, response) \<Rightarrow> \<exists>status. response = Response_Status status)"
proof -
  have "case web_protect hosts accepted request of
      (Some e, response) \<Rightarrow> producible e \<and> (case e of Event_Settings s \<Rightarrow> settings_event_ok s | _ \<Rightarrow> True) \<and>
        (\<exists>target. response = Response_Redirect target \<and> target \<in> {''/'', ''/notifications'', ''/history'', ''/settings''})
    | (None, response) \<Rightarrow> \<exists>status. response = Response_Status status"
  proof (cases "web_protect hosts accepted request")
    case (Pair submitted response)
    show ?thesis
    proof (cases submitted)
      case None
      with Pair show ?thesis
        by (auto simp: web_protect_def dest: dispatch_refuses split: if_splits)
    next
      case (Some e)
      with Pair have "web_dispatch accepted request = (Some e, response)" by (auto elim: protect_submits)
      then obtain target where "response = Response_Redirect target" "submission_ok (e, target)" by (rule dispatch_submits)
      with Pair Some show ?thesis by (simp add: submission_ok_def local_path_def)
    qed
  qed
  moreover have "list_all producible (serve_events mode services)"
    by (simp add: serve_events_def enable_events_def split: option.split prod.split)
  ultimately show ?thesis by (simp add: read_command_def split: option.split)
qed

text \<open>
  A host is known by its name: with a decimal port or without one, a name is the host's name, and an
  IPv6 address is what stands in the brackets, whatever follows them.
\<close>

theorem host_names_have_no_port:
  assumes "CHR '':'' \<notin> set name" and "\<not> starts_with ''['' name" and "port \<noteq> []" and "list_all is_ascii_digit port"
    and "CHR '']'' \<notin> set address"
  shows "host_name name = name \<and> host_name (name @ '':'' @ port) = name \<and> host_name (''['' @ address @ '']'' @ rest) = address"
proof -
  have "is_ascii_digit c \<Longrightarrow> c \<noteq> CHR '':''" for c by (auto simp: is_ascii_digit_def)
  then have "CHR '':'' \<notin> set port" using assms(4) by (auto simp: list_all_iff)
  then have "rsplit_once (CHR '':'') (name @ '':'' @ port) = Some (name, port)" using rsplit_once_last by simp
  moreover have "\<not> starts_with ''['' (name @ '':'' @ port)"
    using assms(2) by (cases name) (simp_all add: starts_with_def)
  moreover have "strip_prefix ''['' (''['' @ address @ '']'' @ rest) = Some (address @ CHR '']'' # rest)"
    by (simp add: strip_prefix_Some)
  ultimately show ?thesis
    using assms split_once_first [of "CHR '']''" address rest] rsplit_once_absent [OF assms(1)]
    by (simp add: host_name_def) (simp add: strip_prefix_def)
qed

theorem host_names_have_no_port_witness:
  "host_name ''windlass.ts.net:8740'' = ''windlass.ts.net'' \<and> host_name ''[::1]:8740'' = ''::1''"
  using host_names_have_no_port [of "''windlass.ts.net''" "''8740''" "''::1''" "'':8740''"]
  by (simp add: starts_with_def is_ascii_digit_def)

end
