(* ===== verification/History_Links.thy ===== *)
theory History_Links
  imports Dashboard Describe
begin

text \<open>
  The links between the pages of history (\<open>page_link\<close>, \<open>shell/web/pages.rs\<close>) and the requests they
  make (\<open>HistoryParameters\<close> and \<open>history_query\<close>, \<open>shell/web/mod.rs\<close>): a link carries the filter
  it was shown with. How the \<open>time\<close> crate writes and reads a time and how axum decodes a query string
  are parameters.
\<close>

subsection \<open>Links\<close>

definition delay_text :: "system_time \<Rightarrow> system_time \<Rightarrow> string" where
  "delay_text occurred processed =
     (case time_since processed occurred of
        None \<Rightarrow> ''clock changed''
      | Some delay \<Rightarrow> ''+'' @ show_nat (delay div 1000000) @ '' ms'')"

definition escape_plus :: "string \<Rightarrow> string" where
  "escape_plus s = concat (map (\<lambda>c. if c = CHR ''+'' then ''%2B'' else [c]) s)"

definition page_link :: "(duration \<Rightarrow> string option) \<Rightarrow> history_query \<Rightarrow> page \<Rightarrow> string" where
  "page_link rfc query page =
     ''/history?'' @ join_at CHR ''&''
       ((case query_category query of None \<Rightarrow> [] | Some kind \<Rightarrow> [''kind='' @ kind]) @
        (if query_routine query then [''routine=on''] else []) @
        [name @ ''='' @ escape_plus (timestamp rfc time).
           (name, Some time) \<leftarrow> [(''from'', query_from query), (''to'', query_until query)]] @
        (case page of
           Page_Newest \<Rightarrow> []
         | Page_Before i \<Rightarrow> [''before='' @ show_int i]
         | Page_After i \<Rightarrow> [''after='' @ show_int i]))"

text \<open>The links below the rows.\<close>

definition newer_link :: "(duration \<Rightarrow> string option) \<Rightarrow> history_query \<Rightarrow> history_page \<Rightarrow> string option" where
  "newer_link rfc query page =
     (case page_rows page of
        first # _ \<Rightarrow> if page_has_newer page then Some (page_link rfc query (Page_After (row_id first))) else None
      | [] \<Rightarrow> None)"

definition older_link :: "(duration \<Rightarrow> string option) \<Rightarrow> history_query \<Rightarrow> history_page \<Rightarrow> string option" where
  "older_link rfc query page =
     (if page_has_older page \<and> page_rows page \<noteq> []
      then Some (page_link rfc query (Page_Before (row_id (last (page_rows page))))) else None)"

subsection \<open>Requests\<close>

text \<open>An optional field that is a number: refused when it is not one.\<close>

definition form_optional_i64 :: "string \<Rightarrow> web_form \<Rightarrow> int option option" where
  "form_optional_i64 name form =
     Option.bind (form_optional name form)
       (\<lambda>field. case field of None \<Rightarrow> Some None | Some text \<Rightarrow> map_option Some (parse_i64 text))"

definition history_parameters_of :: "web_form \<Rightarrow> history_parameters option" where
  "history_parameters_of form =
     Option.bind (form_optional ''kind'' form) (\<lambda>kind.
     Option.bind (form_optional ''from'' form) (\<lambda>from.
     Option.bind (form_optional ''to'' form) (\<lambda>to.
     Option.bind (form_optional ''from_local'' form) (\<lambda>from_local.
     Option.bind (form_optional ''to_local'' form) (\<lambda>to_local.
     Option.bind (form_optional_i64 ''before'' form) (\<lambda>before.
     Option.bind (form_optional_i64 ''after'' form) (\<lambda>after.
     Option.bind (form_optional ''routine'' form) (\<lambda>routine.
       Some \<lparr>parameter_kind = kind, parameter_from = from, parameter_to = to, parameter_from_local = from_local,
             parameter_to_local = to_local, parameter_before = before, parameter_after = after,
             parameter_routine = routine\<rparr>))))))))"

text \<open>The query that a request for a page of history makes; \<open>None\<close> is a refusal, or another page.\<close>

definition history_request ::
    "(string \<Rightarrow> web_form) \<Rightarrow> (string \<Rightarrow> system_time option) \<Rightarrow> (string \<Rightarrow> system_time option) \<Rightarrow> string \<Rightarrow> history_query option" where
  "history_request decode read_local read_exact address =
     (case split_once (CHR ''?'') address of
        Some (path, query) \<Rightarrow>
          if path = ''/history'' then map_option (history_query_of read_local read_exact) (history_parameters_of (decode query))
          else None
      | None \<Rightarrow> None)"

definition show_history ::
    "(string \<Rightarrow> web_form) \<Rightarrow> (string \<Rightarrow> system_time option) \<Rightarrow> (string \<Rightarrow> system_time option) \<Rightarrow> history_log \<Rightarrow> string \<Rightarrow>
     (history_query \<times> history_page) option" where
  "show_history decode read_local read_exact log address =
     map_option (\<lambda>query. (query, read_page log query)) (history_request decode read_local read_exact address)"

text \<open>What is on the page reached by following the link to older entries \<open>n\<close> times from the newest.\<close>

fun follow_older ::
    "(duration \<Rightarrow> string option) \<Rightarrow> (string \<Rightarrow> (history_query \<times> history_page) option) \<Rightarrow> history_query \<Rightarrow> nat \<Rightarrow>
     (history_query \<times> history_page) option" where
  "follow_older rfc shown query 0 = shown (page_link rfc query Page_Newest)"
| "follow_older rfc shown query (Suc n) =
     Option.bind (follow_older rfc shown query n) (\<lambda>(query, page). Option.bind (older_link rfc query page) shown)"

definition rows_shown :: "(history_query \<times> history_page) option \<Rightarrow> history_row list" where
  "rows_shown shown = (case shown of None \<Rightarrow> [] | Some (query, page) \<Rightarrow> page_rows page)"

subsection \<open>What is relied on\<close>

text \<open>
  Of axum's decoder: fields of characters that are not special come out as they were joined. Of the
  \<open>time\<close> crate: a time it writes has none but such characters, and it reads it back.
\<close>

definition plain :: "string \<Rightarrow> bool" where
  "plain s \<longleftrightarrow> list_all (\<lambda>c. c \<notin> {CHR ''&'', CHR ''='', CHR ''%'', CHR ''+''}) s"

definition field_text :: "string \<times> string \<Rightarrow> string" where
  "field_text field = fst field @ ''='' @ snd field"

definition decodes_fields :: "(string \<Rightarrow> web_form) \<Rightarrow> bool" where
  "decodes_fields decode \<longleftrightarrow>
     (\<forall>fields. list_all (\<lambda>(name, text). plain name \<and> plain text) fields \<longrightarrow>
        decode (join_at CHR ''&'' (map field_text fields)) = fields)"

definition reads_times :: "(duration \<Rightarrow> string option) \<Rightarrow> (string \<Rightarrow> system_time option) \<Rightarrow> bool" where
  "reads_times rfc read_exact \<longleftrightarrow>
     (\<forall>since text. rfc since = Some text \<longrightarrow>
        plain text \<and> text \<noteq> [] \<and> trim text = text \<and> read_exact text = Some (int since))"

text \<open>A time that can be written: it lies between 1970 and the last year the crate knows.\<close>

definition writable :: "(duration \<Rightarrow> string option) \<Rightarrow> system_time option \<Rightarrow> bool" where
  "writable rfc time \<longleftrightarrow> is_none_or (\<lambda>t. 0 \<le> t \<and> rfc (nat t) \<noteq> None) time"

definition fits_i64 :: "page \<Rightarrow> bool" where
  "fits_i64 page \<longleftrightarrow>
     (case page of Page_Newest \<Rightarrow> True | Page_Before i \<Rightarrow> - (2 ^ 63) \<le> i \<and> i < 2 ^ 63 | Page_After i \<Rightarrow> - (2 ^ 63) \<le> i \<and> i < 2 ^ 63)"

subsection \<open>A link leads to its page\<close>

lemma escape_plain: "plain s \<Longrightarrow> escape_plus s = s"
  by (induction s) (auto simp: plain_def escape_plus_def)

lemma plain_digits: "list_all is_ascii_digit s \<Longrightarrow> plain s"
  by (induction s) (auto simp: plain_def is_ascii_digit_def)

lemma plain_show_int: "plain (show_int i)"
  using show_nat_digits plain_digits by (simp add: show_int_def plain_def)

text \<open>The fields of a link.\<close>

definition link_fields :: "(duration \<Rightarrow> string option) \<Rightarrow> history_query \<Rightarrow> page \<Rightarrow> web_form" where
  "link_fields rfc query page =
     (case query_category query of None \<Rightarrow> [] | Some kind \<Rightarrow> [(''kind'', kind)]) @
     (if query_routine query then [(''routine'', ''on'')] else []) @
     (case query_from query of None \<Rightarrow> [] | Some t \<Rightarrow> [(''from'', escape_plus (timestamp rfc t))]) @
     (case query_until query of None \<Rightarrow> [] | Some t \<Rightarrow> [(''to'', escape_plus (timestamp rfc t))]) @
     (case page of Page_Newest \<Rightarrow> [] | Page_Before i \<Rightarrow> [(''before'', show_int i)] | Page_After i \<Rightarrow> [(''after'', show_int i)])"

lemma page_link_fields: "page_link rfc query page = ''/history?'' @ join_at CHR ''&'' (map field_text (link_fields rfc query page))"
  by (simp add: page_link_def link_fields_def field_text_def split: option.split page.split)

lemma written_time:
  assumes "reads_times rfc read_exact" and "writable rfc (Some t)"
  shows "plain (timestamp rfc t)" "escape_plus (timestamp rfc t) = timestamp rfc t"
    "filter_time read_local read_exact (Some (timestamp rfc t)) None = Some t"
proof -
  obtain s where s: "0 \<le> t" "rfc (nat t) = Some s" using assms(2) by (auto simp: writable_def)
  then have stamp: "timestamp rfc t = s" by (simp add: timestamp_def time_since_def)
  have "plain s" "s \<noteq> []" "trim s = s" "read_exact s = Some t"
    using assms(1) s by (auto simp: reads_times_def)
  then show "plain (timestamp rfc t)" "escape_plus (timestamp rfc t) = timestamp rfc t"
    "filter_time read_local read_exact (Some (timestamp rfc t)) None = Some t"
    by (simp_all add: stamp escape_plain filter_time_def present_def)
qed

lemma plain_category: "c \<in> set CATEGORIES \<Longrightarrow> plain c"
  by (auto simp: CATEGORIES_def plain_def)

lemma link_fields_plain:
  assumes "reads_times rfc read_exact" and "writable rfc (query_from query)" and "writable rfc (query_until query)"
    and "is_none_or (\<lambda>c. c \<in> set CATEGORIES) (query_category query)"
  shows "list_all (\<lambda>(name, text). plain name \<and> plain text) (link_fields rfc query page)"
proof -
  have fields: "plain ''kind''" "plain ''routine''" "plain ''on''" "plain ''from''" "plain ''to''" "plain ''before''" "plain ''after''"
    by (simp_all add: plain_def)
  show ?thesis
    using assms by (auto simp: link_fields_def fields plain_show_int plain_category written_time split: option.split page.split)
qed

text \<open>The fields are read as the query they were made of.\<close>

lemma link_fields_read:
  assumes "reads_times rfc read_exact" and "writable rfc (query_from query)" and "writable rfc (query_until query)"
    and "is_none_or (\<lambda>c. c \<in> set CATEGORIES) (query_category query)" and "fits_i64 page"
  shows "map_option (history_query_of read_local read_exact) (history_parameters_of (link_fields rfc query page)) =
    Some (query\<lparr>query_page := page\<rparr>)"
proof -
  let ?form = "link_fields rfc query page"
  have kind_field: "form_optional ''kind'' ?form = Some (query_category query)"
    and from_field: "form_optional ''from'' ?form = Some (map_option (\<lambda>t. escape_plus (timestamp rfc t)) (query_from query))"
    and to_field: "form_optional ''to'' ?form = Some (map_option (\<lambda>t. escape_plus (timestamp rfc t)) (query_until query))"
    and local_fields: "form_optional ''from_local'' ?form = Some None" "form_optional ''to_local'' ?form = Some None"
    and routine_field: "form_optional ''routine'' ?form = Some (if query_routine query then Some ''on'' else None)"
    by (simp_all add: form_optional_def form_field_def link_fields_def split: option.split page.split)
  have "form_optional_i64 ''before'' ?form = Some (case page of Page_Before i \<Rightarrow> Some i | _ \<Rightarrow> None)"
    "form_optional_i64 ''after'' ?form = Some (case page of Page_After i \<Rightarrow> Some i | _ \<Rightarrow> None)"
    using assms(5) parse_i64_show
    by (cases page; simp add: form_optional_i64_def form_optional_def form_field_def link_fields_def fits_i64_def split: option.split)+
  note fields = kind_field from_field to_field local_fields routine_field this
  have time: "filter_time read_local read_exact (map_option (\<lambda>t. escape_plus (timestamp rfc t)) time) None = time"
    if "writable rfc time" for time
    using written_time [OF assms(1)] that by (cases time) (simp_all add: filter_time_def present_def)
  have category: "List.find (\<lambda>v. query_category query = Some v) CATEGORIES = query_category query"
    using assms(4) by (cases "query_category query") (auto simp: CATEGORIES_def)
  show ?thesis
    using time [OF assms(2)] time [OF assms(3)] category
    by (simp add: history_parameters_of_def fields history_query_of_def split: page.split)
qed

lemma link_leads_to_page:
  assumes "decodes_fields decode" and "reads_times rfc read_exact"
    and "writable rfc (query_from query)" and "writable rfc (query_until query)"
    and "is_none_or (\<lambda>c. c \<in> set CATEGORIES) (query_category query)" and "fits_i64 page"
  shows "history_request decode read_local read_exact (page_link rfc query page) = Some (query\<lparr>query_page := page\<rparr>)"
proof -
  let ?fields = "link_fields rfc query page"
  have "split_once (CHR ''?'') (''/history'' @ CHR ''?'' # q) = Some (''/history'', q)" for q
    by (rule split_once_first) simp
  moreover have "decode (join_at CHR ''&'' (map field_text ?fields)) = ?fields"
    using assms(1) link_fields_plain [OF assms(2-5)] by (simp add: decodes_fields_def)
  ultimately show ?thesis
    using link_fields_read [OF assms(2-6)] by (simp add: history_request_def page_link_fields)
qed

subsection \<open>Every entry is reached\<close>

definition ids_fit :: "history_log \<Rightarrow> bool" where
  "ids_fit log \<longleftrightarrow> list_all (\<lambda>row. fits_i64 (Page_Before (row_id row))) (log_rows log)"

definition shareable :: "(duration \<Rightarrow> string option) \<Rightarrow> history_query \<Rightarrow> bool" where
  "shareable rfc query \<longleftrightarrow> writable rfc (query_from query) \<and> writable rfc (query_until query) \<and>
     is_none_or (\<lambda>c. c \<in> set CATEGORIES) (query_category query)"

lemma page_at_none: "log_ok log \<Longrightarrow> page_rows (page_at log query n) = [] \<Longrightarrow> page_rows (page_at log query (Suc n)) = []"
  using page_at_rows [of log query n] by (simp add: page_of_def Let_def)

lemma page_at_listed: "log_ok log \<Longrightarrow> row \<in> set (page_rows (page_at log query n)) \<Longrightarrow> row \<in> set (log_rows log)"
  using page_at_rows [of log query n] by (auto simp: page_of_def dest!: in_set_takeD in_set_dropD)

lemma follow_older_page_at:
  assumes "log_ok log" and "ids_fit log" and "decodes_fields decode" and "reads_times rfc read_exact" and "shareable rfc query"
  shows "case follow_older rfc (show_history decode read_local read_exact log) query n of
      None \<Rightarrow> page_rows (page_at log query n) = []
    | Some (q, page) \<Rightarrow> (\<exists>p. q = query\<lparr>query_page := p\<rparr>) \<and> page = page_at log query n"
proof (induction n)
  have shown: "show_history decode read_local read_exact log (page_link rfc (query\<lparr>query_page := q\<rparr>) p) =
      Some (query\<lparr>query_page := p\<rparr>, read_page log (query\<lparr>query_page := p\<rparr>))" if "fits_i64 p" for p q
    using link_leads_to_page [OF assms(3,4), of "query\<lparr>query_page := q\<rparr>" p read_local] assms(5) that
    by (simp add: show_history_def shareable_def)
  {
    case 0
    show ?case using shown [of Page_Newest "query_page query"] by (auto simp: fits_i64_def)
  next
    case (Suc n)
    let ?page = "page_at log query n"
    show ?case
    proof (cases "follow_older rfc (show_history decode read_local read_exact log) query n")
      case None
      with Suc page_at_none [OF assms(1)] show ?thesis by simp
    next
      case (Some r)
      with Suc obtain p where r: "r = (query\<lparr>query_page := p\<rparr>, ?page)" by auto
      show ?thesis
      proof (cases "page_has_older ?page \<and> page_rows ?page \<noteq> []")
        case True
        then have "last (page_rows ?page) \<in> set (log_rows log)" using page_at_listed [OF assms(1)] by (meson last_in_set)
        then have "fits_i64 (Page_Before (row_id (last (page_rows ?page))))" using assms(2) by (simp add: ids_fit_def list_all_iff)
        from shown [OF this] True show ?thesis by (auto simp: Some r older_link_def Let_def)
      next
        case False
        then have "page_rows (page_at log query (Suc n)) = []"
          using page_at_none [OF assms(1), of query n] by (cases "page_rows ?page = []") (simp_all add: Let_def)
        moreover have "older_link rfc (query\<lparr>query_page := p\<rparr>) ?page = None" unfolding older_link_def by (rule if_not_P [OF False])
        ultimately show ?thesis by (simp add: Some r)
      qed
    qed
  }
qed

text \<open>
  C32. Following the links of the history page shows every matching entry, and each once: the page
  reached from the newest by \<open>n\<close> links to older entries, each decoded from the text of its address, holds the
  matching rows from the (50 n)-th newest on, newest first, and none once all are shown.
\<close>

theorem history_links_reach_everything:
  assumes "log_ok log" and "ids_fit log" and "decodes_fields decode" and "reads_times rfc read_exact" and "shareable rfc query"
  shows "rows_shown (follow_older rfc (show_history decode read_local read_exact log) query n) =
    take HISTORY_PAGE_SIZE (drop (n * HISTORY_PAGE_SIZE) (rev (filter (row_matches query) (log_rows log))))"
  using follow_older_page_at [OF assms, of n read_local] page_at_rows [OF assms(1), of query n]
  by (auto simp: rows_shown_def page_of_def split: option.splits)

text \<open>A decoder and a way to write times that are as relied on.\<close>

definition plain_decode :: "string \<Rightarrow> web_form" where
  "plain_decode s = (if s = [] then [] else map (\<lambda>field. unwrap_or (field, []) (split_once (CHR ''='') field)) (split_at (CHR ''&'') s))"

lemma split_at_join: "xs \<noteq> [] \<Longrightarrow> list_all (\<lambda>s. c \<notin> set s) xs \<Longrightarrow> split_at c (join_at c xs) = xs"
  by (induction c xs rule: join_at.induct) (simp_all add: split_at_none split_at_append)

lemma plain_decode_decodes: "decodes_fields plain_decode"
proof -
  have "plain_decode (join_at CHR ''&'' (map field_text fields)) = fields"
    if "list_all (\<lambda>(name, text). plain name \<and> plain text) fields" for fields
  proof (cases "fields = []")
    case False
    have one: "CHR ''&'' \<notin> set (field_text f) \<and> split_once (CHR ''='') (field_text f) = Some f" if "f \<in> set fields" for f
      using \<open>list_all _ fields\<close> that split_once_first [of "CHR ''=''" "fst f" "snd f"]
      by (fastforce simp: list_all_iff plain_def field_text_def)
    have "join_at CHR ''&'' (map field_text fields) \<noteq> []"
      using False by (cases fields; cases "tl fields") (auto simp: field_text_def)
    moreover have "split_at (CHR ''&'') (join_at CHR ''&'' (map field_text fields)) = map field_text fields"
      using False one by (intro split_at_join) (auto simp: list_all_iff)
    ultimately show ?thesis using one by (simp add: plain_decode_def map_idI)
  qed (simp add: plain_decode_def)
  then show ?thesis by (simp add: decodes_fields_def)
qed

lemma numbers_read_times: "reads_times (\<lambda>since. Some (show_nat since)) (\<lambda>s. map_option int (parse_digits s))"
proof -
  have "trim (show_nat n) = show_nat n" for n
  proof -
    have "\<not> is_whitespace c" if "c \<in> set (show_nat n)" for c
      using that show_nat_digits [of n] digit_plain by (auto simp: list_all_iff)
    then show ?thesis using show_nat_nonempty by (simp add: trim_inside)
  qed
  then show ?thesis using plain_digits show_nat_digits show_nat_nonempty by (simp add: reads_times_def)
qed

theorem history_links_reach_everything_witness:
  "let entry = \<lparr>entry_occurred_at = 0, entry_processed_at = 0, entry_event = Event_Startup StartupEvent_StorageOpened, entry_actions = []\<rparr>;
       log = log_insert (log_insert \<lparr>log_rows = [], log_sequence = 0\<rparr> entry) entry;
       query = \<lparr>query_category = Some ''startup'', query_routine = True, query_from = Some 0, query_until = None, query_page = Page_Newest\<rparr>
   in map row_id (rows_shown (follow_older (\<lambda>since. Some (show_nat since))
        (show_history plain_decode (\<lambda>_. None) (\<lambda>s. map_option int (parse_digits s)) log) query 0)) = [2, 1]"
proof -
  let ?entry = "\<lparr>entry_occurred_at = 0, entry_processed_at = 0, entry_event = Event_Startup StartupEvent_StorageOpened, entry_actions = []\<rparr>"
  let ?log = "log_insert (log_insert \<lparr>log_rows = [], log_sequence = 0\<rparr> ?entry) ?entry"
  let ?query = "\<lparr>query_category = Some ''startup'', query_routine = True, query_from = Some 0, query_until = None, query_page = Page_Newest\<rparr>"
  have "log_ok ?log" by (intro log_ok_insert) (simp add: log_ok_def)
  moreover have "ids_fit ?log" by (simp add: ids_fit_def log_insert_def fits_i64_def)
  moreover have "shareable (\<lambda>since. Some (show_nat since)) ?query" by (simp add: shareable_def writable_def CATEGORIES_def)
  ultimately show ?thesis
    using history_links_reach_everything [OF _ _ plain_decode_decodes numbers_read_times, of ?log ?query "\<lambda>_. None" 0]
    by (simp add: Let_def log_insert_def row_matches_def HISTORY_PAGE_SIZE_def unix_millis_def time_since_def)
qed

end
