(* ===== verification/Notice_Conditions.thy ===== *)
theory Notice_Conditions
  imports Notifications
begin

text \<open>
  When a lasting condition is announced (\<open>Notifications::track\<close>): the state machine kept per
  condition agrees with a declarative reading of the statuses it was given. A condition has held
  since its first active status after the last clear one; the user was told of it when an active
  status came at least its grace period later; it is announced then, once, and its end is
  announced only if it was.
\<close>

fun is_clear :: "status \<Rightarrow> bool" where
  "is_clear (Status_Clear _) = True"
| "is_clear _ = False"

fun hold_step :: "instant option \<Rightarrow> instant \<times> status \<Rightarrow> instant option" where
  "hold_step since (now, Status_Active _) = Some (unwrap_or now since)"
| "hold_step since (now, Status_Clear _) = None"
| "hold_step since (now, Status_Unchanged) = since"

definition held_since :: "(instant \<times> status) list \<Rightarrow> instant option" where
  "held_since xs = foldl hold_step None xs"

definition told :: "condition \<Rightarrow> (instant \<times> status) list \<Rightarrow> bool" where
  "told c xs \<longleftrightarrow> (\<exists>pre now notice post since.
     xs = pre @ (now, Status_Active notice) # post \<and> list_all (\<lambda>x. \<not> is_clear (snd x)) post \<and>
     held_since (pre @ [(now, Status_Active notice)]) = Some since \<and>
     condition_grace c \<le> duration_since now since)"

definition track_run :: "notifications \<Rightarrow> condition \<Rightarrow> (instant \<times> status) list \<Rightarrow> notifications" where
  "track_run n c xs = foldl (\<lambda>n (now, status). fst (notifications_track n now c status)) n xs"

lemma held_since_snoc [simp]: "held_since (xs @ [x]) = hold_step (held_since xs) x"
  by (simp add: held_since_def)

lemma track_run_snoc [simp]:
  "track_run n c (xs @ [(now, status)]) = fst (notifications_track (track_run n c xs) now c status)"
  by (simp add: track_run_def)

lemma told_Nil [simp]: "\<not> told c []" "held_since [] = None" "track_run n c [] = n"
  by (simp_all add: told_def held_since_def track_run_def)

text \<open>How one more status changes what was told.\<close>

lemma told_snoc:
  "told c (xs @ [(now, status)]) \<longleftrightarrow>
     (\<not> is_clear status \<and> told c xs) \<or>
     (\<exists>notice. status = Status_Active notice) \<and>
       condition_grace c \<le> duration_since now (unwrap_or now (held_since xs))"
proof
  assume "told c (xs @ [(now, status)])"
  then obtain pre t notice post since where split: "xs @ [(now, status)] = pre @ (t, Status_Active notice) # post"
    and clear: "list_all (\<lambda>x. \<not> is_clear (snd x)) post"
    and since: "held_since (pre @ [(t, Status_Active notice)]) = Some since"
    and grace: "condition_grace c \<le> duration_since t since"
    unfolding told_def by blast
  show "(\<not> is_clear status \<and> told c xs) \<or> (\<exists>notice. status = Status_Active notice) \<and>
      condition_grace c \<le> duration_since now (unwrap_or now (held_since xs))"
  proof (cases post rule: rev_cases)
    case Nil
    with split have "xs = pre" "now = t" "status = Status_Active notice" by auto
    with since grace show ?thesis by auto
  next
    case (snoc ys y)
    with split have xs: "xs = pre @ (t, Status_Active notice) # ys" and y: "y = (now, status)" by auto
    from snoc clear have "list_all (\<lambda>x. \<not> is_clear (snd x)) ys" "\<not> is_clear status" by (auto simp: y)
    with xs since grace show ?thesis unfolding told_def by blast
  qed
next
  assume "(\<not> is_clear status \<and> told c xs) \<or> (\<exists>notice. status = Status_Active notice) \<and>
      condition_grace c \<le> duration_since now (unwrap_or now (held_since xs))"
  then consider (before) "\<not> is_clear status" "told c xs"
    | (here) notice where "status = Status_Active notice"
        "condition_grace c \<le> duration_since now (unwrap_or now (held_since xs))" by blast
  then show "told c (xs @ [(now, status)])"
  proof cases
    case before
    then obtain pre t notice post since where "xs = pre @ (t, Status_Active notice) # post"
      "list_all (\<lambda>x. \<not> is_clear (snd x)) post" "held_since (pre @ [(t, Status_Active notice)]) = Some since"
      "condition_grace c \<le> duration_since t since" unfolding told_def by blast
    with before(1) have "xs @ [(now, status)] = pre @ (t, Status_Active notice) # (post @ [(now, status)])"
      "list_all (\<lambda>x. \<not> is_clear (snd x)) (post @ [(now, status)])"
      "held_since (pre @ [(t, Status_Active notice)]) = Some since" "condition_grace c \<le> duration_since t since"
      by simp_all
    then show ?thesis unfolding told_def by blast
  next
    case here
    then have "xs @ [(now, status)] = xs @ (now, Status_Active notice) # []"
      "list_all (\<lambda>x. \<not> is_clear (snd x)) ([] :: (instant \<times> status) list)"
      "held_since (xs @ [(now, Status_Active notice)]) = Some (unwrap_or now (held_since xs))"
      by simp_all
    with here(2) show ?thesis unfolding told_def by blast
  qed
qed

lemma told_held: "told c xs \<Longrightarrow> held_since xs \<noteq> None"
proof (induction xs rule: rev_induct)
  case (snoc x xs)
  obtain now status where x: "x = (now, status)" by (cases x)
  with snoc show ?case by (cases status) (auto simp: told_snoc)
qed simp

text \<open>The phase kept for a condition is what the statuses say.\<close>

definition phase_of :: "condition \<Rightarrow> (instant \<times> status) list \<Rightarrow> phase option" where
  "phase_of c xs = map_option (\<lambda>t. if told c xs then Phase_Raised else Phase_Pending t) (held_since xs)"

lemma duration_since_self [simp]: "duration_since t t = 0"
  by (simp add: duration_since_def)

lemma track_phase:
  assumes "bt_get (notifications_conditions n) c = None"
  shows "bt_get (notifications_conditions (track_run n c xs)) c = phase_of c xs"
proof (induction xs rule: rev_induct)
  case Nil
  with assms show ?case by (simp add: phase_of_def)
next
  case (snoc x xs)
  obtain now status where x: "x = (now, status)" by (cases x)
  show ?case
  proof (cases "held_since xs")
    case None
    then have "\<not> told c xs" using told_held by blast
    with snoc None show ?thesis unfolding x
      by (cases status) (auto simp: phase_of_def notifications_track_def told_snoc Let_def)
  next
    case (Some t)
    with snoc show ?thesis unfolding x
      by (cases status) (auto simp: phase_of_def notifications_track_def told_snoc Let_def)
  qed
qed

text \<open>
  C37. A lasting condition is announced once it has held for its grace period, once: for every
  sequence of statuses a condition was given, an active status announces it exactly if the user
  was not yet told and the condition has held for its grace period by then, and a clear one
  announces its end exactly if the user was told.
\<close>

theorem condition_announced_once_after_grace:
  assumes "bt_get (notifications_conditions n) c = None"
  shows "snd (notifications_track (track_run n c xs) now c status) =
    (case status of
       Status_Active notice \<Rightarrow>
         if \<not> told c xs \<and> condition_grace c \<le> duration_since now (unwrap_or now (held_since xs))
         then Some notice else None
     | Status_Clear ended \<Rightarrow> if told c xs then ended else None
     | Status_Unchanged \<Rightarrow> None)"
  using track_phase [OF assms, of xs] told_held [of c xs]
  by (cases "held_since xs"; cases status) (auto simp: phase_of_def notifications_track_def Let_def)

theorem condition_announced_once_after_grace_witness:
  "snd (notifications_track (track_run notifications_new Condition_RegistrySave
       [(5, Status_Active Notice_RegistryNotSaved), (6, Status_Unchanged)])
     120000000005 Condition_RegistrySave (Status_Active Notice_RegistryNotSaved)) = Some Notice_RegistryNotSaved"
proof -
  have "held_since [(5, Status_Active Notice_RegistryNotSaved), (6, Status_Unchanged)] = Some 5"
    by (simp add: held_since_def)
  moreover have "\<not> told Condition_RegistrySave [(5, Status_Active Notice_RegistryNotSaved), (6, Status_Unchanged)]"
    using told_snoc [of Condition_RegistrySave "[(5, Status_Active Notice_RegistryNotSaved)]" 6 Status_Unchanged]
      told_snoc [of Condition_RegistrySave "[]" 5 "Status_Active Notice_RegistryNotSaved"]
    by (simp add: time_defs)
  ultimately show ?thesis
    using condition_announced_once_after_grace [of notifications_new Condition_RegistrySave
      "[(5, Status_Active Notice_RegistryNotSaved), (6, Status_Unchanged)]" 120000000005
      "Status_Active Notice_RegistryNotSaved"]
    by (simp add: notifications_new_def time_defs)
qed

end
