(* ===== verification/Storage_Laws.thy ===== *)
theory Storage_Laws
  imports Storage
begin

text \<open>
  What is written to the database is what is read from it: the columns, the rows of the torrent
  registry, the settings and MAM's state, up to the precision the tables keep.
\<close>

subsection \<open>Columns\<close>

text \<open>What a count and a time become: at most \<open>i64::MAX\<close>, and whole seconds since 1970.\<close>

definition stored_count :: "u64 \<Rightarrow> u64" where
  "stored_count c = (if unat c < 2 ^ 63 then c else of_nat (2 ^ 63 - 1))"

definition stored_time :: "system_time \<Rightarrow> system_time" where
  "stored_time t = (if t < 0 then 0 else t - t mod 1000000000)"

named_theorems column \<open>reading back a column that was written\<close>

lemma count_column [column]: "u64_try_from (integer c) = Some (stored_count c)"
proof (cases "unat c < 2 ^ 63")
  case True
  then have "int (unat c) < int (2 ^ 63)" by (simp only: of_nat_less_iff)
  then have "int (unat c) < 2 ^ 63" by (simp only: of_nat_power of_nat_numeral)
  then have "integer c = int (unat c)" by (simp only: integer_def if_True)
  moreover have "unat c < 2 ^ 64" using True by simp
  ultimately show ?thesis using True by (simp only: try_from_nat stored_count_def if_True) simp
next
  case False
  then have "\<not> int (unat c) < int (2 ^ 63)" by (simp only: of_nat_less_iff not_False_eq_True)
  then have "\<not> int (unat c) < 2 ^ 63" by (simp only: of_nat_power of_nat_numeral not_False_eq_True)
  then have "integer c = 2 ^ 63 - 1" unfolding integer_def by (rule if_not_P)
  then have "integer c = int (2 ^ 63 - 1)" by simp
  then show ?thesis using False by (simp add: stored_count_def u64_try_from_def)
qed

lemma stored_count_nonzero: "c \<noteq> 0 \<Longrightarrow> stored_count c \<noteq> 0"
  by (simp add: stored_count_def)

lemma unat_stored_count: "unat (stored_count c) = min (unat c) (2 ^ 63 - 1)"
  by (simp add: stored_count_def unat_of_nat)

lemma time_column [column]:
  assumes "t \<le> time_max"
  shows "time_from_seconds (seconds t) = Some (stored_time t)"
proof (cases "t < 0")
  case True
  then show ?thesis
    by (simp add: seconds_def time_since_def time_from_seconds_def u64_try_from_def checked_add_def secs_def
        stored_time_def time_max_def)
next
  case False
  define n where "n = nat t div 1000000000"
  have n: "n < 2 ^ 63" using assms False by (simp add: n_def time_max_def div_less_iff_less_mult)
  have t: "int (n * 1000000000) = t - t mod 1000000000"
    using False by (simp add: n_def minus_mod_eq_mult_div zdiv_int)
  have "unat (of_nat n :: u64) = n" using n by (simp add: unat_of_nat)
  then have "seconds t = int n"
    using False n by (simp add: seconds_def time_since_def integer_def as_secs_def n_def flip: of_nat_less_iff)
  then have "time_from_seconds (seconds t) = checked_add 0 (secs n)"
    using n by (simp add: time_from_seconds_def unat_of_nat)
  also have "\<dots> = Some (int (n * 1000000000))"
    using assms False t by (simp add: checked_add_def secs_def)
  finally show ?thesis using t False by (simp add: stored_time_def)
qed

lemma stored_time_bounds:
  assumes "0 \<le> t"
  shows "stored_time t \<le> t" and "t < stored_time t + 1000000000"
proof -
  have "0 \<le> t mod 1000000000" "t mod 1000000000 < 1000000000" by simp_all
  with assms show "stored_time t \<le> t" "t < stored_time t + 1000000000"
    by (simp_all add: stored_time_def)
qed

lemma limit_column [simp]: "u32_try_from (uint (w :: u32)) = Some w" "u32_try_from (int (unat w)) = Some w"
  using uint_lt2p [of w] by (simp_all add: u32_try_from_def)

lemma state_column [column]: "torrent_state_read (state_name s) = s"
  by (induction s rule: state_name.induct) (simp_all add: torrent_state_read_def)

lemma origin_column [column]: "origin_read (origin_name v) = Some v"
  by (cases v) (simp_all add: origin_read_def origin_name_def)

lemma desired_column [column]: "desired_read (desired_name v) = Some v"
  by (cases v) (simp_all add: desired_read_def desired_name_def)

lemma optional_column [simp]:
  "read_optional f None = Some None" "read_optional f (Some v) = map_option Some (f v)"
  by (simp_all add: read_optional_def)

lemma trim_plain: "\<forall>c \<in> set s. \<not> is_whitespace c \<Longrightarrow> trim s = s"
proof (cases s)
  case (Cons c cs)
  moreover assume "\<forall>c \<in> set s. \<not> is_whitespace c"
  ultimately show ?thesis by (intro trim_inside) (use last_in_set [of s] in auto)
qed (simp add: trim_def)

lemma graphic_plain: "is_ascii_graphic c \<Longrightarrow> \<not> is_whitespace c"
  by (simp add: is_ascii_graphic_def is_whitespace_def)

lemma alphanumeric_plain: "is_ascii_alphanumeric c \<Longrightarrow> \<not> is_whitespace c"
  by (auto simp: is_ascii_alphanumeric_def is_ascii_digit_def is_ascii_lower_def is_ascii_upper_def is_whitespace_def)

lemma cookie_column [column]: "api_cookie_parse text = Inr c \<Longrightarrow> api_cookie_parse c = Inr c"
proof -
  assume p: "api_cookie_parse text = Inr c"
  then have c: "c \<noteq> []" "list_all (\<lambda>c. is_ascii_graphic c \<and> c \<notin> {CHR '';'', CHR '','', CHR 0x22, CHR 0x5C}) c"
    by (auto simp: api_cookie_parse_def Let_def split: if_splits)
  have "trim c = c"
    by (rule trim_plain) (use c(2) graphic_plain in \<open>unfold list_all_iff, blast\<close>)
  with c show ?thesis by (simp add: api_cookie_parse_def)
qed

lemma topic_column [column]: "ntfy_topic_parse text = Inr t \<Longrightarrow> ntfy_topic_parse t = Inr t"
proof -
  assume p: "ntfy_topic_parse text = Inr t"
  then have t: "t \<noteq> []" "length t \<le> 64" "list_all (\<lambda>c. is_ascii_alphanumeric c \<or> c \<in> {CHR ''-'', CHR ''_''}) t"
    by (auto simp: ntfy_topic_parse_def Let_def split: if_splits)
  have "trim t = t"
    by (rule trim_plain) (use t(3) alphanumeric_plain in \<open>fastforce simp: list_all_iff is_whitespace_def\<close>)
  with t show ?thesis by (simp add: ntfy_topic_parse_def)
qed

subsection \<open>The rows of the registry\<close>

text \<open>
  What every value of the types satisfies: identities are not zero, hashes are well formed, texts are
  not empty, progress is at most 1000, times are representable.
\<close>

definition torrent_valid :: "torrent \<Rightarrow> bool" where
  "torrent_valid t \<longleftrightarrow>
     is_none_or (\<lambda>n. n \<noteq> []) (torrent_name t) \<and> torrent_progress t \<le> 1000 \<and>
     is_none_or (\<lambda>at. at \<le> time_max) (torrent_added_at t) \<and> is_none_or (\<lambda>at. at \<le> time_max) (torrent_completed_at t) \<and>
     is_none_or (\<lambda>p. p \<noteq> []) (torrent_content_path t) \<and> is_none_or (\<lambda>p. p \<noteq> []) (torrent_save_path t)"

definition record_valid :: "torrent_record \<Rightarrow> bool" where
  "record_valid r \<longleftrightarrow>
     record_id r \<noteq> 0 \<and> is_none_or (\<lambda>mam. mam \<noteq> 0) (identity_mam_id (record_identity r)) \<and>
     is_none_or (\<lambda>hash. torrent_hash_parse hash = Some hash) (identity_hash (record_identity r)) \<and>
     is_none_or (\<lambda>p. p \<noteq> []) (record_save_path r) \<and>
     is_none_or (\<lambda>seen. torrent_valid (observation_torrent seen) \<and> observation_last_seen seen \<le> time_max)
       (record_observation r)"

text \<open>What the database keeps of a record.\<close>

definition stored_torrent :: "torrent \<Rightarrow> torrent" where
  "stored_torrent t =
     t\<lparr>torrent_size := stored_count (torrent_size t), torrent_total_size := stored_count (torrent_total_size t),
       torrent_downloaded := stored_count (torrent_downloaded t), torrent_uploaded := stored_count (torrent_uploaded t),
       torrent_ratio := stored_count (torrent_ratio t),
       torrent_seeding_time := secs (unat (stored_count (of_nat (as_secs (torrent_seeding_time t))))),
       torrent_added_at := map_option stored_time (torrent_added_at t),
       torrent_completed_at := map_option stored_time (torrent_completed_at t),
       torrent_force_start := ForceStart_NotForced\<rparr>"

definition stored_observation :: "observation \<Rightarrow> observation" where
  "stored_observation seen =
     \<lparr>observation_torrent = stored_torrent (observation_torrent seen),
      observation_last_seen = stored_time (observation_last_seen seen)\<rparr>"

fun stored_identity :: "identity \<Rightarrow> identity" where
  "stored_identity (Identity_Mam mam) = Identity_Mam (stored_count mam)"
| "stored_identity (Identity_Client hash) = Identity_Client hash"
| "stored_identity (Identity_Linked mam hash) = Identity_Linked (stored_count mam) hash"

definition stored_record :: "torrent_record \<Rightarrow> torrent_record" where
  "stored_record r =
     r\<lparr>record_id := stored_count (record_id r), record_identity := stored_identity (record_identity r),
       record_observation := map_option stored_observation (record_observation r)\<rparr>"

lemma text_column [column]: "is_none_or (\<lambda>s. s \<noteq> []) v \<Longrightarrow> read_optional nonempty_try_new v = Some v"
  by (cases v) (simp_all add: nonempty_try_new_def)

lemma times_column [column]:
  "is_none_or (\<lambda>at. at \<le> time_max) v \<Longrightarrow> read_optional time_from_seconds (map_option seconds v) = Some (map_option stored_time v)"
  by (cases v) (simp_all add: time_column)

lemma counts_column [column]: "read_count (Some (integer c)) = Some (stored_count c)"
  by (simp add: read_count_def count_column)

lemma unat_of_small [simp]: "n < 2 ^ 64 \<Longrightarrow> unat (of_nat n :: u64) = n"
  by (simp add: unat_of_nat)

lemma progress_column [column]:
  assumes "p \<le> 1000"
  shows "read_progress (Some (uint p)) = Some p"
proof -
  define n where "n = unat p"
  have n: "n < 2 ^ 16" using unsigned_less [of p, where ?'a = nat] by (simp add: n_def)
  then have n64: "n < 2 ^ 64" by simp
  have p: "uint p = int n" "of_nat n = p" by (simp_all add: n_def)
  have "read_count (Some (int n)) = Some (of_nat n)" using n64 by (simp add: read_count_def)
  moreover have "uint (of_nat n :: u64) = int n" using unat_of_small [OF n64] by (metis of_nat_unat)
  ultimately show ?thesis
    using assms try_from_nat(3) [OF n] by (simp add: read_progress_def p progress_from_permille_def)
qed

lemma observation_row:
  assumes "torrent_valid t" and "seen \<le> time_max" and "record_observation r = Some \<lparr>observation_torrent = t, observation_last_seen = seen\<rparr>"
  shows "observation_of (torrent_row_of r) (seconds seen) =
    Some (stored_observation \<lparr>observation_torrent = t, observation_last_seen = seen\<rparr>)"
  using assms
  by (cases t)
    (simp add: observation_of_def torrent_row_of_def torrent_valid_def column stored_observation_def stored_torrent_def
      Let_def)

lemma identity_row:
  assumes "is_none_or (\<lambda>mam. mam \<noteq> 0) (identity_mam_id i)"
    and "is_none_or (\<lambda>hash. torrent_hash_parse hash = Some hash) (identity_hash i)"
  shows "Option.bind (read_optional (\<lambda>mam. Option.bind (u64_try_from mam) mam_torrent_id_new)
      (map_option integer (identity_mam_id i))) (\<lambda>mam.
    Option.bind (read_optional torrent_hash_parse (identity_hash i)) (\<lambda>hash. Option.bind (identity_new mam hash) f)) =
    f (stored_identity i)"
  using assms by (cases i) (simp_all add: column mam_torrent_id_new_def stored_count_nonzero)

lemma record_row:
  assumes "record_valid r"
  shows "torrent_record_of (torrent_row_of r) = Some (stored_record r)"
proof -
  have seen: "read_optional (observation_of (torrent_row_of r)) (col_last_seen (torrent_row_of r)) =
      Some (map_option stored_observation (record_observation r))"
  proof (cases "record_observation r")
    case None
    then show ?thesis by (simp add: torrent_row_of_def Let_def)
  next
    case (Some seen)
    moreover obtain t at where "seen = \<lparr>observation_torrent = t, observation_last_seen = at\<rparr>" by (cases seen)
    ultimately show ?thesis
      using assms observation_row [of t at r] by (simp add: record_valid_def torrent_row_of_def Let_def)
  qed
  have "Option.bind (u64_try_from (col_id (torrent_row_of r))) record_id_new = Some (stored_count (record_id r))"
    using assms by (simp add: torrent_row_of_def Let_def column record_valid_def record_id_new_def stored_count_nonzero)
  moreover have "read_optional nonempty_try_new (record_save_path r) = Some (record_save_path r)"
    using assms by (simp add: record_valid_def column)
  ultimately show ?thesis
    using seen assms unfolding torrent_record_of_def
    by (cases r; cases "record_deletion r")
      (simp_all add: torrent_row_of_def Let_def record_valid_def origin_column desired_column stored_record_def
        identity_row)
qed

lemma row_of_allowed: "row_allowed (torrent_row_of r)"
  by (cases "record_identity r"; cases "record_origin r"; cases "record_desired r")
    (simp_all add: row_allowed_def torrent_row_of_def Let_def origin_name_def desired_name_def)

subsection \<open>The table of torrents\<close>

text \<open>The table as a map from ids to rows, and the registry as a map from ids to records.\<close>

definition table_map :: "torrent_row list \<Rightarrow> int \<rightharpoonup> torrent_row" where
  "table_map rows = map_of (map (\<lambda>q. (col_id q, q)) rows)"

definition records_map :: "torrent_record list \<Rightarrow> record_id \<rightharpoonup> torrent_record" where
  "records_map rs = map_of (map (\<lambda>r. (record_id r, r)) rs)"

text \<open>Rows with the same hash are the same row: what the table's \<open>UNIQUE\<close> asks.\<close>

definition hashes_agree :: "torrent_row list \<Rightarrow> bool" where
  "hashes_agree rows \<longleftrightarrow>
     (\<forall>p \<in> set rows. \<forall>q \<in> set rows. col_hash p \<noteq> None \<and> col_hash q = col_hash p \<longrightarrow> col_id q = col_id p)"

lemma table_map_snoc [simp]: "m ++ table_map (rows @ [row]) = m(col_id row \<mapsto> row) ++ table_map rows"
  by (simp add: table_map_def map_add_def fun_eq_iff split: option.split)

lemma table_map_filter: "table_map (filter (\<lambda>q. col_id q \<noteq> k) rows) i = (if i = k then None else table_map rows i)"
  by (induction rows) (auto simp: table_map_def)

lemma replace_torrent_map:
  assumes "hashes_agree (row # rows)"
  shows "table_map (replace_torrent row rows) = (table_map rows)(col_id row \<mapsto> row)"
proof -
  have "filter (\<lambda>q. col_id q \<noteq> col_id row \<and> (col_hash row = None \<or> col_hash q \<noteq> col_hash row)) rows =
      filter (\<lambda>q. col_id q \<noteq> col_id row) rows"
    using assms by (intro filter_cong) (auto simp: hashes_agree_def)
  then show ?thesis
    using table_map_filter [of "col_id row" rows]
    by (auto simp: replace_torrent_def table_map_def map_add_def split: option.split)
qed

lemma replace_torrent_set: "set (replace_torrent row rows) \<subseteq> insert row (set rows)"
  by (auto simp: replace_torrent_def)

lemma replace_torrent_distinct: "distinct (map col_id rows) \<Longrightarrow> distinct (map col_id (replace_torrent row rows))"
  by (auto simp: replace_torrent_def distinct_map_filter)

lemma hashes_agree_mono: "hashes_agree rows \<Longrightarrow> set rows' \<subseteq> set rows \<Longrightarrow> hashes_agree rows'"
  unfolding hashes_agree_def by blast

lemma replace_torrents:
  assumes "hashes_agree (new @ rows)" and "distinct (map col_id rows)"
  shows "table_map (fold replace_torrent new rows) = table_map rows ++ table_map (rev new) \<and>
    distinct (map col_id (fold replace_torrent new rows)) \<and>
    set (fold replace_torrent new rows) \<subseteq> set new \<union> set rows"
  using assms
proof (induction new arbitrary: rows)
  case (Cons row new)
  have "hashes_agree (row # rows)" using Cons.prems(1) by (rule hashes_agree_mono) auto
  note here = replace_torrent_map [OF this]
  have "hashes_agree (new @ replace_torrent row rows)"
    using Cons.prems(1) by (rule hashes_agree_mono) (use replace_torrent_set in auto)
  from Cons.IH [OF this replace_torrent_distinct [OF Cons.prems(2)]] show ?case
    using replace_torrent_set [of row rows] by (auto simp: here fun_upd_def)
qed (simp add: table_map_def)

lemma collect_options_map:
  "collect_options (map f xs) = Some ys \<longleftrightarrow> list_all (\<lambda>x. f x \<noteq> None) xs \<and> ys = map (\<lambda>x. the (f x)) xs"
  by (induction xs arbitrary: ys) (auto simp: bind_eq_Some_conv)

lemma record_of_id: "torrent_record_of q = Some r \<Longrightarrow> col_id q = uint (record_id r)"
  by (auto simp: torrent_record_of_def bind_eq_Some_conv u64_try_from_def record_id_new_def uint_word_of_int
      split: if_splits)

lemma records_map_rows:
  "list_all (\<lambda>q. torrent_record_of q \<noteq> None) rows \<Longrightarrow>
     records_map (map (\<lambda>q. the (torrent_record_of q)) rows) i = Option.bind (table_map rows (uint i)) torrent_record_of"
proof (induction rows)
  case (Cons q rows)
  then obtain r where "torrent_record_of q = Some r" by auto
  with Cons record_of_id [OF this] show ?case by (auto simp: records_map_def table_map_def word_uint_eq_iff)
qed (simp add: records_map_def table_map_def)

lemma table_map_sorted: "distinct (map col_id rows) \<Longrightarrow> table_map (sort_key col_id rows) = table_map rows"
  unfolding table_map_def by (subst map_of_inject_set) (simp_all add: o_def distinct_map)

lemma read_registry_map:
  assumes "distinct (map col_id (db_torrents db))" and "read_registry db = Some (RegistryEvent_Read records)"
  shows "records_map records i = Option.bind (table_map (db_torrents db) (uint i)) torrent_record_of"
proof -
  have c: "collect_options (map torrent_record_of (sort_key col_id (db_torrents db))) = Some records"
    using assms(2) by (auto simp: read_registry_def)
  then have "list_all (\<lambda>q. torrent_record_of q \<noteq> None) (sort_key col_id (db_torrents db))"
      "records = map (\<lambda>q. the (torrent_record_of q)) (sort_key col_id (db_torrents db))"
    unfolding collect_options_map by auto
  with records_map_rows table_map_sorted [OF assms(1)] show ?thesis by simp
qed

lemma read_registry_ok:
  "\<forall>q \<in> set (db_torrents db). torrent_record_of q \<noteq> None \<Longrightarrow> \<exists>records. read_registry db = Some (RegistryEvent_Read records)"
  by (simp add: read_registry_def collect_options_map list_all_iff)

subsection \<open>Saving a batch\<close>

text \<open>
  After a batch of rows is saved, what is read back is, for every id, the row of that batch that was
  saved last, and otherwise what was there before.
\<close>

lemma saved_rows_are_read:
  assumes "\<forall>r \<in> set records. record_valid r \<and> unat (record_id r) < 2 ^ 63"
    and "distinct (map col_id (db_torrents db))" and "read_registry db = Some (RegistryEvent_Read before)"
    and "hashes_agree (map torrent_row_of records @ db_torrents db)"
  shows "\<exists>db' after. save_torrents db records = Some db' \<and> read_registry db' = Some (RegistryEvent_Read after) \<and>
    distinct (map col_id (db_torrents db')) \<and> (\<exists>rows. db' = db\<lparr>db_torrents := rows\<rparr>) \<and>
    records_map after = records_map before ++ records_map (rev (map stored_record records))"
proof -
  let ?new = "map torrent_row_of records"
  define rows where "rows = fold replace_torrent ?new (db_torrents db)"
  note saved = replace_torrents [OF assms(4,2), folded rows_def]
  have "save_torrents db records = Some (db\<lparr>db_torrents := rows\<rparr>)"
    by (simp add: save_torrents_def rows_def list_all_iff row_of_allowed)
  moreover have readable: "\<forall>q \<in> set (db_torrents db). torrent_record_of q \<noteq> None"
    using assms(3) by (auto simp: read_registry_def collect_options_map list_all_iff)
  have "torrent_record_of q \<noteq> None" if "q \<in> set rows" for q
  proof -
    have "q \<in> set ?new \<union> set (db_torrents db)" using that saved by blast
    with readable assms(1) record_row show ?thesis by auto
  qed
  then obtain after where after: "read_registry (db\<lparr>db_torrents := rows\<rparr>) = Some (RegistryEvent_Read after)"
    using read_registry_ok [of "db\<lparr>db_torrents := rows\<rparr>"] by auto
  have new: "records_map (rev (map stored_record records)) i = Option.bind (table_map (rev ?new) (uint i)) torrent_record_of" for i
  proof -
    have "map stored_record records = map (\<lambda>q. the (torrent_record_of q)) ?new"
      using assms(1) record_row by simp
    then have "rev (map stored_record records) = map (\<lambda>q. the (torrent_record_of q)) (rev ?new)"
      by (simp only: rev_map)
    moreover have "list_all (\<lambda>q. torrent_record_of q \<noteq> None) (rev ?new)"
      using assms(1) record_row by (auto simp: list_all_iff)
    ultimately show ?thesis using records_map_rows by simp
  qed
  have "records_map after i = (records_map before ++ records_map (rev (map stored_record records))) i" for i
  proof (cases "table_map (rev ?new) (uint i)")
    case None
    then show ?thesis
      using read_registry_map [OF _ after, of i] read_registry_map [OF assms(2,3), of i] saved new [of i]
      by (simp add: map_add_def)
  next
    case (Some q)
    then have "(uint i, q) \<in> set (map (\<lambda>q. (col_id q, q)) (rev ?new))"
      unfolding table_map_def by (rule map_of_SomeD)
    then have "q \<in> set ?new" by auto
    then obtain r where "torrent_record_of q = Some r" using assms(1) record_row by auto
    with Some show ?thesis
      using read_registry_map [OF _ after, of i] saved new [of i] by (simp add: map_add_def)
  qed
  then have "records_map after = records_map before ++ records_map (rev (map stored_record records))" by (rule ext)
  with after calculation saved show ?thesis by auto
qed

end
