(* ===== verification/Durability.thy ===== *)
theory Durability
  imports Storage_Laws
begin

text \<open>
  What a restart restores. The database refines a plain memory of the values last written: whatever
  sequence of storage operations runs, and whichever of them fail, the reads at the next start give
  back exactly what the completed ones wrote. On top of it, what the core does with a restored MAM
  preference and a restored registration time.
\<close>

subsection \<open>A plain memory\<close>

record memory =
  memory_mode :: "mam_request_mode option"
  memory_history_limit :: "history_limit option"
  memory_api_cookie :: "api_cookie option"
  memory_ntfy_topic :: "ntfy_topic option"
  memory_points_reserve :: "points_reserve option"
  memory_torrent_limits :: "torrent_limits option"
  memory_registration :: "system_time option"
  memory_reminder :: "system_time option"
  memory_guard :: saved_ratio_guard
  memory_switch :: "vpn_switch option"
  memory_torrents :: "record_id \<rightharpoonup> torrent_record"

text \<open>What the guard and the switch become: counts and times as the columns keep them.\<close>

fun stored_guard :: "saved_ratio_guard \<Rightarrow> saved_ratio_guard" where
  "stored_guard SavedRatioGuard_Unset = SavedRatioGuard_Unset"
| "stored_guard (SavedRatioGuard_Watching watched) = SavedRatioGuard_Watching (stored_count watched)"
| "stored_guard (SavedRatioGuard_Tripped used) =
     SavedRatioGuard_Tripped \<lparr>use_before = stored_count (use_before used), use_after = stored_count (use_after used),
       use_at = stored_time (use_at used)\<rparr>"

definition stored_switch :: "vpn_switch \<Rightarrow> vpn_switch" where
  "stored_switch switch = \<lparr>switch_server = switch_server switch, switch_at = stored_time (switch_at switch)\<rparr>"

fun remember :: "operation \<Rightarrow> memory \<Rightarrow> memory" where
  "remember (Operation_WriteMamRequestMode mode) m = m\<lparr>memory_mode := Some mode\<rparr>"
| "remember Operation_DeleteMamRequestMode m = m\<lparr>memory_mode := None\<rparr>"
| "remember (Operation_WriteHistoryLimit limit) m = m\<lparr>memory_history_limit := Some limit\<rparr>"
| "remember (Operation_WriteApiCookie cookie) m = m\<lparr>memory_api_cookie := cookie\<rparr>"
| "remember (Operation_WriteRotatedApiCookie cookie) m = m\<lparr>memory_api_cookie := Some cookie\<rparr>"
| "remember (Operation_WriteNtfyTopic topic) m = m\<lparr>memory_ntfy_topic := topic\<rparr>"
| "remember (Operation_WritePointsReserve reserve) m = m\<lparr>memory_points_reserve := Some reserve\<rparr>"
| "remember (Operation_WriteTorrentLimits limits) m = m\<lparr>memory_torrent_limits := Some limits\<rparr>"
| "remember (Operation_SaveTorrents records) m =
     m\<lparr>memory_torrents := memory_torrents m ++ records_map (rev (map stored_record records))\<rparr>"
| "remember (Operation_SaveVpnSwitch switch) m = m\<lparr>memory_switch := Some (stored_switch switch)\<rparr>"
| "remember (Operation_SaveRegistrationAttempt at) m = m\<lparr>memory_registration := Some (stored_time at)\<rparr>"
| "remember (Operation_SaveReminder at) m = m\<lparr>memory_reminder := Some (stored_time at)\<rparr>"
| "remember (Operation_SaveRatioGuard guard) m = m\<lparr>memory_guard := stored_guard guard\<rparr>"
| "remember _ m = m"

text \<open>The reads of a start give back this memory.\<close>

definition restores_registry :: "database \<Rightarrow> (record_id \<rightharpoonup> torrent_record) \<Rightarrow> bool" where
  "restores_registry db torrents \<longleftrightarrow>
     distinct (map col_id (db_torrents db)) \<and>
     (\<exists>records. read_registry db = Some (RegistryEvent_Read records) \<and> records_map records = torrents)"

definition restores :: "database \<Rightarrow> memory \<Rightarrow> bool" where
  "restores db m \<longleftrightarrow>
     read_mode db = Some (MamPauseEvent_Read (memory_mode m)) \<and>
     read_settings db = Some (SettingsEvent_Read (memory_history_limit m) (memory_api_cookie m)
       (memory_ntfy_topic m) (memory_points_reserve m) (memory_torrent_limits m)) \<and>
     read_mam_state db = Some (MamEvent_StateRead (memory_registration m) (memory_reminder m) (memory_guard m)) \<and>
     read_last_switch db = Some (TunnelEvent_LastSwitchRead (memory_switch m)) \<and>
     restores_registry db (memory_torrents m)"

text \<open>
  The values written are values of their types; the rows saved do not give one hash to two
  torrents, nor one that another stored row has.
\<close>

fun operation_ok :: "database \<Rightarrow> operation \<Rightarrow> bool" where
  "operation_ok db (Operation_WriteHistoryLimit limit) \<longleftrightarrow> history_limit_ok limit"
| "operation_ok db (Operation_WriteApiCookie cookie) \<longleftrightarrow> is_none_or (\<lambda>c. api_cookie_parse c = Inr c) cookie"
| "operation_ok db (Operation_WriteRotatedApiCookie cookie) \<longleftrightarrow> api_cookie_parse cookie = Inr cookie"
| "operation_ok db (Operation_WriteNtfyTopic topic) \<longleftrightarrow> is_none_or (\<lambda>t. ntfy_topic_parse t = Inr t) topic"
| "operation_ok db (Operation_WritePointsReserve reserve) \<longleftrightarrow> points_reserve_ok reserve"
| "operation_ok db (Operation_WriteTorrentLimits limits) \<longleftrightarrow> torrent_limits_ok limits"
| "operation_ok db (Operation_SaveTorrents records) \<longleftrightarrow>
     (\<forall>r \<in> set records. record_valid r \<and> unat (record_id r) < 2 ^ 63) \<and>
     hashes_agree (map torrent_row_of records @ db_torrents db)"
| "operation_ok db (Operation_SaveVpnSwitch switch) \<longleftrightarrow>
     vpn_server_try_new (switch_server switch) = Some (switch_server switch) \<and> switch_at switch \<le> time_max"
| "operation_ok db (Operation_SaveRegistrationAttempt at) \<longleftrightarrow> at \<le> time_max"
| "operation_ok db (Operation_SaveReminder at) \<longleftrightarrow> at \<le> time_max"
| "operation_ok db (Operation_SaveRatioGuard guard) \<longleftrightarrow>
     (case guard of SavedRatioGuard_Tripped used \<Rightarrow> use_at used \<le> time_max | _ \<Rightarrow> True)"
| "operation_ok db _ \<longleftrightarrow> True"

subsection \<open>One operation\<close>

definition settings_of :: "database \<Rightarrow> settings_row" where
  "settings_of db = unwrap_or settings_row_empty (db_settings db)"

definition mam_state_of :: "database \<Rightarrow> mam_state_row" where
  "mam_state_of db = unwrap_or mam_state_row_empty (db_mam_state db)"

lemma row_updates [simp]:
  "settings_of (update_settings f db) = f (settings_of db)" "mam_state_of (update_mam_state g db) = g (mam_state_of db)"
  "settings_of (update_mam_state g db) = settings_of db" "mam_state_of (update_settings f db) = mam_state_of db"
  "db_request_mode (update_settings f db) = db_request_mode db" "db_request_mode (update_mam_state g db) = db_request_mode db"
  "db_last_switch (update_settings f db) = db_last_switch db" "db_last_switch (update_mam_state g db) = db_last_switch db"
  "db_torrents (update_settings f db) = db_torrents db" "db_torrents (update_mam_state g db) = db_torrents db"
  by (simp_all add: settings_of_def mam_state_of_def update_settings_def update_mam_state_def)

text \<open>Each read is a function of its own table.\<close>

lemma reads_of_tables:
  "db_request_mode db' = db_request_mode db \<Longrightarrow> read_mode db' = read_mode db"
  "settings_of db' = settings_of db \<Longrightarrow> read_settings db' = read_settings db"
  "mam_state_of db' = mam_state_of db \<Longrightarrow> read_mam_state db' = read_mam_state db"
  "db_last_switch db' = db_last_switch db \<Longrightarrow> read_last_switch db' = read_last_switch db"
  "db_torrents db' = db_torrents db \<Longrightarrow> restores_registry db' = restores_registry db"
  by (simp_all add: read_mode_def read_settings_def settings_of_def read_mam_state_def mam_state_of_def
      read_last_switch_def restores_registry_def read_registry_def fun_eq_iff)

lemma read_settings_parts:
  "read_settings db = Some (SettingsEvent_Read limit cookie topic reserve limits) \<longleftrightarrow>
     read_optional (\<lambda>l. Option.bind (u32_try_from l) history_limit_try_new) (stored_history_limit (settings_of db)) = Some limit \<and>
     read_optional (\<lambda>c. right_option (api_cookie_parse c)) (stored_api_cookie (settings_of db)) = Some cookie \<and>
     read_optional (\<lambda>t. right_option (ntfy_topic_parse t)) (stored_ntfy_topic (settings_of db)) = Some topic \<and>
     read_optional (\<lambda>r. Option.bind (u64_try_from r) points_reserve_try_new) (stored_points_reserve (settings_of db)) = Some reserve \<and>
     read_torrent_limits (stored_max_downloading (settings_of db)) (stored_max_active (settings_of db)) = Some limits"
  by (auto simp: read_settings_def settings_of_def Let_def bind_eq_Some_conv)

lemma limit_columns:
  "history_limit_ok l \<Longrightarrow> history_limit_try_new l = Some l"
  "points_reserve_ok r \<Longrightarrow> Option.bind (u64_try_from (integer r)) points_reserve_try_new = Some r"
  "torrent_limits_ok t \<Longrightarrow>
     stored_torrent_limits (uint (limits_downloading t)) (uint (limits_active t)) = Some t"
proof -
  show "history_limit_try_new l = Some l" if "history_limit_ok l"
    using that by (simp add: history_limit_ok_def history_limit_try_new_def)
  show "Option.bind (u64_try_from (integer r)) points_reserve_try_new = Some r" if "points_reserve_ok r"
  proof -
    have "unat r \<le> 100000000" using that by (simp add: points_reserve_ok_def word_le_nat_alt)
    then have "stored_count r = r" by (simp add: stored_count_def)
    with that show ?thesis by (simp add: count_column points_reserve_try_new_def points_reserve_ok_def)
  qed
  show "stored_torrent_limits (uint (limits_downloading t)) (uint (limits_active t)) = Some t" if "torrent_limits_ok t"
    using that
    by (auto simp: stored_torrent_limits_def downloading_limit_try_new_def active_limit_try_new_def torrent_limits_new_def
        right_option_def torrent_limits_ok_def downloading_limit_ok_def active_limit_ok_def)
qed

lemma read_guard:
  "read_mam_state db = Some (MamEvent_StateRead registration reminder guard) \<longleftrightarrow>
     read_optional time_from_seconds (stored_last_registration_at (mam_state_of db)) = Some registration \<and>
     read_optional time_from_seconds (stored_last_reminder_at (mam_state_of db)) = Some reminder \<and>
     read_ratio_guard (stored_downloaded_watched (mam_state_of db)) (stored_ratio_used_at (mam_state_of db))
       (stored_ratio_used_downloaded (mam_state_of db)) = Some guard"
  unfolding read_mam_state_def mam_state_of_def Let_def bind_eq_Some_conv by auto

lemma operation_remembered:
  assumes "restores db m" and "operation_ok db op"
  shows "case operation_run db op of Some (db', e) \<Rightarrow> restores db' (remember op m) | None \<Rightarrow> remember op m = m"
proof (cases op)
  case (Operation_OpenStorage mode)
  have "restores (db\<lparr>db_version := v\<rparr>) m" for v
    using assms(1) reads_of_tables [of "db\<lparr>db_version := v\<rparr>" db]
    by (simp add: restores_def settings_of_def mam_state_of_def)
  with Operation_OpenStorage show ?thesis by (cases mode) (simp_all add: open_storage_def)
next
  case (Operation_SaveTorrents records)
  obtain before where before: "distinct (map col_id (db_torrents db))" "read_registry db = Some (RegistryEvent_Read before)"
      "records_map before = memory_torrents m"
    using assms(1) by (auto simp: restores_def restores_registry_def)
  obtain rows after where "save_torrents db records = Some (db\<lparr>db_torrents := rows\<rparr>)"
      "read_registry (db\<lparr>db_torrents := rows\<rparr>) = Some (RegistryEvent_Read after)"
      "distinct (map col_id rows)" "records_map after = records_map before ++ records_map (rev (map stored_record records))"
    using saved_rows_are_read [OF _ before(1,2), of records] assms(2) Operation_SaveTorrents by fastforce
  then show ?thesis
    using Operation_SaveTorrents assms(1) before(3) reads_of_tables [of "db\<lparr>db_torrents := rows\<rparr>" db]
    by (simp add: restores_def restores_registry_def settings_of_def mam_state_of_def)
next
  case (Operation_SaveNotice entry oldest)
  have "restores (db\<lparr>db_notices := n\<rparr>) m" for n
    using assms(1) reads_of_tables [of "db\<lparr>db_notices := n\<rparr>" db]
    by (simp add: restores_def settings_of_def mam_state_of_def)
  with Operation_SaveNotice show ?thesis by (simp add: save_notice_def Let_def)
next
  case (Operation_SaveRatioGuard guard)
  then show ?thesis
    using assms reads_of_tables [of "save_ratio_guard db guard" db]
    by (cases guard) (auto simp: restores_def read_guard save_ratio_guard_def column)
next
  case (Operation_WriteMamRequestMode mode)
  then show ?thesis
    using assms(1) reads_of_tables [of "write_mode db mode" db]
    by (cases mode) (simp_all add: restores_def read_mode_def write_mode_def settings_of_def mam_state_of_def)
next
  case Operation_DeleteMamRequestMode
  then show ?thesis
    using assms(1) reads_of_tables [of "delete_mode db" db]
    by (simp add: restores_def read_mode_def delete_mode_def settings_of_def mam_state_of_def)
next
  case (Operation_SaveVpnSwitch switch)
  then show ?thesis
    using assms reads_of_tables [of "save_switch db switch" db]
    by (simp add: restores_def read_last_switch_def save_switch_def stored_switch_def settings_of_def mam_state_of_def
        time_column)
next
  case (Operation_WriteHistoryLimit limit)
  then show ?thesis
    using assms reads_of_tables [of "write_history_limit db limit" db]
    by (simp add: restores_def read_settings_parts write_history_limit_def limit_columns)
next
  case (Operation_WriteApiCookie cookie)
  then show ?thesis
    using assms reads_of_tables [of "write_api_cookie db cookie" db]
    by (cases cookie) (simp_all add: restores_def read_settings_parts write_api_cookie_def right_option_def)
next
  case (Operation_WriteRotatedApiCookie cookie)
  then show ?thesis
    using assms reads_of_tables [of "write_api_cookie db (Some cookie)" db]
    by (simp add: restores_def read_settings_parts write_api_cookie_def right_option_def)
next
  case (Operation_WriteNtfyTopic topic)
  then show ?thesis
    using assms reads_of_tables [of "write_ntfy_topic db topic" db]
    by (cases topic) (simp_all add: restores_def read_settings_parts write_ntfy_topic_def right_option_def)
next
  case (Operation_WritePointsReserve reserve)
  then show ?thesis
    using assms reads_of_tables [of "write_points_reserve db reserve" db]
    by (simp add: restores_def read_settings_parts write_points_reserve_def limit_columns)
next
  case (Operation_WriteTorrentLimits limits)
  then show ?thesis
    using assms reads_of_tables [of "write_torrent_limits db limits" db]
    by (simp add: restores_def read_settings_parts write_torrent_limits_def limit_columns)
next
  case (Operation_SaveRegistrationAttempt at)
  then show ?thesis
    using assms reads_of_tables [of "save_registration_attempt db at" db]
    by (simp add: restores_def read_guard save_registration_attempt_def time_column)
next
  case (Operation_SaveReminder at)
  then show ?thesis
    using assms reads_of_tables [of "save_reminder db at" db]
    by (simp add: restores_def read_guard save_reminder_def time_column)
qed (use assms(1) in \<open>auto simp: restores_def split: option.split\<close>)

subsection \<open>Any sequence of operations\<close>

text \<open>Operations in the order the storage worker runs them, each with whether SQLite completes it.\<close>

fun storage_run :: "database \<Rightarrow> (bool \<times> operation) list \<Rightarrow> database" where
  "storage_run db [] = db"
| "storage_run db ((completes, op) # ops) =
     storage_run (unwrap_or db (fst (storage_execute completes (Some db) op))) ops"

fun operations_ok :: "database \<Rightarrow> (bool \<times> operation) list \<Rightarrow> bool" where
  "operations_ok db [] \<longleftrightarrow> True"
| "operations_ok db ((completes, op) # ops) \<longleftrightarrow>
     operation_ok db op \<and> operations_ok (unwrap_or db (fst (storage_execute completes (Some db) op))) ops"

definition remember_all :: "(bool \<times> operation) list \<Rightarrow> memory \<Rightarrow> memory" where
  "remember_all ops = fold (\<lambda>(completes, op) m. if completes then remember op m else m) ops"

lemma execute_remembered:
  assumes "restores db m" and "operation_ok db op"
  shows "restores (unwrap_or db (fst (storage_execute completes (Some db) op))) (if completes then remember op m else m)"
  using operation_remembered [OF assms] assms(1)
  by (auto simp: storage_execute_def split: option.splits)

definition memory_new :: memory where
  "memory_new =
     \<lparr>memory_mode = None, memory_history_limit = None, memory_api_cookie = None, memory_ntfy_topic = None,
      memory_points_reserve = None, memory_torrent_limits = None, memory_registration = None,
      memory_reminder = None, memory_guard = SavedRatioGuard_Unset, memory_switch = None,
      memory_torrents = Map.empty\<rparr>"

lemma new_restores: "restores database_new memory_new"
  by (simp add: restores_def database_new_def memory_new_def read_mode_def read_settings_def settings_row_empty_def
      read_mam_state_def mam_state_row_empty_def read_last_switch_def restores_registry_def read_registry_def records_map_def)

subsection \<open>Properties\<close>


definition durable_row :: torrent_record where
  "durable_row =
     \<lparr>record_id = 1, record_identity = Identity_Mam 7, record_origin = Origin_Bookmark, record_desired = Desired_Queued,
      record_save_path = None, record_deletion = ContentDeletion_Allowed, record_observation = None\<rparr>"


text \<open>
  MAM requests run after a start only if the owner's choice to run them is stored and could be
  read: with no choice stored, with one that is not understood, and when storage fails, they do not.
\<close>

lemma requests_run_only_on_a_stored_choice:
  "\<exists>e. snd (storage_execute completes (Some db) Operation_ReadMamRequestMode) = Event_MamPause e \<and>
     ((\<exists>p. fst (mam_pause_handle (State_ReadingMamPreference None) e) = State_Ready p \<and>
         preference_effective p = MamRequestMode_Enabled) \<longleftrightarrow>
      completes \<and> db_request_mode db = Some ''enabled'')"
  by (cases "db_request_mode db") (simp_all add: storage_execute_def read_mode_def Let_def)

text \<open>
  C29. A registration time that went through storage still spaces registrations: whenever MAM's part
  of the core, having restored its state, allows a registration, the attempt before the restart lies
  an hour back, less at most the second that whole seconds lose.
\<close>

theorem restart_keeps_registrations_apart:
  assumes "restores db m" and "0 \<le> at" and "at + int REGISTRATION_SPACING \<le> time_max"
    and "snd (storage_execute True (Some (save_registration_attempt db at)) Operation_ReadMamState) = Event_Mam e"
    and "mam_handle mam now e g = (mam', rest)"
    and "seedbox_allowance (mam_seedbox mam') later = RegistrationAllowance_Now"
  shows "at + int REGISTRATION_SPACING - int (secs 1) < later"
proof -
  have "restores (save_registration_attempt db at) (m\<lparr>memory_registration := Some (stored_time at)\<rparr>)"
    using operation_remembered [OF assms(1), of "Operation_SaveRegistrationAttempt at"] assms(3) by simp
  then have "e = MamEvent_StateRead (Some (stored_time at)) (memory_reminder m) (memory_guard m)"
    using assms(4) by (auto simp: restores_def storage_execute_def)
  then have known: "seedbox_last_attempt (mam_seedbox mam') = LastAttempt_Known (Some (stored_time at))"
    using assms(5) by (auto simp: mam_handle_def)
  have "attempt_due (LastAttempt_Known (Some (stored_time at))) later"
    using allowance_now_due [OF assms(6)] known stored_time_bounds [OF assms(2)] assms(3)
    by (simp add: hour_addable_def)
  then have "stored_time at + int REGISTRATION_SPACING \<le> later" by (simp add: attempt_due_def)
  with stored_time_bounds [OF assms(2)] show ?thesis by (simp add: secs_def)
qed

theorem restart_keeps_registrations_apart_witness:
  "seedbox_allowance (seedbox_new\<lparr>seedbox_last_attempt := LastAttempt_Known (Some 10000000000)\<rparr>) 3610000000000 =
     RegistrationAllowance_Now \<and>
   (10900000000 :: system_time) + int REGISTRATION_SPACING - int (secs 1) < 3610000000000 \<and>
   (3610000000000 :: system_time) < 10900000000 + int REGISTRATION_SPACING"
proof -
  let ?mam = "mam_new\<lparr>mam_seedbox := seedbox_new\<lparr>seedbox_last_attempt := LastAttempt_Known (Some 10000000000)\<rparr>,
      mam_last_reminder := LastReminder_Known None, mam_ratio_guard := RatioGuard_Watching None\<rparr>"
  have "snd (storage_execute True (Some (save_registration_attempt database_new 10900000000)) Operation_ReadMamState) =
      Event_Mam (MamEvent_StateRead (Some 10000000000) None SavedRatioGuard_Unset)"
    using operation_remembered [OF new_restores, of "Operation_SaveRegistrationAttempt 10900000000"]
    by (simp add: restores_def storage_execute_def memory_new_def stored_time_def time_max_def)
  moreover have "mam_handle mam_new now (MamEvent_StateRead (Some 10000000000) None SavedRatioGuard_Unset) g = (?mam, g, [], None)"
    for now g by (simp add: mam_handle_def mam_new_def)
  moreover have allowed: "seedbox_allowance (seedbox_new\<lparr>seedbox_last_attempt := LastAttempt_Known (Some 10000000000)\<rparr>)
      3610000000000 = RegistrationAllowance_Now"
    by (simp add: seedbox_allowance_def seedbox_new_def REGISTRATION_SPACING_def time_defs max_def Let_def)
  ultimately show ?thesis
    using restart_keeps_registrations_apart [OF new_restores, of 10900000000 _ mam_new undefined Registry_Unread ?mam
        "(Registry_Unread, [], None)" 3610000000000]
    by (simp add: REGISTRATION_SPACING_def time_defs time_max_def)
qed

end
