(* ===== verification/Registry_Storage.thy ===== *)
theory Registry_Storage
  imports Storage_Laws
begin

text \<open>
  The registry and its table together. The table allows each hash once and a save replaces
  conflicting rows, so a save could drop the row of another torrent if the registry ever gave a hash
  to two rows. It never does: the index by hash only grows, and every row that has a hash is the one
  the index names.
\<close>

subsection \<open>Every hash has one row\<close>

definition record_hash :: "torrent_record \<Rightarrow> torrent_hash option" where
  "record_hash row = identity_hash (record_identity row)"

definition hash_valid :: "torrent_hash \<Rightarrow> bool" where
  "hash_valid h \<longleftrightarrow> torrent_hash_parse h = Some h"

definition hashes_owned :: "records \<Rightarrow> bool" where
  "hashes_owned r \<longleftrightarrow>
     (\<forall>i row h. records_row r i = Some row \<longrightarrow> record_hash row = Some h \<longrightarrow> bt_get (records_by_hash r) h = Some i)"

definition hash_grows :: "records \<Rightarrow> records \<Rightarrow> bool" where
  "hash_grows r r' \<longleftrightarrow>
     hashes_owned r' \<and>
     (\<forall>h i. bt_get (records_by_hash r) h = Some i \<longrightarrow> bt_get (records_by_hash r') h = Some i) \<and>
     (\<forall>h. bt_get (records_by_hash r') h \<noteq> None \<longrightarrow> bt_get (records_by_hash r) h \<noteq> None \<or> hash_valid h)"

lemma hash_grows_refl: "hashes_owned r \<Longrightarrow> hash_grows r r"
  by (simp add: hash_grows_def)

lemma hash_grows_trans: "hash_grows r r1 \<Longrightarrow> hash_grows r1 r2 \<Longrightarrow> hash_grows r r2"
  unfolding hash_grows_def by blast

lemma hash_grows_foldl:
  "hashes_owned r \<Longrightarrow> (\<And>r x. x \<in> set xs \<Longrightarrow> hashes_owned r \<Longrightarrow> hash_grows r (f r x)) \<Longrightarrow> hash_grows r (foldl f r xs)"
proof (induction xs arbitrary: r)
  case (Cons x xs)
  then have step: "hash_grows r (f r x)" by simp
  have "hash_grows (f r x) (foldl f (f r x) xs)"
    by (rule Cons.IH) (use step Cons.prems(2) in \<open>auto simp: hash_grows_def [of r]\<close>)
  with step show ?case by (simp add: hash_grows_trans)
qed (simp add: hash_grows_refl)

text \<open>A row changes but keeps its hash, or has none; or it gets a hash no other row has.\<close>

lemma hash_kept:
  assumes "hashes_owned r" and "records_row r' = (records_row r)(i \<mapsto> row)"
    and "records_by_hash r' = records_by_hash r"
    and "record_hash row = None \<or> (\<exists>old. records_row r i = Some old \<and> record_hash row = record_hash old)"
  shows "hash_grows r r'"
  using assms unfolding hash_grows_def hashes_owned_def by (auto split: if_splits)

lemma hash_given:
  assumes "hashes_owned r" and "records_row r' = (records_row r)(i \<mapsto> row)"
    and "records_by_hash r' = bt_insert h i (records_by_hash r)" and "record_hash row = Some h"
    and "bt_get (records_by_hash r) h = None \<or> bt_get (records_by_hash r) h = Some i" and "hash_valid h"
  shows "hash_grows r r'"
  using assms unfolding hash_grows_def hashes_owned_def by (auto split: if_splits)

lemma same_hashes:
  "hashes_owned r \<Longrightarrow> records_row r' = records_row r \<Longrightarrow> records_by_hash r' = records_by_hash r \<Longrightarrow> hash_grows r r'"
  by (simp add: hash_grows_def hashes_owned_def)

subsection \<open>Every operation keeps to it\<close>

lemma set_desired_hashes: "hashes_owned r \<Longrightarrow> hash_grows r (records_set_desired r i d)"
proof (cases "records_row r i")
  case None
  assume "hashes_owned r"
  with None show ?thesis by (intro same_hashes) (simp_all add: set_desired_row)
next
  case (Some row)
  assume "hashes_owned r"
  then show ?thesis
    by (rule hash_kept [where i = i and row = "row\<lparr>record_desired := d\<rparr>"])
      (simp_all add: set_desired_row Some record_hash_def)
qed

lemma adopt_hashes:
  assumes "hashes_owned r" and "bt_get (records_by_hash r) hash = None" and "hash_valid hash"
    and "records_adopt r hash t = (r', i)"
  shows "hash_grows r r'"
  by (rule hash_given [OF assms(1), where i = i and h = hash and row = "\<lparr>record_id = i, record_identity = Identity_Client hash,
      record_origin = Origin_Adopted, record_desired = Desired_Active, record_save_path = torrent_save_path t,
      record_deletion = ContentDeletion_NotAllowed, record_observation = None\<rparr>"])
    (use assms in \<open>auto simp: records_adopt_def records_allocate_def records_row_insert entry_new_def Let_def record_hash_def\<close>)

lemma row_observed_hashes:
  assumes "hashes_owned r"
  shows "hash_grows r (row_observed r i now ob)"
proof (cases "bt_get (records_entries r) i")
  case (Some e)
  obtain e' save where e': "entry_observe e now ob = (e', save)" by (cases "entry_observe e now ob")
  from entry_observe_record [of e now ob] e' obtain o' where
    rec: "entry_record e' = (entry_record e)\<lparr>record_observation := o'\<rparr>" by auto
  show ?thesis
    by (rule hash_kept [OF assms, where i = i and row = "entry_record e'"])
      (use Some e' rec in \<open>auto simp: row_observed_def records_row_insert records_row_def record_hash_def Let_def\<close>)
qed (simp add: row_observed_def hash_grows_refl assms)

lemma observe_one_hashes:
  assumes "hashes_owned r" and "hash_valid (fst p)"
  shows "hash_grows r (records_observe_one now r p)"
proof -
  obtain hash t where p: "p = (hash, t)" by (cases p)
  obtain r1 i where r1: "(case bt_get (records_by_hash r) hash of
      Some i \<Rightarrow> (r, i) | None \<Rightarrow> records_adopt r hash t) = (r1, i)"
    by (metis surj_pair)
  have g1: "hash_grows r r1"
    using r1 adopt_hashes [OF assms(1)] hash_grows_refl [OF assms(1)] assms(2) p by (auto split: option.splits)
  define r2 where
    "r2 = row_observed r1 i (monotonic now) \<lparr>observation_torrent = t, observation_last_seen = wall now\<rparr>"
  have g2: "hash_grows r1 r2" using row_observed_hashes g1 by (simp add: r2_def hash_grows_def)
  then have g3: "hash_grows r2 (records_set_desired r2 i Desired_Active)"
    by (intro set_desired_hashes) (simp add: hash_grows_def)
  have "records_observe_one now r p = r2 \<or> records_observe_one now r p = records_set_desired r2 i Desired_Active"
    unfolding p observe_one_eq r1 by (simp add: Let_def r2_def)
  with g1 g2 g3 show ?thesis by (auto intro: hash_grows_trans)
qed

lemma bookmark_one_hashes:
  assumes "hashes_owned r"
  shows "hash_grows r (records_bookmark_one r p)"
proof -
  obtain mam d where p: "p = (mam, d)" by (cases p)
  show ?thesis
  proof (cases "bt_get (records_by_mam r) mam")
    case None
    show ?thesis
      by (rule hash_kept [OF assms, where i = "records_next_id r" and row = "\<lparr>record_id = records_next_id r,
          record_identity = Identity_Mam mam, record_origin = Origin_Bookmark, record_desired = d, record_save_path = None,
          record_deletion = ContentDeletion_NotAllowed, record_observation = None\<rparr>"])
        (use None in \<open>simp_all add: p records_bookmark_one_def records_allocate_def records_row_insert entry_new_def
          Let_def record_hash_def\<close>)
  qed (simp add: p records_bookmark_one_def hash_grows_refl assms)
qed

lemma link_hashes:
  assumes owned: "hashes_owned r" and ok: "records_ok r" and i: "bt_get (records_by_mam r) mam = Some i"
    and valid: "hash_valid hash"
  shows "hash_grows r (records_link r i mam hash)"
proof -
  define split where "split \<longleftrightarrow> (\<exists>j. bt_get (records_by_hash r) hash = Some j \<and> j \<noteq> i)"
  define target where "target = (if split then the (bt_get (records_by_hash r) hash) else i)"
  define r1 where "r1 = (if split then records_set_desired r i Desired_Removed else r)"
  define origin where "origin = map_option (\<lambda>e. record_origin (entry_record e)) (bt_get (records_entries r) i)"
  have g1: "hash_grows r r1" using owned by (simp add: r1_def set_desired_hashes hash_grows_refl)
  have "target \<in> row_ids r1"
    using index_in_rows [OF ok] i by (auto simp: target_def split_def r1_def)
  then obtain old where old: "records_row r1 target = Some old" by (auto simp: row_ids_def)
  let ?new = "old\<lparr>record_identity := Identity_Linked mam hash,
    record_origin := unwrap_or (record_origin old) origin, record_desired := Desired_Active\<rparr>"
  let ?r2 = "records_link r i mam hash"
  have eq: "?r2 = (let r = (if split then r1\<lparr>records_by_mam := bt_insert mam target (records_by_mam r1)\<rparr> else r1);
      r = r\<lparr>records_entries := bt_modify target
                (\<lambda>e. e\<lparr>entry_record := (entry_record e)
                       \<lparr>record_identity := Identity_Linked mam hash,
                        record_origin := unwrap_or (record_origin (entry_record e)) origin\<rparr>\<rparr>)
                (records_entries r)\<rparr>;
      r = records_set_desired r target Desired_Active
      in r\<lparr>records_by_hash := bt_insert hash target (records_by_hash r)\<rparr>)"
    unfolding records_link_def origin_def [symmetric]
    by (cases split) (auto simp: split_def r1_def target_def Let_def split: option.split)
  have "hash_grows r1 ?r2"
  proof (rule hash_given [where i = target and h = hash and row = ?new])
    show "hashes_owned r1" using g1 by (simp add: hash_grows_def)
    show "records_row ?r2 = (records_row r1)(target \<mapsto> ?new)"
      unfolding eq using old by (auto simp: Let_def set_desired_row records_row_def fun_eq_iff)
    show "records_by_hash ?r2 = bt_insert hash target (records_by_hash r1)" unfolding eq by (simp add: Let_def)
    show "record_hash ?new = Some hash" by (simp add: record_hash_def)
    show "bt_get (records_by_hash r1) hash = None \<or> bt_get (records_by_hash r1) hash = Some target"
      by (cases "bt_get (records_by_hash r) hash") (auto simp: r1_def target_def split_def)
  qed (rule valid)
  with g1 show ?thesis by (rule hash_grows_trans)
qed

lemma redownload_hashes:
  assumes "hashes_owned r"
  shows "\<exists>r'. hash_grows r r' \<and> records_redownload r now i \<in> {(r, []), records_save r' now}"
proof (cases "opt_filter (\<lambda>e. record_desired (entry_record e) = Desired_Snatched)
             (bt_get (records_entries r) i)")
  case None
  with assms show ?thesis by (auto simp: records_redownload_def intro: hash_grows_refl)
next
  case (Some e)
  then have e: "bt_get (records_entries r) i = Some e" by (auto simp: opt_filter_Some)
  let ?new = "(entry_record e)\<lparr>record_desired := Desired_Queued, record_origin := Origin_Redownload\<rparr>"
  let ?r = "r\<lparr>records_entries := bt_insert i (e\<lparr>entry_record := ?new\<rparr>) (records_entries r),
               records_unsaved := insert i (records_unsaved r)\<rparr>"
  have "hash_grows r ?r"
    by (rule hash_kept [OF assms, where i = i and row = ?new])
      (use e in \<open>auto simp: records_row_insert records_row_def record_hash_def\<close>)
  with Some show ?thesis by (intro exI [of _ ?r]) (simp add: records_redownload_def)
qed

text \<open>A save changes neither rows nor the index, and what it sends are rows.\<close>

lemma records_save_hash_index [simp]: "records_by_hash (fst (records_save r now)) = records_by_hash r"
  by (simp add: records_save_def Let_def)

lemma save_hashes: "hash_grows r r' \<Longrightarrow> hash_grows r (fst (records_save r' now))"
  by (auto simp: hash_grows_def hashes_owned_def)

lemma save_sends_rows:
  assumes "records_ok r" and "Action_SaveTorrents batch \<in> set (snd (records_save r now))" and "x \<in> set batch"
  shows "records_row r (record_id x) = Some x"
proof -
  have wf: "bt_wf (records_entries r)" using assms(1) by (simp add: records_ok_def rows_ok_def)
  have "\<exists>i e. (i, e) \<in> set (records_entries r) \<and> x = entry_record e"
    using assms(2,3) by (auto simp: records_save_def Let_def set_map_filter_iff split: if_splits) blast
  then obtain i e where "(i, e) \<in> set (records_entries r)" "x = entry_record e" by blast
  moreover have "distinct (map fst (records_entries r))" using wf by (simp add: bt_wf_def strict_sorted_iff)
  ultimately have "records_row r i = Some x" by (simp add: records_row_def bt_get_def map_of_is_SomeI)
  moreover have "record_id x = i" using assms(1) calculation by (simp add: records_ok_def rows_ok_def)
  ultimately show ?thesis by simp
qed

fun input_hashes_ok :: "registry_input \<Rightarrow> bool" where
  "input_hashes_ok (RegistryInput_Observe session) \<longleftrightarrow> (\<forall>p \<in> set (session_torrents session). hash_valid (fst p))"
| "input_hashes_ok (RegistryInput_Fetched mam hash) \<longleftrightarrow> hash_valid hash"
| "input_hashes_ok (RegistryInput_Event (RegistryEvent_Read _)) \<longleftrightarrow> False"
| "input_hashes_ok _ \<longleftrightarrow> True"

text \<open>One step of a loaded registry: the index grows, and every row it saves is a row of the result.\<close>

definition hash_step :: "records \<Rightarrow> registry \<times> action list \<Rightarrow> bool" where
  "hash_step r s \<longleftrightarrow>
     (\<exists>r'. fst s = Registry_Loaded r' \<and> hash_grows r r' \<and>
        (\<forall>batch. Action_SaveTorrents batch \<in> set (snd s) \<longrightarrow> (\<forall>x \<in> set batch. records_row r' (record_id x) = Some x)))"

lemma hash_step_save: "hash_grows r r' \<Longrightarrow> records_ok r' \<Longrightarrow> hash_step r (registry_with (records_save r' now))"
  by (simp add: hash_step_def registry_with_def save_hashes save_sends_rows)

lemma hash_step_same: "hashes_owned r \<Longrightarrow> hash_step r (Registry_Loaded r, [])"
  by (simp add: hash_step_def hash_grows_refl)

lemma registry_step_hashes:
  assumes owned: "hashes_owned r" and ok: "records_ok r" and input: "input_hashes_ok input"
  shows "hash_step r (registry_step (Registry_Loaded r) (now, input))"
proof -
  have next_ok: "records_ok r'" if "registry_step (Registry_Loaded r) (now, input) = (Registry_Loaded r', actions)" for r' actions
    using registry_step_keeps [of "Registry_Loaded r" now input] ok that by (simp add: registry_step_ok_def)
  have saved: "hash_step r (registry_with (records_save r' now'))"
    if "registry_step (Registry_Loaded r) (now, input) = registry_with (records_save r' now')" "hash_grows r r'" for r' now'
  proof (rule hash_step_save [OF that(2)])
    show "records_ok r'" using next_ok [of "fst (records_save r' now')"] that(1) by (simp add: registry_with_def)
  qed
  have desired: "hash_grows r (case x of Some i \<Rightarrow> records_set_desired r i d | None \<Rightarrow> r)" for x d
    using owned by (cases x) (simp_all add: set_desired_hashes hash_grows_refl)
  show ?thesis
  proof (cases input)
    case (RegistryInput_Event e)
    show ?thesis
    proof (cases e)
      case (RegistryEvent_Redownload i)
      from redownload_hashes [OF owned, of "monotonic now" i] obtain r' where "hash_grows r r'"
        "records_redownload r (monotonic now) i \<in> {(r, []), records_save r' (monotonic now)}" by blast
      with saved [of r' "monotonic now"] hash_step_same [OF owned] RegistryInput_Event RegistryEvent_Redownload
      show ?thesis by (auto simp: registry_handle_def registry_with_def)
    next
      case RegistryEvent_Saved
      let ?r = "r\<lparr>records_saving := None, records_last_save := LastSave_Saved\<rparr>"
      have "hash_grows r ?r" by (rule same_hashes [OF owned]) simp_all
      with saved [of ?r "monotonic now"] hash_step_same [OF owned] RegistryInput_Event RegistryEvent_Saved
      show ?thesis by (cases "records_saving r") (auto simp: registry_handle_def)
    next
      case RegistryEvent_SaveFailed
      have "hash_grows r (r\<lparr>records_unsaved := u, records_saving := None, records_last_save := LastSave_Failed\<rparr>)" for u
        by (rule same_hashes [OF owned]) simp_all
      with hash_step_same [OF owned] RegistryInput_Event RegistryEvent_SaveFailed show ?thesis
        by (cases "records_saving r") (auto simp: registry_handle_def hash_step_def)
    qed (use RegistryInput_Event input hash_step_same [OF owned] in \<open>simp_all add: registry_handle_def\<close>)
  next
    case (RegistryInput_Observe session)
    have "hash_grows r (foldl (records_observe_one now) r (session_torrents session))"
      by (rule hash_grows_foldl [OF owned]) (use observe_one_hashes input RegistryInput_Observe in auto)
    with saved [of "foldl (records_observe_one now) r (session_torrents session)" "monotonic now"]
      hash_step_same [OF owned] RegistryInput_Observe
    show ?thesis by (cases "session_listed session") (simp_all add: registry_observe_def records_observe_def)
  next
    case (RegistryInput_Command session permits)
    have "hash_grows r (r\<lparr>records_last_command := c\<rparr>)" for c
      by (rule same_hashes [OF owned]) simp_all
    with RegistryInput_Command hash_grows_refl [OF owned] show ?thesis
      by (auto simp: hash_step_def registry_command_def registry_with_def records_command_def split: option.split)
  next
    case (RegistryInput_Bookmarked bookmarks)
    have "hash_grows r (foldl records_bookmark_one r bookmarks)"
      by (rule hash_grows_foldl [OF owned]) (rule bookmark_one_hashes)
    with saved [of "foldl records_bookmark_one r bookmarks" "monotonic now"] RegistryInput_Bookmarked
    show ?thesis by (simp add: registry_update_def records_bookmarked_def)
  next
    case (RegistryInput_Fetched mam hash)
    have "hash_grows r (case bt_get (records_by_mam r) mam of Some i \<Rightarrow> records_link r i mam hash | None \<Rightarrow> r)"
      using link_hashes [OF owned ok] hash_grows_refl [OF owned] input RegistryInput_Fetched by (simp split: option.split)
    from saved [OF _ this, of "monotonic now"] RegistryInput_Fetched
    show ?thesis by (simp add: registry_update_def records_fetched_def)
  next
    case (RegistryInput_Snatched mam)
    from saved [OF _ desired, of _ _ "monotonic now"] RegistryInput_Snatched
    show ?thesis by (simp add: registry_update_def records_snatched_def)
  next
    case (RegistryInput_Resume hash)
    from saved [OF _ desired, of _ _ "monotonic now"] RegistryInput_Resume
    show ?thesis by (simp add: registry_update_def records_resume_def)
  next
    case (RegistryInput_Hold hash)
    from saved [OF _ desired, of _ _ "monotonic now"] RegistryInput_Hold
    show ?thesis by (simp add: registry_update_def records_hold_def)
  qed
qed

subsection \<open>The registry with its table\<close>

fun save_batch :: "action \<Rightarrow> torrent_record list option" where
  "save_batch (Action_SaveTorrents batch) = Some batch"
| "save_batch _ = None"

definition save_batches :: "action list \<Rightarrow> torrent_record list list" where
  "save_batches actions = List.map_filter save_batch actions"

text \<open>
  From an empty database on: Windlass starts and reads the table, the registry takes inputs and sends
  batches, the storage worker saves the batches in order or fails to, and Windlass starts again at any time.
\<close>

inductive stored_registry :: "database \<Rightarrow> torrent_record list list \<Rightarrow> registry \<Rightarrow> bool" where
  fresh: "stored_registry database_new [] Registry_Unread"
| start: "stored_registry db waiting g \<Longrightarrow> read_registry db = Some (RegistryEvent_Read rs) \<Longrightarrow>
    stored_registry db [] (fst (registry_handle Registry_Reading now (RegistryEvent_Read rs)))"
| input: "stored_registry db waiting g \<Longrightarrow> input_hashes_ok i \<Longrightarrow> registry_step g (now, i) = (g', actions) \<Longrightarrow>
    stored_registry db (waiting @ save_batches actions) g'"
| saved: "stored_registry db (batch # waiting) g \<Longrightarrow> save_torrents db batch = Some db' \<Longrightarrow> stored_registry db' waiting g"
| failed: "stored_registry db (batch # waiting) g \<Longrightarrow> stored_registry db waiting g"

definition table_inv :: "torrent_row list \<Rightarrow> bool" where
  "table_inv rows \<longleftrightarrow>
     distinct (map col_id rows) \<and> hashes_agree rows \<and>
     (\<forall>q \<in> set rows. col_id q < 2 ^ 63 \<and> is_none_or hash_valid (col_hash q))"

definition loaded_inv :: "torrent_row list \<Rightarrow> torrent_record list list \<Rightarrow> records \<Rightarrow> bool" where
  "loaded_inv rows waiting r \<longleftrightarrow>
     records_ok r \<and> hashes_owned r \<and> (\<forall>h. bt_get (records_by_hash r) h \<noteq> None \<longrightarrow> hash_valid h) \<and>
     (\<forall>x \<in> set (concat waiting). \<forall>h. record_hash x = Some h \<longrightarrow> bt_get (records_by_hash r) h = Some (record_id x)) \<and>
     (\<forall>q \<in> set rows. \<forall>h. col_hash q = Some h \<longrightarrow>
        (\<exists>i. bt_get (records_by_hash r) h = Some i \<and> integer i = col_id q))"

fun stored_inv :: "database \<Rightarrow> torrent_record list list \<Rightarrow> registry \<Rightarrow> bool" where
  "stored_inv db waiting (Registry_Loaded r) \<longleftrightarrow> table_inv (db_torrents db) \<and> loaded_inv (db_torrents db) waiting r"
| "stored_inv db waiting _ \<longleftrightarrow> table_inv (db_torrents db) \<and> waiting = []"

lemma row_of_columns [simp]:
  "col_hash (torrent_row_of x) = record_hash x" "col_id (torrent_row_of x) = integer (record_id x)"
  by (simp_all add: torrent_row_of_def record_hash_def Let_def)

lemma integer_small: "integer c < 2 ^ 63"
  by (simp add: integer_def)

lemma table_inv_of: "stored_inv db waiting g \<Longrightarrow> table_inv (db_torrents db)"
  by (cases g) simp_all

text \<open>The batch that is saved next agrees with the table.\<close>

lemma next_row_indexed:
  assumes "loaded_inv rows (batch # waiting) r" and "q \<in> set (map torrent_row_of batch @ rows)" and "col_hash q = Some h"
  shows "\<exists>i. bt_get (records_by_hash r) h = Some i \<and> integer i = col_id q"
proof (cases "q \<in> set rows")
  case False
  then obtain x where "x \<in> set batch" "q = torrent_row_of x" using assms(2) by auto
  then have "bt_get (records_by_hash r) h = Some (record_id x)" "col_id q = integer (record_id x)"
    using assms(1,3) by (simp_all add: loaded_inv_def)
  then show ?thesis by auto
qed (use assms in \<open>auto simp: loaded_inv_def\<close>)

lemma next_batch_agrees: "loaded_inv rows (batch # waiting) r \<Longrightarrow> hashes_agree (map torrent_row_of batch @ rows)"
  unfolding hashes_agree_def by (metis next_row_indexed not_None_eq option.inject)

lemma saved_inv:
  assumes "table_inv rows" and "loaded_inv rows (batch # waiting) r"
  defines "rows' \<equiv> fold replace_torrent (map torrent_row_of batch) rows"
  shows "table_inv rows' \<and> loaded_inv rows' waiting r"
proof -
  have agree: "hashes_agree (map torrent_row_of batch @ rows)" by (rule next_batch_agrees [OF assms(2)])
  have "distinct (map col_id rows)" using assms(1) by (simp add: table_inv_def)
  note new = replace_torrents [OF agree this, folded rows'_def]
  have "hashes_agree rows'" using agree by (rule hashes_agree_mono) (use new in auto)
  moreover have "is_none_or hash_valid (record_hash x)" if "x \<in> set batch" for x
    using assms(2) that by (cases "record_hash x") (auto simp: loaded_inv_def)
  then have "col_id q < 2 ^ 63 \<and> is_none_or hash_valid (col_hash q)" if "q \<in> set rows'" for q
    using that new assms(1) integer_small by (auto simp: table_inv_def)
  moreover have "\<exists>i. bt_get (records_by_hash r) h = Some i \<and> integer i = col_id q"
    if "q \<in> set rows'" "col_hash q = Some h" for q h
    using next_row_indexed [OF assms(2) _ that(2)] that(1) new by auto
  then have "loaded_inv rows' waiting r" using assms(2) by (simp add: loaded_inv_def)
  ultimately show ?thesis using new by (simp add: table_inv_def)
qed

lemma record_of_hash:
  "torrent_record_of q = Some x \<Longrightarrow> read_optional torrent_hash_parse (col_hash q) = Some (record_hash x)"
  by (auto simp: torrent_record_of_def bind_eq_Some_conv record_hash_def dest!: identity_new_parts)

lemma integer_of_column: "col_id q < 2 ^ 63 \<Longrightarrow> col_id q = uint (record_id x) \<Longrightarrow> integer (record_id x) = col_id q"
  by (simp add: integer_def)

text \<open>A registry that starts from the table owns its hashes.\<close>

lemma start_inv:
  assumes "table_inv (db_torrents db)" and "read_registry db = Some (RegistryEvent_Read rs)"
  shows "loaded_inv (db_torrents db) [] (records_new rs)"
proof -
  have rs: "x \<in> set rs \<longleftrightarrow> (\<exists>q \<in> set (db_torrents db). torrent_record_of q = Some x)" for x
    using assms(2) by (force simp: read_registry_def collect_options_map list_all_iff)
  have row_of: thesis if "x \<in> set rs" "\<And>q. q \<in> set (db_torrents db) \<Longrightarrow> torrent_record_of q = Some x \<Longrightarrow> thesis" for x thesis
    using that rs by blast
  have column: "col_hash q = record_hash x" "uint (record_id x) = col_id q" "integer (record_id x) = col_id q"
    if "q \<in> set (db_torrents db)" "torrent_record_of q = Some x" for q x
  proof -
    show "col_hash q = record_hash x"
      using record_of_hash [OF that(2)] assms(1) that(1) by (cases "col_hash q") (auto simp: table_inv_def hash_valid_def)
    show "uint (record_id x) = col_id q" using record_of_id [OF that(2)] by (rule sym)
    have "col_id q < 2 ^ 63" using assms(1) that(1) by (simp add: table_inv_def)
    then show "integer (record_id x) = col_id q" by (rule integer_of_column) (rule record_of_id [OF that(2)])
  qed
  have index: "bt_get (records_by_hash (records_new rs)) h = Some (record_id x)"
    if x: "x \<in> set rs" "record_hash x = Some h" for x h
  proof -
    have "bt_get (records_by_hash (records_new rs)) h \<noteq> None"
      using index_covers [of x rs "\<lambda>r. identity_hash (record_identity r)" h record_id] x
      by (simp add: records_new_def record_hash_def)
    then obtain j where j: "bt_get (records_by_hash (records_new rs)) h = Some j" by auto
    then obtain y where y: "y \<in> set rs" "record_hash y = Some h" "record_id y = j"
      by (auto simp: records_new_def set_map_filter_iff record_hash_def dest!: bt_get_collect_Some)
    obtain p where p: "p \<in> set (db_torrents db)" "torrent_record_of p = Some x" by (rule row_of [OF x(1)])
    obtain q where q: "q \<in> set (db_torrents db)" "torrent_record_of q = Some y" by (rule row_of [OF y(1)])
    have "col_hash p = Some h" "col_hash q = Some h" using column(1) [OF p] column(1) [OF q] x(2) y(2) by simp_all
    then have "col_id q = col_id p" using assms(1) p(1) q(1)
      unfolding table_inv_def hashes_agree_def by (metis option.distinct(1))
    then have "uint (record_id x) = uint (record_id y)" using column(2) [OF p] column(2) [OF q] by simp
    with j y(3) show ?thesis by (simp add: word_uint_eq_iff)
  qed
  have "hashes_owned (records_new rs)"
    unfolding hashes_owned_def using index records_new_row by blast
  moreover have "hash_valid h" if "bt_get (records_by_hash (records_new rs)) h \<noteq> None" for h
  proof -
    from that obtain x where "x \<in> set rs" "record_hash x = Some h"
      by (auto simp: records_new_def set_map_filter_iff record_hash_def dest!: bt_get_collect_Some)
    moreover obtain q where "q \<in> set (db_torrents db)" "torrent_record_of q = Some x" by (rule row_of [OF calculation(1)])
    ultimately have "q \<in> set (db_torrents db)" "col_hash q = Some h" using column(1) by simp_all
    then have "is_none_or hash_valid (Some h)" using assms(1) unfolding table_inv_def by metis
    then show ?thesis by simp
  qed
  moreover have "\<exists>i. bt_get (records_by_hash (records_new rs)) h = Some i \<and> integer i = col_id q"
    if q: "q \<in> set (db_torrents db)" "col_hash q = Some h" for q h
  proof -
    have "torrent_record_of q \<noteq> None"
      using assms(2) q(1) by (auto simp: read_registry_def collect_options_map list_all_iff)
    then obtain x where "torrent_record_of q = Some x" by auto
    moreover have "x \<in> set rs" using q(1) calculation unfolding rs by blast
    ultimately show ?thesis using column(1,3) [OF q(1), of x] index [of x h] q(2) by simp
  qed
  ultimately show ?thesis by (simp add: loaded_inv_def records_new_ok)
qed

lemma batch_in_actions: "x \<in> set (concat (save_batches actions)) \<Longrightarrow> \<exists>batch. Action_SaveTorrents batch \<in> set actions \<and> x \<in> set batch"
  by (auto simp: save_batches_def set_map_filter_iff elim!: save_batch.elims)

lemma unloaded_step:
  assumes "\<And>r. g \<noteq> Registry_Loaded r" and "input_hashes_ok i" and "registry_step g (now, i) = (g', actions)"
  shows "save_batches actions = []" and "\<And>r. g' \<noteq> Registry_Loaded r"
  using assms
  by (cases i; cases g; auto simp: registry_handle_def registry_observe_def registry_command_def registry_update_def
      save_batches_def List.map_filter_def split: registry_event.splits)+

lemma input_inv:
  assumes "stored_inv db waiting g" and "input_hashes_ok i" and "registry_step g (now, i) = (g', actions)"
  shows "stored_inv db (waiting @ save_batches actions) g'"
proof (cases g)
  case (Registry_Loaded r)
  then have inv: "table_inv (db_torrents db)" "loaded_inv (db_torrents db) waiting r" using assms(1) by simp_all
  then have ok: "hashes_owned r" "records_ok r" by (simp_all add: loaded_inv_def)
  from registry_step_hashes [OF ok assms(2), of now] assms(3) Registry_Loaded obtain r' where
    g': "g' = Registry_Loaded r'" and grows: "hash_grows r r'"
    and sends: "\<And>batch x. Action_SaveTorrents batch \<in> set actions \<Longrightarrow> x \<in> set batch \<Longrightarrow> records_row r' (record_id x) = Some x"
    by (auto simp: hash_step_def)
  have "records_ok r'"
    using registry_step_keeps [of g now i] assms(3) g' ok(2) Registry_Loaded by (simp add: registry_step_ok_def)
  moreover have "bt_get (records_by_hash r') h = Some (record_id x)"
    if x: "x \<in> set (concat (waiting @ save_batches actions))" "record_hash x = Some h" for x h
  proof (cases "x \<in> set (concat waiting)")
    case True
    then have "bt_get (records_by_hash r) h = Some (record_id x)" using inv(2) x(2) unfolding loaded_inv_def by blast
    then show ?thesis using grows by (simp add: hash_grows_def)
  next
    case False
    then have "x \<in> set (concat (save_batches actions))" using x(1) by simp
    then have "records_row r' (record_id x) = Some x" using batch_in_actions sends by blast
    then show ?thesis using grows x(2) by (simp add: hash_grows_def hashes_owned_def)
  qed
  moreover have "\<exists>j. bt_get (records_by_hash r') h = Some j \<and> integer j = col_id q"
    if "q \<in> set (db_torrents db)" "col_hash q = Some h" for q h
    using inv(2) grows that unfolding loaded_inv_def hash_grows_def by metis
  moreover have "hash_valid h" if "bt_get (records_by_hash r') h \<noteq> None" for h
    using inv(2) grows that unfolding loaded_inv_def hash_grows_def by metis
  moreover have "hashes_owned r'" using grows by (simp add: hash_grows_def)
  ultimately have "loaded_inv (db_torrents db) (waiting @ save_batches actions) r'" unfolding loaded_inv_def by blast
  then show ?thesis using inv(1) g' by simp
qed (use assms(1) unloaded_step [OF _ assms(2,3)] in \<open>cases g'; auto\<close>)+

lemma stored_registry_inv: "stored_registry db waiting g \<Longrightarrow> stored_inv db waiting g"
proof (induction rule: stored_registry.induct)
  case fresh
  then show ?case by (simp add: table_inv_def database_new_def hashes_agree_def)
next
  case (start db waiting g rs now)
  then show ?case using start_inv table_inv_of by (simp add: registry_handle_def)
next
  case (input db waiting g i now g' actions)
  then show ?case using input_inv by blast
next
  case (saved db batch waiting g db')
  have "db_torrents db' = fold replace_torrent (map torrent_row_of batch) (db_torrents db)"
    using saved.hyps(2) by (auto simp: save_torrents_def Let_def split: if_splits)
  then show ?case using saved.IH saved_inv by (cases g) auto
next
  case (failed db batch waiting g)
  then show ?case by (cases g) (auto simp: loaded_inv_def)
qed

subsection \<open>Properties\<close>

text \<open>
  C27. No saved torrent is lost: from the first start on, through any inputs, failed saves and
  restarts, a batch the registry saves replaces rows of its own ids only; every other stored row stays
  as it is, although the table lets a row with the same hash be replaced.
\<close>

theorem saves_replace_only_their_own_rows:
  assumes "stored_registry db (batch # waiting) g" and "save_torrents db batch = Some db'" and "q \<in> set (db_torrents db)"
  shows "\<exists>q' \<in> set (db_torrents db'). col_id q' = col_id q \<and> (q' = q \<or> q' \<in> torrent_row_of ` set batch)"
proof -
  from stored_registry_inv [OF assms(1)] obtain r where inv: "table_inv (db_torrents db)" "loaded_inv (db_torrents db) (batch # waiting) r"
    by (cases g) auto
  define rows where "rows = fold replace_torrent (map torrent_row_of batch) (db_torrents db)"
  have db': "db_torrents db' = rows"
    using assms(2) by (auto simp: save_torrents_def rows_def Let_def split: if_splits)
  have distinct: "distinct (map col_id (db_torrents db))" using inv(1) by (simp add: table_inv_def)
  note new = replace_torrents [OF next_batch_agrees [OF inv(2)] distinct, folded rows_def]
  have "table_map (db_torrents db) (col_id q) = Some q"
    unfolding table_map_def using assms(3) distinct by (intro map_of_is_SomeI) (auto simp: o_def)
  then obtain q' where q': "table_map rows (col_id q) = Some q'"
      "q' = q \<or> table_map (rev (map torrent_row_of batch)) (col_id q) = Some q'"
    using new by (cases "table_map (rev (map torrent_row_of batch)) (col_id q)") (auto simp: map_add_def)
  have member: "x \<in> set xs \<and> col_id x = k" if "table_map xs k = Some x" for xs k x
    using map_of_SomeD [OF that [unfolded table_map_def]] by auto
  show ?thesis using member [OF q'(1)] q'(2) member db' by fastforce
qed

definition bookmark_row :: "record_id \<Rightarrow> mam_torrent_id \<Rightarrow> torrent_record" where
  "bookmark_row i mam =
     \<lparr>record_id = i, record_identity = Identity_Mam mam, record_origin = Origin_Bookmark, record_desired = Desired_Queued,
      record_save_path = None, record_deletion = ContentDeletion_NotAllowed, record_observation = None\<rparr>"

definition bookmark_entry :: "record_id \<Rightarrow> mam_torrent_id \<Rightarrow> entry" where
  "bookmark_entry i mam = (entry_new (bookmark_row i mam))\<lparr>entry_saved_at := Some 0, entry_counters := Counters_Saved\<rparr>"

text \<open>Two bookmarks, one after the other: the registry after the first batch is sent.\<close>

definition one_bookmark :: "record_id set option \<Rightarrow> records" where
  "one_bookmark saving =
     \<lparr>records_entries = [(1, bookmark_entry 1 7)], records_by_hash = [], records_by_mam = [(7, 1)], records_next_id = 2,
      records_unsaved = {}, records_saving = saving, records_last_save = LastSave_Saved, records_last_command = None\<rparr>"

theorem saves_replace_only_their_own_rows_witness:
  "torrent_row_of (bookmark_row 1 7) \<in> set (db_torrents (the (save_torrents
     (database_new\<lparr>db_torrents := [torrent_row_of (bookmark_row 1 7)]\<rparr>) [bookmark_row 2 8])))"
proof -
  let ?now = "\<lparr>monotonic = 0, wall = 0\<rparr> :: clock_reading"
  let ?db = "database_new\<lparr>db_torrents := [torrent_row_of (bookmark_row 1 7)]\<rparr>"
  have allowed: "save_torrents db [x] = Some (db\<lparr>db_torrents := replace_torrent (torrent_row_of x) (db_torrents db)\<rparr>)" for db x
    by (simp add: save_torrents_def row_of_allowed)
  note batches = save_batches_def List.map_filter_def
  have s0: "stored_registry database_new [] (Registry_Loaded (records_new []))"
    using start [OF fresh, of "[]" 0] by (simp add: registry_handle_def read_registry_def database_new_def)
  have s1: "registry_step (Registry_Loaded (records_new [])) (?now, RegistryInput_Bookmarked [(7, Desired_Queued)]) =
      (Registry_Loaded (one_bookmark (Some {1})), [Action_SaveTorrents [bookmark_row 1 7]])"
    by (simp add: registry_update_def registry_with_def records_bookmarked_def records_bookmark_one_def records_allocate_def
        records_save_def records_new_def one_bookmark_def bookmark_entry_def bookmark_row_def entry_new_def bt_get_def
        bt_collect_def bt_map_def record_id_after_def sat_add_def List.map_filter_def Let_def)
  have "stored_registry database_new [[bookmark_row 1 7]] (Registry_Loaded (one_bookmark (Some {1})))"
    using input [OF s0 _ s1] by (simp add: batches)
  then have s2: "stored_registry ?db [] (Registry_Loaded (one_bookmark (Some {1})))"
    by (rule saved) (simp add: allowed replace_torrent_def database_new_def)
  have s3: "registry_step (Registry_Loaded (one_bookmark (Some {1}))) (?now, RegistryInput_Event RegistryEvent_Saved) =
      (Registry_Loaded (one_bookmark None), [])"
    by (simp add: registry_handle_def registry_with_def records_save_def one_bookmark_def)
  have s4: "stored_registry ?db [] (Registry_Loaded (one_bookmark None))"
    using input [OF s2 _ s3] by (simp add: batches)
  have s5: "snd (registry_step (Registry_Loaded (one_bookmark None)) (?now, RegistryInput_Bookmarked [(8, Desired_Queued)])) =
      [Action_SaveTorrents [bookmark_row 2 8]]"
    by (simp add: registry_update_def registry_with_def records_bookmarked_def records_bookmark_one_def records_allocate_def
        records_save_def one_bookmark_def bookmark_row_def entry_new_def bt_get_def bt_map_def List.map_filter_def Let_def)
  have "stored_registry ?db [[bookmark_row 2 8]]
      (fst (registry_step (Registry_Loaded (one_bookmark None)) (?now, RegistryInput_Bookmarked [(8, Desired_Queued)])))"
    using input [OF s4 _ prod.collapse [symmetric], of "RegistryInput_Bookmarked [(8, Desired_Queued)]" ?now] s5
    by (simp add: batches del: registry_step.simps)
  from saves_replace_only_their_own_rows [OF this allowed, of "torrent_row_of (bookmark_row 1 7)"]
  show ?thesis by (auto simp: allowed bookmark_row_def integer_def)
qed

end
