(* ===== verification/Spec2Isabelle.thy ===== *)
theory Spec2Isabelle
  imports History_Record Progress History_Text History_Links Notice_Conditions Durability Registry_Storage
begin

text \<open>
  \<^bold>\<open>Windlass\<close> keeps a qBittorrent client, a VPN tunnel with a forwarded port and an account at a private
  tracker (MAM) in line with what its owner wants. The program is a \<^emph>\<open>core\<close>, a pure state machine
  (\<open>src/src/core/\<close>), and a \<^emph>\<open>shell\<close> (\<open>src/src/shell/\<close>, \<open>src/src/runner.rs\<close>) that carries out the core's
  actions and brings back events. This development models both, from the bytes of a NAT-PMP answer and the
  fields of a JSON document up to the event loop with all its interleavings, and proves what makes them
  correct.

  \<^bold>\<open>How the parts interact.\<close> \<open>Core::handle\<close> takes one event at one clock reading and returns actions. The
  runner records the event and its actions in history and dispatches each action: storage, a request to
  MAM, qBittorrent, the gateway, the exit-address service or the push service as a task; a timer; or a
  command of the history writer. Every result comes back as an event through one bounded queue, which the
  dashboard and the console also feed. Nothing else is shared.

  \<^bold>\<open>Conventions.\<close> \<open>E::V\<close> of an enum is the constructor \<open>E_V\<close>, \<open>s.f\<close> of a struct the selector \<open>s_f\<close>, \<open>T::m\<close> the
  function \<open>t_m\<close>; a method on \<open>&mut self\<close> returns the new state first. Integers keep their width (\<open>u64\<close> is
  \<open>64 word\<close>), with saturating and checked operations as in the sources; durations and instants are
  nanoseconds in the range of Rust's types. A panic is \<open>None\<close>, \<open>Err\<close> is \<open>Inl\<close>, \<open>Ok\<close> is \<open>Inr\<close>. A \<open>BTreeMap\<close> is a
  sorted association list (Ordered_Map, the locale \<open>ordered_map\<close>).

  \<^bold>\<open>Theories and sources.\<close>

  \<^item> Prelude, Ordered_Map, Rust_Text, Floating, Json, Ip_Text: what the sources use of Rust's library (integers,
    \<open>Option\<close>, \<open>BTreeMap\<close>, text, \<open>f64\<close>, \<open>IpAddr\<close>) and of \<open>serde\<close>; and the locales \<open>invariant_machine\<close>,
    \<open>single_flight\<close> (requests and answers balance) and \<open>spaced_events\<close> (events keep a distance in time).
  \<^item> Clock, Actions, Settings_Values, Client_Values, Mam_Values, Client_Parsing: the values of \<open>core/mod.rs\<close>,
    \<open>timer.rs\<close>, \<open>failures.rs\<close>, \<open>settings.rs\<close>, \<open>qbittorrent.rs\<close>, \<open>registry.rs\<close> and \<open>mam/api.rs\<close>.
  \<^item> Persistence: the locale \<open>saved_value\<close>, the contract of a value with one write in flight; interpreted in
    Startup (\<open>startup.rs\<close>, \<open>mam_pause.rs\<close>) and Settings (\<open>settings.rs\<close>).
  \<^item> History, Port_Forwarding, Tunnel, Qbittorrent, Registry: the components of the same names, each with its
    state, its operations, its invariant and, as interpretations of the locales above, one request at a time.
  \<^item> Mam_Budget, Ratio_Guard, Mam_Network, Connectability, Mam_Account, Mam_Acquisition, Mam: \<open>core/mam/\<close>.
  \<^item> Notifications, Notice_Conditions, Notice_Delivery: \<open>core/notifications.rs\<close>, its conditions, log and outbox.
  \<^item> Core: \<open>core/machine.rs\<close>. Ownership, Core_Traffic, Core_Safety, Core_Commands: the machine over whole runs;
    \<open>core_traffic\<close> is what a kind of request owes to each operation of the machine, interpreted for six kinds.
  \<^item> Storage, Storage_Laws, Durability, Registry_Storage: \<open>shell/storage.rs\<close>, that what is written is read, and
    that the database refines a plain memory of the values last saved, across restarts and failures.
  \<^item> Nat_Pmp, Torrent_File, Client_Replies, Mam_Reply, Mam_Client, Services: \<open>shell/natpmp.rs\<close>, \<open>torrent_file.rs\<close>,
    \<open>qbittorrent.rs\<close>, \<open>mam_reply.rs\<close>, \<open>mam.rs\<close>, \<open>tunnel.rs\<close> and \<open>notify.rs\<close>.
  \<^item> History_Log, History_Count, History_Record: \<open>shell/history.rs\<close>, its count against the core's, and its rows
    against the events that were handled.
  \<^item> Event_Loop, Program, Progress: \<open>shell/mod.rs\<close>, \<open>shell/ingress.rs\<close> and \<open>runner.rs\<close>. \<open>shell_step\<close> is one step of a
    producer, a task, a timer or the history writer, \<open>runner_turn\<close> one turn of the runner, \<open>loop_reach\<close> the states
    reached by any sequence of them. The locale \<open>service\<close> extends \<open>core_traffic\<close> by the work the shell spawns and is
    interpreted for MAM, qBittorrent, the gateway, the exit-address checks and the pushes.
  \<^item> Dashboard: \<open>shell/web/guard.rs\<close>, the routes and forms of \<open>shell/web/mod.rs\<close>, \<open>shell/console.rs\<close>.
    History_Links: the links between the pages of history (\<open>shell/web/pages.rs\<close>) and the requests they make.
  \<^item> Describe, Notice_Text, History_Text: \<open>shell/describe.rs\<close> and the messages of \<open>shell/notify.rs\<close>, the words for
    values, notices, events and actions; and the columns \<open>shell/history.rs\<close> stores.

  \<^bold>\<open>What is shown.\<close> Of the core: MAM is contacted only while requests run and the tunnel is protected; nothing is
  removed before it has seeded long enough, and nothing set running without permission; servers change and
  seedboxes register an hour apart; the request rate is bounded; the ratio guard, the purchases, admissions and
  wedges follow their rules; a pause applies at once and lasts. Of the program: it runs the machine over the queued
  events in order, panics on nothing, has one request per service under way, stops only when all work is done, and
  is never blocked by its bounded queue. Of the shell: what was saved is restored, history is a faithful record
  that keeps no secret and whose links reach every entry, answers fit their requests, cookies go only where they are needed, other sites cannot submit forms. Each property
  is named C1 to C40 in the theory that holds it.

  \<^bold>\<open>Bounds and fuel.\<close> The bencode parser takes the number of bytes left as fuel and 33 levels of nesting, as the
  source does; C40 shows that more fuel never changes its result. The connection epoch of MAM work wraps after
  \<open>2 ^ 64\<close> events, and a theorem on it asks for fewer than \<open>2 ^ 62\<close>; the count of history rows asks for fewer than
  \<open>2 ^ 64\<close>. Properties that add an hour to a calendar time ask for times to which it can be added
  (\<open>machine_input_ok\<close>).

  \<^bold>\<open>Parameters.\<close> Code outside the sources is an argument: whether SQLite completes an operation, what an HTTP call
  or a datagram brings, the parser of JSON text, the reader and the writer of calendar times,
  the JSON text of a value, the decoder of a query string, SHA-1, whether a unit starts, and
  the clock readings. No property assumes anything of them beyond what its statement says.

  \<^bold>\<open>Not modelled.\<close> The rendering of pages as HTML (\<open>shell/web/pages.rs\<close> but for \<open>Location\<close> and the links of history,
  and \<open>mam_pages.rs\<close>), which only formats what the core holds;
  the command line, sockets and signals of \<open>main.rs\<close>; the observations the runner publishes for the pages and the
  texts of storage errors; a worker that panics; and the proof of concept under \<open>src/POC/\<close>, which the program does
  not build.
\<close>

end
